(* ===== verification/Prelude.thy ===== *)
theory Prelude
  imports Main "HOL-Library.Word" "HOL-Library.Monad_Syntax"
begin

text \<open>
  What every component shares: the machine integers of the Rust sources, their checked
  operations, the reading of a panic as \<^term>\<open>None\<close>, and the sums over time-stamped
  charges that the budget theories reason with.

  \<^item> \<open>u64\<close> and \<open>u32\<close> are words of HOL-Library.Word, so \<open>+\<close> and \<open>-\<close> wrap as they do in the
    release profile (\<open>Cargo.toml\<close> sets no \<open>overflow-checks\<close>).
  \<^item> A function that may panic returns an \<open>option\<close>; \<^term>\<open>None\<close> is the panic. The release profile
    sets \<open>panic = "abort"\<close>, so nothing runs after it.
  \<^item> A \<open>Result<T, E>\<close> is a sum, with \<^term>\<open>Inl\<close> for \<open>Err\<close>.
\<close>

type_synonym u64 = "64 word"
type_synonym u32 = "32 word"

named_theorems budget_simps \<open>unfolding rules of the requote budget\<close>
named_theorems reducer_simps \<open>unfolding rules of the quote reducers\<close>

section \<open>Checked arithmetic\<close>

definition checked_add :: "u64 \<Rightarrow> u64 \<Rightarrow> u64 option" where
  "checked_add a b = (if unat a + unat b < 2 ^ 64 then Some (a + b) else None)"

definition checked_mul :: "u64 \<Rightarrow> u64 \<Rightarrow> u64 option" where
  "checked_mul a b = (if unat a * unat b < 2 ^ 64 then Some (a * b) else None)"

lemma checked_add_Some_iff:
  "checked_add a b = Some c \<longleftrightarrow> unat a + unat b < 2 ^ 64 \<and> c = a + b"
  by (auto simp: checked_add_def)

lemma checked_add_None_iff:
  "checked_add a b = None \<longleftrightarrow> 2 ^ 64 \<le> unat a + unat b"
  by (auto simp: checked_add_def)

lemma unat_checked_add:
  "checked_add a b = Some c \<Longrightarrow> unat c = unat a + unat b"
  by (auto simp: checked_add_Some_iff unat_word_ariths)

lemma checked_add_fits:
  "unat a + unat b < 2 ^ 64 \<Longrightarrow> checked_add a b = Some (a + b)"
  by (simp add: checked_add_def)

lemma unat_checked_mul:
  "checked_mul a b = Some c \<Longrightarrow> unat c = unat a * unat b"
  by (auto simp: checked_mul_def unat_word_ariths split: if_splits)

lemma unat_u64_bound [simp]: "unat (a :: u64) < 18446744073709551616"
  using unsigned_less [of a] by simp

lemma unat_sub_le: "b \<le> a \<Longrightarrow> unat (a - b :: u64) = unat a - unat b"
  by (rule unat_sub)

lemma unat_max_u64: "unat (- 1 :: u64) = 18446744073709551615"
  by (simp add: unsigned_minus_1_eq_mask mask_eq_exp_minus_1)

lemma checked_add_one: "checked_add x 1 = (if x = - 1 then None else Some (x + 1))"
proof (cases "x = - 1")
  case True
  then show ?thesis by (simp add: checked_add_def unat_max_u64)
next
  case False
  then have "unat x \<noteq> 18446744073709551615" by (metis unat_max_u64 word_unat_eq_iff)
  moreover have "unat x < 18446744073709551616" by (rule unat_u64_bound)
  ultimately have "unat x < 18446744073709551615" by linarith
  then show ?thesis using False by (simp add: checked_add_def)
qed

section \<open>Sums over time-stamped charges\<close>

text \<open>
  A charge is a pair of a time and a cost. \<open>cost_in lo hi\<close> sums the charges with a time in the
  closed interval, \<open>cost_from lo\<close> those at or after \<open>lo\<close>.
\<close>

type_synonym charge = "nat \<times> nat"

definition cost_total :: "charge list \<Rightarrow> nat" where
  "cost_total L = sum_list (map snd L)"

definition cost_from :: "nat \<Rightarrow> charge list \<Rightarrow> nat" where
  "cost_from lo L = cost_total (filter (\<lambda>(t, c). lo \<le> t) L)"

definition cost_in :: "nat \<Rightarrow> nat \<Rightarrow> charge list \<Rightarrow> nat" where
  "cost_in lo hi L = cost_total (filter (\<lambda>(t, c). lo \<le> t \<and> t \<le> hi) L)"

lemma cost_total_simps [simp]:
  "cost_total [] = 0"
  "cost_total ((t, c) # L) = c + cost_total L"
  "cost_total (L @ M) = cost_total L + cost_total M"
  by (simp_all add: cost_total_def)

lemma cost_from_simps [simp]:
  "cost_from lo [] = 0"
  "cost_from lo ((t, c) # L) = (if lo \<le> t then c else 0) + cost_from lo L"
  "cost_from lo (L @ M) = cost_from lo L + cost_from lo M"
  by (simp_all add: cost_from_def)

lemma cost_in_simps [simp]:
  "cost_in lo hi [] = 0"
  "cost_in lo hi ((t, c) # L) = (if lo \<le> t \<and> t \<le> hi then c else 0) + cost_in lo hi L"
  "cost_in lo hi (L @ M) = cost_in lo hi L + cost_in lo hi M"
  by (simp_all add: cost_in_def)

lemma cost_in_le_from: "lo' \<le> lo \<Longrightarrow> cost_in lo hi L \<le> cost_from lo' L"
  by (induction L) auto

lemma cost_from_le_total: "cost_from lo L \<le> cost_total L"
  by (induction L) auto

lemma cost_from_0 [simp]: "cost_from 0 L = cost_total L"
  by (induction L) auto

lemma cost_from_none: "(\<And>t c. (t, c) \<in> set L \<Longrightarrow> t < lo) \<Longrightarrow> cost_from lo L = 0"
proof (induction L)
  case (Cons p L)
  then have "fst p < lo" by (cases p) auto
  moreover have "cost_from lo L = 0" using Cons by auto
  ultimately show ?case by (cases p) auto
qed simp

lemma cost_from_all: "(\<And>t c. (t, c) \<in> set L \<Longrightarrow> lo \<le> t) \<Longrightarrow> cost_from lo L = cost_total L"
proof (induction L)
  case (Cons p L)
  then have "lo \<le> fst p" by (cases p) auto
  moreover have "cost_from lo L = cost_total L" using Cons by auto
  ultimately show ?case by (cases p) auto
qed simp

lemma cost_in_all:
  "(\<And>t c. (t, c) \<in> set L \<Longrightarrow> t \<le> hi) \<Longrightarrow> cost_in lo hi L = cost_from lo L"
proof (induction L)
  case (Cons p L)
  then have "fst p \<le> hi" by (cases p) auto
  moreover have "cost_in lo hi L = cost_from lo L" using Cons by auto
  ultimately show ?case by (cases p) auto
qed simp

lemma cost_from_dropWhile:
  "cost_from lo (dropWhile (\<lambda>(t, c). t < lo') L) = cost_from lo L" if "lo' \<le> lo"
  using that by (induction L) auto

section \<open>Folds that may stop\<close>

text \<open>\<open>Iterator::try_fold\<close> with a checked sum, as the ledgers use it.\<close>

fun try_sum :: "u64 \<Rightarrow> u64 list \<Rightarrow> u64 option" where
  "try_sum acc [] = Some acc"
| "try_sum acc (x # xs) = (case checked_add acc x of None \<Rightarrow> None | Some acc' \<Rightarrow> try_sum acc' xs)"

lemma try_sum_Some:
  "try_sum acc xs = Some r \<Longrightarrow> unat r = unat acc + sum_list (map unat xs)"
  by (induction xs arbitrary: acc) (auto split: option.splits dest: unat_checked_add)

lemma try_sum_fits:
  "unat acc + sum_list (map unat xs) < 2 ^ 64 \<Longrightarrow> \<exists>r. try_sum acc xs = Some r"
proof (induction xs arbitrary: acc)
  case (Cons x xs)
  then have fit: "unat acc + unat x < 2 ^ 64" by simp
  then have "unat (acc + x) = unat acc + unat x"
    by (metis checked_add_fits unat_checked_add)
  then have "\<exists>r. try_sum (acc + x) xs = Some r"
    using Cons by simp
  then show ?case by (simp add: checked_add_fits [OF fit])
qed simp

end
