(* ===== verification/RustStr.thy ===== *)
theory RustStr
  imports Prelude
begin

text \<open>
  The parts of Rust's \<open>str\<close> that the components use. A \<open>str\<close> is its UTF-8 bytes, a \<open>string\<close>
  here (a character of HOL is a byte). Splitting at an ASCII character and parsing digits work
  on bytes; \<open>trim\<close> strips the encodings of the Unicode \<open>White_Space\<close> characters.
\<close>

section \<open>Splitting\<close>

text \<open>\<open>str::split_once\<close> with an ASCII character: at the first occurrence.\<close>

fun split_once :: "char \<Rightarrow> string \<Rightarrow> (string \<times> string) option" where
  "split_once d [] = None"
| "split_once d (c # cs) =
     (if c = d then Some ([], cs)
      else map_option (\<lambda>(a, b). (c # a, b)) (split_once d cs))"

text \<open>\<open>str::split\<close> with an ASCII character: always at least one piece.\<close>

fun split_on :: "char \<Rightarrow> string \<Rightarrow> string list" where
  "split_on d [] = [[]]"
| "split_on d (c # cs) =
     (if c = d then [] # split_on d cs
      else case split_on d cs of
          [] \<Rightarrow> [[c]]
        | p # ps \<Rightarrow> (c # p) # ps)"

lemma split_on_nonempty: "split_on d cs \<noteq> []"
  by (induction cs) (auto split: list.splits)

lemma split_on_free: "d \<notin> set cs \<Longrightarrow> split_on d cs = [cs]"
  by (induction cs) auto

lemma split_on_sep: "d \<notin> set a \<Longrightarrow> split_on d (a @ d # b) = a # split_on d b"
  by (induction a) auto

lemma split_once_sep: "d \<notin> set a \<Longrightarrow> split_once d (a @ d # b) = Some (a, b)"
  by (induction a) auto

lemma split_once_Some: "split_once d s = Some (a, b) \<Longrightarrow> s = a @ d # b \<and> d \<notin> set a"
proof (induction s arbitrary: a)
  case (Cons c cs)
  then show ?case by (auto split: if_splits)
qed simp

section \<open>Parsing unsigned integers\<close>

datatype ParseIntError = PosEmpty | InvalidDigit | PosOverflow

definition to_digit :: "char \<Rightarrow> nat option" where
  "to_digit c = (let n = (of_char c :: nat) in if 48 \<le> n \<and> n \<le> 57 then Some (n - 48) else None)"

text \<open>
  The loop of \<open>u64::from_str\<close>: the invalid digit is reported before the overflow of the same
  step, as in the standard library.
\<close>

fun parse_digits :: "u64 \<Rightarrow> string \<Rightarrow> ParseIntError + u64" where
  "parse_digits acc [] = Inr acc"
| "parse_digits acc (c # cs) =
     (case to_digit c of
        None \<Rightarrow> Inl InvalidDigit
      | Some d \<Rightarrow>
          (case checked_mul acc 10 of
             None \<Rightarrow> Inl PosOverflow
           | Some m \<Rightarrow>
               (case checked_add m (of_nat d) of
                  None \<Rightarrow> Inl PosOverflow
                | Some acc' \<Rightarrow> parse_digits acc' cs)))"

definition parse_u64 :: "string \<Rightarrow> ParseIntError + u64" where
  "parse_u64 s =
     (case s of
        [] \<Rightarrow> Inl PosEmpty
      | c # cs \<Rightarrow>
          if cs = [] \<and> (c = CHR ''+'' \<or> c = CHR ''-'') then Inl InvalidDigit
          else if c = CHR ''+'' then parse_digits 0 cs
          else parse_digits 0 (c # cs))"

section \<open>Decimal notation\<close>

text \<open>The decimal notation of a number, the reference for the parser.\<close>

definition digit_char :: "nat \<Rightarrow> char" where
  "digit_char d = char_of (48 + d)"

fun decimal :: "nat \<Rightarrow> string" where
  "decimal n = (if n < 10 then [digit_char n] else decimal (n div 10) @ [digit_char (n mod 10)])"

declare decimal.simps [simp del]

lemma to_digit_char: "d < 10 \<Longrightarrow> to_digit (digit_char d) = Some d"
  by (simp add: to_digit_def digit_char_def of_char_of)

lemma parse_digits_snoc:
  "parse_digits acc (s @ [c]) =
     (case parse_digits acc s of Inl e \<Rightarrow> Inl e | Inr a \<Rightarrow> parse_digits a [c])"
  by (induction s arbitrary: acc) (auto split: option.splits)

lemma parse_digits_decimal:
  "n < 2 ^ 64 \<Longrightarrow> \<exists>w. parse_digits 0 (decimal n) = Inr w \<and> unat w = n"
proof (induction n rule: decimal.induct)
  case (1 n)
  show ?case
  proof (cases "n < 10")
    case True
    then have "decimal n = [digit_char n]" by (simp add: decimal.simps)
    moreover have "unat (of_nat n :: u64) = n" using True by (simp add: unat_of_nat)
    ultimately show ?thesis using True
      by (auto simp: to_digit_char checked_mul_def checked_add_def)
  next
    case False
    then obtain w where w: "parse_digits 0 (decimal (n div 10)) = Inr w" "unat w = n div 10"
      using 1 by fastforce
    have d: "unat (of_nat (n mod 10) :: u64) = n mod 10" by (simp add: unat_of_nat)
    have mul: "unat w * unat (10 :: u64) < 2 ^ 64" using w "1.prems" by simp
    then have m: "checked_mul w 10 = Some (w * 10)" by (simp only: checked_mul_def if_True)
    have um: "unat (w * 10) = n div 10 * 10" using unat_checked_mul [OF m] w by simp
    have "unat (w * 10) + unat (of_nat (n mod 10) :: u64) = n" using um d by simp
    then have a: "checked_add (w * 10) (of_nat (n mod 10)) = Some (w * 10 + of_nat (n mod 10))"
      and ua: "unat (w * 10 + of_nat (n mod 10)) = n"
      using "1.prems" checked_add_fits unat_checked_add by (metis, metis)
    have "decimal n = decimal (n div 10) @ [digit_char (n mod 10)]"
      using False by (simp add: decimal.simps [of n])
    then show ?thesis using w m a ua by (simp add: parse_digits_snoc to_digit_char)
  qed
qed

lemma decimal_digits: "c \<in> set (decimal n) \<Longrightarrow> \<exists>d < 10. c = digit_char d"
proof (induction n rule: decimal.induct)
  case (1 n)
  have "\<exists>d < 10. digit_char (n mod 10) = digit_char d" by (rule exI [of _ "n mod 10"]) simp
  with 1 show ?case by (cases "n < 10") (auto simp: decimal.simps [of n])
qed

lemma decimal_nonempty: "decimal n \<noteq> []"
  by (simp add: decimal.simps [of n])

lemma digit_char_cases:
  "d < 10 \<Longrightarrow> digit_char d \<noteq> CHR ''+'' \<and> digit_char d \<noteq> CHR ''-'' \<and> digit_char d \<noteq> CHR ''/'' \<and> digit_char d \<noteq> CHR '':''"
proof -
  assume d: "d < 10"
  have v: "of_char (digit_char d) = (48 + d :: nat)" using d by (simp add: digit_char_def of_char_of)
  have "of_char (CHR ''+'') = (43 :: nat)" "of_char (CHR ''-'') = (45 :: nat)"
    "of_char (CHR ''/'') = (47 :: nat)" "of_char (CHR '':'') = (58 :: nat)"
    by simp_all
  with v d show ?thesis by (intro conjI notI) simp_all
qed

lemma decimal_chars:
  assumes "c \<in> set (decimal n)"
  shows "c \<noteq> CHR ''+'' \<and> c \<noteq> CHR ''-'' \<and> c \<noteq> CHR ''/'' \<and> c \<noteq> CHR '':''"
proof -
  obtain d where d: "d < 10" "c = digit_char d" using decimal_digits [OF assms] by (elim exE conjE)
  show ?thesis unfolding d(2) by (rule digit_char_cases [OF d(1)])
qed

lemma decimal_free: "CHR ''/'' \<notin> set (decimal n)" "CHR '':'' \<notin> set (decimal n)"
  by (rule notI, drule decimal_chars, simp)+

lemma parse_u64_decimal:
  assumes "n < 2 ^ 64"
  shows "parse_u64 (decimal n) = Inr (of_nat n)"
proof -
  obtain c cs where c: "decimal n = c # cs" using decimal_nonempty by (cases "decimal n") auto
  have "c \<noteq> CHR ''+'' \<and> c \<noteq> CHR ''-'' \<and> c \<noteq> CHR ''/'' \<and> c \<noteq> CHR '':''"
    by (rule decimal_chars [of c n]) (simp add: c)
  then have p: "parse_u64 (c # cs) = parse_digits 0 (c # cs)"
    by (simp only: parse_u64_def list.case simp_thms if_False)
  obtain w where w: "parse_digits 0 (decimal n) = Inr w" "unat w = n"
    using parse_digits_decimal [OF assms] by blast
  have "of_nat (unat w) = w" by simp
  then have "w = of_nat n" by (simp only: w(2))
  then show ?thesis using p w(1) by (simp only: c)
qed

end
