(* ===== verification/OrderedMap.thy ===== *)
theory OrderedMap
  imports Prelude
begin

text \<open>
  \<open>std::collections::BTreeMap\<close> as the components use it: an association list in strictly
  increasing key order, so that \<open>values()\<close> visits the entries in the order the map does. The
  locale states the contract the clients rely on; the client lemmas about sums over the values
  are proved once, from the contract alone.
\<close>

section \<open>The model\<close>

type_synonym ('k, 'v) btree_map = "('k \<times> 'v) list"

definition bt_get :: "('k, 'v) btree_map \<Rightarrow> 'k \<Rightarrow> 'v option" where
  "bt_get m k = map_of m k"

fun bt_insert :: "'k::linorder \<Rightarrow> 'v \<Rightarrow> ('k, 'v) btree_map \<Rightarrow> ('k, 'v) btree_map" where
  "bt_insert k v [] = [(k, v)]"
| "bt_insert k v ((k', v') # m) =
     (if k < k' then (k, v) # (k', v') # m
      else if k = k' then (k, v) # m
      else (k', v') # bt_insert k v m)"

fun bt_remove :: "'k \<Rightarrow> ('k, 'v) btree_map \<Rightarrow> ('k, 'v) btree_map" where
  "bt_remove k [] = []"
| "bt_remove k ((k', v') # m) = (if k = k' then m else (k', v') # bt_remove k m)"

definition bt_values :: "('k, 'v) btree_map \<Rightarrow> 'v list" where
  "bt_values m = map snd m"

definition bt_invar :: "('k::linorder, 'v) btree_map \<Rightarrow> bool" where
  "bt_invar m \<longleftrightarrow> sorted_wrt (<) (map fst m)"

section \<open>The contract\<close>

locale ordered_map =
  fixes empty :: 'm
    and get :: "'m \<Rightarrow> 'k::linorder \<Rightarrow> 'v option"
    and insert_at :: "'k \<Rightarrow> 'v \<Rightarrow> 'm \<Rightarrow> 'm"
    and remove :: "'k \<Rightarrow> 'm \<Rightarrow> 'm"
    and entries :: "'m \<Rightarrow> ('k \<times> 'v) list"
    and invar :: "'m \<Rightarrow> bool"
  assumes invar_empty: "invar empty"
    and invar_insert: "invar m \<Longrightarrow> invar (insert_at k v m)"
    and invar_remove: "invar m \<Longrightarrow> invar (remove k m)"
    and get_empty: "get empty k = None"
    and get_insert: "invar m \<Longrightarrow> get (insert_at k v m) k' = (if k' = k then Some v else get m k')"
    and get_remove: "invar m \<Longrightarrow> get (remove k m) k' = (if k' = k then None else get m k')"
    and entries_get: "invar m \<Longrightarrow> (k, v) \<in> set (entries m) \<longleftrightarrow> get m k = Some v"
    and entries_keys: "invar m \<Longrightarrow> distinct (map fst (entries m))"
begin

definition total :: "('v \<Rightarrow> nat) \<Rightarrow> 'm \<Rightarrow> nat" where
  "total f m = sum_list (map (\<lambda>(k, v). f v) (entries m))"

lemma total_sum: "invar m \<Longrightarrow> total f m = (\<Sum>(k, v) \<in> set (entries m). f v)"
proof -
  assume "invar m"
  then have "distinct (entries m)"
    by (meson distinct_map entries_keys)
  then show ?thesis
    by (simp add: total_def sum_list_distinct_conv_sum_set)
qed

lemma total_insert_fresh:
  assumes m: "invar m" and fresh: "get m k = None"
  shows "total f (insert_at k v m) = f v + total f m"
proof -
  have "set (entries (insert_at k v m)) = insert (k, v) (set (entries m))"
    using fresh by (auto simp: entries_get m invar_insert get_insert split: if_splits)
  moreover have "(k, v) \<notin> set (entries m)"
    using fresh by (simp add: entries_get m)
  ultimately show ?thesis
    by (simp add: total_sum m invar_insert)
qed

lemma total_remove:
  assumes m: "invar m" and present: "get m k = Some v"
  shows "total f m = f v + total f (remove k m)"
proof -
  have "set (entries m) = insert (k, v) (set (entries (remove k m)))"
    using present by (auto simp: entries_get m invar_remove get_remove split: if_splits)
  moreover have "(k, v) \<notin> set (entries (remove k m))"
    by (simp add: entries_get m invar_remove get_remove)
  ultimately show ?thesis
    by (simp add: total_sum m invar_remove)
qed

lemma total_remove_le: "invar m \<Longrightarrow> total f (remove k m) \<le> total f m"
proof (cases "get m k")
  case None
  assume m: "invar m"
  have "set (entries (remove k m)) = set (entries m)"
    using None by (auto simp: entries_get m invar_remove get_remove split: if_splits)
  then show ?thesis by (simp add: total_sum m invar_remove)
next
  case (Some v)
  assume "invar m"
  then show ?thesis using total_remove [OF _ Some] by simp
qed

lemma total_replace:
  assumes m: "invar m" and present: "get m k = Some v"
  shows "total f (insert_at k v' (remove k m)) + f v = total f m + f v'"
  using total_insert_fresh [of "remove k m" k f v'] total_remove [OF m present, of f]
  by (simp add: m invar_remove get_remove)

lemma total_mono: "(\<And>v. f v \<le> g v) \<Longrightarrow> total f m \<le> total g m"
  unfolding total_def by (induction "entries m") (auto intro!: sum_list_mono)

end

section \<open>The model meets the contract\<close>

lemma map_of_bt_insert:
  "bt_invar m \<Longrightarrow> map_of (bt_insert k v m) k' = (if k' = k then Some v else map_of m k')"
  by (induction m) (auto simp: bt_invar_def)

lemma fst_bt_insert: "fst ` set (bt_insert k v m) = insert k (fst ` set m)"
  by (induction k v m rule: bt_insert.induct) (auto split: if_splits)

lemma bt_invar_insert: "bt_invar m \<Longrightarrow> bt_invar (bt_insert k v m)"
proof (induction m)
  case (Cons p m)
  obtain k' v' where p: "p = (k', v')" by fastforce
  from Cons have "bt_invar (bt_insert k v m)" by (simp add: bt_invar_def)
  with Cons.prems show ?case
    using fst_bt_insert [of k v m] by (auto simp: p bt_invar_def)
qed (simp add: bt_invar_def)

lemma set_bt_remove: "set (bt_remove k m) \<subseteq> set m"
  by (induction k m rule: bt_remove.induct) (auto split: if_splits)

lemma bt_invar_remove: "bt_invar m \<Longrightarrow> bt_invar (bt_remove k m)"
proof (induction m)
  case (Cons p m)
  then show ?case
    using set_bt_remove [of k m] by (cases p) (auto simp: bt_invar_def)
qed (simp add: bt_invar_def)

lemma map_of_bt_remove:
  "bt_invar m \<Longrightarrow> map_of (bt_remove k m) k' = (if k' = k then None else map_of m k')"
proof (induction m)
  case (Cons p m)
  obtain a b where p: "p = (a, b)" by fastforce
  from Cons.prems have "bt_invar m" and lt: "\<forall>x \<in> fst ` set m. a < x"
    by (auto simp: p bt_invar_def)
  moreover have "map_of m a = None"
    using lt by (auto simp: map_of_eq_None_iff)
  ultimately show ?case
    using Cons.IH by (auto simp: p)
qed simp

lemma bt_invar_distinct: "bt_invar m \<Longrightarrow> distinct (map fst m)"
  by (simp add: bt_invar_def strict_sorted_iff)

interpretation btm: ordered_map "[]" bt_get bt_insert bt_remove "\<lambda>m. m" bt_invar
proof
  show "bt_invar []" by (simp add: bt_invar_def)
qed (simp_all add: bt_get_def bt_invar_insert bt_invar_remove map_of_bt_insert
      map_of_bt_remove bt_invar_distinct)

lemma btm_total_values: "btm.total f m = sum_list (map f (bt_values m))"
  by (simp add: btm.total_def bt_values_def comp_def split_def)

lemma bt_remove_insert_fresh:
  "bt_invar m \<Longrightarrow> bt_get m k = None \<Longrightarrow> bt_remove k (bt_insert k v m) = m"
  by (induction k v m rule: bt_insert.induct) (auto simp: bt_get_def bt_invar_def split: if_splits)

lemma bt_remove_absent: "bt_get m k = None \<Longrightarrow> bt_remove k m = m"
  by (induction k m rule: bt_remove.induct) (auto simp: bt_get_def split: if_splits)

end
