(* ===== verification/RequoteBudget.thy ===== *)
theory RequoteBudget
  imports Prelude
begin

text \<open>
  The sliding-window throttle of \<open>src/src/bolt_v3_requote_budget.rs\<close> (struct \<open>RequoteBudget\<close>):
  a deque of granted charges, a running sum of what it holds, and the time of the last charge.

  The abstract throttle keeps the whole history of charges and decides on the sum over the
  window. \<open>budget_rel\<close> relates the two; the lemmas show that eviction from the deque never
  changes a decision and that the running sum never wraps.
\<close>

section \<open>The deque budget\<close>

record RequoteBudget =
  window_ms :: u64
  max_cost_per_window :: u64
  min_interval_ms :: u64
  emits :: "(u64 \<times> u64) list"
  window_cost :: u64
  last_emit_ms :: "u64 option"

definition INITIAL_WINDOW_COST :: u64 where
  "INITIAL_WINDOW_COST = 0"

definition RequoteBudget_new :: "u64 \<Rightarrow> u64 \<Rightarrow> u64 \<Rightarrow> RequoteBudget" where
  "RequoteBudget_new max_cost window interval =
     \<lparr>window_ms = window, max_cost_per_window = max_cost, min_interval_ms = interval,
      emits = [], window_cost = INITIAL_WINDOW_COST, last_emit_ms = None\<rparr>"

text \<open>The loop of \<open>evict\<close>: pop from the front while the front is older than the cutoff.\<close>

fun evict_loop :: "u64 \<Rightarrow> (u64 \<times> u64) list \<Rightarrow> u64 \<Rightarrow> (u64 \<times> u64) list \<times> u64" where
  "evict_loop cutoff_ms [] cost_sum = ([], cost_sum)"
| "evict_loop cutoff_ms ((timestamp_ms, cost) # es) cost_sum =
     (if cutoff_ms \<le> timestamp_ms then ((timestamp_ms, cost) # es, cost_sum)
      else evict_loop cutoff_ms es (cost_sum - cost))"

definition evict :: "RequoteBudget \<Rightarrow> u64 \<Rightarrow> RequoteBudget" where
  "evict b now_ms =
     (if now_ms \<le> window_ms b then b
      else let cutoff_ms = now_ms - window_ms b;
               (es, wc) = evict_loop cutoff_ms (emits b) (window_cost b)
           in b\<lparr>emits := es, window_cost := wc\<rparr>)"

definition push_emit :: "RequoteBudget \<Rightarrow> u64 \<Rightarrow> u64 \<Rightarrow> u64 \<Rightarrow> RequoteBudget" where
  "push_emit b emit_ms cost next_cost =
     b\<lparr>emits := emits b @ [(emit_ms, cost)], window_cost := next_cost, last_emit_ms := Some emit_ms\<rparr>"

definition try_acquire :: "RequoteBudget \<Rightarrow> u64 \<Rightarrow> u64 \<Rightarrow> bool \<times> RequoteBudget" where
  "try_acquire b now_ms cost =
     (if cost = 0 \<or> window_ms b = 0 then (False, b)
      else if (case last_emit_ms b of Some last_ms \<Rightarrow> now_ms < last_ms | None \<Rightarrow> False) then (False, b)
      else let b1 = evict b now_ms in
        if (case last_emit_ms b1 of
              Some last_ms \<Rightarrow> last_ms < now_ms \<and> now_ms - last_ms < min_interval_ms b1
            | None \<Rightarrow> False)
        then (False, b1)
        else case checked_add (window_cost b1) cost of
            None \<Rightarrow> (False, b1)
          | Some next_cost \<Rightarrow>
              if max_cost_per_window b1 < next_cost then (False, b1)
              else (True, push_emit b1 now_ms cost next_cost))"

definition in_window :: "RequoteBudget \<Rightarrow> nat" where
  "in_window b = length (emits b)"

definition cost_in_window :: "RequoteBudget \<Rightarrow> u64" where
  "cost_in_window b = window_cost b"

text \<open>The \<open>expect\<close> of \<open>record_reserved\<close> is the panic, so the result is an option.\<close>

definition record_reserved :: "RequoteBudget \<Rightarrow> u64 \<Rightarrow> u64 \<Rightarrow> RequoteBudget option" where
  "record_reserved b now_ms cost =
     (let emit_ms = (case last_emit_ms b of None \<Rightarrow> now_ms | Some last_ms \<Rightarrow> max last_ms now_ms);
          b1 = evict b emit_ms
      in map_option (push_emit b1 emit_ms cost) (checked_add (window_cost b1) cost))"

section \<open>The abstract throttle\<close>

text \<open>The decision on the complete history \<open>L\<close> of charges, oldest first.\<close>

definition last_time :: "charge list \<Rightarrow> nat option" where
  "last_time L = (if L = [] then None else Some (fst (last L)))"

definition abs_admits :: "nat \<Rightarrow> nat \<Rightarrow> nat \<Rightarrow> charge list \<Rightarrow> nat \<Rightarrow> nat \<Rightarrow> bool" where
  "abs_admits w cap interval L now cost \<longleftrightarrow>
     0 < cost \<and> 0 < w \<and>
     (case last_time L of None \<Rightarrow> True
      | Some t \<Rightarrow> t = now \<or> (t < now \<and> interval \<le> now - t)) \<and>
     cost_from (now - w) L + cost \<le> cap"

definition abs_emits :: "RequoteBudget \<Rightarrow> charge list" where
  "abs_emits b = map (\<lambda>(t, c). (unat t, unat c)) (emits b)"

text \<open>
  \<open>budget_rel b L E\<close>: the deque holds the history less the charges that had left the window by
  time \<open>E\<close>, the latest time an eviction ran at.
\<close>

definition budget_rel :: "RequoteBudget \<Rightarrow> charge list \<Rightarrow> nat \<Rightarrow> bool" where
  "budget_rel b L E \<longleftrightarrow>
     (\<exists>old. L = old @ abs_emits b \<and> (\<forall>(t, c) \<in> set old. t + unat (window_ms b) < E)) \<and>
     sorted (map fst L) \<and>
     unat (window_cost b) = cost_total (abs_emits b) \<and>
     map_option unat (last_emit_ms b) = last_time L \<and>
     (\<forall>t. last_time L = Some t \<longrightarrow> t \<le> E)"

definition last_emit_nat :: "RequoteBudget \<Rightarrow> nat" where
  "last_emit_nat b = (case last_emit_ms b of None \<Rightarrow> 0 | Some t \<Rightarrow> unat t)"

section \<open>Eviction\<close>

lemma evict_params [simp]:
  "window_ms (evict b now) = window_ms b"
  "max_cost_per_window (evict b now) = max_cost_per_window b"
  "min_interval_ms (evict b now) = min_interval_ms b"
  "last_emit_ms (evict b now) = last_emit_ms b"
  by (simp_all add: evict_def Let_def split: prod.split)

lemma push_emit_sel [simp]:
  "window_ms (push_emit b t c n) = window_ms b"
  "max_cost_per_window (push_emit b t c n) = max_cost_per_window b"
  "min_interval_ms (push_emit b t c n) = min_interval_ms b"
  "last_emit_ms (push_emit b t c n) = Some t"
  "emits (push_emit b t c n) = emits b @ [(t, c)]"
  "window_cost (push_emit b t c n) = n"
  by (simp_all add: push_emit_def)

lemma evict_loop_list:
  "fst (evict_loop cutoff es wc) = dropWhile (\<lambda>(t, c). t < cutoff) es"
  by (induction cutoff es wc rule: evict_loop.induct) auto

lemma evict_loop_sum:
  assumes "unat wc = cost_total (map (\<lambda>(t, c). (unat t, unat c)) es)"
  shows "unat (snd (evict_loop cutoff es wc)) =
    cost_total (map (\<lambda>(t, c). (unat t, unat c)) (fst (evict_loop cutoff es wc)))"
  using assms
proof (induction cutoff es wc rule: evict_loop.induct)
  case (2 cutoff t c es wc)
  show ?case
  proof (cases "cutoff \<le> t")
    case False
    have "unat c \<le> unat wc" using "2.prems" by simp
    then have "unat (wc - c) = unat wc - unat c"
      by (simp add: unat_sub_le word_le_nat_alt)
    then show ?thesis using "2.IH" [OF False] "2.prems" False by simp
  qed (use "2.prems" in simp)
qed simp

lemma map_dropWhile_emits:
  "map (\<lambda>(t, c). (unat t, unat c)) (dropWhile (\<lambda>(t, c). t < cutoff) es) =
   dropWhile (\<lambda>(t, c). t < unat cutoff) (map (\<lambda>(t, c). (unat t, unat c)) (es :: (u64 \<times> u64) list))"
  by (induction es) (auto simp: word_less_nat_alt)

lemma abs_emits_evict:
  "abs_emits (evict b now) =
     dropWhile (\<lambda>(t, c). t < unat now - unat (window_ms b)) (abs_emits b)"
proof (cases "now \<le> window_ms b")
  case True
  then have "unat now - unat (window_ms b) = 0" by (simp add: word_le_nat_alt)
  then have "dropWhile (\<lambda>(t, c). t < unat now - unat (window_ms b)) (abs_emits b) = abs_emits b"
    by (cases "abs_emits b") auto
  then show ?thesis using True by (simp add: evict_def)
next
  case False
  then have "unat (now - window_ms b) = unat now - unat (window_ms b)"
    by (simp add: unat_sub_le)
  then show ?thesis using False
    by (simp add: evict_def abs_emits_def Let_def split_def evict_loop_list [unfolded split_def]
        map_dropWhile_emits [unfolded split_def])
qed

lemma window_cost_evict:
  "unat (window_cost b) = cost_total (abs_emits b) \<Longrightarrow>
   unat (window_cost (evict b now)) = cost_total (abs_emits (evict b now))"
  using evict_loop_sum [of "window_cost b" "emits b" "now - window_ms b"]
  by (simp add: evict_def abs_emits_def Let_def split_def)

lemma sorted_dropWhile_ge:
  "sorted (map fst L) \<Longrightarrow> (t, c) \<in> set (dropWhile (\<lambda>(t, c). t < lo) L) \<Longrightarrow> lo \<le> t"
proof (induction L)
  case (Cons p L)
  then show ?case by (cases p) (auto split: if_splits)
qed simp

lemma dropWhile_append_prefix:
  "\<exists>pre. L = pre @ dropWhile (\<lambda>(t, c). t < lo) L \<and> (\<forall>(t, c) \<in> set pre. t < lo)"
  by (rule exI [of _ "takeWhile (\<lambda>(t, c). t < lo) L"]) (auto dest: set_takeWhileD)

lemma last_time_eqs:
  "last_time [] = None"
  "last_time (L @ [p]) = Some (fst p)"
  "last_time L = None \<longleftrightarrow> L = []"
  by (simp_all add: last_time_def)

lemma sorted_le_last_time:
  "sorted (map fst L) \<Longrightarrow> last_time L = Some e \<Longrightarrow> (t, c) \<in> set L \<Longrightarrow> t \<le> e"
proof (induction L rule: rev_induct)
  case (snoc p L)
  then show ?case by (cases p) (auto simp: last_time_eqs sorted_append)
qed simp

lemma evict_rel:
  assumes rel: "budget_rel b L E" and E: "E \<le> unat now"
  shows "budget_rel (evict b now) L (unat now)"
    and "cost_total (abs_emits (evict b now)) = cost_from (unat now - unat (window_ms b)) L"
proof -
  let ?lo = "unat now - unat (window_ms b)"
  from rel obtain old where L: "L = old @ abs_emits b"
    and old: "\<forall>(t, c) \<in> set old. t + unat (window_ms b) < E"
    and srt: "sorted (map fst L)"
    unfolding budget_rel_def by blast
  obtain pre where pre: "abs_emits b = pre @ abs_emits (evict b now)"
    and pre_lt: "\<forall>(t, c) \<in> set pre. t < ?lo"
    using dropWhile_append_prefix [of "abs_emits b" ?lo] by (auto simp: abs_emits_evict)
  have "\<forall>(t, c) \<in> set (old @ pre). t + unat (window_ms b) < unat now"
    using old E pre_lt by fastforce
  moreover have "L = (old @ pre) @ abs_emits (evict b now)"
    using L pre by simp
  ultimately show "budget_rel (evict b now) L (unat now)"
    using rel E unfolding budget_rel_def
    by (auto simp: window_cost_evict intro: order_trans)
  have "cost_from ?lo (old @ pre) = 0"
    using old E pre_lt by (intro cost_from_none) fastforce
  moreover have "cost_from ?lo (abs_emits (evict b now)) = cost_total (abs_emits (evict b now))"
    using srt L by (intro cost_from_all) (auto simp: abs_emits_evict sorted_append
        intro: sorted_dropWhile_ge)
  ultimately show "cost_total (abs_emits (evict b now)) = cost_from ?lo L"
    using L pre by simp
qed

section \<open>Decisions and charges\<close>

lemma abs_emits_push: "abs_emits (push_emit b t c n) = abs_emits b @ [(unat t, unat c)]"
  by (simp add: abs_emits_def)

lemma push_emit_rel:
  assumes rel: "budget_rel b L E" and last: "\<And>e. last_time L = Some e \<Longrightarrow> e \<le> unat t"
    and E: "E \<le> unat t" and n: "checked_add (window_cost b) c = Some n"
  shows "budget_rel (push_emit b t c n) (L @ [(unat t, unat c)]) (unat t)"
proof -
  from rel obtain old where "L = old @ abs_emits b"
    and "\<forall>(t, c) \<in> set old. t + unat (window_ms b) < E"
    unfolding budget_rel_def by blast
  then have "L @ [(unat t, unat c)] = old @ abs_emits (push_emit b t c n)"
    and "\<forall>(t', c) \<in> set old. t' + unat (window_ms b) < unat t"
    using E by (auto simp: abs_emits_push)
  then have split: "\<exists>old. L @ [(unat t, unat c)] = old @ abs_emits (push_emit b t c n) \<and>
      (\<forall>(t', c') \<in> set old. t' + unat (window_ms (push_emit b t c n)) < unat t)"
    by auto
  have "\<forall>p \<in> set L. fst p \<le> unat t"
  proof
    fix p assume m: "p \<in> set L"
    then obtain e where e: "last_time L = Some e" by (cases "last_time L") (auto simp: last_time_eqs)
    have "fst p \<le> e"
      using rel m e sorted_le_last_time [of L e "fst p" "snd p"] by (simp add: budget_rel_def)
    then show "fst p \<le> unat t" using last [OF e] by simp
  qed
  then have "sorted (map fst (L @ [(unat t, unat c)]))"
    using rel by (simp add: budget_rel_def sorted_append)
  moreover have "unat n = cost_total (abs_emits (push_emit b t c n))"
    using rel unat_checked_add [OF n] by (simp add: budget_rel_def abs_emits_push)
  ultimately show ?thesis
    using split unfolding budget_rel_def by (simp add: last_time_eqs del: append_assoc)
qed

lemma rel_last_le: "budget_rel b L E \<Longrightarrow> last_emit_ms b = Some l \<Longrightarrow> last_time L = Some (unat l) \<and> unat l \<le> E"
  unfolding budget_rel_def by auto

lemma rel_last_None: "budget_rel b L E \<Longrightarrow> last_emit_ms b = None \<Longrightarrow> L = []"
  by (simp add: budget_rel_def last_time_def split: if_splits)

lemma budget_rel_new: "budget_rel (RequoteBudget_new cap w i) [] 0"
  by (simp add: budget_rel_def RequoteBudget_new_def abs_emits_def last_time_eqs
      INITIAL_WINDOW_COST_def)

lemma budget_rel_later: "budget_rel b L E \<Longrightarrow> E \<le> E' \<Longrightarrow> budget_rel b L E'"
  unfolding budget_rel_def by (fastforce intro: order_trans)

lemma evict_fits_iff:
  assumes rel: "budget_rel b L E" and E: "E \<le> unat now"
  shows "(case checked_add (window_cost (evict b now)) cost of
            None \<Rightarrow> False | Some next_cost \<Rightarrow> next_cost \<le> cap) \<longleftrightarrow>
         cost_from (unat now - unat (window_ms b)) L + unat cost \<le> unat cap"
proof -
  have wc: "unat (window_cost (evict b now)) = cost_from (unat now - unat (window_ms b)) L"
    using evict_rel [OF rel E] by (simp add: budget_rel_def)
  show ?thesis
  proof (cases "checked_add (window_cost (evict b now)) cost")
    case None
    then have "2 ^ 64 \<le> unat (window_cost (evict b now)) + unat cost"
      by (simp only: checked_add_None_iff)
    then have "unat cap < cost_from (unat now - unat (window_ms b)) L + unat cost"
      using wc by (intro less_le_trans [OF unat_u64_bound]) simp
    then show ?thesis by (simp add: None)
  next
    case (Some n)
    then show ?thesis using wc by (simp add: unat_checked_add word_le_nat_alt)
  qed
qed

lemma rel_interval_iff:
  assumes rel: "budget_rel b L E" and E: "E \<le> unat now"
  shows "(case last_emit_ms b of
            Some last_ms \<Rightarrow> last_ms < now \<and> now - last_ms < min_interval_ms b
          | None \<Rightarrow> False) \<longleftrightarrow>
         \<not> (case last_time L of None \<Rightarrow> True
            | Some t \<Rightarrow> t = unat now \<or> (t < unat now \<and> unat (min_interval_ms b) \<le> unat now - t))"
proof (cases "last_emit_ms b")
  case None
  then show ?thesis using rel_last_None [OF rel] by (simp add: last_time_eqs)
next
  case (Some l)
  then have "last_time L = Some (unat l)" and "unat l \<le> unat now"
    using rel_last_le [OF rel Some] E by auto
  then show ?thesis using Some
    by (auto simp: word_less_nat_alt unat_sub_le word_le_nat_alt)
qed

lemma rel_not_regressed:
  assumes rel: "budget_rel b L E" and E: "E \<le> unat now"
  shows "\<not> (case last_emit_ms b of Some last_ms \<Rightarrow> now < last_ms | None \<Rightarrow> False)"
  using rel_last_le [OF rel] E by (cases "last_emit_ms b") (auto simp: word_less_nat_alt)

lemma try_acquire_decision:
  assumes rel: "budget_rel b L E" and E: "E \<le> unat now"
  shows "fst (try_acquire b now cost) \<longleftrightarrow>
     abs_admits (unat (window_ms b)) (unat (max_cost_per_window b)) (unat (min_interval_ms b))
       L (unat now) (unat cost)"
proof -
  have "fst (try_acquire b now cost) \<longleftrightarrow>
     cost \<noteq> 0 \<and> window_ms b \<noteq> 0 \<and>
     \<not> (case last_emit_ms b of
          Some last_ms \<Rightarrow> last_ms < now \<and> now - last_ms < min_interval_ms b | None \<Rightarrow> False) \<and>
     (case checked_add (window_cost (evict b now)) cost of
        None \<Rightarrow> False | Some next_cost \<Rightarrow> next_cost \<le> max_cost_per_window b)"
    using rel_not_regressed [OF rel E]
    by (auto simp: try_acquire_def Let_def not_less not_le split: option.splits)
  then show ?thesis
    unfolding evict_fits_iff [OF rel E] rel_interval_iff [OF rel E] abs_admits_def
    by (simp add: unat_gt_0)
qed

lemma try_acquire_state:
  assumes rel: "budget_rel b L E" and E: "E \<le> unat now"
  shows "budget_rel (snd (try_acquire b now cost))
     (if fst (try_acquire b now cost) then L @ [(unat now, unat cost)] else L) (unat now)"
proof (cases "cost = 0 \<or> window_ms b = 0")
  case True
  then show ?thesis using budget_rel_later [OF rel E] by (simp add: try_acquire_def)
next
  case False
  note ev = evict_rel(1) [OF rel E]
  have last: "\<And>e. last_time L = Some e \<Longrightarrow> e \<le> unat now"
    using rel E unfolding budget_rel_def by fastforce
  show ?thesis using False rel_not_regressed [OF rel E] ev push_emit_rel [OF ev last, of cost]
    by (simp add: try_acquire_def Let_def split: option.splits)
qed



lemma emit_time:
  "unat (case last_emit_ms b of None \<Rightarrow> now | Some l \<Rightarrow> max l now) = max (last_emit_nat b) (unat now)"
  by (auto simp: last_emit_nat_def max_def word_le_nat_alt split: option.splits)

lemma record_reserved_rel:
  assumes rel: "budget_rel b L (last_emit_nat b)"
    and fits: "cost_from (max (last_emit_nat b) (unat now) - unat (window_ms b)) L + unat cost < 2 ^ 64"
  shows "\<exists>b'. record_reserved b now cost = Some b' \<and>
    budget_rel b' (L @ [(max (last_emit_nat b) (unat now), unat cost)]) (last_emit_nat b') \<and>
    last_emit_nat b' = max (last_emit_nat b) (unat now) \<and>
    window_ms b' = window_ms b \<and> max_cost_per_window b' = max_cost_per_window b \<and>
    min_interval_ms b' = min_interval_ms b"
proof -
  define emit where "emit = (case last_emit_ms b of None \<Rightarrow> now | Some l \<Rightarrow> max l now)"
  have e: "unat emit = max (last_emit_nat b) (unat now)"
    using emit_time by (simp add: emit_def)
  then have E: "last_emit_nat b \<le> unat emit" by simp
  note ev = evict_rel [OF rel E]
  then have "unat (window_cost (evict b emit)) + unat cost < 2 ^ 64"
    using fits e by (simp add: budget_rel_def)
  then obtain n where n: "checked_add (window_cost (evict b emit)) cost = Some n"
    by (simp add: checked_add_def)
  have last: "\<And>t. last_time L = Some t \<Longrightarrow> t \<le> unat emit"
    using rel E unfolding budget_rel_def by fastforce
  let ?b' = "push_emit (evict b emit) emit cost n"
  have "last_emit_nat ?b' = unat emit" by (simp add: last_emit_nat_def)
  moreover have "record_reserved b now cost = Some ?b'"
    using n by (simp add: record_reserved_def emit_def [symmetric])
  moreover have "budget_rel ?b' (L @ [(unat emit, unat cost)]) (unat emit)"
    using push_emit_rel [OF ev(1) last order_refl n] .
  ultimately show ?thesis by (simp add: e)
qed

text \<open>A decision needs no hypothesis on the clock: a regressed clock is refused outright.\<close>

lemma try_acquire_regressed:
  "last_emit_ms b = Some l \<Longrightarrow> now < l \<Longrightarrow> try_acquire b now cost = (False, b)"
  by (simp add: try_acquire_def)

lemma try_acquire_granted:
  assumes rel: "budget_rel b L (last_emit_nat b)" and ok: "fst (try_acquire b now cost)"
  shows "last_emit_nat b \<le> unat now"
    and "cost_from (unat now - unat (window_ms b)) L + unat cost \<le> unat (max_cost_per_window b)"
proof -
  show le: "last_emit_nat b \<le> unat now"
    using ok try_acquire_regressed [of b _ now cost]
    by (cases "last_emit_ms b") (force simp: last_emit_nat_def word_less_nat_alt not_le)+
  show "cost_from (unat now - unat (window_ms b)) L + unat cost \<le> unat (max_cost_per_window b)"
    using try_acquire_decision [OF rel le] ok by (simp add: abs_admits_def)
qed

section \<open>The contract the reservation ledger relies on\<close>

text \<open>
  A throttle decides admissions at a time and later records charges at a possibly later time.
  The ledger above it owes, at each time \<open>T\<close>, the cost \<open>due T\<close> of the reservations made by
  then. The invariant \<open>lane_inv\<close> says that every window, charged costs and owed costs together,
  stays within the cap.
\<close>

locale window_throttle =
  fixes hist :: "'b \<Rightarrow> charge list \<Rightarrow> bool"
    and admits :: "'b \<Rightarrow> u64 \<Rightarrow> u64 \<Rightarrow> bool"
    and charge_at :: "'b \<Rightarrow> u64 \<Rightarrow> u64 \<Rightarrow> 'b option"
    and window :: "'b \<Rightarrow> nat"
    and cap :: "'b \<Rightarrow> nat"
    and latest :: "'b \<Rightarrow> nat"
  assumes admits_within: "hist b L \<Longrightarrow> admits b now c \<Longrightarrow>
      cost_from (unat now - window b) L + unat c \<le> cap b"
    and charge_records: "hist b L \<Longrightarrow>
      cost_from (max (latest b) (unat now) - window b) L + unat c \<le> cap b \<Longrightarrow>
      \<exists>b'. charge_at b now c = Some b' \<and> hist b' (L @ [(max (latest b) (unat now), unat c)]) \<and>
        window b' = window b \<and> cap b' = cap b"
    and hist_latest: "hist b L \<Longrightarrow> (t, c') \<in> set L \<Longrightarrow> t \<le> latest b"
begin

definition lane_inv :: "'b \<Rightarrow> charge list \<Rightarrow> (nat \<Rightarrow> nat) \<Rightarrow> bool" where
  "lane_inv b L due \<longleftrightarrow> hist b L \<and> (\<forall>T. cost_in (T - window b) T L + due T \<le> cap b)"

lemma lane_bound: "lane_inv b L due \<Longrightarrow> cost_in (T - window b) T L \<le> cap b"
  unfolding lane_inv_def by (meson add_leD1)

lemma lane_release: "lane_inv b L due \<Longrightarrow> (\<And>T. due' T \<le> due T) \<Longrightarrow> lane_inv b L due'"
  unfolding lane_inv_def by (meson add_left_mono order_trans)

lemma lane_reserve:
  assumes inv: "lane_inv b L due" and ok: "admits b t (req :: u64)"
    and req: "unat req = owed + c" and owed: "\<And>T. due T \<le> owed"
  shows "lane_inv b L (\<lambda>T. (if unat t \<le> T then c else 0) + due T)"
  unfolding lane_inv_def
proof (intro conjI allI)
  show h: "hist b L" using inv by (simp add: lane_inv_def)
  fix T
  show "cost_in (T - window b) T L + ((if unat t \<le> T then c else 0) + due T) \<le> cap b"
  proof (cases "unat t \<le> T")
    case True
    then have "cost_in (T - window b) T L \<le> cost_from (unat t - window b) L"
      by (intro cost_in_le_from) simp
    moreover have "cost_from (unat t - window b) L + (owed + c) \<le> cap b"
      using admits_within [OF h ok] req by simp
    ultimately show ?thesis using True owed [of T] by simp
  next
    case False
    then show ?thesis using inv by (simp add: lane_inv_def)
  qed
qed

lemma lane_charge:
  assumes inv: "lane_inv b L due" and t: "t \<le> unat now"
    and due: "\<And>T. due' T + (if t \<le> T then unat c else 0) \<le> due T"
  shows "\<exists>b'. charge_at b now c = Some b' \<and>
    lane_inv b' (L @ [(max (latest b) (unat now), unat c)]) due' \<and>
    window b' = window b \<and> cap b' = cap b"
proof -
  let ?e = "max (latest b) (unat now)"
  have h: "hist b L" and all: "\<And>T. cost_in (T - window b) T L + due T \<le> cap b"
    using inv by (auto simp: lane_inv_def)
  have "cost_in (?e - window b) ?e L = cost_from (?e - window b) L"
    using hist_latest [OF h] by (intro cost_in_all) (fastforce simp: max_def)
  moreover have "t \<le> ?e" using t by simp
  then have "due' ?e + unat c \<le> due ?e" using due [of ?e] by (simp only: if_P)
  ultimately have "cost_from (?e - window b) L + unat c \<le> cap b"
    using all [of ?e] by linarith
  then obtain b' where b': "charge_at b now c = Some b'" "hist b' (L @ [(?e, unat c)])"
      "window b' = window b" "cap b' = cap b"
    using charge_records [OF h] by blast
  have "cost_in (T - window b) T (L @ [(?e, unat c)]) + due' T \<le> cap b" for T
  proof (cases "?e \<le> T")
    case True
    then have "due' T + unat c \<le> due T" using due [of T] t by simp
    then show ?thesis using all [of T] by simp
  next
    case False
    then show ?thesis using all [of T] due [of T] by (auto split: if_splits)
  qed
  with b' show ?thesis by (auto simp: lane_inv_def)
qed

end

lemma hist_le_last:
  assumes "budget_rel b L (last_emit_nat b)" and "(t, c) \<in> set L"
  shows "t \<le> last_emit_nat b"
proof -
  obtain e where e: "last_time L = Some e"
    using assms(2) by (cases "last_time L") (auto simp: last_time_eqs)
  then have "t \<le> e" and "e \<le> last_emit_nat b"
    using assms by (auto simp: budget_rel_def intro: sorted_le_last_time)
  then show ?thesis by simp
qed

lemma record_reserved_within_cap:
  assumes rel: "budget_rel b L (last_emit_nat b)"
    and cap: "cost_from (max (last_emit_nat b) (unat now) - unat (window_ms b)) L + unat c
      \<le> unat (max_cost_per_window b)"
  shows "\<exists>b'. record_reserved b now c = Some b' \<and>
    budget_rel b' (L @ [(max (last_emit_nat b) (unat now), unat c)]) (last_emit_nat b') \<and>
    unat (window_ms b') = unat (window_ms b) \<and>
    unat (max_cost_per_window b') = unat (max_cost_per_window b)"
  using record_reserved_rel [OF rel, of now c] le_less_trans [OF cap unat_u64_bound] by auto

interpretation deque: window_throttle
  "\<lambda>b L. budget_rel b L (last_emit_nat b)" "\<lambda>b now c. fst (try_acquire b now c)" record_reserved
  "\<lambda>b. unat (window_ms b)" "\<lambda>b. unat (max_cost_per_window b)" last_emit_nat
  by unfold_locales
    (blast intro: try_acquire_granted(2) record_reserved_within_cap hist_le_last)+

text \<open>A cost within the cap is granted once the window and the interval have passed.\<close>

definition quiet_since_last :: "RequoteBudget \<Rightarrow> u64 \<Rightarrow> bool" where
  "quiet_since_last b now \<longleftrightarrow>
     (case last_emit_ms b of None \<Rightarrow> True
      | Some t \<Rightarrow> unat t + unat (window_ms b) < unat now \<and> unat t + unat (min_interval_ms b) \<le> unat now)"

lemma try_acquire_quiet:
  assumes rel: "budget_rel b L (last_emit_nat b)" and quiet: "quiet_since_last b now"
    and cost: "0 < cost" "cost \<le> max_cost_per_window b" and w: "0 < window_ms b"
  shows "fst (try_acquire b now cost)"
proof -
  have le: "last_emit_nat b \<le> unat now"
    using quiet by (auto simp: quiet_since_last_def last_emit_nat_def split: option.splits)
  have "cost_from (unat now - unat (window_ms b)) L = 0"
  proof (cases "last_emit_ms b")
    case None
    then show ?thesis using rel_last_None [OF rel] by simp
  next
    case (Some l)
    then have "unat l + unat (window_ms b) < unat now" using quiet by (simp add: quiet_since_last_def)
    then show ?thesis using hist_le_last [OF rel] Some
      by (intro cost_from_none) (fastforce simp: last_emit_nat_def)
  qed
  moreover have "case last_time L of None \<Rightarrow> True
      | Some t \<Rightarrow> t = unat now \<or> (t < unat now \<and> unat (min_interval_ms b) \<le> unat now - t)"
  proof (cases "last_emit_ms b")
    case None
    then show ?thesis using rel_last_None [OF rel] by (simp add: last_time_def)
  next
    case (Some l)
    then show ?thesis using rel_last_le [OF rel Some] quiet
      by (simp add: quiet_since_last_def) linarith
  qed
  ultimately show ?thesis
    using try_acquire_decision [OF rel le] cost w
    by (simp add: abs_admits_def word_less_nat_alt word_le_nat_alt)
qed

end
