(* ===== verification/RequoteBudgetPair.thy ===== *)
theory RequoteBudgetPair
  imports OrderedMap RequoteBudget
begin

text \<open>
  The two-budget admission gate of \<open>src/src/bolt_v3_requote_budget.rs\<close>: \<open>RequoteBudgetPair\<close> and
  its reservations. The pair is behind an \<open>Arc<Mutex<_>>\<close>, so a reservation names its pair by
  a reference into a store of pair states; each locked section is one function on the pair
  state, and an operation composes the sections it locks. A panic of \<open>record_reserved\<close> is
  \<^term>\<open>None\<close> all the way up.
\<close>

section \<open>Costs and liabilities\<close>

definition SUBMIT_COMMAND_COST :: u64 where "SUBMIT_COMMAND_COST = 1"

definition REST_CALL_COST :: u64 where "REST_CALL_COST = 1"

definition CANCEL_RESUBMIT_REST_COST :: u64 where
  "CANCEL_RESUBMIT_REST_COST = REST_CALL_COST + REST_CALL_COST"

lemmas cost_consts [budget_simps] =
  SUBMIT_COMMAND_COST_def REST_CALL_COST_def CANCEL_RESUBMIT_REST_COST_def

record LiabilityBalance =
  lb_now_ms :: u64
  lb_submit_cost :: u64
  lb_rest_cost :: u64

datatype OutstandingLiability =
    OneShot LiabilityBalance
  | CancelResubmitBothOutstanding u64
  | CancelResubmitReplacementOutstanding u64

fun balance :: "OutstandingLiability \<Rightarrow> LiabilityBalance" where
  "balance (OneShot bal) = bal"
| "balance (CancelResubmitBothOutstanding now_ms) =
     \<lparr>lb_now_ms = now_ms, lb_submit_cost = SUBMIT_COMMAND_COST,
      lb_rest_cost = CANCEL_RESUBMIT_REST_COST\<rparr>"
| "balance (CancelResubmitReplacementOutstanding now_ms) =
     \<lparr>lb_now_ms = now_ms, lb_submit_cost = SUBMIT_COMMAND_COST, lb_rest_cost = REST_CALL_COST\<rparr>"

definition liability_submit_cost :: "OutstandingLiability \<Rightarrow> u64" where
  "liability_submit_cost l = lb_submit_cost (balance l)"

definition liability_rest_cost :: "OutstandingLiability \<Rightarrow> u64" where
  "liability_rest_cost l = lb_rest_cost (balance l)"

definition liability_now_ms :: "OutstandingLiability \<Rightarrow> u64" where
  "liability_now_ms l = lb_now_ms (balance l)"

record RequoteBudgetReservationProposal =
  proposal_liability :: OutstandingLiability

definition proposal_now_ms :: "RequoteBudgetReservationProposal \<Rightarrow> u64" where
  "proposal_now_ms p = liability_now_ms (proposal_liability p)"

datatype RequoteBudgetReservationDenied = Capacity | GenerationOverflow | StaleReservation

section \<open>The pair and its proposals\<close>

record RequoteBudgetPairState =
  submit_commands :: RequoteBudget
  rest_calls :: RequoteBudget
  next_reservation_generation :: u64
  outstanding :: "(u64, OutstandingLiability) btree_map"

definition RequoteBudgetPair_new :: "RequoteBudget \<Rightarrow> RequoteBudget \<Rightarrow> RequoteBudgetPairState" where
  "RequoteBudgetPair_new submit rest =
     \<lparr>submit_commands = submit, rest_calls = rest, next_reservation_generation = 0, outstanding = []\<rparr>"

definition has_capacity :: "RequoteBudgetPairState \<Rightarrow> u64 \<Rightarrow> u64 \<Rightarrow> u64 \<Rightarrow> bool" where
  "has_capacity st now_ms submit_cost rest_cost =
     (case (try_sum 0 (map liability_submit_cost (bt_values (outstanding st))),
            try_sum 0 (map liability_rest_cost (bt_values (outstanding st)))) of
        (Some outstanding_submit, Some outstanding_rest) \<Rightarrow>
          (case checked_add outstanding_submit submit_cost of
             None \<Rightarrow> False
           | Some required_submit \<Rightarrow>
               (case checked_add outstanding_rest rest_cost of
                  None \<Rightarrow> False
                | Some required_rest \<Rightarrow>
                    (required_submit = 0 \<or>
                       fst (try_acquire (submit_commands st) now_ms required_submit)) \<and>
                    fst (try_acquire (rest_calls st) now_ms required_rest)))
      | _ \<Rightarrow> False)"

definition propose :: "RequoteBudgetPairState \<Rightarrow> OutstandingLiability \<Rightarrow>
    RequoteBudgetReservationDenied + RequoteBudgetReservationProposal" where
  "propose st liability =
     (let bal = balance liability in
      if \<not> has_capacity st (lb_now_ms bal) (lb_submit_cost bal) (lb_rest_cost bal) then Inl Capacity
      else Inr \<lparr>proposal_liability = liability\<rparr>)"

definition propose_fresh_submit :: "RequoteBudgetPairState \<Rightarrow> u64 \<Rightarrow>
    RequoteBudgetReservationDenied + RequoteBudgetReservationProposal" where
  "propose_fresh_submit st now_ms =
     propose st (OneShot \<lparr>lb_now_ms = now_ms, lb_submit_cost = SUBMIT_COMMAND_COST,
                          lb_rest_cost = REST_CALL_COST\<rparr>)"

definition propose_cancel_resubmit :: "RequoteBudgetPairState \<Rightarrow> u64 \<Rightarrow>
    RequoteBudgetReservationDenied + RequoteBudgetReservationProposal" where
  "propose_cancel_resubmit st now_ms = propose st (CancelResubmitBothOutstanding now_ms)"

definition propose_rest :: "RequoteBudgetPairState \<Rightarrow> u64 \<Rightarrow>
    RequoteBudgetReservationDenied + RequoteBudgetReservationProposal" where
  "propose_rest st now_ms =
     propose st (OneShot \<lparr>lb_now_ms = now_ms, lb_submit_cost = 0, lb_rest_cost = REST_CALL_COST\<rparr>)"

text \<open>The locked section of \<open>reserve\<close>; the reservation token is built from the generation.\<close>

definition reserve_section :: "RequoteBudgetPairState \<Rightarrow> RequoteBudgetReservationProposal \<Rightarrow>
    RequoteBudgetPairState \<times> (RequoteBudgetReservationDenied + u64)" where
  "reserve_section st prop =
     (let bal = balance (proposal_liability prop) in
      if \<not> has_capacity st (lb_now_ms bal) (lb_submit_cost bal) (lb_rest_cost bal)
      then (st, Inl Capacity)
      else case checked_add (next_reservation_generation st) 1 of
          None \<Rightarrow> (st, Inl GenerationOverflow)
        | Some gen \<Rightarrow>
            (st\<lparr>next_reservation_generation := gen,
                outstanding := bt_insert gen (proposal_liability prop) (outstanding st)\<rparr>,
             Inr gen))"

definition submit_commands_in_window :: "RequoteBudgetPairState \<Rightarrow> nat" where
  "submit_commands_in_window st = in_window (submit_commands st)"

definition rest_cost_in_window :: "RequoteBudgetPairState \<Rightarrow> u64" where
  "rest_cost_in_window st = cost_in_window (rest_calls st)"

definition pair_min_interval_ms :: "RequoteBudgetPairState \<Rightarrow> u64" where
  "pair_min_interval_ms st =
     max (min_interval_ms (submit_commands st)) (min_interval_ms (rest_calls st))"

text \<open>\<open>Option\<close>'s order: \<open>None\<close> is below every \<open>Some\<close>.\<close>

definition pair_last_emit_ms :: "RequoteBudgetPairState \<Rightarrow> u64 option" where
  "pair_last_emit_ms st =
     (case (last_emit_ms (submit_commands st), last_emit_ms (rest_calls st)) of
        (None, r) \<Rightarrow> r
      | (Some s, None) \<Rightarrow> Some s
      | (Some s, Some r) \<Rightarrow> Some (max s r))"

section \<open>Locked sections of a reservation\<close>

definition record_balance :: "RequoteBudgetPairState \<Rightarrow> LiabilityBalance \<Rightarrow> RequoteBudgetPairState option" where
  "record_balance st bal = do {
     st1 \<leftarrow> (if 0 < lb_submit_cost bal
              then map_option (\<lambda>b. st\<lparr>submit_commands := b\<rparr>)
                     (record_reserved (submit_commands st) (lb_now_ms bal) (lb_submit_cost bal))
              else Some st);
     map_option (\<lambda>b. st1\<lparr>rest_calls := b\<rparr>)
       (record_reserved (rest_calls st1) (lb_now_ms bal) (lb_rest_cost bal))
   }"

definition remove_outstanding :: "RequoteBudgetPairState \<Rightarrow> u64 \<Rightarrow> RequoteBudgetPairState" where
  "remove_outstanding st gen = st\<lparr>outstanding := bt_remove gen (outstanding st)\<rparr>"

definition settle_section :: "RequoteBudgetPairState \<Rightarrow> u64 \<Rightarrow> u64 \<Rightarrow> RequoteBudgetPairState option" where
  "settle_section st gen now_ms =
     (case bt_get (outstanding st) gen of
        None \<Rightarrow> Some st
      | Some liability \<Rightarrow>
          (let st1 = remove_outstanding st gen in
           case liability of
             CancelResubmitBothOutstanding _ \<Rightarrow>
               (let st2 = st1\<lparr>outstanding :=
                      bt_insert gen (CancelResubmitReplacementOutstanding now_ms) (outstanding st1)\<rparr>
                in map_option (\<lambda>b. st2\<lparr>rest_calls := b\<rparr>)
                     (record_reserved (rest_calls st2) now_ms REST_CALL_COST))
           | OneShot bal \<Rightarrow> record_balance st1 (bal\<lparr>lb_now_ms := now_ms\<rparr>)
           | CancelResubmitReplacementOutstanding _ \<Rightarrow>
               record_balance st1 \<lparr>lb_now_ms = now_ms, lb_submit_cost = SUBMIT_COMMAND_COST,
                                   lb_rest_cost = REST_CALL_COST\<rparr>))"

definition commit_section :: "RequoteBudgetPairState \<Rightarrow> u64 \<Rightarrow> RequoteBudgetPairState option" where
  "commit_section st gen =
     (case bt_get (outstanding st) gen of
        None \<Rightarrow> Some st
      | Some liability \<Rightarrow> record_balance (remove_outstanding st gen) (balance liability))"

section \<open>Reservations\<close>

type_synonym budget_ref = nat
type_synonym budgets = "budget_ref \<Rightarrow> RequoteBudgetPairState"

datatype RequoteBudgetReservationPhase = Refundable | SinkInvoked u64

record RequoteBudgetReservation =
  res_budget :: budget_ref
  res_generation :: u64
  res_phase :: RequoteBudgetReservationPhase

definition reserve :: "budgets \<Rightarrow> budget_ref \<Rightarrow> RequoteBudgetReservationProposal \<Rightarrow>
    budgets \<times> (RequoteBudgetReservationDenied + RequoteBudgetReservation)" where
  "reserve B ref prop =
     (case reserve_section (B ref) prop of
        (st, Inl e) \<Rightarrow> (B(ref := st), Inl e)
      | (st, Inr gen) \<Rightarrow>
          (B(ref := st), Inr \<lparr>res_budget = ref, res_generation = gen, res_phase = Refundable\<rparr>))"

definition prepare_sink_invoked_at :: "RequoteBudgetReservation \<Rightarrow> u64 \<Rightarrow> RequoteBudgetReservation" where
  "prepare_sink_invoked_at r now_ms =
     (if res_phase r = Refundable then r\<lparr>res_phase := SinkInvoked now_ms\<rparr> else r)"

definition settle_prepared_sink_invocation :: "budgets \<Rightarrow> RequoteBudgetReservation \<Rightarrow>
    (budgets \<times> RequoteBudgetReservation) option" where
  "settle_prepared_sink_invocation B r =
     (case res_phase r of
        Refundable \<Rightarrow> Some (B, r)
      | SinkInvoked now_ms \<Rightarrow>
          map_option (\<lambda>st. (B(res_budget r := st), r\<lparr>res_phase := Refundable\<rparr>))
            (settle_section (B (res_budget r)) (res_generation r) now_ms))"

definition mark_sink_invoked_at :: "budgets \<Rightarrow> RequoteBudgetReservation \<Rightarrow> u64 \<Rightarrow>
    (budgets \<times> RequoteBudgetReservation) option" where
  "mark_sink_invoked_at B r now_ms =
     settle_prepared_sink_invocation B (prepare_sink_invoked_at r now_ms)"

definition settle_committed :: "budgets \<Rightarrow> RequoteBudgetReservation \<Rightarrow>
    (budgets \<times> RequoteBudgetReservation \<times> (RequoteBudgetReservationDenied + unit)) option" where
  "settle_committed B r = do {
     (B1, r1) \<leftarrow> settle_prepared_sink_invocation B r;
     st \<leftarrow> commit_section (B1 (res_budget r1)) (res_generation r1);
     Some (B1(res_budget r1 := st), r1, Inr ())
   }"

definition settle_aborted :: "budgets \<Rightarrow> RequoteBudgetReservation \<Rightarrow>
    (budgets \<times> RequoteBudgetReservation \<times> (RequoteBudgetReservationDenied + unit)) option" where
  "settle_aborted B r =
     (if res_phase r \<noteq> Refundable then do {
        (B1, r1) \<leftarrow> settle_prepared_sink_invocation B r;
        Some (B1(res_budget r1 := remove_outstanding (B1 (res_budget r1)) (res_generation r1)),
              r1, Inr ())
      }
      else case bt_get (outstanding (B (res_budget r))) (res_generation r) of
          None \<Rightarrow> Some (B, r, Inl StaleReservation)
        | Some _ \<Rightarrow>
            Some (B(res_budget r := remove_outstanding (B (res_budget r)) (res_generation r)),
                  r, Inr ()))"

text \<open>\<open>impl Drop for RequoteBudgetReservation\<close>, run wherever a reservation goes out of scope.\<close>

definition drop_reservation :: "budgets \<Rightarrow> RequoteBudgetReservation \<Rightarrow> budgets option" where
  "drop_reservation B r = do {
     (B1, r1) \<leftarrow> settle_prepared_sink_invocation B r;
     Some (B1(res_budget r1 := remove_outstanding (B1 (res_budget r1)) (res_generation r1)))
   }"

text \<open>\<open>commit\<close> and \<open>abort\<close> take the reservation by value: it is dropped when they return.\<close>

definition commit :: "budgets \<Rightarrow> RequoteBudgetReservation \<Rightarrow>
    (budgets \<times> (RequoteBudgetReservationDenied + unit)) option" where
  "commit B r = do {
     (B1, r1, res) \<leftarrow> settle_committed B r;
     B2 \<leftarrow> drop_reservation B1 r1;
     Some (B2, res)
   }"

definition abort :: "budgets \<Rightarrow> RequoteBudgetReservation \<Rightarrow>
    (budgets \<times> (RequoteBudgetReservationDenied + unit)) option" where
  "abort B r = do {
     (B1, r1, res) \<leftarrow> settle_aborted B r;
     B2 \<leftarrow> drop_reservation B1 r1;
     Some (B2, res)
   }"

section \<open>The charge log of a pair\<close>

text \<open>
  \<open>observed b b' L\<close> extends the log of a budget by the charge a section made, read off the
  budget before and after: a section that charges always changes the budget.
\<close>

definition observed :: "RequoteBudget \<Rightarrow> RequoteBudget \<Rightarrow> charge list \<Rightarrow> charge list" where
  "observed b b' L = (if b' = b then L else L @ [last (abs_emits b')])"

lemma abs_emits_record:
  assumes "record_reserved b now c = Some b'"
  shows "abs_emits b' =
    dropWhile (\<lambda>(t, c). t < max (last_emit_nat b) (unat now) - unat (window_ms b)) (abs_emits b)
      @ [(max (last_emit_nat b) (unat now), unat c)]"
  using assms emit_time [where b = b and now = now]
  by (auto simp: record_reserved_def Let_def abs_emits_push abs_emits_evict)

lemma record_reserved_changes:
  assumes "record_reserved b now c = Some b'"
  shows "b' \<noteq> b"
proof
  assume eq: "b' = b"
  let ?e = "max (last_emit_nat b) (unat now)"
  let ?P = "\<lambda>(t, c). t < ?e - unat (window_ms b)"
  let ?y = "(?e, unat c)"
  have "takeWhile ?P (abs_emits b) @ dropWhile ?P (abs_emits b) = dropWhile ?P (abs_emits b) @ [?y]"
    using abs_emits_record [OF assms] eq by simp
  then have "count_list (takeWhile ?P (abs_emits b) @ dropWhile ?P (abs_emits b)) ?y =
      count_list (dropWhile ?P (abs_emits b) @ [?y]) ?y"
    by (rule arg_cong)
  then have "count_list (takeWhile ?P (abs_emits b)) ?y = 1"
    by (simp only: count_list_append) simp
  then have "?y \<in> set (takeWhile ?P (abs_emits b))"
    by (metis count_notin zero_neq_one)
  then have "?P ?y" by (rule set_takeWhileD [THEN conjunct2])
  then show False by (simp add: max_def split: if_splits)
qed

lemma observed_record:
  "record_reserved b now c = Some b' \<Longrightarrow>
   observed b b' L = L @ [(max (last_emit_nat b) (unat now), unat c)]"
  by (simp add: observed_def record_reserved_changes abs_emits_record)

lemma observed_same [simp]: "observed b b L = L"
  by (simp add: observed_def)

section \<open>The ledger invariant\<close>

definition owed_at :: "(OutstandingLiability \<Rightarrow> u64) \<Rightarrow> nat \<Rightarrow> OutstandingLiability \<Rightarrow> nat" where
  "owed_at cost T l = (if unat (liability_now_ms l) \<le> T then unat (cost l) else 0)"

definition due :: "(OutstandingLiability \<Rightarrow> u64) \<Rightarrow> (u64, OutstandingLiability) btree_map \<Rightarrow> nat \<Rightarrow> nat" where
  "due cost m T = btm.total (owed_at cost T) m"

definition pair_inv :: "RequoteBudgetPairState \<Rightarrow> charge list \<Rightarrow> charge list \<Rightarrow> bool" where
  "pair_inv st Ls Lr \<longleftrightarrow>
     bt_invar (outstanding st) \<and>
     (\<forall>g l. bt_get (outstanding st) g = Some l \<longrightarrow> g \<le> next_reservation_generation st) \<and>
     deque.lane_inv (submit_commands st) Ls (due liability_submit_cost (outstanding st)) \<and>
     deque.lane_inv (rest_calls st) Lr (due liability_rest_cost (outstanding st))"

lemma due_le_total: "due cost m T \<le> btm.total (\<lambda>l. unat (cost l)) m"
  unfolding due_def by (rule btm.total_mono) (simp add: owed_at_def)

lemma due_remove:
  "bt_invar m \<Longrightarrow> bt_get m g = Some l \<Longrightarrow> due cost m T = owed_at cost T l + due cost (bt_remove g m) T"
  unfolding due_def by (rule btm.total_remove)

lemma due_remove_le: "bt_invar m \<Longrightarrow> due cost (bt_remove g m) T \<le> due cost m T"
  unfolding due_def by (rule btm.total_remove_le)

lemma due_insert:
  "bt_invar m \<Longrightarrow> bt_get m g = None \<Longrightarrow> due cost (bt_insert g l m) T = owed_at cost T l + due cost m T"
  unfolding due_def by (rule btm.total_insert_fresh)

lemma try_sum_total:
  "try_sum 0 (map cost (bt_values m)) = Some r \<Longrightarrow> unat r = btm.total (\<lambda>l. unat (cost l)) m"
  by (drule try_sum_Some) (simp add: btm_total_values comp_def)

lemma has_capacity_lane:
  assumes "has_capacity st now sc rc"
  shows "(\<exists>req. unat req = btm.total (\<lambda>l. unat (liability_submit_cost l)) (outstanding st) + unat sc \<and>
            (req = 0 \<or> fst (try_acquire (submit_commands st) now req)))"
    and "(\<exists>req. unat req = btm.total (\<lambda>l. unat (liability_rest_cost l)) (outstanding st) + unat rc \<and>
            fst (try_acquire (rest_calls st) now req))"
proof -
  obtain os orr rs rr where os: "try_sum 0 (map liability_submit_cost (bt_values (outstanding st))) = Some os"
      "checked_add os sc = Some rs" "rs = 0 \<or> fst (try_acquire (submit_commands st) now rs)"
    and orr: "try_sum 0 (map liability_rest_cost (bt_values (outstanding st))) = Some orr"
      "checked_add orr rc = Some rr" "fst (try_acquire (rest_calls st) now rr)"
    using assms by (auto simp: has_capacity_def split: option.splits)
  from os show "\<exists>req. unat req = btm.total (\<lambda>l. unat (liability_submit_cost l)) (outstanding st) + unat sc \<and>
      (req = 0 \<or> fst (try_acquire (submit_commands st) now req))"
    by (intro exI [of _ rs]) (simp add: try_sum_total unat_checked_add)
  from orr show "\<exists>req. unat req = btm.total (\<lambda>l. unat (liability_rest_cost l)) (outstanding st) + unat rc \<and>
      fst (try_acquire (rest_calls st) now req)"
    by (intro exI [of _ rr]) (simp add: try_sum_total unat_checked_add)
qed

lemma submit_lane_reserve:
  assumes inv: "pair_inv st Ls Lr" and cap: "has_capacity st now sc rc"
  shows "deque.lane_inv (submit_commands st) Ls
    (\<lambda>T. (if unat now \<le> T then unat sc else 0) + due liability_submit_cost (outstanding st) T)"
proof -
  obtain req where req: "unat req = btm.total (\<lambda>l. unat (liability_submit_cost l)) (outstanding st) + unat sc"
    and ok: "req = 0 \<or> fst (try_acquire (submit_commands st) now req)"
    using has_capacity_lane(1) [OF cap] by blast
  have lane: "deque.lane_inv (submit_commands st) Ls (due liability_submit_cost (outstanding st))"
    using inv by (simp add: pair_inv_def)
  show ?thesis
  proof (cases "req = 0")
    case True
    then show ?thesis using req by (intro deque.lane_release [OF lane]) simp
  next
    case False
    then show ?thesis using deque.lane_reserve [OF lane _ req due_le_total] ok by simp
  qed
qed

lemma rest_lane_reserve:
  assumes inv: "pair_inv st Ls Lr" and cap: "has_capacity st now sc rc"
  shows "deque.lane_inv (rest_calls st) Lr
    (\<lambda>T. (if unat now \<le> T then unat rc else 0) + due liability_rest_cost (outstanding st) T)"
  using has_capacity_lane(2) [OF cap] inv deque.lane_reserve [OF _ _ _ due_le_total]
  by (fastforce simp: pair_inv_def)

lemma fresh_generation:
  assumes "pair_inv st Ls Lr" and "checked_add (next_reservation_generation st) 1 = Some gen"
  shows "bt_get (outstanding st) gen = None" and "next_reservation_generation st < gen"
proof -
  show lt: "next_reservation_generation st < gen"
    using unat_checked_add [OF assms(2)] by (simp add: word_less_nat_alt)
  show "bt_get (outstanding st) gen = None"
  proof (rule ccontr)
    assume "bt_get (outstanding st) gen \<noteq> None"
    then have "gen \<le> next_reservation_generation st" using assms(1) by (auto simp: pair_inv_def)
    with lt show False by simp
  qed
qed

lemma reserve_section_inv:
  assumes inv: "pair_inv st Ls Lr" and res: "reserve_section st prop = (st', r)"
  shows "pair_inv st' Ls Lr \<and> submit_commands st' = submit_commands st \<and> rest_calls st' = rest_calls st"
proof -
  let ?l = "proposal_liability prop"
  consider "st' = st" | gen where "has_capacity st (liability_now_ms ?l) (liability_submit_cost ?l) (liability_rest_cost ?l)"
      "checked_add (next_reservation_generation st) 1 = Some gen"
      "st' = st\<lparr>next_reservation_generation := gen, outstanding := bt_insert gen ?l (outstanding st)\<rparr>"
    using res by (auto simp: reserve_section_def Let_def liability_now_ms_def
        liability_submit_cost_def liability_rest_cost_def split: if_splits option.splits)
  then show ?thesis
  proof cases
    case 1
    then show ?thesis using inv by simp
  next
    case (2 gen)
    have m: "bt_invar (outstanding st)" using inv by (simp add: pair_inv_def)
    note fresh = fresh_generation [OF inv 2(2)]
    have "owed_at liability_submit_cost T ?l = (if unat (liability_now_ms ?l) \<le> T then unat (liability_submit_cost ?l) else 0)"
      "owed_at liability_rest_cost T ?l = (if unat (liability_now_ms ?l) \<le> T then unat (liability_rest_cost ?l) else 0)" for T
      by (simp_all add: owed_at_def)
    then have "due liability_submit_cost (bt_insert gen ?l (outstanding st)) =
        (\<lambda>T. (if unat (liability_now_ms ?l) \<le> T then unat (liability_submit_cost ?l) else 0) + due liability_submit_cost (outstanding st) T)"
      "due liability_rest_cost (bt_insert gen ?l (outstanding st)) =
        (\<lambda>T. (if unat (liability_now_ms ?l) \<le> T then unat (liability_rest_cost ?l) else 0) + due liability_rest_cost (outstanding st) T)"
      by (auto simp: due_insert [OF m fresh(1)])
    then show ?thesis
      using inv submit_lane_reserve [OF inv 2(1)] rest_lane_reserve [OF inv 2(1)] fresh(2)
      by (auto simp: 2(3) pair_inv_def btm.invar_insert btm.get_insert split: if_splits
          intro: order_trans less_imp_le)
  qed
qed

end
