(* ===== verification/RequoteLedger.thy ===== *)
theory RequoteLedger
  imports RequoteBudgetPair
begin

text \<open>
  Every interleaving of the locked sections of \<open>RequoteBudgetPair\<close>: the sections keep the
  ledger invariant, so no section panics and no window of either budget is ever charged beyond
  its cap. The only hypothesis is on the clock of a sink invocation: it is not earlier than the
  time the liability was reserved at.
\<close>

section \<open>Charging sections\<close>

definition same_limits :: "RequoteBudgetPairState \<Rightarrow> RequoteBudgetPairState \<Rightarrow> bool" where
  "same_limits st st' \<longleftrightarrow>
     window_ms (submit_commands st') = window_ms (submit_commands st) \<and>
     max_cost_per_window (submit_commands st') = max_cost_per_window (submit_commands st) \<and>
     window_ms (rest_calls st') = window_ms (rest_calls st) \<and>
     max_cost_per_window (rest_calls st') = max_cost_per_window (rest_calls st) \<and>
     next_reservation_generation st' = next_reservation_generation st"

lemma same_limits_refl [simp]: "same_limits st st"
  by (simp add: same_limits_def)

lemma record_reserved_limits:
  "record_reserved b now c = Some b' \<Longrightarrow>
   window_ms b' = window_ms b \<and> max_cost_per_window b' = max_cost_per_window b"
  by (auto simp: record_reserved_def Let_def)

lemma lane_record:
  assumes "deque.lane_inv b L d" and "t \<le> unat now"
    and "\<And>T. d' T + (if t \<le> T then unat c else 0) \<le> d T"
  obtains b' where "record_reserved b now c = Some b'" and "deque.lane_inv b' (observed b b' L) d'"
proof -
  obtain b' where b': "record_reserved b now c = Some b'"
    "deque.lane_inv b' (L @ [(max (last_emit_nat b) (unat now), unat c)]) d'"
    using deque.lane_charge [OF assms] by blast
  show thesis by (rule that [OF b'(1)]) (simp add: observed_record [OF b'(1)] b'(2))
qed

lemma record_balance_lanes:
  assumes S: "deque.lane_inv (submit_commands st) Ls dS" and R: "deque.lane_inv (rest_calls st) Lr dR"
    and t: "t \<le> unat (lb_now_ms bal)"
    and dS: "\<And>T. dS' T + (if t \<le> T then unat (lb_submit_cost bal) else 0) \<le> dS T"
    and dR: "\<And>T. dR' T + (if t \<le> T then unat (lb_rest_cost bal) else 0) \<le> dR T"
  shows "\<exists>st'. record_balance st bal = Some st' \<and> outstanding st' = outstanding st \<and> same_limits st st' \<and>
    deque.lane_inv (submit_commands st') (observed (submit_commands st) (submit_commands st') Ls) dS' \<and>
    deque.lane_inv (rest_calls st') (observed (rest_calls st) (rest_calls st') Lr) dR'"
proof -
  obtain r where r: "record_reserved (rest_calls st) (lb_now_ms bal) (lb_rest_cost bal) = Some r"
    "deque.lane_inv r (observed (rest_calls st) r Lr) dR'"
    using lane_record [OF R t dR] by blast
  show ?thesis
  proof (cases "0 < lb_submit_cost bal")
    case True
    obtain s where s: "record_reserved (submit_commands st) (lb_now_ms bal) (lb_submit_cost bal) = Some s"
      "deque.lane_inv s (observed (submit_commands st) s Ls) dS'"
      using lane_record [OF S t dS] by blast
    then show ?thesis using True r record_reserved_limits [OF r(1)] record_reserved_limits [OF s(1)]
      by (simp add: record_balance_def same_limits_def)
  next
    case False
    have "dS' T \<le> dS T" for T using dS [of T] by (rule add_leD1)
    then have "deque.lane_inv (submit_commands st) Ls dS'" by (rule deque.lane_release [OF S])
    then show ?thesis using False r record_reserved_limits [OF r(1)]
      by (simp add: record_balance_def same_limits_def)
  qed
qed

text \<open>The facts of an invariant state about one outstanding liability.\<close>

lemma pair_inv_lanes:
  assumes "pair_inv st Ls Lr"
  shows "bt_invar (outstanding st)"
    and "deque.lane_inv (submit_commands st) Ls (due liability_submit_cost (outstanding st))"
    and "deque.lane_inv (rest_calls st) Lr (due liability_rest_cost (outstanding st))"
    and "bt_get (outstanding st) g = Some l \<Longrightarrow> g \<le> next_reservation_generation st"
  using assms by (auto simp: pair_inv_def)

lemma pair_invI:
  assumes "bt_invar (outstanding st)"
    and "\<And>g l. bt_get (outstanding st) g = Some l \<Longrightarrow> g \<le> next_reservation_generation st"
    and "deque.lane_inv (submit_commands st) Ls (due liability_submit_cost (outstanding st))"
    and "deque.lane_inv (rest_calls st) Lr (due liability_rest_cost (outstanding st))"
  shows "pair_inv st Ls Lr"
  using assms by (simp add: pair_inv_def)

lemma remove_outstanding_sel [simp]:
  "submit_commands (remove_outstanding st g) = submit_commands st"
  "rest_calls (remove_outstanding st g) = rest_calls st"
  "next_reservation_generation (remove_outstanding st g) = next_reservation_generation st"
  "outstanding (remove_outstanding st g) = bt_remove g (outstanding st)"
  by (simp_all add: remove_outstanding_def)

lemma remove_outstanding_inv: "pair_inv st Ls Lr \<Longrightarrow> pair_inv (remove_outstanding st g) Ls Lr"
proof (rule pair_invI)
  assume inv: "pair_inv st Ls Lr"
  note L = pair_inv_lanes [OF inv]
  show "bt_invar (outstanding (remove_outstanding st g))"
    using L(1) by (simp add: btm.invar_remove)
  show "deque.lane_inv (submit_commands (remove_outstanding st g)) Ls
      (due liability_submit_cost (outstanding (remove_outstanding st g)))"
    by (simp add: deque.lane_release [OF L(2) due_remove_le [OF L(1)]])
  show "deque.lane_inv (rest_calls (remove_outstanding st g)) Lr
      (due liability_rest_cost (outstanding (remove_outstanding st g)))"
    by (simp add: deque.lane_release [OF L(3) due_remove_le [OF L(1)]])
  fix g' l assume "bt_get (outstanding (remove_outstanding st g)) g' = Some l"
  then show "g' \<le> next_reservation_generation (remove_outstanding st g)"
    using L(4) by (simp add: btm.get_remove [OF L(1)] split: if_splits)
qed

lemma charge_liability_inv:
  assumes inv: "pair_inv st Ls Lr" and get: "bt_get (outstanding st) g = Some l"
    and t: "unat (liability_now_ms l) \<le> unat (lb_now_ms bal)"
    and c: "lb_submit_cost bal \<le> liability_submit_cost l" "lb_rest_cost bal \<le> liability_rest_cost l"
  shows "\<exists>st'. record_balance (remove_outstanding st g) bal = Some st' \<and> same_limits st st' \<and>
    pair_inv st' (observed (submit_commands st) (submit_commands st') Ls)
      (observed (rest_calls st) (rest_calls st') Lr)"
proof -
  let ?m = "bt_remove g (outstanding st)"
  note L = pair_inv_lanes [OF inv]
  have m: "bt_invar ?m" using L(1) by (rule btm.invar_remove)
  have dS: "due liability_submit_cost ?m T + (if unat (liability_now_ms l) \<le> T then unat (lb_submit_cost bal) else 0)
      \<le> due liability_submit_cost (outstanding st) T" for T
    using c(1) by (simp add: due_remove [OF L(1) get] owed_at_def word_le_nat_alt)
  have dR: "due liability_rest_cost ?m T + (if unat (liability_now_ms l) \<le> T then unat (lb_rest_cost bal) else 0)
      \<le> due liability_rest_cost (outstanding st) T" for T
    using c(2) by (simp add: due_remove [OF L(1) get] owed_at_def word_le_nat_alt)
  have "deque.lane_inv (submit_commands (remove_outstanding st g)) Ls (due liability_submit_cost (outstanding st))"
    "deque.lane_inv (rest_calls (remove_outstanding st g)) Lr (due liability_rest_cost (outstanding st))"
    using L(2,3) by simp_all
  note st' = record_balance_lanes [OF this t dS dR]
  then obtain st' where st': "record_balance (remove_outstanding st g) bal = Some st'"
      "outstanding st' = ?m" "same_limits (remove_outstanding st g) st'"
      "deque.lane_inv (submit_commands st') (observed (submit_commands st) (submit_commands st') Ls) (due liability_submit_cost ?m)"
      "deque.lane_inv (rest_calls st') (observed (rest_calls st) (rest_calls st') Lr) (due liability_rest_cost ?m)"
    by (auto simp only: remove_outstanding_sel)
  have "pair_inv st' (observed (submit_commands st) (submit_commands st') Ls)
      (observed (rest_calls st) (rest_calls st') Lr)"
    using st' m L(4) by (intro pair_invI) (auto simp: same_limits_def btm.get_remove [OF L(1)] split: if_splits)
  then show ?thesis using st' by (auto simp: same_limits_def)
qed

lemma split_cancel_resubmit_inv:
  assumes inv: "pair_inv st Ls Lr" and get: "bt_get (outstanding st) g = Some (CancelResubmitBothOutstanding t)"
    and t: "t \<le> now"
  shows "\<exists>st'. settle_section st g now = Some st' \<and> same_limits st st' \<and>
    pair_inv st' (observed (submit_commands st) (submit_commands st') Ls)
      (observed (rest_calls st) (rest_calls st') Lr)"
proof -
  let ?m = "bt_remove g (outstanding st)"
  let ?l = "CancelResubmitReplacementOutstanding now"
  let ?m' = "bt_insert g ?l ?m"
  note L = pair_inv_lanes [OF inv]
  have m: "bt_invar ?m" and m': "bt_invar ?m'" and none: "bt_get ?m g = None"
    using L(1) by (simp_all add: btm.invar_remove btm.invar_insert btm.get_remove)
  have t': "unat (liability_now_ms (CancelResubmitBothOutstanding t)) \<le> unat now"
    using t by (simp add: liability_now_ms_def word_le_nat_alt)
  have "due liability_submit_cost ?m' T \<le> due liability_submit_cost (outstanding st) T" for T
    using t by (simp add: due_remove [OF L(1) get] due_insert [OF m none] owed_at_def
        liability_now_ms_def liability_submit_cost_def word_le_nat_alt)
  then have S: "deque.lane_inv (submit_commands st) Ls (due liability_submit_cost ?m')"
    by (rule deque.lane_release [OF L(2)])
  have "due liability_rest_cost ?m' T +
      (if unat (liability_now_ms (CancelResubmitBothOutstanding t)) \<le> T then unat REST_CALL_COST else 0)
      \<le> due liability_rest_cost (outstanding st) T" for T
    using t by (simp add: due_remove [OF L(1) get] due_insert [OF m none] owed_at_def
        liability_now_ms_def liability_rest_cost_def word_le_nat_alt budget_simps)
  then obtain r where r: "record_reserved (rest_calls st) now REST_CALL_COST = Some r"
    "deque.lane_inv r (observed (rest_calls st) r Lr) (due liability_rest_cost ?m')"
    using lane_record [OF L(3) t'] by blast
  let ?st' = "st\<lparr>outstanding := ?m', rest_calls := r\<rparr>"
  have "pair_inv ?st' Ls (observed (rest_calls st) r Lr)"
    using S r(2) m' L(4) get by (intro pair_invI)
      (auto simp: btm.get_insert [OF m] btm.get_remove [OF L(1)] split: if_splits)
  moreover have "settle_section st g now = Some ?st'"
    using get r(1) by (simp add: settle_section_def Let_def remove_outstanding_def)
  ultimately show ?thesis using record_reserved_limits [OF r(1)] by (auto simp: same_limits_def)
qed

lemma settle_section_inv:
  assumes inv: "pair_inv st Ls Lr"
    and clock: "\<And>l. bt_get (outstanding st) g = Some l \<Longrightarrow> liability_now_ms l \<le> now"
  shows "\<exists>st'. settle_section st g now = Some st' \<and> same_limits st st' \<and>
    pair_inv st' (observed (submit_commands st) (submit_commands st') Ls)
      (observed (rest_calls st) (rest_calls st') Lr)"
proof (cases "bt_get (outstanding st) g")
  case None
  then show ?thesis using inv by (simp add: settle_section_def)
next
  case (Some l)
  have t: "unat (liability_now_ms l) \<le> unat now"
    using clock [OF Some] by (simp add: word_le_nat_alt)
  show ?thesis
  proof (cases l)
    case (OneShot bal)
    then show ?thesis
      using charge_liability_inv [OF inv Some, of "bal\<lparr>lb_now_ms := now\<rparr>"] t Some
      by (simp add: settle_section_def liability_submit_cost_def liability_rest_cost_def)
  next
    case (CancelResubmitBothOutstanding t')
    then show ?thesis
      using split_cancel_resubmit_inv [OF inv] Some clock [OF Some]
      by (simp add: liability_now_ms_def)
  next
    case (CancelResubmitReplacementOutstanding t')
    then show ?thesis
      using charge_liability_inv [OF inv Some, of "\<lparr>lb_now_ms = now, lb_submit_cost = SUBMIT_COMMAND_COST,
          lb_rest_cost = REST_CALL_COST\<rparr>"] t Some
      by (simp add: settle_section_def liability_submit_cost_def liability_rest_cost_def)
  qed
qed

lemma commit_section_inv:
  assumes inv: "pair_inv st Ls Lr"
  shows "\<exists>st'. commit_section st g = Some st' \<and> same_limits st st' \<and>
    pair_inv st' (observed (submit_commands st) (submit_commands st') Ls)
      (observed (rest_calls st) (rest_calls st') Lr)"
proof (cases "bt_get (outstanding st) g")
  case None
  then show ?thesis using inv by (simp add: commit_section_def)
next
  case (Some l)
  then show ?thesis using charge_liability_inv [OF inv Some, of "balance l"]
    by (simp add: commit_section_def liability_now_ms_def liability_submit_cost_def liability_rest_cost_def)
qed

section \<open>Runs\<close>

text \<open>
  One locked section of the pair. \<open>settle\<close> carries the clock hypothesis; \<open>discard\<close> is the section
  of an abort and of a drop.
\<close>

inductive pair_step :: "RequoteBudgetPairState \<Rightarrow> RequoteBudgetPairState \<Rightarrow> bool" where
  reserve: "reserve_section st prop = (st', r) \<Longrightarrow> pair_step st st'"
| settle: "settle_section st g now = Some st' \<Longrightarrow>
     (\<And>l. bt_get (outstanding st) g = Some l \<Longrightarrow> liability_now_ms l \<le> now) \<Longrightarrow> pair_step st st'"
| commit: "commit_section st g = Some st' \<Longrightarrow> pair_step st st'"
| discard: "pair_step st (remove_outstanding st g)"

inductive ledger_run :: "RequoteBudgetPairState \<Rightarrow> RequoteBudgetPairState \<Rightarrow> charge list \<Rightarrow> charge list \<Rightarrow> bool"
  for st0 where
  start: "ledger_run st0 st0 [] []"
| step: "ledger_run st0 st Ls Lr \<Longrightarrow> pair_step st st' \<Longrightarrow>
     ledger_run st0 st' (observed (submit_commands st) (submit_commands st') Ls)
       (observed (rest_calls st) (rest_calls st') Lr)"

lemma same_limits_trans: "same_limits st st' \<Longrightarrow> same_limits st' st'' \<Longrightarrow> same_limits st st''"
  by (simp add: same_limits_def)

definition same_caps :: "RequoteBudgetPairState \<Rightarrow> RequoteBudgetPairState \<Rightarrow> bool" where
  "same_caps st st' \<longleftrightarrow>
     window_ms (submit_commands st') = window_ms (submit_commands st) \<and>
     max_cost_per_window (submit_commands st') = max_cost_per_window (submit_commands st) \<and>
     window_ms (rest_calls st') = window_ms (rest_calls st) \<and>
     max_cost_per_window (rest_calls st') = max_cost_per_window (rest_calls st)"

lemma pair_step_inv:
  assumes "pair_step st st'" and inv: "pair_inv st Ls Lr"
  shows "pair_inv st' (observed (submit_commands st) (submit_commands st') Ls)
      (observed (rest_calls st) (rest_calls st') Lr) \<and> same_caps st st'"
  using assms(1)
proof cases
  case (reserve pr r)
  then show ?thesis using reserve_section_inv [OF inv reserve] by (simp add: same_caps_def)
next
  case (settle g now)
  then show ?thesis using settle_section_inv [OF inv, of g now] by (auto simp: same_caps_def same_limits_def)
next
  case (commit g)
  then show ?thesis using commit_section_inv [OF inv, of g] by (auto simp: same_caps_def same_limits_def)
next
  case (discard g)
  then show ?thesis using remove_outstanding_inv [OF inv] by (simp add: same_caps_def)
qed

definition fresh_pair :: "u64 \<Rightarrow> u64 \<Rightarrow> u64 \<Rightarrow> u64 \<Rightarrow> u64 \<Rightarrow> u64 \<Rightarrow> RequoteBudgetPairState" where
  "fresh_pair scap sw si rcap rw ri =
     RequoteBudgetPair_new (RequoteBudget_new scap sw si) (RequoteBudget_new rcap rw ri)"

lemma fresh_lane: "deque.lane_inv (RequoteBudget_new cap w i) [] (due cost [])"
  unfolding deque.lane_inv_def using budget_rel_new [of cap w i]
  by (simp add: due_def btm.total_def last_emit_nat_def RequoteBudget_new_def)

lemma fresh_pair_inv: "pair_inv (fresh_pair scap sw si rcap rw ri) [] []"
  by (rule pair_invI) (simp_all add: fresh_pair_def RequoteBudgetPair_new_def fresh_lane
      btm.invar_empty btm.get_empty)

lemma ledger_run_inv:
  assumes "ledger_run st0 st Ls Lr" and "pair_inv st0 [] []"
  shows "pair_inv st Ls Lr \<and> same_caps st0 st"
  using assms
proof (induction rule: ledger_run.induct)
  case start
  then show ?case by (simp add: same_caps_def)
next
  case (step st Ls Lr st')
  then show ?case using pair_step_inv [OF step(2)] by (auto simp: same_caps_def)
qed


text \<open>A concrete run for the witnesses: one fresh submit, reserved at 1000 ms and settled at 1005 ms.\<close>

definition demo_pair :: RequoteBudgetPairState where
  "demo_pair = fresh_pair 40 60000 100 100 60000 100"

definition demo_proposal :: RequoteBudgetReservationProposal where
  "demo_proposal = \<lparr>proposal_liability = OneShot \<lparr>lb_now_ms = 1000, lb_submit_cost = 1, lb_rest_cost = 1\<rparr>\<rparr>"

definition demo_reserved :: RequoteBudgetPairState where
  "demo_reserved = demo_pair\<lparr>next_reservation_generation := 1,
     outstanding := [(1, proposal_liability demo_proposal)]\<rparr>"

definition demo_charged :: RequoteBudgetPairState where
  "demo_charged = demo_pair\<lparr>next_reservation_generation := 1, outstanding := [],
     submit_commands := (submit_commands demo_pair)\<lparr>emits := [(1005, 1)], window_cost := 1, last_emit_ms := Some 1005\<rparr>,
     rest_calls := (rest_calls demo_pair)\<lparr>emits := [(1005, 1)], window_cost := 1, last_emit_ms := Some 1005\<rparr>\<rparr>"

lemmas budget_eval =
  reserve_section_def has_capacity_def try_acquire_def evict_def push_emit_def checked_add_def
  bt_values_def bt_get_def liability_submit_cost_def liability_rest_cost_def liability_now_ms_def
  settle_section_def commit_section_def record_balance_def record_reserved_def remove_outstanding_def
  RequoteBudget_new_def RequoteBudgetPair_new_def fresh_pair_def INITIAL_WINDOW_COST_def Let_def

lemma demo_reserve: "reserve_section demo_pair demo_proposal = (demo_reserved, Inr 1)"
  by (simp add: demo_pair_def demo_proposal_def demo_reserved_def budget_eval)

lemma demo_settle: "settle_section demo_reserved 1 1005 = Some demo_charged"
  by (simp add: demo_pair_def demo_proposal_def demo_reserved_def demo_charged_def budget_eval)

lemma demo_clock: "bt_get (outstanding demo_reserved) 1 = Some l \<Longrightarrow> liability_now_ms l \<le> 1005"
  by (auto simp: demo_reserved_def demo_proposal_def bt_get_def liability_now_ms_def)

lemma demo_run_reserved: "ledger_run demo_pair demo_reserved [] []"
proof -
  have "ledger_run demo_pair demo_reserved
      (observed (submit_commands demo_pair) (submit_commands demo_reserved) [])
      (observed (rest_calls demo_pair) (rest_calls demo_reserved) [])"
    by (rule ledger_run.step [OF ledger_run.start pair_step.reserve [OF demo_reserve]])
  then show ?thesis by (simp add: demo_reserved_def)
qed

lemma demo_run: "ledger_run demo_pair demo_charged [(1005, 1)] [(1005, 1)]"
proof -
  have "ledger_run demo_pair demo_charged
      (observed (submit_commands demo_reserved) (submit_commands demo_charged) [])
      (observed (rest_calls demo_reserved) (rest_calls demo_charged) [])"
    by (rule ledger_run.step [OF demo_run_reserved pair_step.settle [OF demo_settle demo_clock]])
  moreover have "observed (submit_commands demo_reserved) (submit_commands demo_charged) [] = [(1005, 1)]"
    and "observed (rest_calls demo_reserved) (rest_calls demo_charged) [] = [(1005, 1)]"
    by (simp_all add: observed_def demo_pair_def demo_reserved_def demo_charged_def abs_emits_def budget_eval)
  ultimately show ?thesis by simp
qed


text \<open>
  No section of the gate panics. In every reachable state the sections that call
  \<open>record_reserved\<close> (a sink settlement with a clock not earlier than the reservation it settles,
  and a commit) return: the \<open>expect\<close> on the window sum is never hit.
\<close>

theorem requote_gate_no_panic:
  assumes "ledger_run (fresh_pair scap sw si rcap rw ri) st Ls Lr"
    and "\<And>l. bt_get (outstanding st) g = Some l \<Longrightarrow> liability_now_ms l \<le> now"
  shows "settle_section st g now \<noteq> None \<and> commit_section st g \<noteq> None"
proof -
  have inv: "pair_inv st Ls Lr" using ledger_run_inv [OF assms(1) fresh_pair_inv] by simp
  show ?thesis using settle_section_inv [OF inv assms(2)] commit_section_inv [OF inv, of g] by auto
qed

theorem requote_gate_no_panic_witness:
  "settle_section demo_reserved 1 1005 \<noteq> None \<and> commit_section demo_reserved 1 \<noteq> None"
  by (rule requote_gate_no_panic [OF demo_run_reserved [unfolded demo_pair_def] demo_clock])

section \<open>What a reservation costs\<close>

text \<open>
  A cancel+resubmit reservation is charged exactly one submit command and two REST calls.
  The first sink settlement charges one REST call and keeps the replacement outstanding, the
  second charges one submit command and one REST call and clears it, and a further settlement
  changes nothing.
\<close>

theorem cancel_resubmit_charged_once:
  assumes run: "ledger_run (fresh_pair scap sw si rcap rw ri) st Ls Lr"
    and get: "bt_get (outstanding st) g = Some (CancelResubmitBothOutstanding t)"
    and clock: "t \<le> n1" "n1 \<le> n2"
  shows "\<exists>st1 st2 r1 r2 s2.
    settle_section st g n1 = Some st1 \<and> settle_section st1 g n2 = Some st2 \<and>
    record_reserved (rest_calls st) n1 1 = Some r1 \<and>
    record_reserved r1 n2 1 = Some r2 \<and> record_reserved (submit_commands st) n2 1 = Some s2 \<and>
    rest_calls st1 = r1 \<and> submit_commands st1 = submit_commands st \<and>
    bt_get (outstanding st1) g = Some (CancelResubmitReplacementOutstanding n1) \<and>
    rest_calls st2 = r2 \<and> submit_commands st2 = s2 \<and>
    bt_get (outstanding st2) g = None \<and> settle_section st2 g n3 = Some st2"
proof -
  have inv: "pair_inv st Ls Lr" using ledger_run_inv [OF run fresh_pair_inv] by simp
  obtain st1 Ls1 Lr1 where st1: "settle_section st g n1 = Some st1" and inv1: "pair_inv st1 Ls1 Lr1"
    using settle_section_inv [OF inv, of g n1] get clock by (auto simp: liability_now_ms_def)
  have m: "bt_invar (outstanding st)" using pair_inv_lanes [OF inv] by simp
  obtain r1 where r1: "record_reserved (rest_calls st) n1 1 = Some r1"
    "st1 = st\<lparr>outstanding := bt_insert g (CancelResubmitReplacementOutstanding n1) (bt_remove g (outstanding st)),
        rest_calls := r1\<rparr>"
    using st1 get by (auto simp: settle_section_def Let_def remove_outstanding_def budget_simps)
  have get1: "bt_get (outstanding st1) g = Some (CancelResubmitReplacementOutstanding n1)"
    using r1(2) m by (simp add: btm.get_insert btm.invar_remove)
  obtain st2 where st2: "settle_section st1 g n2 = Some st2"
    using settle_section_inv [OF inv1, of g n2] get1 clock by (auto simp: liability_now_ms_def)
  obtain s2 r2 where s2: "record_reserved (submit_commands st) n2 1 = Some s2"
      "record_reserved r1 n2 1 = Some r2"
      "st2 = (remove_outstanding st1 g)\<lparr>submit_commands := s2, rest_calls := r2\<rparr>"
    using st2 get1 r1(2)
    by (auto simp: settle_section_def record_balance_def remove_outstanding_def Let_def budget_simps
        split: if_splits bind_splits)
  have "bt_get (outstanding st2) g = None"
    using s2(3) pair_inv_lanes(1) [OF inv1] by (simp add: btm.get_remove)
  then show ?thesis using st1 st2 r1 get1 s2 by (auto simp: settle_section_def)
qed

text \<open>A reserved cancel+resubmit on the demonstration pair.\<close>

definition demo_requote :: RequoteBudgetPairState where
  "demo_requote = demo_pair\<lparr>next_reservation_generation := 1,
     outstanding := [(1, CancelResubmitBothOutstanding 1000)]\<rparr>"

lemma demo_run_requote: "ledger_run demo_pair demo_requote [] []"
proof -
  have r: "reserve_section demo_pair \<lparr>proposal_liability = CancelResubmitBothOutstanding 1000\<rparr> = (demo_requote, Inr 1)"
    by (simp add: demo_pair_def demo_requote_def budget_eval budget_simps)
  have "ledger_run demo_pair demo_requote
      (observed (submit_commands demo_pair) (submit_commands demo_requote) [])
      (observed (rest_calls demo_pair) (rest_calls demo_requote) [])"
    by (rule ledger_run.step [OF ledger_run.start pair_step.reserve [OF r]])
  then show ?thesis by (simp add: demo_requote_def)
qed

theorem cancel_resubmit_charged_once_witness:
  "\<exists>st1 st2. settle_section demo_requote 1 1005 = Some st1 \<and> settle_section st1 1 1009 = Some st2 \<and>
     bt_get (outstanding st2) 1 = None"
proof -
  have "bt_get (outstanding demo_requote) 1 = Some (CancelResubmitBothOutstanding 1000)"
    by (simp add: demo_requote_def bt_get_def)
  from cancel_resubmit_charged_once [OF demo_run_requote [unfolded demo_pair_def] this, of 1005 1009 0]
  show ?thesis by auto
qed

section \<open>Admission is all or nothing\<close>

lemma reserve_section_granted:
  assumes "reserve_section st pr = (st', Inr g)"
  shows "checked_add (next_reservation_generation st) 1 = Some g"
    and "st' = st\<lparr>next_reservation_generation := g,
                outstanding := bt_insert g (proposal_liability pr) (outstanding st)\<rparr>"
    and "has_capacity st (proposal_now_ms pr) (liability_submit_cost (proposal_liability pr))
           (liability_rest_cost (proposal_liability pr))"
  using assms by (auto simp: reserve_section_def Let_def proposal_now_ms_def liability_now_ms_def
      liability_submit_cost_def liability_rest_cost_def split: if_splits option.splits)

lemma reserve_section_denied: "reserve_section st pr = (st', Inl e) \<Longrightarrow> st' = st \<and> e \<noteq> StaleReservation"
  by (auto simp: reserve_section_def Let_def split: if_splits option.splits)

lemma propose_granted_iff:
  "propose st l = Inr p \<longleftrightarrow>
     has_capacity st (liability_now_ms l) (liability_submit_cost l) (liability_rest_cost l) \<and>
     p = \<lparr>proposal_liability = l\<rparr>"
  by (auto simp: propose_def Let_def liability_now_ms_def liability_submit_cost_def
      liability_rest_cost_def)

text \<open>Aborting a reservation that was just granted.\<close>

lemma abort_reserved:
  assumes inv: "pair_inv (B ref) Ls Lr" and gen: "checked_add (next_reservation_generation (B ref)) 1 = Some g"
  shows "abort (B(ref := (B ref)\<lparr>next_reservation_generation := g, outstanding := bt_insert g l (outstanding (B ref))\<rparr>))
      \<lparr>res_budget = ref, res_generation = g, res_phase = Refundable\<rparr> =
    Some (B(ref := (B ref)\<lparr>next_reservation_generation := g\<rparr>), Inr ())"
proof -
  have fresh: "bt_get (outstanding (B ref)) g = None" using fresh_generation [OF inv gen] by simp
  have m: "bt_invar (outstanding (B ref))" using pair_inv_lanes [OF inv] by simp
  have "bt_remove g (bt_insert g l (outstanding (B ref))) = outstanding (B ref)"
    by (rule bt_remove_insert_fresh [OF m fresh])
  moreover have "bt_get (bt_insert g l (outstanding (B ref))) g = Some l" using m by (simp add: btm.get_insert)
  ultimately show ?thesis using fresh
    by (simp add: abort_def settle_aborted_def drop_reservation_def
        settle_prepared_sink_invocation_def remove_outstanding_def bt_remove_absent)
qed

text \<open>
  C13. Reserving is atomic over the two budgets. A denied reservation leaves the pair exactly as
  it was. A granted one charges neither budget and adds exactly its own liability under a
  generation no outstanding liability has. Aborting it before its sink is invoked returns \<open>Ok\<close>
  and restores the pair, up to the consumed generation number.
\<close>

theorem reserve_abort_round_trip:
  assumes run: "ledger_run (fresh_pair scap sw si rcap rw ri) (B ref) Ls Lr"
  shows "case reserve B ref pr of
      (B', Inl e) \<Rightarrow> B' = B
    | (B', Inr r) \<Rightarrow>
        submit_commands (B' ref) = submit_commands (B ref) \<and> rest_calls (B' ref) = rest_calls (B ref) \<and>
        bt_get (outstanding (B ref)) (res_generation r) = None \<and>
        outstanding (B' ref) = bt_insert (res_generation r) (proposal_liability pr) (outstanding (B ref)) \<and>
        abort B' r = Some (B(ref := (B ref)\<lparr>next_reservation_generation := res_generation r\<rparr>), Inr ())"
proof -
  have inv: "pair_inv (B ref) Ls Lr" using ledger_run_inv [OF run fresh_pair_inv] by simp
  obtain st' res where sec: "reserve_section (B ref) pr = (st', res)" by fastforce
  show ?thesis
  proof (cases res)
    case (Inl e)
    then have "st' = B ref" using reserve_section_denied sec by auto
    then show ?thesis using sec Inl by (simp add: reserve_def)
  next
    case (Inr g)
    note gr = reserve_section_granted [OF sec [unfolded Inr]]
    have fresh: "bt_get (outstanding (B ref)) g = None" using fresh_generation [OF inv gr(1)] by simp
    show ?thesis using sec Inr fresh abort_reserved [where B = B and ref = ref, OF inv gr(1)] by (simp add: reserve_def gr(2))
  qed
qed

theorem reserve_abort_round_trip_witness:
  "\<exists>B' r. reserve (\<lambda>_. demo_pair) 0 demo_proposal = (B', Inr r) \<and>
     abort B' r = Some ((\<lambda>_. demo_pair)(0 := demo_pair\<lparr>next_reservation_generation := 1\<rparr>), Inr ())"
  using reserve_abort_round_trip [of 40 60000 100 100 60000 100 "\<lambda>_. demo_pair" 0 "[]" "[]" demo_proposal]
    ledger_run.start [of demo_pair]
  by (simp add: demo_pair_def [symmetric] reserve_def demo_reserve)

text \<open>
  A proposal is honoured. If a proposal was granted on a state, reserving it on that state
  succeeds unless the 64-bit generation counter is exhausted, and then only that is reported.
\<close>

theorem proposal_is_honoured:
  assumes "propose st l = Inr p"
  shows "snd (reserve_section st p) =
    (if next_reservation_generation st = - 1 then Inl GenerationOverflow
     else Inr (next_reservation_generation st + 1))"
proof -
  have cap: "has_capacity st (liability_now_ms l) (liability_submit_cost l) (liability_rest_cost l)"
    and p: "p = \<lparr>proposal_liability = l\<rparr>"
    using assms by (auto simp: propose_granted_iff)
  show ?thesis using cap
    by (simp add: reserve_section_def p liability_now_ms_def liability_submit_cost_def
        liability_rest_cost_def checked_add_one)
qed

theorem proposal_is_honoured_witness:
  "snd (reserve_section demo_pair demo_proposal) = Inr 1"
proof -
  have "propose demo_pair (proposal_liability demo_proposal) = Inr demo_proposal"
    using reserve_section_granted(3) [OF demo_reserve]
    by (simp add: propose_granted_iff proposal_now_ms_def demo_proposal_def)
  from proposal_is_honoured [OF this] show ?thesis
    by (simp add: demo_pair_def fresh_pair_def RequoteBudgetPair_new_def)
qed

end
