(* ===== verification/MakerRateBudget.thy ===== *)
theory MakerRateBudget
  imports RustStr RequoteLedger
begin

text \<open>
  Where the caps of the requote gate come from: \<open>validate_rate_limit_string\<close> of
  \<open>src/src/bolt_v3_validate/rate_limit.rs\<close>, the one parser of \<open>limit/HH:MM:SS\<close> rate strings, and
  \<open>build_requote_budget_pair\<close> of \<open>src/src/bolt_v3_maker_rate_budget.rs\<close>. Error messages are the
  values of a datatype, one constructor per message.
\<close>

section \<open>Rate strings\<close>

definition SECONDS_PER_HOUR :: u64 where "SECONDS_PER_HOUR = 3600"

definition SECONDS_PER_MINUTE :: u64 where "SECONDS_PER_MINUTE = 60"

definition MILLIS_PER_SECOND_U64 :: u64 where "MILLIS_PER_SECOND_U64 = 1000"

definition MILLIS_PER_MINUTE_U64 :: u64 where "MILLIS_PER_MINUTE_U64 = 60000"

datatype RatePart = Hours | Minutes | Seconds

datatype RateLimitError =
    ExpectedLimitInterval
  | LimitParse ParseIntError
  | LimitZero
  | MissingComponent RatePart
  | ComponentParse RatePart ParseIntError
  | MinutesTooLarge
  | SecondsTooLarge
  | IntervalZero
  | IntervalSecondsOverflow

definition next_part :: "RatePart \<Rightarrow> string list \<Rightarrow> RateLimitError + (u64 \<times> string list)" where
  "next_part label parts =
     (case parts of
        [] \<Rightarrow> Inl (MissingComponent label)
      | p # rest \<Rightarrow>
          (case parse_u64 p of
             Inl e \<Rightarrow> Inl (ComponentParse label e)
           | Inr n \<Rightarrow> Inr (n, rest)))"

definition interval_seconds :: "u64 \<Rightarrow> u64 \<Rightarrow> u64 \<Rightarrow> u64 option" where
  "interval_seconds hours minutes seconds = do {
     h \<leftarrow> checked_mul hours SECONDS_PER_HOUR;
     s \<leftarrow> checked_add h (minutes * SECONDS_PER_MINUTE);
     checked_add s seconds
   }"

definition validate_rate_limit_string :: "string \<Rightarrow> RateLimitError + (u64 \<times> u64)" where
  "validate_rate_limit_string value =
     (case split_once (CHR ''/'') value of
        None \<Rightarrow> Inl ExpectedLimitInterval
      | Some (limit_str, interval) \<Rightarrow>
          (case parse_u64 limit_str of
             Inl e \<Rightarrow> Inl (LimitParse e)
           | Inr limit \<Rightarrow>
               if limit = 0 then Inl LimitZero
               else (case next_part Hours (split_on (CHR '':'') interval) of
                   Inl e \<Rightarrow> Inl e
                 | Inr (hours, parts1) \<Rightarrow>
                     (case next_part Minutes parts1 of
                        Inl e \<Rightarrow> Inl e
                      | Inr (minutes, parts2) \<Rightarrow>
                          (case next_part Seconds parts2 of
                             Inl e \<Rightarrow> Inl e
                           | Inr (seconds, parts3) \<Rightarrow>
                               if parts3 \<noteq> [] then Inl ExpectedLimitInterval
                               else if 60 \<le> minutes then Inl MinutesTooLarge
                               else if 60 \<le> seconds then Inl SecondsTooLarge
                               else if hours = 0 \<and> minutes = 0 \<and> seconds = 0 then Inl IntervalZero
                               else (case interval_seconds hours minutes seconds of
                                   None \<Rightarrow> Inl IntervalSecondsOverflow
                                 | Some secs \<Rightarrow> Inr (limit, secs)))))))"

section \<open>Building the gate\<close>

datatype RateBudgetError =
    InvalidSubmitRate RateLimitError
  | SubmitWindowOverflow
  | RestCapBelowRepriceCost
  | ZeroMinInterval

definition build_requote_budget_pair :: "string \<Rightarrow> u32 \<Rightarrow> u64 \<Rightarrow> RateBudgetError + RequoteBudgetPairState" where
  "build_requote_budget_pair submit_rate rest_cap_per_minute min_interval =
     (case validate_rate_limit_string submit_rate of
        Inl e \<Rightarrow> Inl (InvalidSubmitRate e)
      | Inr (submit_limit, submit_interval_seconds) \<Rightarrow>
          (case checked_mul submit_interval_seconds MILLIS_PER_SECOND_U64 of
             None \<Rightarrow> Inl SubmitWindowOverflow
           | Some submit_window_ms \<Rightarrow>
               if ucast rest_cap_per_minute < CANCEL_RESUBMIT_REST_COST then Inl RestCapBelowRepriceCost
               else if min_interval = 0 then Inl ZeroMinInterval
               else Inr (RequoteBudgetPair_new
                      (RequoteBudget_new submit_limit submit_window_ms min_interval)
                      (RequoteBudget_new (ucast rest_cap_per_minute) MILLIS_PER_MINUTE_U64 min_interval))))"

section \<open>What the parser accepts\<close>

lemma interval_seconds_Some:
  assumes "interval_seconds h m s = Some r" and "m < 60"
  shows "unat r = 3600 * unat h + 60 * unat m + unat s"
proof -
  obtain a b where a: "checked_mul h SECONDS_PER_HOUR = Some a"
    and b: "checked_add a (m * SECONDS_PER_MINUTE) = Some b" and r: "checked_add b s = Some r"
    using assms(1) unfolding interval_seconds_def bind_eq_Some_conv by blast
  have "unat m < 60" using assms(2) by (simp add: word_less_nat_alt)
  then have "unat (m * SECONDS_PER_MINUTE) = unat m * 60"
    by (simp add: unat_word_ariths SECONDS_PER_MINUTE_def)
  then show ?thesis
    using unat_checked_mul [OF a] unat_checked_add [OF b] unat_checked_add [OF r]
    by (simp add: SECONDS_PER_HOUR_def)
qed

lemma next_part_Inr: "next_part label parts = Inr (n, rest) \<longleftrightarrow>
    (\<exists>p. parts = p # rest \<and> parse_u64 p = Inr n)"
  by (cases parts) (auto simp: next_part_def split: sum.splits)

text \<open>The accepting path of the parser, as the list of what it has checked.\<close>

lemma validate_rate_limit_string_Inr:
  "validate_rate_limit_string v = Inr (limit, secs) \<longleftrightarrow>
     (\<exists>ls iv hs ms ss h m s.
        split_once (CHR ''/'') v = Some (ls, iv) \<and> parse_u64 ls = Inr limit \<and> limit \<noteq> 0 \<and>
        split_on (CHR '':'') iv = [hs, ms, ss] \<and>
        parse_u64 hs = Inr h \<and> parse_u64 ms = Inr m \<and> parse_u64 ss = Inr s \<and>
        \<not> 60 \<le> m \<and> \<not> 60 \<le> s \<and> \<not> (h = 0 \<and> m = 0 \<and> s = 0) \<and>
        interval_seconds h m s = Some secs)" (is "?L \<longleftrightarrow> ?R")
proof
  assume L: ?L
  obtain ls iv where 1: "split_once (CHR ''/'') v = Some (ls, iv)"
    using L by (cases "split_once (CHR ''/'') v") (auto simp: validate_rate_limit_string_def)
  obtain l where 2: "parse_u64 ls = Inr l"
    using L 1 by (cases "parse_u64 ls") (auto simp: validate_rate_limit_string_def)
  have 3: "l \<noteq> 0" using L 1 2 by (auto simp: validate_rate_limit_string_def)
  obtain h p1 where 4: "next_part Hours (split_on (CHR '':'') iv) = Inr (h, p1)"
    using L 1 2 3 by (cases "next_part Hours (split_on (CHR '':'') iv)") (auto simp: validate_rate_limit_string_def)
  obtain m p2 where 5: "next_part Minutes p1 = Inr (m, p2)"
    using L 1 2 3 4 by (cases "next_part Minutes p1") (auto simp: validate_rate_limit_string_def)
  obtain s p3 where 6: "next_part Seconds p2 = Inr (s, p3)"
    using L 1 2 3 4 5 by (cases "next_part Seconds p2") (auto simp: validate_rate_limit_string_def)
  have 7: "p3 = []" "\<not> 60 \<le> m" "\<not> 60 \<le> s" "\<not> (h = 0 \<and> m = 0 \<and> s = 0)"
    "interval_seconds h m s = Some secs" "l = limit"
    using L 1 2 3 4 5 6 unfolding validate_rate_limit_string_def
    by (simp_all split: if_split_asm option.splits)
  show ?R using 1 2 3 4 5 6 7 unfolding next_part_Inr by blast
next
  assume ?R
  then show ?L by (elim exE conjE) (simp add: validate_rate_limit_string_def next_part_def)
qed

lemma validate_rate_limit_string_bounds:
  assumes "validate_rate_limit_string v = Inr (limit, secs)"
  shows "0 < limit \<and> 0 < secs"
proof -
  obtain h m s where l: "limit \<noteq> 0" and hms: "\<not> 60 \<le> m" "\<not> (h = 0 \<and> m = 0 \<and> s = 0)"
    and secs: "interval_seconds h m s = Some secs"
    using assms unfolding validate_rate_limit_string_Inr by blast
  have "unat secs = 3600 * unat h + 60 * unat m + unat s"
    by (rule interval_seconds_Some [OF secs]) (use hms(1) in simp)
  moreover have "unat h \<noteq> 0 \<or> unat m \<noteq> 0 \<or> unat s \<noteq> 0" using hms(2) by (simp add: unat_eq_0)
  ultimately have "0 < unat secs" by linarith
  then show ?thesis using l by (simp add: word_gt_0 flip: unat_gt_0)
qed

text \<open>The text the parser is for, with each number in decimal notation.\<close>

definition rate_string :: "nat \<Rightarrow> nat \<Rightarrow> nat \<Rightarrow> nat \<Rightarrow> string" where
  "rate_string limit h m s =
     decimal limit @ CHR ''/'' # (decimal h @ CHR '':'' # (decimal m @ CHR '':'' # decimal s))"

lemma rate_string_parts:
  "split_once (CHR ''/'') (rate_string l h m s) =
     Some (decimal l, decimal h @ CHR '':'' # (decimal m @ CHR '':'' # decimal s))"
  "split_on (CHR '':'') (decimal h @ CHR '':'' # (decimal m @ CHR '':'' # decimal s)) =
     [decimal h, decimal m, decimal s]"
  unfolding rate_string_def
  by (simp_all add: split_once_sep split_on_sep split_on_free decimal_free)

lemma interval_seconds_fits:
  assumes "m < 60" and "3600 * h + 60 * m + s < 2 ^ 64"
  shows "interval_seconds (of_nat h) (of_nat m) (of_nat s) = Some (of_nat (3600 * h + 60 * m + s))"
proof -
  have u: "unat (of_nat h :: u64) = h" "unat (of_nat m :: u64) = m" "unat (of_nat s :: u64) = s"
    using assms by (simp_all add: unat_of_nat)
  have a: "checked_mul (of_nat h) SECONDS_PER_HOUR = Some (of_nat h * SECONDS_PER_HOUR)"
    using assms(2) by (simp add: checked_mul_def SECONDS_PER_HOUR_def u)
  have ua: "unat (of_nat h * SECONDS_PER_HOUR) = 3600 * h"
    using unat_checked_mul [OF a] by (simp add: u SECONDS_PER_HOUR_def)
  have um: "unat (of_nat m * SECONDS_PER_MINUTE) = 60 * m"
    using assms(1) by (simp add: unat_word_ariths SECONDS_PER_MINUTE_def u)
  have b: "checked_add (of_nat h * SECONDS_PER_HOUR) (of_nat m * SECONDS_PER_MINUTE) =
      Some (of_nat h * SECONDS_PER_HOUR + of_nat m * SECONDS_PER_MINUTE)"
    by (rule checked_add_fits) (use assms(2) in \<open>simp add: ua um\<close>)
  have c: "checked_add (of_nat h * SECONDS_PER_HOUR + of_nat m * SECONDS_PER_MINUTE) (of_nat s) =
      Some (of_nat h * SECONDS_PER_HOUR + of_nat m * SECONDS_PER_MINUTE + of_nat s)"
    by (rule checked_add_fits) (use assms(2) in \<open>simp add: unat_checked_add [OF b] ua um u\<close>)
  show ?thesis
    by (simp add: interval_seconds_def a b c) (simp add: SECONDS_PER_HOUR_def SECONDS_PER_MINUTE_def)
qed



section \<open>What the built gate promises\<close>

text \<open>A budget pair as \<open>build_requote_budget_pair\<close> returns it: every limit is usable.\<close>

lemma build_requote_budget_pair_Inr:
  assumes "build_requote_budget_pair rate rest_cap i = Inr st"
  obtains scap sw where "st = fresh_pair scap sw i (ucast rest_cap) MILLIS_PER_MINUTE_U64 i"
    and "0 < scap" and "0 < sw" and "CANCEL_RESUBMIT_REST_COST \<le> ucast rest_cap" and "0 < i"
proof -
  obtain l secs where v: "validate_rate_limit_string rate = Inr (l, secs)"
    using assms by (cases "validate_rate_limit_string rate") (auto simp: build_requote_budget_pair_def)
  obtain w where w: "checked_mul secs MILLIS_PER_SECOND_U64 = Some w"
    using assms v by (cases "checked_mul secs MILLIS_PER_SECOND_U64") (auto simp: build_requote_budget_pair_def)
  have c: "\<not> (ucast rest_cap < CANCEL_RESUBMIT_REST_COST)" "i \<noteq> 0"
    using assms v w by (auto simp: build_requote_budget_pair_def split: if_split_asm)
  have pos: "0 < l" "0 < secs" using validate_rate_limit_string_bounds [OF v] by simp_all
  have "0 < w" using unat_checked_mul [OF w] pos(2) by (simp add: MILLIS_PER_SECOND_U64_def word_less_nat_alt)
  moreover have "st = fresh_pair l w i (ucast rest_cap) MILLIS_PER_MINUTE_U64 i"
    using assms v w c by (simp add: build_requote_budget_pair_def fresh_pair_def)
  ultimately show ?thesis using that [of l w] pos c by (simp add: not_less word_gt_0)
qed

lemma quiet_capacity:
  assumes inv: "pair_inv st Ls Lr" and out: "outstanding st = []"
    and q: "quiet_since_last (submit_commands st) now" "quiet_since_last (rest_calls st) now"
    and sc: "0 < sc" "sc \<le> max_cost_per_window (submit_commands st)" "0 < window_ms (submit_commands st)"
    and rc: "0 < rc" "rc \<le> max_cost_per_window (rest_calls st)" "0 < window_ms (rest_calls st)"
  shows "has_capacity st now sc rc"
proof -
  have "budget_rel (submit_commands st) Ls (last_emit_nat (submit_commands st))"
    "budget_rel (rest_calls st) Lr (last_emit_nat (rest_calls st))"
    using inv by (simp_all add: pair_inv_def deque.lane_inv_def)
  then have "fst (try_acquire (submit_commands st) now sc)" "fst (try_acquire (rest_calls st) now rc)"
    using try_acquire_quiet q sc rc by blast+
  then show ?thesis by (simp add: has_capacity_def out bt_values_def checked_add_def)
qed


lemma demo_build: "build_requote_budget_pair (rate_string 40 0 1 0) 100 100 = Inr demo_pair"
proof -
  have "validate_rate_limit_string (rate_string 40 0 1 0) = Inr (40, 60)"
    unfolding validate_rate_limit_string_Inr
    using rate_string_parts(1) [of 40 0 1 0] rate_string_parts(2) [of 0 1 0]
      parse_u64_decimal [of 40] parse_u64_decimal [of 0] parse_u64_decimal [of 1]
      interval_seconds_fits [of 1 0 0]
    by (simp add: word_le_nat_alt)
  then show ?thesis
    by (simp add: build_requote_budget_pair_def checked_mul_def MILLIS_PER_SECOND_U64_def
        MILLIS_PER_MINUTE_U64_def demo_pair_def fresh_pair_def cost_consts)
qed


end
