(* ===== verification/QuoteState.thy ===== *)
theory QuoteState
  imports RequoteLedger
begin

text \<open>
  The states, events and projections of one governed quote leg: the data of
  \<open>src/src/bolt_v3_quote_lifecycle.rs\<close>, with the source's constructors. Constructor names that
  several enums share are written with their type, as in the source (\<open>LegState.Idle\<close>,
  \<open>ActiveQuotePhase.Idle\<close>). A reservation inside a state is the owned token of
  \<open>RequoteBudgetPair\<close>; \<open>state_token\<close> reads off the one token a state can own.
\<close>

section \<open>Public vocabulary\<close>

datatype LegState =
    Idle
  | SubmitPending
  | Resting
  | RequotePending
  | ModifyPending
  | CancelPending
  | ReplacementPendingBackoff
  | PoisonedReconciliationHold

datatype LegEvent =
    QuoteTrigger bool
  | Accepted
  | Rejected
  | Canceled
  | Modified
  | ModifyRejected
  | CancelRejected
  | Filled

datatype LifecycleAction = Submit | Cancel | Modify

datatype MakerQuoteTerminalDisposition = Denied | Rejected | Canceled | Expired | Filled | Voided

datatype Leg = Yes | No

record MakerQuoteLifecycleIdentity =
  client_order_id :: string
  identity_generation :: u64

datatype MakerQuoteLifecycleRefinement =
    Terminal "MakerQuoteTerminalDisposition option" bool
  | Reopened
  | RetentionHorizon

record MakerQuoteLifecycleRefinementEvent =
  refinement_identity :: MakerQuoteLifecycleIdentity
  refinement :: MakerQuoteLifecycleRefinement

datatype MakerQuoteLifecycleRefinementOutcome =
    Applied
  | Unaffected MakerQuoteLifecycleIdentity "MakerQuoteLifecycleIdentity option"
  | Invalid MakerQuoteLifecycleIdentity "MakerQuoteLifecycleIdentity option"

datatype QuoteTransactionRegistrationPhase = PreSink | SinkInvoked | Settled

datatype MakerQuoteBudgetProposal =
    Reserve RequoteBudgetReservationProposal
  | Prepaid u64 u64

record QuoteLegTransitionProposal =
  prop_leg :: Leg
  prop_action :: LifecycleAction
  prop_prior_state :: LegState
  prop_pending_state :: LegState

text \<open>
  \<open>refine_terminal_with\<close>: the terminal truth already held, refined by a later report. The match
  of the source lists every pair; only two of them change the truth.
\<close>

fun refine_terminal_with ::
    "MakerQuoteTerminalDisposition \<Rightarrow> MakerQuoteTerminalDisposition \<Rightarrow> MakerQuoteTerminalDisposition" where
  "refine_terminal_with MakerQuoteTerminalDisposition.Canceled MakerQuoteTerminalDisposition.Filled =
     MakerQuoteTerminalDisposition.Filled"
| "refine_terminal_with MakerQuoteTerminalDisposition.Filled Voided = Voided"
| "refine_terminal_with Denied _ = Denied"
| "refine_terminal_with MakerQuoteTerminalDisposition.Rejected _ = MakerQuoteTerminalDisposition.Rejected"
| "refine_terminal_with MakerQuoteTerminalDisposition.Canceled _ = MakerQuoteTerminalDisposition.Canceled"
| "refine_terminal_with Expired _ = Expired"
| "refine_terminal_with MakerQuoteTerminalDisposition.Filled _ = MakerQuoteTerminalDisposition.Filled"
| "refine_terminal_with Voided _ = Voided"

fun can_refine :: "MakerQuoteTerminalDisposition \<Rightarrow> bool" where
  "can_refine MakerQuoteTerminalDisposition.Canceled = True"
| "can_refine MakerQuoteTerminalDisposition.Filled = True"
| "can_refine Denied = False"
| "can_refine MakerQuoteTerminalDisposition.Rejected = False"
| "can_refine Expired = False"
| "can_refine Voided = False"

section \<open>Private states\<close>

datatype QuoteLegTransactionObligation =
    FreshSubmit | ReplacementSubmit | RequoteCancel | PlainCancel | Modify

definition from_proposal :: "QuoteLegTransitionProposal \<Rightarrow> QuoteLegTransactionObligation" where
  "from_proposal p =
     (case prop_action p of
        LifecycleAction.Submit \<Rightarrow>
          (if prop_prior_state p = LegState.ReplacementPendingBackoff
           then QuoteLegTransactionObligation.ReplacementSubmit
           else QuoteLegTransactionObligation.FreshSubmit)
      | LifecycleAction.Cancel \<Rightarrow>
          (if prop_pending_state p = LegState.RequotePending
           then QuoteLegTransactionObligation.RequoteCancel
           else QuoteLegTransactionObligation.PlainCancel)
      | LifecycleAction.Modify \<Rightarrow> QuoteLegTransactionObligation.Modify)"

datatype QuoteRouteSettlement =
    Submitted
  | NtMutationInvoked
  | SinkRejected
  | CallbackRetired
  | PreSinkAbort
  | PreSinkInvariantFailure
  | PostSinkInvariantFailure

datatype QuoteRouteSuccess = Submitted | NtMutationInvoked

fun route_success :: "QuoteLegTransactionObligation \<Rightarrow> QuoteRouteSuccess" where
  "route_success QuoteLegTransactionObligation.FreshSubmit = QuoteRouteSuccess.Submitted"
| "route_success QuoteLegTransactionObligation.ReplacementSubmit = QuoteRouteSuccess.Submitted"
| "route_success QuoteLegTransactionObligation.RequoteCancel = QuoteRouteSuccess.NtMutationInvoked"
| "route_success QuoteLegTransactionObligation.PlainCancel = QuoteRouteSuccess.NtMutationInvoked"
| "route_success QuoteLegTransactionObligation.Modify = QuoteRouteSuccess.NtMutationInvoked"

text \<open>The error values of the reducers, one constructor per message.\<close>

datatype QuoteError =
    GenerationNotPositive
  | WindingDownOrHeld
  | AlreadyArmed
  | ProposalStale
  | PrepaidGenerationStale
  | BudgetReservationDenied RequoteBudgetReservationDenied
  | BudgetAbortFailed RequoteBudgetReservationDenied
  | BudgetCommitFailed RequoteBudgetReservationDenied
  | ConflictingSettlement
  | NotSettled
  | SubmittedIllegal
  | NtMutationInvokedIllegal
  | SinkRejectedIllegal
  | CallbackRetirementIllegal
  | PostSinkFailureIllegal
  | TerminalWithoutEffect
  | ReopeningConflicts
  | NotArmedAtGeneration
  | ArmingEmittedAction
  | UnwindEmittedAction

record QuoteRouteSuccessProjection =
  success_settlement :: QuoteRouteSettlement
  illegal_outcome_message :: QuoteError

fun success_projection :: "QuoteRouteSuccess \<Rightarrow> QuoteRouteSuccessProjection" where
  "success_projection QuoteRouteSuccess.Submitted =
     \<lparr>success_settlement = QuoteRouteSettlement.Submitted, illegal_outcome_message = SubmittedIllegal\<rparr>"
| "success_projection QuoteRouteSuccess.NtMutationInvoked =
     \<lparr>success_settlement = QuoteRouteSettlement.NtMutationInvoked,
      illegal_outcome_message = NtMutationInvokedIllegal\<rparr>"

datatype QuoteTransactionMode = Active | WindingDown

record QuoteTransactionArm =
  arm_identity :: MakerQuoteLifecycleIdentity
  arm_prior_state :: LegState
  arm_pending_state :: LegState
  arm_obligation :: QuoteLegTransactionObligation

datatype ArmedQuoteBudget =
    Reserved RequoteBudgetReservation
  | Prepaid RequoteBudgetReservation

datatype SinkInvokedQuoteBudget =
    ChargePending RequoteBudgetReservation
  | PrepaidPending RequoteBudgetReservation
  | Charged
  | Prepaid RequoteBudgetReservation

datatype AccountedSinkInvokedQuoteBudget = Charged | Prepaid RequoteBudgetReservation

datatype QuotePoisonedBudget = Charged | Prepaid RequoteBudgetReservation

datatype ActiveQuotePhase =
    Idle
  | SubmitPending
  | Resting
  | RequotePending RequoteBudgetReservation
  | ModifyPending
  | CancelPending
  | ReplacementPendingBackoff
  | ReplacementPendingBackoffPrepaid RequoteBudgetReservation

datatype WindDownQuotePhase = Idle | CancelPending

record QuotePoisonedHold =
  hold_mode :: QuoteTransactionMode
  hold_obligation :: QuoteLegTransactionObligation
  hold_budget :: QuotePoisonedBudget

datatype QuoteStableState =
    Active ActiveQuotePhase
  | WindingDown WindDownQuotePhase
  | Poisoned QuotePoisonedHold

definition poisoned :: "QuoteTransactionMode \<Rightarrow> QuoteLegTransactionObligation \<Rightarrow> QuotePoisonedBudget \<Rightarrow>
    QuoteStableState" where
  "poisoned mode obligation budget =
     Poisoned \<lparr>hold_mode = mode, hold_obligation = obligation, hold_budget = budget\<rparr>"

datatype QuoteAttemptPhase = Armed ArmedQuoteBudget | SinkInvoked SinkInvokedQuoteBudget

record QuoteAttemptState =
  att_mode :: QuoteTransactionMode
  att_arm :: QuoteTransactionArm
  att_phase :: QuoteAttemptPhase

datatype QuoteSettlementStatus =
    AwaitingRoute
  | ReopenedAwaitingRoute
  | RouteSettled QuoteRouteSettlement
  | Reopened QuoteRouteSettlement

record QuoteSettlementState =
  settlement_generation :: u64
  settlement_status :: QuoteSettlementStatus
  settlement_stable :: QuoteStableState

datatype QuoteTransactionState =
    Stable QuoteStableState
  | Attempt QuoteAttemptState
  | Settled QuoteSettlementState

section \<open>Projections\<close>

record ActiveQuoteProjection =
  active_leg_state :: LegState
  active_prepaid_generation :: "u64 option"

record QuoteStableProjection =
  stable_leg_state :: LegState
  stable_prepaid_generation :: "u64 option"
  stable_winding_down :: bool

record QuoteStateProjection =
  proj_armed_identity :: "MakerQuoteLifecycleIdentity option"
  proj_leg_state :: LegState
  proj_prepaid_generation :: "u64 option"
  proj_winding_down :: bool
  proj_generation :: "u64 option"
  proj_registration_phase :: QuoteTransactionRegistrationPhase

fun is_winding_down_mode :: "QuoteTransactionMode \<Rightarrow> bool" where
  "is_winding_down_mode QuoteTransactionMode.WindingDown = True"
| "is_winding_down_mode QuoteTransactionMode.Active = False"

fun begin_wind_down :: "QuoteTransactionMode \<Rightarrow> QuoteTransactionMode \<times> LifecycleAction option" where
  "begin_wind_down QuoteTransactionMode.Active = (QuoteTransactionMode.WindingDown, Some LifecycleAction.Cancel)"
| "begin_wind_down QuoteTransactionMode.WindingDown = (QuoteTransactionMode.WindingDown, None)"

fun active_projection :: "ActiveQuotePhase \<Rightarrow> ActiveQuoteProjection" where
  "active_projection ActiveQuotePhase.Idle =
     \<lparr>active_leg_state = LegState.Idle, active_prepaid_generation = None\<rparr>"
| "active_projection ActiveQuotePhase.SubmitPending =
     \<lparr>active_leg_state = LegState.SubmitPending, active_prepaid_generation = None\<rparr>"
| "active_projection ActiveQuotePhase.Resting =
     \<lparr>active_leg_state = LegState.Resting, active_prepaid_generation = None\<rparr>"
| "active_projection (ActiveQuotePhase.RequotePending prepaid) =
     \<lparr>active_leg_state = LegState.RequotePending, active_prepaid_generation = Some (res_generation prepaid)\<rparr>"
| "active_projection ActiveQuotePhase.ModifyPending =
     \<lparr>active_leg_state = LegState.ModifyPending, active_prepaid_generation = None\<rparr>"
| "active_projection ActiveQuotePhase.CancelPending =
     \<lparr>active_leg_state = LegState.CancelPending, active_prepaid_generation = None\<rparr>"
| "active_projection ActiveQuotePhase.ReplacementPendingBackoff =
     \<lparr>active_leg_state = LegState.ReplacementPendingBackoff, active_prepaid_generation = None\<rparr>"
| "active_projection (ReplacementPendingBackoffPrepaid prepaid) =
     \<lparr>active_leg_state = LegState.ReplacementPendingBackoff,
      active_prepaid_generation = Some (res_generation prepaid)\<rparr>"

fun poisoned_prepaid_generation :: "QuotePoisonedBudget \<Rightarrow> u64 option" where
  "poisoned_prepaid_generation QuotePoisonedBudget.Charged = None"
| "poisoned_prepaid_generation (QuotePoisonedBudget.Prepaid prepaid) = Some (res_generation prepaid)"

fun stable_projection :: "QuoteStableState \<Rightarrow> QuoteStableProjection" where
  "stable_projection (QuoteStableState.Active phase) =
     (let active = active_projection phase in
      \<lparr>stable_leg_state = active_leg_state active,
       stable_prepaid_generation = active_prepaid_generation active, stable_winding_down = False\<rparr>)"
| "stable_projection (QuoteStableState.WindingDown WindDownQuotePhase.Idle) =
     \<lparr>stable_leg_state = LegState.Idle, stable_prepaid_generation = None, stable_winding_down = True\<rparr>"
| "stable_projection (QuoteStableState.WindingDown WindDownQuotePhase.CancelPending) =
     \<lparr>stable_leg_state = LegState.CancelPending, stable_prepaid_generation = None, stable_winding_down = True\<rparr>"
| "stable_projection (Poisoned hold) =
     \<lparr>stable_leg_state = PoisonedReconciliationHold,
      stable_prepaid_generation = poisoned_prepaid_generation (hold_budget hold),
      stable_winding_down = is_winding_down_mode (hold_mode hold)\<rparr>"

definition can_reopen :: "QuoteStableState \<Rightarrow> bool" where
  "can_reopen st \<longleftrightarrow> stable_leg_state (stable_projection st) \<in>
     {LegState.Idle, LegState.CancelPending, LegState.ReplacementPendingBackoff}"

definition attempt_projection :: "QuoteAttemptState \<Rightarrow> QuoteStateProjection" where
  "attempt_projection attempt =
     (let (prepaid_generation, registration_phase) =
        (case att_phase attempt of
           Armed (ArmedQuoteBudget.Prepaid prepaid) \<Rightarrow> (Some (res_generation prepaid), PreSink)
         | Armed (Reserved _) \<Rightarrow> (None, PreSink)
         | QuoteAttemptPhase.SinkInvoked (PrepaidPending prepaid) \<Rightarrow>
             (Some (res_generation prepaid), QuoteTransactionRegistrationPhase.SinkInvoked)
         | QuoteAttemptPhase.SinkInvoked (SinkInvokedQuoteBudget.Prepaid prepaid) \<Rightarrow>
             (Some (res_generation prepaid), QuoteTransactionRegistrationPhase.SinkInvoked)
         | QuoteAttemptPhase.SinkInvoked (ChargePending _) \<Rightarrow>
             (None, QuoteTransactionRegistrationPhase.SinkInvoked)
         | QuoteAttemptPhase.SinkInvoked SinkInvokedQuoteBudget.Charged \<Rightarrow>
             (None, QuoteTransactionRegistrationPhase.SinkInvoked))
      in \<lparr>proj_armed_identity = Some (arm_identity (att_arm attempt)),
          proj_leg_state = arm_pending_state (att_arm attempt),
          proj_prepaid_generation = prepaid_generation,
          proj_winding_down = is_winding_down_mode (att_mode attempt),
          proj_generation = Some (identity_generation (arm_identity (att_arm attempt))),
          proj_registration_phase = registration_phase\<rparr>)"

definition settlement_leg_state :: "QuoteSettlementState \<Rightarrow> LegState" where
  "settlement_leg_state s =
     (case settlement_status s of
        ReopenedAwaitingRoute \<Rightarrow> LegState.CancelPending
      | QuoteSettlementStatus.Reopened _ \<Rightarrow> LegState.CancelPending
      | AwaitingRoute \<Rightarrow> stable_leg_state (stable_projection (settlement_stable s))
      | RouteSettled _ \<Rightarrow> stable_leg_state (stable_projection (settlement_stable s)))"

definition settlement_projection :: "QuoteSettlementState \<Rightarrow> QuoteStateProjection" where
  "settlement_projection s =
     (let stable = stable_projection (settlement_stable s) in
      \<lparr>proj_armed_identity = None, proj_leg_state = settlement_leg_state s,
       proj_prepaid_generation = stable_prepaid_generation stable,
       proj_winding_down = stable_winding_down stable,
       proj_generation = Some (settlement_generation s),
       proj_registration_phase = QuoteTransactionRegistrationPhase.Settled\<rparr>)"

definition idle :: QuoteTransactionState where
  "idle = Stable (QuoteStableState.Active ActiveQuotePhase.Idle)"

fun projection :: "QuoteTransactionState \<Rightarrow> QuoteStateProjection" where
  "projection (Stable s) =
     (let stable = stable_projection s in
      \<lparr>proj_armed_identity = None, proj_leg_state = stable_leg_state stable,
       proj_prepaid_generation = stable_prepaid_generation stable,
       proj_winding_down = stable_winding_down stable, proj_generation = None,
       proj_registration_phase = PreSink\<rparr>)"
| "projection (Attempt attempt) = attempt_projection attempt"
| "projection (QuoteTransactionState.Settled settlement) = settlement_projection settlement"

definition armed_identity :: "QuoteTransactionState \<Rightarrow> MakerQuoteLifecycleIdentity option" where
  "armed_identity s = proj_armed_identity (projection s)"

definition leg_state :: "QuoteTransactionState \<Rightarrow> LegState" where
  "leg_state s = proj_leg_state (projection s)"

definition prepaid_generation :: "QuoteTransactionState \<Rightarrow> u64 option" where
  "prepaid_generation s = proj_prepaid_generation (projection s)"

definition is_winding_down :: "QuoteTransactionState \<Rightarrow> bool" where
  "is_winding_down s = proj_winding_down (projection s)"

definition state_registration_phase :: "QuoteTransactionState \<Rightarrow> u64 \<Rightarrow> QuoteTransactionRegistrationPhase" where
  "state_registration_phase s generation =
     (if proj_generation (projection s) = Some generation
      then proj_registration_phase (projection s) else PreSink)"

end
