(* ===== verification/QuoteReducer.thy ===== *)
theory QuoteReducer
  imports QuoteState
begin

text \<open>
  The pure reducers of a governed quote leg (\<open>impl GovernedQuoteTransactionInner\<close> and the owned
  budgets and settlements it uses, \<open>src/src/bolt_v3_quote_lifecycle.rs\<close>). Every reducer takes the
  store of shared requote budgets and returns it updated, because aborting, settling or dropping
  an owned reservation writes to it; \<open>None\<close> is a panic of one of those writes. Where the source
  drops a reservation, explicitly or at the end of a scope, the model calls \<open>drop_reservation\<close>.
  \<open>debug_assert\<close> has no effect in the release profile and is not modelled.
\<close>

record GovernedQuoteTransactionCommit =
  commit_action :: "LifecycleAction option"

definition no_action :: GovernedQuoteTransactionCommit where
  "no_action = \<lparr>commit_action = None\<rparr>"

definition with_action :: "LifecycleAction \<Rightarrow> GovernedQuoteTransactionCommit" where
  "with_action a = \<lparr>commit_action = Some a\<rparr>"

type_synonym QuoteReduction =
  "(QuoteTransactionState \<times> QuoteError) + (QuoteTransactionState \<times> GovernedQuoteTransactionCommit)"

section \<open>Owned budgets\<close>

fun armed_prepare_sink_invoked_at :: "ArmedQuoteBudget \<Rightarrow> QuoteLegTransactionObligation \<Rightarrow> u64 \<Rightarrow>
    SinkInvokedQuoteBudget" where
  "armed_prepare_sink_invoked_at (Reserved reservation) obligation actor_now_ms =
     (if obligation = QuoteLegTransactionObligation.RequoteCancel
      then PrepaidPending (prepare_sink_invoked_at reservation actor_now_ms)
      else ChargePending (prepare_sink_invoked_at reservation actor_now_ms))"
| "armed_prepare_sink_invoked_at (ArmedQuoteBudget.Prepaid reservation) obligation actor_now_ms =
     ChargePending (prepare_sink_invoked_at reservation actor_now_ms)"

fun account :: "budgets \<Rightarrow> SinkInvokedQuoteBudget \<Rightarrow> (budgets \<times> AccountedSinkInvokedQuoteBudget) option" where
  "account B (ChargePending reservation) = do {
     (B1, r1) \<leftarrow> settle_prepared_sink_invocation B reservation;
     B2 \<leftarrow> drop_reservation B1 r1;
     Some (B2, AccountedSinkInvokedQuoteBudget.Charged)
   }"
| "account B (PrepaidPending prepaid) = do {
     (B1, r1) \<leftarrow> settle_prepared_sink_invocation B prepaid;
     Some (B1, AccountedSinkInvokedQuoteBudget.Prepaid r1)
   }"
| "account B SinkInvokedQuoteBudget.Charged = Some (B, AccountedSinkInvokedQuoteBudget.Charged)"
| "account B (SinkInvokedQuoteBudget.Prepaid prepaid) =
     Some (B, AccountedSinkInvokedQuoteBudget.Prepaid prepaid)"

fun into_sink_invoked :: "AccountedSinkInvokedQuoteBudget \<Rightarrow> SinkInvokedQuoteBudget" where
  "into_sink_invoked AccountedSinkInvokedQuoteBudget.Charged = SinkInvokedQuoteBudget.Charged"
| "into_sink_invoked (AccountedSinkInvokedQuoteBudget.Prepaid prepaid) = SinkInvokedQuoteBudget.Prepaid prepaid"

fun into_poisoned :: "AccountedSinkInvokedQuoteBudget \<Rightarrow> QuotePoisonedBudget" where
  "into_poisoned AccountedSinkInvokedQuoteBudget.Charged = QuotePoisonedBudget.Charged"
| "into_poisoned (AccountedSinkInvokedQuoteBudget.Prepaid prepaid) = QuotePoisonedBudget.Prepaid prepaid"

text \<open>\<open>drop\<close> of a poisoned budget drops the reservation it may own.\<close>

fun drop_poisoned_budget :: "budgets \<Rightarrow> QuotePoisonedBudget \<Rightarrow> budgets option" where
  "drop_poisoned_budget B QuotePoisonedBudget.Charged = Some B"
| "drop_poisoned_budget B (QuotePoisonedBudget.Prepaid prepaid) = drop_reservation B prepaid"

section \<open>Settlements\<close>

definition reduce_stable :: "QuoteSettlementState \<Rightarrow>
    (QuoteStableState \<Rightarrow> (budgets \<times> QuoteStableState \<times> GovernedQuoteTransactionCommit) option) \<Rightarrow>
    (budgets \<times> QuoteSettlementState \<times> GovernedQuoteTransactionCommit) option" where
  "reduce_stable s reduce = do {
     (B, st, c) \<leftarrow> reduce (settlement_stable s);
     Some (B, s\<lparr>settlement_stable := st\<rparr>, c)
   }"

definition close_reopened :: "QuoteSettlementState \<Rightarrow> bool \<Rightarrow> QuoteSettlementState" where
  "close_reopened s closes_reopened =
     s\<lparr>settlement_status :=
        (if \<not> closes_reopened then settlement_status s
         else case settlement_status s of
             ReopenedAwaitingRoute \<Rightarrow> AwaitingRoute
           | QuoteSettlementStatus.Reopened route \<Rightarrow> RouteSettled route
           | AwaitingRoute \<Rightarrow> AwaitingRoute
           | RouteSettled route \<Rightarrow> RouteSettled route)\<rparr>"

definition settle_route :: "QuoteSettlementState \<Rightarrow> u64 \<Rightarrow> QuoteRouteSettlement \<Rightarrow>
    (QuoteSettlementState \<times> QuoteError) + QuoteSettlementState" where
  "settle_route s generation route =
     (if settlement_generation s = generation then
        (case settlement_status s of
           AwaitingRoute \<Rightarrow> Inr (s\<lparr>settlement_status := RouteSettled route\<rparr>)
         | ReopenedAwaitingRoute \<Rightarrow> Inr (s\<lparr>settlement_status := QuoteSettlementStatus.Reopened route\<rparr>)
         | RouteSettled settled_route \<Rightarrow>
             if settled_route = route then Inr s else Inl (s, ConflictingSettlement)
         | QuoteSettlementStatus.Reopened settled_route \<Rightarrow>
             if settled_route = route then Inr s else Inl (s, ConflictingSettlement))
      else Inl (s, ConflictingSettlement))"

definition reopen :: "QuoteSettlementState \<Rightarrow> (QuoteSettlementState \<times> QuoteError) + QuoteSettlementState" where
  "reopen s =
     (case settlement_status s of
        ReopenedAwaitingRoute \<Rightarrow> Inr s
      | QuoteSettlementStatus.Reopened _ \<Rightarrow> Inr s
      | AwaitingRoute \<Rightarrow>
          if can_reopen (settlement_stable s) then Inr (s\<lparr>settlement_status := ReopenedAwaitingRoute\<rparr>)
          else Inl (s, ReopeningConflicts)
      | RouteSettled route \<Rightarrow>
          if can_reopen (settlement_stable s)
          then Inr (s\<lparr>settlement_status := QuoteSettlementStatus.Reopened route\<rparr>)
          else Inl (s, ReopeningConflicts))"

section \<open>Events\<close>

datatype QuoteTransactionEvent =
    Lifecycle LegEvent
  | WindDown
  | MissingMoneyMovingTruth
  | Arm QuoteLegTransitionProposal budget_ref MakerQuoteBudgetProposal MakerQuoteLifecycleIdentity
  | PreSinkAbort u64
  | PreSinkInvariantFailure u64
  | Unwind

datatype SinkCapableQuoteTransactionEvent =
    Submitted u64
  | NtMutationInvoked u64
  | SinkRejected u64
  | CallbackRetired u64
  | PostSinkUnwind u64

section \<open>Lifecycle events\<close>

fun reduce_winding_down_lifecycle :: "WindDownQuotePhase \<Rightarrow> LegEvent \<Rightarrow>
    QuoteStableState \<times> GovernedQuoteTransactionCommit" where
  "reduce_winding_down_lifecycle WindDownQuotePhase.Idle event =
     (QuoteStableState.WindingDown WindDownQuotePhase.Idle,
      if event \<in> {LegEvent.Accepted, LegEvent.Modified, LegEvent.ModifyRejected}
      then with_action LifecycleAction.Cancel else no_action)"
| "reduce_winding_down_lifecycle WindDownQuotePhase.CancelPending event =
     (if event \<in> {LegEvent.Accepted, LegEvent.Modified, LegEvent.ModifyRejected}
      then (QuoteStableState.WindingDown WindDownQuotePhase.CancelPending, with_action LifecycleAction.Cancel)
      else if event \<in> {LegEvent.Rejected, LegEvent.Canceled, LegEvent.Filled}
      then (QuoteStableState.WindingDown WindDownQuotePhase.Idle, no_action)
      else (QuoteStableState.WindingDown WindDownQuotePhase.CancelPending, no_action))"

text \<open>The arms of \<open>reduce_lifecycle\<close> for an active leg, in the order of the source.\<close>

fun reduce_active_lifecycle :: "budgets \<Rightarrow> ActiveQuotePhase \<Rightarrow> LegEvent \<Rightarrow> bool \<Rightarrow>
    (budgets \<times> QuoteTransactionState \<times> GovernedQuoteTransactionCommit) option" where
  "reduce_active_lifecycle B ActiveQuotePhase.Idle (QuoteTrigger _) supports_modify =
     Some (B, Stable (QuoteStableState.Active ActiveQuotePhase.SubmitPending), with_action LifecycleAction.Submit)"
| "reduce_active_lifecycle B ActiveQuotePhase.SubmitPending LegEvent.Accepted supports_modify =
     Some (B, Stable (QuoteStableState.Active ActiveQuotePhase.Resting), no_action)"
| "reduce_active_lifecycle B ActiveQuotePhase.SubmitPending LegEvent.Rejected supports_modify = Some (B, idle, no_action)"
| "reduce_active_lifecycle B ActiveQuotePhase.CancelPending LegEvent.Rejected supports_modify = Some (B, idle, no_action)"
| "reduce_active_lifecycle B ActiveQuotePhase.Resting (QuoteTrigger True) supports_modify =
     Some (B, Stable (QuoteStableState.Active ActiveQuotePhase.Resting),
           with_action (if supports_modify then LifecycleAction.Modify else LifecycleAction.Cancel))"
| "reduce_active_lifecycle B ActiveQuotePhase.ReplacementPendingBackoff (QuoteTrigger _) supports_modify =
     Some (B, Stable (QuoteStableState.Active ActiveQuotePhase.ReplacementPendingBackoff),
           with_action LifecycleAction.Submit)"
| "reduce_active_lifecycle B (ReplacementPendingBackoffPrepaid prepaid) (QuoteTrigger _) supports_modify =
     Some (B, Stable (QuoteStableState.Active (ReplacementPendingBackoffPrepaid prepaid)),
           with_action LifecycleAction.Submit)"
| "reduce_active_lifecycle B (ActiveQuotePhase.RequotePending prepaid) LegEvent.Canceled supports_modify =
     Some (B, Stable (QuoteStableState.Active (ReplacementPendingBackoffPrepaid prepaid)), no_action)"
| "reduce_active_lifecycle B ActiveQuotePhase.ModifyPending LegEvent.Modified supports_modify =
     Some (B, Stable (QuoteStableState.Active ActiveQuotePhase.Resting), no_action)"
| "reduce_active_lifecycle B ActiveQuotePhase.ModifyPending LegEvent.ModifyRejected supports_modify =
     Some (B, Stable (QuoteStableState.Active ActiveQuotePhase.Resting), with_action LifecycleAction.Cancel)"
| "reduce_active_lifecycle B ActiveQuotePhase.CancelPending LegEvent.Accepted supports_modify =
     Some (B, Stable (QuoteStableState.Active ActiveQuotePhase.CancelPending), with_action LifecycleAction.Cancel)"
| "reduce_active_lifecycle B ActiveQuotePhase.CancelPending LegEvent.Modified supports_modify =
     Some (B, Stable (QuoteStableState.Active ActiveQuotePhase.CancelPending), with_action LifecycleAction.Cancel)"
| "reduce_active_lifecycle B ActiveQuotePhase.CancelPending LegEvent.ModifyRejected supports_modify =
     Some (B, Stable (QuoteStableState.Active ActiveQuotePhase.CancelPending), with_action LifecycleAction.Cancel)"
| "reduce_active_lifecycle B ActiveQuotePhase.Idle LegEvent.Accepted supports_modify =
     Some (B, Stable (QuoteStableState.Active ActiveQuotePhase.Idle), with_action LifecycleAction.Cancel)"
| "reduce_active_lifecycle B ActiveQuotePhase.Idle LegEvent.Modified supports_modify =
     Some (B, Stable (QuoteStableState.Active ActiveQuotePhase.Idle), with_action LifecycleAction.Cancel)"
| "reduce_active_lifecycle B ActiveQuotePhase.Idle LegEvent.ModifyRejected supports_modify =
     Some (B, Stable (QuoteStableState.Active ActiveQuotePhase.Idle), with_action LifecycleAction.Cancel)"
| "reduce_active_lifecycle B ActiveQuotePhase.CancelPending LegEvent.Canceled supports_modify = Some (B, idle, no_action)"
| "reduce_active_lifecycle B ActiveQuotePhase.SubmitPending LegEvent.Canceled supports_modify = Some (B, idle, no_action)"
| "reduce_active_lifecycle B ActiveQuotePhase.Resting LegEvent.Canceled supports_modify = Some (B, idle, no_action)"
| "reduce_active_lifecycle B ActiveQuotePhase.ModifyPending LegEvent.Canceled supports_modify = Some (B, idle, no_action)"
| "reduce_active_lifecycle B ActiveQuotePhase.SubmitPending LegEvent.Filled supports_modify = Some (B, idle, no_action)"
| "reduce_active_lifecycle B ActiveQuotePhase.Resting LegEvent.Filled supports_modify = Some (B, idle, no_action)"
| "reduce_active_lifecycle B ActiveQuotePhase.ModifyPending LegEvent.Filled supports_modify = Some (B, idle, no_action)"
| "reduce_active_lifecycle B ActiveQuotePhase.CancelPending LegEvent.Filled supports_modify = Some (B, idle, no_action)"
| "reduce_active_lifecycle B ActiveQuotePhase.ReplacementPendingBackoff LegEvent.Filled supports_modify =
     Some (B, idle, no_action)"
| "reduce_active_lifecycle B (ActiveQuotePhase.RequotePending prepaid) LegEvent.Filled supports_modify = do {
     B1 \<leftarrow> drop_reservation B prepaid;
     Some (B1, idle, no_action)
   }"
| "reduce_active_lifecycle B (ReplacementPendingBackoffPrepaid prepaid) LegEvent.Filled supports_modify = do {
     B1 \<leftarrow> drop_reservation B prepaid;
     Some (B1, idle, no_action)
   }"
| "reduce_active_lifecycle B phase _ supports_modify =
     Some (B, Stable (QuoteStableState.Active phase), no_action)"

fun reduce_stable_lifecycle :: "budgets \<Rightarrow> QuoteStableState \<Rightarrow> LegEvent \<Rightarrow> bool \<Rightarrow>
    (budgets \<times> QuoteTransactionState \<times> GovernedQuoteTransactionCommit) option" where
  "reduce_stable_lifecycle B (QuoteStableState.WindingDown phase) event supports_modify =
     (let (st, c) = reduce_winding_down_lifecycle phase event in Some (B, Stable st, c))"
| "reduce_stable_lifecycle B (Poisoned hold) event supports_modify = Some (B, Stable (Poisoned hold), no_action)"
| "reduce_stable_lifecycle B (QuoteStableState.Active phase) event supports_modify =
     reduce_active_lifecycle B phase event supports_modify"

fun reduce_lifecycle :: "budgets \<Rightarrow> QuoteTransactionState \<Rightarrow> LegEvent \<Rightarrow> bool \<Rightarrow>
    (budgets \<times> QuoteTransactionState \<times> GovernedQuoteTransactionCommit) option" where
  "reduce_lifecycle B (Stable st) event supports_modify = reduce_stable_lifecycle B st event supports_modify"
| "reduce_lifecycle B (QuoteTransactionState.Settled settlement) event supports_modify =
     reduce_stable_lifecycle B (settlement_stable settlement) event supports_modify"
| "reduce_lifecycle B (Attempt attempt) event supports_modify = Some (B, Attempt attempt, no_action)"

section \<open>Winding down\<close>

fun reduce_stable_wind_down :: "budgets \<Rightarrow> QuoteStableState \<Rightarrow>
    (budgets \<times> QuoteStableState \<times> GovernedQuoteTransactionCommit) option" where
  "reduce_stable_wind_down B (QuoteStableState.Active phase) =
     (case phase of
        ActiveQuotePhase.Idle \<Rightarrow> Some (B, QuoteStableState.WindingDown WindDownQuotePhase.Idle, no_action)
      | ActiveQuotePhase.CancelPending \<Rightarrow>
          Some (B, QuoteStableState.WindingDown WindDownQuotePhase.CancelPending, no_action)
      | ActiveQuotePhase.ReplacementPendingBackoff \<Rightarrow>
          Some (B, QuoteStableState.WindingDown WindDownQuotePhase.Idle, no_action)
      | ReplacementPendingBackoffPrepaid prepaid \<Rightarrow> do {
          B1 \<leftarrow> drop_reservation B prepaid;
          Some (B1, QuoteStableState.WindingDown WindDownQuotePhase.Idle, no_action)
        }
      | ActiveQuotePhase.RequotePending prepaid \<Rightarrow> do {
          B1 \<leftarrow> drop_reservation B prepaid;
          Some (B1, QuoteStableState.WindingDown WindDownQuotePhase.CancelPending, no_action)
        }
      | _ \<Rightarrow> Some (B, QuoteStableState.WindingDown WindDownQuotePhase.CancelPending,
                   with_action LifecycleAction.Cancel))"
| "reduce_stable_wind_down B (Poisoned hold) =
     (let (mode, action) = begin_wind_down (hold_mode hold) in
      Some (B, Poisoned (hold\<lparr>hold_mode := mode\<rparr>), \<lparr>commit_action = action\<rparr>))"
| "reduce_stable_wind_down B (QuoteStableState.WindingDown phase) =
     Some (B, QuoteStableState.WindingDown phase, no_action)"

fun reduce_wind_down :: "budgets \<Rightarrow> QuoteTransactionState \<Rightarrow>
    (budgets \<times> QuoteTransactionState \<times> GovernedQuoteTransactionCommit) option" where
  "reduce_wind_down B (Stable st) = do {
     (B1, st1, c) \<leftarrow> reduce_stable_wind_down B st;
     Some (B1, Stable st1, c)
   }"
| "reduce_wind_down B (Attempt attempt) =
     (let (mode, action) = begin_wind_down (att_mode attempt) in
      Some (B, Attempt (attempt\<lparr>att_mode := mode\<rparr>), \<lparr>commit_action = action\<rparr>))"
| "reduce_wind_down B (QuoteTransactionState.Settled settlement) = do {
     (B1, s1, c) \<leftarrow> reduce_stable settlement (reduce_stable_wind_down B);
     Some (B1, QuoteTransactionState.Settled s1, c)
   }"

section \<open>Poisoning\<close>

fun poison_stable :: "QuoteStableState \<Rightarrow> QuoteStableState" where
  "poison_stable (QuoteStableState.Active phase) =
     (case phase of
        ActiveQuotePhase.RequotePending prepaid \<Rightarrow>
          poisoned QuoteTransactionMode.Active QuoteLegTransactionObligation.PlainCancel
            (QuotePoisonedBudget.Prepaid prepaid)
      | ReplacementPendingBackoffPrepaid prepaid \<Rightarrow>
          poisoned QuoteTransactionMode.Active QuoteLegTransactionObligation.PlainCancel
            (QuotePoisonedBudget.Prepaid prepaid)
      | _ \<Rightarrow> poisoned QuoteTransactionMode.Active QuoteLegTransactionObligation.PlainCancel
               QuotePoisonedBudget.Charged)"
| "poison_stable (QuoteStableState.WindingDown _) =
     poisoned QuoteTransactionMode.WindingDown QuoteLegTransactionObligation.PlainCancel
       QuotePoisonedBudget.Charged"
| "poison_stable (Poisoned hold) = Poisoned hold"

definition poison_attempt :: "budgets \<Rightarrow> QuoteAttemptState \<Rightarrow> (budgets \<times> QuoteStableState) option" where
  "poison_attempt B attempt = do {
     (B1, budget) \<leftarrow>
       (case att_phase attempt of
          Armed (Reserved reservation) \<Rightarrow> do {
            B1 \<leftarrow> drop_reservation B reservation;
            Some (B1, QuotePoisonedBudget.Charged)
          }
        | Armed (ArmedQuoteBudget.Prepaid prepaid) \<Rightarrow> Some (B, QuotePoisonedBudget.Prepaid prepaid)
        | QuoteAttemptPhase.SinkInvoked b \<Rightarrow> do {
            (B1, acc) \<leftarrow> account B b;
            Some (B1, into_poisoned acc)
          });
     Some (B1, poisoned (att_mode attempt) QuoteLegTransactionObligation.PlainCancel budget)
   }"

fun reduce_missing_money_moving_truth :: "budgets \<Rightarrow> QuoteTransactionState \<Rightarrow>
    (budgets \<times> QuoteTransactionState \<times> GovernedQuoteTransactionCommit) option" where
  "reduce_missing_money_moving_truth B (QuoteTransactionState.Settled settlement) = do {
     (B1, s1, _) \<leftarrow> reduce_stable settlement (\<lambda>st. Some (B, poison_stable st, no_action));
     Some (B1, QuoteTransactionState.Settled (close_reopened s1 True), no_action)
   }"
| "reduce_missing_money_moving_truth B (Stable st) = Some (B, Stable (poison_stable st), no_action)"
| "reduce_missing_money_moving_truth B (Attempt attempt) = do {
     (B1, st) \<leftarrow> poison_attempt B attempt;
     Some (B1, Stable st, no_action)
   }"

section \<open>Arming\<close>

definition reduce_arm_active :: "budgets \<Rightarrow> ActiveQuotePhase \<Rightarrow> QuoteLegTransitionProposal \<Rightarrow> budget_ref \<Rightarrow>
    MakerQuoteBudgetProposal \<Rightarrow> MakerQuoteLifecycleIdentity \<Rightarrow> (budgets \<times> QuoteReduction) option" where
  "reduce_arm_active B active pr ref budget_proposal identity =
     (if active_leg_state (active_projection active) \<noteq> prop_prior_state pr
      then Some (B, Inl (Stable (QuoteStableState.Active active), ProposalStale))
      else
        let arm = \<lparr>arm_identity = identity, arm_prior_state = prop_prior_state pr,
                   arm_pending_state = prop_pending_state pr, arm_obligation = from_proposal pr\<rparr>;
            armed = (\<lambda>budget. Attempt \<lparr>att_mode = QuoteTransactionMode.Active, att_arm = arm,
                                        att_phase = Armed budget\<rparr>)
        in case budget_proposal of
             MakerQuoteBudgetProposal.Prepaid prepaid_gen _ \<Rightarrow>
               (case active of
                  ReplacementPendingBackoffPrepaid prepaid \<Rightarrow>
                    if res_generation prepaid = prepaid_gen
                    then Some (B, Inr (armed (ArmedQuoteBudget.Prepaid prepaid), no_action))
                    else Some (B, Inl (Stable (QuoteStableState.Active active), PrepaidGenerationStale))
                | _ \<Rightarrow> Some (B, Inl (Stable (QuoteStableState.Active active), PrepaidGenerationStale)))
           | Reserve reservation_proposal \<Rightarrow>
               (case reserve B ref reservation_proposal of
                  (B1, Inl error) \<Rightarrow>
                    Some (B1, Inl (Stable (QuoteStableState.Active active), BudgetReservationDenied error))
                | (B1, Inr reservation) \<Rightarrow> do {
                    B2 \<leftarrow> (case active of
                             ActiveQuotePhase.RequotePending prepaid \<Rightarrow> drop_reservation B1 prepaid
                           | ReplacementPendingBackoffPrepaid prepaid \<Rightarrow> drop_reservation B1 prepaid
                           | _ \<Rightarrow> Some B1);
                    Some (B2, Inr (armed (Reserved reservation), no_action))
                  }))"

definition reduce_arm :: "budgets \<Rightarrow> QuoteTransactionState \<Rightarrow> QuoteLegTransitionProposal \<Rightarrow> budget_ref \<Rightarrow>
    MakerQuoteBudgetProposal \<Rightarrow> MakerQuoteLifecycleIdentity \<Rightarrow> (budgets \<times> QuoteReduction) option" where
  "reduce_arm B state pr ref budget_proposal identity =
     (if identity_generation identity = 0 then Some (B, Inl (state, GenerationNotPositive))
      else case state of
          Stable (QuoteStableState.Active active) \<Rightarrow>
            reduce_arm_active B active pr ref budget_proposal identity
        | QuoteTransactionState.Settled settlement \<Rightarrow>
            (case settlement_stable settlement of
               QuoteStableState.Active active \<Rightarrow>
                 reduce_arm_active B active pr ref budget_proposal identity
             | st \<Rightarrow> Some (B, Inl (Stable st, WindingDownOrHeld)))
        | Stable st \<Rightarrow> Some (B, Inl (Stable st, WindingDownOrHeld))
        | Attempt attempt \<Rightarrow> Some (B, Inl (Attempt attempt, AlreadyArmed)))"

section \<open>Route settlement\<close>

fun restored_phase :: "LegState \<Rightarrow> QuoteLegTransactionObligation \<Rightarrow> QuoteStableState" where
  "restored_phase LegState.Idle obligation = QuoteStableState.Active ActiveQuotePhase.Idle"
| "restored_phase LegState.SubmitPending obligation = QuoteStableState.Active ActiveQuotePhase.SubmitPending"
| "restored_phase LegState.Resting obligation = QuoteStableState.Active ActiveQuotePhase.Resting"
| "restored_phase LegState.RequotePending obligation = QuoteStableState.Active ActiveQuotePhase.CancelPending"
| "restored_phase LegState.CancelPending obligation = QuoteStableState.Active ActiveQuotePhase.CancelPending"
| "restored_phase LegState.ModifyPending obligation = QuoteStableState.Active ActiveQuotePhase.ModifyPending"
| "restored_phase LegState.ReplacementPendingBackoff obligation =
     QuoteStableState.Active ActiveQuotePhase.ReplacementPendingBackoff"
| "restored_phase PoisonedReconciliationHold obligation =
     poisoned QuoteTransactionMode.Active obligation QuotePoisonedBudget.Charged"

text \<open>\<open>restore_prior\<close> and \<open>committed_pending\<close> are the same match on two fields of the arm.\<close>

definition restore_prior :: "QuoteTransactionArm \<Rightarrow> QuoteStableState" where
  "restore_prior arm = restored_phase (arm_prior_state arm) (arm_obligation arm)"

definition committed_pending :: "QuoteTransactionArm \<Rightarrow> QuoteStableState" where
  "committed_pending arm = restored_phase (arm_pending_state arm) (arm_obligation arm)"

definition settled :: "u64 \<Rightarrow> QuoteRouteSettlement \<Rightarrow> QuoteStableState \<Rightarrow> QuoteTransactionState" where
  "settled generation route st = QuoteTransactionState.Settled
     \<lparr>settlement_generation = generation, settlement_status = RouteSettled route, settlement_stable = st\<rparr>"

definition terminal_before_route_settlement :: "u64 \<Rightarrow> QuoteStableState \<Rightarrow> QuoteTransactionState" where
  "terminal_before_route_settlement generation st = QuoteTransactionState.Settled
     \<lparr>settlement_generation = generation, settlement_status = AwaitingRoute, settlement_stable = st\<rparr>"

fun reduce_settlement_replay :: "QuoteTransactionState \<Rightarrow> u64 \<Rightarrow> QuoteRouteSettlement \<Rightarrow> QuoteReduction" where
  "reduce_settlement_replay (QuoteTransactionState.Settled settlement) generation route =
     (case settle_route settlement generation route of
        Inr s \<Rightarrow> Inr (QuoteTransactionState.Settled s, no_action)
      | Inl (s, error) \<Rightarrow> Inl (QuoteTransactionState.Settled s, error))"
| "reduce_settlement_replay state generation route = Inl (state, NotSettled)"

declare reduce_settlement_replay.simps [simp del]

definition reduce_generation_fenced :: "QuoteTransactionState \<Rightarrow> u64 \<Rightarrow>
    (QuoteTransactionState \<Rightarrow> (budgets \<times> QuoteReduction) option) \<Rightarrow>
    (QuoteTransactionState \<Rightarrow> (budgets \<times> QuoteReduction) option) \<Rightarrow> (budgets \<times> QuoteReduction) option" where
  "reduce_generation_fenced state generation stale current =
     (case map_option (\<lambda>identity. identity_generation identity = generation) (armed_identity state) of
        Some False \<Rightarrow> stale state
      | Some True \<Rightarrow> current state
      | None \<Rightarrow> current state)"

definition finish_pre_sink_abort :: "budgets \<Rightarrow> QuoteTransactionMode \<Rightarrow> QuoteTransactionArm \<Rightarrow> ArmedQuoteBudget \<Rightarrow>
    u64 \<Rightarrow> (budgets \<times> QuoteReduction) option" where
  "finish_pre_sink_abort B mode arm budget generation =
     (case budget of
        Reserved reservation \<Rightarrow> do {
          (B1, res) \<leftarrow> abort B reservation;
          Some (B1,
            case res of
              Inr _ \<Rightarrow>
                Inr (settled generation QuoteRouteSettlement.PreSinkAbort
                       (case mode of
                          QuoteTransactionMode.Active \<Rightarrow> restore_prior arm
                        | QuoteTransactionMode.WindingDown \<Rightarrow>
                            QuoteStableState.WindingDown WindDownQuotePhase.Idle), no_action)
            | Inl error \<Rightarrow>
                Inl (settled generation QuoteRouteSettlement.PreSinkAbort
                       (poisoned mode (arm_obligation arm) QuotePoisonedBudget.Charged),
                     BudgetAbortFailed error))
        }
      | ArmedQuoteBudget.Prepaid prepaid \<Rightarrow> do {
          (B1, st) \<leftarrow>
            (case mode of
               QuoteTransactionMode.Active \<Rightarrow>
                 Some (B, QuoteStableState.Active (ReplacementPendingBackoffPrepaid prepaid))
             | QuoteTransactionMode.WindingDown \<Rightarrow> do {
                 B1 \<leftarrow> drop_reservation B prepaid;
                 Some (B1, QuoteStableState.WindingDown WindDownQuotePhase.Idle)
               });
          Some (B1, Inr (settled generation QuoteRouteSettlement.PreSinkAbort st, no_action))
        })"

definition reduce_pre_sink_abort :: "budgets \<Rightarrow> QuoteTransactionState \<Rightarrow> u64 \<Rightarrow> (budgets \<times> QuoteReduction) option" where
  "reduce_pre_sink_abort B state generation =
     reduce_generation_fenced state generation
       (\<lambda>s. Some (B, Inr (s, no_action)))
       (\<lambda>s. case s of
          Attempt attempt \<Rightarrow>
            (case att_phase attempt of
               Armed budget \<Rightarrow> finish_pre_sink_abort B (att_mode attempt) (att_arm attempt) budget generation
             | QuoteAttemptPhase.SinkInvoked _ \<Rightarrow> Some (B, Inr (s, no_action)))
        | QuoteTransactionState.Settled _ \<Rightarrow>
            Some (B, reduce_settlement_replay s generation QuoteRouteSettlement.PreSinkAbort)
        | Stable _ \<Rightarrow> Some (B, Inr (s, no_action)))"

definition finish_pre_sink_invariant_failure :: "budgets \<Rightarrow> QuoteTransactionMode \<Rightarrow> QuoteTransactionArm \<Rightarrow>
    ArmedQuoteBudget \<Rightarrow> u64 \<Rightarrow> (budgets \<times> QuoteReduction) option" where
  "finish_pre_sink_invariant_failure B mode arm budget generation =
     (case budget of
        Reserved reservation \<Rightarrow> do {
          (B1, res) \<leftarrow> commit B reservation;
          let next_state = settled generation QuoteRouteSettlement.PreSinkInvariantFailure
            (poisoned mode (arm_obligation arm) QuotePoisonedBudget.Charged);
          Some (B1,
            case res of
              Inr _ \<Rightarrow> Inr (next_state, no_action)
            | Inl error \<Rightarrow> Inl (next_state, BudgetCommitFailed error))
        }
      | ArmedQuoteBudget.Prepaid prepaid \<Rightarrow>
          Some (B, Inr (settled generation QuoteRouteSettlement.PreSinkInvariantFailure
            (poisoned mode (arm_obligation arm) (QuotePoisonedBudget.Prepaid prepaid)), no_action)))"

definition reduce_pre_sink_invariant_failure :: "budgets \<Rightarrow> QuoteTransactionState \<Rightarrow> u64 \<Rightarrow>
    (budgets \<times> QuoteReduction) option" where
  "reduce_pre_sink_invariant_failure B state generation =
     reduce_generation_fenced state generation
       (\<lambda>s. Some (B, Inr (s, no_action)))
       (\<lambda>s. case s of
          Attempt attempt \<Rightarrow>
            (case att_phase attempt of
               Armed budget \<Rightarrow>
                 finish_pre_sink_invariant_failure B (att_mode attempt) (att_arm attempt) budget generation
             | QuoteAttemptPhase.SinkInvoked _ \<Rightarrow> Some (B, Inr (s, no_action)))
        | QuoteTransactionState.Settled _ \<Rightarrow>
            Some (B, reduce_settlement_replay s generation QuoteRouteSettlement.PreSinkInvariantFailure)
        | Stable _ \<Rightarrow> Some (B, Inr (s, no_action)))"

definition finish_post_sink_failure :: "budgets \<Rightarrow> QuoteTransactionMode \<Rightarrow> QuoteTransactionArm \<Rightarrow>
    SinkInvokedQuoteBudget \<Rightarrow> u64 \<Rightarrow> (budgets \<times> QuoteReduction) option" where
  "finish_post_sink_failure B mode arm budget generation = do {
     (B1, acc) \<leftarrow> account B budget;
     Some (B1, Inr (settled generation QuoteRouteSettlement.PostSinkInvariantFailure
       (poisoned mode (arm_obligation arm) (into_poisoned acc)), no_action))
   }"

definition reduce_unwind :: "budgets \<Rightarrow> QuoteTransactionState \<Rightarrow> (budgets \<times> QuoteReduction) option" where
  "reduce_unwind B state =
     (case state of
        Attempt attempt \<Rightarrow>
          (let generation = identity_generation (arm_identity (att_arm attempt)) in
           case att_phase attempt of
             Armed budget \<Rightarrow> finish_pre_sink_abort B (att_mode attempt) (att_arm attempt) budget generation
           | QuoteAttemptPhase.SinkInvoked budget \<Rightarrow>
               finish_post_sink_failure B (att_mode attempt) (att_arm attempt) budget generation)
      | _ \<Rightarrow> Some (B, Inr (state, no_action)))"

definition account_sink_invocation :: "QuoteTransactionMode \<Rightarrow> QuoteTransactionArm \<Rightarrow> ArmedQuoteBudget \<Rightarrow> u64 \<Rightarrow>
    QuoteTransactionState \<times> GovernedQuoteTransactionCommit" where
  "account_sink_invocation mode arm budget actor_now_ms =
     (Attempt \<lparr>att_mode = mode, att_arm = arm,
        att_phase = QuoteAttemptPhase.SinkInvoked
          (armed_prepare_sink_invoked_at budget (arm_obligation arm) actor_now_ms)\<rparr>, no_action)"

definition commit_sink_invoked :: "QuoteTransactionState \<Rightarrow> u64 \<Rightarrow> u64 \<Rightarrow>
    QuoteTransactionState \<times> GovernedQuoteTransactionCommit" where
  "commit_sink_invoked state generation actor_now_ms =
     (case state of
        Attempt attempt \<Rightarrow>
          (case att_phase attempt of
             Armed budget \<Rightarrow>
               if identity_generation (arm_identity (att_arm attempt)) = generation
               then account_sink_invocation (att_mode attempt) (att_arm attempt) budget actor_now_ms
               else (state, no_action)
           | QuoteAttemptPhase.SinkInvoked _ \<Rightarrow> (state, no_action))
      | _ \<Rightarrow> (state, no_action))"

definition route_success_state :: "budgets \<Rightarrow> QuoteTransactionMode \<Rightarrow> QuoteTransactionArm \<Rightarrow>
    SinkInvokedQuoteBudget \<Rightarrow> (budgets \<times> QuoteStableState) option" where
  "route_success_state B mode arm budget = do {
     (B1, acc) \<leftarrow> account B budget;
     (case (mode, acc) of
        (QuoteTransactionMode.Active, AccountedSinkInvokedQuoteBudget.Charged) \<Rightarrow>
          Some (B1, committed_pending arm)
      | (QuoteTransactionMode.Active, AccountedSinkInvokedQuoteBudget.Prepaid prepaid) \<Rightarrow>
          Some (B1, QuoteStableState.Active (ActiveQuotePhase.RequotePending prepaid))
      | (QuoteTransactionMode.WindingDown, AccountedSinkInvokedQuoteBudget.Charged) \<Rightarrow>
          Some (B1, QuoteStableState.WindingDown WindDownQuotePhase.CancelPending)
      | (QuoteTransactionMode.WindingDown, AccountedSinkInvokedQuoteBudget.Prepaid prepaid) \<Rightarrow> do {
          B2 \<leftarrow> drop_reservation B1 prepaid;
          Some (B2, QuoteStableState.WindingDown WindDownQuotePhase.CancelPending)
        })
   }"

definition reduce_route_success :: "budgets \<Rightarrow> QuoteTransactionState \<Rightarrow> u64 \<Rightarrow> QuoteRouteSuccess \<Rightarrow>
    (budgets \<times> QuoteReduction) option" where
  "reduce_route_success B state generation success =
     (let pj = success_projection success in
      reduce_generation_fenced state generation
        (\<lambda>s. Some (B, Inl (s, illegal_outcome_message pj)))
        (\<lambda>s. case s of
           Attempt attempt \<Rightarrow>
             (case att_phase attempt of
                QuoteAttemptPhase.SinkInvoked budget \<Rightarrow>
                  if route_success (arm_obligation (att_arm attempt)) = success then do {
                    (B1, st) \<leftarrow> route_success_state B (att_mode attempt) (att_arm attempt) budget;
                    Some (B1, Inr (settled generation (success_settlement pj) st, no_action))
                  }
                  else Some (B, Inl (s, illegal_outcome_message pj))
              | Armed _ \<Rightarrow> Some (B, Inl (s, illegal_outcome_message pj)))
         | QuoteTransactionState.Settled _ \<Rightarrow>
             Some (B, reduce_settlement_replay s generation (success_settlement pj))
         | Stable _ \<Rightarrow> Some (B, Inl (s, illegal_outcome_message pj))))"

definition reduce_sink_rejected :: "budgets \<Rightarrow> QuoteTransactionState \<Rightarrow> u64 \<Rightarrow> (budgets \<times> QuoteReduction) option" where
  "reduce_sink_rejected B state generation =
     reduce_generation_fenced state generation
       (\<lambda>s. Some (B, Inl (s, SinkRejectedIllegal)))
       (\<lambda>s. case s of
          Attempt attempt \<Rightarrow>
            (case att_phase attempt of
               QuoteAttemptPhase.SinkInvoked budget \<Rightarrow>
                 if arm_obligation (att_arm attempt) \<in>
                    {QuoteLegTransactionObligation.FreshSubmit, QuoteLegTransactionObligation.ReplacementSubmit}
                 then do {
                   (B1, acc) \<leftarrow> account B budget;
                   Some (B1,
                     case acc of
                       AccountedSinkInvokedQuoteBudget.Charged \<Rightarrow>
                         Inr (settled generation QuoteRouteSettlement.SinkRejected
                           (case att_mode attempt of
                              QuoteTransactionMode.Active \<Rightarrow> restore_prior (att_arm attempt)
                            | QuoteTransactionMode.WindingDown \<Rightarrow>
                                QuoteStableState.WindingDown WindDownQuotePhase.Idle), no_action)
                     | AccountedSinkInvokedQuoteBudget.Prepaid prepaid \<Rightarrow>
                         Inl (Attempt (attempt\<lparr>att_phase := QuoteAttemptPhase.SinkInvoked (into_sink_invoked acc)\<rparr>),
                              SinkRejectedIllegal))
                 }
                 else Some (B, Inl (s, SinkRejectedIllegal))
             | Armed _ \<Rightarrow> Some (B, Inl (s, SinkRejectedIllegal)))
        | QuoteTransactionState.Settled _ \<Rightarrow>
            Some (B, reduce_settlement_replay s generation QuoteRouteSettlement.SinkRejected)
        | Stable _ \<Rightarrow> Some (B, Inl (s, SinkRejectedIllegal)))"

fun reduce_callback_retired :: "QuoteTransactionState \<Rightarrow> u64 \<Rightarrow> QuoteReduction" where
  "reduce_callback_retired (QuoteTransactionState.Settled settlement) generation =
     reduce_settlement_replay (QuoteTransactionState.Settled settlement) generation
       QuoteRouteSettlement.CallbackRetired"
| "reduce_callback_retired state generation = Inl (state, CallbackRetirementIllegal)"

definition reduce_post_sink_failure :: "budgets \<Rightarrow> QuoteTransactionState \<Rightarrow> u64 \<Rightarrow>
    (budgets \<times> QuoteReduction) option" where
  "reduce_post_sink_failure B state generation =
     reduce_generation_fenced state generation
       (\<lambda>s. Some (B, Inl (s, PostSinkFailureIllegal)))
       (\<lambda>s. case s of
          Attempt attempt \<Rightarrow>
            (case att_phase attempt of
               QuoteAttemptPhase.SinkInvoked budget \<Rightarrow>
                 finish_post_sink_failure B (att_mode attempt) (att_arm attempt) budget generation
             | Armed _ \<Rightarrow> Some (B, Inl (s, PostSinkFailureIllegal)))
        | QuoteTransactionState.Settled _ \<Rightarrow>
            Some (B, reduce_settlement_replay s generation QuoteRouteSettlement.PostSinkInvariantFailure)
        | Stable _ \<Rightarrow> Some (B, Inl (s, PostSinkFailureIllegal)))"

section \<open>Terminal truth\<close>

definition terminal_state :: "budgets \<Rightarrow> QuoteLegTransactionObligation \<Rightarrow> QuotePoisonedBudget \<Rightarrow>
    MakerQuoteTerminalDisposition \<Rightarrow> (budgets \<times> QuoteStableState) option" where
  "terminal_state B obligation budget disposition =
     (if disposition \<noteq> MakerQuoteTerminalDisposition.Filled \<and>
         obligation \<in> {QuoteLegTransactionObligation.ReplacementSubmit, QuoteLegTransactionObligation.RequoteCancel}
      then (case budget of
          QuotePoisonedBudget.Prepaid prepaid \<Rightarrow>
            Some (B, QuoteStableState.Active (ReplacementPendingBackoffPrepaid prepaid))
        | QuotePoisonedBudget.Charged \<Rightarrow>
            Some (B, QuoteStableState.Active ActiveQuotePhase.ReplacementPendingBackoff))
      else do {
        B1 \<leftarrow> drop_poisoned_budget B budget;
        Some (B1, QuoteStableState.Active ActiveQuotePhase.Idle)
      })"

fun terminal_stable :: "budgets \<Rightarrow> QuoteStableState \<Rightarrow> MakerQuoteTerminalDisposition \<Rightarrow>
    (budgets \<times> QuoteStableState) option" where
  "terminal_stable B (QuoteStableState.WindingDown _) disposition =
     Some (B, QuoteStableState.WindingDown WindDownQuotePhase.Idle)"
| "terminal_stable B (Poisoned hold) disposition =
     (case hold_mode hold of
        QuoteTransactionMode.Active \<Rightarrow>
          terminal_state B (hold_obligation hold) (hold_budget hold) disposition
      | QuoteTransactionMode.WindingDown \<Rightarrow> do {
          B1 \<leftarrow> drop_poisoned_budget B (hold_budget hold);
          Some (B1, QuoteStableState.WindingDown WindDownQuotePhase.Idle)
        })"
| "terminal_stable B (QuoteStableState.Active phase) disposition =
     (case phase of
        ActiveQuotePhase.RequotePending prepaid \<Rightarrow>
          terminal_state B QuoteLegTransactionObligation.RequoteCancel
            (QuotePoisonedBudget.Prepaid prepaid) disposition
      | ReplacementPendingBackoffPrepaid prepaid \<Rightarrow> do {
          B1 \<leftarrow> drop_reservation B prepaid;
          Some (B1, QuoteStableState.Active ActiveQuotePhase.Idle)
        }
      | _ \<Rightarrow> Some (B, QuoteStableState.Active ActiveQuotePhase.Idle))"

definition terminal_attempt :: "budgets \<Rightarrow> QuoteAttemptState \<Rightarrow> MakerQuoteTerminalDisposition \<Rightarrow>
    (budgets \<times> QuoteStableState) option" where
  "terminal_attempt B attempt disposition =
     (case (att_mode attempt, att_phase attempt) of
        (QuoteTransactionMode.Active, Armed (Reserved reservation)) \<Rightarrow> do {
          B1 \<leftarrow> drop_reservation B reservation;
          terminal_state B1 (arm_obligation (att_arm attempt)) QuotePoisonedBudget.Charged disposition
        }
      | (QuoteTransactionMode.Active, Armed (ArmedQuoteBudget.Prepaid prepaid)) \<Rightarrow>
          terminal_state B (arm_obligation (att_arm attempt)) (QuotePoisonedBudget.Prepaid prepaid) disposition
      | (QuoteTransactionMode.Active, QuoteAttemptPhase.SinkInvoked budget) \<Rightarrow> do {
          (B1, acc) \<leftarrow> account B budget;
          terminal_state B1 (arm_obligation (att_arm attempt)) (into_poisoned acc) disposition
        }
      | (QuoteTransactionMode.WindingDown, Armed (Reserved reservation)) \<Rightarrow> do {
          B1 \<leftarrow> drop_reservation B reservation;
          Some (B1, QuoteStableState.WindingDown WindDownQuotePhase.Idle)
        }
      | (QuoteTransactionMode.WindingDown, Armed (ArmedQuoteBudget.Prepaid prepaid)) \<Rightarrow> do {
          B1 \<leftarrow> drop_reservation B prepaid;
          Some (B1, QuoteStableState.WindingDown WindDownQuotePhase.Idle)
        }
      | (QuoteTransactionMode.WindingDown, QuoteAttemptPhase.SinkInvoked budget) \<Rightarrow> do {
          (B1, acc) \<leftarrow> account B budget;
          B2 \<leftarrow> drop_poisoned_budget B1 (into_poisoned acc);
          Some (B2, QuoteStableState.WindingDown WindDownQuotePhase.Idle)
        })"

fun reduce_terminal :: "budgets \<Rightarrow> QuoteTransactionState \<Rightarrow> MakerQuoteTerminalDisposition \<Rightarrow>
    (budgets \<times> QuoteTransactionState \<times> GovernedQuoteTransactionCommit) option" where
  "reduce_terminal B (Stable st) disposition = do {
     (B1, st1) \<leftarrow> terminal_stable B st disposition;
     Some (B1, Stable st1, no_action)
   }"
| "reduce_terminal B (Attempt attempt) disposition = do {
     (B1, st) \<leftarrow> terminal_attempt B attempt disposition;
     Some (B1, terminal_before_route_settlement
                 (identity_generation (arm_identity (att_arm attempt))) st, no_action)
   }"
| "reduce_terminal B (QuoteTransactionState.Settled settlement) disposition = do {
     (B1, s1, c) \<leftarrow> reduce_stable settlement
       (\<lambda>st. map_option (\<lambda>(B1, st1). (B1, st1, no_action)) (terminal_stable B st disposition));
     Some (B1, QuoteTransactionState.Settled (close_reopened s1 True), c)
   }"

definition reduce_terminal_refinement :: "budgets \<Rightarrow> QuoteTransactionState \<Rightarrow> u64 \<Rightarrow>
    MakerQuoteTerminalDisposition option \<Rightarrow> bool \<Rightarrow> (budgets \<times> QuoteReduction) option" where
  "reduce_terminal_refinement B state generation stable_effect closes_reopened = do {
     (B1, s1, c) \<leftarrow> (case stable_effect of
                       Some disposition \<Rightarrow> reduce_terminal B state disposition
                     | None \<Rightarrow> Some (B, state, no_action));
     Some (B1,
       case s1 of
         QuoteTransactionState.Settled settlement \<Rightarrow>
           Inr (QuoteTransactionState.Settled (close_reopened settlement closes_reopened), c)
       | Stable st \<Rightarrow>
           Inr (QuoteTransactionState.Settled (close_reopened
             \<lparr>settlement_generation = generation,
              settlement_status = RouteSettled QuoteRouteSettlement.CallbackRetired,
              settlement_stable = st\<rparr> closes_reopened), c)
       | Attempt attempt \<Rightarrow> Inl (Attempt attempt, TerminalWithoutEffect))
   }"

fun reduce_reopened :: "QuoteTransactionState \<Rightarrow> QuoteReduction" where
  "reduce_reopened (QuoteTransactionState.Settled settlement) =
     (case reopen settlement of
        Inr s \<Rightarrow> Inr (QuoteTransactionState.Settled s, no_action)
      | Inl (s, error) \<Rightarrow> Inl (QuoteTransactionState.Settled s, error))"
| "reduce_reopened state = Inl (state, ReopeningConflicts)"

section \<open>Dispatch\<close>

fun reduce_pre_sink :: "budgets \<Rightarrow> QuoteTransactionState \<Rightarrow> QuoteTransactionEvent \<Rightarrow> bool \<Rightarrow>
    (budgets \<times> QuoteReduction) option" where
  "reduce_pre_sink B state (Lifecycle event) supports_modify =
     map_option (\<lambda>(B1, r). (B1, Inr r)) (reduce_lifecycle B state event supports_modify)"
| "reduce_pre_sink B state WindDown supports_modify =
     map_option (\<lambda>(B1, r). (B1, Inr r)) (reduce_wind_down B state)"
| "reduce_pre_sink B state MissingMoneyMovingTruth supports_modify =
     map_option (\<lambda>(B1, r). (B1, Inr r)) (reduce_missing_money_moving_truth B state)"
| "reduce_pre_sink B state (Arm pr ref budget_proposal identity) supports_modify =
     reduce_arm B state pr ref budget_proposal identity"
| "reduce_pre_sink B state (QuoteTransactionEvent.PreSinkAbort generation) supports_modify =
     reduce_pre_sink_abort B state generation"
| "reduce_pre_sink B state (QuoteTransactionEvent.PreSinkInvariantFailure generation) supports_modify =
     reduce_pre_sink_invariant_failure B state generation"
| "reduce_pre_sink B state Unwind supports_modify = reduce_unwind B state"

fun reduce_sink_capable :: "budgets \<Rightarrow> QuoteTransactionState \<Rightarrow> SinkCapableQuoteTransactionEvent \<Rightarrow>
    (budgets \<times> QuoteReduction) option" where
  "reduce_sink_capable B state (SinkCapableQuoteTransactionEvent.Submitted generation) =
     reduce_route_success B state generation QuoteRouteSuccess.Submitted"
| "reduce_sink_capable B state (SinkCapableQuoteTransactionEvent.NtMutationInvoked generation) =
     reduce_route_success B state generation QuoteRouteSuccess.NtMutationInvoked"
| "reduce_sink_capable B state (SinkCapableQuoteTransactionEvent.SinkRejected generation) =
     reduce_sink_rejected B state generation"
| "reduce_sink_capable B state (SinkCapableQuoteTransactionEvent.CallbackRetired generation) =
     Some (B, reduce_callback_retired state generation)"
| "reduce_sink_capable B state (PostSinkUnwind generation) = reduce_post_sink_failure B state generation"

end
