(* ===== verification/QuoteTransaction.thy ===== *)
theory QuoteTransaction
  imports QuoteReducer
begin

text \<open>
  One governed transaction: the value behind the mutex of \<open>GovernedQuoteTransaction\<close>
  (\<open>src/src/bolt_v3_quote_lifecycle.rs\<close>), and each method that locks it, as one function from the
  inner value and the shared budgets to their new values. A lock is poisoned only by a panic while
  it is held, and a panic aborts the process, so taking the lock always succeeds.
\<close>

record GovernedQuoteTransactionInner =
  inner_state :: QuoteTransactionState
  inner_supports_modify :: bool
  inner_terminal_owner :: "MakerQuoteLifecycleIdentity option"
  inner_retention_scope_closed :: bool

definition GovernedQuoteTransaction_new :: "bool \<Rightarrow> GovernedQuoteTransactionInner" where
  "GovernedQuoteTransaction_new supports_modify =
     \<lparr>inner_state = idle, inner_supports_modify = supports_modify, inner_terminal_owner = None,
      inner_retention_scope_closed = False\<rparr>"

datatype QuoteTransactionReductionEvent =
    PreSink QuoteTransactionEvent
  | SinkCapable SinkCapableQuoteTransactionEvent

section \<open>Reducing an event\<close>

text \<open>
  The identity that becomes terminal owner after the event, if the prior state was armed, and
  whether only a poisoned result records it.
\<close>

fun settled_owner :: "QuoteTransactionReductionEvent \<Rightarrow> QuoteTransactionState \<Rightarrow>
    MakerQuoteLifecycleIdentity option \<times> bool" where
  "settled_owner (SinkCapable (SinkCapableQuoteTransactionEvent.Submitted _)) prior = (armed_identity prior, False)"
| "settled_owner (SinkCapable (SinkCapableQuoteTransactionEvent.NtMutationInvoked _)) prior = (armed_identity prior, False)"
| "settled_owner (SinkCapable (PostSinkUnwind _)) prior = (armed_identity prior, False)"
| "settled_owner (QuoteTransactionReductionEvent.PreSink (QuoteTransactionEvent.PreSinkAbort _)) prior =
     (armed_identity prior, True)"
| "settled_owner (QuoteTransactionReductionEvent.PreSink (QuoteTransactionEvent.PreSinkInvariantFailure _)) prior =
     (armed_identity prior, True)"
| "settled_owner (QuoteTransactionReductionEvent.PreSink Unwind) prior = (armed_identity prior, True)"
| "settled_owner (QuoteTransactionReductionEvent.PreSink (Lifecycle _)) prior = (None, False)"
| "settled_owner (QuoteTransactionReductionEvent.PreSink WindDown) prior = (None, False)"
| "settled_owner (QuoteTransactionReductionEvent.PreSink MissingMoneyMovingTruth) prior = (None, False)"
| "settled_owner (QuoteTransactionReductionEvent.PreSink (Arm _ _ _ _)) prior = (None, False)"
| "settled_owner (SinkCapable (SinkCapableQuoteTransactionEvent.SinkRejected _)) prior = (None, False)"
| "settled_owner (SinkCapable (SinkCapableQuoteTransactionEvent.CallbackRetired _)) prior = (None, False)"

fun reduce_event :: "budgets \<Rightarrow> QuoteTransactionState \<Rightarrow> QuoteTransactionReductionEvent \<Rightarrow> bool \<Rightarrow>
    (budgets \<times> QuoteReduction) option" where
  "reduce_event B prior (QuoteTransactionReductionEvent.PreSink event) supports_modify =
     reduce_pre_sink B prior event supports_modify"
| "reduce_event B prior (SinkCapable event) supports_modify = reduce_sink_capable B prior event"

fun reduction_state :: "QuoteReduction \<Rightarrow> QuoteTransactionState" where
  "reduction_state (Inl (restored, _)) = restored"
| "reduction_state (Inr (next_state, _)) = next_state"

fun reduction_result :: "QuoteReduction \<Rightarrow> QuoteError + GovernedQuoteTransactionCommit" where
  "reduction_result (Inl (_, error)) = Inl error"
| "reduction_result (Inr (_, c)) = Inr c"

definition apply_event :: "budgets \<Rightarrow> GovernedQuoteTransactionInner \<Rightarrow> QuoteTransactionReductionEvent \<Rightarrow>
    (budgets \<times> GovernedQuoteTransactionInner \<times> (QuoteError + GovernedQuoteTransactionCommit)) option" where
  "apply_event B inner event = do {
     (B1, reduced) \<leftarrow> reduce_event B (inner_state inner) event (inner_supports_modify inner);
     let (owner, poison_only) = settled_owner event (inner_state inner);
     let inner1 = inner\<lparr>inner_state := reduction_state reduced\<rparr>;
     let inner2 = (case owner of
         None \<Rightarrow> inner1
       | Some identity \<Rightarrow>
           if poison_only \<and> leg_state (inner_state inner1) \<noteq> PoisonedReconciliationHold then inner1
           else inner1\<lparr>inner_terminal_owner := Some identity\<rparr>);
     Some (B1, inner2, reduction_result reduced)
   }"

section \<open>Terminal refinements\<close>

datatype MakerQuoteRefinementAuthority = Exact | ArmedByAnother | Inactive

definition refinement_authority :: "GovernedQuoteTransactionInner \<Rightarrow> MakerQuoteLifecycleIdentity \<Rightarrow>
    MakerQuoteRefinementAuthority" where
  "refinement_authority inner identity =
     (case armed_identity (inner_state inner) of
        Some armed \<Rightarrow> if armed = identity then Exact else ArmedByAnother
      | None \<Rightarrow> if inner_terminal_owner inner = Some identity then Exact else Inactive)"

text \<open>The two arms that store a reduction and report it as applied or invalid.\<close>

fun conclude_refinement :: "GovernedQuoteTransactionInner \<Rightarrow> MakerQuoteLifecycleIdentity \<Rightarrow>
    MakerQuoteLifecycleIdentity option \<Rightarrow> QuoteReduction \<Rightarrow>
    GovernedQuoteTransactionInner \<times> MakerQuoteLifecycleRefinementOutcome" where
  "conclude_refinement inner identity active (Inr (next_state, _)) =
     (inner\<lparr>inner_state := next_state, inner_terminal_owner := Some identity\<rparr>, Applied)"
| "conclude_refinement inner identity active (Inl (restored, _)) =
     (inner\<lparr>inner_state := restored\<rparr>, Invalid identity active)"

definition refine :: "budgets \<Rightarrow> GovernedQuoteTransactionInner \<Rightarrow> MakerQuoteLifecycleRefinementEvent \<Rightarrow>
    (budgets \<times> GovernedQuoteTransactionInner \<times> MakerQuoteLifecycleRefinementOutcome) option" where
  "refine B inner event =
     (let prior = inner_state inner;
          identity = refinement_identity event;
          active = (case armed_identity prior of None \<Rightarrow> inner_terminal_owner inner | Some a \<Rightarrow> Some a);
          authority = refinement_authority inner identity
      in case refinement event of
           Terminal stable_effect closes_reopened \<Rightarrow>
             if authority = Exact
             then map_option (\<lambda>(B1, red). (B1, conclude_refinement inner identity active red))
                    (reduce_terminal_refinement B prior (identity_generation identity)
                       stable_effect closes_reopened)
             else Some (B, inner, Unaffected identity active)
         | MakerQuoteLifecycleRefinement.Reopened \<Rightarrow>
             if authority \<noteq> ArmedByAnother then Some (B, conclude_refinement inner identity active (reduce_reopened prior))
             else Some (B, inner, Unaffected identity active)
         | RetentionHorizon \<Rightarrow>
             if authority = Exact
             then (case prior of
                 QuoteTransactionState.Settled settlement \<Rightarrow> do {
                   (B1, s1, _) \<leftarrow> reduce_stable settlement (reduce_stable_wind_down B);
                   Some (B1, inner\<lparr>inner_state := QuoteTransactionState.Settled (close_reopened s1 True)\<rparr>, Applied)
                 }
               | _ \<Rightarrow> Some (B, inner, Applied))
             else Some (B, inner, Unaffected identity active))"

section \<open>The sink boundary\<close>

record PreparedMakerQuoteSinkInvocation =
  prepared_generation :: u64
  prepared_actor_now_ms :: u64

definition prepare_sink_invoked :: "GovernedQuoteTransactionInner \<Rightarrow> u64 \<Rightarrow> u64 \<Rightarrow>
    QuoteError + PreparedMakerQuoteSinkInvocation" where
  "prepare_sink_invoked inner generation actor_now_ms =
     (case inner_state inner of
        Attempt attempt \<Rightarrow>
          (case att_phase attempt of
             Armed _ \<Rightarrow>
               if identity_generation (arm_identity (att_arm attempt)) = generation
               then Inr \<lparr>prepared_generation = generation, prepared_actor_now_ms = actor_now_ms\<rparr>
               else Inl NotArmedAtGeneration
           | _ \<Rightarrow> Inl NotArmedAtGeneration)
      | _ \<Rightarrow> Inl NotArmedAtGeneration)"

text \<open>The prepared invocation holds the lock, so it commits on the state it was prepared on.\<close>

definition prepared_commit :: "GovernedQuoteTransactionInner \<Rightarrow> PreparedMakerQuoteSinkInvocation \<Rightarrow>
    GovernedQuoteTransactionInner" where
  "prepared_commit inner p =
     inner\<lparr>inner_state :=
        fst (commit_sink_invoked (inner_state inner) (prepared_generation p) (prepared_actor_now_ms p))\<rparr>"

section \<open>Queries and scope\<close>

definition close_retention_scope :: "budgets \<Rightarrow> GovernedQuoteTransactionInner \<Rightarrow>
    (budgets \<times> GovernedQuoteTransactionInner \<times> (QuoteError + GovernedQuoteTransactionCommit)) option" where
  "close_retention_scope B inner =
     apply_event B (inner\<lparr>inner_retention_scope_closed := True\<rparr>)
       (QuoteTransactionReductionEvent.PreSink WindDown)"

definition propose_action :: "LegState \<Rightarrow> LegEvent \<Rightarrow> bool \<Rightarrow> (LifecycleAction \<times> LegState) option" where
  "propose_action prior event supports_modify =
     (case (prior, event) of
        (LegState.Idle, QuoteTrigger _) \<Rightarrow> Some (LifecycleAction.Submit, LegState.SubmitPending)
      | (LegState.Resting, QuoteTrigger True) \<Rightarrow>
          if supports_modify then Some (LifecycleAction.Modify, LegState.ModifyPending)
          else Some (LifecycleAction.Cancel, LegState.RequotePending)
      | (LegState.ReplacementPendingBackoff, QuoteTrigger _) \<Rightarrow>
          Some (LifecycleAction.Submit, LegState.SubmitPending)
      | (LegState.ModifyPending, LegEvent.ModifyRejected) \<Rightarrow>
          Some (LifecycleAction.Cancel, LegState.RequotePending)
      | _ \<Rightarrow> None)"

definition propose_transition :: "GovernedQuoteTransactionInner \<Rightarrow> Leg \<Rightarrow> LegEvent \<Rightarrow>
    QuoteLegTransitionProposal option" where
  "propose_transition inner leg event =
     (if is_winding_down (inner_state inner) then None
      else do {
        (action, pending) \<leftarrow> propose_action (leg_state (inner_state inner)) event (inner_supports_modify inner);
        Some \<lparr>prop_leg = leg, prop_action = action, prop_prior_state = leg_state (inner_state inner),
              prop_pending_state = pending\<rparr>
      })"

definition registration_phase :: "GovernedQuoteTransactionInner \<Rightarrow> u64 \<Rightarrow> QuoteTransactionRegistrationPhase" where
  "registration_phase inner generation = state_registration_phase (inner_state inner) generation"

end
