(* ===== verification/MarketQuote.thy ===== *)
theory MarketQuote
  imports QuoteTransaction
begin

text \<open>
  The two-leg market controller of \<open>src/src/bolt_v3_quote_lifecycle.rs\<close>. A \<open>MarketQuote\<close> is a pair
  of shared references to governed transactions; the world holds the transactions and the budgets
  they draw on, so that clones of a market and handles to one of its legs act on the same state.
  Instrument ids are values of an opaque type. \<open>None\<close> is a panic: an \<open>expect\<close> on an error, or a
  panic of the budget ledger.
\<close>

type_synonym txn_ref = nat

record quote_world =
  w_budgets :: budgets
  w_txns :: "txn_ref \<Rightarrow> GovernedQuoteTransactionInner"
  w_next_txn :: txn_ref

datatype MarketState = Idle | Quoting | Draining | ReconciliationHold

datatype MarketAction =
    LegAction Leg LifecycleAction
  | CancelAllBothLegs
  | CancelAllOneSide Leg

record 'i MakerOrderLifecycleScopeIdentity =
  start_timestamp_milliseconds :: u64
  instrument_ids :: "'i \<times> 'i"

definition MakerOrderLifecycleScopeIdentity_new :: "u64 \<Rightarrow> 'i \<Rightarrow> 'i \<Rightarrow> 'i MakerOrderLifecycleScopeIdentity" where
  "MakerOrderLifecycleScopeIdentity_new start yes_id no_id =
     \<lparr>start_timestamp_milliseconds = start, instrument_ids = (yes_id, no_id)\<rparr>"

fun instrument_id :: "'i MakerOrderLifecycleScopeIdentity \<Rightarrow> Leg \<Rightarrow> 'i" where
  "instrument_id s Yes = fst (instrument_ids s)"
| "instrument_id s No = snd (instrument_ids s)"

record 'i MarketQuote =
  scope_identity :: "'i MakerOrderLifecycleScopeIdentity"
  market_yes :: txn_ref
  market_no :: txn_ref

definition MarketQuote_new :: "quote_world \<Rightarrow> 'i MakerOrderLifecycleScopeIdentity \<Rightarrow> bool \<Rightarrow>
    quote_world \<times> 'i MarketQuote" where
  "MarketQuote_new w scope supports_modify =
     (let y = w_next_txn w; n = Suc y in
      (w\<lparr>w_txns := (w_txns w)(y := GovernedQuoteTransaction_new supports_modify,
                               n := GovernedQuoteTransaction_new supports_modify),
         w_next_txn := Suc n\<rparr>,
       \<lparr>scope_identity = scope, market_yes = y, market_no = n\<rparr>))"

fun transaction :: "'i MarketQuote \<Rightarrow> Leg \<Rightarrow> txn_ref" where
  "transaction m Yes = market_yes m"
| "transaction m No = market_no m"

definition market_shares_authority_with :: "'i MarketQuote \<Rightarrow> 'i MarketQuote \<Rightarrow> bool" where
  "market_shares_authority_with m m' \<longleftrightarrow>
     scope_identity m = scope_identity m' \<and> market_yes m = market_yes m' \<and> market_no m = market_no m'"

definition market_leg_state :: "quote_world \<Rightarrow> 'i MarketQuote \<Rightarrow> Leg \<Rightarrow> LegState" where
  "market_leg_state w m leg = leg_state (inner_state (w_txns w (transaction m leg)))"

definition leg_supports_modify :: "quote_world \<Rightarrow> 'i MarketQuote \<Rightarrow> Leg \<Rightarrow> bool" where
  "leg_supports_modify w m leg = inner_supports_modify (w_txns w (transaction m leg))"

definition market_prepaid_generation :: "quote_world \<Rightarrow> 'i MarketQuote \<Rightarrow> Leg \<Rightarrow> u64 option" where
  "market_prepaid_generation w m leg = prepaid_generation (inner_state (w_txns w (transaction m leg)))"

definition market_state :: "quote_world \<Rightarrow> 'i MarketQuote \<Rightarrow> MarketState" where
  "market_state w m =
     (let states = [market_leg_state w m Yes, market_leg_state w m No];
          any_active = list_ex (\<lambda>s. s \<in> {LegState.SubmitPending, LegState.Resting, LegState.RequotePending,
            LegState.ModifyPending, LegState.ReplacementPendingBackoff}) states
      in if list_ex (\<lambda>s. s = PoisonedReconciliationHold) states then ReconciliationHold
         else if any_active then Quoting
         else if list_ex (\<lambda>s. s = LegState.CancelPending) states then Draining
         else MarketState.Idle)"

section \<open>Acting on one transaction\<close>

text \<open>\<open>GovernedQuoteTransaction::reduce\<close>, \<open>refine\<close> and \<open>close_retention_scope\<close> on a shared reference.\<close>

definition on_txn :: "quote_world \<Rightarrow> txn_ref \<Rightarrow>
    (budgets \<Rightarrow> GovernedQuoteTransactionInner \<Rightarrow> (budgets \<times> GovernedQuoteTransactionInner \<times> 'a) option) \<Rightarrow>
    (quote_world \<times> 'a) option" where
  "on_txn w ref f = do {
     (B, inner, x) \<leftarrow> f (w_budgets w) (w_txns w ref);
     Some (w\<lparr>w_budgets := B, w_txns := (w_txns w)(ref := inner)\<rparr>, x)
   }"

definition reduce :: "quote_world \<Rightarrow> txn_ref \<Rightarrow> QuoteTransactionReductionEvent \<Rightarrow>
    (quote_world \<times> (QuoteError + GovernedQuoteTransactionCommit)) option" where
  "reduce w ref event = on_txn w ref (\<lambda>B inner. apply_event B inner event)"

definition reduce_expect :: "quote_world \<Rightarrow> txn_ref \<Rightarrow> QuoteTransactionReductionEvent \<Rightarrow>
    (quote_world \<times> LifecycleAction option) option" where
  "reduce_expect w ref event = do {
     (w1, res) \<leftarrow> reduce w ref event;
     (case res of Inr c \<Rightarrow> Some (w1, commit_action c) | Inl _ \<Rightarrow> None)
   }"

definition reduce_is_ok :: "quote_world \<Rightarrow> txn_ref \<Rightarrow> QuoteTransactionReductionEvent \<Rightarrow>
    (quote_world \<times> bool) option" where
  "reduce_is_ok w ref event = do {
     (w1, res) \<leftarrow> reduce w ref event;
     Some (w1, case res of Inr _ \<Rightarrow> True | Inl _ \<Rightarrow> False)
   }"

section \<open>Leg events and the transaction protocol\<close>

definition on_leg_event :: "quote_world \<Rightarrow> 'i MarketQuote \<Rightarrow> Leg \<Rightarrow> LegEvent \<Rightarrow>
    (quote_world \<times> MarketAction option) option" where
  "on_leg_event w m leg event =
     map_option (\<lambda>(w1, action). (w1, map_option (LegAction leg) action))
       (reduce_expect w (transaction m leg) (QuoteTransactionReductionEvent.PreSink (Lifecycle event)))"

definition propose_leg_event :: "quote_world \<Rightarrow> 'i MarketQuote \<Rightarrow> Leg \<Rightarrow> LegEvent \<Rightarrow>
    QuoteLegTransitionProposal option" where
  "propose_leg_event w m leg event = propose_transition (w_txns w (transaction m leg)) leg event"

definition arm_leg_transaction :: "quote_world \<Rightarrow> 'i MarketQuote \<Rightarrow> QuoteLegTransitionProposal \<Rightarrow> budget_ref \<Rightarrow>
    MakerQuoteBudgetProposal \<Rightarrow> MakerQuoteLifecycleIdentity \<Rightarrow> (quote_world \<times> (QuoteError + unit)) option" where
  "arm_leg_transaction w m pr ref budget_proposal identity = do {
     (w1, res) \<leftarrow> reduce w (transaction m (prop_leg pr))
       (QuoteTransactionReductionEvent.PreSink (Arm pr ref budget_proposal identity));
     Some (w1, case res of
         Inl error \<Rightarrow> Inl error
       | Inr c \<Rightarrow> if commit_action c = None then Inr () else Inl ArmingEmittedAction)
   }"

definition prepare_leg_transaction_sink_invoked :: "quote_world \<Rightarrow> 'i MarketQuote \<Rightarrow>
    QuoteLegTransitionProposal \<Rightarrow> u64 \<Rightarrow> u64 \<Rightarrow> QuoteError + PreparedMakerQuoteSinkInvocation" where
  "prepare_leg_transaction_sink_invoked w m pr generation actor_now_ms =
     prepare_sink_invoked (w_txns w (transaction m (prop_leg pr))) generation actor_now_ms"

definition commit_prepared :: "quote_world \<Rightarrow> txn_ref \<Rightarrow> PreparedMakerQuoteSinkInvocation \<Rightarrow> quote_world" where
  "commit_prepared w ref p = w\<lparr>w_txns := (w_txns w)(ref := prepared_commit (w_txns w ref) p)\<rparr>"

definition leg_transaction_registration_phase :: "quote_world \<Rightarrow> 'i MarketQuote \<Rightarrow> QuoteLegTransitionProposal \<Rightarrow>
    u64 \<Rightarrow> QuoteTransactionRegistrationPhase" where
  "leg_transaction_registration_phase w m pr generation =
     registration_phase (w_txns w (transaction m (prop_leg pr))) generation"

definition unwind_leg_transaction :: "quote_world \<Rightarrow> 'i MarketQuote \<Rightarrow> QuoteLegTransitionProposal \<Rightarrow>
    (quote_world \<times> (QuoteError + unit)) option" where
  "unwind_leg_transaction w m pr = do {
     (w1, res) \<leftarrow> reduce w (transaction m (prop_leg pr)) (QuoteTransactionReductionEvent.PreSink Unwind);
     Some (w1, case res of
         Inl error \<Rightarrow> Inl error
       | Inr c \<Rightarrow> if commit_action c = None then Inr () else Inl UnwindEmittedAction)
   }"

definition commit_leg_transaction :: "quote_world \<Rightarrow> 'i MarketQuote \<Rightarrow> QuoteLegTransitionProposal \<Rightarrow> u64 \<Rightarrow>
    (quote_world \<times> bool) option" where
  "commit_leg_transaction w m pr generation =
     reduce_is_ok w (transaction m (prop_leg pr))
       (SinkCapable (case prop_action pr of
          LifecycleAction.Submit \<Rightarrow> SinkCapableQuoteTransactionEvent.Submitted generation
        | LifecycleAction.Cancel \<Rightarrow> SinkCapableQuoteTransactionEvent.NtMutationInvoked generation
        | LifecycleAction.Modify \<Rightarrow> SinkCapableQuoteTransactionEvent.NtMutationInvoked generation))"

definition abort_leg_transaction :: "quote_world \<Rightarrow> 'i MarketQuote \<Rightarrow> QuoteLegTransitionProposal \<Rightarrow> u64 \<Rightarrow>
    (quote_world \<times> bool) option" where
  "abort_leg_transaction w m pr generation =
     reduce_is_ok w (transaction m (prop_leg pr))
       (QuoteTransactionReductionEvent.PreSink (QuoteTransactionEvent.PreSinkAbort generation))"

definition retire_leg_transaction_from_callback :: "quote_world \<Rightarrow> 'i MarketQuote \<Rightarrow>
    QuoteLegTransitionProposal \<Rightarrow> u64 \<Rightarrow> (quote_world \<times> bool) option" where
  "retire_leg_transaction_from_callback w m pr generation =
     reduce_is_ok w (transaction m (prop_leg pr))
       (SinkCapable (SinkCapableQuoteTransactionEvent.CallbackRetired generation))"

definition fail_pre_sink_leg_transaction :: "quote_world \<Rightarrow> 'i MarketQuote \<Rightarrow> QuoteLegTransitionProposal \<Rightarrow>
    u64 \<Rightarrow> (quote_world \<times> bool) option" where
  "fail_pre_sink_leg_transaction w m pr generation =
     reduce_is_ok w (transaction m (prop_leg pr))
       (QuoteTransactionReductionEvent.PreSink (QuoteTransactionEvent.PreSinkInvariantFailure generation))"

definition unwind_post_sink_leg_transaction :: "quote_world \<Rightarrow> 'i MarketQuote \<Rightarrow> QuoteLegTransitionProposal \<Rightarrow>
    u64 \<Rightarrow> (quote_world \<times> bool) option" where
  "unwind_post_sink_leg_transaction w m pr generation =
     reduce_is_ok w (transaction m (prop_leg pr)) (SinkCapable (PostSinkUnwind generation))"

definition reject_leg_transaction_at_sink :: "quote_world \<Rightarrow> 'i MarketQuote \<Rightarrow> QuoteLegTransitionProposal \<Rightarrow>
    u64 \<Rightarrow> (quote_world \<times> bool) option" where
  "reject_leg_transaction_at_sink w m pr generation =
     reduce_is_ok w (transaction m (prop_leg pr))
       (SinkCapable (SinkCapableQuoteTransactionEvent.SinkRejected generation))"

section \<open>Cancel scopes\<close>

definition cancel_leg :: "quote_world \<Rightarrow> 'i MarketQuote \<Rightarrow> Leg \<Rightarrow> (quote_world \<times> MarketAction option) option" where
  "cancel_leg w m leg =
     map_option (\<lambda>(w1, action). (w1, map_option (LegAction leg) action))
       (reduce_expect w (transaction m leg) (QuoteTransactionReductionEvent.PreSink WindDown))"

definition drain :: "quote_world \<Rightarrow> 'i MarketQuote \<Rightarrow> (quote_world \<times> MarketAction option) option" where
  "drain w m = do {
     (w1, yes) \<leftarrow> reduce_expect w (market_yes m) (QuoteTransactionReductionEvent.PreSink WindDown);
     (w2, no) \<leftarrow> reduce_expect w1 (market_no m) (QuoteTransactionReductionEvent.PreSink WindDown);
     Some (w2, if yes \<noteq> None \<or> no \<noteq> None then Some CancelAllBothLegs else None)
   }"

definition close_scope_expect :: "quote_world \<Rightarrow> txn_ref \<Rightarrow> (quote_world \<times> LifecycleAction option) option" where
  "close_scope_expect w ref = do {
     (w1, res) \<leftarrow> on_txn w ref close_retention_scope;
     (case res of Inr c \<Rightarrow> Some (w1, commit_action c) | Inl _ \<Rightarrow> None)
   }"

definition market_close_retention_scope :: "quote_world \<Rightarrow> 'i MarketQuote \<Rightarrow>
    (quote_world \<times> MarketAction option) option" where
  "market_close_retention_scope w m = do {
     (w1, yes) \<leftarrow> close_scope_expect w (market_yes m);
     (w2, no) \<leftarrow> close_scope_expect w1 (market_no m);
     Some (w2, if yes \<noteq> None \<or> no \<noteq> None then Some CancelAllBothLegs else None)
   }"

definition cancel_one_side :: "quote_world \<Rightarrow> 'i MarketQuote \<Rightarrow> Leg \<Rightarrow> (quote_world \<times> MarketAction option) option" where
  "cancel_one_side w m leg =
     map_option (\<lambda>(w1, action). (w1, map_option (\<lambda>_. CancelAllOneSide leg) action))
       (reduce_expect w (transaction m leg) (QuoteTransactionReductionEvent.PreSink WindDown))"

section \<open>Leg handles\<close>

record 'i MakerQuoteLifecycleHandle =
  handle_market :: "'i MarketQuote"
  handle_leg :: Leg

definition handle_refine :: "quote_world \<Rightarrow> 'i MakerQuoteLifecycleHandle \<Rightarrow> MakerQuoteLifecycleRefinementEvent \<Rightarrow>
    (quote_world \<times> MakerQuoteLifecycleRefinementOutcome) option" where
  "handle_refine w h event =
     on_txn w (transaction (handle_market h) (handle_leg h)) (\<lambda>B inner. refine B inner event)"

definition handle_shares_authority_with :: "'i MakerQuoteLifecycleHandle \<Rightarrow> 'i MakerQuoteLifecycleHandle \<Rightarrow> bool" where
  "handle_shares_authority_with h h' \<longleftrightarrow>
     handle_leg h = handle_leg h' \<and>
     scope_identity (handle_market h) = scope_identity (handle_market h') \<and>
     transaction (handle_market h) (handle_leg h) = transaction (handle_market h') (handle_leg h')"

definition shares_lifecycle_scope_with :: "'i MakerQuoteLifecycleHandle \<Rightarrow> 'i MakerQuoteLifecycleHandle \<Rightarrow> bool" where
  "shares_lifecycle_scope_with h h' \<longleftrightarrow>
     handle_leg h = handle_leg h' \<and>
     scope_identity (handle_market h) = scope_identity (handle_market h')"

definition retention_scope_is_closed :: "quote_world \<Rightarrow> 'i MakerQuoteLifecycleHandle \<Rightarrow> bool" where
  "retention_scope_is_closed w h =
     inner_retention_scope_closed (w_txns w (transaction (handle_market h) (handle_leg h)))"

definition hold_missing_money_moving_truth :: "quote_world \<Rightarrow> 'i MakerQuoteLifecycleHandle \<Rightarrow>
    (quote_world \<times> bool) option" where
  "hold_missing_money_moving_truth w h =
     reduce_is_ok w (transaction (handle_market h) (handle_leg h))
       (QuoteTransactionReductionEvent.PreSink MissingMoneyMovingTruth)"

end
