(* ===== verification/TokenFlow.thy ===== *)
theory TokenFlow
  imports RequoteLedger
begin

text \<open>
  Owned reservations as tokens. The source makes a reservation an affine value: it is moved from
  state to state and given back on drop, so the ledger's outstanding entries are exactly those of
  live tokens. The locale \<open>token_ledger\<close> states what a client of the ledger may rely on, and holds
  the calculus the quote reducers are proved with: \<open>moves B T B' T'\<close> says that a computation that
  owned the tokens \<open>T\<close> in ledger \<open>B\<close> ends owning \<open>T'\<close> in \<open>B'\<close>, with every other entry untouched and
  every entry of a token it gave up cleared. It is interpreted on the model's budgets.
\<close>

section \<open>The interface\<close>

locale token_ledger =
  fixes books :: "'b \<Rightarrow> bool"
    and look :: "'b \<Rightarrow> 'k \<Rightarrow> 'l option"
    and fresh :: "'b \<Rightarrow> 'k \<Rightarrow> bool"
    and ledger_step :: "'b \<Rightarrow> 'b \<Rightarrow> bool"
    and live :: "'b \<Rightarrow> 't \<Rightarrow> bool"
    and key :: "'t \<Rightarrow> 'k"
  assumes books_step: "books B \<Longrightarrow> ledger_step B B' \<Longrightarrow> books B'"
    and fresh_step: "ledger_step B B' \<Longrightarrow> fresh B' k \<Longrightarrow> fresh B k"
    and fresh_look: "books B \<Longrightarrow> fresh B k \<Longrightarrow> look B k = None"
    and live_issued: "live B t \<Longrightarrow> \<not> fresh B (key t)"
    and live_keep: "live B t \<Longrightarrow> ledger_step\<^sup>*\<^sup>* B B' \<Longrightarrow> look B' (key t) = look B (key t) \<Longrightarrow> live B' t"
begin

definition holds :: "'b \<Rightarrow> 't set \<Rightarrow> bool" where
  "holds B T \<longleftrightarrow> books B \<and> (\<forall>t \<in> T. live B t)"

definition moves :: "'b \<Rightarrow> 't set \<Rightarrow> 'b \<Rightarrow> 't set \<Rightarrow> bool" where
  "moves B T B' T' \<longleftrightarrow>
     ledger_step\<^sup>*\<^sup>* B B' \<and>
     (\<forall>k. k \<notin> key ` T \<longrightarrow> k \<notin> key ` T' \<longrightarrow> look B' k = look B k) \<and>
     (\<forall>k. k \<in> key ` T \<longrightarrow> k \<notin> key ` T' \<longrightarrow> look B' k = None) \<and>
     (\<forall>k. k \<notin> key ` T \<longrightarrow> k \<in> key ` T' \<longrightarrow> fresh B k) \<and>
     (\<forall>t \<in> T'. live B' t)"

lemma books_steps: "ledger_step\<^sup>*\<^sup>* B B' \<Longrightarrow> books B \<Longrightarrow> books B'"
  by (induction rule: rtranclp_induct) (auto intro: books_step)

lemma fresh_steps: "ledger_step\<^sup>*\<^sup>* B B' \<Longrightarrow> fresh B' k \<Longrightarrow> fresh B k"
  by (induction rule: rtranclp_induct) (auto intro: fresh_step)

lemma moves_steps: "moves B T B' T' \<Longrightarrow> ledger_step\<^sup>*\<^sup>* B B'"
  by (simp add: moves_def)

lemma moves_holds: "moves B T B' T' \<Longrightarrow> holds B T \<Longrightarrow> holds B' T'"
  by (auto simp: moves_def holds_def intro: books_steps)

lemma moves_refl: "holds B T \<Longrightarrow> moves B T B T"
  by (simp add: moves_def holds_def)

lemma moves_trans:
  assumes "books B" and 1: "moves B T B1 T1" and 2: "moves B1 T1 B2 T2"
  shows "moves B T B2 T2"
  unfolding moves_def
proof (intro conjI allI impI)
  have s1: "ledger_step\<^sup>*\<^sup>* B B1" and s2: "ledger_step\<^sup>*\<^sup>* B1 B2" using 1 2 by (simp_all add: moves_def)
  then show "ledger_step\<^sup>*\<^sup>* B B2" by simp
  show "\<forall>t \<in> T2. live B2 t" using 2 by (simp add: moves_def)
  fix k
  show "look B2 k = look B k" if "k \<notin> key ` T" "k \<notin> key ` T2"
  proof (cases "k \<in> key ` T1")
    case True
    then have "fresh B k" and "look B2 k = None" using 1 2 that by (simp_all add: moves_def)
    then show ?thesis using fresh_look [OF assms(1)] by simp
  next
    case False
    then show ?thesis using 1 2 that by (simp add: moves_def)
  qed
  show "look B2 k = None" if "k \<in> key ` T" "k \<notin> key ` T2"
    using 1 2 that by (cases "k \<in> key ` T1") (simp_all add: moves_def)
  show "fresh B k" if "k \<notin> key ` T" "k \<in> key ` T2"
    using 1 2 that fresh_steps [OF s1] by (cases "k \<in> key ` T1") (simp_all add: moves_def)
qed

lemma moves_frame:
  assumes 1: "moves B T B' T'" and live: "\<And>t. t \<in> F \<Longrightarrow> live B t" and dis: "key ` F \<inter> key ` T = {}"
  shows "moves B (T \<union> F) B' (T' \<union> F)"
proof -
  have "look B' (key t) = look B (key t)" if t: "t \<in> F" for t
  proof -
    have "key t \<notin> key ` T" using dis t by blast
    moreover have "key t \<notin> key ` T'"
      using 1 live_issued [OF live [OF t]] \<open>key t \<notin> key ` T\<close> by (auto simp: moves_def)
    ultimately show ?thesis using 1 by (simp add: moves_def)
  qed
  then have "live B' t" if "t \<in> F" for t
    using that live_keep [OF live [OF that] moves_steps [OF 1]] by simp
  then show ?thesis using 1 by (auto simp: moves_def image_Un)
qed

text \<open>Computations over the ledger: total, and moving tokens to where the result says.\<close>

definition flows :: "'b \<Rightarrow> 't set \<Rightarrow> ('a \<Rightarrow> 't set) \<Rightarrow> ('b \<times> 'a) option \<Rightarrow> bool" where
  "flows B T own m \<longleftrightarrow> (\<exists>B' x. m = Some (B', x) \<and> moves B T B' (own x))"

definition gives :: "'b \<Rightarrow> 't set \<Rightarrow> 't set \<Rightarrow> 'b option \<Rightarrow> bool" where
  "gives B T T' m \<longleftrightarrow> (\<exists>B'. m = Some B' \<and> moves B T B' T')"

lemma flows_return: "holds B T \<Longrightarrow> own x = T \<Longrightarrow> flows B T own (Some (B, x))"
  by (simp add: flows_def moves_refl)

lemma gives_return: "holds B T \<Longrightarrow> gives B T T (Some B)"
  by (simp add: gives_def moves_refl)

lemma flows_bind:
  assumes h: "holds B T" and m: "flows B T own m"
    and f: "\<And>B' x. holds B' (own x) \<Longrightarrow> flows B' (own x) own' (f (B', x))"
  shows "flows B T own' (Option.bind m f)"
proof -
  obtain B1 x where x: "m = Some (B1, x)" "moves B T B1 (own x)" using m by (auto simp: flows_def)
  obtain B2 y where y: "f (B1, x) = Some (B2, y)" "moves B1 (own x) B2 (own' y)"
    using f [OF moves_holds [OF x(2) h]] by (auto simp: flows_def)
  have "books B" using h by (simp add: holds_def)
  from moves_trans [OF this x(2) y(2)] show ?thesis using x(1) y(1) by (simp add: flows_def)
qed

lemma gives_bind:
  assumes h: "holds B T" and m: "gives B T T1 m"
    and f: "\<And>B'. holds B' T1 \<Longrightarrow> flows B' T1 own (f B')"
  shows "flows B T own (Option.bind m f)"
proof -
  obtain B1 where x: "m = Some B1" "moves B T B1 T1" using m by (auto simp: gives_def)
  obtain B2 y where y: "f B1 = Some (B2, y)" "moves B1 T1 B2 (own y)"
    using f [OF moves_holds [OF x(2) h]] by (auto simp: flows_def)
  have "books B" using h by (simp add: holds_def)
  from moves_trans [OF this x(2) y(2)] show ?thesis using x(1) y(1) by (simp add: flows_def)
qed

lemma flows_map:
  "flows B T (\<lambda>x. own (g x)) m \<Longrightarrow> flows B T own (map_option (\<lambda>(B', x). (B', g x)) m)"
  by (auto simp: flows_def)

text \<open>
  Many owners of one ledger. Each owns its own tokens, no key is owned twice, and every entry of
  the ledger is owned: an owner that follows the calculus keeps all of it.
\<close>

definition accounted :: "'b \<Rightarrow> ('i \<Rightarrow> 't set) \<Rightarrow> bool" where
  "accounted B own \<longleftrightarrow>
     books B \<and> (\<forall>i. \<forall>t \<in> own i. live B t) \<and>
     (\<forall>i j. i \<noteq> j \<longrightarrow> key ` own i \<inter> key ` own j = {}) \<and>
     (\<forall>k l. look B k = Some l \<longrightarrow> (\<exists>i. k \<in> key ` own i))"

lemma accounted_holds: "accounted B own \<Longrightarrow> holds B (own i)"
  by (simp add: accounted_def holds_def)

lemma accounted_moves:
  assumes acc: "accounted B own" and mv: "moves B (own i) B' T'"
  shows "accounted B' (own(i := T'))"
proof -
  have old: "key t \<notin> key ` own i \<and> key t \<notin> key ` T' \<and> live B' t" if "t \<in> own j" "j \<noteq> i" for j t
  proof -
    have a: "key t \<notin> key ` own i" using acc that unfolding accounted_def by blast
    have lv: "live B t" using acc that by (simp add: accounted_def)
    have b: "key t \<notin> key ` T'" using mv a live_issued [OF lv] by (auto simp: moves_def)
    have "look B' (key t) = look B (key t)" using mv a b by (simp add: moves_def)
    then show ?thesis using a b live_keep [OF lv moves_steps [OF mv]] by simp
  qed
  have owned: "\<exists>j. k \<in> key ` (own(i := T')) j" if "look B' k = Some l" for k l
  proof (cases "k \<in> key ` T'")
    case True
    then show ?thesis by (intro exI [of _ i]) simp
  next
    case False
    then have "k \<notin> key ` own i" using mv that by (auto simp: moves_def)
    then have "look B k = Some l" using mv that False by (simp add: moves_def)
    then obtain j where "k \<in> key ` own j" using acc unfolding accounted_def by blast
    then show ?thesis using \<open>k \<notin> key ` own i\<close> by (intro exI [of _ j]) auto
  qed
  have new: "key ` own j \<inter> key ` T' = {}" if "j \<noteq> i" for j using old [OF _ that] by blast
  have dis: "key ` (own(i := T')) a \<inter> key ` (own(i := T')) b = {}" if "a \<noteq> b" for a b
  proof -
    have "key ` own a \<inter> key ` own b = {}" using acc that unfolding accounted_def by blast
    then show ?thesis using new [of a] new [of b] that
      by (cases "a = i"; cases "b = i") (simp_all add: Int_commute)
  qed
  have lv: "\<forall>t \<in> (own(i := T')) j. live B' t" for j
    using old mv by (cases "j = i") (simp_all add: moves_def)
  have "books B" using acc by (simp add: accounted_def)
  then have "books B'" by (rule books_steps [OF moves_steps [OF mv]])
  then show ?thesis unfolding accounted_def
    by (intro conjI allI impI) (assumption, rule lv, erule dis, erule owned)
qed

end

section \<open>The model's budgets as a token ledger\<close>

definition res_key :: "RequoteBudgetReservation \<Rightarrow> budget_ref \<times> u64" where
  "res_key r = (res_budget r, res_generation r)"

definition entry :: "budgets \<Rightarrow> budget_ref \<times> u64 \<Rightarrow> OutstandingLiability option" where
  "entry B k = bt_get (outstanding (B (fst k))) (snd k)"

definition unissued :: "budgets \<Rightarrow> budget_ref \<times> u64 \<Rightarrow> bool" where
  "unissued B k \<longleftrightarrow> next_reservation_generation (B (fst k)) < snd k"

definition sound_books :: "budgets \<Rightarrow> bool" where
  "sound_books B \<longleftrightarrow> (\<forall>ref. \<exists>Ls Lr. pair_inv (B ref) Ls Lr)"

text \<open>
  A token is live when its generation was issued and, once its sink clock is stamped, that clock
  is not earlier than the liability it will settle.
\<close>

definition token_live :: "budgets \<Rightarrow> RequoteBudgetReservation \<Rightarrow> bool" where
  "token_live B r \<longleftrightarrow>
     \<not> unissued B (res_key r) \<and>
     (case res_phase r of
        Refundable \<Rightarrow> True
      | SinkInvoked now \<Rightarrow> \<forall>l. entry B (res_key r) = Some l \<longrightarrow> liability_now_ms l \<le> now)"

definition budget_step :: "budgets \<Rightarrow> budgets \<Rightarrow> bool" where
  "budget_step B B' \<longleftrightarrow> (\<exists>ref st'. pair_step (B ref) st' \<and> B' = B(ref := st'))"

lemma record_balance_frame:
  assumes "record_balance st bal = Some st'"
  shows "next_reservation_generation st' = next_reservation_generation st \<and> outstanding st' = outstanding st"
  using assms unfolding record_balance_def bind_eq_Some_conv
  by (auto split: if_split_asm)

lemma settle_section_cases:
  assumes "settle_section st g now = Some st'"
  shows "next_reservation_generation st' = next_reservation_generation st"
    and "bt_invar (outstanding st) \<Longrightarrow> g' \<noteq> g \<Longrightarrow> bt_get (outstanding st') g' = bt_get (outstanding st) g'"
proof -
  have "next_reservation_generation st' = next_reservation_generation st \<and>
    (bt_invar (outstanding st) \<longrightarrow> g' \<noteq> g \<longrightarrow> bt_get (outstanding st') g' = bt_get (outstanding st) g')"
  proof (cases "bt_get (outstanding st) g")
    case None
    then show ?thesis using assms by (simp add: settle_section_def)
  next
    case (Some l)
    show ?thesis
    proof (cases l)
      case (OneShot bal)
      then have "record_balance (remove_outstanding st g) (bal\<lparr>lb_now_ms := now\<rparr>) = Some st'"
        using assms Some by (simp add: settle_section_def Let_def)
      from record_balance_frame [OF this] show ?thesis by (simp add: btm.get_remove)
    next
      case (CancelResubmitBothOutstanding t)
      then obtain b where "st' = (remove_outstanding st g)\<lparr>outstanding :=
          bt_insert g (CancelResubmitReplacementOutstanding now) (bt_remove g (outstanding st)), rest_calls := b\<rparr>"
        using assms Some by (auto simp: settle_section_def Let_def)
      then show ?thesis by (simp add: btm.get_remove btm.get_insert btm.invar_remove)
    next
      case (CancelResubmitReplacementOutstanding t)
      then have "record_balance (remove_outstanding st g) \<lparr>lb_now_ms = now, lb_submit_cost = SUBMIT_COMMAND_COST,
          lb_rest_cost = REST_CALL_COST\<rparr> = Some st'"
        using assms Some by (simp add: settle_section_def Let_def)
      from record_balance_frame [OF this] show ?thesis by (simp add: btm.get_remove)
    qed
  qed
  then show "next_reservation_generation st' = next_reservation_generation st"
    and "bt_invar (outstanding st) \<Longrightarrow> g' \<noteq> g \<Longrightarrow> bt_get (outstanding st') g' = bt_get (outstanding st) g'"
    by simp_all
qed

lemma commit_section_cases:
  assumes "commit_section st g = Some st'"
  shows "next_reservation_generation st' = next_reservation_generation st"
    and "bt_invar (outstanding st) \<Longrightarrow>
      bt_get (outstanding st') g' = (if g' = g then None else bt_get (outstanding st) g')"
proof -
  have "next_reservation_generation st' = next_reservation_generation st \<and>
    (bt_invar (outstanding st) \<longrightarrow>
      bt_get (outstanding st') g' = (if g' = g then None else bt_get (outstanding st) g'))"
  proof (cases "bt_get (outstanding st) g")
    case None
    then show ?thesis using assms by (simp add: commit_section_def)
  next
    case (Some l)
    then have "record_balance (remove_outstanding st g) (balance l) = Some st'"
      using assms by (simp add: commit_section_def)
    from record_balance_frame [OF this] show ?thesis by (simp add: btm.get_remove)
  qed
  then show "next_reservation_generation st' = next_reservation_generation st"
    and "bt_invar (outstanding st) \<Longrightarrow>
      bt_get (outstanding st') g' = (if g' = g then None else bt_get (outstanding st) g')"
    by simp_all
qed

lemma pair_step_generation:
  assumes "pair_step st st'"
  shows "next_reservation_generation st \<le> next_reservation_generation st'"
  using assms
proof cases
  case (reserve pr r)
  then consider "st' = st" | gen where "checked_add (next_reservation_generation st) 1 = Some gen"
      "next_reservation_generation st' = gen"
    by (auto simp: reserve_section_def Let_def split: if_split_asm option.splits)
  then show ?thesis
    by cases (simp_all add: word_le_nat_alt unat_checked_add)
next
  case (settle g now)
  then show ?thesis using settle_section_cases(1) by simp
next
  case (commit g)
  then show ?thesis using commit_section_cases(1) by simp
next
  case (discard g)
  then show ?thesis by simp
qed

lemma budget_step_books: "sound_books B \<Longrightarrow> budget_step B B' \<Longrightarrow> sound_books B'"
  unfolding sound_books_def budget_step_def using pair_step_inv by fastforce

lemma unissued_entry:
  assumes "sound_books B" and "unissued B k"
  shows "entry B k = None"
proof (rule ccontr)
  assume "entry B k \<noteq> None"
  then obtain l where "bt_get (outstanding (B (fst k))) (snd k) = Some l" by (auto simp: entry_def)
  moreover obtain Ls Lr where "pair_inv (B (fst k)) Ls Lr" using assms(1) unfolding sound_books_def by blast
  ultimately have "snd k \<le> next_reservation_generation (B (fst k))" using pair_inv_lanes(4) by blast
  then show False using assms(2) by (simp add: unissued_def)
qed

lemma budget_step_unissued: "budget_step B B' \<Longrightarrow> unissued B' k \<Longrightarrow> unissued B k"
  unfolding budget_step_def unissued_def
  by (auto split: if_splits dest: pair_step_generation intro: le_less_trans)

lemma budget_steps_unissued: "budget_step\<^sup>*\<^sup>* B B' \<Longrightarrow> unissued B' k \<Longrightarrow> unissued B k"
  by (induction rule: rtranclp_induct) (auto intro: budget_step_unissued)

lemma token_live_keep:
  assumes "token_live B r" and "budget_step\<^sup>*\<^sup>* B B'" and "entry B' (res_key r) = entry B (res_key r)"
  shows "token_live B' r"
  using assms(1,3) budget_steps_unissued [OF assms(2), of "res_key r"] unfolding token_live_def
  by (auto split: RequoteBudgetReservationPhase.splits)

interpretation tok: token_ledger sound_books entry unissued budget_step token_live res_key
proof
  show "sound_books B \<Longrightarrow> budget_step B B' \<Longrightarrow> sound_books B'" for B B' by (rule budget_step_books)
  show "budget_step B B' \<Longrightarrow> unissued B' k \<Longrightarrow> unissued B k" for B B' k by (rule budget_step_unissued)
  show "sound_books B \<Longrightarrow> unissued B k \<Longrightarrow> entry B k = None" for B k by (rule unissued_entry)
  show "token_live B r \<Longrightarrow> \<not> unissued B (res_key r)" for B r by (simp add: token_live_def)
  show "token_live B r \<Longrightarrow> budget_step\<^sup>*\<^sup>* B B' \<Longrightarrow> entry B' (res_key r) = entry B (res_key r) \<Longrightarrow>
      token_live B' r" for B B' r
    by (rule token_live_keep)
qed

section \<open>The operations of a reservation move its token\<close>

lemma holds_invar: "tok.holds B T \<Longrightarrow> bt_invar (outstanding (B ref))"
  unfolding tok.holds_def sound_books_def using pair_inv_lanes(1) by blast

lemma section_moves:
  assumes "pair_step (B (res_budget r)) st'"
    and "\<And>g. g \<noteq> res_generation r \<Longrightarrow> bt_get (outstanding st') g = bt_get (outstanding (B (res_budget r))) g"
    and "T' = {} \<and> bt_get (outstanding st') (res_generation r) = None \<or>
      (\<exists>r'. T' = {r'} \<and> res_key r' = res_key r \<and> token_live (B(res_budget r := st')) r')"
  shows "tok.moves B {r} (B(res_budget r := st')) T'"
proof -
  have "budget_step B (B(res_budget r := st'))" using assms(1) unfolding budget_step_def by blast
  moreover have "entry (B(res_budget r := st')) k = entry B k" if "k \<noteq> res_key r" for k
    using that assms(2) by (cases k) (auto simp: entry_def res_key_def)
  ultimately show ?thesis using assms(3) unfolding tok.moves_def
    by (auto simp: entry_def res_key_def)
qed

lemma live_issued_le: "token_live B r \<Longrightarrow> res_generation r \<le> next_reservation_generation (B (res_budget r))"
  by (simp add: token_live_def unissued_def res_key_def not_less)

lemma live_clock:
  "token_live B r \<Longrightarrow> res_phase r = SinkInvoked now \<Longrightarrow>
   bt_get (outstanding (B (res_budget r))) (res_generation r) = Some l \<Longrightarrow> liability_now_ms l \<le> now"
  by (simp add: token_live_def entry_def res_key_def)

lemma refundable_live:
  "res_phase r = Refundable \<Longrightarrow> res_generation r \<le> next_reservation_generation (B (res_budget r)) \<Longrightarrow> token_live B r"
  by (simp add: token_live_def unissued_def res_key_def not_less)

lemma settle_flows:
  assumes h: "tok.holds B {r}"
  shows "tok.flows B {r} (\<lambda>r'. {r'}) (settle_prepared_sink_invocation B r)"
proof (cases "res_phase r")
  case Refundable
  then show ?thesis using tok.flows_return [OF h, of "\<lambda>r'. {r'}" r]
    by (simp add: settle_prepared_sink_invocation_def)
next
  case (SinkInvoked now)
  have live: "token_live B r" using h by (simp add: tok.holds_def)
  obtain Ls Lr where inv: "pair_inv (B (res_budget r)) Ls Lr"
    using h unfolding tok.holds_def sound_books_def by blast
  note clock = live_clock [OF live SinkInvoked]
  obtain st' where st': "settle_section (B (res_budget r)) (res_generation r) now = Some st'"
    using settle_section_inv [OF inv clock] by blast
  have "pair_step (B (res_budget r)) st'" by (rule pair_step.settle [OF st' clock])
  moreover have "token_live (B(res_budget r := st')) (r\<lparr>res_phase := Refundable\<rparr>)"
    using live_issued_le [OF live] settle_section_cases(1) [OF st'] by (intro refundable_live) simp_all
  ultimately have "tok.moves B {r} (B(res_budget r := st')) {r\<lparr>res_phase := Refundable\<rparr>}"
    using settle_section_cases(2) [OF st' holds_invar [OF h]]
    by (intro section_moves) (simp_all add: res_key_def)
  then show ?thesis using SinkInvoked st' by (simp add: settle_prepared_sink_invocation_def tok.flows_def)
qed

lemma discard_moves:
  assumes h: "tok.holds B {r}"
  shows "tok.moves B {r} (B(res_budget r := remove_outstanding (B (res_budget r)) (res_generation r))) {}"
  using holds_invar [OF h]
  by (intro section_moves) (simp_all add: pair_step.discard btm.get_remove)

lemma gives_of_flows:
  assumes h: "tok.holds B T" and m: "tok.flows B T own m"
    and f: "\<And>B' x. tok.holds B' (own x) \<Longrightarrow> tok.gives B' (own x) T' (f (B', x))"
  shows "tok.gives B T T' (Option.bind m f)"
proof -
  obtain B1 x where x: "m = Some (B1, x)" "tok.moves B T B1 (own x)" using m by (auto simp: tok.flows_def)
  obtain B2 where y: "f (B1, x) = Some B2" "tok.moves B1 (own x) B2 T'"
    using f [OF tok.moves_holds [OF x(2) h]] by (auto simp: tok.gives_def)
  have "sound_books B" using h by (simp add: tok.holds_def)
  from tok.moves_trans [OF this x(2) y(2)] show ?thesis using x(1) y(1) by (simp add: tok.gives_def)
qed

lemma drop_gives:
  assumes h: "tok.holds B {r}"
  shows "tok.gives B {r} {} (drop_reservation B r)"
  unfolding drop_reservation_def
proof (rule gives_of_flows [OF h settle_flows [OF h]], clarsimp)
  fix B' r' assume h': "tok.holds B' {r'}"
  show "tok.gives B' {r'} {} (Some (B'(res_budget r' := remove_outstanding (B' (res_budget r')) (res_generation r'))))"
    using discard_moves [OF h'] by (simp add: tok.gives_def)
qed

text \<open>A token whose entry is already gone may be dropped again or forgotten.\<close>

lemma inert_drop:
  assumes p: "res_phase r = Refundable"
    and none: "bt_get (outstanding (B (res_budget r))) (res_generation r) = None"
  shows "drop_reservation B r = Some B"
proof -
  show ?thesis using p none
    by (simp add: drop_reservation_def settle_prepared_sink_invocation_def remove_outstanding_def bt_remove_absent)
qed

lemma commit_flows:
  assumes h: "tok.holds B {r}"
  shows "tok.flows B {r} (\<lambda>_. {}) (commit B r)"
proof -
  obtain B1 r1 where s: "settle_prepared_sink_invocation B r = Some (B1, r1)" "tok.moves B {r} B1 {r1}"
    using settle_flows [OF h] by (auto simp: tok.flows_def)
  have p1: "res_phase r1 = Refundable" using s(1)
    by (auto simp: settle_prepared_sink_invocation_def split: RequoteBudgetReservationPhase.splits)
  have h1: "tok.holds B1 {r1}" by (rule tok.moves_holds [OF s(2) h])
  obtain Ls Lr where inv: "pair_inv (B1 (res_budget r1)) Ls Lr"
    using h1 unfolding tok.holds_def sound_books_def by blast
  obtain st where st: "commit_section (B1 (res_budget r1)) (res_generation r1) = Some st"
    using commit_section_inv [OF inv] by blast
  let ?B2 = "B1(res_budget r1 := st)"
  note fr = commit_section_cases(2) [OF st holds_invar [OF h1]]
  have "pair_step (B1 (res_budget r1)) st" by (rule pair_step.commit [OF st])
  then have m2: "tok.moves B1 {r1} ?B2 {}" by (intro section_moves) (simp_all add: fr)
  have "drop_reservation ?B2 r1 = Some ?B2" by (rule inert_drop [OF p1]) (simp add: fr)
  then have "commit B r = Some (?B2, Inr ())"
    using s(1) st by (simp add: commit_def settle_committed_def)
  moreover have "tok.moves B {r} ?B2 {}" using h by (intro tok.moves_trans [OF _ s(2) m2]) (simp add: tok.holds_def)
  ultimately show ?thesis by (simp add: tok.flows_def)
qed

lemma abort_flows:
  assumes h: "tok.holds B {r}"
  shows "tok.flows B {r} (\<lambda>_. {}) (abort B r)"
proof -
  obtain B1 r1 where s: "settle_prepared_sink_invocation B r = Some (B1, r1)" "tok.moves B {r} B1 {r1}"
    using settle_flows [OF h] by (auto simp: tok.flows_def)
  have p1: "res_phase r1 = Refundable" using s(1)
    by (auto simp: settle_prepared_sink_invocation_def split: RequoteBudgetReservationPhase.splits)
  have h1: "tok.holds B1 {r1}" by (rule tok.moves_holds [OF s(2) h])
  let ?B2 = "B1(res_budget r1 := remove_outstanding (B1 (res_budget r1)) (res_generation r1))"
  have m2: "tok.moves B1 {r1} ?B2 {}" by (rule discard_moves [OF h1])
  have dr: "drop_reservation ?B2 r1 = Some ?B2"
    by (rule inert_drop [OF p1]) (simp add: btm.get_remove [OF holds_invar [OF h1]])
  have ref: "res_phase r = Refundable \<Longrightarrow> B1 = B \<and> r1 = r"
    using s(1) by (simp add: settle_prepared_sink_invocation_def)
  have "abort B r = Some (?B2, Inr ()) \<or> abort B r = Some (?B2, Inl StaleReservation)"
  proof (cases "res_phase r = Refundable")
    case True
    show ?thesis
    proof (cases "bt_get (outstanding (B (res_budget r))) (res_generation r)")
      case None
      have "?B2 = B" using None ref [OF True] bt_remove_absent [OF None]
        by (simp add: remove_outstanding_def)
      moreover have "drop_reservation B r = Some B"
        using None by (intro inert_drop [OF True])
      ultimately show ?thesis using True None by (simp add: abort_def settle_aborted_def)
    next
      case (Some l)
      then show ?thesis using True ref [OF True] dr by (simp add: abort_def settle_aborted_def)
    qed
  next
    case False
    then show ?thesis using s(1) dr by (simp add: abort_def settle_aborted_def)
  qed
  moreover have "tok.moves B {r} ?B2 {}" using h by (intro tok.moves_trans [OF _ s(2) m2]) (simp add: tok.holds_def)
  ultimately show ?thesis by (auto simp: tok.flows_def)
qed

lemma reserve_moves:
  assumes b: "sound_books B" and r: "reserve B ref pr = (B', Inr r)"
  shows "tok.moves B {} B' {r}" and "res_phase r = Refundable" and "unissued B (res_key r)"
proof -
  obtain st' g where sec: "reserve_section (B ref) pr = (st', Inr g)"
    and B': "B' = B(ref := st')" and tk: "r = \<lparr>res_budget = ref, res_generation = g, res_phase = Refundable\<rparr>"
    using r by (auto simp: reserve_def split: prod.splits sum.splits)
  obtain Ls Lr where inv: "pair_inv (B ref) Ls Lr" using b unfolding sound_books_def by blast
  note gr = reserve_section_granted [OF sec]
  note fr = fresh_generation [OF inv gr(1)]
  show ph: "res_phase r = Refundable" and un: "unissued B (res_key r)"
    using fr(2) by (simp_all add: tk unissued_def res_key_def)
  have "budget_step B B'" using pair_step.reserve [OF sec] unfolding B' budget_step_def by blast
  moreover have "entry B' k = entry B k" if "k \<noteq> res_key r" for k
    using that pair_inv_lanes(1) [OF inv] by (cases k) (auto simp: entry_def B' gr(2) tk res_key_def btm.get_insert)
  moreover have "token_live B' r" by (rule refundable_live [OF ph]) (simp add: tk B' gr(2))
  ultimately show "tok.moves B {} B' {r}" using un by (simp add: tok.moves_def)
qed

lemma reserve_denied: "reserve B ref pr = (B', Inl e) \<Longrightarrow> B' = B"
  by (auto simp: reserve_def dest!: reserve_section_denied split: prod.splits sum.splits)

end
