(* ===== verification/QuoteFlow.thy ===== *)
theory QuoteFlow
  imports MarketQuote TokenFlow
begin

text \<open>
  Capacity accounting of the quote reducers. \<open>state_tokens\<close> reads off the reservation a quote state
  owns. Every reducer, on a sound ledger that holds the state's token, returns and moves the token
  to the state it returns (\<open>tok.flows\<close>): nothing panics, nothing is charged outside the sections of
  the requote gate, and a token that leaves the state has been given back.
\<close>

section \<open>The token a state owns\<close>

fun active_tokens :: "ActiveQuotePhase \<Rightarrow> RequoteBudgetReservation set" where
  "active_tokens (ActiveQuotePhase.RequotePending prepaid) = {prepaid}"
| "active_tokens (ReplacementPendingBackoffPrepaid prepaid) = {prepaid}"
| "active_tokens ActiveQuotePhase.Idle = {}"
| "active_tokens ActiveQuotePhase.SubmitPending = {}"
| "active_tokens ActiveQuotePhase.Resting = {}"
| "active_tokens ActiveQuotePhase.ModifyPending = {}"
| "active_tokens ActiveQuotePhase.CancelPending = {}"
| "active_tokens ActiveQuotePhase.ReplacementPendingBackoff = {}"

fun poisoned_tokens :: "QuotePoisonedBudget \<Rightarrow> RequoteBudgetReservation set" where
  "poisoned_tokens QuotePoisonedBudget.Charged = {}"
| "poisoned_tokens (QuotePoisonedBudget.Prepaid prepaid) = {prepaid}"

fun stable_tokens :: "QuoteStableState \<Rightarrow> RequoteBudgetReservation set" where
  "stable_tokens (QuoteStableState.Active phase) = active_tokens phase"
| "stable_tokens (QuoteStableState.WindingDown _) = {}"
| "stable_tokens (Poisoned hold) = poisoned_tokens (hold_budget hold)"

fun armed_tokens :: "ArmedQuoteBudget \<Rightarrow> RequoteBudgetReservation set" where
  "armed_tokens (Reserved r) = {r}"
| "armed_tokens (ArmedQuoteBudget.Prepaid r) = {r}"

fun sink_tokens :: "SinkInvokedQuoteBudget \<Rightarrow> RequoteBudgetReservation set" where
  "sink_tokens (ChargePending r) = {r}"
| "sink_tokens (PrepaidPending r) = {r}"
| "sink_tokens SinkInvokedQuoteBudget.Charged = {}"
| "sink_tokens (SinkInvokedQuoteBudget.Prepaid r) = {r}"

fun accounted_tokens :: "AccountedSinkInvokedQuoteBudget \<Rightarrow> RequoteBudgetReservation set" where
  "accounted_tokens AccountedSinkInvokedQuoteBudget.Charged = {}"
| "accounted_tokens (AccountedSinkInvokedQuoteBudget.Prepaid r) = {r}"

fun phase_tokens :: "QuoteAttemptPhase \<Rightarrow> RequoteBudgetReservation set" where
  "phase_tokens (Armed budget) = armed_tokens budget"
| "phase_tokens (QuoteAttemptPhase.SinkInvoked budget) = sink_tokens budget"

fun state_tokens :: "QuoteTransactionState \<Rightarrow> RequoteBudgetReservation set" where
  "state_tokens (Stable st) = stable_tokens st"
| "state_tokens (Attempt attempt) = phase_tokens (att_phase attempt)"
| "state_tokens (QuoteTransactionState.Settled settlement) = stable_tokens (settlement_stable settlement)"

lemma token_simps [simp]:
  "poisoned_tokens (into_poisoned acc) = accounted_tokens acc"
  "sink_tokens (into_sink_invoked acc) = accounted_tokens acc"
  "stable_tokens (poisoned mode obligation budget) = poisoned_tokens budget"
  "stable_tokens (poison_stable st) = stable_tokens st"
  "stable_tokens (restored_phase ls obligation) = {}"
  "stable_tokens (restore_prior arm) = {}"
  "stable_tokens (committed_pending arm) = {}"
  "state_tokens (settled g route st) = stable_tokens st"
  "state_tokens (terminal_before_route_settlement g st) = stable_tokens st"
  "settlement_stable (close_reopened s b) = settlement_stable s"
  "state_tokens idle = {}"
proof -
  show "stable_tokens (poison_stable st) = stable_tokens st"
    by (cases st rule: poison_stable.cases) (auto simp: poisoned_def split: ActiveQuotePhase.splits)
  show 1: "stable_tokens (restored_phase ls obligation) = {}" for ls obligation
    by (cases ls) (simp_all add: poisoned_def)
  show "stable_tokens (restore_prior arm) = {}" "stable_tokens (committed_pending arm) = {}"
    by (simp_all add: restore_prior_def committed_pending_def 1)
qed (simp_all add: poisoned_def settled_def terminal_before_route_settlement_def close_reopened_def
    idle_def, (cases acc; simp)+)

section \<open>Budgets and stable states\<close>

lemma account_flows:
  assumes "tok.holds B (sink_tokens budget)"
  shows "tok.flows B (sink_tokens budget) accounted_tokens (account B budget)"
proof (cases budget)
  case (ChargePending r)
  have "tok.flows B {r} accounted_tokens (account B (ChargePending r))"
    unfolding account.simps
  proof (rule tok.flows_bind [OF _ settle_flows], goal_cases)
    case (3 B' x)
    show ?case unfolding prod.case
      by (rule tok.gives_bind [OF 3 drop_gives [OF 3]]) (simp add: tok.flows_return)
  qed (use assms ChargePending in simp_all)
  then show ?thesis using ChargePending by simp
next
  case (PrepaidPending r)
  have "tok.flows B {r} accounted_tokens (account B (PrepaidPending r))"
    unfolding account.simps
    by (rule tok.flows_bind [OF _ settle_flows]) (use assms PrepaidPending in \<open>simp_all add: tok.flows_return\<close>)
  then show ?thesis using PrepaidPending by simp
qed (use assms in \<open>simp_all add: tok.flows_return\<close>)

lemma drop_poisoned_gives:
  "tok.holds B (poisoned_tokens budget) \<Longrightarrow> tok.gives B (poisoned_tokens budget) {} (drop_poisoned_budget B budget)"
  by (cases budget) (simp_all add: tok.gives_return drop_gives)

text \<open>Dropping the only token and returning a state that owns none.\<close>

lemma drop_then:
  assumes "tok.holds B {r}" and "own x = {}"
  shows "tok.flows B {r} own (Option.bind (drop_reservation B r) (\<lambda>B1. Some (B1, x)))"
  by (rule tok.gives_bind [OF assms(1) drop_gives [OF assms(1)]]) (simp add: tok.flows_return assms(2))

lemma drop_poisoned_then:
  assumes "tok.holds B (poisoned_tokens budget)" and "own x = {}"
  shows "tok.flows B (poisoned_tokens budget) own (Option.bind (drop_poisoned_budget B budget) (\<lambda>B1. Some (B1, x)))"
  by (rule tok.gives_bind [OF assms(1) drop_poisoned_gives [OF assms(1)]]) (simp add: tok.flows_return assms(2))

lemma reduce_active_lifecycle_flows:
  "tok.holds B (active_tokens phase) \<Longrightarrow>
   tok.flows B (active_tokens phase) (state_tokens \<circ> fst) (reduce_active_lifecycle B phase event sm)"
  by (cases "(B, phase, event, sm)" rule: reduce_active_lifecycle.cases)
    (simp_all add: tok.flows_return drop_then)

lemma reduce_stable_lifecycle_flows:
  assumes "tok.holds B (stable_tokens st)"
  shows "tok.flows B (stable_tokens st) (state_tokens \<circ> fst) (reduce_stable_lifecycle B st event sm)"
proof (cases st)
  case (Active phase)
  then show ?thesis using assms reduce_active_lifecycle_flows by simp
next
  case (WindingDown phase)
  then show ?thesis using assms by (cases phase) (simp_all add: tok.flows_return)
next
  case (Poisoned hold)
  then show ?thesis using assms by (simp add: tok.flows_return)
qed

lemma reduce_lifecycle_flows:
  "tok.holds B (state_tokens s) \<Longrightarrow>
   tok.flows B (state_tokens s) (state_tokens \<circ> fst) (reduce_lifecycle B s event sm)"
  by (cases s) (simp_all add: reduce_stable_lifecycle_flows tok.flows_return)

lemma reduce_stable_wind_down_flows:
  assumes "tok.holds B (stable_tokens st)"
  shows "tok.flows B (stable_tokens st) (stable_tokens \<circ> fst) (reduce_stable_wind_down B st)"
proof (cases st)
  case (Active phase)
  then show ?thesis using assms by (cases phase) (simp_all add: tok.flows_return drop_then)
next
  case (WindingDown phase)
  then show ?thesis using assms by (simp add: tok.flows_return)
next
  case (Poisoned hold)
  then show ?thesis using assms by (cases "hold_mode hold") (simp_all add: tok.flows_return)
qed

lemma reduce_stable_flows:
  assumes "tok.holds B (stable_tokens (settlement_stable s))"
    and "tok.flows B (stable_tokens (settlement_stable s)) (stable_tokens \<circ> fst) (f (settlement_stable s))"
  shows "tok.flows B (stable_tokens (settlement_stable s)) (\<lambda>(s', c). stable_tokens (settlement_stable s'))
    (reduce_stable s f)"
  unfolding reduce_stable_def by (rule tok.flows_bind [OF assms]) (auto simp: tok.flows_return)

lemma reduce_wind_down_flows:
  assumes "tok.holds B (state_tokens s)"
  shows "tok.flows B (state_tokens s) (state_tokens \<circ> fst) (reduce_wind_down B s)"
proof (cases s)
  case (Stable st)
  then have h: "tok.holds B (stable_tokens st)" using assms by simp
  show ?thesis unfolding Stable state_tokens.simps reduce_wind_down.simps
    by (rule tok.flows_bind [OF h reduce_stable_wind_down_flows [OF h]]) (auto simp: tok.flows_return)
next
  case (Attempt attempt)
  then show ?thesis using assms by (cases "att_mode attempt") (simp_all add: tok.flows_return)
next
  case (Settled settlement)
  then have h: "tok.holds B (stable_tokens (settlement_stable settlement))" using assms by simp
  show ?thesis unfolding Settled state_tokens.simps reduce_wind_down.simps
    by (rule tok.flows_bind [OF h reduce_stable_flows [where f = "reduce_stable_wind_down B",
          OF h reduce_stable_wind_down_flows [OF h]]])
      (auto simp: tok.flows_return)
qed

section \<open>Poisoning and arming\<close>

lemma poison_attempt_flows:
  assumes "tok.holds B (phase_tokens (att_phase attempt))"
  shows "tok.flows B (phase_tokens (att_phase attempt)) stable_tokens (poison_attempt B attempt)"
  unfolding poison_attempt_def
proof (rule tok.flows_bind [OF assms, where own = poisoned_tokens])
  show "tok.flows B (phase_tokens (att_phase attempt)) poisoned_tokens
     (case att_phase attempt of
        Armed (Reserved reservation) \<Rightarrow>
          Option.bind (drop_reservation B reservation) (\<lambda>B1. Some (B1, QuotePoisonedBudget.Charged))
      | Armed (ArmedQuoteBudget.Prepaid prepaid) \<Rightarrow> Some (B, QuotePoisonedBudget.Prepaid prepaid)
      | QuoteAttemptPhase.SinkInvoked b \<Rightarrow>
          Option.bind (account B b) (\<lambda>(B1, acc). Some (B1, into_poisoned acc)))"
  proof (cases "att_phase attempt")
    case (Armed budget)
    then show ?thesis using assms by (cases budget) (simp_all add: drop_then tok.flows_return)
  next
    case (SinkInvoked budget)
    then have h: "tok.holds B (sink_tokens budget)" using assms by simp
    then show ?thesis unfolding SinkInvoked phase_tokens.simps QuoteAttemptPhase.case
      by (intro tok.flows_bind [OF h account_flows [OF h]]) (simp add: tok.flows_return)
  qed
qed (simp add: tok.flows_return)

lemma reduce_missing_money_moving_truth_flows:
  assumes "tok.holds B (state_tokens s)"
  shows "tok.flows B (state_tokens s) (state_tokens \<circ> fst) (reduce_missing_money_moving_truth B s)"
proof (cases s)
  case (Stable st)
  then show ?thesis using assms by (simp add: tok.flows_return)
next
  case (Attempt attempt)
  then have h: "tok.holds B (phase_tokens (att_phase attempt))" using assms by simp
  show ?thesis unfolding Attempt state_tokens.simps reduce_missing_money_moving_truth.simps
    by (rule tok.flows_bind [OF h poison_attempt_flows [OF h]]) (simp add: tok.flows_return)
next
  case (Settled settlement)
  then show ?thesis using assms by (simp add: reduce_stable_def tok.flows_return)
qed

text \<open>Reserving while a prepaid token is still owned, then dropping that token.\<close>

lemma reserve_then_drop:
  assumes h: "tok.holds B {p}" and r: "reserve B ref pr = (B1, Inr r)"
  shows "\<exists>B2. drop_reservation B1 p = Some B2 \<and> tok.moves B {p} B2 {r}"
proof -
  have b: "sound_books B" and lp: "token_live B p" using h by (simp_all add: tok.holds_def)
  note rm = reserve_moves [OF b r]
  have m1: "tok.moves B {p} B1 {r, p}"
    using tok.moves_frame [OF rm(1), of "{p}"] lp by (simp add: insert_commute)
  have h1: "tok.holds B1 {r, p}" by (rule tok.moves_holds [OF m1 h])
  then have hp: "tok.holds B1 {p}" and lr: "token_live B1 r" by (simp_all add: tok.holds_def)
  have ne: "res_key r \<noteq> res_key p" using rm(3) lp by (auto simp: token_live_def)
  obtain B2 where B2: "drop_reservation B1 p = Some B2" "tok.moves B1 {p} B2 {}"
    using drop_gives [OF hp] by (auto simp: tok.gives_def)
  have "tok.moves B1 {r, p} B2 {r}"
    using tok.moves_frame [OF B2(2), of "{r}"] lr ne by (simp add: insert_commute)
  from tok.moves_trans [OF b m1 this] show ?thesis using B2(1) by blast
qed

lemma reserve_arm_flows:
  assumes h: "tok.holds B (active_tokens active)" and r: "reserve B ref pr = (B1, Inr r)" and x: "own x = {r}"
  shows "tok.flows B (active_tokens active) own
    (Option.bind (case active of
        ActiveQuotePhase.RequotePending prepaid \<Rightarrow> drop_reservation B1 prepaid
      | ReplacementPendingBackoffPrepaid prepaid \<Rightarrow> drop_reservation B1 prepaid
      | _ \<Rightarrow> Some B1) (\<lambda>B2. Some (B2, x)))"
proof (cases "\<exists>p. active = ActiveQuotePhase.RequotePending p \<or> active = ReplacementPendingBackoffPrepaid p")
  case True
  then obtain p where p: "active = ActiveQuotePhase.RequotePending p \<or> active = ReplacementPendingBackoffPrepaid p"
    by blast
  then have "tok.holds B {p}" using h by auto
  from reserve_then_drop [OF this r] obtain B2 where "drop_reservation B1 p = Some B2" "tok.moves B {p} B2 {r}"
    by blast
  then show ?thesis using p x by (auto simp: tok.flows_def)
next
  case False
  then have "active_tokens active = {}" by (cases active) auto
  moreover have "tok.moves B {} B1 {r}" using h by (intro reserve_moves(1) [OF _ r]) (simp add: tok.holds_def)
  ultimately show ?thesis using False x by (cases active) (auto simp: tok.flows_def)
qed

lemma reduce_arm_active_flows:
  assumes h: "tok.holds B (active_tokens active)"
  shows "tok.flows B (active_tokens active) (state_tokens \<circ> reduction_state)
    (reduce_arm_active B active pr ref bp identity)"
proof (cases bp)
  case (Reserve rp)
  obtain B1 res where res: "reserve B ref rp = (B1, res)" by fastforce
  show ?thesis
  proof (cases res)
    case (Inl e)
    then have "B1 = B" using reserve_denied res by simp
    then show ?thesis using res Inl h Reserve
      by (auto simp: reduce_arm_active_def Let_def intro!: tok.flows_return)
  next
    case (Inr r)
    show ?thesis unfolding reduce_arm_active_def Let_def Reserve MakerQuoteBudgetProposal.case res Inr prod.case sum.case
      using h by (auto intro!: tok.flows_return reserve_arm_flows [OF h res [unfolded Inr]])
  qed
next
  case (Prepaid g now)
  then show ?thesis using h
    by (cases active) (auto simp: reduce_arm_active_def Let_def intro!: tok.flows_return)
qed

lemma reduce_arm_flows:
  assumes "tok.holds B (state_tokens s)"
  shows "tok.flows B (state_tokens s) (state_tokens \<circ> reduction_state) (reduce_arm B s pr ref bp identity)"
proof -
  have r: "tok.flows B (stable_tokens st) (state_tokens \<circ> reduction_state)
      (case st of QuoteStableState.Active active \<Rightarrow> reduce_arm_active B active pr ref bp identity
        | st \<Rightarrow> Some (B, Inl (Stable st, WindingDownOrHeld)))"
    if "tok.holds B (stable_tokens st)" for st
    using that by (cases st) (simp_all add: reduce_arm_active_flows tok.flows_return)
  show ?thesis
  proof (cases s)
    case (Stable st)
    then show ?thesis using assms r [of st]
      by (cases st) (auto simp: reduce_arm_def intro!: tok.flows_return)
  next
    case (Attempt attempt)
    then show ?thesis using assms by (auto simp: reduce_arm_def intro!: tok.flows_return)
  next
    case (Settled settlement)
    then show ?thesis using assms r [of "settlement_stable settlement"]
      by (cases "settlement_stable settlement") (auto simp: reduce_arm_def intro!: tok.flows_return)
  qed
qed

section \<open>Route settlement\<close>

lemma settlement_replay_tokens [simp]:
  "state_tokens (reduction_state (reduce_settlement_replay s g route)) = state_tokens s"
  by (cases s) (auto simp: reduce_settlement_replay.simps settle_route_def split: sum.splits QuoteSettlementStatus.splits)

lemma reduce_generation_fenced_flows:
  assumes "tok.flows B T own (stale s)" and "tok.flows B T own (current s)"
  shows "tok.flows B T own (reduce_generation_fenced s g stale current)"
  using assms by (auto simp: reduce_generation_fenced_def split: option.splits bool.splits)

lemma finish_pre_sink_abort_flows:
  assumes h: "tok.holds B (armed_tokens budget)"
  shows "tok.flows B (armed_tokens budget) (state_tokens \<circ> reduction_state) (finish_pre_sink_abort B mode arm budget g)"
proof (cases budget)
  case (Reserved r)
  then have h': "tok.holds B {r}" using h by simp
  show ?thesis unfolding finish_pre_sink_abort_def Reserved armed_tokens.simps ArmedQuoteBudget.case
    by (rule tok.flows_bind [OF h' abort_flows [OF h']])
      (auto intro!: tok.flows_return split: sum.splits QuoteTransactionMode.splits)
next
  case (Prepaid r)
  then show ?thesis using h
    by (cases mode) (simp_all add: finish_pre_sink_abort_def drop_then tok.flows_return)
qed

lemma finish_pre_sink_invariant_failure_flows:
  assumes h: "tok.holds B (armed_tokens budget)"
  shows "tok.flows B (armed_tokens budget) (state_tokens \<circ> reduction_state)
    (finish_pre_sink_invariant_failure B mode arm budget g)"
proof (cases budget)
  case (Reserved r)
  then have h': "tok.holds B {r}" using h by simp
  show ?thesis unfolding finish_pre_sink_invariant_failure_def Reserved armed_tokens.simps ArmedQuoteBudget.case
    by (rule tok.flows_bind [OF h' commit_flows [OF h']])
      (auto simp: Let_def intro!: tok.flows_return split: sum.splits)
next
  case (Prepaid r)
  then show ?thesis using h by (simp add: finish_pre_sink_invariant_failure_def tok.flows_return)
qed

lemma finish_post_sink_failure_flows:
  assumes h: "tok.holds B (sink_tokens budget)"
  shows "tok.flows B (sink_tokens budget) (state_tokens \<circ> reduction_state) (finish_post_sink_failure B mode arm budget g)"
  unfolding finish_post_sink_failure_def
  by (rule tok.flows_bind [OF h account_flows [OF h]]) (simp add: tok.flows_return)

lemma route_success_state_flows:
  assumes h: "tok.holds B (sink_tokens budget)"
  shows "tok.flows B (sink_tokens budget) stable_tokens (route_success_state B mode arm budget)"
  unfolding route_success_state_def
proof (rule tok.flows_bind [OF h account_flows [OF h]])
  fix B' acc assume "tok.holds B' (accounted_tokens acc)"
  then show "tok.flows B' (accounted_tokens acc) stable_tokens
      (case (B', acc) of (B1, acc) \<Rightarrow> case (mode, acc) of
         (QuoteTransactionMode.Active, AccountedSinkInvokedQuoteBudget.Charged) \<Rightarrow> Some (B1, committed_pending arm)
       | (QuoteTransactionMode.Active, AccountedSinkInvokedQuoteBudget.Prepaid prepaid) \<Rightarrow>
           Some (B1, QuoteStableState.Active (ActiveQuotePhase.RequotePending prepaid))
       | (QuoteTransactionMode.WindingDown, AccountedSinkInvokedQuoteBudget.Charged) \<Rightarrow>
           Some (B1, QuoteStableState.WindingDown WindDownQuotePhase.CancelPending)
       | (QuoteTransactionMode.WindingDown, AccountedSinkInvokedQuoteBudget.Prepaid prepaid) \<Rightarrow>
           Option.bind (drop_reservation B1 prepaid)
             (\<lambda>B2. Some (B2, QuoteStableState.WindingDown WindDownQuotePhase.CancelPending)))"
    by (cases mode; cases acc) (simp_all add: drop_then tok.flows_return)
qed

lemma reduce_pre_sink_abort_flows:
  assumes h: "tok.holds B (state_tokens s)"
  shows "tok.flows B (state_tokens s) (state_tokens \<circ> reduction_state) (reduce_pre_sink_abort B s g)"
  unfolding reduce_pre_sink_abort_def
proof (rule reduce_generation_fenced_flows, goal_cases)
  case 2
  show ?case
  proof (cases s)
    case (Attempt attempt)
    then show ?thesis using h
      by (cases "att_phase attempt") (simp_all add: tok.flows_return finish_pre_sink_abort_flows)
  qed (use h in \<open>simp_all add: tok.flows_return\<close>)
qed (use h in \<open>simp add: tok.flows_return\<close>)

lemma reduce_pre_sink_invariant_failure_flows:
  assumes h: "tok.holds B (state_tokens s)"
  shows "tok.flows B (state_tokens s) (state_tokens \<circ> reduction_state) (reduce_pre_sink_invariant_failure B s g)"
  unfolding reduce_pre_sink_invariant_failure_def
proof (rule reduce_generation_fenced_flows, goal_cases)
  case 2
  show ?case
  proof (cases s)
    case (Attempt attempt)
    then show ?thesis using h
      by (cases "att_phase attempt") (simp_all add: tok.flows_return finish_pre_sink_invariant_failure_flows)
  qed (use h in \<open>simp_all add: tok.flows_return\<close>)
qed (use h in \<open>simp add: tok.flows_return\<close>)

lemma reduce_unwind_flows:
  assumes h: "tok.holds B (state_tokens s)"
  shows "tok.flows B (state_tokens s) (state_tokens \<circ> reduction_state) (reduce_unwind B s)"
proof (cases s)
  case (Attempt attempt)
  then show ?thesis using h
    by (cases "att_phase attempt")
      (simp_all add: reduce_unwind_def finish_pre_sink_abort_flows finish_post_sink_failure_flows)
qed (use h in \<open>simp_all add: reduce_unwind_def tok.flows_return\<close>)

lemma reduce_route_success_flows:
  assumes h: "tok.holds B (state_tokens s)"
  shows "tok.flows B (state_tokens s) (state_tokens \<circ> reduction_state) (reduce_route_success B s g success)"
  unfolding reduce_route_success_def Let_def
proof (rule reduce_generation_fenced_flows, goal_cases)
  case 2
  show ?case
  proof (cases s)
    case (Attempt attempt)
    show ?thesis
    proof (cases "att_phase attempt")
      case (SinkInvoked budget)
      then have h': "tok.holds B (sink_tokens budget)" using h Attempt by simp
      have "tok.flows B (sink_tokens budget) (state_tokens \<circ> reduction_state)
          (Option.bind (route_success_state B (att_mode attempt) (att_arm attempt) budget)
            (\<lambda>(B1, st). Some (B1, Inr (settled g route st, no_action))))" for route
        by (rule tok.flows_bind [OF h' route_success_state_flows [OF h']]) (simp add: tok.flows_return)
      then show ?thesis using Attempt SinkInvoked h' by (auto intro!: tok.flows_return)
    qed (use Attempt h in \<open>simp add: tok.flows_return\<close>)
  qed (use h in \<open>simp_all add: tok.flows_return\<close>)
qed (use h in \<open>simp add: tok.flows_return\<close>)

lemma reduce_sink_rejected_flows:
  assumes h: "tok.holds B (state_tokens s)"
  shows "tok.flows B (state_tokens s) (state_tokens \<circ> reduction_state) (reduce_sink_rejected B s g)"
  unfolding reduce_sink_rejected_def
proof (rule reduce_generation_fenced_flows, goal_cases)
  case 2
  show ?case
  proof (cases s)
    case (Attempt attempt)
    show ?thesis
    proof (cases "att_phase attempt")
      case (SinkInvoked budget)
      then have h': "tok.holds B (sink_tokens budget)" using h Attempt by simp
      show ?thesis
      proof (cases "arm_obligation (att_arm attempt) \<in>
          {QuoteLegTransactionObligation.FreshSubmit, QuoteLegTransactionObligation.ReplacementSubmit}")
        case True
        show ?thesis
          unfolding Attempt SinkInvoked QuoteTransactionState.case QuoteAttemptPhase.case
            state_tokens.simps phase_tokens.simps if_P [OF True]
          by (rule tok.flows_bind [OF h' account_flows [OF h']])
            (auto intro!: tok.flows_return split: AccountedSinkInvokedQuoteBudget.split QuoteTransactionMode.split)
      next
        case False
        then show ?thesis using Attempt SinkInvoked h' by (simp add: tok.flows_return)
      qed
    qed (use Attempt h in \<open>simp add: tok.flows_return\<close>)
  qed (use h in \<open>simp_all add: tok.flows_return\<close>)
qed (use h in \<open>simp add: tok.flows_return\<close>)

lemma reduce_post_sink_failure_flows:
  assumes h: "tok.holds B (state_tokens s)"
  shows "tok.flows B (state_tokens s) (state_tokens \<circ> reduction_state) (reduce_post_sink_failure B s g)"
  unfolding reduce_post_sink_failure_def
proof (rule reduce_generation_fenced_flows, goal_cases)
  case 2
  show ?case
  proof (cases s)
    case (Attempt attempt)
    then show ?thesis using h
      by (cases "att_phase attempt") (simp_all add: tok.flows_return finish_post_sink_failure_flows)
  qed (use h in \<open>simp_all add: tok.flows_return\<close>)
qed (use h in \<open>simp add: tok.flows_return\<close>)

lemma callback_retired_tokens [simp]:
  "state_tokens (reduction_state (reduce_callback_retired s g)) = state_tokens s"
  by (cases s) simp_all

section \<open>Terminal truth\<close>

lemma terminal_state_flows:
  assumes h: "tok.holds B (poisoned_tokens budget)"
  shows "tok.flows B (poisoned_tokens budget) stable_tokens (terminal_state B obligation budget disposition)"
  using h by (cases budget) (simp_all add: terminal_state_def tok.flows_return drop_then)

lemma terminal_stable_flows:
  assumes h: "tok.holds B (stable_tokens st)"
  shows "tok.flows B (stable_tokens st) stable_tokens (terminal_stable B st disposition)"
proof (cases st)
  case (Active phase)
  have "tok.flows B {p} stable_tokens (terminal_state B QuoteLegTransactionObligation.RequoteCancel
      (QuotePoisonedBudget.Prepaid p) disposition)" if "tok.holds B {p}" for p
    using that terminal_state_flows [of B "QuotePoisonedBudget.Prepaid p"] by simp
  then show ?thesis using Active h by (cases phase) (simp_all add: tok.flows_return drop_then)
next
  case (WindingDown phase)
  then show ?thesis using h by (simp add: tok.flows_return)
next
  case (Poisoned hold)
  then show ?thesis using h
    by (cases "hold_mode hold") (simp_all add: terminal_state_flows drop_poisoned_then)
qed

lemma terminal_attempt_flows:
  assumes h: "tok.holds B (phase_tokens (att_phase attempt))"
  shows "tok.flows B (phase_tokens (att_phase attempt)) stable_tokens (terminal_attempt B attempt disposition)"
proof (cases "att_phase attempt")
  case (Armed budget)
  show ?thesis
  proof (cases budget)
    case (Reserved r)
    then have h': "tok.holds B {r}" using h Armed by simp
    have "tok.flows B {r} stable_tokens (Option.bind (drop_reservation B r)
        (\<lambda>B1. terminal_state B1 (arm_obligation (att_arm attempt)) QuotePoisonedBudget.Charged disposition))"
      using terminal_state_flows [of _ QuotePoisonedBudget.Charged]
      by (intro tok.gives_bind [OF h' drop_gives [OF h']]) simp
    then show ?thesis using Armed Reserved h'
      by (cases "att_mode attempt") (simp_all add: terminal_attempt_def drop_then)
  next
    case (Prepaid r)
    then show ?thesis using Armed h terminal_state_flows [of B "QuotePoisonedBudget.Prepaid r"]
      by (cases "att_mode attempt") (simp_all add: terminal_attempt_def drop_then)
  qed
next
  case (SinkInvoked budget)
  then have h': "tok.holds B (sink_tokens budget)" using h by simp
  have "tok.flows B (sink_tokens budget) stable_tokens (Option.bind (account B budget)
      (\<lambda>(B1, acc). terminal_state B1 (arm_obligation (att_arm attempt)) (into_poisoned acc) disposition))"
    using terminal_state_flows [of _ "into_poisoned _"]
    by (intro tok.flows_bind [OF h' account_flows [OF h']]) simp
  moreover have "tok.flows B (sink_tokens budget) stable_tokens (Option.bind (account B budget)
      (\<lambda>(B1, acc). Option.bind (drop_poisoned_budget B1 (into_poisoned acc))
        (\<lambda>B2. Some (B2, QuoteStableState.WindingDown WindDownQuotePhase.Idle))))"
    using drop_poisoned_then [of _ "into_poisoned _" stable_tokens "QuoteStableState.WindingDown WindDownQuotePhase.Idle"]
    by (intro tok.flows_bind [OF h' account_flows [OF h']]) simp
  ultimately show ?thesis using SinkInvoked
    by (cases "att_mode attempt") (simp_all add: terminal_attempt_def)
qed

lemma reduce_terminal_flows:
  assumes h: "tok.holds B (state_tokens s)"
  shows "tok.flows B (state_tokens s) (state_tokens \<circ> fst) (reduce_terminal B s disposition)"
proof (cases s)
  case (Stable st)
  then have h': "tok.holds B (stable_tokens st)" using h by simp
  show ?thesis unfolding Stable state_tokens.simps reduce_terminal.simps
    by (rule tok.flows_bind [OF h' terminal_stable_flows [OF h']]) (simp add: tok.flows_return)
next
  case (Attempt attempt)
  then have h': "tok.holds B (phase_tokens (att_phase attempt))" using h by simp
  show ?thesis unfolding Attempt state_tokens.simps reduce_terminal.simps
    by (rule tok.flows_bind [OF h' terminal_attempt_flows [OF h']]) (simp add: tok.flows_return)
next
  case (Settled settlement)
  let ?st = "settlement_stable settlement"
  let ?f = "\<lambda>st. map_option (\<lambda>(B1, st1). (B1, st1, no_action)) (terminal_stable B st disposition)"
  have h': "tok.holds B (stable_tokens ?st)" using h Settled by simp
  have "tok.flows B (stable_tokens ?st) (stable_tokens \<circ> fst) (?f ?st)"
    using terminal_stable_flows [OF h'] by (intro tok.flows_map) simp
  from reduce_stable_flows [where f = ?f, OF h' this] show ?thesis
    unfolding Settled state_tokens.simps reduce_terminal.simps
    by (rule tok.flows_bind [OF h']) (auto simp: tok.flows_return)
qed

lemma reduce_terminal_refinement_flows:
  assumes h: "tok.holds B (state_tokens s)"
  shows "tok.flows B (state_tokens s) (state_tokens \<circ> reduction_state)
    (reduce_terminal_refinement B s g stable_effect closes)"
  unfolding reduce_terminal_refinement_def
proof (rule tok.flows_bind [OF h])
  show "tok.flows B (state_tokens s) (state_tokens \<circ> fst)
      (case stable_effect of None \<Rightarrow> Some (B, s, no_action) | Some disposition \<Rightarrow> reduce_terminal B s disposition)"
    using h by (cases stable_effect) (simp_all add: tok.flows_return reduce_terminal_flows)
next
  fix B' and x :: "QuoteTransactionState \<times> GovernedQuoteTransactionCommit"
  assume h': "tok.holds B' ((state_tokens \<circ> fst) x)"
  obtain s1 c where x: "x = (s1, c)" by fastforce
  show "tok.flows B' ((state_tokens \<circ> fst) x) (state_tokens \<circ> reduction_state)
      (case (B', x) of (B1, s1, c) \<Rightarrow> Some (B1,
         case s1 of
           Stable st \<Rightarrow> Inr (QuoteTransactionState.Settled (close_reopened
             \<lparr>settlement_generation = g, settlement_status = RouteSettled QuoteRouteSettlement.CallbackRetired,
              settlement_stable = st\<rparr> closes), c)
         | Attempt attempt \<Rightarrow> Inl (Attempt attempt, TerminalWithoutEffect)
         | QuoteTransactionState.Settled settlement \<Rightarrow>
             Inr (QuoteTransactionState.Settled (close_reopened settlement closes), c)))"
    using h' by (cases s1) (simp_all add: x tok.flows_return)
qed

lemma reduce_reopened_tokens [simp]: "state_tokens (reduction_state (reduce_reopened s)) = state_tokens s"
  by (cases s) (auto simp: reopen_def split: sum.splits QuoteSettlementStatus.splits if_split_asm)

section \<open>Transactions\<close>

lemma reduce_event_flows:
  assumes h: "tok.holds B (state_tokens s)"
  shows "tok.flows B (state_tokens s) (state_tokens \<circ> reduction_state) (reduce_event B s event sm)"
proof (cases event)
  case (PreSink e)
  have m: "tok.flows B (state_tokens s) (state_tokens \<circ> reduction_state) (map_option (\<lambda>(B1, r). (B1, Inr r)) x)"
    if "tok.flows B (state_tokens s) (state_tokens \<circ> fst) x" for x
  proof (rule tok.flows_map)
    have "(\<lambda>x. (state_tokens \<circ> reduction_state) (Inr x)) = state_tokens \<circ> fst" by (auto simp: fun_eq_iff)
    then show "tok.flows B (state_tokens s) (\<lambda>x. (state_tokens \<circ> reduction_state) (Inr x)) x" using that by simp
  qed
  show ?thesis unfolding PreSink reduce_event.simps using h
    by (cases e) (simp_all add: m reduce_lifecycle_flows reduce_wind_down_flows
        reduce_missing_money_moving_truth_flows reduce_arm_flows reduce_pre_sink_abort_flows
        reduce_pre_sink_invariant_failure_flows reduce_unwind_flows)
next
  case (SinkCapable e)
  then show ?thesis using h
    by (cases e) (simp_all add: reduce_route_success_flows reduce_sink_rejected_flows
        reduce_post_sink_failure_flows tok.flows_return)
qed

abbreviation inner_tokens :: "GovernedQuoteTransactionInner \<Rightarrow> RequoteBudgetReservation set" where
  "inner_tokens inner \<equiv> state_tokens (inner_state inner)"

lemma apply_event_flows:
  assumes h: "tok.holds B (inner_tokens inner)"
  shows "tok.flows B (inner_tokens inner) (inner_tokens \<circ> fst) (apply_event B inner event)"
  unfolding apply_event_def
  by (rule tok.flows_bind [OF h reduce_event_flows [OF h]])
    (auto simp: Let_def tok.flows_return split: prod.split option.split)

lemma conclude_refinement_tokens [simp]:
  "inner_tokens (fst (conclude_refinement inner identity active red)) = state_tokens (reduction_state red)"
  by (cases red rule: reduction_state.cases) simp_all

lemma refine_flows:
  assumes h: "tok.holds B (inner_tokens inner)"
  shows "tok.flows B (inner_tokens inner) (inner_tokens \<circ> fst) (refine B inner event)"
proof (cases "refinement event")
  case (Terminal effect closes)
  have "tok.flows B (inner_tokens inner) (inner_tokens \<circ> fst)
      (map_option (\<lambda>(B1, red). (B1, conclude_refinement inner identity active red))
        (reduce_terminal_refinement B (inner_state inner) g effect closes))" for identity active g
    using reduce_terminal_refinement_flows [OF h] by (intro tok.flows_map) (simp add: comp_def)
  then show ?thesis using h by (simp add: refine_def Let_def Terminal tok.flows_return)
next
  case Reopened
  then show ?thesis using h by (simp add: refine_def Let_def tok.flows_return)
next
  case RetentionHorizon
  show ?thesis
  proof (cases "inner_state inner")
    case (Settled settlement)
    then have h': "tok.holds B (stable_tokens (settlement_stable settlement))" using h by simp
    have "tok.flows B (stable_tokens (settlement_stable settlement)) (inner_tokens \<circ> fst)
        (Option.bind (reduce_stable settlement (reduce_stable_wind_down B)) (\<lambda>(B1, s1, _). Some (B1,
           inner\<lparr>inner_state := QuoteTransactionState.Settled (close_reopened s1 True)\<rparr>, Applied)))"
      by (rule tok.flows_bind [OF h' reduce_stable_flows [where f = "reduce_stable_wind_down B",
            OF h' reduce_stable_wind_down_flows [OF h']]]) (auto simp: tok.flows_return)
    then show ?thesis using Settled RetentionHorizon h by (simp add: refine_def Let_def tok.flows_return)
  qed (use h RetentionHorizon in \<open>simp_all add: refine_def Let_def tok.flows_return\<close>)
qed

text \<open>Stamping the sink clock of an armed token, with a clock not earlier than its liability.\<close>

definition clock_ok :: "budgets \<Rightarrow> QuoteTransactionState \<Rightarrow> u64 \<Rightarrow> bool" where
  "clock_ok B s now \<longleftrightarrow> (\<forall>r \<in> state_tokens s. \<forall>l. entry B (res_key r) = Some l \<longrightarrow> liability_now_ms l \<le> now)"

lemma prepare_live:
  assumes "token_live B r" and "\<And>l. entry B (res_key r) = Some l \<Longrightarrow> liability_now_ms l \<le> now"
  shows "tok.moves B {r} B {prepare_sink_invoked_at r now}"
  using assms by (auto simp: tok.moves_def token_live_def prepare_sink_invoked_at_def res_key_def)

lemma commit_sink_invoked_moves:
  assumes h: "tok.holds B (state_tokens s)" and c: "clock_ok B s now"
  shows "tok.moves B (state_tokens s) B (state_tokens (fst (commit_sink_invoked s g now)))"
proof -
  have p: "tok.moves B (armed_tokens budget) B (sink_tokens (armed_prepare_sink_invoked_at budget obligation now))"
    if "tok.holds B (armed_tokens budget)"
      "\<forall>r \<in> armed_tokens budget. \<forall>l. entry B (res_key r) = Some l \<longrightarrow> liability_now_ms l \<le> now" for budget obligation
    using that by (cases budget) (auto simp: tok.holds_def intro: prepare_live)
  show ?thesis
  proof (cases s)
    case (Attempt attempt)
    then show ?thesis using h c p
      by (cases "att_phase attempt")
        (auto simp: commit_sink_invoked_def account_sink_invocation_def clock_ok_def tok.moves_refl)
  qed (use h in \<open>simp_all add: commit_sink_invoked_def tok.moves_refl\<close>)
qed

end
