(* ===== verification/MarketRun.thy ===== *)
theory MarketRun
  imports QuoteFlow
begin

text \<open>
  Runs of a maker: markets are created, and any sequence of events, refinements, scope closures
  and sink invocations reaches their transactions, all drawing on shared requote budgets. Every
  public operation of \<open>MarketQuote\<close> and of a leg handle is one of these steps or a sequence of them.
  The results: every outstanding liability of every budget is owned by exactly one leg, no
  operation panics, and the charges of all legs together stay within the caps of the gate.
\<close>

section \<open>Runs\<close>

inductive world_step :: "quote_world \<Rightarrow> quote_world \<Rightarrow> bool" where
  new_market: "MarketQuote_new w (scope :: string MakerOrderLifecycleScopeIdentity) sm = (w', m) \<Longrightarrow> world_step w w'"
| event: "ref < w_next_txn w \<Longrightarrow> reduce w ref e = Some (w', res) \<Longrightarrow> world_step w w'"
| refinement: "ref < w_next_txn w \<Longrightarrow> on_txn w ref (\<lambda>B inner. refine B inner r) = Some (w', out) \<Longrightarrow>
    world_step w w'"
| close_scope: "ref < w_next_txn w \<Longrightarrow> on_txn w ref close_retention_scope = Some (w', res) \<Longrightarrow> world_step w w'"
| sink: "ref < w_next_txn w \<Longrightarrow>
    clock_ok (w_budgets w) (inner_state (w_txns w ref)) (prepared_actor_now_ms p) \<Longrightarrow>
    world_step w (commit_prepared w ref p)"

definition fresh_budgets :: "budgets \<Rightarrow> bool" where
  "fresh_budgets B \<longleftrightarrow> (\<forall>ref. \<exists>scap sw si rcap rw ri. B ref = fresh_pair scap sw si rcap rw ri)"

definition fresh_world :: "budgets \<Rightarrow> quote_world" where
  "fresh_world B = \<lparr>w_budgets = B, w_txns = (\<lambda>_. GovernedQuoteTransaction_new False), w_next_txn = 0\<rparr>"

definition world_tokens :: "quote_world \<Rightarrow> txn_ref \<Rightarrow> RequoteBudgetReservation set" where
  "world_tokens w ref = inner_tokens (w_txns w ref)"

definition world_inv :: "quote_world \<Rightarrow> bool" where
  "world_inv w \<longleftrightarrow>
     tok.accounted (w_budgets w) (world_tokens w) \<and>
     (\<forall>ref \<ge> w_next_txn w. world_tokens w ref = {})"

lemma fresh_world_inv:
  assumes "fresh_budgets B"
  shows "world_inv (fresh_world B)"
proof -
  have "\<exists>Ls Lr. pair_inv (B ref) Ls Lr" for ref
  proof -
    obtain scap sw si rcap rw ri where "B ref = fresh_pair scap sw si rcap rw ri"
      using assms unfolding fresh_budgets_def by blast
    then show ?thesis by (auto intro!: exI fresh_pair_inv)
  qed
  moreover have "entry B k = None" for k
  proof -
    obtain scap sw si rcap rw ri where "B (fst k) = fresh_pair scap sw si rcap rw ri"
      using assms unfolding fresh_budgets_def by blast
    then show ?thesis by (simp add: entry_def fresh_pair_def RequoteBudgetPair_new_def btm.get_empty)
  qed
  ultimately show ?thesis
    by (simp add: world_inv_def tok.accounted_def sound_books_def fresh_world_def world_tokens_def
        GovernedQuoteTransaction_new_def)
qed

lemma on_txn_step:
  assumes inv: "world_inv w" and ref: "ref < w_next_txn w"
    and f: "\<And>B inner. tok.holds B (inner_tokens inner) \<Longrightarrow>
      tok.flows B (inner_tokens inner) (inner_tokens \<circ> fst) (f B inner)"
  shows "\<exists>w' x. on_txn w ref f = Some (w', x) \<and> world_inv w' \<and>
    budget_step\<^sup>*\<^sup>* (w_budgets w) (w_budgets w') \<and> w_next_txn w' = w_next_txn w"
proof -
  have acc: "tok.accounted (w_budgets w) (world_tokens w)" using inv by (simp add: world_inv_def)
  have "tok.holds (w_budgets w) (inner_tokens (w_txns w ref))"
    using tok.accounted_holds [OF acc] by (simp add: world_tokens_def)
  from f [OF this] obtain B' inner x where r: "f (w_budgets w) (w_txns w ref) = Some (B', inner, x)"
    and mv: "tok.moves (w_budgets w) (world_tokens w ref) B' (inner_tokens inner)"
    by (auto simp: tok.flows_def world_tokens_def)
  let ?w = "w\<lparr>w_budgets := B', w_txns := (w_txns w)(ref := inner)\<rparr>"
  have "world_tokens ?w = (world_tokens w)(ref := inner_tokens inner)"
    by (auto simp: world_tokens_def fun_eq_iff)
  then have "world_inv ?w"
    using tok.accounted_moves [OF acc mv] inv ref by (auto simp: world_inv_def)
  then show ?thesis using r tok.moves_steps [OF mv] by (simp add: on_txn_def)
qed

lemma sink_step:
  assumes inv: "world_inv w" and ref: "ref < w_next_txn w"
    and c: "clock_ok (w_budgets w) (inner_state (w_txns w ref)) (prepared_actor_now_ms p)"
  shows "world_inv (commit_prepared w ref p)"
proof -
  have acc: "tok.accounted (w_budgets w) (world_tokens w)" using inv by (simp add: world_inv_def)
  have h: "tok.holds (w_budgets w) (inner_tokens (w_txns w ref))"
    using tok.accounted_holds [OF acc] by (simp add: world_tokens_def)
  have mv: "tok.moves (w_budgets w) (world_tokens w ref) (w_budgets w)
      (inner_tokens (prepared_commit (w_txns w ref) p))"
    using commit_sink_invoked_moves [OF h c] by (simp add: world_tokens_def prepared_commit_def)
  have "world_tokens (commit_prepared w ref p) =
      (world_tokens w)(ref := inner_tokens (prepared_commit (w_txns w ref) p))"
    by (auto simp: world_tokens_def commit_prepared_def fun_eq_iff)
  then show ?thesis
    using tok.accounted_moves [OF acc mv] inv ref by (auto simp: world_inv_def commit_prepared_def)
qed

lemma new_market_inv:
  assumes inv: "world_inv w" and new: "MarketQuote_new w scope sm = (w', m)"
  shows "world_inv w' \<and> w_budgets w' = w_budgets w"
proof -
  have w': "w' = w\<lparr>w_txns := (w_txns w)(w_next_txn w := GovernedQuoteTransaction_new sm,
      Suc (w_next_txn w) := GovernedQuoteTransaction_new sm), w_next_txn := Suc (Suc (w_next_txn w))\<rparr>"
    using new by (simp add: MarketQuote_new_def Let_def)
  have e: "inner_tokens (GovernedQuoteTransaction_new sm) = {}" by (simp add: GovernedQuoteTransaction_new_def)
  have z: "world_tokens w (w_next_txn w) = {}" "world_tokens w (Suc (w_next_txn w)) = {}"
    using inv by (simp_all add: world_inv_def)
  have "world_tokens w' ref = world_tokens w ref" for ref
    using z e by (cases "ref = w_next_txn w"; cases "ref = Suc (w_next_txn w)") (simp_all add: w' world_tokens_def)
  then have "world_tokens w' = world_tokens w" by blast
  moreover have "w_budgets w' = w_budgets w" "w_next_txn w' = Suc (Suc (w_next_txn w))" by (simp_all add: w')
  ultimately show ?thesis using inv by (simp add: world_inv_def)
qed

lemma close_retention_scope_flows:
  "tok.holds B (inner_tokens inner) \<Longrightarrow>
   tok.flows B (inner_tokens inner) (inner_tokens \<circ> fst) (close_retention_scope B inner)"
  using apply_event_flows [of B "inner\<lparr>inner_retention_scope_closed := True\<rparr>"]
  by (simp add: close_retention_scope_def)

lemma world_step_inv:
  assumes "world_step w w'" and "world_inv w"
  shows "world_inv w' \<and> budget_step\<^sup>*\<^sup>* (w_budgets w) (w_budgets w')"
  using assms
proof (cases rule: world_step.cases)
  case (new_market scope sm m)
  then show ?thesis using new_market_inv [OF assms(2) new_market] by simp
next
  case (event ref e res)
  obtain w1 x where "on_txn w ref (\<lambda>B inner. apply_event B inner e) = Some (w1, x)" "world_inv w1"
      "budget_step\<^sup>*\<^sup>* (w_budgets w) (w_budgets w1)"
    using on_txn_step [where f = "\<lambda>B inner. apply_event B inner e", OF assms(2) event(1) apply_event_flows] by blast
  then show ?thesis using event(2) by (simp add: reduce_def)
next
  case (refinement ref r out)
  obtain w1 x where "on_txn w ref (\<lambda>B inner. refine B inner r) = Some (w1, x)" "world_inv w1"
      "budget_step\<^sup>*\<^sup>* (w_budgets w) (w_budgets w1)"
    using on_txn_step [where f = "\<lambda>B inner. refine B inner r", OF assms(2) refinement(1) refine_flows] by blast
  then show ?thesis using refinement(2) by simp
next
  case (close_scope ref res)
  obtain w1 x where "on_txn w ref close_retention_scope = Some (w1, x)" "world_inv w1"
      "budget_step\<^sup>*\<^sup>* (w_budgets w) (w_budgets w1)"
    using on_txn_step [where f = close_retention_scope, OF assms(2) close_scope(1) close_retention_scope_flows] by blast
  then show ?thesis using close_scope(2) by simp
next
  case (sink ref p)
  then show ?thesis using sink_step [OF assms(2)] by (auto simp: commit_prepared_def)
qed

lemma world_run_inv:
  assumes "world_step\<^sup>*\<^sup>* w w'" and "world_inv w"
  shows "world_inv w' \<and> budget_step\<^sup>*\<^sup>* (w_budgets w) (w_budgets w')"
  using assms
proof (induction rule: rtranclp_induct)
  case (step y z)
  then show ?case using world_step_inv [OF step(2)] by (meson rtranclp_trans)
qed simp

lemma budget_steps_ledger_run:
  assumes "budget_step\<^sup>*\<^sup>* B B'"
  shows "\<exists>Ls Lr. ledger_run (B ref) (B' ref) Ls Lr"
  using assms
proof (induction rule: rtranclp_induct)
  case base
  then show ?case using ledger_run.start by blast
next
  case (step B1 B2)
  then obtain Ls Lr where run: "ledger_run (B ref) (B1 ref) Ls Lr" by blast
  obtain r st' where s: "pair_step (B1 r) st'" "B2 = B1(r := st')" using step(2) by (auto simp: budget_step_def)
  show ?case
  proof (cases "r = ref")
    case True
    then show ?thesis using ledger_run.step [OF run, of st'] s by auto
  next
    case False
    then show ?thesis using run s(2) by auto
  qed
qed

section \<open>A concrete maker\<close>

text \<open>One market on one budget: the YES leg arms a fresh submit and reaches the sink at 1005 ms.\<close>

definition demo_scope :: "string MakerOrderLifecycleScopeIdentity" where
  "demo_scope = MakerOrderLifecycleScopeIdentity_new 0 ''YES'' ''NO''"

definition demo_market :: "string MarketQuote" where
  "demo_market = \<lparr>scope_identity = demo_scope, market_yes = 0, market_no = 1\<rparr>"

definition demo_identity :: MakerQuoteLifecycleIdentity where
  "demo_identity = \<lparr>client_order_id = ''O-1'', identity_generation = 7\<rparr>"

definition demo_transition :: QuoteLegTransitionProposal where
  "demo_transition = \<lparr>prop_leg = Yes, prop_action = LifecycleAction.Submit,
     prop_prior_state = LegState.Idle, prop_pending_state = LegState.SubmitPending\<rparr>"

definition demo_token :: RequoteBudgetReservation where
  "demo_token = \<lparr>res_budget = 0, res_generation = 1, res_phase = Refundable\<rparr>"

definition demo_armed :: QuoteTransactionState where
  "demo_armed = Attempt \<lparr>att_mode = QuoteTransactionMode.Active,
     att_arm = \<lparr>arm_identity = demo_identity, arm_prior_state = LegState.Idle,
                arm_pending_state = LegState.SubmitPending,
                arm_obligation = QuoteLegTransactionObligation.FreshSubmit\<rparr>,
     att_phase = Armed (Reserved demo_token)\<rparr>"

definition demo_world :: quote_world where
  "demo_world = \<lparr>w_budgets = (\<lambda>_. demo_pair), w_txns = (\<lambda>_. GovernedQuoteTransaction_new False), w_next_txn = 2\<rparr>"

definition demo_world_armed :: quote_world where
  "demo_world_armed = demo_world\<lparr>w_budgets := (\<lambda>_. demo_pair)(0 := demo_reserved),
     w_txns := (w_txns demo_world)(0 := (GovernedQuoteTransaction_new False)\<lparr>inner_state := demo_armed\<rparr>)\<rparr>"

lemma demo_fresh: "fresh_budgets (\<lambda>_. demo_pair)"
  unfolding fresh_budgets_def demo_pair_def by blast

lemma demo_new: "MarketQuote_new (fresh_world (\<lambda>_. demo_pair)) demo_scope False = (demo_world, demo_market)"
  by (simp add: MarketQuote_new_def fresh_world_def demo_world_def demo_market_def Let_def fun_eq_iff)

lemma demo_arm:
  "reduce demo_world 0 (QuoteTransactionReductionEvent.PreSink
     (Arm demo_transition 0 (Reserve demo_proposal) demo_identity)) = Some (demo_world_armed, Inr no_action)"
  by (simp add: reduce_def on_txn_def apply_event_def demo_world_def demo_world_armed_def
      GovernedQuoteTransaction_new_def reduce_arm_def reduce_arm_active_def demo_identity_def
      demo_transition_def reserve_def demo_reserve from_proposal_def demo_armed_def demo_token_def
      idle_def Let_def)

lemma demo_run_world: "world_step\<^sup>*\<^sup>* (fresh_world (\<lambda>_. demo_pair)) demo_world"
  by (rule r_into_rtranclp) (rule world_step.new_market [OF demo_new])

lemma demo_run_armed: "world_step\<^sup>*\<^sup>* (fresh_world (\<lambda>_. demo_pair)) demo_world_armed"
proof -
  have "world_step demo_world demo_world_armed"
    by (rule world_step.event [OF _ demo_arm]) (simp add: demo_world_def)
  with demo_run_world show ?thesis by (rule rtranclp.rtrancl_into_rtrancl)
qed

section \<open>Capacity is never leaked\<close>

text \<open>
  C3. No capacity leak. In every state a maker can reach from fresh budgets, each outstanding
  liability of each budget is backed by a reservation that exactly one quote transaction owns. In
  particular an aborted, settled, refined, poisoned or wound-down leg leaves no liability behind.
\<close>

theorem outstanding_is_owned:
  assumes "fresh_budgets B" and "world_step\<^sup>*\<^sup>* (fresh_world B) w"
    and "bt_get (outstanding (w_budgets w ref)) g = Some l"
  shows "\<exists>!txn. \<exists>r \<in> state_tokens (inner_state (w_txns w txn)). res_budget r = ref \<and> res_generation r = g"
proof -
  have acc: "tok.accounted (w_budgets w) (world_tokens w)"
    using world_run_inv [OF assms(2) fresh_world_inv [OF assms(1)]] by (simp add: world_inv_def)
  have key: "(\<exists>r \<in> state_tokens (inner_state (w_txns w txn)). res_budget r = ref \<and> res_generation r = g) \<longleftrightarrow>
      (ref, g) \<in> res_key ` world_tokens w txn" for txn
    by (auto simp: world_tokens_def res_key_def)
  have "entry (w_budgets w) (ref, g) = Some l" using assms(3) by (simp add: entry_def)
  moreover have "\<forall>k l. entry (w_budgets w) k = Some l \<longrightarrow> (\<exists>i. k \<in> res_key ` world_tokens w i)"
    using acc unfolding tok.accounted_def by (elim conjE)
  ultimately obtain txn where t: "(ref, g) \<in> res_key ` world_tokens w txn" by (elim allE) blast
  show ?thesis unfolding key
  proof (rule ex1I [where a = txn])
    show "(ref, g) \<in> res_key ` world_tokens w txn" by (rule t)
    fix txn' assume t': "(ref, g) \<in> res_key ` world_tokens w txn'"
    show "txn' = txn"
    proof (rule ccontr)
      assume "txn' \<noteq> txn"
      moreover have "\<forall>i j. i \<noteq> j \<longrightarrow> res_key ` world_tokens w i \<inter> res_key ` world_tokens w j = {}"
        using acc unfolding tok.accounted_def by (elim conjE)
      ultimately have "res_key ` world_tokens w txn' \<inter> res_key ` world_tokens w txn = {}" by simp
      then show False using t t' by blast
    qed
  qed
qed

theorem outstanding_is_owned_witness:
  "\<exists>!txn. \<exists>r \<in> state_tokens (inner_state (w_txns demo_world_armed txn)). res_budget r = 0 \<and> res_generation r = 1"
  by (rule outstanding_is_owned [OF demo_fresh demo_run_armed, where l = "proposal_liability demo_proposal"])
    (simp add: demo_world_armed_def demo_reserved_def bt_get_def)



section \<open>Nothing panics\<close>

lemma lifecycle_ok: "apply_event B inner (QuoteTransactionReductionEvent.PreSink (Lifecycle e)) = Some (B', inner', res) \<Longrightarrow> \<not> isl res"
  and wind_down_ok: "apply_event B inner (QuoteTransactionReductionEvent.PreSink WindDown) = Some (B', inner', res) \<Longrightarrow> \<not> isl res"
  by (auto simp: apply_event_def bind_eq_Some_conv Let_def)

lemma reduce_total:
  assumes inv: "world_inv w" and ref: "ref < w_next_txn w"
  shows "\<exists>w' res. reduce w ref e = Some (w', res) \<and> world_inv w' \<and> w_next_txn w' = w_next_txn w"
  using on_txn_step [where f = "\<lambda>B inner. apply_event B inner e", OF inv ref apply_event_flows]
  unfolding reduce_def by blast

lemma on_txn_result:
  "on_txn w ref f = Some (w', x) \<Longrightarrow> \<exists>B inner. f (w_budgets w) (w_txns w ref) = Some (B, inner, x)"
  by (auto simp: on_txn_def bind_eq_Some_conv)

lemma reduce_expect_total:
  assumes inv: "world_inv w" and ref: "ref < w_next_txn w"
    and e: "e = QuoteTransactionReductionEvent.PreSink WindDown \<or>
      e = QuoteTransactionReductionEvent.PreSink (Lifecycle ev)"
  shows "\<exists>w' a. reduce_expect w ref e = Some (w', a) \<and> world_inv w' \<and> w_next_txn w' = w_next_txn w"
proof -
  obtain w' res where r: "reduce w ref e = Some (w', res)" "world_inv w'" "w_next_txn w' = w_next_txn w"
    using reduce_total [OF inv ref] by blast
  obtain B inner where "apply_event (w_budgets w) (w_txns w ref) e = Some (B, inner, res)"
    using on_txn_result [OF r(1) [unfolded reduce_def]] by blast
  then have "\<not> isl res" using e by (elim disjE) (simp_all add: lifecycle_ok wind_down_ok)
  then have "\<exists>c. res = Inr c" by (cases res) auto
  then show ?thesis using r by (auto simp: reduce_expect_def)
qed

lemma close_scope_total:
  assumes inv: "world_inv w" and ref: "ref < w_next_txn w"
  shows "\<exists>w' a. close_scope_expect w ref = Some (w', a) \<and> world_inv w' \<and> w_next_txn w' = w_next_txn w"
proof -
  obtain w' res where r: "on_txn w ref close_retention_scope = Some (w', res)" "world_inv w'"
      "w_next_txn w' = w_next_txn w"
    using on_txn_step [where f = close_retention_scope, OF inv ref close_retention_scope_flows] by blast
  obtain B inner where "close_retention_scope (w_budgets w) (w_txns w ref) = Some (B, inner, res)"
    using on_txn_result [OF r(1)] by blast
  then have "\<not> isl res" unfolding close_retention_scope_def by (rule wind_down_ok)
  then have "\<exists>c. res = Inr c" by (cases res) auto
  then show ?thesis using r by (auto simp: close_scope_expect_def)
qed

definition market_in :: "quote_world \<Rightarrow> 'i MarketQuote \<Rightarrow> bool" where
  "market_in w m \<longleftrightarrow> market_yes m < w_next_txn w \<and> market_no m < w_next_txn w \<and> market_yes m \<noteq> market_no m"

lemma transaction_in: "market_in w m \<Longrightarrow> transaction m leg < w_next_txn w"
  by (cases leg) (simp_all add: market_in_def)

text \<open>
  C4. No market operation panics. In every state a maker can reach from fresh budgets, each
  operation of a market returns: leg events, one-leg, one-side and both-leg cancels and scope
  closure (whose \<open>expect\<close>s on a total transition always hold), every transaction event, and every
  refinement.
\<close>

theorem market_operations_total:
  assumes "fresh_budgets B" and "world_step\<^sup>*\<^sup>* (fresh_world B) w" and "market_in w m"
  shows "on_leg_event w m leg ev \<noteq> None \<and> cancel_leg w m leg \<noteq> None \<and> cancel_one_side w m leg \<noteq> None \<and>
    drain w m \<noteq> None \<and> market_close_retention_scope w m \<noteq> None \<and>
    reduce w (transaction m leg) e \<noteq> None \<and>
    handle_refine w \<lparr>handle_market = m, handle_leg = leg\<rparr> r \<noteq> None"
proof -
  have inv: "world_inv w" using world_run_inv [OF assms(2) fresh_world_inv [OF assms(1)]] by simp
  note t = transaction_in [OF assms(3)]
  note rt = reduce_expect_total [OF inv]
  have y: "market_yes m < w_next_txn w" and n: "market_no m < w_next_txn w"
    using assms(3) by (simp_all add: market_in_def)
  have "drain w m \<noteq> None"
  proof -
    obtain w1 a where 1: "reduce_expect w (market_yes m) (QuoteTransactionReductionEvent.PreSink WindDown) = Some (w1, a)"
        "world_inv w1" "w_next_txn w1 = w_next_txn w" using rt [OF y disjI1 [OF refl]] by blast
    have n1: "market_no m < w_next_txn w1" using n 1(3) by simp
    obtain w2 b where "reduce_expect w1 (market_no m) (QuoteTransactionReductionEvent.PreSink WindDown) = Some (w2, b)"
      using reduce_expect_total [OF 1(2) n1 disjI1 [OF refl]] by blast
    then show ?thesis using 1(1) by (simp add: drain_def)
  qed
  moreover have "market_close_retention_scope w m \<noteq> None"
  proof -
    obtain w1 a where 1: "close_scope_expect w (market_yes m) = Some (w1, a)"
        "world_inv w1" "w_next_txn w1 = w_next_txn w" using close_scope_total [OF inv y] by blast
    have n1: "market_no m < w_next_txn w1" using n 1(3) by simp
    obtain w2 b where "close_scope_expect w1 (market_no m) = Some (w2, b)"
      using close_scope_total [OF 1(2) n1] by blast
    then show ?thesis using 1(1) by (simp add: market_close_retention_scope_def)
  qed
  moreover have "on_leg_event w m leg ev \<noteq> None" "cancel_leg w m leg \<noteq> None" "cancel_one_side w m leg \<noteq> None"
    using rt [OF t [of leg] disjI1 [OF refl]] rt [OF t [of leg] disjI2 [OF refl], of ev]
    by (auto simp: on_leg_event_def cancel_leg_def cancel_one_side_def)
  moreover have "reduce w (transaction m leg) e \<noteq> None"
    using reduce_total [OF inv t [of leg], of e] by (elim exE) simp
  moreover have "handle_refine w \<lparr>handle_market = m, handle_leg = leg\<rparr> r \<noteq> None"
    using on_txn_step [where f = "\<lambda>B inner. refine B inner r", OF inv t [of leg] refine_flows]
    by (auto simp: handle_refine_def)
  ultimately show ?thesis by blast
qed

theorem market_operations_total_witness:
  "drain demo_world_armed demo_market \<noteq> None \<and>
   on_leg_event demo_world_armed demo_market Yes LegEvent.Accepted \<noteq> None"
proof -
  have "market_in demo_world_armed demo_market"
    by (simp add: market_in_def demo_market_def demo_world_armed_def demo_world_def)
  from market_operations_total [OF demo_fresh demo_run_armed this, of Yes LegEvent.Accepted]
  show ?thesis by blast
qed

end
