(* ===== verification/QuoteSafety.thy ===== *)
theory QuoteSafety
  imports MarketRun
begin

text \<open>
  Safety of the leg state machine: winding down is absorbing and never quotes again, a poisoned
  leg cannot route, stale generations change nothing, settlements replay idempotently, an aborted
  attempt restores the leg at no cost, and a completed attempt reaches the state its proposal
  announced.
\<close>

section \<open>Winding down\<close>

fun stable_winding :: "QuoteStableState \<Rightarrow> bool" where
  "stable_winding (QuoteStableState.WindingDown _) = True"
| "stable_winding (Poisoned hold) = (hold_mode hold = QuoteTransactionMode.WindingDown)"
| "stable_winding (QuoteStableState.Active _) = False"

lemma mode_winding: "is_winding_down_mode m \<longleftrightarrow> m = QuoteTransactionMode.WindingDown"
  by (cases m) simp_all

lemma stable_winding_projection: "stable_winding_down (stable_projection st) = stable_winding st"
  by (cases st rule: stable_projection.cases) (simp_all add: Let_def mode_winding)

lemma is_winding_down_simps [simp]:
  "is_winding_down (Stable st) = stable_winding st"
  "is_winding_down (Attempt a) \<longleftrightarrow> att_mode a = QuoteTransactionMode.WindingDown"
  "is_winding_down (QuoteTransactionState.Settled s) = stable_winding (settlement_stable s)"
  by (simp_all add: is_winding_down_def stable_winding_projection Let_def settlement_projection_def
      attempt_projection_def mode_winding split: prod.splits)

lemma poisoned_winding [simp]:
  "stable_winding (poisoned mode obligation budget) \<longleftrightarrow> mode = QuoteTransactionMode.WindingDown"
  by (simp add: poisoned_def)

lemma settled_winding [simp]:
  "is_winding_down (settled g route st) = stable_winding st"
  "is_winding_down (terminal_before_route_settlement g st) = stable_winding st"
  by (simp_all add: settled_def terminal_before_route_settlement_def)

text \<open>The commits a leg that is winding down may emit.\<close>

definition cancels_only :: "GovernedQuoteTransactionCommit \<Rightarrow> bool" where
  "cancels_only c \<longleftrightarrow> commit_action c = None \<or> commit_action c = Some LifecycleAction.Cancel"

lemma cancels_only_simps [simp]:
  "cancels_only no_action"
  "cancels_only (with_action a) \<longleftrightarrow> a = LifecycleAction.Cancel"
  by (simp_all add: cancels_only_def no_action_def with_action_def)

fun winding_reduction :: "QuoteReduction \<Rightarrow> bool" where
  "winding_reduction (Inl (s, _)) = is_winding_down s"
| "winding_reduction (Inr (s, c)) = (is_winding_down s \<and> cancels_only c)"

lemma winding_down_lifecycle_winding:
  "reduce_winding_down_lifecycle phase e = (st, c) \<Longrightarrow> stable_winding st \<and> cancels_only c"
  by (cases phase) (auto split: if_split_asm)

lemma reduce_lifecycle_winding:
  "is_winding_down s \<Longrightarrow> reduce_lifecycle B s e sm = Some (B', s', c) \<Longrightarrow> is_winding_down s' \<and> cancels_only c"
proof (induction B s e sm rule: reduce_lifecycle.induct)
  case (1 B st e sm)
  then show ?case
    by (cases st) (auto simp: Let_def split: prod.splits dest: winding_down_lifecycle_winding)
next
  case (2 B s e sm)
  then show ?case
    by (cases "settlement_stable s") (auto simp: Let_def split: prod.splits dest: winding_down_lifecycle_winding)
qed auto

lemma begin_wind_down_cancels: "begin_wind_down m = (m', a) \<Longrightarrow> m' = QuoteTransactionMode.WindingDown \<and> cancels_only \<lparr>commit_action = a\<rparr>"
  by (cases m) (auto simp: cancels_only_def)

lemma reduce_stable_wind_down_winds:
  "reduce_stable_wind_down B st = Some (B', st', c) \<Longrightarrow> stable_winding st' \<and> cancels_only c"
  by (cases st) (auto simp: bind_eq_Some_conv Let_def dest: begin_wind_down_cancels
      split: prod.splits ActiveQuotePhase.splits)

lemma reduce_wind_down_winds:
  "reduce_wind_down B s = Some (B', s', c) \<Longrightarrow> is_winding_down s' \<and> cancels_only c"
  by (cases s) (auto simp: bind_eq_Some_conv Let_def reduce_stable_def dest: begin_wind_down_cancels
      reduce_stable_wind_down_winds split: prod.splits)

lemma poison_stable_winding [simp]: "stable_winding (poison_stable st) = stable_winding st"
  by (cases st) (auto split: ActiveQuotePhase.splits)

lemma missing_truth_winding:
  "is_winding_down s \<Longrightarrow> reduce_missing_money_moving_truth B s = Some (B', s', c) \<Longrightarrow> is_winding_down s' \<and> cancels_only c"
  by (cases s) (auto simp: bind_eq_Some_conv reduce_stable_def poison_attempt_def
      split: prod.splits)

lemma replay_winding: "is_winding_down s \<Longrightarrow> winding_reduction (reduce_settlement_replay s g route)"
  by (cases s) (auto simp: reduce_settlement_replay.simps settle_route_def split: QuoteSettlementStatus.splits)

lemma arm_winding:
  "is_winding_down s \<Longrightarrow> reduce_arm B s pr ref bp i = Some (B', red) \<Longrightarrow> winding_reduction red"
  by (auto simp: reduce_arm_def split: if_split_asm QuoteTransactionState.splits QuoteStableState.splits)

lemma finish_pre_sink_abort_winding:
  "finish_pre_sink_abort B QuoteTransactionMode.WindingDown arm budget g = Some (B', red) \<Longrightarrow> winding_reduction red"
  by (cases budget; clarsimp simp: finish_pre_sink_abort_def bind_eq_Some_conv; auto split: sum.split_asm)

lemma finish_pre_sink_invariant_failure_winding:
  "finish_pre_sink_invariant_failure B QuoteTransactionMode.WindingDown arm budget g = Some (B', red) \<Longrightarrow> winding_reduction red"
  by (cases budget; clarsimp simp: finish_pre_sink_invariant_failure_def bind_eq_Some_conv Let_def;
      auto split: sum.split_asm)

lemma finish_post_sink_failure_winding:
  "finish_post_sink_failure B QuoteTransactionMode.WindingDown arm budget g = Some (B', red) \<Longrightarrow> winding_reduction red"
  by (auto simp: finish_post_sink_failure_def bind_eq_Some_conv)

lemma route_success_state_winding:
  "route_success_state B QuoteTransactionMode.WindingDown arm budget = Some (B', st) \<Longrightarrow> stable_winding st"
  by (clarsimp simp: route_success_state_def bind_eq_Some_conv;
      auto simp: bind_eq_Some_conv split: AccountedSinkInvokedQuoteBudget.split_asm)

lemma fenced_cases:
  assumes "reduce_generation_fenced s g stale current = Some r"
  obtains "stale s = Some r" | "current s = Some r"
  using assms by (auto simp: reduce_generation_fenced_def split: option.splits bool.splits)

lemmas winding_finish =
  finish_pre_sink_abort_winding finish_pre_sink_invariant_failure_winding finish_post_sink_failure_winding
  route_success_state_winding

lemma settling_winding:
  assumes "is_winding_down s"
  shows "reduce_pre_sink_abort B s g = Some (B', red) \<Longrightarrow> winding_reduction red"
    and "reduce_pre_sink_invariant_failure B s g = Some (B', red) \<Longrightarrow> winding_reduction red"
    and "reduce_unwind B s = Some (B', red) \<Longrightarrow> winding_reduction red"
    and "reduce_route_success B s g success = Some (B', red) \<Longrightarrow> winding_reduction red"
    and "reduce_sink_rejected B s g = Some (B', red) \<Longrightarrow> winding_reduction red"
    and "reduce_post_sink_failure B s g = Some (B', red) \<Longrightarrow> winding_reduction red"
    and "winding_reduction (reduce_callback_retired s g)"
proof -
  note split = QuoteTransactionState.split_asm QuoteAttemptPhase.split_asm if_split_asm
  note r = assms replay_winding [OF assms]
  show "reduce_pre_sink_abort B s g = Some (B', red) \<Longrightarrow> winding_reduction red"
    using r unfolding reduce_pre_sink_abort_def
    by (elim fenced_cases) (auto split: split dest: winding_finish)
  show "reduce_pre_sink_invariant_failure B s g = Some (B', red) \<Longrightarrow> winding_reduction red"
    using r unfolding reduce_pre_sink_invariant_failure_def
    by (elim fenced_cases) (auto split: split dest: winding_finish)
  show "reduce_unwind B s = Some (B', red) \<Longrightarrow> winding_reduction red"
    using r unfolding reduce_unwind_def Let_def by (auto split: split dest: winding_finish)
  show "reduce_route_success B s g success = Some (B', red) \<Longrightarrow> winding_reduction red"
    using r unfolding reduce_route_success_def Let_def
    by (elim fenced_cases; cases s; clarsimp simp: bind_eq_Some_conv split: split; auto dest: winding_finish)
  show "reduce_sink_rejected B s g = Some (B', red) \<Longrightarrow> winding_reduction red"
    using r unfolding reduce_sink_rejected_def
    by (elim fenced_cases; cases s; clarsimp simp: bind_eq_Some_conv split: split; auto split: AccountedSinkInvokedQuoteBudget.split_asm)
  show "reduce_post_sink_failure B s g = Some (B', red) \<Longrightarrow> winding_reduction red"
    using r unfolding reduce_post_sink_failure_def
    by (elim fenced_cases) (auto split: split dest: winding_finish)
  show "winding_reduction (reduce_callback_retired s g)" using r by (cases s) simp_all
qed

lemma reduce_event_winding:
  assumes w: "is_winding_down s" and r: "reduce_event B s e sm = Some (B', red)"
  shows "winding_reduction red"
proof (cases e)
  case (PreSink ev)
  then show ?thesis using r w settling_winding [OF w]
    by (cases ev) (auto dest: reduce_lifecycle_winding [OF w] missing_truth_winding [OF w] reduce_wind_down_winds
        arm_winding [OF w])
next
  case (SinkCapable ev)
  then show ?thesis using r settling_winding [OF w] by (cases ev) auto
qed

lemma terminal_winding:
  assumes "stable_winding st" and "terminal_stable B st d = Some (B', st')"
  shows "stable_winding st'"
  using assms by (cases st) (auto simp: bind_eq_Some_conv)

lemma terminal_attempt_winding:
  assumes "att_mode a = QuoteTransactionMode.WindingDown" and "terminal_attempt B a d = Some (B', st)"
  shows "stable_winding st"
  using assms by (auto simp: terminal_attempt_def bind_eq_Some_conv split: QuoteAttemptPhase.split_asm ArmedQuoteBudget.split_asm)

lemma close_reopened_winding [simp]:
  "is_winding_down (QuoteTransactionState.Settled (close_reopened s b)) = stable_winding (settlement_stable s)"
  by simp

lemma reduce_terminal_winding:
  "is_winding_down s \<Longrightarrow> reduce_terminal B s d = Some (B', s', c) \<Longrightarrow> is_winding_down s'"
  by (cases s) (auto simp: bind_eq_Some_conv reduce_stable_def dest: terminal_winding terminal_attempt_winding)

lemma terminal_refinement_winding:
  assumes "is_winding_down s" and "reduce_terminal_refinement B s g effect closes = Some (B', red)"
  shows "is_winding_down (reduction_state red)"
proof -
  obtain s1 c where s1: "is_winding_down s1"
    and red: "red = (case s1 of
         QuoteTransactionState.Settled settlement \<Rightarrow>
           Inr (QuoteTransactionState.Settled (close_reopened settlement closes), c)
       | Stable st \<Rightarrow>
           Inr (QuoteTransactionState.Settled (close_reopened
             \<lparr>settlement_generation = g, settlement_status = RouteSettled QuoteRouteSettlement.CallbackRetired,
              settlement_stable = st\<rparr> closes), c)
       | Attempt attempt \<Rightarrow> Inl (Attempt attempt, TerminalWithoutEffect))"
    using assms by (cases effect) (auto simp: reduce_terminal_refinement_def bind_eq_Some_conv
        dest: reduce_terminal_winding)
  show ?thesis using s1 by (cases s1) (simp_all add: red)
qed

lemma reopened_winding: "is_winding_down s \<Longrightarrow> is_winding_down (reduction_state (reduce_reopened s))"
  by (cases s) (auto simp: reopen_def split: QuoteSettlementStatus.split)

lemma refine_winding:
  assumes w: "is_winding_down (inner_state inner)" and r: "refine B inner ev = Some (B', inner', out)"
  shows "is_winding_down (inner_state inner')"
proof -
  have c: "conclude_refinement inner i a red = (inner', out) \<Longrightarrow> is_winding_down (reduction_state red) \<Longrightarrow>
      is_winding_down (inner_state inner')" for i a red
    by (cases red rule: reduction_state.cases) auto
  show ?thesis
  proof (cases "refinement ev")
    case (Terminal effect closes)
    then show ?thesis using w r
      by (auto simp: refine_def Let_def split: if_split_asm intro: c dest: terminal_refinement_winding)
  next
    case Reopened
    then show ?thesis using w r reopened_winding [OF w]
      by (auto simp: refine_def Let_def split: if_split_asm intro: c)
  next
    case RetentionHorizon
    then show ?thesis using w r
      by (auto simp: refine_def Let_def bind_eq_Some_conv reduce_stable_def dest: reduce_stable_wind_down_winds
          split: if_split_asm QuoteTransactionState.split_asm)
  qed
qed

lemma commit_sink_winding:
  "is_winding_down (fst (commit_sink_invoked s g now)) = is_winding_down s"
  by (auto simp: commit_sink_invoked_def account_sink_invocation_def
      split: QuoteTransactionState.split QuoteAttemptPhase.split)

text \<open>The reduction behind an applied event, and the terminal owner it leaves.\<close>

definition owner_after :: "QuoteTransactionReductionEvent \<Rightarrow> GovernedQuoteTransactionInner \<Rightarrow> QuoteTransactionState \<Rightarrow>
    MakerQuoteLifecycleIdentity option" where
  "owner_after e inner s =
     (case settled_owner e (inner_state inner) of
        (None, _) \<Rightarrow> inner_terminal_owner inner
      | (Some i, poison_only) \<Rightarrow>
          if poison_only \<and> leg_state s \<noteq> PoisonedReconciliationHold then inner_terminal_owner inner else Some i)"

lemma apply_event_eq:
  "apply_event B inner e = map_option (\<lambda>(B', red).
     (B', inner\<lparr>inner_state := reduction_state red, inner_terminal_owner := owner_after e inner (reduction_state red)\<rparr>,
      reduction_result red)) (reduce_event B (inner_state inner) e (inner_supports_modify inner))"
proof (cases "reduce_event B (inner_state inner) e (inner_supports_modify inner)")
  case None
  then show ?thesis by (simp add: apply_event_def)
next
  case (Some p)
  obtain B' red where p: "p = (B', red)" by fastforce
  obtain owner po where o: "settled_owner e (inner_state inner) = (owner, po)" by fastforce
  show ?thesis unfolding apply_event_def Some p o owner_after_def
    by (cases owner) (simp_all add: Let_def)
qed

lemma apply_event_SomeD:
  assumes "apply_event B inner e = Some (B', inner', res)"
  obtains red where "reduce_event B (inner_state inner) e (inner_supports_modify inner) = Some (B', red)"
    and "inner_state inner' = reduction_state red" and "res = reduction_result red"
    and "inner_supports_modify inner' = inner_supports_modify inner"
    and "inner' = inner\<lparr>inner_state := reduction_state red,
      inner_terminal_owner := owner_after e inner (reduction_state red)\<rparr>"
proof -
  obtain red where "reduce_event B (inner_state inner) e (inner_supports_modify inner) = Some (B', red)"
      "inner' = inner\<lparr>inner_state := reduction_state red,
        inner_terminal_owner := owner_after e inner (reduction_state red)\<rparr>"
      "res = reduction_result red"
    using assms unfolding apply_event_eq by auto
  then show ?thesis using that [of red] by simp
qed

lemma apply_event_winding:
  assumes w: "is_winding_down (inner_state inner)" and a: "apply_event B inner e = Some (B', inner', res)"
  shows "is_winding_down (inner_state inner') \<and> (case res of Inr c \<Rightarrow> cancels_only c | Inl _ \<Rightarrow> True)"
proof -
  obtain red where r: "reduce_event B (inner_state inner) e (inner_supports_modify inner) = Some (B', red)"
    and i: "inner_state inner' = reduction_state red" and res: "res = reduction_result red"
    by (rule apply_event_SomeD [OF a])
  have "winding_reduction red" by (rule reduce_event_winding [OF w r])
  then show ?thesis by (cases red rule: reduction_state.cases) (simp_all add: i res)
qed

lemma on_txn_frame:
  assumes "on_txn w ref f = Some (w', x)"
  shows "w_next_txn w' = w_next_txn w" and "r \<noteq> ref \<Longrightarrow> w_txns w' r = w_txns w r"
    and "\<exists>B. f (w_budgets w) (w_txns w ref) = Some (B, w_txns w' ref, x)"
  using assms by (auto simp: on_txn_def bind_eq_Some_conv)

lemma close_scope_winding:
  assumes "close_retention_scope B inner = Some (B', inner', res)"
  shows "is_winding_down (inner_state inner')"
  using assms unfolding close_retention_scope_def apply_event_def
  by (auto simp: bind_eq_Some_conv Let_def dest: reduce_wind_down_winds)

lemma world_step_winding:
  assumes "world_step w w'" and ref: "ref < w_next_txn w" and wd: "is_winding_down (inner_state (w_txns w ref))"
  shows "is_winding_down (inner_state (w_txns w' ref)) \<and> w_next_txn w \<le> w_next_txn w'"
  using assms(1)
proof cases
  case (new_market scope sm m)
  then show ?thesis using ref wd by (auto simp: MarketQuote_new_def Let_def)
next
  case (event r e res)
  then have f: "on_txn w r (\<lambda>B inner. apply_event B inner e) = Some (w', res)" by (simp add: reduce_def)
  then show ?thesis using on_txn_frame [OF f] wd by (cases "r = ref") (auto dest: apply_event_winding)
next
  case (refinement r rf out)
  then show ?thesis using on_txn_frame [OF refinement(2)] wd by (cases "r = ref") (auto dest: refine_winding)
next
  case (close_scope r res)
  then show ?thesis using on_txn_frame [OF close_scope(2)] wd by (cases "r = ref") (auto dest: close_scope_winding)
next
  case (sink r p)
  then show ?thesis using wd by (auto simp: commit_prepared_def prepared_commit_def commit_sink_winding)
qed

lemma world_run_winding:
  assumes "world_step\<^sup>*\<^sup>* w w'" and "ref < w_next_txn w" and "is_winding_down (inner_state (w_txns w ref))"
  shows "is_winding_down (inner_state (w_txns w' ref))"
proof -
  have "is_winding_down (inner_state (w_txns w' ref)) \<and> w_next_txn w \<le> w_next_txn w'"
    using assms
  proof (induction rule: rtranclp_induct)
    case (step y z)
    then have "is_winding_down (inner_state (w_txns y ref))" "ref < w_next_txn y" "w_next_txn w \<le> w_next_txn y" by auto
    then show ?case using world_step_winding [OF step(2), of ref] by (auto intro: order_trans)
  qed simp
  then show ?thesis by simp
qed

lemma reduce_expect_frame:
  assumes "reduce_expect w ref e = Some (w', a)"
  shows "\<exists>B c. apply_event (w_budgets w) (w_txns w ref) e = Some (B, w_txns w' ref, Inr c) \<and> a = commit_action c"
    and "w_next_txn w' = w_next_txn w" and "r \<noteq> ref \<Longrightarrow> w_txns w' r = w_txns w r"
proof -
  obtain c where f: "on_txn w ref (\<lambda>B inner. apply_event B inner e) = Some (w', Inr c)" and a: "a = commit_action c"
    using assms by (clarsimp simp: reduce_expect_def reduce_def bind_eq_Some_conv) (auto split: sum.split_asm)
  show "\<exists>B c. apply_event (w_budgets w) (w_txns w ref) e = Some (B, w_txns w' ref, Inr c) \<and> a = commit_action c"
    and "w_next_txn w' = w_next_txn w" and "r \<noteq> ref \<Longrightarrow> w_txns w' r = w_txns w r"
    using on_txn_frame [OF f] a by blast+
qed

lemma wind_down_event_winds:
  assumes "apply_event B inner (QuoteTransactionReductionEvent.PreSink WindDown) = Some (B', inner', res)"
  shows "is_winding_down (inner_state inner')"
  using assms unfolding apply_event_def
  by (auto simp: bind_eq_Some_conv Let_def dest: reduce_wind_down_winds)

lemma drain_winds:
  assumes m: "market_in w m" and d: "drain w m = Some (w1, a)"
  shows "is_winding_down (inner_state (w_txns w1 (transaction m leg)))" and "w_next_txn w1 = w_next_txn w"
proof -
  let ?e = "QuoteTransactionReductionEvent.PreSink WindDown"
  obtain w0 ya na where y: "reduce_expect w (market_yes m) ?e = Some (w0, ya)"
    and n: "reduce_expect w0 (market_no m) ?e = Some (w1, na)"
    using d by (auto simp: drain_def bind_eq_Some_conv)
  note fy = reduce_expect_frame [OF y] and fn = reduce_expect_frame [OF n]
  have "is_winding_down (inner_state (w_txns w0 (market_yes m)))" using fy(1) wind_down_event_winds by blast
  moreover have "w_txns w1 (market_yes m) = w_txns w0 (market_yes m)" using fn(3) m by (simp add: market_in_def)
  moreover have "is_winding_down (inner_state (w_txns w1 (market_no m)))" using fn(1) wind_down_event_winds by blast
  ultimately show "is_winding_down (inner_state (w_txns w1 (transaction m leg)))" by (cases leg) simp_all
  show "w_next_txn w1 = w_next_txn w" using fy(2) fn(2) by simp
qed

text \<open>
  C5. A drained market never quotes again. Once \<open>drain\<close> has returned, whatever happens afterwards
  to any market, both legs of the drained market stay in wind-down: no new transition is ever
  proposed for them, and every event either fails or asks for nothing but a cancel.
\<close>

theorem drained_market_never_quotes:
  assumes "market_in w m" and "drain w m = Some (w1, a)" and "world_step\<^sup>*\<^sup>* w1 w2"
  shows "propose_leg_event w2 m leg ev = None \<and>
    (reduce w2 (transaction m leg) e = Some (w3, Inr c) \<longrightarrow>
       commit_action c \<in> {None, Some LifecycleAction.Cancel})"
proof -
  note dw = drain_winds [OF assms(1,2)]
  have "transaction m leg < w_next_txn w1" using transaction_in [OF assms(1)] dw(2) by simp
  then have wd: "is_winding_down (inner_state (w_txns w2 (transaction m leg)))"
    by (rule world_run_winding [OF assms(3) _ dw(1)])
  have "cancels_only c" if red: "reduce w2 (transaction m leg) e = Some (w3, Inr c)"
  proof -
    obtain B where "apply_event (w_budgets w2) (w_txns w2 (transaction m leg)) e =
        Some (B, w_txns w3 (transaction m leg), Inr c)"
      using on_txn_frame(3) [OF red [unfolded reduce_def]] by blast
    from apply_event_winding [OF wd this] show ?thesis by simp
  qed
  then show ?thesis using wd by (auto simp: propose_leg_event_def propose_transition_def cancels_only_def)
qed

lemma demo_market_in: "market_in demo_world_armed demo_market"
  by (simp add: market_in_def demo_market_def demo_world_armed_def demo_world_def)

theorem drained_market_never_quotes_witness:
  "\<exists>w1 a. drain demo_world_armed demo_market = Some (w1, a) \<and> propose_leg_event w1 demo_market No (QuoteTrigger True) = None"
proof -
  have "world_inv demo_world_armed"
    using world_run_inv [OF demo_run_armed fresh_world_inv [OF demo_fresh]] by simp
  then obtain w0 y where y: "reduce_expect demo_world_armed 0 (QuoteTransactionReductionEvent.PreSink WindDown) = Some (w0, y)"
      "world_inv w0" "w_next_txn w0 = w_next_txn demo_world_armed"
    using reduce_expect_total [OF _ _ disjI1 [OF refl], of demo_world_armed 0]
    by (auto simp: demo_world_armed_def demo_world_def)
  then obtain w1 n where n: "reduce_expect w0 1 (QuoteTransactionReductionEvent.PreSink WindDown) = Some (w1, n)"
    using reduce_expect_total [OF y(2) _ disjI1 [OF refl], of 1]
    by (auto simp: demo_world_armed_def demo_world_def)
  have d: "drain demo_world_armed demo_market =
      Some (w1, if y \<noteq> None \<or> n \<noteq> None then Some CancelAllBothLegs else None)"
    using y(1) n by (simp add: drain_def demo_market_def)
  show ?thesis
    using drained_market_never_quotes [OF demo_market_in d rtranclp.rtrancl_refl, of No "QuoteTrigger True"] d by blast
qed

section \<open>Poisoned legs\<close>

fun held :: "QuoteTransactionState \<Rightarrow> bool" where
  "held (Stable (Poisoned _)) = True"
| "held (QuoteTransactionState.Settled s) =
     ((case settlement_stable s of Poisoned _ \<Rightarrow> True | _ \<Rightarrow> False) \<and>
      (case settlement_status s of AwaitingRoute \<Rightarrow> True | RouteSettled _ \<Rightarrow> True | _ \<Rightarrow> False))"
| "held _ = False"

lemma stable_leg_poisoned: "stable_leg_state (stable_projection st) = PoisonedReconciliationHold \<longleftrightarrow> (\<exists>h. st = Poisoned h)"
proof (cases st)
  case (Active phase)
  then show ?thesis by (cases phase) (simp_all add: Let_def)
next
  case (WindingDown phase)
  then show ?thesis by (cases phase) simp_all
qed simp

lemma held_iff: "held s \<longleftrightarrow> leg_state s = PoisonedReconciliationHold \<and> armed_identity s = None"
proof (cases s)
  case (Stable st)
  then show ?thesis using stable_leg_poisoned [of st]
    by (cases st) (auto simp: leg_state_def armed_identity_def Let_def)
next
  case (Attempt a)
  then show ?thesis by (simp add: armed_identity_def attempt_projection_def Let_def split: prod.splits)
next
  case (Settled t)
  then show ?thesis using stable_leg_poisoned [of "settlement_stable t"]
    by (cases "settlement_status t"; cases "settlement_stable t")
      (auto simp: leg_state_def armed_identity_def settlement_projection_def settlement_leg_state_def Let_def)
qed

lemma held_cases:
  assumes "held s"
  obtains h where "s = Stable (Poisoned h)"
  | t h where "s = QuoteTransactionState.Settled t" "settlement_stable t = Poisoned h"
      "settlement_status t = AwaitingRoute \<or> (\<exists>r. settlement_status t = RouteSettled r)"
  using assms by (cases s rule: held.cases) (auto split: QuoteStableState.split_asm QuoteSettlementStatus.split_asm)

fun held_reduction :: "QuoteReduction \<Rightarrow> bool" where
  "held_reduction (Inl (s, _)) = held s"
| "held_reduction (Inr (s, c)) = (held s \<and> cancels_only c)"

lemma held_replay: "held s \<Longrightarrow> held_reduction (reduce_settlement_replay s g route)"
  by (erule held_cases) (auto simp: reduce_settlement_replay.simps settle_route_def)

lemma held_unarmed: "held s \<Longrightarrow> reduce_generation_fenced s g stale current = current s"
  by (simp add: held_iff reduce_generation_fenced_def)

lemmas reducer_defs =
  reduce_arm_def reduce_pre_sink_abort_def reduce_pre_sink_invariant_failure_def reduce_unwind_def
  reduce_route_success_def reduce_sink_rejected_def reduce_post_sink_failure_def

lemma begin_wind_down_eq:
  "begin_wind_down m = (QuoteTransactionMode.WindingDown,
     if m = QuoteTransactionMode.Active then Some LifecycleAction.Cancel else None)"
  by (cases m) simp_all

lemma reduce_event_held:
  assumes h: "held s"
  shows "\<exists>red. reduce_event B s e sm = Some (B, red) \<and> held_reduction red"
  using h
proof (cases rule: held_cases)
  case (1 hold)
  have f: "reduce_generation_fenced (Stable (Poisoned hold)) g stale current = current (Stable (Poisoned hold))"
    for g stale current by (rule held_unarmed) simp
  show ?thesis unfolding 1
  proof (cases e)
    case (PreSink ev)
    then show "\<exists>red. reduce_event B (Stable (Poisoned hold)) e sm = Some (B, red) \<and> held_reduction red"
      by (cases ev) (simp_all add: f reducer_defs Let_def begin_wind_down_eq cancels_only_def no_action_def)
  next
    case (SinkCapable ev)
    then show "\<exists>red. reduce_event B (Stable (Poisoned hold)) e sm = Some (B, red) \<and> held_reduction red"
      by (cases ev) (simp_all add: f reducer_defs Let_def)
  qed
next
  case (2 t hold)
  have hs: "held (QuoteTransactionState.Settled t)" using h 2(1) by simp
  have f: "reduce_generation_fenced (QuoteTransactionState.Settled t) g stale current =
      current (QuoteTransactionState.Settled t)" for g stale current
    by (rule held_unarmed [OF hs])
  have c: "held (QuoteTransactionState.Settled (close_reopened (t\<lparr>settlement_stable := Poisoned hold'\<rparr>) b))" for hold' b
    using 2(3) by (auto simp: close_reopened_def)
  have d: "held (QuoteTransactionState.Settled (t\<lparr>settlement_stable := Poisoned hold'\<rparr>))" for hold'
    using 2(3) by (elim disjE exE) simp_all
  show ?thesis unfolding 2(1)
  proof (cases e)
    case (PreSink ev)
    then show "\<exists>red. reduce_event B (QuoteTransactionState.Settled t) e sm = Some (B, red) \<and> held_reduction red"
      using hs by (cases ev)
        (simp_all add: f reducer_defs Let_def begin_wind_down_eq cancels_only_def no_action_def 2(2) c d
          held_replay [OF hs] reduce_stable_def del: held.simps(2))
  next
    case (SinkCapable ev)
    then show "\<exists>red. reduce_event B (QuoteTransactionState.Settled t) e sm = Some (B, red) \<and> held_reduction red"
      using hs by (cases ev) (simp_all add: f reducer_defs Let_def held_replay [OF hs] del: held.simps(2))
  qed
qed

text \<open>
  A poisoned leg cannot route. While a leg is in the reconciliation hold and no attempt is
  armed, every event leaves it in the hold, touches no budget, and emits nothing but the cancel of
  a wind-down; no transition is proposed for it.
\<close>

theorem poisoned_leg_cannot_route:
  assumes "leg_state (inner_state inner) = PoisonedReconciliationHold" and "armed_identity (inner_state inner) = None"
  shows "propose_transition inner leg ev = None \<and>
    (\<exists>inner' res. apply_event B inner e = Some (B, inner', res) \<and>
       leg_state (inner_state inner') = PoisonedReconciliationHold \<and> armed_identity (inner_state inner') = None \<and>
       (\<forall>c. res = Inr c \<longrightarrow> commit_action c \<in> {None, Some LifecycleAction.Cancel}))"
proof -
  have h: "held (inner_state inner)" using assms by (simp add: held_iff)
  obtain red where r: "reduce_event B (inner_state inner) e (inner_supports_modify inner) = Some (B, red)"
    and red: "held_reduction red" using reduce_event_held [OF h] by blast
  have "held (reduction_state red)" "\<forall>c. reduction_result red = Inr c \<longrightarrow> cancels_only c"
    using red by (cases red rule: reduction_state.cases; simp)+
  then show ?thesis using assms(1) r
    by (auto simp: apply_event_eq held_iff cancels_only_def propose_transition_def propose_action_def)
qed

definition demo_poisoned :: GovernedQuoteTransactionInner where
  "demo_poisoned = (GovernedQuoteTransaction_new False)\<lparr>inner_state := Stable (poisoned QuoteTransactionMode.Active
     QuoteLegTransactionObligation.PlainCancel QuotePoisonedBudget.Charged), inner_terminal_owner := Some demo_identity\<rparr>"

theorem poisoned_leg_cannot_route_witness:
  "propose_transition demo_poisoned Yes (QuoteTrigger True) = None"
  using poisoned_leg_cannot_route [of demo_poisoned Yes "QuoteTrigger True"]
  by (simp add: demo_poisoned_def poisoned_def leg_state_def armed_identity_def Let_def)

end
