(* ===== verification/QuoteControl.thy ===== *)
theory QuoteControl
  imports Complex_Main MarketQuote
begin

text \<open>
  The quote-control adapter, \<open>src/src/bolt_v3_maker_quote_control.rs\<close>, with the guards of
  \<open>src/src/bolt_v3_numeric.rs\<close> it uses. A finite \<open>f64\<close> is the rational number it denotes;
  comparisons with a NaN are false. The only rounding the code does is that of a subtraction:
  the rounding function of the hardware is the argument \<open>rnd\<close>.
\<close>

section \<open>Floating-point guards\<close>

datatype f64 = NaN | PosInf | NegInf | Fin rat

fun is_finite :: "f64 \<Rightarrow> bool" where
  "is_finite (Fin _) = True"
| "is_finite _ = False"

fun f64_lt :: "f64 \<Rightarrow> f64 \<Rightarrow> bool" where
  "f64_lt (Fin a) (Fin b) = (a < b)"
| "f64_lt NegInf (Fin _) = True"
| "f64_lt NegInf PosInf = True"
| "f64_lt (Fin _) PosInf = True"
| "f64_lt _ _ = False"

fun f64_le :: "f64 \<Rightarrow> f64 \<Rightarrow> bool" where
  "f64_le NaN _ = False"
| "f64_le _ NaN = False"
| "f64_le a b = (a = b \<or> f64_lt a b)"

text \<open>Subtraction and absolute value of finite values.\<close>

fun f64_sub :: "(rat \<Rightarrow> f64) \<Rightarrow> f64 \<Rightarrow> f64 \<Rightarrow> f64" where
  "f64_sub rnd (Fin a) (Fin b) = rnd (a - b)"
| "f64_sub rnd _ _ = NaN"

fun f64_abs :: "f64 \<Rightarrow> f64" where
  "f64_abs (Fin a) = Fin \<bar>a\<bar>"
| "f64_abs NegInf = PosInf"
| "f64_abs a = a"

definition ZERO_F64 :: f64 where "ZERO_F64 = Fin 0"

definition UNIT_F64 :: f64 where "UNIT_F64 = Fin 1"

definition HALF_F64 :: f64 where "HALF_F64 = Fin (1 / 2)"

definition is_non_negative_finite :: "f64 \<Rightarrow> bool" where
  "is_non_negative_finite x \<longleftrightarrow> is_finite x \<and> f64_le ZERO_F64 x"

definition sanitize_open_probability :: "(rat \<Rightarrow> f64) \<Rightarrow> f64 \<Rightarrow> f64 \<Rightarrow> f64 option" where
  "sanitize_open_probability rnd x eps =
     (if \<not> is_finite x \<or> \<not> is_finite eps then None
      else if \<not> (f64_lt ZERO_F64 eps \<and> f64_lt eps HALF_F64) then None
      else if f64_lt eps x \<and> f64_lt x (f64_sub rnd UNIT_F64 eps) then Some x
      else None)"

section \<open>Driving a leg\<close>

record QuoteControlInput =
  in_leg :: Leg
  in_desired_price :: f64
  in_resting_price :: "f64 option"
  in_requote_threshold :: f64
  in_eps :: f64
  in_now_ms :: u64

datatype QuoteControlBlockReason =
    InvalidDesiredPrice
  | InvalidRestingPrice
  | InvalidRequoteThreshold
  | MissingRestingPrice
  | RequoteBudgetExhausted

record MakerQuoteCommandProposal =
  cmd_lifecycle :: QuoteLegTransitionProposal
  cmd_budget :: MakerQuoteBudgetProposal

record QuoteControlDecision =
  dec_action :: "MarketAction option"
  dec_proposal :: "MakerQuoteCommandProposal option"
  dec_blocked_by :: "QuoteControlBlockReason option"
  dec_requote_needed :: bool

definition blocked :: "QuoteControlBlockReason \<Rightarrow> QuoteControlDecision" where
  "blocked reason = \<lparr>dec_action = None, dec_proposal = None, dec_blocked_by = Some reason, dec_requote_needed = False\<rparr>"

fun reserve_ok :: "RequoteBudgetReservationDenied + RequoteBudgetReservationProposal \<Rightarrow> MakerQuoteBudgetProposal option" where
  "reserve_ok (Inr p) = Some (Reserve p)"
| "reserve_ok (Inl _) = None"

definition propose_action_budget :: "quote_world \<Rightarrow> 'i MarketQuote \<Rightarrow> budget_ref \<Rightarrow> u64 \<Rightarrow>
    QuoteLegTransitionProposal \<Rightarrow> MakerQuoteBudgetProposal option" where
  "propose_action_budget w m ref now_ms lifecycle =
     (let budget = w_budgets w ref in
      case prop_action lifecycle of
        LifecycleAction.Submit \<Rightarrow>
          if prop_prior_state lifecycle = LegState.ReplacementPendingBackoff
          then (case market_prepaid_generation w m (prop_leg lifecycle) of
              Some generation \<Rightarrow> Some (MakerQuoteBudgetProposal.Prepaid generation now_ms)
            | None \<Rightarrow> reserve_ok (propose_fresh_submit budget now_ms))
          else reserve_ok (propose_fresh_submit budget now_ms)
      | LifecycleAction.Cancel \<Rightarrow>
          if prop_pending_state lifecycle = LegState.RequotePending
          then reserve_ok (propose_cancel_resubmit budget now_ms)
          else reserve_ok (propose_rest budget now_ms)
      | LifecycleAction.Modify \<Rightarrow> reserve_ok (propose_rest budget now_ms))"

definition requote_decision :: "quote_world \<Rightarrow> 'i MarketQuote \<Rightarrow> budget_ref \<Rightarrow> Leg \<Rightarrow> u64 \<Rightarrow> bool \<Rightarrow> QuoteControlDecision" where
  "requote_decision w m ref leg now_ms requote_needed =
     (case propose_leg_event w m leg (QuoteTrigger requote_needed) of
        None \<Rightarrow> \<lparr>dec_action = None, dec_proposal = None, dec_blocked_by = None, dec_requote_needed = requote_needed\<rparr>
      | Some lifecycle \<Rightarrow>
          (case propose_action_budget w m ref now_ms lifecycle of
             None \<Rightarrow> \<lparr>dec_action = None, dec_proposal = None,
                      dec_blocked_by = Some RequoteBudgetExhausted, dec_requote_needed = requote_needed\<rparr>
           | Some bp \<Rightarrow>
               \<lparr>dec_action = Some (LegAction (prop_leg lifecycle) (prop_action lifecycle)),
                dec_proposal = Some \<lparr>cmd_lifecycle = lifecycle, cmd_budget = bp\<rparr>,
                dec_blocked_by = None, dec_requote_needed = requote_needed\<rparr>))"

definition drive_quote_leg :: "(rat \<Rightarrow> f64) \<Rightarrow> quote_world \<Rightarrow> 'i MarketQuote \<Rightarrow> budget_ref \<Rightarrow> QuoteControlInput \<Rightarrow>
    QuoteControlDecision" where
  "drive_quote_leg rnd w m ref inp =
     (case sanitize_open_probability rnd (in_desired_price inp) (in_eps inp) of
        None \<Rightarrow> blocked InvalidDesiredPrice
      | Some desired_price \<Rightarrow>
          if \<not> is_non_negative_finite (in_requote_threshold inp) then blocked InvalidRequoteThreshold
          else case in_resting_price inp of
              Some price \<Rightarrow>
                (case sanitize_open_probability rnd price (in_eps inp) of
                   None \<Rightarrow> blocked InvalidRestingPrice
                 | Some validated \<Rightarrow>
                     requote_decision w m ref (in_leg inp) (in_now_ms inp)
                       (f64_le (in_requote_threshold inp) (f64_abs (f64_sub rnd desired_price validated))))
            | None \<Rightarrow>
                if market_leg_state w m (in_leg inp) = LegState.Resting then blocked MissingRestingPrice
                else requote_decision w m ref (in_leg inp) (in_now_ms inp) True)"

end
