(* ===== verification/QuoteProtocol.thy ===== *)
theory QuoteProtocol
  imports QuoteSafety QuoteControl
begin

text \<open>
  The protocol of one attempt, from the decision of the quote control to its settlement: fencing
  by generation, idempotent settlement, release of a poisoned leg, and the three ends of an
  attempt (aborted before the sink, routed, denied).
\<close>

section \<open>Generation fencing and settlement replay\<close>

text \<open>The generation and the route an event settles, for the events that settle a route.\<close>

fun route_of :: "QuoteTransactionReductionEvent \<Rightarrow> (u64 \<times> QuoteRouteSettlement) option" where
  "route_of (SinkCapable (SinkCapableQuoteTransactionEvent.Submitted g)) = Some (g, QuoteRouteSettlement.Submitted)"
| "route_of (SinkCapable (SinkCapableQuoteTransactionEvent.NtMutationInvoked g)) =
     Some (g, QuoteRouteSettlement.NtMutationInvoked)"
| "route_of (SinkCapable (SinkCapableQuoteTransactionEvent.SinkRejected g)) = Some (g, QuoteRouteSettlement.SinkRejected)"
| "route_of (SinkCapable (SinkCapableQuoteTransactionEvent.CallbackRetired g)) =
     Some (g, QuoteRouteSettlement.CallbackRetired)"
| "route_of (SinkCapable (PostSinkUnwind g)) = Some (g, QuoteRouteSettlement.PostSinkInvariantFailure)"
| "route_of (QuoteTransactionReductionEvent.PreSink (QuoteTransactionEvent.PreSinkAbort g)) =
     Some (g, QuoteRouteSettlement.PreSinkAbort)"
| "route_of (QuoteTransactionReductionEvent.PreSink (QuoteTransactionEvent.PreSinkInvariantFailure g)) =
     Some (g, QuoteRouteSettlement.PreSinkInvariantFailure)"
| "route_of _ = None"

lemma armed_attempt: "armed_identity s = Some i \<longleftrightarrow> (\<exists>a. s = Attempt a \<and> i = arm_identity (att_arm a))"
  by (cases s) (auto simp: armed_identity_def attempt_projection_def settlement_projection_def Let_def split: prod.splits)

lemma unarmed_settled [simp]: "armed_identity (QuoteTransactionState.Settled t) = None"
  "armed_identity (Stable st) = None"
  by (simp_all add: armed_identity_def settlement_projection_def Let_def)

lemma fenced_stale:
  assumes "armed_identity s = Some i" and "identity_generation i \<noteq> g"
  shows "reduce_generation_fenced s g stale current = stale s"
  using assms by (simp add: reduce_generation_fenced_def)

lemma fenced_settled: "reduce_generation_fenced (QuoteTransactionState.Settled t) g stale current =
    current (QuoteTransactionState.Settled t)"
  by (simp add: reduce_generation_fenced_def)

text \<open>
  C9. Generations fence. While an attempt is armed or in flight at one generation, no settlement
  event of another generation (success, rejection, retirement, post-sink unwind, pre-sink abort or
  failure) changes the leg's state, touches a budget or asks for an action.
\<close>

theorem stale_generation_changes_nothing:
  assumes "armed_identity (inner_state inner) = Some i" and "route_of e = Some (g, route)"
    and "identity_generation i \<noteq> g"
  shows "\<exists>inner' res. apply_event B inner e = Some (B, inner', res) \<and> inner_state inner' = inner_state inner \<and>
    (\<forall>c. res = Inr c \<longrightarrow> commit_action c = None)"
proof -
  obtain a where a: "inner_state inner = Attempt a" using assms(1) by (auto simp: armed_attempt)
  note f = fenced_stale [OF assms(1,3)]
  have "\<exists>red. reduce_event B (inner_state inner) e (inner_supports_modify inner) = Some (B, red) \<and>
      reduction_state red = inner_state inner \<and> (\<forall>c. reduction_result red = Inr c \<longrightarrow> commit_action c = None)"
    using assms(2) f
    by (cases e rule: route_of.cases) (auto simp: reducer_defs Let_def no_action_def a)
  then obtain red where "reduce_event B (inner_state inner) e (inner_supports_modify inner) = Some (B, red)"
      "reduction_state red = inner_state inner" "\<forall>c. reduction_result red = Inr c \<longrightarrow> commit_action c = None"
    by blast
  then show ?thesis by (simp add: apply_event_eq)
qed

theorem stale_generation_changes_nothing_witness:
  "\<exists>inner' res. apply_event (w_budgets demo_world_armed) (w_txns demo_world_armed 0)
      (SinkCapable (SinkCapableQuoteTransactionEvent.Submitted 6)) = Some (w_budgets demo_world_armed, inner', res) \<and>
    inner_state inner' = demo_armed \<and> (\<forall>c. res = Inr c \<longrightarrow> commit_action c = None)"
proof -
  have "armed_identity (inner_state (w_txns demo_world_armed 0)) = Some demo_identity"
    by (simp add: demo_world_armed_def demo_armed_def armed_attempt)
  moreover have "identity_generation demo_identity \<noteq> 6" by (simp add: demo_identity_def)
  moreover have "inner_state (w_txns demo_world_armed 0) = demo_armed" by (simp add: demo_world_armed_def)
  ultimately show ?thesis
    using stale_generation_changes_nothing [of "w_txns demo_world_armed 0" demo_identity
        "SinkCapable (SinkCapableQuoteTransactionEvent.Submitted 6)" 6] by simp
qed

lemma settle_route_done:
  "settle_route t g route = Inr t' \<Longrightarrow>
   settlement_generation t' = g \<and> settlement_status t' \<in> {RouteSettled route, QuoteSettlementStatus.Reopened route}"
  by (auto simp: settle_route_def split: if_split_asm QuoteSettlementStatus.split_asm)

lemma replay_done:
  "reduce_settlement_replay s g route = Inr (QuoteTransactionState.Settled t, c) \<Longrightarrow>
   settlement_generation t = g \<and> settlement_status t \<in> {RouteSettled route, QuoteSettlementStatus.Reopened route}"
  by (cases s) (auto simp: reduce_settlement_replay.simps split: sum.split_asm dest: settle_route_done)

lemma fenced_to_settled:
  assumes "reduce_generation_fenced s g stale current = Some (B', Inr (QuoteTransactionState.Settled t, c))"
    and "\<And>B' s' c. stale s = Some (B', Inr (s', c)) \<Longrightarrow> s' = s"
  shows "current s = Some (B', Inr (QuoteTransactionState.Settled t, c))"
  using assms by (auto simp: reduce_generation_fenced_def split: option.split_asm bool.split_asm)

lemma settled_done:
  "settled g route st = QuoteTransactionState.Settled t \<Longrightarrow>
   settlement_generation t = g \<and> settlement_status t = RouteSettled route"
  by (auto simp: settled_def)

lemma finish_abort_done:
  "finish_pre_sink_abort B mode arm budget g = Some (B', Inr (QuoteTransactionState.Settled t, c)) \<Longrightarrow>
   settlement_generation t = g \<and> settlement_status t = RouteSettled QuoteRouteSettlement.PreSinkAbort"
  by (cases budget; clarsimp simp: finish_pre_sink_abort_def bind_eq_Some_conv;
      auto split: sum.split_asm dest: settled_done)

lemma finish_failure_done:
  "finish_pre_sink_invariant_failure B mode arm budget g = Some (B', Inr (QuoteTransactionState.Settled t, c)) \<Longrightarrow>
   settlement_generation t = g \<and> settlement_status t = RouteSettled QuoteRouteSettlement.PreSinkInvariantFailure"
  by (cases budget; clarsimp simp: finish_pre_sink_invariant_failure_def bind_eq_Some_conv Let_def;
      auto split: sum.split_asm dest: settled_done)

lemma finish_post_sink_done:
  "finish_post_sink_failure B mode arm sb g = Some (B', Inr (QuoteTransactionState.Settled t, c)) \<Longrightarrow>
   settlement_generation t = g \<and> settlement_status t = RouteSettled QuoteRouteSettlement.PostSinkInvariantFailure"
  by (auto simp: finish_post_sink_failure_def bind_eq_Some_conv dest: settled_done)

lemmas finish_done = finish_abort_done finish_failure_done finish_post_sink_done

lemma settlement_done:
  assumes r: "reduce_event B s e sm = Some (B', Inr (QuoteTransactionState.Settled t, c))"
    and e: "route_of e = Some (g, route)"
  shows "settlement_generation t = g \<and> settlement_status t \<in> {RouteSettled route, QuoteSettlementStatus.Reopened route}"
proof -
  note split = QuoteTransactionState.split_asm QuoteAttemptPhase.split_asm if_split_asm
  consider (abort) "reduce_pre_sink_abort B s g = Some (B', Inr (QuoteTransactionState.Settled t, c))"
      "route = QuoteRouteSettlement.PreSinkAbort"
    | (failure) "reduce_pre_sink_invariant_failure B s g = Some (B', Inr (QuoteTransactionState.Settled t, c))"
      "route = QuoteRouteSettlement.PreSinkInvariantFailure"
    | (success) x where "reduce_route_success B s g x = Some (B', Inr (QuoteTransactionState.Settled t, c))"
      "route = success_settlement (success_projection x)"
    | (rejected) "reduce_sink_rejected B s g = Some (B', Inr (QuoteTransactionState.Settled t, c))"
      "route = QuoteRouteSettlement.SinkRejected"
    | (retired) "reduce_callback_retired s g = Inr (QuoteTransactionState.Settled t, c)"
      "route = QuoteRouteSettlement.CallbackRetired"
    | (post) "reduce_post_sink_failure B s g = Some (B', Inr (QuoteTransactionState.Settled t, c))"
      "route = QuoteRouteSettlement.PostSinkInvariantFailure"
    using r e by (cases e rule: route_of.cases) auto
  then show ?thesis
  proof cases
    case abort
    from fenced_to_settled [OF abort(1) [unfolded reduce_pre_sink_abort_def]] show ?thesis
      using abort(2) by (auto split: split dest: finish_done replay_done)
  next
    case failure
    from fenced_to_settled [OF failure(1) [unfolded reduce_pre_sink_invariant_failure_def]] show ?thesis
      using failure(2) by (auto split: split dest: finish_done replay_done)
  next
    case success
    from fenced_to_settled [OF success(1) [unfolded reduce_route_success_def Let_def]] show ?thesis
      using success(2) by (auto simp: bind_eq_Some_conv split: split dest: settled_done replay_done)
  next
    case rejected
    from fenced_to_settled [OF rejected(1) [unfolded reduce_sink_rejected_def]] show ?thesis
      using rejected(2)
      by (clarsimp simp: bind_eq_Some_conv split: split;
          auto split: AccountedSinkInvokedQuoteBudget.split_asm dest: settled_done replay_done)
  next
    case retired
    then show ?thesis by (cases s) (auto dest: replay_done)
  next
    case post
    from fenced_to_settled [OF post(1) [unfolded reduce_post_sink_failure_def]] show ?thesis
      using post(2) by (auto split: split dest: finish_done replay_done)
  qed
qed

lemma reduce_event_settled:
  assumes "route_of e = Some (g, route)"
  shows "reduce_event B (QuoteTransactionState.Settled t) e sm =
    Some (B, reduce_settlement_replay (QuoteTransactionState.Settled t) g route)"
  using assms by (cases e rule: route_of.cases) (auto simp: reducer_defs Let_def fenced_settled)

lemma apply_event_settled:
  assumes t: "inner_state inner = QuoteTransactionState.Settled t" and e: "route_of e = Some (g, route)"
  shows "apply_event B inner e = (case settle_route t g route of
      Inr t' \<Rightarrow> Some (B, inner\<lparr>inner_state := QuoteTransactionState.Settled t'\<rparr>, Inr no_action)
    | Inl (t', error) \<Rightarrow> Some (B, inner\<lparr>inner_state := QuoteTransactionState.Settled t'\<rparr>, Inl error))"
proof -
  have "owner_after e inner s = inner_terminal_owner inner" for s
    using e t by (cases e rule: route_of.cases) (auto simp: owner_after_def)
  then show ?thesis
    by (auto simp: apply_event_eq t reduce_event_settled [OF e] reduce_settlement_replay.simps
        split: sum.split prod.split)
qed

text \<open>
  C8. Settlement is idempotent and final. Once an event has settled the route of an attempt, the
  same event, delivered again at any later ledger, succeeds and changes nothing, and an event that
  claims another route for that generation, or any route for another generation, is refused and
  changes nothing.
\<close>

theorem settlement_is_final:
  assumes "apply_event B inner e = Some (B1, inner1, Inr c)" and "route_of e = Some (g, route)"
    and "inner_state inner1 = QuoteTransactionState.Settled t"
  shows "apply_event B2 inner1 e = Some (B2, inner1, Inr no_action) \<and>
    (\<forall>e' g' route'. route_of e' = Some (g', route') \<and> (g', route') \<noteq> (g, route) \<longrightarrow>
       apply_event B2 inner1 e' = Some (B2, inner1, Inl ConflictingSettlement))"
proof -
  obtain red where "reduce_event B (inner_state inner) e (inner_supports_modify inner) = Some (B1, red)"
    "QuoteTransactionState.Settled t = reduction_state red" "Inr c = reduction_result red"
    using apply_event_SomeD [OF assms(1)] assms(3) by metis
  then have "reduce_event B (inner_state inner) e (inner_supports_modify inner) =
      Some (B1, Inr (QuoteTransactionState.Settled t, c))"
    by (cases red rule: reduction_state.cases) simp_all
  from settlement_done [OF this assms(2)] have d: "settlement_generation t = g"
    "settlement_status t = RouteSettled route \<or> settlement_status t = QuoteSettlementStatus.Reopened route" by auto
  have same: "inner1\<lparr>inner_state := QuoteTransactionState.Settled t\<rparr> = inner1"
    using assms(3) by (metis GovernedQuoteTransactionInner.surjective GovernedQuoteTransactionInner.update_convs(1))
  have "settle_route t g route = Inr t" using d by (auto simp: settle_route_def)
  then have 1: "apply_event B2 inner1 e = Some (B2, inner1, Inr no_action)"
    by (simp add: apply_event_settled [OF assms(3,2)] same)
  have "apply_event B2 inner1 e' = Some (B2, inner1, Inl ConflictingSettlement)"
    if e': "route_of e' = Some (g', route')" "(g', route') \<noteq> (g, route)" for e' g' route'
  proof -
    have "settle_route t g' route' = Inl (t, ConflictingSettlement)"
      using d e'(2) by (auto simp: settle_route_def)
    then show ?thesis by (simp add: apply_event_settled [OF assms(3) e'(1)] same)
  qed
  then show ?thesis using 1 by blast
qed

text \<open>The attempt of the demo, past the sink at 1005 ms and settled as submitted.\<close>

definition demo_sunk :: GovernedQuoteTransactionInner where
  "demo_sunk = prepared_commit (w_txns demo_world_armed 0) \<lparr>prepared_generation = 7, prepared_actor_now_ms = 1005\<rparr>"

definition demo_settlement :: QuoteSettlementState where
  "demo_settlement = \<lparr>settlement_generation = 7, settlement_status = RouteSettled QuoteRouteSettlement.Submitted,
     settlement_stable = QuoteStableState.Active ActiveQuotePhase.SubmitPending\<rparr>"

definition demo_submitted :: GovernedQuoteTransactionInner where
  "demo_submitted = (GovernedQuoteTransaction_new False)\<lparr>
     inner_state := QuoteTransactionState.Settled demo_settlement, inner_terminal_owner := Some demo_identity\<rparr>"

lemmas demo_eval =
  demo_sunk_def prepared_commit_def commit_sink_invoked_def account_sink_invocation_def demo_armed_def
  demo_identity_def demo_token_def prepare_sink_invoked_at_def demo_world_armed_def

lemma demo_charged_drop: "bt_remove 1 (outstanding demo_charged) = outstanding demo_charged"
  by (simp add: demo_charged_def)

lemma demo_submit:
  "apply_event ((\<lambda>_. demo_pair)(0 := demo_reserved)) demo_sunk (SinkCapable (SinkCapableQuoteTransactionEvent.Submitted 7)) =
     Some ((\<lambda>_. demo_pair)(0 := demo_charged), demo_submitted, Inr no_action)"
  by (simp add: apply_event_eq owner_after_def demo_eval reduce_route_success_def reduce_generation_fenced_def
      armed_attempt route_success_state_def settle_prepared_sink_invocation_def demo_settle drop_reservation_def
      remove_outstanding_def demo_charged_drop committed_pending_def settled_def demo_submitted_def demo_settlement_def
      Let_def armed_identity_def attempt_projection_def GovernedQuoteTransaction_new_def)

theorem settlement_is_final_witness:
  "apply_event (\<lambda>_. demo_pair) demo_submitted (SinkCapable (SinkCapableQuoteTransactionEvent.Submitted 7)) =
     Some (\<lambda>_. demo_pair, demo_submitted, Inr no_action) \<and>
   apply_event (\<lambda>_. demo_pair) demo_submitted (SinkCapable (SinkCapableQuoteTransactionEvent.SinkRejected 7)) =
     Some (\<lambda>_. demo_pair, demo_submitted, Inl ConflictingSettlement)"
proof -
  have "inner_state demo_submitted = QuoteTransactionState.Settled demo_settlement" by (simp add: demo_submitted_def)
  from settlement_is_final [OF demo_submit _ this, of 7 QuoteRouteSettlement.Submitted "\<lambda>_. demo_pair"]
  show ?thesis by simp
qed

section \<open>Leaving the reconciliation hold\<close>

lemma leg_state_simps [simp]:
  "leg_state (Stable st) = stable_leg_state (stable_projection st)"
  "leg_state (QuoteTransactionState.Settled t) = settlement_leg_state t"
  "leg_state (Attempt a) = arm_pending_state (att_arm a)"
  by (simp_all add: leg_state_def settlement_projection_def attempt_projection_def Let_def split: prod.splits)

lemma terminal_state_leg:
  assumes "terminal_state B obligation budget d = Some (B', st)"
  shows "stable_leg_state (stable_projection st) \<in> {LegState.Idle, LegState.ReplacementPendingBackoff}"
    and "d = MakerQuoteTerminalDisposition.Filled \<Longrightarrow> stable_leg_state (stable_projection st) = LegState.Idle"
  using assms by (auto simp: terminal_state_def bind_eq_Some_conv Let_def
      split: if_split_asm QuotePoisonedBudget.split_asm)

lemma terminal_stable_leg:
  assumes "terminal_stable B (Poisoned hold) d = Some (B', st)"
  shows "stable_leg_state (stable_projection st) \<in> {LegState.Idle, LegState.ReplacementPendingBackoff}"
    and "d = MakerQuoteTerminalDisposition.Filled \<Longrightarrow> stable_leg_state (stable_projection st) = LegState.Idle"
  using assms by (cases "hold_mode hold"; auto simp: bind_eq_Some_conv dest: terminal_state_leg)+

lemma held_terminal:
  assumes h: "held s" and r: "reduce_terminal_refinement B s g (Some d) closes = Some (B', red)"
  shows "\<exists>t c. red = Inr (QuoteTransactionState.Settled t, c) \<and>
    settlement_leg_state t \<in> {LegState.Idle, LegState.ReplacementPendingBackoff} \<and>
    (d = MakerQuoteTerminalDisposition.Filled \<longrightarrow> settlement_leg_state t = LegState.Idle)"
  using h
proof (cases rule: held_cases)
  case (1 hold)
  then obtain st where st: "terminal_stable B (Poisoned hold) d = Some (B', st)"
    and red: "red = Inr (QuoteTransactionState.Settled (close_reopened \<lparr>settlement_generation = g,
        settlement_status = RouteSettled QuoteRouteSettlement.CallbackRetired, settlement_stable = st\<rparr> closes), no_action)"
    using r by (auto simp: reduce_terminal_refinement_def bind_eq_Some_conv simp del: terminal_stable.simps)
  show ?thesis using terminal_stable_leg [OF st] by (auto simp: red settlement_leg_state_def close_reopened_def)
next
  case (2 t hold)
  then obtain st where st: "terminal_stable B (Poisoned hold) d = Some (B', st)"
    and red: "red = Inr (QuoteTransactionState.Settled (close_reopened (close_reopened (t\<lparr>settlement_stable := st\<rparr>) True) closes), no_action)"
    using r by (auto simp: reduce_terminal_refinement_def bind_eq_Some_conv reduce_stable_def simp del: terminal_stable.simps)
  show ?thesis using terminal_stable_leg [OF st] 2(3) by (auto simp: red settlement_leg_state_def close_reopened_def)
qed

text \<open>
  C10. Terminal truth releases a poisoned leg. In every reachable state, when the tracked order
  that owns a leg in the reconciliation hold reports a terminal disposition, the refinement is
  applied and the leg leaves the hold: it is idle after a fill, and idle or due for its
  replacement submit after any other disposition.
\<close>

theorem terminal_truth_releases_hold:
  assumes "fresh_budgets B" and "world_step\<^sup>*\<^sup>* (fresh_world B) w" and "market_in w m"
    and "market_leg_state w m leg = PoisonedReconciliationHold"
    and "armed_identity (inner_state (w_txns w (transaction m leg))) = None"
    and "inner_terminal_owner (w_txns w (transaction m leg)) = Some identity"
  shows "\<exists>w'. handle_refine w \<lparr>handle_market = m, handle_leg = leg\<rparr>
      \<lparr>refinement_identity = identity, refinement = Terminal (Some d) closes\<rparr> = Some (w', Applied) \<and>
    market_leg_state w' m leg \<in> {LegState.Idle, LegState.ReplacementPendingBackoff} \<and>
    (d = MakerQuoteTerminalDisposition.Filled \<longrightarrow> market_leg_state w' m leg = LegState.Idle)"
proof -
  let ?ref = "transaction m leg" let ?s = "inner_state (w_txns w ?ref)"
  have inv: "world_inv w" using world_run_inv [OF assms(2) fresh_world_inv [OF assms(1)]] by simp
  have h: "held ?s" using assms(4,5) by (simp add: held_iff market_leg_state_def)
  have "tok.holds (w_budgets w) (state_tokens ?s)"
    using inv tok.accounted_holds [of "w_budgets w" "world_tokens w" ?ref] by (simp add: world_inv_def world_tokens_def)
  from reduce_terminal_refinement_flows [OF this] obtain B' red where
    r: "reduce_terminal_refinement (w_budgets w) ?s (identity_generation identity) (Some d) closes = Some (B', red)"
    unfolding tok.flows_def by blast
  obtain t c where red: "red = Inr (QuoteTransactionState.Settled t, c)"
    and t: "settlement_leg_state t \<in> {LegState.Idle, LegState.ReplacementPendingBackoff}"
      "d = MakerQuoteTerminalDisposition.Filled \<longrightarrow> settlement_leg_state t = LegState.Idle"
    using held_terminal [OF h r] by blast
  have "refinement_authority (w_txns w ?ref) identity = Exact"
    using assms(5,6) by (simp add: refinement_authority_def)
  then show ?thesis using r t
    by (simp add: handle_refine_def on_txn_def refine_def Let_def red market_leg_state_def)
qed

text \<open>The same attempt, but unwound after the sink: the leg is held and the budget charged.\<close>

definition demo_world_sunk :: quote_world where
  "demo_world_sunk = commit_prepared demo_world_armed 0 \<lparr>prepared_generation = 7, prepared_actor_now_ms = 1005\<rparr>"

definition demo_world_held :: quote_world where
  "demo_world_held = demo_world\<lparr>w_budgets := (\<lambda>_. demo_pair)(0 := demo_charged),
     w_txns := (w_txns demo_world)(0 := (GovernedQuoteTransaction_new False)\<lparr>
       inner_state := settled 7 QuoteRouteSettlement.PostSinkInvariantFailure
         (poisoned QuoteTransactionMode.Active QuoteLegTransactionObligation.FreshSubmit QuotePoisonedBudget.Charged),
       inner_terminal_owner := Some demo_identity\<rparr>)\<rparr>"

lemma demo_run_sunk: "world_step\<^sup>*\<^sup>* (fresh_world (\<lambda>_. demo_pair)) demo_world_sunk"
proof -
  have "world_step demo_world_armed demo_world_sunk" unfolding demo_world_sunk_def
    by (rule world_step.sink)
      (simp_all add: demo_world_armed_def demo_world_def clock_ok_def demo_armed_def demo_token_def entry_def
        res_key_def demo_reserved_def bt_get_def demo_proposal_def liability_now_ms_def)
  with demo_run_armed show ?thesis by (rule rtranclp.rtrancl_into_rtrancl)
qed

lemma demo_unwind: "reduce demo_world_sunk 0 (SinkCapable (PostSinkUnwind 7)) = Some (demo_world_held, Inr no_action)"
  by (simp add: reduce_def on_txn_def demo_world_sunk_def commit_prepared_def demo_world_held_def apply_event_eq
      owner_after_def demo_eval reduce_post_sink_failure_def reduce_generation_fenced_def finish_post_sink_failure_def
      settle_prepared_sink_invocation_def demo_settle drop_reservation_def
      remove_outstanding_def demo_charged_drop settled_def Let_def armed_identity_def attempt_projection_def
      GovernedQuoteTransaction_new_def demo_world_def)

lemma demo_run_held: "world_step\<^sup>*\<^sup>* (fresh_world (\<lambda>_. demo_pair)) demo_world_held"
proof -
  have "world_step demo_world_sunk demo_world_held"
    by (rule world_step.event [OF _ demo_unwind])
      (simp add: demo_world_sunk_def commit_prepared_def demo_world_armed_def demo_world_def)
  with demo_run_sunk show ?thesis by (rule rtranclp.rtrancl_into_rtrancl)
qed

theorem terminal_truth_releases_hold_witness:
  "\<exists>w'. handle_refine demo_world_held \<lparr>handle_market = demo_market, handle_leg = Yes\<rparr>
      \<lparr>refinement_identity = demo_identity,
       refinement = Terminal (Some MakerQuoteTerminalDisposition.Filled) False\<rparr> = Some (w', Applied) \<and>
    market_leg_state w' demo_market Yes = LegState.Idle"
proof -
  have "market_in demo_world_held demo_market"
    by (simp add: market_in_def demo_market_def demo_world_held_def demo_world_def)
  moreover have "market_leg_state demo_world_held demo_market Yes = PoisonedReconciliationHold"
    "armed_identity (inner_state (w_txns demo_world_held (transaction demo_market Yes))) = None"
    "inner_terminal_owner (w_txns demo_world_held (transaction demo_market Yes)) = Some demo_identity"
    by (simp_all add: market_leg_state_def demo_world_held_def demo_market_def settled_def settlement_leg_state_def poisoned_def)
  ultimately show ?thesis
    using terminal_truth_releases_hold [OF demo_fresh demo_run_held, of demo_market Yes demo_identity
        MakerQuoteTerminalDisposition.Filled False] by blast
qed

section \<open>From the decision to the end of an attempt\<close>

text \<open>The active phase behind a state that is neither armed nor winding down nor held.\<close>

lemma unarmed_active:
  assumes "armed_identity s = None" and "\<not> is_winding_down s"
    and "leg_state s \<in> {LegState.Idle, LegState.Resting, LegState.ReplacementPendingBackoff, LegState.ModifyPending}"
  obtains ph where "active_leg_state (active_projection ph) = leg_state s"
    and "s = Stable (QuoteStableState.Active ph) \<or>
      (\<exists>t. s = QuoteTransactionState.Settled t \<and> settlement_stable t = QuoteStableState.Active ph)"
proof (cases s)
  case (Stable st)
  then show ?thesis using assms that by (cases st) (auto simp: Let_def)
next
  case (Attempt a)
  then show ?thesis using assms(1) by (simp add: armed_identity_def attempt_projection_def Let_def split: prod.splits)
next
  case (Settled t)
  then have "settlement_leg_state t = stable_leg_state (stable_projection (settlement_stable t))"
    using assms(3) by (auto simp: settlement_leg_state_def split: QuoteSettlementStatus.splits)
  then show ?thesis using assms that Settled by (cases "settlement_stable t") (auto simp: Let_def)
qed

lemma unarmed_prepaid:
  assumes "s = Stable (QuoteStableState.Active ph) \<or>
      (\<exists>t. s = QuoteTransactionState.Settled t \<and> settlement_stable t = QuoteStableState.Active ph)"
  shows "prepaid_generation s = active_prepaid_generation (active_projection ph)"
    and "identity_generation i \<noteq> 0 \<Longrightarrow> reduce_arm B s pr ref bp i = reduce_arm_active B ph pr ref bp i"
  using assms by (auto simp: prepaid_generation_def settlement_projection_def Let_def reduce_arm_def)

text \<open>A quote trigger's proposal: what it says of the leg it was made for.\<close>

lemma trigger_proposal:
  assumes "propose_leg_event w m leg (QuoteTrigger b) = Some pr"
  shows "prop_leg pr = leg" and "prop_prior_state pr = market_leg_state w m leg"
    and "\<not> is_winding_down (inner_state (w_txns w (transaction m leg)))"
    and "market_leg_state w m leg \<in> {LegState.Idle, LegState.Resting, LegState.ReplacementPendingBackoff}"
    and "propose_action (market_leg_state w m leg) (QuoteTrigger b)
      (inner_supports_modify (w_txns w (transaction m leg))) = Some (prop_action pr, prop_pending_state pr)"
proof -
  let ?i = "w_txns w (transaction m leg)"
  obtain a p where ap: "propose_action (leg_state (inner_state ?i)) (QuoteTrigger b) (inner_supports_modify ?i) = Some (a, p)"
    and pr: "pr = \<lparr>prop_leg = leg, prop_action = a, prop_prior_state = leg_state (inner_state ?i), prop_pending_state = p\<rparr>"
    and wd: "\<not> is_winding_down (inner_state ?i)"
    using assms by (auto simp: propose_leg_event_def propose_transition_def bind_eq_Some_conv split: if_split_asm)
  show "prop_leg pr = leg" "prop_prior_state pr = market_leg_state w m leg"
    "\<not> is_winding_down (inner_state ?i)" using wd by (simp_all add: pr market_leg_state_def)
  show "market_leg_state w m leg \<in> {LegState.Idle, LegState.Resting, LegState.ReplacementPendingBackoff}"
    using ap by (cases "leg_state (inner_state ?i)") (simp_all add: propose_action_def market_leg_state_def)
  show "propose_action (market_leg_state w m leg) (QuoteTrigger b) (inner_supports_modify ?i) =
      Some (prop_action pr, prop_pending_state pr)"
    using ap by (simp add: pr market_leg_state_def)
qed

lemma reserve_ok_honoured:
  assumes "reserve_ok r = Some bp" and "r \<in> {propose_fresh_submit (B ref) now, propose_cancel_resubmit (B ref) now, propose_rest (B ref) now}"
    and "next_reservation_generation (B ref) \<noteq> - 1"
  obtains p g where "bp = Reserve p" and "reserve B ref p = (B(ref := (B ref)\<lparr>next_reservation_generation := g,
      outstanding := bt_insert g (proposal_liability p) (outstanding (B ref))\<rparr>),
      Inr \<lparr>res_budget = ref, res_generation = g, res_phase = Refundable\<rparr>)"
    and "g = next_reservation_generation (B ref) + 1" and "proposal_now_ms p = now"
proof -
  obtain p where p: "r = Inr p" "bp = Reserve p" using assms(1) by (cases r) auto
  obtain l where l: "propose (B ref) l = Inr p" "liability_now_ms l = now"
    using assms(2) p(1)
    by (auto simp: propose_fresh_submit_def propose_cancel_resubmit_def propose_rest_def liability_now_ms_def)
  let ?g = "next_reservation_generation (B ref) + 1"
  have "snd (reserve_section (B ref) p) = Inr ?g"
    using l(1) assms(3)
    by (auto simp: propose_def reserve_section_def Let_def checked_add_one split: if_split_asm)
  then obtain st where sec: "reserve_section (B ref) p = (st, Inr ?g)" by (cases "reserve_section (B ref) p") auto
  have "proposal_now_ms p = now" using l by (auto simp: propose_granted_iff proposal_now_ms_def)
  then show ?thesis using that [OF p(2) _ refl] reserve_section_granted(2) [OF sec] sec by (simp add: reserve_def)
qed

text \<open>What \<open>drive_quote_leg\<close> has checked when it returns a command.\<close>

lemma drive_command:
  assumes "dec_proposal (drive_quote_leg rnd w m ref inp) = Some cmd"
  obtains b where "propose_leg_event w m (in_leg inp) (QuoteTrigger b) = Some (cmd_lifecycle cmd)"
    and "propose_action_budget w m ref (in_now_ms inp) (cmd_lifecycle cmd) = Some (cmd_budget cmd)"
proof -
  obtain b where "dec_proposal (requote_decision w m ref (in_leg inp) (in_now_ms inp) b) = Some cmd"
    using assms by (auto simp: drive_quote_leg_def blocked_def split: option.split_asm if_split_asm)
  then show ?thesis using that [of b] by (auto simp: requote_decision_def split: option.split_asm)
qed

definition armed_attempt_of :: "QuoteLegTransitionProposal \<Rightarrow> MakerQuoteLifecycleIdentity \<Rightarrow> ArmedQuoteBudget \<Rightarrow>
    QuoteTransactionState" where
  "armed_attempt_of pr i budget = Attempt \<lparr>att_mode = QuoteTransactionMode.Active,
     att_arm = \<lparr>arm_identity = i, arm_prior_state = prop_prior_state pr,
                arm_pending_state = prop_pending_state pr, arm_obligation = from_proposal pr\<rparr>,
     att_phase = Armed budget\<rparr>"

text \<open>
  The two ways a command arms: with the prepaid reservation the leg already owns, or with a fresh
  reservation on a leg that owns none.
\<close>

lemma command_arms:
  assumes lf: "propose_leg_event w m leg (QuoteTrigger b) = Some pr"
    and bp: "propose_action_budget w m ref now pr = Some bp"
    and un: "armed_identity (inner_state (w_txns w (transaction m leg))) = None"
    and i: "identity_generation i \<noteq> 0" and gen: "next_reservation_generation (w_budgets w ref) \<noteq> - 1"
  obtains (prepaid) p where "reduce_arm (w_budgets w) (inner_state (w_txns w (transaction m leg))) pr ref bp i =
      Some (w_budgets w, Inr (armed_attempt_of pr i (ArmedQuoteBudget.Prepaid p), no_action))"
    and "market_leg_state w m leg = LegState.ReplacementPendingBackoff"
  | (reserved) g l where "reduce_arm (w_budgets w) (inner_state (w_txns w (transaction m leg))) pr ref bp i =
      Some ((w_budgets w)(ref := (w_budgets w ref)\<lparr>next_reservation_generation := g,
          outstanding := bt_insert g l (outstanding (w_budgets w ref))\<rparr>),
        Inr (armed_attempt_of pr i (Reserved \<lparr>res_budget = ref, res_generation = g, res_phase = Refundable\<rparr>), no_action))"
    and "checked_add (next_reservation_generation (w_budgets w ref)) 1 = Some g"
    and "state_tokens (inner_state (w_txns w (transaction m leg))) = {}"
proof -
  let ?s = "inner_state (w_txns w (transaction m leg))"
  note t = trigger_proposal [OF lf]
  have "leg_state ?s \<in> {LegState.Idle, LegState.Resting, LegState.ReplacementPendingBackoff, LegState.ModifyPending}"
    using t(4) by (auto simp: market_leg_state_def)
  then obtain ph where ph: "active_leg_state (active_projection ph) = leg_state ?s"
    and s: "?s = Stable (QuoteStableState.Active ph) \<or>
      (\<exists>t. ?s = QuoteTransactionState.Settled t \<and> settlement_stable t = QuoteStableState.Active ph)"
    by (rule unarmed_active [OF un t(3)])
  note pp = unarmed_prepaid(1) [OF s] and arm = unarmed_prepaid(2) [OF s i]
  have prior: "active_leg_state (active_projection ph) = prop_prior_state pr"
    using ph t(2) by (simp add: market_leg_state_def)
  have toks: "state_tokens ?s = active_tokens ph" using s by auto
  show thesis
  proof (cases "\<exists>p. ph = ReplacementPendingBackoffPrepaid p")
    case True
    then obtain p where p: "ph = ReplacementPendingBackoffPrepaid p" by blast
    then have ls: "leg_state ?s = LegState.ReplacementPendingBackoff" using ph by simp
    then have "prop_action pr = LifecycleAction.Submit"
      using t(5) by (simp add: propose_action_def market_leg_state_def)
    moreover have "market_prepaid_generation w m leg = Some (res_generation p)"
      using pp p by (simp add: market_prepaid_generation_def)
    ultimately have "bp = MakerQuoteBudgetProposal.Prepaid (res_generation p) now"
      using bp t(1,2) ls by (simp add: propose_action_budget_def Let_def market_leg_state_def)
    then show ?thesis using prepaid [of p] arm prior p ls
      by (simp add: reduce_arm_active_def armed_attempt_of_def market_leg_state_def)
  next
    case False
    then have none: "active_tokens ph = {}" "active_prepaid_generation (active_projection ph) = None"
      using ph t(4) by (cases ph; auto simp: market_leg_state_def)+
    then have "market_prepaid_generation w m leg = None" using pp by (simp add: market_prepaid_generation_def)
    then obtain r where r: "reserve_ok r = Some bp"
        "r \<in> {propose_fresh_submit (w_budgets w ref) now, propose_cancel_resubmit (w_budgets w ref) now,
              propose_rest (w_budgets w ref) now}"
      using bp t(1) by (auto simp: propose_action_budget_def Let_def split: LifecycleAction.split_asm if_split_asm)
    obtain p g where p: "bp = Reserve p" "g = next_reservation_generation (w_budgets w ref) + 1"
      and res: "reserve (w_budgets w) ref p = ((w_budgets w)(ref := (w_budgets w ref)\<lparr>next_reservation_generation := g,
        outstanding := bt_insert g (proposal_liability p) (outstanding (w_budgets w ref))\<rparr>),
        Inr \<lparr>res_budget = ref, res_generation = g, res_phase = Refundable\<rparr>)"
      by (rule reserve_ok_honoured [where B = "w_budgets w" and ref = ref, OF r gen])
    have "reduce_arm_active (w_budgets w) ph pr ref bp i = Some ((w_budgets w)(ref := (w_budgets w ref)
          \<lparr>next_reservation_generation := g, outstanding := bt_insert g (proposal_liability p) (outstanding (w_budgets w ref))\<rparr>),
        Inr (armed_attempt_of pr i (Reserved \<lparr>res_budget = ref, res_generation = g, res_phase = Refundable\<rparr>), no_action))"
      using prior none(1) by (cases ph) (simp_all add: reduce_arm_active_def p(1) res armed_attempt_of_def)
    moreover have "checked_add (next_reservation_generation (w_budgets w ref)) 1 = Some g"
      using gen p(2) by (simp add: checked_add_one)
    ultimately show ?thesis using reserved arm toks none(1) by simp
  qed
qed

lemma arm_owner: "owner_after (QuoteTransactionReductionEvent.PreSink (Arm pr ref bp i)) inner s = inner_terminal_owner inner"
  by (simp add: owner_after_def)

text \<open>The world after arming the command of \<open>drive_quote_leg\<close>.\<close>

definition armed_world :: "quote_world \<Rightarrow> txn_ref \<Rightarrow> budgets \<Rightarrow> QuoteTransactionState \<Rightarrow> quote_world" where
  "armed_world w ref B s = w\<lparr>w_budgets := B, w_txns := (w_txns w)(ref := (w_txns w ref)\<lparr>inner_state := s\<rparr>)\<rparr>"

lemma arm_leg_transaction_eq:
  assumes "reduce_arm (w_budgets w) (inner_state (w_txns w (transaction m (prop_leg pr)))) pr ref bp i =
      Some (B1, Inr (s1, no_action))"
  shows "arm_leg_transaction w m pr ref bp i = Some (armed_world w (transaction m (prop_leg pr)) B1 s1, Inr ())"
  using assms
  by (simp add: arm_leg_transaction_def reduce_def on_txn_def apply_event_eq arm_owner armed_world_def no_action_def)


definition demo_input :: QuoteControlInput where
  "demo_input = \<lparr>in_leg = Yes, in_desired_price = Fin (1 / 2), in_resting_price = None,
     in_requote_threshold = Fin (1 / 100), in_eps = Fin (1 / 1000), in_now_ms = 1000\<rparr>"

lemma demo_drive:
  "dec_proposal (drive_quote_leg Fin demo_world demo_market 0 demo_input) =
     Some \<lparr>cmd_lifecycle = demo_transition, cmd_budget = Reserve demo_proposal\<rparr>"
proof -
  have "sanitize_open_probability Fin (Fin (1 / 2)) (Fin (1 / 1000)) = Some (Fin (1 / 2))"
    by (simp add: sanitize_open_probability_def ZERO_F64_def HALF_F64_def UNIT_F64_def)
  moreover have "is_non_negative_finite (Fin (1 / 100))" by (simp add: is_non_negative_finite_def ZERO_F64_def)
  moreover have "propose_fresh_submit demo_pair 1000 = Inr demo_proposal"
    by (simp add: propose_fresh_submit_def propose_granted_iff cost_consts demo_proposal_def)
      (use reserve_section_granted(3) [OF demo_reserve] in
        \<open>simp add: demo_proposal_def proposal_now_ms_def liability_now_ms_def\<close>)
  moreover have "propose_leg_event demo_world demo_market Yes (QuoteTrigger True) = Some demo_transition"
    by (simp add: propose_leg_event_def propose_transition_def propose_action_def demo_world_def demo_market_def
        GovernedQuoteTransaction_new_def idle_def demo_transition_def Let_def)
  ultimately show ?thesis
    by (simp add: drive_quote_leg_def demo_input_def requote_decision_def propose_action_budget_def
        market_leg_state_def demo_world_def GovernedQuoteTransaction_new_def idle_def demo_transition_def Let_def)
qed


section \<open>The two ends of an attempt\<close>

lemma world_books: "world_inv w \<Longrightarrow> \<exists>Ls Lr. pair_inv (w_budgets w ref) Ls Lr"
  by (simp add: world_inv_def tok.accounted_def sound_books_def)

lemma reduce_abort_armed:
  "identity_generation i = g \<Longrightarrow>
   reduce_pre_sink_abort B (armed_attempt_of pr i budget) g =
     finish_pre_sink_abort B QuoteTransactionMode.Active
       \<lparr>arm_identity = i, arm_prior_state = prop_prior_state pr, arm_pending_state = prop_pending_state pr,
        arm_obligation = from_proposal pr\<rparr> budget g"
  by (simp add: reduce_pre_sink_abort_def reduce_generation_fenced_def armed_attempt_of_def armed_identity_def
      attempt_projection_def Let_def split: prod.split)

lemma abort_leg_transaction_armed:
  assumes "finish_pre_sink_abort B1 QuoteTransactionMode.Active
       \<lparr>arm_identity = i, arm_prior_state = prop_prior_state pr, arm_pending_state = prop_pending_state pr,
        arm_obligation = from_proposal pr\<rparr> budget (identity_generation i) = Some (B2, Inr (s2, c))"
  shows "\<exists>w2. abort_leg_transaction (armed_world w (transaction m (prop_leg pr)) B1 (armed_attempt_of pr i budget)) m pr
      (identity_generation i) = Some (w2, True) \<and> w_budgets w2 = B2 \<and>
    inner_state (w_txns w2 (transaction m (prop_leg pr))) = s2"
  using assms
  by (simp add: abort_leg_transaction_def reduce_is_ok_def reduce_def on_txn_def apply_event_eq armed_world_def reduce_abort_armed)

lemma restored_leg: "prior \<in> {LegState.Idle, LegState.Resting, LegState.ReplacementPendingBackoff} \<Longrightarrow>
    stable_leg_state (stable_projection (restored_phase prior obligation)) = prior"
  by (auto simp: Let_def)

text \<open>
  C7. An abort before the sink undoes an attempt. For a command the quote control returned in a
  reachable state, arming it and aborting it at its generation succeeds and leaves the leg in the
  state it was in, and the budget as it was up to the reservation number it consumed: nothing is
  charged and nothing stays outstanding.
\<close>

theorem abort_restores_leg_and_budget:
  assumes "fresh_budgets B" and "world_step\<^sup>*\<^sup>* (fresh_world B) w"
    and drive: "dec_proposal (drive_quote_leg rnd w m ref inp) = Some cmd"
    and un: "armed_identity (inner_state (w_txns w (transaction m (in_leg inp)))) = None"
    and arm: "arm_leg_transaction w m (cmd_lifecycle cmd) ref (cmd_budget cmd) i = Some (w1, Inr ())"
    and i: "identity_generation i \<noteq> 0" and gen: "next_reservation_generation (w_budgets w ref) \<noteq> - 1"
  shows "\<exists>w2. abort_leg_transaction w1 m (cmd_lifecycle cmd) (identity_generation i) = Some (w2, True) \<and>
    market_leg_state w2 m (in_leg inp) = market_leg_state w m (in_leg inp) \<and>
    w_budgets w2 = (w_budgets w)(ref := (w_budgets w ref)
      \<lparr>next_reservation_generation := next_reservation_generation (w_budgets w2 ref)\<rparr>)"
proof -
  let ?pr = "cmd_lifecycle cmd" let ?leg = "in_leg inp"
  obtain b where lf: "propose_leg_event w m ?leg (QuoteTrigger b) = Some ?pr"
    and bp: "propose_action_budget w m ref (in_now_ms inp) ?pr = Some (cmd_budget cmd)"
    by (rule drive_command [OF drive])
  note t = trigger_proposal [OF lf]
  have inv: "world_inv w" using world_run_inv [OF assms(2) fresh_world_inv [OF assms(1)]] by simp
  show ?thesis
  proof (rule command_arms [OF lf bp un i gen])
    fix p assume r: "reduce_arm (w_budgets w) (inner_state (w_txns w (transaction m ?leg))) ?pr ref (cmd_budget cmd) i =
        Some (w_budgets w, Inr (armed_attempt_of ?pr i (ArmedQuoteBudget.Prepaid p), no_action))"
      and ls: "market_leg_state w m ?leg = LegState.ReplacementPendingBackoff"
    have w1: "w1 = armed_world w (transaction m ?leg) (w_budgets w) (armed_attempt_of ?pr i (ArmedQuoteBudget.Prepaid p))"
      using arm_leg_transaction_eq [of w m ?pr] r arm t(1) by simp
    have "\<exists>w2. abort_leg_transaction w1 m ?pr (identity_generation i) = Some (w2, True) \<and> w_budgets w2 = w_budgets w \<and>
        inner_state (w_txns w2 (transaction m ?leg)) = settled (identity_generation i) QuoteRouteSettlement.PreSinkAbort
          (QuoteStableState.Active (ReplacementPendingBackoffPrepaid p))"
      unfolding w1 t(1) [symmetric] by (rule abort_leg_transaction_armed) (simp add: finish_pre_sink_abort_def)
    then show ?thesis using ls by (auto simp: market_leg_state_def settled_def settlement_leg_state_def Let_def)
  next
    fix g l
    let ?B1 = "(w_budgets w)(ref := (w_budgets w ref)\<lparr>next_reservation_generation := g,
        outstanding := bt_insert g l (outstanding (w_budgets w ref))\<rparr>)"
    let ?r = "\<lparr>res_budget = ref, res_generation = g, res_phase = Refundable\<rparr>"
    let ?B2 = "(w_budgets w)(ref := (w_budgets w ref)\<lparr>next_reservation_generation := g\<rparr>)"
    assume r: "reduce_arm (w_budgets w) (inner_state (w_txns w (transaction m ?leg))) ?pr ref (cmd_budget cmd) i =
        Some (?B1, Inr (armed_attempt_of ?pr i (Reserved ?r), no_action))"
      and g: "checked_add (next_reservation_generation (w_budgets w ref)) 1 = Some g"
    have w1: "w1 = armed_world w (transaction m ?leg) ?B1 (armed_attempt_of ?pr i (Reserved ?r))"
      using arm_leg_transaction_eq [of w m ?pr] r arm t(1) by simp
    obtain Ls Lr where pi: "pair_inv (w_budgets w ref) Ls Lr" using world_books [OF inv] by blast
    have ab: "abort ?B1 ?r = Some (?B2, Inr ())"
      by (rule abort_reserved [where B = "w_budgets w" and ref = ref, OF pi g])
    let ?st = "restored_phase (market_leg_state w m ?leg) (from_proposal ?pr)"
    have "\<exists>w2. abort_leg_transaction w1 m ?pr (identity_generation i) = Some (w2, True) \<and> w_budgets w2 = ?B2 \<and>
        inner_state (w_txns w2 (transaction m ?leg)) = settled (identity_generation i) QuoteRouteSettlement.PreSinkAbort ?st"
      unfolding w1 t(1) [symmetric]
      by (rule abort_leg_transaction_armed) (simp add: finish_pre_sink_abort_def ab restore_prior_def t(1,2))
    then obtain w2 where w2: "abort_leg_transaction w1 m ?pr (identity_generation i) = Some (w2, True)"
      "w_budgets w2 = ?B2"
      "inner_state (w_txns w2 (transaction m ?leg)) = settled (identity_generation i) QuoteRouteSettlement.PreSinkAbort ?st"
      by blast
    have "market_leg_state w2 m ?leg = market_leg_state w m ?leg"
      using restored_leg [OF t(4)] w2(3) by (simp add: market_leg_state_def settled_def settlement_leg_state_def)
    then show ?thesis using w2(1,2) by (intro exI [of _ w2]) simp
  qed
qed

theorem abort_restores_leg_and_budget_witness:
  "\<exists>w2. abort_leg_transaction demo_world_armed demo_market demo_transition 7 = Some (w2, True) \<and>
     market_leg_state w2 demo_market Yes = LegState.Idle"
proof -
  have "arm_leg_transaction demo_world demo_market demo_transition 0 (Reserve demo_proposal) demo_identity =
      Some (demo_world_armed, Inr ())"
    using demo_arm by (simp add: arm_leg_transaction_def demo_market_def demo_transition_def no_action_def)
  moreover have "market_leg_state demo_world demo_market Yes = LegState.Idle"
    by (simp add: market_leg_state_def demo_world_def GovernedQuoteTransaction_new_def idle_def Let_def)
  ultimately show ?thesis
    using abort_restores_leg_and_budget [OF demo_fresh demo_run_world demo_drive, of demo_identity demo_world_armed]
    by (auto simp: demo_input_def demo_world_def GovernedQuoteTransaction_new_def idle_def demo_identity_def
        demo_pair_def fresh_pair_def RequoteBudgetPair_new_def demo_market_def)
qed

text \<open>Accounting a sink-invoked budget: which budgets keep a prepaid reservation.\<close>

lemma account_result:
  assumes "account B budget = Some (B', acc)"
  shows "(\<exists>r. budget = PrepaidPending r) \<Longrightarrow> \<exists>r. acc = AccountedSinkInvokedQuoteBudget.Prepaid r"
    and "(\<exists>r. budget = ChargePending r) \<Longrightarrow> acc = AccountedSinkInvokedQuoteBudget.Charged"
  using assms by (auto simp: bind_eq_Some_conv)

lemma route_success_proposal:
  "route_success (from_proposal pr) =
     (case prop_action pr of LifecycleAction.Submit \<Rightarrow> QuoteRouteSuccess.Submitted
      | _ \<Rightarrow> QuoteRouteSuccess.NtMutationInvoked)"
  by (simp add: from_proposal_def split: LifecycleAction.split)

lemma commit_event_reduces:
  "reduce_sink_capable B s (case prop_action pr of
       LifecycleAction.Submit \<Rightarrow> SinkCapableQuoteTransactionEvent.Submitted g
     | LifecycleAction.Cancel \<Rightarrow> SinkCapableQuoteTransactionEvent.NtMutationInvoked g
     | LifecycleAction.Modify \<Rightarrow> SinkCapableQuoteTransactionEvent.NtMutationInvoked g) =
   reduce_route_success B s g (route_success (from_proposal pr))"
  by (simp add: route_success_proposal split: LifecycleAction.split)

lemma routed_leg:
  assumes h: "tok.holds B (sink_tokens budget)"
    and arm: "arm = \<lparr>arm_identity = i, arm_prior_state = prop_prior_state pr,
        arm_pending_state = prop_pending_state pr, arm_obligation = from_proposal pr\<rparr>"
    and b: "budget = armed_prepare_sink_invoked_at armed (from_proposal pr) now"
    and pre: "(\<exists>p. armed = ArmedQuoteBudget.Prepaid p) \<longrightarrow> from_proposal pr \<noteq> QuoteLegTransactionObligation.RequoteCancel"
    and pend: "prop_pending_state pr \<in> {LegState.SubmitPending, LegState.ModifyPending} \<or>
      (prop_pending_state pr = LegState.RequotePending \<and> from_proposal pr = QuoteLegTransactionObligation.RequoteCancel)"
    and obl: "from_proposal pr = QuoteLegTransactionObligation.RequoteCancel \<longrightarrow> prop_pending_state pr = LegState.RequotePending"
  shows "\<exists>B' st. route_success_state B QuoteTransactionMode.Active arm budget = Some (B', st) \<and>
    stable_leg_state (stable_projection st) = prop_pending_state pr"
proof -
  obtain B' acc where acc: "account B budget = Some (B', acc)"
    using account_flows [OF h] by (auto simp: tok.flows_def)
  show ?thesis
  proof (cases "from_proposal pr = QuoteLegTransactionObligation.RequoteCancel")
    case True
    then obtain r where "budget = PrepaidPending r" using b pre by (cases armed) auto
    then obtain r' where "acc = AccountedSinkInvokedQuoteBudget.Prepaid r'" using account_result(1) [OF acc] by blast
    then show ?thesis using acc obl True by (simp add: route_success_state_def Let_def)
  next
    case False
    then obtain r where "budget = ChargePending r" using b by (cases armed) auto
    then have "acc = AccountedSinkInvokedQuoteBudget.Charged" using account_result(2) [OF acc] by blast
    then show ?thesis using acc pend False
      by (auto simp: route_success_state_def committed_pending_def arm Let_def)
  qed
qed

lemma trigger_pending:
  assumes "propose_action ls (QuoteTrigger b) sm = Some (prop_action pr, prop_pending_state pr)"
    and "prop_prior_state pr = ls"
  shows "prop_pending_state pr \<in> {LegState.SubmitPending, LegState.ModifyPending} \<or>
      (prop_pending_state pr = LegState.RequotePending \<and> from_proposal pr = QuoteLegTransactionObligation.RequoteCancel)"
    and "from_proposal pr = QuoteLegTransactionObligation.RequoteCancel \<longrightarrow> prop_pending_state pr = LegState.RequotePending"
    and "ls = LegState.ReplacementPendingBackoff \<Longrightarrow> from_proposal pr \<noteq> QuoteLegTransactionObligation.RequoteCancel"
  using assms
  by (auto simp: propose_action_def from_proposal_def split: LegState.split_asm bool.split_asm if_split_asm)

text \<open>The attempt past the sink, and the settlement of its success.\<close>

lemma commit_leg_transaction_sunk:
  assumes w2: "w2 = commit_prepared (armed_world w (transaction m (prop_leg pr)) B1 (armed_attempt_of pr i armed))
      (transaction m (prop_leg pr)) \<lparr>prepared_generation = identity_generation i, prepared_actor_now_ms = now\<rparr>"
    and inv: "world_inv w2"
    and pre: "(\<exists>p. armed = ArmedQuoteBudget.Prepaid p) \<longrightarrow> from_proposal pr \<noteq> QuoteLegTransactionObligation.RequoteCancel"
    and pend: "prop_pending_state pr \<in> {LegState.SubmitPending, LegState.ModifyPending} \<or>
      (prop_pending_state pr = LegState.RequotePending \<and> from_proposal pr = QuoteLegTransactionObligation.RequoteCancel)"
    and obl: "from_proposal pr = QuoteLegTransactionObligation.RequoteCancel \<longrightarrow> prop_pending_state pr = LegState.RequotePending"
  shows "\<exists>w3. commit_leg_transaction w2 m pr (identity_generation i) = Some (w3, True) \<and>
    market_leg_state w3 m (prop_leg pr) = prop_pending_state pr"
proof -
  let ?ref = "transaction m (prop_leg pr)"
  let ?arm = "\<lparr>arm_identity = i, arm_prior_state = prop_prior_state pr, arm_pending_state = prop_pending_state pr,
     arm_obligation = from_proposal pr\<rparr>"
  let ?budget = "armed_prepare_sink_invoked_at armed (from_proposal pr) now"
  let ?a = "\<lparr>att_mode = QuoteTransactionMode.Active, att_arm = ?arm, att_phase = QuoteAttemptPhase.SinkInvoked ?budget\<rparr>"
  have s: "inner_state (w_txns w2 ?ref) = Attempt ?a"
    by (simp add: w2 commit_prepared_def prepared_commit_def armed_world_def armed_attempt_of_def
        commit_sink_invoked_def account_sink_invocation_def)
  have "tok.holds (w_budgets w2) (inner_tokens (w_txns w2 ?ref))"
    using inv tok.accounted_holds [of "w_budgets w2" "world_tokens w2" ?ref] by (simp add: world_inv_def world_tokens_def)
  then have h: "tok.holds (w_budgets w2) (sink_tokens ?budget)" by (simp add: s)
  obtain B' st where st: "route_success_state (w_budgets w2) QuoteTransactionMode.Active ?arm ?budget = Some (B', st)"
    "stable_leg_state (stable_projection st) = prop_pending_state pr"
    using routed_leg [OF h refl refl pre pend obl] by blast
  have "reduce_route_success (w_budgets w2) (Attempt ?a) (identity_generation i) (route_success (from_proposal pr)) =
      Some (B', Inr (settled (identity_generation i)
        (success_settlement (success_projection (route_success (from_proposal pr)))) st, no_action))"
    using st(1) by (simp add: reduce_route_success_def Let_def reduce_generation_fenced_def armed_identity_def
        attempt_projection_def split: prod.split)
  then show ?thesis using st(2)
    by (simp add: commit_leg_transaction_def reduce_is_ok_def reduce_def on_txn_def apply_event_eq
        commit_event_reduces s market_leg_state_def settled_def settlement_leg_state_def)
qed

text \<open>
  C6. A routed attempt reaches the state its proposal announced. For a command the quote control
  returned in a reachable state, once armed, the attempt can be prepared for the sink at its
  generation, and after the sink, at a clock not earlier than its reservation, its success is
  accepted and the leg is in the proposal's pending state: submit pending, modify pending, or
  requote pending with the replacement prepaid.
\<close>

theorem routed_attempt_reaches_pending:
  assumes "fresh_budgets B" and "world_step\<^sup>*\<^sup>* (fresh_world B) w" and min: "market_in w m"
    and drive: "dec_proposal (drive_quote_leg rnd w m ref inp) = Some cmd"
    and un: "armed_identity (inner_state (w_txns w (transaction m (in_leg inp)))) = None"
    and arm: "arm_leg_transaction w m (cmd_lifecycle cmd) ref (cmd_budget cmd) i = Some (w1, Inr ())"
    and i: "identity_generation i \<noteq> 0" and gen: "next_reservation_generation (w_budgets w ref) \<noteq> - 1"
    and clock: "clock_ok (w_budgets w1) (inner_state (w_txns w1 (transaction m (in_leg inp)))) now"
  shows "\<exists>p w3. prepare_leg_transaction_sink_invoked w1 m (cmd_lifecycle cmd) (identity_generation i) now = Inr p \<and>
    commit_leg_transaction (commit_prepared w1 (transaction m (in_leg inp)) p) m (cmd_lifecycle cmd) (identity_generation i)
      = Some (w3, True) \<and>
    market_leg_state w3 m (in_leg inp) = prop_pending_state (cmd_lifecycle cmd)"
proof -
  let ?pr = "cmd_lifecycle cmd" let ?leg = "in_leg inp" let ?ref = "transaction m ?leg"
  let ?p = "\<lparr>prepared_generation = identity_generation i, prepared_actor_now_ms = now\<rparr>"
  obtain b where lf: "propose_leg_event w m ?leg (QuoteTrigger b) = Some ?pr"
    and bp: "propose_action_budget w m ref (in_now_ms inp) ?pr = Some (cmd_budget cmd)"
    by (rule drive_command [OF drive])
  note t = trigger_proposal [OF lf]
  note tp = trigger_pending [OF t(5) t(2)]
  have "\<exists>B1 armed. w1 = armed_world w ?ref B1 (armed_attempt_of ?pr i armed) \<and>
      ((\<exists>p. armed = ArmedQuoteBudget.Prepaid p) \<longrightarrow> from_proposal ?pr \<noteq> QuoteLegTransactionObligation.RequoteCancel)"
    by (rule command_arms [OF lf bp un i gen])
      (use arm_leg_transaction_eq [of w m ?pr] arm t(1) tp(3) in auto)
  then obtain B1 armed where w1: "w1 = armed_world w ?ref B1 (armed_attempt_of ?pr i armed)"
    and pre: "(\<exists>p. armed = ArmedQuoteBudget.Prepaid p) \<longrightarrow> from_proposal ?pr \<noteq> QuoteLegTransactionObligation.RequoteCancel"
    by blast
  have ref: "?ref < w_next_txn w" by (rule transaction_in [OF min])
  have inv: "world_inv w" using world_run_inv [OF assms(2) fresh_world_inv [OF assms(1)]] by simp
  have "\<exists>res. reduce w ?ref (QuoteTransactionReductionEvent.PreSink (Arm ?pr ref (cmd_budget cmd) i)) = Some (w1, res)"
    using arm t(1) by (auto simp: arm_leg_transaction_def bind_eq_Some_conv)
  then have inv1: "world_inv w1" using world_step_inv [OF world_step.event [OF ref] inv] by blast
  have "w_next_txn w1 = w_next_txn w" by (simp add: w1 armed_world_def)
  then have inv2: "world_inv (commit_prepared w1 ?ref ?p)" using ref clock by (intro sink_step [OF inv1]) simp_all
  have "prepare_leg_transaction_sink_invoked w1 m ?pr (identity_generation i) now = Inr ?p"
    by (simp add: prepare_leg_transaction_sink_invoked_def prepare_sink_invoked_def t(1) w1 armed_world_def armed_attempt_of_def)
  moreover obtain w3 where "commit_leg_transaction (commit_prepared w1 ?ref ?p) m ?pr (identity_generation i) = Some (w3, True)"
      "market_leg_state w3 m ?leg = prop_pending_state ?pr"
    using commit_leg_transaction_sunk [where w = w and m = m and ?B1.0 = B1 and i = i and now = now,
        OF _ inv2 pre tp(1) tp(2)] w1 t(1) by auto
  ultimately show ?thesis by blast
qed

theorem routed_attempt_reaches_pending_witness:
  "\<exists>p w3. prepare_leg_transaction_sink_invoked demo_world_armed demo_market demo_transition 7 1005 = Inr p \<and>
     commit_leg_transaction (commit_prepared demo_world_armed 0 p) demo_market demo_transition 7 = Some (w3, True) \<and>
     market_leg_state w3 demo_market Yes = LegState.SubmitPending"
proof -
  have "arm_leg_transaction demo_world demo_market demo_transition 0 (Reserve demo_proposal) demo_identity =
      Some (demo_world_armed, Inr ())"
    using demo_arm by (simp add: arm_leg_transaction_def demo_market_def demo_transition_def no_action_def)
  moreover have "clock_ok (w_budgets demo_world_armed) (inner_state (w_txns demo_world_armed 0)) 1005"
    by (simp add: demo_world_armed_def clock_ok_def demo_armed_def demo_token_def entry_def
        res_key_def demo_reserved_def bt_get_def demo_proposal_def liability_now_ms_def)
  moreover have "market_in demo_world demo_market" by (simp add: market_in_def demo_market_def demo_world_def)
  ultimately show ?thesis
    using routed_attempt_reaches_pending [OF demo_fresh demo_run_world _ demo_drive, of demo_identity demo_world_armed 1005]
    by (simp add: demo_input_def demo_world_def GovernedQuoteTransaction_new_def idle_def demo_identity_def
        demo_pair_def fresh_pair_def RequoteBudgetPair_new_def demo_market_def demo_transition_def)
qed

end
