(* ===== verification/MarketScope.thy ===== *)
theory MarketScope
  imports QuoteProtocol
begin

text \<open>
  Cancel scopes of a market (one leg, both legs), its aggregate state, and the refinement of
  terminal truth.
\<close>

section \<open>Cancel scopes\<close>

lemma stable_wind_down_idle:
  "stable_winding st \<Longrightarrow> reduce_stable_wind_down B st = Some (B, st, no_action)"
  by (cases st) (auto simp: begin_wind_down_eq no_action_def)

lemma wind_down_again:
  assumes "is_winding_down s"
  shows "reduce_wind_down B s = Some (B, s, no_action)"
  using assms by (cases s) (auto simp: stable_wind_down_idle reduce_stable_def begin_wind_down_eq no_action_def)

lemma reduce_expect_winding:
  assumes "is_winding_down (inner_state (w_txns w ref))"
  shows "reduce_expect w ref (QuoteTransactionReductionEvent.PreSink WindDown) = Some (w, None)"
proof -
  have "owner_after (QuoteTransactionReductionEvent.PreSink WindDown) inner s = inner_terminal_owner inner" for inner s
    by (simp add: owner_after_def)
  then show ?thesis using assms
    by (simp add: reduce_expect_def reduce_def on_txn_def apply_event_eq wind_down_again no_action_def)
qed

text \<open>
  Draining is idempotent. Draining a drained market asks for no cancel and changes nothing.
\<close>

theorem drain_is_idempotent:
  assumes "market_in w m" and "drain w m = Some (w1, a)"
  shows "drain w1 m = Some (w1, None)"
  using drain_winds(1) [OF assms, of Yes] drain_winds(1) [OF assms, of No]
  by (simp add: drain_def reduce_expect_winding)

lemma wind_down_apply:
  "apply_event B inner (QuoteTransactionReductionEvent.PreSink WindDown) =
     map_option (\<lambda>(B', s', c). (B', inner\<lparr>inner_state := s'\<rparr>, Inr c)) (reduce_wind_down B (inner_state inner))"
  by (cases "reduce_wind_down B (inner_state inner)") (auto simp: apply_event_eq owner_after_def)

text \<open>
  A one-leg cancel is confined to its leg. It leaves every other transaction, the market's
  other leg included, exactly as it was, puts the leg into wind-down, and asks for nothing but the
  cancel of that leg.
\<close>

theorem cancel_leg_is_confined:
  assumes "market_in w m" and "cancel_leg w m leg = Some (w1, a)"
  shows "(\<forall>ref. ref \<noteq> transaction m leg \<longrightarrow> w_txns w1 ref = w_txns w ref) \<and>
    (\<forall>other. other \<noteq> leg \<longrightarrow> market_leg_state w1 m other = market_leg_state w m other) \<and>
    is_winding_down (inner_state (w_txns w1 (transaction m leg))) \<and>
    a \<in> {None, Some (LegAction leg LifecycleAction.Cancel)}"
proof -
  obtain act where r: "reduce_expect w (transaction m leg) (QuoteTransactionReductionEvent.PreSink WindDown) = Some (w1, act)"
    and a: "a = map_option (LegAction leg) act"
    using assms(2) by (auto simp: cancel_leg_def)
  note fr = reduce_expect_frame [OF r]
  obtain B c where ap: "apply_event (w_budgets w) (w_txns w (transaction m leg))
      (QuoteTransactionReductionEvent.PreSink WindDown) = Some (B, w_txns w1 (transaction m leg), Inr c)"
    and act: "act = commit_action c" using fr(1) by blast
  have "cancels_only c" using ap by (auto simp: wind_down_apply dest: reduce_wind_down_winds)
  moreover have "is_winding_down (inner_state (w_txns w1 (transaction m leg)))" by (rule wind_down_event_winds [OF ap])
  moreover have "transaction m other \<noteq> transaction m leg" if "other \<noteq> leg" for other
    using that assms(1) by (cases other; cases leg) (auto simp: market_in_def)
  ultimately show ?thesis using fr(3) by (auto simp: a act cancels_only_def market_leg_state_def)
qed

lemma demo_drain:
  "drain demo_world demo_market = Some (demo_world\<lparr>w_txns := (w_txns demo_world)(
      0 := (GovernedQuoteTransaction_new False)\<lparr>inner_state := Stable (QuoteStableState.WindingDown WindDownQuotePhase.Idle)\<rparr>,
      1 := (GovernedQuoteTransaction_new False)\<lparr>inner_state := Stable (QuoteStableState.WindingDown WindDownQuotePhase.Idle)\<rparr>)\<rparr>, None)"
  by (simp add: drain_def reduce_expect_def reduce_def on_txn_def wind_down_apply demo_world_def demo_market_def
      GovernedQuoteTransaction_new_def idle_def no_action_def)

lemma demo_cancel:
  "cancel_leg demo_world_armed demo_market Yes = Some (demo_world_armed\<lparr>w_txns := (w_txns demo_world_armed)(
      0 := (GovernedQuoteTransaction_new False)\<lparr>inner_state := fst (snd (the (reduce_wind_down (w_budgets demo_world_armed) demo_armed)))\<rparr>)\<rparr>,
    Some (LegAction Yes LifecycleAction.Cancel))"
  by (simp add: cancel_leg_def reduce_expect_def reduce_def on_txn_def wind_down_apply demo_market_def
      demo_world_armed_def demo_armed_def)

theorem drain_is_idempotent_witness:
  "\<exists>w1. drain demo_world demo_market = Some (w1, None) \<and> drain w1 demo_market = Some (w1, None)"
proof -
  have "market_in demo_world demo_market" by (simp add: market_in_def demo_market_def demo_world_def)
  from drain_is_idempotent [OF this demo_drain] show ?thesis using demo_drain by blast
qed

theorem cancel_leg_is_confined_witness:
  "\<exists>w1. cancel_leg demo_world_armed demo_market Yes = Some (w1, Some (LegAction Yes LifecycleAction.Cancel)) \<and>
     market_leg_state w1 demo_market No = market_leg_state demo_world_armed demo_market No"
  using cancel_leg_is_confined [OF demo_market_in demo_cancel] demo_cancel by (auto intro!: exI)

section \<open>Aggregate state\<close>

lemma winding_leg_state:
  assumes "is_winding_down s" and "armed_identity s = None"
  shows "leg_state s \<in> {LegState.Idle, LegState.CancelPending, PoisonedReconciliationHold}"
proof -
  have st: "stable_leg_state (stable_projection st) \<in> {LegState.Idle, LegState.CancelPending, PoisonedReconciliationHold}"
    if "stable_winding st" for st
    using that by (cases st rule: stable_projection.cases) simp_all
  show ?thesis
  proof (cases s)
    case (Stable x)
    then show ?thesis using assms st [of x] by simp
  next
    case (Attempt x)
    then show ?thesis using assms(2) armed_attempt [of s "arm_identity (att_arm x)"] by simp
  next
    case (Settled x)
    then show ?thesis using assms st [of "settlement_stable x"]
      by (simp add: settlement_leg_state_def split: QuoteSettlementStatus.split)
  qed
qed

text \<open>
  A drained market is never reported as quoting. After a drain, in every later state in which
  neither leg has an attempt in flight, the aggregate state of the market is idle, draining or
  held for reconciliation; it is idle exactly when both legs are idle.
\<close>

theorem drained_market_is_not_quoting:
  assumes "market_in w m" and "drain w m = Some (w1, a)" and "world_step\<^sup>*\<^sup>* w1 w2"
    and "\<forall>leg. armed_identity (inner_state (w_txns w2 (transaction m leg))) = None"
  shows "market_state w2 m \<in> {MarketState.Idle, Draining, ReconciliationHold} \<and>
    (market_state w2 m = MarketState.Idle \<longleftrightarrow>
       market_leg_state w2 m Yes = LegState.Idle \<and> market_leg_state w2 m No = LegState.Idle)"
proof -
  note dw = drain_winds [OF assms(1,2)]
  have ls: "market_leg_state w2 m leg \<in> {LegState.Idle, LegState.CancelPending, PoisonedReconciliationHold}" for leg
  proof -
    have "transaction m leg < w_next_txn w1" using transaction_in [OF assms(1)] dw(2) by simp
    then have "is_winding_down (inner_state (w_txns w2 (transaction m leg)))"
      by (rule world_run_winding [OF assms(3) _ dw(1)])
    then show ?thesis unfolding market_leg_state_def using assms(4) by (intro winding_leg_state) simp_all
  qed
  show ?thesis using ls [of Yes] ls [of No] by (auto simp: market_state_def Let_def)
qed

theorem drained_market_is_not_quoting_witness:
  "\<exists>w1. drain demo_world demo_market = Some (w1, None) \<and> market_state w1 demo_market \<noteq> Quoting"
proof -
  let ?w1 = "demo_world\<lparr>w_txns := (w_txns demo_world)(
      0 := (GovernedQuoteTransaction_new False)\<lparr>inner_state := Stable (QuoteStableState.WindingDown WindDownQuotePhase.Idle)\<rparr>,
      1 := (GovernedQuoteTransaction_new False)\<lparr>inner_state := Stable (QuoteStableState.WindingDown WindDownQuotePhase.Idle)\<rparr>)\<rparr>"
  have m: "market_in demo_world demo_market" by (simp add: market_in_def demo_market_def demo_world_def)
  have "armed_identity (inner_state (w_txns ?w1 (transaction demo_market leg))) = None" for leg
    by (cases leg) (simp_all add: demo_market_def)
  then have "market_state ?w1 demo_market \<in> {MarketState.Idle, Draining, ReconciliationHold}"
    using drained_market_is_not_quoting [OF m demo_drain rtranclp.rtrancl_refl] by blast
  then show ?thesis using demo_drain by auto
qed

section \<open>Terminal truth\<close>

text \<open>
  Terminal truth only moves forward. However many reports refine a terminal disposition, it
  ends as itself, filled or voided; a disposition that cannot refine never changes; a filled order
  never becomes unfilled except by being voided; and repeating a report changes nothing.
\<close>

theorem terminal_truth_moves_forward:
  "let final = foldl refine_terminal_with d reports in
     final \<in> {d, MakerQuoteTerminalDisposition.Filled, Voided} \<and>
     (\<not> can_refine d \<longrightarrow> final = d) \<and>
     (d = MakerQuoteTerminalDisposition.Filled \<longrightarrow> final \<in> {MakerQuoteTerminalDisposition.Filled, Voided}) \<and>
     refine_terminal_with (refine_terminal_with d r) r = refine_terminal_with d r"
proof (induction reports arbitrary: d)
  case Nil
  show ?case by (cases d; cases r) simp_all
next
  case (Cons a reports)
  have "refine_terminal_with (refine_terminal_with d r) r = refine_terminal_with d r" by (cases d; cases r) simp_all
  moreover have "refine_terminal_with d a \<in> {d, MakerQuoteTerminalDisposition.Filled, Voided} \<and>
      (\<not> can_refine d \<longrightarrow> refine_terminal_with d a = d) \<and>
      (d = MakerQuoteTerminalDisposition.Filled \<longrightarrow> refine_terminal_with d a \<in> {MakerQuoteTerminalDisposition.Filled, Voided})"
    by (cases d; cases a) simp_all
  moreover have "\<not> can_refine Voided" by simp
  ultimately show ?case using Cons [of "refine_terminal_with d a"] by (auto simp: Let_def)
qed

theorem terminal_truth_moves_forward_witness:
  "foldl refine_terminal_with MakerQuoteTerminalDisposition.Canceled
     [MakerQuoteTerminalDisposition.Filled, MakerQuoteTerminalDisposition.Canceled, Voided] \<in>
     {MakerQuoteTerminalDisposition.Canceled, MakerQuoteTerminalDisposition.Filled, Voided} \<and>
   foldl refine_terminal_with Expired [MakerQuoteTerminalDisposition.Filled] = Expired"
  using terminal_truth_moves_forward [of MakerQuoteTerminalDisposition.Canceled
      "[MakerQuoteTerminalDisposition.Filled, MakerQuoteTerminalDisposition.Canceled, Voided]" Voided]
    terminal_truth_moves_forward [of Expired "[MakerQuoteTerminalDisposition.Filled]" Voided]
  by (simp add: Let_def)

end
