(* ===== verification/RustDecimal.thy ===== *)
theory RustDecimal
  imports Complex_Main Prelude
begin

text \<open>
  The interface of the \<open>rust_decimal\<close> crate that the loss components call. The crate is not part
  of the repository, so its operations are the fields of a record that the definitions take as an
  argument; \<^term>\<open>None\<close> is the panic of an operation that overflows. What the crate documents of them
  is the predicate \<open>decimal_exact\<close>: the operations compute with the numbers that decimals denote,
  and printing a decimal and parsing it gives the decimal back.
\<close>

record 'd decimal_ops =
  dec_zero :: 'd
  dec_add :: "'d \<Rightarrow> 'd \<Rightarrow> 'd option"
  dec_sub :: "'d \<Rightarrow> 'd \<Rightarrow> 'd option"
  dec_neg :: "'d \<Rightarrow> 'd"
  dec_eq :: "'d \<Rightarrow> 'd \<Rightarrow> bool"
  dec_lt :: "'d \<Rightarrow> 'd \<Rightarrow> bool"
  dec_to_string :: "'d \<Rightarrow> string"
  dec_from_str :: "string \<Rightarrow> 'd option"

definition dec_ge :: "'d decimal_ops \<Rightarrow> 'd \<Rightarrow> 'd \<Rightarrow> bool" where
  "dec_ge D a b \<longleftrightarrow> dec_lt D b a \<or> dec_eq D a b"

definition decimal_exact :: "'d decimal_ops \<Rightarrow> ('d \<Rightarrow> rat) \<Rightarrow> bool" where
  "decimal_exact D val \<longleftrightarrow>
     val (dec_zero D) = 0 \<and>
     (\<forall>a b c. dec_add D a b = Some c \<longrightarrow> val c = val a + val b) \<and>
     (\<forall>a b c. dec_sub D a b = Some c \<longrightarrow> val c = val a - val b) \<and>
     (\<forall>a. val (dec_neg D a) = - val a) \<and>
     (\<forall>a b. dec_eq D a b \<longleftrightarrow> val a = val b) \<and>
     (\<forall>a b. dec_lt D a b \<longleftrightarrow> val a < val b)"

definition decimal_prints :: "'d decimal_ops \<Rightarrow> bool" where
  "decimal_prints D \<longleftrightarrow> (\<forall>a. dec_from_str D (dec_to_string D a) = Some a)"

lemma decimal_exactD:
  assumes "decimal_exact D val"
  shows "val (dec_zero D) = 0"
    "dec_add D a b = Some c \<Longrightarrow> val c = val a + val b"
    "dec_sub D a b = Some c \<Longrightarrow> val c = val a - val b"
    "val (dec_neg D a) = - val a"
    "dec_eq D a b \<longleftrightarrow> val a = val b"
    "dec_lt D a b \<longleftrightarrow> val a < val b"
    "dec_ge D a b \<longleftrightarrow> val b \<le> val a"
  using assms by (auto simp: decimal_exact_def dec_ge_def)

text \<open>An instance for examples: whole amounts, printed in unary with a sign.\<close>

definition unary :: "int \<Rightarrow> string" where
  "unary n = (if n < 0 then CHR ''-'' # replicate (nat (- n)) CHR ''1'' else replicate (nat n) CHR ''1'')"

definition from_unary :: "string \<Rightarrow> int option" where
  "from_unary s = (if s \<noteq> [] \<and> hd s = CHR ''-'' then Some (- int (length s - 1)) else Some (int (length s)))"

definition whole_ops :: "int decimal_ops" where
  "whole_ops = \<lparr>dec_zero = 0, dec_add = (\<lambda>a b. Some (a + b)), dec_sub = (\<lambda>a b. Some (a - b)),
     dec_neg = uminus, dec_eq = (=), dec_lt = (<), dec_to_string = unary, dec_from_str = from_unary\<rparr>"

lemma whole_exact: "decimal_exact whole_ops rat_of_int"
  by (simp add: decimal_exact_def whole_ops_def)

lemma whole_prints: "decimal_prints whole_ops"
proof -
  have "from_unary (unary a) = Some a" for a
    by (cases "nat a") (auto simp: unary_def from_unary_def)
  then show ?thesis by (simp add: decimal_prints_def whole_ops_def)
qed

end
