(* ===== verification/LossGovernor.thy ===== *)
theory LossGovernor
  imports RustDecimal
begin

text \<open>
  The loss governor (\<open>src/src/bolt_v3_loss_governor.rs\<close>): the policy, the loss snapshot, its
  diagnostics, and the admission decision over them.
\<close>

datatype LossSnapshotSource =
    NtLossRuntimeFeed
  | NtPortfolioSnapshot
  | NtAccountSnapshot
  | NtAccountAndPositionSnapshot
  | NtPositionEvent
  | NtPositionChanged
  | NtPositionClosed
  | NtPositionAdjusted
  | NtCapitalAdmissionState
  | BoltLossSnapshot
  | LossGovernor
  | Unknown
  | Other

datatype LossHaltReason =
    PerTradeLossLimit
  | DailyLossLimit
  | RollingLossLimit
  | MaxDrawdownLimit
  | StaleLossSnapshot

record 'd LossGovernorPolicy =
  max_snapshot_age_ns :: u64
  max_per_trade_loss :: "'d option"
  max_daily_loss :: "'d option"
  max_rolling_loss :: "'d option"
  max_drawdown :: "'d option"

record LossSourceObservationTimestamps =
  last_account_state_observed_at_ns :: "u64 option"
  last_portfolio_snapshot_observed_at_ns :: "u64 option"
  last_position_event_observed_at_ns :: "u64 option"

record 'd LossSnapshot =
  snap_source :: "LossSnapshotSource option"
  snap_observed_at_ns :: u64
  snap_per_trade_pnl :: "'d option"
  snap_daily_pnl :: "'d option"
  snap_rolling_pnl :: "'d option"
  snap_current_equity :: "'d option"
  snap_peak_equity :: "'d option"
  snap_source_observations :: LossSourceObservationTimestamps

definition unobserved :: LossSourceObservationTimestamps where
  "unobserved = \<lparr>last_account_state_observed_at_ns = None, last_portfolio_snapshot_observed_at_ns = None,
     last_position_event_observed_at_ns = None\<rparr>"

datatype LossSnapshotStaleReason =
    MissingSnapshot
  | SourceEmpty
  | FutureDated
  | AgeExceeded
  | MissingRequiredField

record LossSnapshotDiagnostics =
  diag_snapshot_present :: bool
  diag_snapshot_observed_at_ns :: "u64 option"
  diag_admission_now_ns :: u64
  diag_snapshot_age_ns :: "u64 option"
  diag_max_snapshot_age_ns :: "u64 option"
  diag_snapshot_source :: "LossSnapshotSource option"
  diag_per_trade_pnl_present :: bool
  diag_daily_pnl_present :: bool
  diag_rolling_pnl_present :: bool
  diag_current_equity_present :: bool
  diag_peak_equity_present :: bool
  diag_last_account_state_observed_at_ns :: "u64 option"
  diag_last_portfolio_snapshot_observed_at_ns :: "u64 option"
  diag_last_position_event_observed_at_ns :: "u64 option"
  diag_stale_reason :: "LossSnapshotStaleReason option"

record LossAdmissionDecision =
  accepted :: bool
  halt_reasons :: "LossHaltReason list"
  diagnostics :: LossSnapshotDiagnostics

definition rejected :: "LossHaltReason \<Rightarrow> LossSnapshotDiagnostics \<Rightarrow> LossAdmissionDecision" where
  "rejected reason diags = \<lparr>accepted = False, halt_reasons = [reason], diagnostics = diags\<rparr>"

definition missing_required_field :: "'d LossGovernorPolicy \<Rightarrow> 'd LossSnapshot \<Rightarrow> bool" where
  "missing_required_field policy snapshot \<longleftrightarrow>
     (max_per_trade_loss policy \<noteq> None \<and> snap_per_trade_pnl snapshot = None) \<or>
     (max_daily_loss policy \<noteq> None \<and> snap_daily_pnl snapshot = None) \<or>
     (max_rolling_loss policy \<noteq> None \<and> snap_rolling_pnl snapshot = None) \<or>
     (max_drawdown policy \<noteq> None \<and> (snap_current_equity snapshot = None \<or> snap_peak_equity snapshot = None))"

definition loss_snapshot_diagnostics :: "'d LossGovernorPolicy \<Rightarrow> 'd LossSnapshot option \<Rightarrow> u64 \<Rightarrow>
    LossSourceObservationTimestamps \<Rightarrow> LossSnapshotDiagnostics" where
  "loss_snapshot_diagnostics policy snapshot now_ns source_observations =
     (case snapshot of
        None \<Rightarrow>
          \<lparr>diag_snapshot_present = False, diag_snapshot_observed_at_ns = None, diag_admission_now_ns = now_ns,
           diag_snapshot_age_ns = None, diag_max_snapshot_age_ns = Some (max_snapshot_age_ns policy),
           diag_snapshot_source = None, diag_per_trade_pnl_present = False, diag_daily_pnl_present = False,
           diag_rolling_pnl_present = False, diag_current_equity_present = False, diag_peak_equity_present = False,
           diag_last_account_state_observed_at_ns = last_account_state_observed_at_ns source_observations,
           diag_last_portfolio_snapshot_observed_at_ns = last_portfolio_snapshot_observed_at_ns source_observations,
           diag_last_position_event_observed_at_ns = last_position_event_observed_at_ns source_observations,
           diag_stale_reason = Some MissingSnapshot\<rparr>
      | Some s \<Rightarrow>
          (let source_empty = snap_source s = None;
               future_dated = now_ns < snap_observed_at_ns s;
               snapshot_age_ns = (if \<not> future_dated then Some (now_ns - snap_observed_at_ns s) else None);
               age_exceeded = (case snapshot_age_ns of Some age \<Rightarrow> max_snapshot_age_ns policy < age | None \<Rightarrow> False);
               stale_reason =
                 (if source_empty then Some SourceEmpty
                  else if future_dated then Some FutureDated
                  else if age_exceeded then Some AgeExceeded
                  else if missing_required_field policy s then Some MissingRequiredField
                  else None)
           in \<lparr>diag_snapshot_present = True, diag_snapshot_observed_at_ns = Some (snap_observed_at_ns s),
               diag_admission_now_ns = now_ns, diag_snapshot_age_ns = snapshot_age_ns,
               diag_max_snapshot_age_ns = Some (max_snapshot_age_ns policy), diag_snapshot_source = snap_source s,
               diag_per_trade_pnl_present = (snap_per_trade_pnl s \<noteq> None),
               diag_daily_pnl_present = (snap_daily_pnl s \<noteq> None),
               diag_rolling_pnl_present = (snap_rolling_pnl s \<noteq> None),
               diag_current_equity_present = (snap_current_equity s \<noteq> None),
               diag_peak_equity_present = (snap_peak_equity s \<noteq> None),
               diag_last_account_state_observed_at_ns = last_account_state_observed_at_ns source_observations,
               diag_last_portfolio_snapshot_observed_at_ns = last_portfolio_snapshot_observed_at_ns source_observations,
               diag_last_position_event_observed_at_ns = last_position_event_observed_at_ns source_observations,
               diag_stale_reason = stale_reason\<rparr>))"

definition loss_snapshot_stale_reason :: "'d LossGovernorPolicy \<Rightarrow> 'd LossSnapshot \<Rightarrow> u64 \<Rightarrow>
    LossSnapshotStaleReason option" where
  "loss_snapshot_stale_reason policy snapshot now_ns =
     (if snap_source snapshot = None then Some SourceEmpty
      else if now_ns < snap_observed_at_ns snapshot then Some FutureDated
      else let age = now_ns - snap_observed_at_ns snapshot in
        if max_snapshot_age_ns policy < age then Some AgeExceeded
        else if missing_required_field policy snapshot then Some MissingRequiredField
        else None)"

definition loss_breaches :: "'d decimal_ops \<Rightarrow> 'd \<Rightarrow> 'd \<Rightarrow> bool" where
  "loss_breaches D pnl limit \<longleftrightarrow> dec_lt D pnl (dec_zero D) \<and> dec_ge D (dec_neg D pnl) limit"

definition drawdown_breaches :: "'d decimal_ops \<Rightarrow> 'd \<Rightarrow> 'd \<Rightarrow> 'd \<Rightarrow> bool option" where
  "drawdown_breaches D current_equity peak_equity limit =
     (if dec_lt D current_equity peak_equity
      then map_option (\<lambda>drop. dec_ge D drop limit) (dec_sub D peak_equity current_equity)
      else Some False)"

text \<open>One arm that pushes a reason when its limit and its figure are both there and the limit is breached.\<close>

definition loss_arm :: "'d decimal_ops \<Rightarrow> LossHaltReason \<Rightarrow> 'd option \<Rightarrow> 'd option \<Rightarrow> LossHaltReason list" where
  "loss_arm D reason limit pnl =
     (case (limit, pnl) of
        (Some l, Some p) \<Rightarrow> if loss_breaches D p l then [reason] else []
      | _ \<Rightarrow> [])"

definition evaluate_loss_admission_with_observations :: "'d decimal_ops \<Rightarrow> 'd LossGovernorPolicy \<Rightarrow>
    'd LossSnapshot option \<Rightarrow> u64 \<Rightarrow> LossSourceObservationTimestamps \<Rightarrow> LossAdmissionDecision option" where
  "evaluate_loss_admission_with_observations D policy snapshot now_ns source_observations =
     (let diags = loss_snapshot_diagnostics policy snapshot now_ns source_observations in
      case snapshot of
        None \<Rightarrow> Some (rejected StaleLossSnapshot diags)
      | Some s \<Rightarrow>
          if diag_stale_reason diags \<noteq> None then Some (rejected StaleLossSnapshot diags)
          else do {
            let pnl_reasons =
              loss_arm D PerTradeLossLimit (max_per_trade_loss policy) (snap_per_trade_pnl s) @
              loss_arm D DailyLossLimit (max_daily_loss policy) (snap_daily_pnl s) @
              loss_arm D RollingLossLimit (max_rolling_loss policy) (snap_rolling_pnl s);
            drawdown \<leftarrow> (case (max_drawdown policy, snap_current_equity s, snap_peak_equity s) of
                (Some limit, Some current, Some peak) \<Rightarrow> drawdown_breaches D current peak limit
              | _ \<Rightarrow> Some False);
            let reasons = pnl_reasons @ (if drawdown then [MaxDrawdownLimit] else []);
            Some \<lparr>accepted = (reasons = []), halt_reasons = reasons, diagnostics = diags\<rparr>
          })"

definition evaluate_loss_admission :: "'d decimal_ops \<Rightarrow> 'd LossGovernorPolicy \<Rightarrow> 'd LossSnapshot option \<Rightarrow>
    u64 \<Rightarrow> LossAdmissionDecision option" where
  "evaluate_loss_admission D policy snapshot now_ns =
     evaluate_loss_admission_with_observations D policy snapshot now_ns
       (case snapshot of None \<Rightarrow> unobserved | Some s \<Rightarrow> snap_source_observations s)"

section \<open>The decision\<close>

text \<open>What an admission promises: a fresh snapshot in which every configured limit is observed and holds.\<close>

definition respected :: "('d \<Rightarrow> rat) \<Rightarrow> 'd option \<Rightarrow> 'd option \<Rightarrow> bool" where
  "respected val limit pnl \<longleftrightarrow>
     (\<forall>l. limit = Some l \<longrightarrow> (\<exists>p. pnl = Some p \<and> (0 \<le> val p \<or> - val p < val l)))"

definition loss_spec :: "('d \<Rightarrow> rat) \<Rightarrow> 'd LossGovernorPolicy \<Rightarrow> 'd LossSnapshot \<Rightarrow> u64 \<Rightarrow> bool" where
  "loss_spec val policy s now_ns \<longleftrightarrow>
     snap_source s \<noteq> None \<and> unat (snap_observed_at_ns s) \<le> unat now_ns \<and>
     unat now_ns \<le> unat (snap_observed_at_ns s) + unat (max_snapshot_age_ns policy) \<and>
     respected val (max_per_trade_loss policy) (snap_per_trade_pnl s) \<and>
     respected val (max_daily_loss policy) (snap_daily_pnl s) \<and>
     respected val (max_rolling_loss policy) (snap_rolling_pnl s) \<and>
     (\<forall>l. max_drawdown policy = Some l \<longrightarrow>
        (\<exists>c p. snap_current_equity s = Some c \<and> snap_peak_equity s = Some p \<and>
          (val p \<le> val c \<or> val p - val c < val l)))"

lemma stale_reason_agrees:
  "diag_stale_reason (loss_snapshot_diagnostics policy (Some s) now_ns obs) =
     loss_snapshot_stale_reason policy s now_ns"
  by (simp add: loss_snapshot_diagnostics_def loss_snapshot_stale_reason_def Let_def)

lemma fresh_iff:
  "loss_snapshot_stale_reason policy s now_ns = None \<longleftrightarrow>
     snap_source s \<noteq> None \<and> unat (snap_observed_at_ns s) \<le> unat now_ns \<and>
     unat now_ns \<le> unat (snap_observed_at_ns s) + unat (max_snapshot_age_ns policy) \<and>
     \<not> missing_required_field policy s"
proof -
  have "unat (now_ns - snap_observed_at_ns s) = unat now_ns - unat (snap_observed_at_ns s)"
    if "snap_observed_at_ns s \<le> now_ns" using that by (rule unat_sub_le)
  then show ?thesis
    by (auto simp: loss_snapshot_stale_reason_def Let_def word_less_nat_alt word_le_nat_alt split: if_splits)
qed

lemma loss_arm_respected:
  assumes "decimal_exact D val" and "limit \<noteq> None \<longrightarrow> pnl \<noteq> None"
  shows "loss_arm D reason limit pnl = [] \<longleftrightarrow> respected val limit pnl"
  using assms(2) by (cases limit; cases pnl)
    (auto simp: loss_arm_def respected_def loss_breaches_def decimal_exactD [OF assms(1)] not_less not_le)

lemma drawdown_respected:
  assumes "decimal_exact D val" and "drawdown_breaches D c p l = Some b"
  shows "b \<longleftrightarrow> \<not> (val p \<le> val c \<or> val p - val c < val l)"
  using assms(2) decimal_exactD(3) [OF assms(1)]
  by (auto simp: drawdown_breaches_def decimal_exactD [OF assms(1)] not_less split: if_splits)

lemma drawdown_arm:
  assumes "decimal_exact D val" and "\<not> missing_required_field policy s"
    and "(case (max_drawdown policy, snap_current_equity s, snap_peak_equity s) of
          (Some limit, Some current, Some peak) \<Rightarrow> drawdown_breaches D current peak limit
        | _ \<Rightarrow> Some False) = Some b"
  shows "\<not> b \<longleftrightarrow> (\<forall>l. max_drawdown policy = Some l \<longrightarrow>
        (\<exists>c p. snap_current_equity s = Some c \<and> snap_peak_equity s = Some p \<and>
          (val p \<le> val c \<or> val p - val c < val l)))"
proof (cases "max_drawdown policy")
  case None
  then show ?thesis using assms(3) by simp
next
  case (Some l)
  with assms(2) obtain c p where cp: "snap_current_equity s = Some c" "snap_peak_equity s = Some p"
    by (auto simp: missing_required_field_def)
  with Some assms(3) have "drawdown_breaches D c p l = Some b" by simp
  from drawdown_respected [OF assms(1) this] show ?thesis using Some cp by simp
qed

lemma stale_not_spec:
  assumes "loss_snapshot_stale_reason policy s now_ns \<noteq> None"
  shows "\<not> loss_spec val policy s now_ns"
proof
  assume l: "loss_spec val policy s now_ns"
  then have "\<not> missing_required_field policy s"
    by (auto simp: loss_spec_def missing_required_field_def respected_def)
  with l have "loss_snapshot_stale_reason policy s now_ns = None"
    unfolding fresh_iff by (simp add: loss_spec_def)
  with assms show False by simp
qed

lemma fresh_admission:
  assumes ex: "decimal_exact D val" and fresh: "loss_snapshot_stale_reason policy s now_ns = None"
    and ev: "evaluate_loss_admission D policy (Some s) now_ns = Some decision"
  shows "(accepted decision \<longleftrightarrow> loss_spec val policy s now_ns) \<and>
    (accepted decision \<longleftrightarrow> halt_reasons decision = []) \<and> diag_stale_reason (diagnostics decision) = None"
proof -
  have m: "\<not> missing_required_field policy s" and f: "snap_source s \<noteq> None"
    "unat (snap_observed_at_ns s) \<le> unat now_ns"
    "unat now_ns \<le> unat (snap_observed_at_ns s) + unat (max_snapshot_age_ns policy)"
    using fresh unfolding fresh_iff by auto
  have w: "loss_arm D r (max_per_trade_loss policy) (snap_per_trade_pnl s) = [] \<longleftrightarrow>
      respected val (max_per_trade_loss policy) (snap_per_trade_pnl s)"
    "loss_arm D r (max_daily_loss policy) (snap_daily_pnl s) = [] \<longleftrightarrow>
      respected val (max_daily_loss policy) (snap_daily_pnl s)"
    "loss_arm D r (max_rolling_loss policy) (snap_rolling_pnl s) = [] \<longleftrightarrow>
      respected val (max_rolling_loss policy) (snap_rolling_pnl s)" for r
    using m by (intro loss_arm_respected [OF ex]; auto simp: missing_required_field_def)+
  obtain b where b: "(case (max_drawdown policy, snap_current_equity s, snap_peak_equity s) of
        (Some limit, Some current, Some peak) \<Rightarrow> drawdown_breaches D current peak limit
      | _ \<Rightarrow> Some False) = Some b"
    and d: "decision = (let reasons =
        (loss_arm D PerTradeLossLimit (max_per_trade_loss policy) (snap_per_trade_pnl s) @
         loss_arm D DailyLossLimit (max_daily_loss policy) (snap_daily_pnl s) @
         loss_arm D RollingLossLimit (max_rolling_loss policy) (snap_rolling_pnl s)) @
        (if b then [MaxDrawdownLimit] else []) in
        \<lparr>accepted = (reasons = []), halt_reasons = reasons,
         diagnostics = loss_snapshot_diagnostics policy (Some s) now_ns (snap_source_observations s)\<rparr>)"
    using ev fresh
    by (auto simp: evaluate_loss_admission_def evaluate_loss_admission_with_observations_def
        stale_reason_agrees Let_def bind_eq_Some_conv)
  show ?thesis using f w drawdown_arm [OF ex m b] d fresh
    by (auto simp: Let_def loss_spec_def stale_reason_agrees)
qed


definition demo_policy :: "int LossGovernorPolicy" where
  "demo_policy = \<lparr>max_snapshot_age_ns = 1000, max_per_trade_loss = Some 10, max_daily_loss = None,
     max_rolling_loss = None, max_drawdown = Some 50\<rparr>"

definition demo_snapshot :: "int LossSnapshot" where
  "demo_snapshot = \<lparr>snap_source = Some NtPortfolioSnapshot, snap_observed_at_ns = 10000,
     snap_per_trade_pnl = Some (- 9), snap_daily_pnl = None, snap_rolling_pnl = None,
     snap_current_equity = Some 960, snap_peak_equity = Some 1000, snap_source_observations = unobserved\<rparr>"


end
