(* ===== verification/RustTrim.thy ===== *)
theory RustTrim
  imports RustStr
begin

text \<open>
  \<open>str::trim\<close>, \<open>str::lines\<close> and the byte tests of the Rust standard library, with the laws the
  components need: a trimmed string neither starts nor ends with white space, and trimming twice
  is trimming once.
\<close>

section \<open>Trimming\<close>

text \<open>The UTF-8 encodings of the characters with the property \<open>White_Space\<close>.\<close>

definition white_space :: "string list" where
  "white_space =
     [[CHR 0x09], [CHR 0x0A], [CHR 0x0B], [CHR 0x0C], [CHR 0x0D], [CHR 0x20],
      [CHR 0xC2, CHR 0x85], [CHR 0xC2, CHR 0xA0], [CHR 0xE1, CHR 0x9A, CHR 0x80],
      [CHR 0xE2, CHR 0x80, CHR 0x80], [CHR 0xE2, CHR 0x80, CHR 0x81], [CHR 0xE2, CHR 0x80, CHR 0x82],
      [CHR 0xE2, CHR 0x80, CHR 0x83], [CHR 0xE2, CHR 0x80, CHR 0x84], [CHR 0xE2, CHR 0x80, CHR 0x85],
      [CHR 0xE2, CHR 0x80, CHR 0x86], [CHR 0xE2, CHR 0x80, CHR 0x87], [CHR 0xE2, CHR 0x80, CHR 0x88],
      [CHR 0xE2, CHR 0x80, CHR 0x89], [CHR 0xE2, CHR 0x80, CHR 0x8A], [CHR 0xE2, CHR 0x80, CHR 0xA8],
      [CHR 0xE2, CHR 0x80, CHR 0xA9], [CHR 0xE2, CHR 0x80, CHR 0xAF], [CHR 0xE2, CHR 0x81, CHR 0x9F],
      [CHR 0xE3, CHR 0x80, CHR 0x80]]"

definition starts_with :: "string \<Rightarrow> string \<Rightarrow> bool" where
  "starts_with w s \<longleftrightarrow> take (length w) s = w"

definition leading :: "string list \<Rightarrow> string \<Rightarrow> string option" where
  "leading ws s = find (\<lambda>w. w \<noteq> [] \<and> starts_with w s) ws"

lemma leading_shorter:
  assumes "leading ws s = Some w"
  shows "length s - length w < length s"
proof -
  have w: "w \<noteq> []" "take (length w) s = w"
    using assms by (auto simp: leading_def starts_with_def find_Some_iff)
  then have "s \<noteq> []" by (metis take_Nil)
  with w(1) show ?thesis by (simp add: diff_less)
qed

text \<open>Remove encodings from the front as long as one is there.\<close>

function strip :: "string list \<Rightarrow> string \<Rightarrow> string" where
  "strip ws s =
     (case leading ws s of
        None \<Rightarrow> s
      | Some w \<Rightarrow> strip ws (drop (length w) s))"
  by pat_completeness auto
termination
  by (relation "measure (\<lambda>(ws, s). length s)") (simp_all add: leading_shorter)

declare strip.simps [simp del]

definition trim :: "string \<Rightarrow> string" where
  "trim s = rev (strip (map rev white_space) (rev (strip white_space s)))"

lemma strip_suffix: "\<exists>p. s = p @ strip ws s"
proof (induction ws s rule: strip.induct)
  case (1 ws s)
  show ?case
  proof (cases "leading ws s")
    case None
    then show ?thesis by (simp add: strip.simps [of ws s])
  next
    case (Some w)
    with 1 obtain p where "drop (length w) s = p @ strip ws (drop (length w) s)" by blast
    then have "s = (take (length w) s @ p) @ strip ws (drop (length w) s)" by (metis append.assoc append_take_drop_id)
    then have "\<exists>p. s = p @ strip ws (drop (length w) s)" by (rule exI)
    then show ?thesis using Some by (simp add: strip.simps [of ws s])
  qed
qed

lemma strip_stops: "leading ws (strip ws s) = None"
proof (induction ws s rule: strip.induct)
  case (1 ws s)
  then show ?case by (cases "leading ws s") (simp_all add: strip.simps [of ws s])
qed

lemma strip_fixed: "leading ws s = None \<Longrightarrow> strip ws s = s"
  by (simp add: strip.simps [of ws s])

lemma leading_prefix: "leading ws (a @ b) = None \<Longrightarrow> leading ws a = None"
  unfolding leading_def find_None_iff starts_with_def by (metis append_take_drop_id length_take min.absorb2 take_append nat_le_linear take_all append.right_neutral diff_is_0_eq take0)

text \<open>Trimming is idempotent, and removes only from the two ends.\<close>

lemma trim_infix: "\<exists>p q. s = p @ trim s @ q"
proof -
  obtain p where p: "s = p @ strip white_space s" using strip_suffix by blast
  obtain q where q: "rev (strip white_space s) = q @ strip (map rev white_space) (rev (strip white_space s))"
    using strip_suffix by blast
  from arg_cong [OF q, of rev] have "strip white_space s = trim s @ rev q" by (simp add: trim_def)
  with p show ?thesis by metis
qed

lemma trim_ends: "leading white_space (trim s) = None" "leading (map rev white_space) (rev (trim s)) = None"
proof -
  obtain q where q: "rev (strip white_space s) = q @ strip (map rev white_space) (rev (strip white_space s))"
    using strip_suffix by blast
  from arg_cong [OF q, of rev] have "strip white_space s = trim s @ rev q" by (simp add: trim_def)
  with strip_stops [of white_space s] show "leading white_space (trim s) = None" by (metis leading_prefix)
  show "leading (map rev white_space) (rev (trim s)) = None" by (simp add: trim_def strip_stops)
qed

lemma trim_trim [simp]: "trim (trim s) = trim s"
  using trim_ends [of s] by (simp add: trim_def [of "trim s"] strip_fixed)

section \<open>Lines\<close>

text \<open>\<open>str::lines\<close>: split at newlines, no empty last piece, and a carriage return before a newline dropped.\<close>

definition drop_cr :: "string \<Rightarrow> string" where
  "drop_cr l = (if l \<noteq> [] \<and> last l = CHR 0x0D then butlast l else l)"

definition str_lines :: "string \<Rightarrow> string list" where
  "str_lines s =
     (let ps = split_on (CHR 0x0A) s in
      map drop_cr (butlast ps) @ (if last ps = [] then [] else [last ps]))"

section \<open>Bytes\<close>

definition is_ascii_digit :: "char \<Rightarrow> bool" where
  "is_ascii_digit c \<longleftrightarrow> (let n = of_char c :: nat in 48 \<le> n \<and> n \<le> 57)"

definition is_ascii_hexdigit :: "char \<Rightarrow> bool" where
  "is_ascii_hexdigit c \<longleftrightarrow>
     (let n = of_char c :: nat in 48 \<le> n \<and> n \<le> 57 \<or> 65 \<le> n \<and> n \<le> 70 \<or> 97 \<le> n \<and> n \<le> 102)"

text \<open>\<open>u64::to_be_bytes\<close>.\<close>

definition to_be_bytes :: "u64 \<Rightarrow> string" where
  "to_be_bytes w = map (\<lambda>i. char_of (unat w div 256 ^ i)) [7, 6, 5, 4, 3, 2, 1, 0]"

end
