(* ===== verification/KillSwitch.thy ===== *)
theory KillSwitch
  imports LossGovernor RustTrim
begin

text \<open>
  The kill switch state machine (\<open>src/src/bolt_v3_kill_switch.rs\<close>): states, events, the transition
  function, the evidence of a manual reset and the identity of a halt. SHA-256 and its hexadecimal
  rendering are a parameter, a function from the hashed bytes to the rendered digest.
\<close>

section \<open>States and events\<close>

text \<open>The kinds are named after the states and events; they are written qualified.\<close>

datatype KillSwitchStateKind =
    Armed | Halting | Halted | Cancelling | Flattening | Flat | FailedManualIntervention

datatype KillSwitchEventKind =
    HaltTriggered | DurableHaltEvidenceRecorded | DurableHaltEvidenceWriteFailed
  | HaltActionDispatchFailed | ReconciliationProofReceived | ManualResetRequested

datatype KillSwitchHaltTriggerKind = LossGovernorBreach | ProviderCollateralAllowanceRuntimeFailure

record KillSwitchHaltTrigger =
  trig_kind :: KillSwitchHaltTriggerKind
  trig_source :: string
  trig_source_timestamp_unix_nanos :: u64
  trig_reason :: string
  trig_loss_halt_reason :: "LossHaltReason option"

datatype KillSwitchState =
    Armed
  | Halting string KillSwitchHaltTrigger
  | Halted string KillSwitchHaltTrigger
  | Cancelling string
  | Flattening string
  | Flat string
  | FailedManualIntervention string string

record KillSwitchManualResetEvidence =
  ev_operator_id :: string
  ev_evidence_path :: string
  ev_evidence_sha256 :: string
  ev_requested_at_unix_nanos :: u64

datatype KillSwitchEvent =
    HaltTriggered KillSwitchHaltTrigger
  | DurableHaltEvidenceRecorded
  | DurableHaltEvidenceWriteFailed string
  | HaltActionDispatchFailed string
  | ReconciliationProofReceived
  | ManualResetRequested KillSwitchManualResetEvidence

definition loss_governor_breach :: "string \<Rightarrow> u64 \<Rightarrow> string \<Rightarrow> KillSwitchHaltTrigger" where
  "loss_governor_breach source timestamp reason =
     \<lparr>trig_kind = LossGovernorBreach, trig_source = source, trig_source_timestamp_unix_nanos = timestamp,
      trig_reason = reason, trig_loss_halt_reason = None\<rparr>"

definition loss_governor_breach_with_reason :: "string \<Rightarrow> u64 \<Rightarrow> string \<Rightarrow> LossHaltReason \<Rightarrow> KillSwitchHaltTrigger" where
  "loss_governor_breach_with_reason source timestamp reason loss_reason =
     \<lparr>trig_kind = LossGovernorBreach, trig_source = source, trig_source_timestamp_unix_nanos = timestamp,
      trig_reason = reason, trig_loss_halt_reason = Some loss_reason\<rparr>"

definition provider_collateral_allowance_runtime_failure :: "string \<Rightarrow> u64 \<Rightarrow> string \<Rightarrow> KillSwitchHaltTrigger" where
  "provider_collateral_allowance_runtime_failure source timestamp reason =
     \<lparr>trig_kind = ProviderCollateralAllowanceRuntimeFailure, trig_source = source,
      trig_source_timestamp_unix_nanos = timestamp, trig_reason = reason, trig_loss_halt_reason = None\<rparr>"

fun state_kind :: "KillSwitchState \<Rightarrow> KillSwitchStateKind" where
  "state_kind Armed = KillSwitchStateKind.Armed"
| "state_kind (Halting _ _) = KillSwitchStateKind.Halting"
| "state_kind (Halted _ _) = KillSwitchStateKind.Halted"
| "state_kind (Cancelling _) = KillSwitchStateKind.Cancelling"
| "state_kind (Flattening _) = KillSwitchStateKind.Flattening"
| "state_kind (Flat _) = KillSwitchStateKind.Flat"
| "state_kind (FailedManualIntervention _ _) = KillSwitchStateKind.FailedManualIntervention"

fun event_kind :: "KillSwitchEvent \<Rightarrow> KillSwitchEventKind" where
  "event_kind (HaltTriggered _) = KillSwitchEventKind.HaltTriggered"
| "event_kind DurableHaltEvidenceRecorded = KillSwitchEventKind.DurableHaltEvidenceRecorded"
| "event_kind (DurableHaltEvidenceWriteFailed _) = KillSwitchEventKind.DurableHaltEvidenceWriteFailed"
| "event_kind (HaltActionDispatchFailed _) = KillSwitchEventKind.HaltActionDispatchFailed"
| "event_kind ReconciliationProofReceived = KillSwitchEventKind.ReconciliationProofReceived"
| "event_kind (ManualResetRequested _) = KillSwitchEventKind.ManualResetRequested"

section \<open>Reset evidence\<close>

datatype KillSwitchManualResetEvidenceError = MissingOperatorId | InvalidEvidencePath | InvalidEvidenceSha256

text \<open>
  \<open>Path::components\<close> on Unix: empty pieces and \<open>.\<close> are dropped, except a leading \<open>.\<close> of a
  relative path.
\<close>

datatype PathComponent = RootDir | CurDir | ParentDir | Normal string

fun later_components :: "string list \<Rightarrow> PathComponent list" where
  "later_components [] = []"
| "later_components (p # ps) =
     (if p = [] \<or> p = ''.'' then later_components ps
      else if p = ''..'' then ParentDir # later_components ps
      else Normal p # later_components ps)"

definition is_absolute :: "string \<Rightarrow> bool" where
  "is_absolute path \<longleftrightarrow> path \<noteq> [] \<and> hd path = CHR ''/''"

definition path_components :: "string \<Rightarrow> PathComponent list" where
  "path_components path =
     (let pieces = split_on (CHR ''/'') path in
      (if is_absolute path then [RootDir] else if hd pieces = ''.'' then [CurDir] else []) @
      later_components pieces)"

definition KillSwitchManualResetEvidence_new :: "string \<Rightarrow> string \<Rightarrow> string \<Rightarrow> u64 \<Rightarrow>
    KillSwitchManualResetEvidenceError + KillSwitchManualResetEvidence" where
  "KillSwitchManualResetEvidence_new operator_id evidence_path evidence_sha256 requested_at =
     (let operator_id = trim operator_id; evidence_path = trim evidence_path;
          evidence_sha256 = trim evidence_sha256 in
      if operator_id = [] then Inl MissingOperatorId
      else if evidence_path = [] \<or> is_absolute evidence_path \<or> ParentDir \<in> set (path_components evidence_path)
      then Inl InvalidEvidencePath
      else if length evidence_sha256 \<noteq> 64 \<or> \<not> list_all is_ascii_hexdigit evidence_sha256
      then Inl InvalidEvidenceSha256
      else Inr \<lparr>ev_operator_id = operator_id, ev_evidence_path = evidence_path,
                ev_evidence_sha256 = evidence_sha256, ev_requested_at_unix_nanos = requested_at\<rparr>)"

text \<open>The digest guard of \<open>src/src/bolt_v3_numeric.rs\<close>.\<close>

definition SHA256_HEX_DIGEST_LEN :: nat where "SHA256_HEX_DIGEST_LEN = 64"

definition is_sha256_hex_digest :: "string \<Rightarrow> bool" where
  "is_sha256_hex_digest value \<longleftrightarrow>
     length value = SHA256_HEX_DIGEST_LEN \<and>
     list_all (\<lambda>c. is_ascii_digit c \<or> (let n = of_char c :: nat in 97 \<le> n \<and> n \<le> 102)) value"

section \<open>Transitions\<close>

record KillSwitchTransitionContext =
  state_write_succeeded :: bool
  durable_halt_evidence_recorded :: bool
  operator_authorized :: bool
  manual_reset_evidence_valid :: bool
  mandatory_proof_streams_fresh :: bool
  no_outstanding_order_risk :: bool
  no_open_positions :: bool
  no_pending_entry_risk :: bool

datatype KillSwitchTransitionError =
    MissingDurableHaltEvidence
  | UnauthorizedManualReset
  | InvalidManualResetEvidence
  | MissingFreshReconciliationProof
  | ReconciliationNotFlat
  | IllegalTransition KillSwitchStateKind KillSwitchEventKind

definition require_clean_reconciliation :: "KillSwitchTransitionContext \<Rightarrow> KillSwitchTransitionError + unit" where
  "require_clean_reconciliation ctx =
     (if \<not> no_outstanding_order_risk ctx \<or> \<not> no_open_positions ctx \<or> \<not> no_pending_entry_risk ctx
      then Inl ReconciliationNotFlat else Inr ())"

definition require_fresh_clean_reconciliation :: "KillSwitchTransitionContext \<Rightarrow> KillSwitchTransitionError + unit" where
  "require_fresh_clean_reconciliation ctx =
     (if \<not> mandatory_proof_streams_fresh ctx then Inl MissingFreshReconciliationProof
      else require_clean_reconciliation ctx)"

definition HALT_ID_DOMAIN :: string where "HALT_ID_DOMAIN = ''bolt_v3.kill_switch.halt_id.v1''"

fun kind_tag :: "KillSwitchHaltTriggerKind \<Rightarrow> string" where
  "kind_tag LossGovernorBreach = ''loss_governor_breach''"
| "kind_tag ProviderCollateralAllowanceRuntimeFailure = ''provider_collateral_allowance_runtime_failure''"

text \<open>The bytes that are hashed.\<close>

definition halt_id_preimage :: "KillSwitchHaltTrigger \<Rightarrow> string" where
  "halt_id_preimage trigger =
     HALT_ID_DOMAIN @ [CHR 0x00] @ kind_tag (trig_kind trigger) @ [CHR 0x00] @ trig_source trigger @
     [CHR 0x00] @ to_be_bytes (trig_source_timestamp_unix_nanos trigger) @ [CHR 0x00] @ trig_reason trigger"

definition halt_id_for_trigger :: "(string \<Rightarrow> string) \<Rightarrow> KillSwitchHaltTrigger \<Rightarrow> string" where
  "halt_id_for_trigger sha256_hex trigger = sha256_hex (halt_id_preimage trigger)"

definition manual_reset :: "KillSwitchTransitionContext \<Rightarrow> KillSwitchTransitionError + KillSwitchState" where
  "manual_reset ctx =
     (if \<not> operator_authorized ctx then Inl UnauthorizedManualReset
      else if \<not> manual_reset_evidence_valid ctx then Inl InvalidManualResetEvidence
      else if \<not> mandatory_proof_streams_fresh ctx then Inl MissingFreshReconciliationProof
      else case require_clean_reconciliation ctx of Inl e \<Rightarrow> Inl e | Inr _ \<Rightarrow> Inr Armed)"

definition transition_kill_switch_state :: "(string \<Rightarrow> string) \<Rightarrow> KillSwitchState \<Rightarrow> KillSwitchEvent \<Rightarrow>
    KillSwitchTransitionContext \<Rightarrow> KillSwitchTransitionError + KillSwitchState" where
  "transition_kill_switch_state sha256_hex state event ctx =
     (case (state, event) of
        (Armed, HaltTriggered trigger) \<Rightarrow> Inr (Halting (halt_id_for_trigger sha256_hex trigger) trigger)
      | (Halting halt_id trigger, DurableHaltEvidenceRecorded) \<Rightarrow>
          if \<not> state_write_succeeded ctx \<or> \<not> durable_halt_evidence_recorded ctx
          then Inl MissingDurableHaltEvidence else Inr (Halted halt_id trigger)
      | (Halting halt_id _, DurableHaltEvidenceWriteFailed reason) \<Rightarrow> Inr (FailedManualIntervention halt_id reason)
      | (Halting halt_id _, HaltActionDispatchFailed reason) \<Rightarrow> Inr (FailedManualIntervention halt_id reason)
      | (Halted halt_id _, ReconciliationProofReceived) \<Rightarrow>
          (case require_fresh_clean_reconciliation ctx of Inl e \<Rightarrow> Inl e | Inr _ \<Rightarrow> Inr (Flat halt_id))
      | (Flat _, ManualResetRequested _) \<Rightarrow> manual_reset ctx
      | (FailedManualIntervention _ _, ManualResetRequested _) \<Rightarrow> manual_reset ctx
      | _ \<Rightarrow> Inl (IllegalTransition (state_kind state) (event_kind event)))"

section \<open>Halts are latched\<close>

fun halt_id_of :: "KillSwitchState \<Rightarrow> string option" where
  "halt_id_of Armed = None"
| "halt_id_of (Halting h _) = Some h"
| "halt_id_of (Halted h _) = Some h"
| "halt_id_of (Cancelling h) = Some h"
| "halt_id_of (Flattening h) = Some h"
| "halt_id_of (Flat h) = Some h"
| "halt_id_of (FailedManualIntervention h _) = Some h"

text \<open>The events are delivered in order; a refused event leaves the state as it was.\<close>

fun kill_switch_run :: "(string \<Rightarrow> string) \<Rightarrow> KillSwitchState \<Rightarrow>
    (KillSwitchEvent \<times> KillSwitchTransitionContext) list \<Rightarrow> KillSwitchState" where
  "kill_switch_run sha s [] = s"
| "kill_switch_run sha s ((e, ctx) # es) =
     (case transition_kill_switch_state sha s e ctx of
        Inl _ \<Rightarrow> kill_switch_run sha s es
      | Inr s' \<Rightarrow> kill_switch_run sha s' es)"

definition authorised_clean_reset :: "KillSwitchEvent \<times> KillSwitchTransitionContext \<Rightarrow> bool" where
  "authorised_clean_reset x \<longleftrightarrow>
     (\<exists>evidence. fst x = ManualResetRequested evidence) \<and> operator_authorized (snd x) \<and>
     manual_reset_evidence_valid (snd x) \<and> mandatory_proof_streams_fresh (snd x) \<and>
     no_outstanding_order_risk (snd x) \<and> no_open_positions (snd x) \<and> no_pending_entry_risk (snd x)"

lemmas transition_defs =
  transition_kill_switch_state_def manual_reset_def require_fresh_clean_reconciliation_def
  require_clean_reconciliation_def

lemma transition_keeps_halt:
  assumes "transition_kill_switch_state sha s e ctx = Inr s'" and "halt_id_of s = Some h"
    and "\<not> authorised_clean_reset (e, ctx)"
  shows "halt_id_of s' = Some h"
  using assms
  by (cases s; cases e) (auto simp: transition_defs authorised_clean_reset_def split: if_splits)

text \<open>
  C16. A halt is latched. Whatever events follow, a halted kill switch keeps the identity of its
  halt, and so is not armed, until a manual reset is requested that is authorised, has valid
  evidence, and meets fresh proof streams without outstanding orders, open positions or pending
  entries.
\<close>

theorem halt_is_latched:
  assumes "halt_id_of s = Some h" and "\<forall>x \<in> set es. \<not> authorised_clean_reset x"
  shows "halt_id_of (kill_switch_run sha s es) = Some h \<and> kill_switch_run sha s es \<noteq> Armed"
proof -
  have "halt_id_of (kill_switch_run sha s es) = Some h"
    using assms
  proof (induction es arbitrary: s)
    case (Cons x es)
    obtain e ctx where x: "x = (e, ctx)" by (cases x)
    show ?case
    proof (cases "transition_kill_switch_state sha s e ctx")
      case (Inl err)
      then show ?thesis using Cons x by simp
    next
      case (Inr s')
      have "halt_id_of s' = Some h" using transition_keeps_halt [OF Inr Cons.prems(1)] Cons.prems(2) x by simp
      then show ?thesis using Cons Inr x by simp
    qed
  qed simp
  then show ?thesis by (metis halt_id_of.simps(1) option.distinct(1))
qed

definition demo_trigger :: KillSwitchHaltTrigger where
  "demo_trigger = loss_governor_breach ''feed'' 5 ''limit''"

definition inert_transition_context :: KillSwitchTransitionContext where
  "inert_transition_context = \<lparr>state_write_succeeded = False, durable_halt_evidence_recorded = False, operator_authorized = False,
     manual_reset_evidence_valid = False, mandatory_proof_streams_fresh = False, no_outstanding_order_risk = False,
     no_open_positions = False, no_pending_entry_risk = False\<rparr>"

theorem halt_is_latched_witness:
  "halt_id_of (kill_switch_run id (Halting ''h'' demo_trigger)
      [(DurableHaltEvidenceRecorded, inert_transition_context\<lparr>state_write_succeeded := True, durable_halt_evidence_recorded := True\<rparr>),
       (HaltTriggered demo_trigger, inert_transition_context)]) = Some ''h''"
  using halt_is_latched [of "Halting ''h'' demo_trigger" "''h''"
      "[(DurableHaltEvidenceRecorded, inert_transition_context\<lparr>state_write_succeeded := True, durable_halt_evidence_recorded := True\<rparr>),
       (HaltTriggered demo_trigger, inert_transition_context)]" id]
  by (simp add: authorised_clean_reset_def)

section \<open>Reachable states\<close>

inductive kill_switch_reachable :: "(string \<Rightarrow> string) \<Rightarrow> KillSwitchState \<Rightarrow> bool" for sha where
  start: "kill_switch_reachable sha Armed"
| step: "kill_switch_reachable sha s \<Longrightarrow> transition_kill_switch_state sha s e ctx = Inr s' \<Longrightarrow>
    kill_switch_reachable sha s'"

lemma transition_kinds:
  assumes "transition_kill_switch_state sha s e ctx = Inr s'"
  shows "(\<forall>h. s' \<noteq> Cancelling h) \<and> (\<forall>h. s' \<noteq> Flattening h)"
  using assms by (cases s; cases e) (auto simp: transition_defs split: if_splits)

lemma reachable_kinds:
  assumes "kill_switch_reachable sha s"
  shows "(\<forall>h. s \<noteq> Cancelling h) \<and> (\<forall>h. s \<noteq> Flattening h)"
  using assms by (cases rule: kill_switch_reachable.cases) (auto dest: transition_kinds)

lemma reachable_halt_identity:
  assumes "kill_switch_reachable sha s" and "s = Halting h t \<or> s = Halted h t"
  shows "h = halt_id_for_trigger sha t"
  using assms
proof (induction arbitrary: h t rule: kill_switch_reachable.induct)
  case (step s e ctx s')
  then show ?case by (cases s; cases e) (auto simp: transition_defs split: if_splits)
qed simp

section \<open>Identity of a halt\<close>

lemma char_of_eq_iff: "char_of a = char_of b \<longleftrightarrow> a mod 256 = (b :: nat) mod 256"
proof
  assume "char_of a = char_of b"
  then have "of_char (char_of a) = (of_char (char_of b) :: nat)" by simp
  then show "a mod 256 = b mod 256" by (simp only: of_char_of)
next
  assume "a mod 256 = b mod 256"
  then have "char_of (a mod 256) = char_of (b mod 256)" by simp
  then show "char_of a = char_of b" by (simp only: char_of_mod_256)
qed

lemma digits_256_eq:
  assumes "\<forall>i < k. a div 256 ^ i mod 256 = (b :: nat) div 256 ^ i mod 256"
  shows "a mod 256 ^ k = b mod 256 ^ k"
  using assms
proof (induction k)
  case (Suc k)
  have "x mod 256 ^ Suc k = 256 ^ k * (x div 256 ^ k mod 256) + x mod 256 ^ k" for x :: nat
    by (metis mod_mult2_eq power_Suc2)
  with Suc show ?case by simp
qed simp

lemma to_be_bytes_inj: "to_be_bytes a = to_be_bytes b \<longleftrightarrow> a = b"
proof
  assume "to_be_bytes a = to_be_bytes b"
  then have d: "\<forall>i \<in> {7, 6, 5, 4, 3, 2, 1, 0}. unat a div 256 ^ i mod 256 = unat b div 256 ^ i mod 256"
    by (simp only: to_be_bytes_def list.map list.inject char_of_eq_iff ball_simps simp_thms)
  have "unat a mod 256 ^ 8 = unat b mod 256 ^ 8"
  proof (rule digits_256_eq, intro allI impI)
    fix i :: nat assume "i < 8"
    then have "i \<in> {7, 6, 5, 4, 3, 2, 1, 0}" by auto
    with d show "unat a div 256 ^ i mod 256 = unat b div 256 ^ i mod 256" by (rule bspec)
  qed
  moreover have "unat x mod 256 ^ 8 = unat x" for x :: u64 using unat_u64_bound [of x] by simp
  ultimately have "unat a = unat b" by simp
  then show "a = b" by (simp only: word_unat_eq_iff)
qed simp

lemma length_to_be_bytes: "length (to_be_bytes a) = 8"
  by (simp only: to_be_bytes_def length_map) simp

lemma sep_eq:
  fixes d :: char
  assumes "d \<notin> set a" and "d \<notin> set a'"
  shows "a @ d # b = a' @ d # b' \<longleftrightarrow> a = a' \<and> b = b'"
proof
  assume "a @ d # b = a' @ d # b'"
  then have "Some (a, b) = Some (a', b')"
    using split_once_sep [OF assms(1), of b] split_once_sep [OF assms(2), of b'] by (simp only:)
  then show "a = a' \<and> b = b'" by simp
qed simp

lemma kind_tag_free: "CHR 0x00 \<notin> set (kind_tag k)"
  by (cases k) simp_all

lemma kind_tag_inj: "kind_tag k = kind_tag k' \<longleftrightarrow> k = k'"
  by (cases k; cases k') simp_all

lemma stamp_eq_iff:
  "to_be_bytes m @ d # r = to_be_bytes m' @ d # r' \<longleftrightarrow> m = m' \<and> r = r'"
proof -
  have "to_be_bytes m @ d # r = to_be_bytes m' @ d # r' \<longleftrightarrow>
      to_be_bytes m = to_be_bytes m' \<and> d # r = d # r'"
    by (rule append_eq_append_conv) (simp only: length_to_be_bytes simp_thms)
  then show ?thesis by (simp only: to_be_bytes_inj list.inject simp_thms)
qed

lemma preimage_eq_iff:
  assumes "CHR 0x00 \<notin> set (trig_source t)" and "CHR 0x00 \<notin> set (trig_source t')"
  shows "halt_id_preimage t = halt_id_preimage t' \<longleftrightarrow>
    trig_kind t = trig_kind t' \<and> trig_source t = trig_source t' \<and>
    trig_source_timestamp_unix_nanos t = trig_source_timestamp_unix_nanos t' \<and> trig_reason t = trig_reason t'"
  by (simp only: halt_id_preimage_def append_Cons append_Nil same_append_eq list.inject simp_thms
      sep_eq [OF kind_tag_free kind_tag_free] sep_eq [OF assms] stamp_eq_iff kind_tag_inj)

text \<open>
  Halts have distinct identities. For triggers whose source names have no NUL byte, equal hashed
  bytes mean equal kind, source, time stamp and reason; so with a digest without collisions on
  these bytes two halts share an identity exactly when they agree in these four.
\<close>

theorem halt_id_identifies:
  assumes "CHR 0x00 \<notin> set (trig_source t)" and "CHR 0x00 \<notin> set (trig_source t')"
    and "inj_on sha {halt_id_preimage t, halt_id_preimage t'}"
  shows "halt_id_for_trigger sha t = halt_id_for_trigger sha t' \<longleftrightarrow>
    trig_kind t = trig_kind t' \<and> trig_source t = trig_source t' \<and>
    trig_source_timestamp_unix_nanos t = trig_source_timestamp_unix_nanos t' \<and> trig_reason t = trig_reason t'"
  (is "?id \<longleftrightarrow> ?same")
proof -
  have "?id \<longleftrightarrow> halt_id_preimage t = halt_id_preimage t'"
    unfolding halt_id_for_trigger_def by (rule inj_on_eq_iff [OF assms(3)]) simp_all
  also have "\<dots> \<longleftrightarrow> ?same" by (rule preimage_eq_iff [OF assms(1,2)])
  finally show ?thesis .
qed

theorem halt_id_identifies_witness:
  "halt_id_for_trigger id demo_trigger \<noteq> halt_id_for_trigger id (demo_trigger\<lparr>trig_source_timestamp_unix_nanos := 6\<rparr>)"
  using halt_id_identifies [of demo_trigger "demo_trigger\<lparr>trig_source_timestamp_unix_nanos := 6\<rparr>" id]
  by (simp add: demo_trigger_def loss_governor_breach_def)

section \<open>Reset evidence stays below its root\<close>

text \<open>Following a path from a directory, given by its components.\<close>

fun follow :: "string list \<Rightarrow> PathComponent list \<Rightarrow> string list" where
  "follow dir [] = dir"
| "follow dir (RootDir # cs) = follow [] cs"
| "follow dir (CurDir # cs) = follow dir cs"
| "follow dir (ParentDir # cs) = follow (butlast dir) cs"
| "follow dir (Normal name # cs) = follow (dir @ [name]) cs"

lemma follow_below:
  assumes "RootDir \<notin> set cs" and "ParentDir \<notin> set cs"
  shows "\<exists>rest. follow dir cs = dir @ rest"
  using assms by (induction dir cs rule: follow.induct) auto

lemma later_no_root: "RootDir \<notin> set (later_components ps)"
  by (induction ps) auto

text \<open>
  Reset evidence is well formed. Accepted evidence names an operator, its path followed from any
  directory stays below that directory, its digest has 64 hexadecimal digits, all three fields
  are trimmed, and accepting it again changes nothing.
\<close>

theorem reset_evidence_well_formed:
  assumes "KillSwitchManualResetEvidence_new operator path digest requested = Inr e"
  shows "ev_operator_id e \<noteq> [] \<and>
    (\<exists>rest. follow dir (path_components (ev_evidence_path e)) = dir @ rest) \<and>
    length (ev_evidence_sha256 e) = 64 \<and> list_all is_ascii_hexdigit (ev_evidence_sha256 e) \<and>
    KillSwitchManualResetEvidence_new (ev_operator_id e) (ev_evidence_path e) (ev_evidence_sha256 e) requested = Inr e"
proof -
  have e: "e = \<lparr>ev_operator_id = trim operator, ev_evidence_path = trim path, ev_evidence_sha256 = trim digest,
      ev_requested_at_unix_nanos = requested\<rparr>"
    and ok: "trim operator \<noteq> []" "trim path \<noteq> []" "\<not> is_absolute (trim path)"
      "ParentDir \<notin> set (path_components (trim path))" "length (trim digest) = 64"
      "list_all is_ascii_hexdigit (trim digest)"
    using assms by (auto simp: KillSwitchManualResetEvidence_new_def Let_def split: if_splits)
  have "RootDir \<notin> set (path_components (trim path))"
    using ok(3) by (simp add: path_components_def Let_def later_no_root)
  from follow_below [OF this ok(4)] show ?thesis
    using ok by (simp add: e KillSwitchManualResetEvidence_new_def)
qed

definition upper_digest :: string where "upper_digest = replicate 64 (CHR ''A'')"

lemma upper_digest_trim: "trim upper_digest = upper_digest"
  by (simp add: trim_def strip.simps leading_def starts_with_def white_space_def upper_digest_def numeral_eq_Suc)

lemma evidence_example:
  "KillSwitchManualResetEvidence_new ''op'' ''a/./b'' upper_digest 7 =
     Inr \<lparr>ev_operator_id = ''op'', ev_evidence_path = ''a/./b'', ev_evidence_sha256 = upper_digest,
       ev_requested_at_unix_nanos = 7\<rparr>"
proof -
  have t: "trim ''op'' = ''op''" "trim ''a/./b'' = ''a/./b''"
    by (simp_all add: trim_def strip.simps leading_def starts_with_def white_space_def)
  have "list_all is_ascii_hexdigit upper_digest" "length upper_digest = 64"
    by (simp_all add: upper_digest_def list_all_iff is_ascii_hexdigit_def)
  then show ?thesis
    by (simp add: KillSwitchManualResetEvidence_new_def t upper_digest_trim is_absolute_def path_components_def)
qed

theorem reset_evidence_well_formed_witness:
  "\<exists>e. KillSwitchManualResetEvidence_new ''op'' ''a/./b'' upper_digest 7 = Inr e \<and>
     (\<exists>rest. follow [''var''] (path_components (ev_evidence_path e)) = [''var''] @ rest)"
  using reset_evidence_well_formed [OF evidence_example, of "[''var'']"] evidence_example by blast

text \<open>The digest check of the evidence is wider than the digest guard: it takes upper-case digits.\<close>

lemma evidence_digest_is_wider:
  "\<exists>e. KillSwitchManualResetEvidence_new ''op'' ''a/./b'' upper_digest 7 = Inr e \<and>
     \<not> is_sha256_hex_digest (ev_evidence_sha256 e)"
proof -
  have "\<not> is_sha256_hex_digest upper_digest"
    by (simp add: is_sha256_hex_digest_def upper_digest_def list_all_iff is_ascii_digit_def)
  with evidence_example show ?thesis by auto
qed

end
