(* ===== verification/NtTypes.thy ===== *)
theory NtTypes
  imports OrderedMap "HOL-Library.Product_Lexorder"
begin

text \<open>
  The enumerations of the trading library that the sources compare against: the variants the
  sources name, and one constructor for every other variant. Identifiers of the library are a type
  variable with a linear order, since the sources only compare them and use them as map keys.
\<close>

datatype OrderStatus =
    PendingCancel | Expired | Filled | Accepted | Rejected | PartiallyFilled | OtherStatus nat

datatype PositionSide = Long | Short | FlatSide | NoPositionSide | OtherPositionSide nat

datatype OrderSide = Buy | Sell | OtherOrderSide nat

datatype TradingState = Reducing | OtherTradingState nat

datatype OrderType =
    Market | Limit | StopMarket | StopLimit | MarketIfTouched | LimitIfTouched | TrailingStopMarket
  | MarketToLimit | TrailingStopLimit | OtherOrderType nat

datatype TimeInForce = Gtd | OtherTimeInForce nat

section \<open>Entries of an ordered map\<close>

text \<open>\<open>map.entry(k).or_insert(v)\<close> and \<open>map.entry(k).and_modify(f).or_insert(v)\<close>.\<close>

definition entry_or_insert :: "'k::linorder \<Rightarrow> 'v \<Rightarrow> ('k, 'v) btree_map \<Rightarrow> ('k, 'v) btree_map" where
  "entry_or_insert k v m = (case bt_get m k of None \<Rightarrow> bt_insert k v m | Some _ \<Rightarrow> m)"

definition entry_modify_or_insert :: "'k::linorder \<Rightarrow> ('v \<Rightarrow> 'v) \<Rightarrow> 'v \<Rightarrow> ('k, 'v) btree_map \<Rightarrow> ('k, 'v) btree_map" where
  "entry_modify_or_insert k f v m =
     (case bt_get m k of None \<Rightarrow> bt_insert k v m | Some x \<Rightarrow> bt_insert k (f x) m)"

lemma invar_entry [simp]:
  "bt_invar m \<Longrightarrow> bt_invar (entry_or_insert k v m)"
  "bt_invar m \<Longrightarrow> bt_invar (entry_modify_or_insert k f v m)"
  by (simp_all add: entry_or_insert_def entry_modify_or_insert_def btm.invar_insert split: option.split)

lemma get_entry_or_insert:
  "bt_invar m \<Longrightarrow> bt_get (entry_or_insert k v m) k' =
     (if k' = k \<and> bt_get m k = None then Some v else bt_get m k')"
  by (auto simp: entry_or_insert_def btm.get_insert split: option.split)

lemma get_entry_modify_or_insert:
  "bt_invar m \<Longrightarrow> bt_get (entry_modify_or_insert k f v m) k' =
     (if k' = k then Some (case bt_get m k of None \<Rightarrow> v | Some x \<Rightarrow> f x) else bt_get m k')"
  by (auto simp: entry_modify_or_insert_def btm.get_insert split: option.split)

lemma bt_invar_Nil [simp]: "bt_invar []" by (simp add: bt_invar_def)

lemma bt_get_Nil [simp]: "bt_get [] k = None" by (simp add: bt_get_def)

lemma bt_values_iff: "bt_invar m \<Longrightarrow> v \<in> set (bt_values m) \<longleftrightarrow> (\<exists>k. bt_get m k = Some v)"
  by (auto simp: bt_values_def btm.entries_get [symmetric] intro: rev_image_eqI)

text \<open>Keeping the first value of each key: the map built by \<open>or_insert\<close> over a list.\<close>

definition first_by :: "('v \<Rightarrow> 'k::linorder) \<Rightarrow> 'v list \<Rightarrow> ('k, 'v) btree_map" where
  "first_by key xs = foldl (\<lambda>m x. entry_or_insert (key x) x m) [] xs"

lemma foldl_first_by:
  assumes "bt_invar m"
  shows "bt_invar (foldl (\<lambda>m x. entry_or_insert (key x) x m) m xs) \<and>
    bt_get (foldl (\<lambda>m x. entry_or_insert (key x) x m) m xs) k =
      (case bt_get m k of Some v \<Rightarrow> Some v | None \<Rightarrow> find (\<lambda>x. key x = k) xs)"
  using assms by (induction xs arbitrary: m) (auto simp: get_entry_or_insert split: option.split)

lemma first_by_invar [simp]: "bt_invar (first_by key xs)"
  unfolding first_by_def using foldl_first_by [of "[]" key xs] by simp

lemma first_by_get: "bt_get (first_by key xs) k = find (\<lambda>x. key x = k) xs"
  unfolding first_by_def using foldl_first_by [of "[]" key xs k] by simp

lemma first_by_values:
  "v \<in> set (bt_values (first_by key xs)) \<longleftrightarrow> find (\<lambda>x. key x = key v) xs = Some v"
  by (auto simp: bt_values_iff first_by_get find_Some_iff)

lemma first_by_keys: "key ` set (bt_values (first_by key xs)) = key ` set xs"
proof (intro set_eqI iffI)
  fix k assume "k \<in> key ` set xs"
  then obtain v where v: "find (\<lambda>x. key x = k) xs = Some v" by (metis (mono_tags, lifting) find_None_iff imageE option.exhaust)
  then have "key v = k" by (auto simp: find_Some_iff)
  with v show "k \<in> key ` set (bt_values (first_by key xs))" by (auto simp: first_by_values intro!: rev_image_eqI)
next
  fix k assume "k \<in> key ` set (bt_values (first_by key xs))"
  then obtain v where "find (\<lambda>x. key x = key v) xs = Some v" "k = key v" by (auto simp: first_by_values)
  then show "k \<in> key ` set xs" by (auto simp: find_Some_iff)
qed

lemma first_by_distinct: "distinct (map key (bt_values (first_by key xs)))"
proof -
  have "map key (bt_values (first_by key xs)) = map fst (first_by key xs)"
  proof -
    have "key v = k" if "(k, v) \<in> set (first_by key xs)" for k v
      using that by (auto simp: btm.entries_get first_by_get find_Some_iff)
    then show ?thesis by (auto simp: bt_values_def)
  qed
  then show ?thesis using btm.entries_keys [OF first_by_invar, of key xs] by simp
qed

end
