(* ===== verification/RustResult.thy ===== *)
theory RustResult
  imports Prelude
begin

text \<open>
  Results of the source as sums with \<^term>\<open>Inl\<close> the error: the \<open>?\<close> operator, \<open>ensure!\<close> and
  \<open>ok_or\<close>.
\<close>

fun and_then :: "'e + 'a \<Rightarrow> ('a \<Rightarrow> 'e + 'b) \<Rightarrow> 'e + 'b" where
  "and_then (Inl e) f = Inl e"
| "and_then (Inr x) f = f x"

definition ensure :: "bool \<Rightarrow> 'e \<Rightarrow> 'e + unit" where
  "ensure b e = (if b then Inr () else Inl e)"

definition ok_or :: "'a option \<Rightarrow> 'e \<Rightarrow> 'e + 'a" where
  "ok_or v e = (case v of None \<Rightarrow> Inl e | Some x \<Rightarrow> Inr x)"

definition is_ok :: "'e + 'a \<Rightarrow> bool" where
  "is_ok r \<longleftrightarrow> (\<exists>x. r = Inr x)"

lemma is_ok_simps [simp]: "is_ok (Inr x)" "\<not> is_ok (Inl e)"
  by (simp_all add: is_ok_def)

lemma and_then_Inr: "and_then r f = Inr y \<longleftrightarrow> (\<exists>x. r = Inr x \<and> f x = Inr y)"
  by (cases r) auto

lemma ensure_Inr [simp]: "ensure b e = Inr u \<longleftrightarrow> b"
  by (simp add: ensure_def)

lemma ok_or_Inr [simp]: "ok_or v e = Inr x \<longleftrightarrow> v = Some x"
  by (simp add: ok_or_def split: option.split)

lemma is_ok_ensure [simp]: "is_ok (ensure b e) \<longleftrightarrow> b"
  by (simp add: ensure_def)

lemma is_ok_ok_or [simp]: "is_ok (ok_or v e) \<longleftrightarrow> v \<noteq> None"
  by (simp add: ok_or_def split: option.split)

lemma is_ok_and_then_unit [simp]: "is_ok (and_then r f) \<longleftrightarrow> is_ok r \<and> is_ok (f ())" for r :: "'e + unit"
  by (cases r) auto

lemma is_ok_and_then: "is_ok (and_then r f) \<longleftrightarrow> (\<exists>x. r = Inr x \<and> is_ok (f x))"
  by (cases r) auto

lemma is_ok_unit: "is_ok r \<longleftrightarrow> r = Inr ()" for r :: "'e + unit"
  by (simp add: is_ok_def)

end
