(* ===== verification/OutcomeFiling.thy ===== *)
theory OutcomeFiling
  imports NtTypes RustResult
begin

text \<open>
  Filing outcomes by identity and keeping the worst, as the cancel and the flatten supervisors of
  the kill switch do: outcomes of unknown identities are refused, and a second outcome of an
  identity is merged into the first. The contract \<open>graded_outcomes\<close> says that merging keeps the
  worse grade.
\<close>

fun file_by :: "('o \<Rightarrow> 'o \<Rightarrow> 'o) \<Rightarrow> 'e \<Rightarrow> ('i::linorder) set \<Rightarrow> ('i, 'o) btree_map \<Rightarrow> ('i \<times> 'o) list \<Rightarrow> 'e + ('i, 'o) btree_map" where
  "file_by worse err expected m [] = Inr m"
| "file_by worse err expected m ((i, x) # rest) =
     (if i \<notin> expected then Inl err
      else file_by worse err expected (entry_modify_or_insert i (\<lambda>existing. worse existing x) x m) rest)"

lemma file_by_Inl: "file_by worse err X m es = Inl e \<longleftrightarrow> e = err \<and> \<not> fst ` set es \<subseteq> X"
  by (induction worse err X m es rule: file_by.induct) auto

lemma file_by_cases:
  obtains (unknown) "\<not> fst ` set es \<subseteq> X" and "file_by worse err X m es = Inl err"
  | (filed) m' where "fst ` set es \<subseteq> X" and "file_by worse err X m es = Inr m'"
  using file_by_Inl [of worse err X m es] by (cases "file_by worse err X m es") auto

text \<open>The grades reported for an identity, and the worst of them.\<close>

definition grades_of :: "('o \<Rightarrow> 'r) \<Rightarrow> 'i \<Rightarrow> ('i \<times> 'o) list \<Rightarrow> 'r list" where
  "grades_of grade i es = map (\<lambda>e. grade (snd e)) (filter (\<lambda>e. fst e = i) es)"

definition worst_grade :: "'r::linorder \<Rightarrow> ('o \<Rightarrow> 'r) \<Rightarrow> 'i \<Rightarrow> ('i \<times> 'o) list \<Rightarrow> 'r" where
  "worst_grade missing grade i es =
     (if grades_of grade i es = [] then missing else Max (set (grades_of grade i es)))"

lemma Max_insert_max: "finite A \<Longrightarrow> Max (insert (max a b) A) = Max (insert a (insert b A))" for a :: "'r::linorder"
  by (cases "A = {}") (simp_all add: max.assoc)

lemma foldl_max: "foldl (\<lambda>r x. max r (f x)) r xs = Max (insert r (f ` set xs))" for r :: "'r::linorder"
  by (induction xs arbitrary: r) (simp_all add: Max_insert_max del: Max_insert)

lemma Max_insert_least:
  assumes "Max (insert r A) = r" and "finite A" and "x \<in> A" and "\<And>y. r \<le> y"
  shows "x = r"
  using assms Max_ge [of "insert r A" x] by (auto intro: order.antisym)

lemma worst_grade_least:
  assumes "worst_grade missing grade i es = r" and "\<And>y. r \<le> y" and "missing \<noteq> r"
  shows "i \<in> fst ` set es" and "(i, x) \<in> set es \<Longrightarrow> grade x = r"
proof -
  have ne: "grades_of grade i es \<noteq> []" and mx: "Max (set (grades_of grade i es)) = r"
    using assms by (auto simp: worst_grade_def split: if_splits)
  then obtain j y where "(j, y) \<in> set es" "j = i" by (auto simp: grades_of_def filter_empty_conv)
  then show "i \<in> fst ` set es" by force
  show "grade x = r" if "(i, x) \<in> set es"
  proof -
    have "grade x \<in> set (grades_of grade i es)" using that by (force simp: grades_of_def)
    then have "grade x \<le> r" using mx Max_ge [of "set (grades_of grade i es)" "grade x"] by simp
    then show ?thesis using assms(2) by (rule order.antisym)
  qed
qed

fun fold_grade :: "('r::linorder) option \<Rightarrow> 'r list \<Rightarrow> 'r option" where
  "fold_grade r [] = r"
| "fold_grade None (x # xs) = fold_grade (Some x) xs"
| "fold_grade (Some r) (x # xs) = fold_grade (Some (max r x)) xs"

lemma fold_grade_Some: "fold_grade (Some r) xs = Some (Max (insert r (set xs)))"
  by (induction xs arbitrary: r) (simp_all add: Max_insert_max del: Max_insert)

lemma fold_grade_None: "fold_grade None xs = (if xs = [] then None else Some (Max (set xs)))"
  by (cases xs) (simp_all add: fold_grade_Some)

locale graded_outcomes =
  fixes grade :: "'o \<Rightarrow> 'r::linorder" and worse :: "'o \<Rightarrow> 'o \<Rightarrow> 'o"
  assumes grade_worse: "grade (worse a b) = max (grade a) (grade b)"
begin

lemma file_by_grade:
  assumes "file_by worse err X m es = Inr m'" and "bt_invar m"
  shows "map_option grade (bt_get m' i) = fold_grade (map_option grade (bt_get m i)) (grades_of grade i es)"
  using assms
proof (induction es arbitrary: m)
  case (Cons e es)
  obtain j x where e: "e = (j, x)" by (cases e)
  let ?m = "entry_modify_or_insert j (\<lambda>existing. worse existing x) x m"
  have "file_by worse err X ?m es = Inr m'" using Cons.prems(1) by (simp add: e split: if_splits)
  then have ih: "map_option grade (bt_get m' i) = fold_grade (map_option grade (bt_get ?m i)) (grades_of grade i es)"
    using Cons.IH Cons.prems(2) by simp
  show ?case
  proof (cases "j = i")
    case True
    then show ?thesis using ih Cons.prems(2)
      by (cases "bt_get m i") (simp_all add: e grades_of_def get_entry_modify_or_insert grade_worse)
  next
    case False
    then show ?thesis using ih Cons.prems(2) by (auto simp: e grades_of_def get_entry_modify_or_insert)
  qed
qed (simp add: grades_of_def)

lemma filed_worst:
  assumes "file_by worse err X [] es = Inr m"
  shows "(case bt_get m i of None \<Rightarrow> missing | Some x \<Rightarrow> grade x) = worst_grade missing grade i es"
  using file_by_grade [OF assms, of i]
  by (auto simp: worst_grade_def fold_grade_None split: option.splits if_splits)

end

end
