(* ===== verification/KillSwitchCancel.thy ===== *)
theory KillSwitchCancel
  imports KillSwitch OutcomeFiling
begin

text \<open>
  The cancel supervisor of the kill switch (\<open>src/src/bolt_v3_kill_switch_cancel.rs\<close>): the snapshot
  of orders at risk, the dry-run cancel plan over it, and the aggregation of the attempts'
  outcomes. The checked constructors of the trading library's identifiers and its test for a closed
  order are parameters.
\<close>

section \<open>Orders at risk\<close>

datatype BoltV3KillSwitchOutstandingOrderRiskSurface =
    Open
  | Inflight
  | PendingCancel
  | Emulated
  | AlgorithmManaged
  | Contingent
  | AcceptedButNotTerminal

definition MANDATORY_OUTSTANDING_ORDER_RISK_SURFACES :: "BoltV3KillSwitchOutstandingOrderRiskSurface list" where
  "MANDATORY_OUTSTANDING_ORDER_RISK_SURFACES =
     [Open, Inflight, PendingCancel, Emulated, AlgorithmManaged, Contingent, AcceptedButNotTerminal]"

datatype BoltV3KillSwitchCancelError =
    MissingActionId
  | InvalidConfigSha256
  | InvalidPolicySha256
  | InvalidScope
  | InvalidAccountId
  | InvalidInstrumentId
  | InvalidStrategyId
  | InvalidClientOrderId
  | MissingSourceTimestamp
  | MissingObservationTimestamp
  | MissingCandidates
  | MissingMandatorySurfacePolicy
  | MissingMandatorySurfaceProof
  | FailedManualInterventionRequired
  | KillSwitchStateNotCancelling
  | InvalidOutcomeOrderStatus
  | UnknownOutcomeCandidate
  | OutOfScopeCancelCandidate

record 'k BoltV3KillSwitchCancelCandidate =
  cand_surface :: BoltV3KillSwitchOutstandingOrderRiskSurface
  cand_account_id :: 'k
  cand_instrument_id :: 'k
  cand_strategy_id :: 'k
  cand_client_order_id :: 'k
  cand_order_status :: OrderStatus
  cand_source_timestamp_unix_nanos :: u64

type_synonym 'k cancel_identity = "'k \<times> 'k \<times> 'k \<times> 'k"

text \<open>The checked constructors of the identifiers.\<close>

record 'k identifier_ops =
  account_new_checked :: "string \<Rightarrow> 'k option"
  instrument_from_as_ref :: "string \<Rightarrow> 'k option"
  instrument_from_str :: "string \<Rightarrow> 'k option"
  strategy_new_checked :: "string \<Rightarrow> 'k option"
  client_order_new_checked :: "string \<Rightarrow> 'k option"

definition from_nt_order_state :: "BoltV3KillSwitchOutstandingOrderRiskSurface \<Rightarrow> 'k \<Rightarrow> 'k \<Rightarrow> 'k \<Rightarrow> 'k \<Rightarrow>
    OrderStatus \<Rightarrow> u64 \<Rightarrow> BoltV3KillSwitchCancelError + 'k BoltV3KillSwitchCancelCandidate" where
  "from_nt_order_state surface account instrument strategy client status timestamp =
     (if timestamp = 0 then Inl MissingSourceTimestamp
      else Inr \<lparr>cand_surface = surface, cand_account_id = account, cand_instrument_id = instrument,
                cand_strategy_id = strategy, cand_client_order_id = client, cand_order_status = status,
                cand_source_timestamp_unix_nanos = timestamp\<rparr>)"

definition BoltV3KillSwitchCancelCandidate_new :: "'k identifier_ops \<Rightarrow> BoltV3KillSwitchOutstandingOrderRiskSurface \<Rightarrow>
    string \<Rightarrow> string \<Rightarrow> string \<Rightarrow> string \<Rightarrow> OrderStatus \<Rightarrow> u64 \<Rightarrow>
    BoltV3KillSwitchCancelError + 'k BoltV3KillSwitchCancelCandidate" where
  "BoltV3KillSwitchCancelCandidate_new ids surface account instrument strategy client status timestamp =
     (case account_new_checked ids (trim account) of None \<Rightarrow> Inl InvalidAccountId
      | Some account \<Rightarrow>
        (case instrument_from_as_ref ids (trim instrument) of None \<Rightarrow> Inl InvalidInstrumentId
         | Some instrument \<Rightarrow>
           (case strategy_new_checked ids (trim strategy) of None \<Rightarrow> Inl InvalidStrategyId
            | Some strategy \<Rightarrow>
              (case client_order_new_checked ids (trim client) of None \<Rightarrow> Inl InvalidClientOrderId
               | Some client \<Rightarrow>
                   from_nt_order_state surface account instrument strategy client status timestamp))))"

definition cancel_candidate_identity :: "'k BoltV3KillSwitchCancelCandidate \<Rightarrow> 'k cancel_identity" where
  "cancel_candidate_identity c =
     (cand_account_id c, cand_instrument_id c, cand_strategy_id c, cand_client_order_id c)"

record 'k BoltV3KillSwitchCancelSnapshot =
  snap_candidates :: "'k BoltV3KillSwitchCancelCandidate list"
  snap_observed_surfaces :: "BoltV3KillSwitchOutstandingOrderRiskSurface set"

definition BoltV3KillSwitchCancelSnapshot_new :: "('k::linorder) BoltV3KillSwitchCancelCandidate list \<Rightarrow>
    BoltV3KillSwitchCancelError + 'k BoltV3KillSwitchCancelSnapshot" where
  "BoltV3KillSwitchCancelSnapshot_new candidates =
     (if candidates = [] then Inl MissingCandidates
      else Inr \<lparr>snap_candidates = bt_values (first_by cancel_candidate_identity candidates),
                snap_observed_surfaces = set (map cand_surface candidates)\<rparr>)"

definition missing_mandatory_surfaces :: "'k BoltV3KillSwitchCancelSnapshot \<Rightarrow>
    BoltV3KillSwitchOutstandingOrderRiskSurface list \<Rightarrow> BoltV3KillSwitchOutstandingOrderRiskSurface list" where
  "missing_mandatory_surfaces snapshot mandatory = filter (\<lambda>s. s \<notin> snap_observed_surfaces snapshot) mandatory"

section \<open>Policy and scope\<close>

text \<open>The policy keeps its surfaces in declaration order, as the iteration of the ordered set does.\<close>

record BoltV3KillSwitchCancelPolicy =
  policy_mandatory_surfaces :: "BoltV3KillSwitchOutstandingOrderRiskSurface list"

definition BoltV3KillSwitchCancelPolicy_new :: "BoltV3KillSwitchOutstandingOrderRiskSurface list \<Rightarrow>
    BoltV3KillSwitchCancelError + BoltV3KillSwitchCancelPolicy" where
  "BoltV3KillSwitchCancelPolicy_new surfaces =
     (let mandatory = filter (\<lambda>s. s \<in> set surfaces) MANDATORY_OUTSTANDING_ORDER_RISK_SURFACES in
      if mandatory = [] then Inl MissingMandatorySurfacePolicy
      else Inr \<lparr>policy_mandatory_surfaces = mandatory\<rparr>)"

definition policy_validate_snapshot :: "BoltV3KillSwitchCancelPolicy \<Rightarrow> 'k BoltV3KillSwitchCancelSnapshot \<Rightarrow>
    BoltV3KillSwitchCancelError + unit" where
  "policy_validate_snapshot policy snapshot =
     (if missing_mandatory_surfaces snapshot (policy_mandatory_surfaces policy) = [] then Inr ()
      else Inl MissingMandatorySurfaceProof)"

record 'k BoltV3KillSwitchCancelScope =
  scope_account_ids :: "'k list"
  scope_instrument_ids :: "'k list"
  scope_strategy_ids :: "'k list"

definition BoltV3KillSwitchCancelScope_new :: "'k list \<Rightarrow> 'k list \<Rightarrow> 'k list \<Rightarrow>
    BoltV3KillSwitchCancelError + 'k BoltV3KillSwitchCancelScope" where
  "BoltV3KillSwitchCancelScope_new accounts instruments strategies =
     (if accounts = [] \<or> instruments = [] \<or> strategies = [] then Inl InvalidScope
      else Inr \<lparr>scope_account_ids = accounts, scope_instrument_ids = instruments, scope_strategy_ids = strategies\<rparr>)"

definition scope_contains :: "'k BoltV3KillSwitchCancelScope \<Rightarrow> 'k BoltV3KillSwitchCancelCandidate \<Rightarrow> bool" where
  "scope_contains scope c \<longleftrightarrow>
     cand_account_id c \<in> set (scope_account_ids scope) \<and>
     cand_instrument_id c \<in> set (scope_instrument_ids scope) \<and>
     cand_strategy_id c \<in> set (scope_strategy_ids scope)"

definition scope_validate_snapshot :: "'k BoltV3KillSwitchCancelScope \<Rightarrow> 'k BoltV3KillSwitchCancelSnapshot \<Rightarrow>
    BoltV3KillSwitchCancelError + unit" where
  "scope_validate_snapshot scope snapshot =
     (if list_all (scope_contains scope) (snap_candidates snapshot) then Inr ()
      else Inl OutOfScopeCancelCandidate)"

section \<open>The plan\<close>

datatype BoltV3KillSwitchCancelRouteKind = PerStrategyActionPort | LiveNodeCommandRouter | Unsupported

datatype BoltV3KillSwitchCancelDecisionMode = DryRunProofOnly

record 'k BoltV3KillSwitchCancelPlanRequest =
  creq_kill_switch_state :: KillSwitchState
  creq_action_id :: string
  creq_config_sha256 :: string
  creq_policy_sha256 :: string
  creq_source_timestamp_unix_nanos :: u64
  creq_observed_at_unix_nanos :: u64
  creq_scope :: "'k BoltV3KillSwitchCancelScope"
  creq_route_proof :: "BoltV3KillSwitchCancelRouteKind option"
  creq_policy :: BoltV3KillSwitchCancelPolicy
  creq_snapshot :: "'k BoltV3KillSwitchCancelSnapshot"

record 'k BoltV3KillSwitchCancelCommand =
  cmd_halt_id :: string
  cmd_action_id :: string
  cmd_config_sha256 :: string
  cmd_policy_sha256 :: string
  cmd_source_timestamp_unix_nanos :: u64
  cmd_account_id :: 'k
  cmd_instrument_id :: 'k
  cmd_strategy_id :: 'k
  cmd_client_order_id :: 'k
  cmd_order_status :: OrderStatus
  cmd_surface :: BoltV3KillSwitchOutstandingOrderRiskSurface
  cmd_route_kind :: BoltV3KillSwitchCancelRouteKind

record 'k BoltV3KillSwitchCancelPlan =
  plan_halt_id :: string
  plan_decision_mode :: BoltV3KillSwitchCancelDecisionMode
  plan_candidates :: "'k BoltV3KillSwitchCancelCandidate list"
  plan_commands :: "'k BoltV3KillSwitchCancelCommand list"

definition validate_plan_metadata :: "'k BoltV3KillSwitchCancelPlanRequest \<Rightarrow> BoltV3KillSwitchCancelError + unit" where
  "validate_plan_metadata req =
     (if trim (creq_action_id req) = [] then Inl MissingActionId
      else if \<not> is_sha256_hex_digest (creq_config_sha256 req) then Inl InvalidConfigSha256
      else if \<not> is_sha256_hex_digest (creq_policy_sha256 req) then Inl InvalidPolicySha256
      else if creq_source_timestamp_unix_nanos req = 0 then Inl MissingSourceTimestamp
      else if creq_observed_at_unix_nanos req = 0 then Inl MissingObservationTimestamp
      else Inr ())"

definition require_supported_route_proof :: "'k BoltV3KillSwitchCancelPlanRequest \<Rightarrow>
    BoltV3KillSwitchCancelError + BoltV3KillSwitchCancelRouteKind" where
  "require_supported_route_proof req =
     (case creq_route_proof req of
        Some PerStrategyActionPort \<Rightarrow> Inr PerStrategyActionPort
      | Some LiveNodeCommandRouter \<Rightarrow> Inr LiveNodeCommandRouter
      | Some Unsupported \<Rightarrow> Inl FailedManualInterventionRequired
      | None \<Rightarrow> Inl FailedManualInterventionRequired)"

definition cancel_command :: "'k BoltV3KillSwitchCancelPlanRequest \<Rightarrow> string \<Rightarrow> BoltV3KillSwitchCancelRouteKind \<Rightarrow>
    'k BoltV3KillSwitchCancelCandidate \<Rightarrow> 'k BoltV3KillSwitchCancelCommand" where
  "cancel_command req halt_id route_kind c =
     \<lparr>cmd_halt_id = halt_id, cmd_action_id = trim (creq_action_id req), cmd_config_sha256 = creq_config_sha256 req,
      cmd_policy_sha256 = creq_policy_sha256 req,
      cmd_source_timestamp_unix_nanos = creq_source_timestamp_unix_nanos req,
      cmd_account_id = cand_account_id c, cmd_instrument_id = cand_instrument_id c,
      cmd_strategy_id = cand_strategy_id c, cmd_client_order_id = cand_client_order_id c,
      cmd_order_status = cand_order_status c, cmd_surface = cand_surface c, cmd_route_kind = route_kind\<rparr>"

definition plan_cancel :: "'k BoltV3KillSwitchCancelPlanRequest \<Rightarrow>
    BoltV3KillSwitchCancelError + 'k BoltV3KillSwitchCancelPlan" where
  "plan_cancel req =
     (case creq_kill_switch_state req of
        Cancelling halt_id \<Rightarrow>
          (case validate_plan_metadata req of Inl e \<Rightarrow> Inl e | Inr _ \<Rightarrow>
            (case scope_validate_snapshot (creq_scope req) (creq_snapshot req) of Inl e \<Rightarrow> Inl e | Inr _ \<Rightarrow>
              (case policy_validate_snapshot (creq_policy req) (creq_snapshot req) of Inl e \<Rightarrow> Inl e | Inr _ \<Rightarrow>
                (case require_supported_route_proof req of Inl e \<Rightarrow> Inl e | Inr route_kind \<Rightarrow>
                  Inr \<lparr>plan_halt_id = halt_id, plan_decision_mode = DryRunProofOnly,
                       plan_candidates = snap_candidates (creq_snapshot req),
                       plan_commands = map (cancel_command req halt_id route_kind) (snap_candidates (creq_snapshot req))\<rparr>))))
      | _ \<Rightarrow> Inl KillSwitchStateNotCancelling)"

section \<open>Outcomes\<close>

datatype BoltV3KillSwitchCancelAttemptOutcomeKind =
    CancelRequested
  | CancelAccepted
  | CancelRejected
  | PendingCancel
  | Expired
  | FilledBeforeCancel
  | TerminalBeforeCancel

record BoltV3KillSwitchCancelAttemptOutcome =
  outcome_kind :: BoltV3KillSwitchCancelAttemptOutcomeKind
  outcome_order_status :: OrderStatus

text \<open>\<open>is_closed\<close> is the trading library's test on an order status.\<close>

fun validate_outcome_status :: "(OrderStatus \<Rightarrow> bool) \<Rightarrow> BoltV3KillSwitchCancelAttemptOutcomeKind \<Rightarrow> OrderStatus \<Rightarrow>
    BoltV3KillSwitchCancelError + unit" where
  "validate_outcome_status is_closed PendingCancel status =
     (if status \<noteq> OrderStatus.PendingCancel then Inl InvalidOutcomeOrderStatus else Inr ())"
| "validate_outcome_status is_closed Expired status =
     (if status \<noteq> OrderStatus.Expired then Inl InvalidOutcomeOrderStatus else Inr ())"
| "validate_outcome_status is_closed FilledBeforeCancel status =
     (if status \<noteq> OrderStatus.Filled then Inl InvalidOutcomeOrderStatus else Inr ())"
| "validate_outcome_status is_closed TerminalBeforeCancel status =
     (if \<not> is_closed status \<or> status = OrderStatus.Expired \<or> status = OrderStatus.Filled
      then Inl InvalidOutcomeOrderStatus else Inr ())"
| "validate_outcome_status is_closed CancelRequested status =
     (if is_closed status then Inl InvalidOutcomeOrderStatus else Inr ())"
| "validate_outcome_status is_closed CancelAccepted status =
     (if is_closed status then Inl InvalidOutcomeOrderStatus else Inr ())"
| "validate_outcome_status is_closed CancelRejected status =
     (if is_closed status then Inl InvalidOutcomeOrderStatus else Inr ())"

definition BoltV3KillSwitchCancelAttemptOutcome_new :: "(OrderStatus \<Rightarrow> bool) \<Rightarrow>
    BoltV3KillSwitchCancelAttemptOutcomeKind \<Rightarrow> OrderStatus \<Rightarrow>
    BoltV3KillSwitchCancelError + BoltV3KillSwitchCancelAttemptOutcome" where
  "BoltV3KillSwitchCancelAttemptOutcome_new is_closed kind status =
     (case validate_outcome_status is_closed kind status of
        Inl e \<Rightarrow> Inl e
      | Inr _ \<Rightarrow> Inr \<lparr>outcome_kind = kind, outcome_order_status = status\<rparr>)"

record 'k BoltV3KillSwitchCancelOutcomeEvidence =
  oe_identity :: "'k cancel_identity"
  oe_outcome :: BoltV3KillSwitchCancelAttemptOutcome

definition from_candidate :: "'k BoltV3KillSwitchCancelCandidate \<Rightarrow> BoltV3KillSwitchCancelAttemptOutcome \<Rightarrow>
    'k BoltV3KillSwitchCancelOutcomeEvidence" where
  "from_candidate c outcome = \<lparr>oe_identity = cancel_candidate_identity c, oe_outcome = outcome\<rparr>"

datatype BoltV3KillSwitchCancelAggregateResult =
    AllTerminal
  | OutstandingRiskRemains
  | RequiresPositionReconciliation
  | FailedManualIntervention

definition result_for_outcome :: "BoltV3KillSwitchCancelAttemptOutcome \<Rightarrow> BoltV3KillSwitchCancelAggregateResult" where
  "result_for_outcome outcome =
     (case outcome_kind outcome of
        CancelRejected \<Rightarrow> FailedManualIntervention
      | FilledBeforeCancel \<Rightarrow> RequiresPositionReconciliation
      | CancelRequested \<Rightarrow> OutstandingRiskRemains
      | CancelAccepted \<Rightarrow> OutstandingRiskRemains
      | PendingCancel \<Rightarrow> OutstandingRiskRemains
      | Expired \<Rightarrow> AllTerminal
      | TerminalBeforeCancel \<Rightarrow> AllTerminal)"

fun merge_aggregate_result :: "BoltV3KillSwitchCancelAggregateResult \<Rightarrow> BoltV3KillSwitchCancelAggregateResult \<Rightarrow>
    BoltV3KillSwitchCancelAggregateResult" where
  "merge_aggregate_result FailedManualIntervention _ = FailedManualIntervention"
| "merge_aggregate_result _ FailedManualIntervention = FailedManualIntervention"
| "merge_aggregate_result RequiresPositionReconciliation _ = RequiresPositionReconciliation"
| "merge_aggregate_result _ RequiresPositionReconciliation = RequiresPositionReconciliation"
| "merge_aggregate_result OutstandingRiskRemains _ = OutstandingRiskRemains"
| "merge_aggregate_result _ OutstandingRiskRemains = OutstandingRiskRemains"
| "merge_aggregate_result AllTerminal AllTerminal = AllTerminal"

definition worse_outcome :: "BoltV3KillSwitchCancelAttemptOutcome \<Rightarrow> BoltV3KillSwitchCancelAttemptOutcome \<Rightarrow>
    BoltV3KillSwitchCancelAttemptOutcome" where
  "worse_outcome current next_outcome =
     (if result_for_outcome next_outcome =
         merge_aggregate_result (result_for_outcome current) (result_for_outcome next_outcome)
      then next_outcome else current)"

text \<open>The loop that files each outcome under its order, and fails on an order outside the snapshot.\<close>

fun file_outcomes :: "'k cancel_identity set \<Rightarrow> ('k::linorder cancel_identity, BoltV3KillSwitchCancelAttemptOutcome) btree_map \<Rightarrow>
    'k BoltV3KillSwitchCancelOutcomeEvidence list \<Rightarrow>
    BoltV3KillSwitchCancelError + ('k cancel_identity, BoltV3KillSwitchCancelAttemptOutcome) btree_map" where
  "file_outcomes expected m [] = Inr m"
| "file_outcomes expected m (e # es) =
     (if oe_identity e \<notin> expected then Inl UnknownOutcomeCandidate
      else file_outcomes expected
        (entry_modify_or_insert (oe_identity e) (\<lambda>existing. worse_outcome existing (oe_outcome e)) (oe_outcome e) m) es)"

definition candidate_result :: "('k::linorder cancel_identity, BoltV3KillSwitchCancelAttemptOutcome) btree_map \<Rightarrow>
    'k BoltV3KillSwitchCancelCandidate \<Rightarrow> BoltV3KillSwitchCancelAggregateResult" where
  "candidate_result m c =
     (case bt_get m (cancel_candidate_identity c) of
        None \<Rightarrow> OutstandingRiskRemains
      | Some outcome \<Rightarrow> result_for_outcome outcome)"

definition from_snapshot_outcomes :: "('k::linorder) BoltV3KillSwitchCancelSnapshot \<Rightarrow>
    'k BoltV3KillSwitchCancelOutcomeEvidence list \<Rightarrow>
    BoltV3KillSwitchCancelError + BoltV3KillSwitchCancelAggregateResult" where
  "from_snapshot_outcomes snapshot outcomes =
     (case file_outcomes (set (map cancel_candidate_identity (snap_candidates snapshot))) [] outcomes of
        Inl e \<Rightarrow> Inl e
      | Inr m \<Rightarrow>
          Inr (foldl (\<lambda>result c. merge_aggregate_result result (candidate_result m c)) AllTerminal
                 (snap_candidates snapshot)))"

section \<open>The plan covers the orders at risk\<close>

definition command_identity :: "'k BoltV3KillSwitchCancelCommand \<Rightarrow> 'k cancel_identity" where
  "command_identity c = (cmd_account_id c, cmd_instrument_id c, cmd_strategy_id c, cmd_client_order_id c)"

lemma command_identity_cancel [simp]: "command_identity (cancel_command req h r c) = cancel_candidate_identity c"
  by (simp add: command_identity_def cancel_command_def cancel_candidate_identity_def)

lemma scope_contains_cong:
  "cancel_candidate_identity c = cancel_candidate_identity c' \<Longrightarrow> scope_contains scope c \<longleftrightarrow> scope_contains scope c'"
  by (simp add: cancel_candidate_identity_def scope_contains_def)

lemma plan_cancel_Inr:
  assumes "plan_cancel req = Inr plan"
  obtains h route where "creq_kill_switch_state req = Cancelling h" "plan_halt_id plan = h"
    "plan_commands plan = map (cancel_command req h route) (snap_candidates (creq_snapshot req))"
    "list_all (scope_contains (creq_scope req)) (snap_candidates (creq_snapshot req))"
    "missing_mandatory_surfaces (creq_snapshot req) (policy_mandatory_surfaces (creq_policy req)) = []"
proof -
  obtain h route where "creq_kill_switch_state req = Cancelling h" and
    "list_all (scope_contains (creq_scope req)) (snap_candidates (creq_snapshot req))"
    "missing_mandatory_surfaces (creq_snapshot req) (policy_mandatory_surfaces (creq_policy req)) = []"
    and "plan = \<lparr>plan_halt_id = h, plan_decision_mode = DryRunProofOnly,
      plan_candidates = snap_candidates (creq_snapshot req),
      plan_commands = map (cancel_command req h route) (snap_candidates (creq_snapshot req))\<rparr>"
    using assms by (auto simp: plan_cancel_def scope_validate_snapshot_def policy_validate_snapshot_def
        split: KillSwitchState.splits sum.splits if_splits)
  then show ?thesis by (intro that [of h route]) simp_all
qed

text \<open>
  C19. The cancel plan covers exactly the orders at risk. A plan over a snapshot of candidate orders has
  one command per distinct order and none for any other order, every candidate is in the
  request's scope, every surface the policy demands was observed, and every command carries the
  identity of the halt that is being cancelled.
\<close>

theorem cancel_plan_covers_orders:
  assumes snap: "BoltV3KillSwitchCancelSnapshot_new candidates = Inr (creq_snapshot req)"
    and plan: "plan_cancel req = Inr plan"
  shows "distinct (map command_identity (plan_commands plan)) \<and>
    command_identity ` set (plan_commands plan) = cancel_candidate_identity ` set candidates \<and>
    (\<forall>c \<in> set candidates. scope_contains (creq_scope req) c) \<and>
    set (policy_mandatory_surfaces (creq_policy req)) \<subseteq> cand_surface ` set candidates \<and>
    (\<forall>cmd \<in> set (plan_commands plan). creq_kill_switch_state req = Cancelling (cmd_halt_id cmd))"
proof -
  obtain h route where h: "creq_kill_switch_state req = Cancelling h"
    and cmds: "plan_commands plan = map (cancel_command req h route) (snap_candidates (creq_snapshot req))"
    and scope: "list_all (scope_contains (creq_scope req)) (snap_candidates (creq_snapshot req))"
    and mand: "missing_mandatory_surfaces (creq_snapshot req) (policy_mandatory_surfaces (creq_policy req)) = []"
    using plan by (rule plan_cancel_Inr)
  let ?vals = "bt_values (first_by cancel_candidate_identity candidates)"
  have cands: "snap_candidates (creq_snapshot req) = ?vals"
    and surf: "snap_observed_surfaces (creq_snapshot req) = cand_surface ` set candidates"
    using snap [symmetric] by (simp_all add: BoltV3KillSwitchCancelSnapshot_new_def split: if_splits)
  have ids: "map command_identity (plan_commands plan) = map cancel_candidate_identity ?vals"
    by (simp add: cmds cands)
  have keys: "cancel_candidate_identity ` set ?vals = cancel_candidate_identity ` set candidates"
    by (rule first_by_keys)
  have "scope_contains (creq_scope req) c" if "c \<in> set candidates" for c
  proof -
    have "cancel_candidate_identity c \<in> cancel_candidate_identity ` set ?vals"
      unfolding keys using that by (rule imageI)
    then obtain v where v: "cancel_candidate_identity c = cancel_candidate_identity v" "v \<in> set ?vals" by (rule imageE)
    then have "scope_contains (creq_scope req) v" using scope by (simp add: cands list_all_iff)
    then show ?thesis using scope_contains_cong [OF v(1)] by simp
  qed
  moreover have "command_identity ` set (plan_commands plan) = cancel_candidate_identity ` set candidates"
    unfolding keys [symmetric] using arg_cong [OF ids, of set] by simp
  moreover have "distinct (map command_identity (plan_commands plan))"
    unfolding ids by (rule first_by_distinct)
  moreover have "set (policy_mandatory_surfaces (creq_policy req)) \<subseteq> cand_surface ` set candidates"
    using mand by (auto simp: missing_mandatory_surfaces_def surf filter_empty_conv)
  moreover have "creq_kill_switch_state req = Cancelling (cmd_halt_id cmd)" if "cmd \<in> set (plan_commands plan)" for cmd
    using that h by (auto simp: cmds cancel_command_def)
  ultimately show ?thesis by simp
qed

definition demo_candidate :: "nat \<Rightarrow> nat BoltV3KillSwitchCancelCandidate" where
  "demo_candidate n = \<lparr>cand_surface = Open, cand_account_id = 1, cand_instrument_id = 2, cand_strategy_id = 3,
     cand_client_order_id = n, cand_order_status = Accepted, cand_source_timestamp_unix_nanos = 9\<rparr>"

definition demo_digest :: string where "demo_digest = replicate 64 (CHR ''a'')"

definition demo_cancel_snapshot :: "nat BoltV3KillSwitchCancelSnapshot" where
  "demo_cancel_snapshot = \<lparr>snap_candidates = [demo_candidate 4, demo_candidate 5], snap_observed_surfaces = {Open}\<rparr>"

definition demo_cancel_request :: "nat BoltV3KillSwitchCancelPlanRequest" where
  "demo_cancel_request = \<lparr>creq_kill_switch_state = Cancelling ''h'', creq_action_id = ''x'',
     creq_config_sha256 = demo_digest, creq_policy_sha256 = demo_digest, creq_source_timestamp_unix_nanos = 1,
     creq_observed_at_unix_nanos = 1,
     creq_scope = \<lparr>scope_account_ids = [1], scope_instrument_ids = [2], scope_strategy_ids = [3]\<rparr>,
     creq_route_proof = Some LiveNodeCommandRouter, creq_policy = \<lparr>policy_mandatory_surfaces = [Open]\<rparr>,
     creq_snapshot = demo_cancel_snapshot\<rparr>"

lemma demo_snapshot_new:
  "BoltV3KillSwitchCancelSnapshot_new [demo_candidate 5, demo_candidate 4, demo_candidate 5] = Inr (creq_snapshot demo_cancel_request)"
  by (simp add: BoltV3KillSwitchCancelSnapshot_new_def first_by_def entry_or_insert_def bt_get_def bt_values_def
      cancel_candidate_identity_def demo_candidate_def demo_cancel_request_def demo_cancel_snapshot_def)

lemma demo_digest_ok: "is_sha256_hex_digest demo_digest"
  by (simp add: is_sha256_hex_digest_def SHA256_HEX_DIGEST_LEN_def demo_digest_def list_all_iff)

lemma trim_x: "trim ''x'' = ''x''"
  by (simp add: trim_def strip.simps leading_def starts_with_def white_space_def)

lemma demo_plan: "\<exists>plan. plan_cancel demo_cancel_request = Inr plan"
  by (simp add: plan_cancel_def demo_cancel_request_def validate_plan_metadata_def demo_digest_ok trim_x
      scope_validate_snapshot_def scope_contains_def policy_validate_snapshot_def missing_mandatory_surfaces_def
      require_supported_route_proof_def demo_cancel_snapshot_def demo_candidate_def)

theorem cancel_plan_covers_orders_witness:
  "\<exists>plan. plan_cancel demo_cancel_request = Inr plan \<and>
     command_identity ` set (plan_commands plan) = {(1, 2, 3, 4), (1, 2, 3, 5)}"
proof -
  obtain plan where plan: "plan_cancel demo_cancel_request = Inr plan" using demo_plan by blast
  have "cancel_candidate_identity ` set [demo_candidate 5, demo_candidate 4, demo_candidate 5] = {(1, 2, 3, 4), (1, 2, 3, 5)}"
    by (auto simp: cancel_candidate_identity_def demo_candidate_def)
  then show ?thesis using cancel_plan_covers_orders [OF demo_snapshot_new plan] plan by (intro exI [of _ plan]) simp
qed

section \<open>The aggregate is the worst outcome\<close>

fun severity :: "BoltV3KillSwitchCancelAggregateResult \<Rightarrow> nat" where
  "severity AllTerminal = 0"
| "severity OutstandingRiskRemains = 1"
| "severity RequiresPositionReconciliation = 2"
| "severity FailedManualIntervention = 3"

lemma severity_inj: "severity a = severity b \<longleftrightarrow> a = b"
  by (cases a; cases b) simp_all

instantiation BoltV3KillSwitchCancelAggregateResult :: linorder
begin

definition less_eq_cancel_result: "a \<le> b \<longleftrightarrow> severity a \<le> severity b"

definition less_cancel_result: "a < b \<longleftrightarrow> severity a < severity b"

instance
  by standard (auto simp: less_eq_cancel_result less_cancel_result severity_inj)

end

lemma merge_is_max: "merge_aggregate_result a b = max a b"
  by (cases a; cases b) (simp_all add: max_def less_eq_cancel_result)

lemma AllTerminal_least [simp]: "AllTerminal \<le> r"
  by (simp add: less_eq_cancel_result)

lemma worse_is_max: "result_for_outcome (worse_outcome a b) = max (result_for_outcome a) (result_for_outcome b)"
  by (auto simp: worse_outcome_def merge_is_max max_def)

interpretation cancel_outcomes: graded_outcomes result_for_outcome worse_outcome
  by unfold_locales (rule worse_is_max)

text \<open>The evidence as pairs, and the worst result reported for an order.\<close>

definition filed :: "'k BoltV3KillSwitchCancelOutcomeEvidence list \<Rightarrow> ('k cancel_identity \<times> BoltV3KillSwitchCancelAttemptOutcome) list" where
  "filed es = map (\<lambda>e. (oe_identity e, oe_outcome e)) es"

definition worst_result :: "'k BoltV3KillSwitchCancelOutcomeEvidence list \<Rightarrow> 'k BoltV3KillSwitchCancelCandidate \<Rightarrow>
    BoltV3KillSwitchCancelAggregateResult" where
  "worst_result es c = worst_grade OutstandingRiskRemains result_for_outcome (cancel_candidate_identity c) (filed es)"

lemma file_outcomes_filed: "file_outcomes X m es = file_by worse_outcome UnknownOutcomeCandidate X m (filed es)"
  by (induction X m es rule: file_outcomes.induct) (simp_all add: filed_def)

lemma fst_filed: "fst ` set (filed es) = oe_identity ` set es"
  by (force simp: filed_def)

lemma terminal_results:
  "result_for_outcome o' = AllTerminal \<longleftrightarrow> outcome_kind o' \<in> {Expired, TerminalBeforeCancel}"
  by (cases "outcome_kind o'") (simp_all add: result_for_outcome_def)

lemma worst_terminal:
  assumes "worst_result es c = AllTerminal"
  shows "(\<exists>e \<in> set es. oe_identity e = cancel_candidate_identity c) \<and>
    (\<forall>e \<in> set es. oe_identity e = cancel_candidate_identity c \<longrightarrow>
       outcome_kind (oe_outcome e) \<in> {Expired, TerminalBeforeCancel})"
proof -
  note least = worst_grade_least [OF assms [unfolded worst_result_def] AllTerminal_least, simplified]
  have "\<exists>e \<in> set es. oe_identity e = cancel_candidate_identity c"
    using least(1) unfolding fst_filed by auto
  moreover have "outcome_kind (oe_outcome e) \<in> {Expired, TerminalBeforeCancel}"
    if "e \<in> set es" "oe_identity e = cancel_candidate_identity c" for e
    using least(2) [of "oe_outcome e"] that unfolding terminal_results [symmetric] by (force simp: filed_def)
  ultimately show ?thesis by blast
qed

lemma aggregate_eq:
  "from_snapshot_outcomes snapshot outcomes =
     (if oe_identity ` set outcomes \<subseteq> cancel_candidate_identity ` set (snap_candidates snapshot)
      then Inr (Max (insert AllTerminal (worst_result outcomes ` set (snap_candidates snapshot))))
      else Inl UnknownOutcomeCandidate)"
proof (cases rule: file_by_cases [of "filed outcomes" "set (map cancel_candidate_identity (snap_candidates snapshot))"
      worse_outcome UnknownOutcomeCandidate "[]"])
  case unknown
  then show ?thesis by (simp add: from_snapshot_outcomes_def file_outcomes_filed fst_filed)
next
  case (filed m)
  have "candidate_result m = worst_result outcomes"
    using cancel_outcomes.filed_worst [OF filed(2)] by (simp add: fun_eq_iff candidate_result_def worst_result_def)
  with filed show ?thesis
    by (simp add: from_snapshot_outcomes_def file_outcomes_filed fst_filed merge_is_max foldl_max del: Max_insert)
qed

text \<open>
  C21. The aggregate of the cancel attempts is the worst one, in any order of arrival. Outcomes of
  orders outside the snapshot are refused. Otherwise the result is the most severe over the
  snapshot's orders, where an order without an outcome counts as outstanding risk and an order
  with several outcomes as its most severe one; in particular all orders are reported terminal
  only if every order has an outcome and every outcome of it is an expiry or a terminal one.
\<close>

theorem cancel_aggregate_is_worst:
  "from_snapshot_outcomes snapshot outcomes =
     (if oe_identity ` set outcomes \<subseteq> cancel_candidate_identity ` set (snap_candidates snapshot)
      then Inr (Max (insert AllTerminal (worst_result outcomes ` set (snap_candidates snapshot))))
      else Inl UnknownOutcomeCandidate) \<and>
   (from_snapshot_outcomes snapshot outcomes = Inr AllTerminal \<longrightarrow>
      (\<forall>c \<in> set (snap_candidates snapshot).
         (\<exists>e \<in> set outcomes. oe_identity e = cancel_candidate_identity c) \<and>
         (\<forall>e \<in> set outcomes. oe_identity e = cancel_candidate_identity c \<longrightarrow>
            outcome_kind (oe_outcome e) \<in> {Expired, TerminalBeforeCancel})))"
proof -
  have "worst_result outcomes c = AllTerminal"
    if "from_snapshot_outcomes snapshot outcomes = Inr AllTerminal" and "c \<in> set (snap_candidates snapshot)" for c
    using that Max_insert_least [of AllTerminal "worst_result outcomes ` set (snap_candidates snapshot)"]
    by (simp add: aggregate_eq del: Max_insert split: if_splits)
  then show ?thesis using aggregate_eq worst_terminal by (intro conjI impI ballI) blast+
qed

theorem cancel_aggregate_is_worst_witness:
  "from_snapshot_outcomes demo_cancel_snapshot
     [from_candidate (demo_candidate 4) \<lparr>outcome_kind = Expired, outcome_order_status = OrderStatus.Expired\<rparr>,
      from_candidate (demo_candidate 4) \<lparr>outcome_kind = CancelRejected, outcome_order_status = Accepted\<rparr>] =
   Inr (Max {AllTerminal, FailedManualIntervention, OutstandingRiskRemains})"
  using cancel_aggregate_is_worst [of demo_cancel_snapshot
      "[from_candidate (demo_candidate 4) \<lparr>outcome_kind = Expired, outcome_order_status = OrderStatus.Expired\<rparr>,
        from_candidate (demo_candidate 4) \<lparr>outcome_kind = CancelRejected, outcome_order_status = Accepted\<rparr>]"]
  by (simp add: demo_cancel_snapshot_def from_candidate_def cancel_candidate_identity_def demo_candidate_def
      worst_result_def worst_grade_def grades_of_def filed_def result_for_outcome_def max_def less_eq_cancel_result)

end
