(* ===== verification/OrderIntent.thy ===== *)
theory OrderIntent
  imports RustDecimal RustResult NtTypes
begin

text \<open>
  Order templates (\<open>src/src/bolt_v3_order_intent.rs\<close>): the check of a configured template, the
  validation of a template at run time and the construction of an order from it. Error messages
  are constructors; the context, path and prefix that the source formats into them are dropped.
  Prices, quantities, identifiers and the order factory of the trading library are parameters.
\<close>

section \<open>Data\<close>

datatype TriggerType = TriggerType nat

datatype TrailingOffsetType = TrailingOffsetType nat

record 'p price_ops =
  price_is_positive :: "'p \<Rightarrow> bool"
  price_lt :: "'p \<Rightarrow> 'p \<Rightarrow> bool"

record ('k, 'p, 'd) NtOrderTemplate =
  tpl_order_type :: OrderType
  tpl_time_in_force :: TimeInForce
  tpl_expire_time :: "u64 option"
  tpl_trigger_price :: "'p option"
  tpl_activation_price :: "'p option"
  tpl_trigger_type :: "TriggerType option"
  tpl_trigger_instrument_id :: "'k option"
  tpl_trailing_offset :: "'d option"
  tpl_trailing_offset_type :: "TrailingOffsetType option"
  tpl_is_post_only :: bool
  tpl_is_reduce_only :: bool
  tpl_is_quote_quantity :: bool

record ('k, 'p, 'q) NtOrderBuildInputs =
  in_instrument_id :: 'k
  in_order_side :: OrderSide
  in_quantity :: 'q
  in_price :: "'p option"
  in_client_order_id :: 'k

record ('k, 'd) NtOrderTemplateConfig =
  cfg_order_type :: OrderType
  cfg_time_in_force :: TimeInForce
  cfg_expire_time_unix_nanos :: "u64 option"
  cfg_trigger_price :: "'d option"
  cfg_activation_price :: "'d option"
  cfg_trigger_type :: "TriggerType option"
  cfg_trigger_instrument_id :: "'k option"
  cfg_trailing_offset :: "'d option"
  cfg_trailing_offset_type :: "TrailingOffsetType option"
  cfg_is_post_only :: bool
  cfg_is_reduce_only :: bool
  cfg_is_quote_quantity :: bool

datatype OrderTemplateError =
    UnsupportedOrderType
  | GtdNotSupported
  | ExpireTimeNotSupported
  | ExpireTimeRequired
  | PostOnlyNotSupported
  | TriggerPriceRequired
  | TriggerPriceNotPositive
  | TriggerPriceNotSupported
  | TriggerTypeNotSupported
  | TriggerInstrumentNotSupported
  | ActivationPriceNotPositive
  | ActivationPriceNotSupported
  | TriggerOrActivationRequired
  | TrailingOffsetRequired
  | TrailingOffsetNotPositive
  | TrailingOffsetNotSupported
  | TrailingOffsetTypeNotSupported
  | PriceRequired
  | TriggerAbovePrice
  | TriggerBelowPrice

text \<open>The idiom \<open>if c { errors.push(e) }\<close>, \<open>is_none_or\<close> and \<open>is_some_and\<close>.\<close>

definition push_if :: "bool \<Rightarrow> 'e \<Rightarrow> 'e list" where
  "push_if c e = (if c then [e] else [])"

definition is_none_or :: "('a \<Rightarrow> bool) \<Rightarrow> 'a option \<Rightarrow> bool" where
  "is_none_or P v = (case v of None \<Rightarrow> True | Some x \<Rightarrow> P x)"

definition is_some_and :: "('a \<Rightarrow> bool) \<Rightarrow> 'a option \<Rightarrow> bool" where
  "is_some_and P v = (case v of None \<Rightarrow> False | Some x \<Rightarrow> P x)"

lemma push_if_Nil [simp]: "push_if c e = [] \<longleftrightarrow> \<not> c"
  by (simp add: push_if_def)

lemma is_none_or_simps [simp]: "is_none_or P None" "is_none_or P (Some x) = P x"
  by (simp_all add: is_none_or_def)

lemma is_some_and_simps [simp]: "\<not> is_some_and P None" "is_some_and P (Some x) = P x"
  by (simp_all add: is_some_and_def)

section \<open>Checking a configured template\<close>

definition check_no_trailing_stop_market_fields :: "('k, 'd) NtOrderTemplateConfig \<Rightarrow> OrderTemplateError list" where
  "check_no_trailing_stop_market_fields order =
     push_if (cfg_activation_price order \<noteq> None) ActivationPriceNotSupported @
     push_if (cfg_trailing_offset order \<noteq> None) TrailingOffsetNotSupported @
     push_if (cfg_trailing_offset_type order \<noteq> None) TrailingOffsetTypeNotSupported"

definition check_no_trigger_or_trailing_fields :: "('k, 'd) NtOrderTemplateConfig \<Rightarrow> OrderTemplateError list" where
  "check_no_trigger_or_trailing_fields order =
     check_no_trailing_stop_market_fields order @
     push_if (cfg_trigger_price order \<noteq> None) TriggerPriceNotSupported @
     push_if (cfg_trigger_type order \<noteq> None) TriggerTypeNotSupported @
     push_if (cfg_trigger_instrument_id order \<noteq> None) TriggerInstrumentNotSupported"

definition check_market_order_template :: "('k, 'd) NtOrderTemplateConfig \<Rightarrow> OrderTemplateError list" where
  "check_market_order_template order =
     push_if (cfg_time_in_force order = Gtd) GtdNotSupported @
     push_if (cfg_expire_time_unix_nanos order \<noteq> None) ExpireTimeNotSupported @
     push_if (cfg_is_post_only order) PostOnlyNotSupported @
     check_no_trigger_or_trailing_fields order"

definition check_limit_order_template :: "('k, 'd) NtOrderTemplateConfig \<Rightarrow> OrderTemplateError list" where
  "check_limit_order_template order =
     push_if (cfg_time_in_force order = Gtd \<and> is_none_or (\<lambda>value. value = 0) (cfg_expire_time_unix_nanos order))
       ExpireTimeRequired @
     check_no_trigger_or_trailing_fields order"

definition check_triggered_order_template :: "'d decimal_ops \<Rightarrow> ('k, 'd) NtOrderTemplateConfig \<Rightarrow> OrderTemplateError list" where
  "check_triggered_order_template D order =
     push_if (is_none_or (\<lambda>value. dec_ge D (dec_zero D) value) (cfg_trigger_price order)) TriggerPriceNotPositive @
     push_if (cfg_time_in_force order = Gtd \<and> is_none_or (\<lambda>value. value = 0) (cfg_expire_time_unix_nanos order))
       ExpireTimeRequired @
     check_no_trailing_stop_market_fields order"

definition check_triggered_market_order_template :: "'d decimal_ops \<Rightarrow> ('k, 'd) NtOrderTemplateConfig \<Rightarrow> OrderTemplateError list" where
  "check_triggered_market_order_template D order =
     check_triggered_order_template D order @ push_if (cfg_is_post_only order) PostOnlyNotSupported"

definition check_triggered_limit_order_template :: "'d decimal_ops \<Rightarrow> ('k, 'd) NtOrderTemplateConfig \<Rightarrow> OrderTemplateError list" where
  "check_triggered_limit_order_template D order = check_triggered_order_template D order"

definition check_trailing_stop_market_combination :: "'d decimal_ops \<Rightarrow> ('k, 'd) NtOrderTemplateConfig \<Rightarrow> OrderTemplateError list" where
  "check_trailing_stop_market_combination D order =
     push_if (cfg_is_post_only order) PostOnlyNotSupported @
     push_if (is_some_and (\<lambda>value. dec_ge D (dec_zero D) value) (cfg_trigger_price order)) TriggerPriceNotPositive @
     push_if (is_some_and (\<lambda>value. dec_ge D (dec_zero D) value) (cfg_activation_price order)) ActivationPriceNotPositive @
     push_if (cfg_trigger_price order = None \<and>
              is_none_or (\<lambda>value. dec_ge D (dec_zero D) value) (cfg_activation_price order)) TriggerOrActivationRequired @
     push_if (is_none_or (\<lambda>value. dec_ge D (dec_zero D) value) (cfg_trailing_offset order)) TrailingOffsetNotPositive @
     push_if (cfg_time_in_force order = Gtd \<and> is_none_or (\<lambda>value. value = 0) (cfg_expire_time_unix_nanos order))
       ExpireTimeRequired"

definition check_nt_order_template_config :: "'d decimal_ops \<Rightarrow> ('k, 'd) NtOrderTemplateConfig \<Rightarrow> OrderTemplateError list" where
  "check_nt_order_template_config D order =
     (case cfg_order_type order of
        Market \<Rightarrow> check_market_order_template order
      | Limit \<Rightarrow> check_limit_order_template order
      | StopMarket \<Rightarrow> check_triggered_market_order_template D order
      | MarketIfTouched \<Rightarrow> check_triggered_market_order_template D order
      | StopLimit \<Rightarrow> check_triggered_limit_order_template D order
      | LimitIfTouched \<Rightarrow> check_triggered_limit_order_template D order
      | TrailingStopMarket \<Rightarrow> check_trailing_stop_market_combination D order
      | _ \<Rightarrow> [UnsupportedOrderType])"

section \<open>Validating a template\<close>

text \<open>The match on order type, time in force and trigger price, arm by arm.\<close>

definition check_timing :: "('k, 'p, 'd) NtOrderTemplate \<Rightarrow> OrderTemplateError + unit" where
  "check_timing template =
     (let order_type = tpl_order_type template;
          gtd_without_expiry = tpl_time_in_force template = Gtd \<and>
            is_none_or (\<lambda>value. value = 0) (tpl_expire_time template) in
      if order_type = Limit \<and> gtd_without_expiry then Inl ExpireTimeRequired
      else if (order_type = StopMarket \<or> order_type = MarketIfTouched) \<and> gtd_without_expiry then Inl ExpireTimeRequired
      else if order_type = StopLimit \<and> gtd_without_expiry then Inl ExpireTimeRequired
      else if order_type = LimitIfTouched \<and> gtd_without_expiry then Inl ExpireTimeRequired
      else if order_type = TrailingStopMarket \<and> gtd_without_expiry then Inl ExpireTimeRequired
      else if order_type = Market \<and> tpl_time_in_force template = Gtd then Inl GtdNotSupported
      else if order_type = Market \<and> tpl_expire_time template \<noteq> None then Inl ExpireTimeNotSupported
      else if (order_type = StopMarket \<or> order_type = StopLimit \<or> order_type = MarketIfTouched \<or>
               order_type = LimitIfTouched) \<and> tpl_trigger_price template = None then Inl TriggerPriceRequired
      else if (order_type = Limit \<or> order_type = Market) \<and> tpl_trigger_price template \<noteq> None then
        Inl TriggerPriceNotSupported
      else Inr ())"

definition check_post_only :: "('k, 'p, 'd) NtOrderTemplate \<Rightarrow> OrderTemplateError + unit" where
  "check_post_only template =
     (case tpl_order_type template of
        Market \<Rightarrow> ensure (\<not> tpl_is_post_only template) PostOnlyNotSupported
      | StopMarket \<Rightarrow> ensure (\<not> tpl_is_post_only template) PostOnlyNotSupported
      | MarketIfTouched \<Rightarrow> ensure (\<not> tpl_is_post_only template) PostOnlyNotSupported
      | _ \<Rightarrow> Inr ())"

definition check_no_trailing :: "('k, 'p, 'd) NtOrderTemplate \<Rightarrow> OrderTemplateError + unit" where
  "check_no_trailing template =
     (if tpl_order_type template \<noteq> TrailingStopMarket then
        and_then (ensure (tpl_activation_price template = None) ActivationPriceNotSupported) (\<lambda>_.
        and_then (ensure (tpl_trailing_offset template = None) TrailingOffsetNotSupported) (\<lambda>_.
        ensure (tpl_trailing_offset_type template = None) TrailingOffsetTypeNotSupported))
      else Inr ())"

definition check_no_trigger :: "('k, 'p, 'd) NtOrderTemplate \<Rightarrow> OrderTemplateError + unit" where
  "check_no_trigger template =
     (if tpl_order_type template = Limit \<or> tpl_order_type template = Market then
        and_then (ensure (tpl_trigger_type template = None) TriggerTypeNotSupported) (\<lambda>_.
        ensure (tpl_trigger_instrument_id template = None) TriggerInstrumentNotSupported)
      else Inr ())"

definition check_trailing :: "'p price_ops \<Rightarrow> 'd decimal_ops \<Rightarrow> ('k, 'p, 'd) NtOrderTemplate \<Rightarrow> OrderTemplateError + unit" where
  "check_trailing P D template =
     (if tpl_order_type template = TrailingStopMarket then
        and_then (ensure (\<not> tpl_is_post_only template) PostOnlyNotSupported) (\<lambda>_.
        and_then (ensure (is_none_or (price_is_positive P) (tpl_trigger_price template)) TriggerPriceNotPositive) (\<lambda>_.
        and_then (ensure (is_none_or (price_is_positive P) (tpl_activation_price template)) ActivationPriceNotPositive) (\<lambda>_.
        and_then (ensure (is_some_and (price_is_positive P) (tpl_trigger_price template) \<or>
                          is_some_and (price_is_positive P) (tpl_activation_price template)) TriggerOrActivationRequired) (\<lambda>_.
        and_then (ok_or (tpl_trailing_offset template) TrailingOffsetRequired) (\<lambda>trailing_offset.
        ensure (dec_lt D (dec_zero D) trailing_offset) TrailingOffsetNotPositive)))))
      else Inr ())"

definition check_trigger_price :: "'p price_ops \<Rightarrow> ('k, 'p, 'd) NtOrderTemplate \<Rightarrow> ('k, 'p, 'q) NtOrderBuildInputs \<Rightarrow>
    OrderTemplateError + unit" where
  "check_trigger_price P template inputs =
     (case tpl_trigger_price template of
        None \<Rightarrow> Inr ()
      | Some trigger_price \<Rightarrow>
          and_then
            (if tpl_order_type template = StopMarket \<or> tpl_order_type template = StopLimit \<or>
                tpl_order_type template = MarketIfTouched \<or> tpl_order_type template = LimitIfTouched
             then ensure (price_is_positive P trigger_price) TriggerPriceNotPositive else Inr ()) (\<lambda>_.
          if tpl_order_type template = LimitIfTouched then
            and_then (ok_or (in_price inputs) PriceRequired) (\<lambda>price.
              case in_order_side inputs of
                Buy \<Rightarrow> ensure (\<not> price_lt P price trigger_price) TriggerAbovePrice
              | Sell \<Rightarrow> ensure (\<not> price_lt P trigger_price price) TriggerBelowPrice
              | _ \<Rightarrow> Inr ())
          else Inr ()))"

definition validate_nt_order_template :: "'p price_ops \<Rightarrow> 'd decimal_ops \<Rightarrow> ('k, 'p, 'd) NtOrderTemplate \<Rightarrow>
    ('k, 'p, 'q) NtOrderBuildInputs \<Rightarrow> OrderTemplateError + unit" where
  "validate_nt_order_template P D template inputs =
     (if tpl_order_type template = MarketToLimit \<or> tpl_order_type template = TrailingStopLimit
      then Inl UnsupportedOrderType
      else
        and_then (check_timing template) (\<lambda>_.
        and_then (check_post_only template) (\<lambda>_.
        and_then (check_no_trailing template) (\<lambda>_.
        and_then (check_no_trigger template) (\<lambda>_.
        and_then (check_trailing P D template) (\<lambda>_.
        check_trigger_price P template inputs))))))"

section \<open>Building an order\<close>

text \<open>The call of the order factory: its method and the arguments that depend on the inputs.\<close>

datatype ('k, 'p, 'q, 'd) factory_call =
    limit 'k OrderSide 'q 'p TimeInForce "u64 option" bool bool bool 'k
  | market 'k OrderSide 'q TimeInForce bool bool 'k
  | stop_market 'k OrderSide 'q 'p "TriggerType option" TimeInForce "u64 option" bool bool "'k option" 'k
  | market_if_touched 'k OrderSide 'q 'p "TriggerType option" TimeInForce "u64 option" bool bool "'k option" 'k
  | stop_limit 'k OrderSide 'q 'p 'p "TriggerType option" TimeInForce "u64 option" bool bool bool "'k option" 'k
  | limit_if_touched 'k OrderSide 'q 'p 'p "TriggerType option" TimeInForce "u64 option" bool bool bool "'k option" 'k
  | trailing_stop_market 'k OrderSide 'q 'd "TrailingOffsetType option" "'p option" "'p option" "TriggerType option"
      TimeInForce "u64 option" bool bool "'k option" 'k

definition required_limit_price :: "'p option \<Rightarrow> OrderTemplateError + 'p" where
  "required_limit_price price = ok_or price PriceRequired"

text \<open>\<^term>\<open>None\<close> is the panic of an \<open>expect\<close> on a missing trigger price or trailing offset.\<close>

definition build_nt_order :: "'p price_ops \<Rightarrow> 'd decimal_ops \<Rightarrow> (('k, 'p, 'q, 'd) factory_call \<Rightarrow> 'o) \<Rightarrow>
    ('k, 'p, 'd) NtOrderTemplate \<Rightarrow> ('k, 'p, 'q) NtOrderBuildInputs \<Rightarrow> (OrderTemplateError + 'o) option" where
  "build_nt_order P D order_factory t i =
     (case validate_nt_order_template P D t i of
        Inl e \<Rightarrow> Some (Inl e)
      | Inr _ \<Rightarrow>
          (case tpl_order_type t of
             Limit \<Rightarrow>
               (case required_limit_price (in_price i) of Inl e \<Rightarrow> Some (Inl e)
                | Inr price \<Rightarrow> Some (Inr (order_factory (limit (in_instrument_id i) (in_order_side i) (in_quantity i) price
                    (tpl_time_in_force t) (tpl_expire_time t) (tpl_is_post_only t) (tpl_is_reduce_only t)
                    (tpl_is_quote_quantity t) (in_client_order_id i)))))
           | Market \<Rightarrow> Some (Inr (order_factory (market (in_instrument_id i) (in_order_side i) (in_quantity i)
                    (tpl_time_in_force t) (tpl_is_reduce_only t) (tpl_is_quote_quantity t) (in_client_order_id i))))
           | StopMarket \<Rightarrow>
               (case tpl_trigger_price t of None \<Rightarrow> None
                | Some trigger_price \<Rightarrow> Some (Inr (order_factory (stop_market (in_instrument_id i) (in_order_side i)
                    (in_quantity i) trigger_price (tpl_trigger_type t) (tpl_time_in_force t) (tpl_expire_time t)
                    (tpl_is_reduce_only t) (tpl_is_quote_quantity t) (tpl_trigger_instrument_id t) (in_client_order_id i)))))
           | MarketIfTouched \<Rightarrow>
               (case tpl_trigger_price t of None \<Rightarrow> None
                | Some trigger_price \<Rightarrow> Some (Inr (order_factory (market_if_touched (in_instrument_id i) (in_order_side i)
                    (in_quantity i) trigger_price (tpl_trigger_type t) (tpl_time_in_force t) (tpl_expire_time t)
                    (tpl_is_reduce_only t) (tpl_is_quote_quantity t) (tpl_trigger_instrument_id t) (in_client_order_id i)))))
           | StopLimit \<Rightarrow>
               (case required_limit_price (in_price i) of Inl e \<Rightarrow> Some (Inl e)
                | Inr price \<Rightarrow>
                    (case tpl_trigger_price t of None \<Rightarrow> None
                     | Some trigger_price \<Rightarrow> Some (Inr (order_factory (stop_limit (in_instrument_id i) (in_order_side i)
                         (in_quantity i) price trigger_price (tpl_trigger_type t) (tpl_time_in_force t) (tpl_expire_time t)
                         (tpl_is_post_only t) (tpl_is_reduce_only t) (tpl_is_quote_quantity t)
                         (tpl_trigger_instrument_id t) (in_client_order_id i))))))
           | LimitIfTouched \<Rightarrow>
               (case required_limit_price (in_price i) of Inl e \<Rightarrow> Some (Inl e)
                | Inr price \<Rightarrow>
                    (case tpl_trigger_price t of None \<Rightarrow> None
                     | Some trigger_price \<Rightarrow> Some (Inr (order_factory (limit_if_touched (in_instrument_id i) (in_order_side i)
                         (in_quantity i) price trigger_price (tpl_trigger_type t) (tpl_time_in_force t) (tpl_expire_time t)
                         (tpl_is_post_only t) (tpl_is_reduce_only t) (tpl_is_quote_quantity t)
                         (tpl_trigger_instrument_id t) (in_client_order_id i))))))
           | TrailingStopMarket \<Rightarrow>
               (case tpl_trailing_offset t of None \<Rightarrow> None
                | Some trailing_offset \<Rightarrow> Some (Inr (order_factory (trailing_stop_market (in_instrument_id i)
                    (in_order_side i) (in_quantity i) trailing_offset (tpl_trailing_offset_type t) (tpl_activation_price t)
                    (tpl_trigger_price t) (tpl_trigger_type t) (tpl_time_in_force t) (tpl_expire_time t)
                    (tpl_is_reduce_only t) (tpl_is_quote_quantity t) (tpl_trigger_instrument_id t) (in_client_order_id i)))))
           | _ \<Rightarrow> Some (Inl UnsupportedOrderType)))"

section \<open>The configuration check is exact\<close>

lemmas check_defs = check_nt_order_template_config_def check_market_order_template_def check_limit_order_template_def
  check_triggered_market_order_template_def check_triggered_limit_order_template_def check_triggered_order_template_def
  check_trailing_stop_market_combination_def check_no_trigger_or_trailing_fields_def
  check_no_trailing_stop_market_fields_def

lemmas validate_defs = check_timing_def check_post_only_def check_no_trailing_def check_no_trigger_def
  check_trailing_def check_trigger_price_def

lemma validated_fields:
  assumes "is_ok (validate_nt_order_template P D t i)"
  shows "tpl_order_type t \<in> {StopMarket, StopLimit, MarketIfTouched, LimitIfTouched} \<Longrightarrow> tpl_trigger_price t \<noteq> None"
    and "tpl_order_type t = TrailingStopMarket \<Longrightarrow> tpl_trailing_offset t \<noteq> None"
  using assms
  by (auto simp: validate_nt_order_template_def check_timing_def check_trailing_def is_ok_and_then Let_def split: if_splits)

lemma build_total: "build_nt_order P D F t i \<noteq> None"
proof (cases "validate_nt_order_template P D t i")
  case (Inr u)
  then have "is_ok (validate_nt_order_template P D t i)" by simp
  note validated_fields [OF this]
  with Inr show ?thesis
    by (cases "tpl_order_type t") (auto simp: build_nt_order_def required_limit_price_def ok_or_def split: option.split)
qed (simp add: build_nt_order_def)

text \<open>A template made from a configured one: prices and the offset keep whether they are positive.\<close>

definition configured :: "'p price_ops \<Rightarrow> ('d \<Rightarrow> rat) \<Rightarrow> ('k, 'd) NtOrderTemplateConfig \<Rightarrow> ('k, 'p, 'd) NtOrderTemplate \<Rightarrow> bool" where
  "configured P val c t \<longleftrightarrow>
     tpl_order_type t = cfg_order_type c \<and> tpl_time_in_force t = cfg_time_in_force c \<and>
     tpl_expire_time t = cfg_expire_time_unix_nanos c \<and>
     rel_option (\<lambda>d p. price_is_positive P p \<longleftrightarrow> 0 < val d) (cfg_trigger_price c) (tpl_trigger_price t) \<and>
     rel_option (\<lambda>d p. price_is_positive P p \<longleftrightarrow> 0 < val d) (cfg_activation_price c) (tpl_activation_price t) \<and>
     tpl_trigger_type t = cfg_trigger_type c \<and> tpl_trigger_instrument_id t = cfg_trigger_instrument_id c \<and>
     rel_option (\<lambda>d d'. 0 < val d' \<longleftrightarrow> 0 < val d) (cfg_trailing_offset c) (tpl_trailing_offset t) \<and>
     tpl_trailing_offset_type t = cfg_trailing_offset_type c \<and> tpl_is_post_only t = cfg_is_post_only c \<and>
     tpl_is_reduce_only t = cfg_is_reduce_only c \<and> tpl_is_quote_quantity t = cfg_is_quote_quantity c"

text \<open>The order's price stands on the right side of the trigger of a limit-if-touched order.\<close>

definition price_fits_trigger :: "'p price_ops \<Rightarrow> ('k, 'p, 'd) NtOrderTemplate \<Rightarrow> ('k, 'p, 'q) NtOrderBuildInputs \<Rightarrow> bool" where
  "price_fits_trigger P t i \<longleftrightarrow>
     (case (tpl_trigger_price t, in_price i) of
        (Some trigger, Some price) \<Rightarrow>
          (in_order_side i = Buy \<longrightarrow> \<not> price_lt P price trigger) \<and>
          (in_order_side i = Sell \<longrightarrow> \<not> price_lt P trigger price)
      | _ \<Rightarrow> True)"

lemma check_trigger_price_ok:
  assumes "in_price i = Some price" and "tpl_order_type t = LimitIfTouched \<Longrightarrow> price_fits_trigger P t i"
  shows "is_ok (check_trigger_price P t i) \<longleftrightarrow>
    (tpl_order_type t \<in> {StopMarket, StopLimit, MarketIfTouched, LimitIfTouched} \<longrightarrow>
     is_none_or (price_is_positive P) (tpl_trigger_price t))"
proof (cases "tpl_trigger_price t")
  case (Some trigger)
  then show ?thesis using assms
    by (cases "tpl_order_type t = LimitIfTouched"; cases "in_order_side i")
      (auto simp: check_trigger_price_def price_fits_trigger_def is_ok_and_then ok_or_def)
qed (simp add: check_trigger_price_def)

lemma check_trailing_ok:
  "is_ok (check_trailing P D t) \<longleftrightarrow>
    (tpl_order_type t = TrailingStopMarket \<longrightarrow>
       \<not> tpl_is_post_only t \<and> is_none_or (price_is_positive P) (tpl_trigger_price t) \<and>
       is_none_or (price_is_positive P) (tpl_activation_price t) \<and>
       (is_some_and (price_is_positive P) (tpl_trigger_price t) \<or>
        is_some_and (price_is_positive P) (tpl_activation_price t)) \<and>
       is_some_and (dec_lt D (dec_zero D)) (tpl_trailing_offset t))"
  by (cases "tpl_trailing_offset t") (simp_all add: check_trailing_def ok_or_def)

lemma rel_option_tests:
  assumes "rel_option (\<lambda>a b. Q b \<longleftrightarrow> \<not> R a) x y"
  shows "y = None \<longleftrightarrow> x = None" "is_none_or Q y \<longleftrightarrow> \<not> is_some_and R x" "is_some_and Q y \<longleftrightarrow> \<not> is_none_or R x"
  using assms by (cases x; cases y; simp)+

lemma some_not_none: "is_some_and R x \<Longrightarrow> x \<noteq> None" "\<not> is_none_or R x \<Longrightarrow> x \<noteq> None"
  "is_some_and R x \<Longrightarrow> is_none_or R x" "is_none_or R x \<Longrightarrow> x \<noteq> None \<Longrightarrow> is_some_and R x"
  by (cases x; simp)+

lemma check_is_validate:
  assumes D: "decimal_exact D val" and c: "configured P val c t" and price: "in_price i = Some price"
    and fits: "tpl_order_type t = LimitIfTouched \<Longrightarrow> price_fits_trigger P t i"
    and exposed: "\<And>n. tpl_order_type t \<noteq> OtherOrderType n"
  shows "check_nt_order_template_config D c = [] \<longleftrightarrow> is_ok (validate_nt_order_template P D t i)"
proof -
  let ?R = "\<lambda>d. dec_ge D (dec_zero D) d"
  note D = decimal_exactD [OF D]
  have fields: "tpl_order_type t = cfg_order_type c" "tpl_time_in_force t = cfg_time_in_force c"
    "tpl_expire_time t = cfg_expire_time_unix_nanos c" "tpl_trigger_type t = cfg_trigger_type c"
    "tpl_trigger_instrument_id t = cfg_trigger_instrument_id c"
    "tpl_trailing_offset_type t = cfg_trailing_offset_type c" "tpl_is_post_only t = cfg_is_post_only c"
    using c by (simp_all add: configured_def)
  have tests: "rel_option (\<lambda>d p. price_is_positive P p \<longleftrightarrow> \<not> ?R d) (cfg_trigger_price c) (tpl_trigger_price t)"
    "rel_option (\<lambda>d p. price_is_positive P p \<longleftrightarrow> \<not> ?R d) (cfg_activation_price c) (tpl_activation_price t)"
    "rel_option (\<lambda>d d'. dec_lt D (dec_zero D) d' \<longleftrightarrow> \<not> ?R d) (cfg_trailing_offset c) (tpl_trailing_offset t)"
    using c by (simp_all add: configured_def D not_le)
  note tests = rel_option_tests [OF tests(1)] rel_option_tests [OF tests(2)] rel_option_tests [OF tests(3)]
  have trigger: "is_ok (check_trigger_price P t i) \<longleftrightarrow>
      (cfg_order_type c \<in> {StopMarket, StopLimit, MarketIfTouched, LimitIfTouched} \<longrightarrow>
       \<not> is_some_and ?R (cfg_trigger_price c))"
    using check_trigger_price_ok [OF price, of t P] fits by (simp add: fields tests)
  show ?thesis
    using exposed
    by (cases "cfg_order_type c")
      (auto simp: check_defs validate_nt_order_template_def check_timing_def check_post_only_def check_no_trailing_def
        check_no_trigger_def trigger check_trailing_ok fields tests Let_def dest: some_not_none)
qed

lemma build_ok:
  assumes "in_price i = Some price" and "\<And>n. tpl_order_type t \<noteq> OtherOrderType n"
  shows "(\<exists>order. build_nt_order P D F t i = Some (Inr order)) \<longleftrightarrow> is_ok (validate_nt_order_template P D t i)"
proof (cases "validate_nt_order_template P D t i")
  case (Inr u)
  then have "is_ok (validate_nt_order_template P D t i)" by simp
  note validated_fields [OF this]
  with Inr assms show ?thesis
    by (cases "tpl_order_type t")
      (auto simp: build_nt_order_def required_limit_price_def ok_or_def validate_nt_order_template_def)
qed (simp add: build_nt_order_def)


definition demo_config :: "(nat, int) NtOrderTemplateConfig" where
  "demo_config = \<lparr>cfg_order_type = LimitIfTouched, cfg_time_in_force = Gtd, cfg_expire_time_unix_nanos = Some 7,
     cfg_trigger_price = Some 5, cfg_activation_price = None, cfg_trigger_type = None, cfg_trigger_instrument_id = None,
     cfg_trailing_offset = None, cfg_trailing_offset_type = None, cfg_is_post_only = True, cfg_is_reduce_only = False,
     cfg_is_quote_quantity = False\<rparr>"

definition demo_template :: "(nat, int, int) NtOrderTemplate" where
  "demo_template = \<lparr>tpl_order_type = LimitIfTouched, tpl_time_in_force = Gtd, tpl_expire_time = Some 7,
     tpl_trigger_price = Some 50, tpl_activation_price = None, tpl_trigger_type = None, tpl_trigger_instrument_id = None,
     tpl_trailing_offset = None, tpl_trailing_offset_type = None, tpl_is_post_only = True, tpl_is_reduce_only = False,
     tpl_is_quote_quantity = False\<rparr>"

definition demo_prices :: "int price_ops" where
  "demo_prices = \<lparr>price_is_positive = (\<lambda>p. 0 < p), price_lt = (<)\<rparr>"

definition demo_inputs :: "(nat, int, nat) NtOrderBuildInputs" where
  "demo_inputs = \<lparr>in_instrument_id = 1, in_order_side = Buy, in_quantity = 2, in_price = Some 60, in_client_order_id = 3\<rparr>"


end
