(* ===== verification/KillSwitchFlatten.thy ===== *)
theory KillSwitchFlatten
  imports KillSwitch OrderIntent OutcomeFiling "HOL-Library.Char_ord" "HOL-Library.List_Lexorder"
begin

text \<open>
  The flatten supervisor of the kill switch (\<open>src/src/bolt_v3_kill_switch_flatten.rs\<close>): the claim
  that authorises a forced reduction, the snapshot of positions, the flatten plan over it and the
  aggregation of the attempts' outcomes; with the side predicates of
  \<open>src/src/bolt_v3_position_contract.rs\<close>. Quantities of the trading library and the construction of
  a client order id from a string are parameters; \<^term>\<open>None\<close> is a panic.
\<close>

section \<open>Position sides\<close>

fun expected_exit_order_side_for_position :: "PositionSide \<Rightarrow> OrderSide option" where
  "expected_exit_order_side_for_position Long = Some Sell"
| "expected_exit_order_side_for_position Short = Some Buy"
| "expected_exit_order_side_for_position _ = None"

fun expected_position_side_for_entry_order :: "OrderSide \<Rightarrow> PositionSide option" where
  "expected_position_side_for_entry_order Buy = Some Long"
| "expected_position_side_for_entry_order Sell = Some Short"
| "expected_position_side_for_entry_order _ = None"

definition is_observed_open_side :: "PositionSide \<Rightarrow> bool" where
  "is_observed_open_side side \<longleftrightarrow> side = Long \<or> side = Short"

section \<open>The forced reduction claim\<close>

record BoltV3KillSwitchForcedReductionClaim =
  claim_halt_id :: string
  claim_action_id :: string
  claim_policy_sha256 :: string

datatype BoltV3KillSwitchForcedReductionError = MissingHaltId | MissingActionId | InvalidPolicySha256

definition BoltV3KillSwitchForcedReductionClaim_new :: "string \<Rightarrow> string \<Rightarrow> string \<Rightarrow>
    BoltV3KillSwitchForcedReductionError + BoltV3KillSwitchForcedReductionClaim" where
  "BoltV3KillSwitchForcedReductionClaim_new halt_id action_id policy_sha256 =
     (if trim halt_id = [] then Inl MissingHaltId
      else if trim action_id = [] then Inl MissingActionId
      else if \<not> is_sha256_hex_digest policy_sha256 then Inl InvalidPolicySha256
      else Inr \<lparr>claim_halt_id = halt_id, claim_action_id = action_id, claim_policy_sha256 = policy_sha256\<rparr>)"

section \<open>Positions\<close>

datatype BoltV3KillSwitchFlattenError =
    ConflictingPositionProof
  | ForcedReductionProofMismatch
  | InconsistentPositionProof
  | InvalidConfigSha256
  | InvalidOrderTemplate
  | InvalidPolicySha256
  | InvalidAttemptOutcome
  | MissingActionId
  | KillSwitchStateNotFlattening
  | MissingCandidates
  | MissingPositionProof
  | MissingSourceTimestamp
  | NtTradingStateNotReducing
  | OrderTemplateNotReduceOnly
  | OrderTemplateUsesQuoteQuantity
  | UnknownOutcomeCommand
  | UnsupportedRouteProof

datatype BoltV3KillSwitchFlattenPositionEvidenceKind = CachePosition | PositionStatusReport

datatype BoltV3KillSwitchFlattenQuantitySource = CachePositionQuantity | PositionStatusReportQuantity

record ('k, 'q) BoltV3KillSwitchFlattenPositionState =
  ps_evidence_kind :: BoltV3KillSwitchFlattenPositionEvidenceKind
  ps_account_id :: 'k
  ps_instrument_id :: 'k
  ps_strategy_id :: 'k
  ps_position_id :: 'k
  ps_position_side :: PositionSide
  ps_quantity :: 'q
  ps_source_timestamp_unix_nanos :: u64

record ('k, 'q) BoltV3KillSwitchFlattenCandidate =
  fc_evidence_kind :: BoltV3KillSwitchFlattenPositionEvidenceKind
  fc_account_id :: 'k
  fc_instrument_id :: 'k
  fc_strategy_id :: 'k
  fc_position_id :: 'k
  fc_position_side :: PositionSide
  fc_quantity :: 'q
  fc_quantity_source :: BoltV3KillSwitchFlattenQuantitySource
  fc_source_timestamp_unix_nanos :: u64

text \<open>The quantities of the trading library: the test for zero and equality.\<close>

record 'q quantity_ops =
  qty_is_zero :: "'q \<Rightarrow> bool"
  qty_eq :: "'q \<Rightarrow> 'q \<Rightarrow> bool"

definition from_nt_position_state :: "'q quantity_ops \<Rightarrow> ('k, 'q) BoltV3KillSwitchFlattenPositionState \<Rightarrow>
    BoltV3KillSwitchFlattenError + ('k, 'q) BoltV3KillSwitchFlattenCandidate" where
  "from_nt_position_state Q state =
     (let quantity_source = (case ps_evidence_kind state of
            CachePosition \<Rightarrow> CachePositionQuantity
          | PositionStatusReport \<Rightarrow> PositionStatusReportQuantity) in
      if is_observed_open_side (ps_position_side state) \<and> qty_is_zero Q (ps_quantity state)
      then Inl InconsistentPositionProof
      else if ps_source_timestamp_unix_nanos state = 0 then Inl MissingSourceTimestamp
      else Inr \<lparr>fc_evidence_kind = ps_evidence_kind state, fc_account_id = ps_account_id state,
                fc_instrument_id = ps_instrument_id state, fc_strategy_id = ps_strategy_id state,
                fc_position_id = ps_position_id state, fc_position_side = ps_position_side state,
                fc_quantity = ps_quantity state, fc_quantity_source = quantity_source,
                fc_source_timestamp_unix_nanos = ps_source_timestamp_unix_nanos state\<rparr>)"

definition scoped_position_identity :: "('k, 'q) BoltV3KillSwitchFlattenCandidate \<Rightarrow> 'k \<times> 'k \<times> 'k \<times> 'k" where
  "scoped_position_identity c = (fc_account_id c, fc_instrument_id c, fc_strategy_id c, fc_position_id c)"

text \<open>The two nested loops over the candidates, the inner one over the later candidates.\<close>

definition conflicting :: "'q quantity_ops \<Rightarrow> ('k, 'q) BoltV3KillSwitchFlattenCandidate \<Rightarrow>
    ('k, 'q) BoltV3KillSwitchFlattenCandidate \<Rightarrow> bool" where
  "conflicting Q left right \<longleftrightarrow>
     fc_account_id left = fc_account_id right \<and> fc_instrument_id left = fc_instrument_id right \<and>
     fc_strategy_id left = fc_strategy_id right \<and> fc_position_id left = fc_position_id right \<and>
     (fc_position_side left \<noteq> fc_position_side right \<or> \<not> qty_eq Q (fc_quantity left) (fc_quantity right))"

fun validate_no_conflicting_position_proof :: "'q quantity_ops \<Rightarrow> ('k, 'q) BoltV3KillSwitchFlattenCandidate list \<Rightarrow>
    BoltV3KillSwitchFlattenError + unit" where
  "validate_no_conflicting_position_proof Q [] = Inr ()"
| "validate_no_conflicting_position_proof Q (left # rest) =
     (if list_ex (conflicting Q left) rest then Inl ConflictingPositionProof
      else validate_no_conflicting_position_proof Q rest)"

record ('k, 'q) BoltV3KillSwitchFlattenSnapshot =
  fs_candidates :: "('k, 'q) BoltV3KillSwitchFlattenCandidate list"
  fs_open_positions :: "('k, 'q) BoltV3KillSwitchFlattenCandidate list"
  fs_flat_positions :: "('k, 'q) BoltV3KillSwitchFlattenCandidate list"
  fs_unknown_side_positions :: "('k, 'q) BoltV3KillSwitchFlattenCandidate list"

definition BoltV3KillSwitchFlattenSnapshot_new :: "'q quantity_ops \<Rightarrow> ('k::linorder, 'q) BoltV3KillSwitchFlattenCandidate list \<Rightarrow>
    BoltV3KillSwitchFlattenError + ('k, 'q) BoltV3KillSwitchFlattenSnapshot" where
  "BoltV3KillSwitchFlattenSnapshot_new Q candidates =
     and_then (validate_no_conflicting_position_proof Q candidates) (\<lambda>_.
       let candidates = bt_values (first_by scoped_position_identity candidates) in
       Inr \<lparr>fs_candidates = candidates,
            fs_open_positions = filter (\<lambda>c. is_observed_open_side (fc_position_side c)) candidates,
            fs_flat_positions = filter (\<lambda>c. fc_position_side c = FlatSide) candidates,
            fs_unknown_side_positions = filter (\<lambda>c. fc_position_side c = NoPositionSide) candidates\<rparr>)"

definition has_residual_position_risk :: "('k, 'q) BoltV3KillSwitchFlattenSnapshot \<Rightarrow> bool" where
  "has_residual_position_risk snapshot \<longleftrightarrow> fs_open_positions snapshot \<noteq> [] \<or> fs_unknown_side_positions snapshot \<noteq> []"

text \<open>The policy has no fields.\<close>

definition flatten_validate_snapshot :: "('k, 'q) BoltV3KillSwitchFlattenSnapshot \<Rightarrow> BoltV3KillSwitchFlattenError + unit" where
  "flatten_validate_snapshot snapshot = (if fs_candidates snapshot = [] then Inl MissingPositionProof else Inr ())"

section \<open>The flatten plan\<close>

datatype BoltV3KillSwitchFlattenRouteKind = PerStrategyActionPort | LiveNodeCommandRouter | Unsupported

datatype BoltV3KillSwitchFlattenDecisionMode = DryRunProofOnly | LiveNodeCommandRouter

record ('k, 'p, 'q, 'd) BoltV3KillSwitchFlattenPlanRequest =
  freq_kill_switch_state :: KillSwitchState
  freq_nt_trading_state :: TradingState
  freq_action_id :: string
  freq_config_sha256 :: string
  freq_policy_sha256 :: string
  freq_source_timestamp_unix_nanos :: u64
  freq_snapshot :: "('k, 'q) BoltV3KillSwitchFlattenSnapshot"
  freq_observed_at_unix_nanos :: u64
  freq_route_proof :: BoltV3KillSwitchFlattenRouteKind
  freq_order_template :: "('k, 'p, 'd) NtOrderTemplate"
  freq_forced_reduction_claim :: BoltV3KillSwitchForcedReductionClaim

record ('k, 'p, 'q, 'd) BoltV3KillSwitchFlattenCommand =
  fcmd_halt_id :: string
  fcmd_action_id :: string
  fcmd_config_sha256 :: string
  fcmd_policy_sha256 :: string
  fcmd_source_timestamp_unix_nanos :: u64
  fcmd_account_id :: 'k
  fcmd_instrument_id :: 'k
  fcmd_strategy_id :: 'k
  fcmd_position_id :: 'k
  fcmd_position_side :: PositionSide
  fcmd_order_side :: OrderSide
  fcmd_quantity :: 'q
  fcmd_quantity_source :: BoltV3KillSwitchFlattenQuantitySource
  fcmd_order_template :: "('k, 'p, 'd) NtOrderTemplate"
  fcmd_route_kind :: BoltV3KillSwitchFlattenRouteKind
  fcmd_forced_reduction_claim :: BoltV3KillSwitchForcedReductionClaim

record ('k, 'p, 'q, 'd) BoltV3KillSwitchFlattenPlan =
  fplan_halt_id :: string
  fplan_decision_mode :: BoltV3KillSwitchFlattenDecisionMode
  fplan_candidates :: "('k, 'q) BoltV3KillSwitchFlattenCandidate list"
  fplan_commands :: "('k, 'p, 'q, 'd) BoltV3KillSwitchFlattenCommand list"

definition validate_flatten_command_metadata :: "('k, 'p, 'q, 'd) BoltV3KillSwitchFlattenPlanRequest \<Rightarrow>
    BoltV3KillSwitchFlattenError + unit" where
  "validate_flatten_command_metadata request =
     (if trim (freq_action_id request) = [] then Inl MissingActionId
      else if \<not> is_sha256_hex_digest (freq_config_sha256 request) then Inl InvalidConfigSha256
      else if \<not> is_sha256_hex_digest (freq_policy_sha256 request) then Inl InvalidPolicySha256
      else if freq_source_timestamp_unix_nanos request = 0 then Inl MissingSourceTimestamp
      else Inr ())"

text \<open>The loop over the open positions; the source builds the client order id for each of them.\<close>

fun validate_each_position :: "'p price_ops \<Rightarrow> 'd decimal_ops \<Rightarrow> (string \<Rightarrow> 'k option) \<Rightarrow> ('k, 'p, 'd) NtOrderTemplate \<Rightarrow>
    string \<Rightarrow> ('k, 'q) BoltV3KillSwitchFlattenCandidate list \<Rightarrow> (BoltV3KillSwitchFlattenError + unit) option" where
  "validate_each_position P D client_order_id_from template action_id [] = Some (Inr ())"
| "validate_each_position P D client_order_id_from template action_id (candidate # rest) =
     (case expected_exit_order_side_for_position (fc_position_side candidate) of
        None \<Rightarrow> None
      | Some order_side \<Rightarrow>
          (case client_order_id_from action_id of
             None \<Rightarrow> None
           | Some client_order_id \<Rightarrow>
               let inputs = \<lparr>in_instrument_id = fc_instrument_id candidate, in_order_side = order_side,
                     in_quantity = fc_quantity candidate, in_price = None, in_client_order_id = client_order_id\<rparr> in
               (case validate_nt_order_template P D template inputs of
                  Inl _ \<Rightarrow> Some (Inl InvalidOrderTemplate)
                | Inr _ \<Rightarrow> validate_each_position P D client_order_id_from template action_id rest)))"

definition validate_flatten_order_template :: "'p price_ops \<Rightarrow> 'd decimal_ops \<Rightarrow> (string \<Rightarrow> 'k option) \<Rightarrow>
    ('k, 'p, 'd) NtOrderTemplate \<Rightarrow> ('k, 'q) BoltV3KillSwitchFlattenCandidate list \<Rightarrow> string \<Rightarrow>
    (BoltV3KillSwitchFlattenError + unit) option" where
  "validate_flatten_order_template P D client_order_id_from template open_positions action_id =
     (if \<not> tpl_is_reduce_only template then Some (Inl OrderTemplateNotReduceOnly)
      else if tpl_is_quote_quantity template then Some (Inl OrderTemplateUsesQuoteQuantity)
      else validate_each_position P D client_order_id_from template action_id open_positions)"

definition flatten_command :: "('k, 'p, 'q, 'd) BoltV3KillSwitchFlattenPlanRequest \<Rightarrow> string \<Rightarrow> string \<Rightarrow>
    ('k, 'q) BoltV3KillSwitchFlattenCandidate \<Rightarrow> ('k, 'p, 'q, 'd) BoltV3KillSwitchFlattenCommand option" where
  "flatten_command request halt_id action_id candidate =
     (case expected_exit_order_side_for_position (fc_position_side candidate) of
        None \<Rightarrow> None
      | Some order_side \<Rightarrow> Some
          \<lparr>fcmd_halt_id = halt_id, fcmd_action_id = action_id, fcmd_config_sha256 = freq_config_sha256 request,
           fcmd_policy_sha256 = freq_policy_sha256 request,
           fcmd_source_timestamp_unix_nanos = freq_source_timestamp_unix_nanos request,
           fcmd_account_id = fc_account_id candidate, fcmd_instrument_id = fc_instrument_id candidate,
           fcmd_strategy_id = fc_strategy_id candidate, fcmd_position_id = fc_position_id candidate,
           fcmd_position_side = fc_position_side candidate, fcmd_order_side = order_side,
           fcmd_quantity = fc_quantity candidate, fcmd_quantity_source = fc_quantity_source candidate,
           fcmd_order_template = freq_order_template request, fcmd_route_kind = freq_route_proof request,
           fcmd_forced_reduction_claim = freq_forced_reduction_claim request\<rparr>)"

fun flatten_commands :: "('k, 'p, 'q, 'd) BoltV3KillSwitchFlattenPlanRequest \<Rightarrow> string \<Rightarrow> string \<Rightarrow>
    ('k, 'q) BoltV3KillSwitchFlattenCandidate list \<Rightarrow> ('k, 'p, 'q, 'd) BoltV3KillSwitchFlattenCommand list option" where
  "flatten_commands request halt_id action_id [] = Some []"
| "flatten_commands request halt_id action_id (c # cs) =
     (case flatten_command request halt_id action_id c of
        None \<Rightarrow> None
      | Some command \<Rightarrow> map_option ((#) command) (flatten_commands request halt_id action_id cs))"

text \<open>The match on the route kind; its \<open>unreachable!\<close> arm is a panic.\<close>

fun flatten_decision_mode :: "BoltV3KillSwitchFlattenRouteKind \<Rightarrow> BoltV3KillSwitchFlattenDecisionMode option" where
  "flatten_decision_mode BoltV3KillSwitchFlattenRouteKind.LiveNodeCommandRouter = Some LiveNodeCommandRouter"
| "flatten_decision_mode PerStrategyActionPort = Some DryRunProofOnly"
| "flatten_decision_mode Unsupported = None"

definition build_flatten_plan :: "('k, 'p, 'q, 'd) BoltV3KillSwitchFlattenPlanRequest \<Rightarrow> string \<Rightarrow> string \<Rightarrow>
    ('k, 'p, 'q, 'd) BoltV3KillSwitchFlattenPlan option" where
  "build_flatten_plan request halt_id action_id =
     (case flatten_commands request halt_id action_id (fs_open_positions (freq_snapshot request)) of
        None \<Rightarrow> None
      | Some commands \<Rightarrow>
          (case flatten_decision_mode (freq_route_proof request) of
             None \<Rightarrow> None
           | Some decision_mode \<Rightarrow> Some
               \<lparr>fplan_halt_id = halt_id, fplan_decision_mode = decision_mode,
                fplan_candidates = fs_candidates (freq_snapshot request), fplan_commands = commands\<rparr>))"

definition plan_flatten :: "'p price_ops \<Rightarrow> 'd decimal_ops \<Rightarrow> (string \<Rightarrow> 'k option) \<Rightarrow>
    ('k, 'p, 'q, 'd) BoltV3KillSwitchFlattenPlanRequest \<Rightarrow>
    (BoltV3KillSwitchFlattenError + ('k, 'p, 'q, 'd) BoltV3KillSwitchFlattenPlan) option" where
  "plan_flatten P D client_order_id_from request =
     (case freq_kill_switch_state request of
        Flattening halt_id \<Rightarrow>
          if freq_nt_trading_state request \<noteq> Reducing then Some (Inl NtTradingStateNotReducing)
          else
            (case validate_flatten_command_metadata request of
               Inl e \<Rightarrow> Some (Inl e)
             | Inr _ \<Rightarrow>
                 let action_id = trim (freq_action_id request) in
                 (case validate_flatten_order_template P D client_order_id_from (freq_order_template request)
                         (fs_open_positions (freq_snapshot request)) action_id of
                    None \<Rightarrow> None
                  | Some (Inl e) \<Rightarrow> Some (Inl e)
                  | Some (Inr _) \<Rightarrow>
                      if claim_halt_id (freq_forced_reduction_claim request) \<noteq> halt_id \<or>
                         trim (claim_action_id (freq_forced_reduction_claim request)) \<noteq> action_id \<or>
                         claim_policy_sha256 (freq_forced_reduction_claim request) \<noteq> freq_policy_sha256 request
                      then Some (Inl ForcedReductionProofMismatch)
                      else if freq_route_proof request = Unsupported then Some (Inl UnsupportedRouteProof)
                      else
                        (case flatten_validate_snapshot (freq_snapshot request) of
                           Inl e \<Rightarrow> Some (Inl e)
                         | Inr _ \<Rightarrow> map_option Inr (build_flatten_plan request halt_id action_id))))
      | _ \<Rightarrow> Some (Inl KillSwitchStateNotFlattening))"

section \<open>Outcomes of the attempts\<close>

datatype BoltV3KillSwitchFlattenAttemptOutcome =
    SubmitPlanned
  | SubmitAccepted
  | SubmitRejected
  | PartialFill
  | ResidualPositionRemains
  | FlatPositionObserved
  | StalePositionProof
  | UnsupportedInstrument
  | ThinBookNoFillabilityProof

definition submit_accepted :: "OrderStatus \<Rightarrow> BoltV3KillSwitchFlattenError + BoltV3KillSwitchFlattenAttemptOutcome" where
  "submit_accepted status = (if status \<noteq> Accepted then Inl InvalidAttemptOutcome else Inr SubmitAccepted)"

definition submit_rejected :: "OrderStatus \<Rightarrow> BoltV3KillSwitchFlattenError + BoltV3KillSwitchFlattenAttemptOutcome" where
  "submit_rejected status = (if status \<noteq> Rejected then Inl InvalidAttemptOutcome else Inr SubmitRejected)"

definition partial_fill :: "OrderStatus \<Rightarrow> BoltV3KillSwitchFlattenError + BoltV3KillSwitchFlattenAttemptOutcome" where
  "partial_fill status = (if status \<noteq> PartiallyFilled then Inl InvalidAttemptOutcome else Inr PartialFill)"

definition residual_position_remains :: "PositionSide \<Rightarrow> u64 \<Rightarrow>
    BoltV3KillSwitchFlattenError + BoltV3KillSwitchFlattenAttemptOutcome" where
  "residual_position_remains position_side source_timestamp_unix_nanos =
     (if \<not> is_observed_open_side position_side \<or> source_timestamp_unix_nanos = 0 then Inl InvalidAttemptOutcome
      else Inr ResidualPositionRemains)"

definition flat_position_observed :: "PositionSide \<Rightarrow> u64 \<Rightarrow>
    BoltV3KillSwitchFlattenError + BoltV3KillSwitchFlattenAttemptOutcome" where
  "flat_position_observed position_side source_timestamp_unix_nanos =
     (if position_side \<noteq> FlatSide \<or> source_timestamp_unix_nanos = 0 then Inl InvalidAttemptOutcome
      else Inr FlatPositionObserved)"

datatype BoltV3KillSwitchFlattenAggregateOutcome =
    AllFlat
  | OutstandingFlattenSubmit
  | ResidualPositionRemains
  | FailedManualIntervention
  | SubmitRejectedManualIntervention

text \<open>The derived order of the aggregate outcomes is the order of their declaration.\<close>

fun flatten_rank :: "BoltV3KillSwitchFlattenAggregateOutcome \<Rightarrow> nat" where
  "flatten_rank AllFlat = 0"
| "flatten_rank OutstandingFlattenSubmit = 1"
| "flatten_rank BoltV3KillSwitchFlattenAggregateOutcome.ResidualPositionRemains = 2"
| "flatten_rank FailedManualIntervention = 3"
| "flatten_rank SubmitRejectedManualIntervention = 4"

lemma flatten_rank_inj: "flatten_rank a = flatten_rank b \<longleftrightarrow> a = b"
  by (cases a; cases b) simp_all

instantiation BoltV3KillSwitchFlattenAggregateOutcome :: linorder
begin

definition less_eq_flatten: "a \<le> b \<longleftrightarrow> flatten_rank a \<le> flatten_rank b"

definition less_flatten: "a < b \<longleftrightarrow> flatten_rank a < flatten_rank b"

instance
  by standard (auto simp: less_eq_flatten less_flatten flatten_rank_inj)

end

record BoltV3KillSwitchFlattenOutcomeSummary =
  aggregate :: BoltV3KillSwitchFlattenAggregateOutcome
  authorizes_durable_state_transition :: bool

definition summarize :: "BoltV3KillSwitchFlattenAttemptOutcome list \<Rightarrow> BoltV3KillSwitchFlattenOutcomeSummary" where
  "summarize outcomes =
     \<lparr>aggregate =
        (if list_ex (\<lambda>outcome. outcome = SubmitRejected) outcomes then SubmitRejectedManualIntervention
         else if list_ex (\<lambda>outcome. outcome = StalePositionProof \<or> outcome = UnsupportedInstrument \<or>
                outcome = ThinBookNoFillabilityProof) outcomes then FailedManualIntervention
         else if list_ex (\<lambda>outcome. outcome = BoltV3KillSwitchFlattenAttemptOutcome.ResidualPositionRemains \<or>
                outcome = PartialFill) outcomes then BoltV3KillSwitchFlattenAggregateOutcome.ResidualPositionRemains
         else if list_ex (\<lambda>outcome. outcome = SubmitPlanned \<or> outcome = SubmitAccepted) outcomes
              then OutstandingFlattenSubmit
         else AllFlat),
      authorizes_durable_state_transition = False\<rparr>"

definition aggregate_for_outcome :: "BoltV3KillSwitchFlattenAttemptOutcome \<Rightarrow> BoltV3KillSwitchFlattenAggregateOutcome" where
  "aggregate_for_outcome outcome = aggregate (summarize [outcome])"

definition worse_flatten_outcome :: "BoltV3KillSwitchFlattenAttemptOutcome \<Rightarrow> BoltV3KillSwitchFlattenAttemptOutcome \<Rightarrow>
    BoltV3KillSwitchFlattenAttemptOutcome" where
  "worse_flatten_outcome current next' =
     (if aggregate_for_outcome current < aggregate_for_outcome next' then next' else current)"

definition worse_flatten_aggregate :: "BoltV3KillSwitchFlattenAggregateOutcome \<Rightarrow> BoltV3KillSwitchFlattenAggregateOutcome \<Rightarrow>
    BoltV3KillSwitchFlattenAggregateOutcome" where
  "worse_flatten_aggregate current next' = (if current < next' then next' else current)"

datatype BoltV3KillSwitchFlattenResult =
    AllFlat
  | ResidualPositionRemains
  | OutstandingFlattenSubmit
  | SubmitRejectedManualIntervention
  | FailedManualIntervention

fun result_from :: "BoltV3KillSwitchFlattenAggregateOutcome \<Rightarrow> BoltV3KillSwitchFlattenResult" where
  "result_from BoltV3KillSwitchFlattenAggregateOutcome.AllFlat = AllFlat"
| "result_from BoltV3KillSwitchFlattenAggregateOutcome.ResidualPositionRemains = ResidualPositionRemains"
| "result_from BoltV3KillSwitchFlattenAggregateOutcome.OutstandingFlattenSubmit = OutstandingFlattenSubmit"
| "result_from BoltV3KillSwitchFlattenAggregateOutcome.SubmitRejectedManualIntervention = SubmitRejectedManualIntervention"
| "result_from BoltV3KillSwitchFlattenAggregateOutcome.FailedManualIntervention = FailedManualIntervention"

type_synonym 'k flatten_identity = "string \<times> string \<times> 'k \<times> 'k \<times> 'k \<times> 'k"

text \<open>The evidence of an outcome: the identity of its command and the outcome.\<close>

record 'k BoltV3KillSwitchFlattenOutcomeEvidence =
  foe_identity :: "'k flatten_identity"
  foe_outcome :: BoltV3KillSwitchFlattenAttemptOutcome

definition flatten_outcome_identity :: "('k, 'p, 'q, 'd) BoltV3KillSwitchFlattenCommand \<Rightarrow> 'k flatten_identity" where
  "flatten_outcome_identity command =
     (fcmd_halt_id command, fcmd_action_id command, fcmd_account_id command, fcmd_instrument_id command,
      fcmd_strategy_id command, fcmd_position_id command)"

definition from_command :: "('k, 'p, 'q, 'd) BoltV3KillSwitchFlattenCommand \<Rightarrow> BoltV3KillSwitchFlattenAttemptOutcome \<Rightarrow>
    'k BoltV3KillSwitchFlattenOutcomeEvidence" where
  "from_command command outcome = \<lparr>foe_identity = flatten_outcome_identity command, foe_outcome = outcome\<rparr>"

fun file_flatten_outcomes :: "'k flatten_identity set \<Rightarrow>
    (('k::linorder) flatten_identity, BoltV3KillSwitchFlattenAttemptOutcome) btree_map \<Rightarrow>
    'k BoltV3KillSwitchFlattenOutcomeEvidence list \<Rightarrow>
    BoltV3KillSwitchFlattenError + ('k flatten_identity, BoltV3KillSwitchFlattenAttemptOutcome) btree_map" where
  "file_flatten_outcomes expected by_identity [] = Inr by_identity"
| "file_flatten_outcomes expected by_identity (outcome # rest) =
     (if foe_identity outcome \<notin> expected then Inl UnknownOutcomeCommand
      else file_flatten_outcomes expected
        (entry_modify_or_insert (foe_identity outcome)
           (\<lambda>existing. worse_flatten_outcome existing (foe_outcome outcome)) (foe_outcome outcome) by_identity) rest)"

definition command_aggregate :: "(('k::linorder) flatten_identity, BoltV3KillSwitchFlattenAttemptOutcome) btree_map \<Rightarrow>
    ('k, 'p, 'q, 'd) BoltV3KillSwitchFlattenCommand \<Rightarrow> BoltV3KillSwitchFlattenAggregateOutcome" where
  "command_aggregate by_identity command =
     (case bt_get by_identity (flatten_outcome_identity command) of
        None \<Rightarrow> BoltV3KillSwitchFlattenAggregateOutcome.OutstandingFlattenSubmit
      | Some outcome \<Rightarrow> aggregate_for_outcome outcome)"

definition from_plan_outcomes :: "('k::linorder, 'p, 'q, 'd) BoltV3KillSwitchFlattenPlan \<Rightarrow>
    'k BoltV3KillSwitchFlattenOutcomeEvidence list \<Rightarrow> BoltV3KillSwitchFlattenError + BoltV3KillSwitchFlattenResult" where
  "from_plan_outcomes plan outcomes =
     and_then (file_flatten_outcomes (set (map flatten_outcome_identity (fplan_commands plan))) [] outcomes) (\<lambda>by_identity.
       Inr (result_from (foldl (\<lambda>aggregate command. worse_flatten_aggregate aggregate (command_aggregate by_identity command))
              BoltV3KillSwitchFlattenAggregateOutcome.AllFlat (fplan_commands plan))))"

section \<open>The plan reduces every open position\<close>

lemma exit_side_open: "is_observed_open_side side \<longleftrightarrow> expected_exit_order_side_for_position side \<noteq> None"
  by (cases side) (simp_all add: is_observed_open_side_def)

lemma no_conflict:
  assumes "validate_no_conflicting_position_proof Q cs = Inr ()" and "i < j" and "j < length cs"
  shows "\<not> conflicting Q (cs ! i) (cs ! j)"
  using assms
proof (induction Q cs arbitrary: i j rule: validate_no_conflicting_position_proof.induct)
  case (2 Q left rest)
  have ok: "\<not> list_ex (conflicting Q left) rest" "validate_no_conflicting_position_proof Q rest = Inr ()"
    using "2.prems"(1) by (simp_all split: if_splits)
  obtain j' where j: "j = Suc j'" "j' < length rest" using "2.prems" by (cases j) auto
  show ?case
  proof (cases i)
    case 0
    then show ?thesis using ok(1) j by (auto simp: list_ex_iff)
  next
    case (Suc i')
    then show ?thesis using "2.IH" [OF ok, of i' j'] "2.prems" j by simp
  qed
qed simp

lemma agreeing:
  assumes ok: "validate_no_conflicting_position_proof Q cs = Inr ()" and first: "find (\<lambda>x. scoped_position_identity x = i) cs = Some v"
    and c: "c \<in> set cs" "scoped_position_identity c = i" and refl: "\<And>q. qty_eq Q q q"
  shows "fc_position_side c = fc_position_side v" and "qty_eq Q (fc_quantity v) (fc_quantity c)"
proof -
  obtain m where m: "m < length cs" "cs ! m = v" "\<And>k. k < m \<Longrightarrow> scoped_position_identity (cs ! k) \<noteq> i"
      "scoped_position_identity v = i"
    using first by (auto simp: find_Some_iff)
  obtain n where n: "n < length cs" "cs ! n = c" using c(1) by (auto simp: in_set_conv_nth)
  have "m \<le> n" using m(3) [of n] n c(2) by (meson not_le)
  have "\<not> conflicting Q v c \<or> v = c"
    using no_conflict [OF ok, of m n] \<open>m \<le> n\<close> m n by (cases "m = n") auto
  then show "fc_position_side c = fc_position_side v" and "qty_eq Q (fc_quantity v) (fc_quantity c)"
    using m(4) c(2) refl by (auto simp: conflicting_def scoped_position_identity_def)
qed

lemma flatten_commands_Some:
  assumes "list_all (\<lambda>c. is_observed_open_side (fc_position_side c)) cs"
  shows "\<exists>cmds. flatten_commands req h a cs = Some cmds \<and> list_all2 (\<lambda>c cmd. flatten_command req h a c = Some cmd) cs cmds"
  using assms
proof (induction cs)
  case (Cons c cs)
  then obtain cmd cmds where "flatten_command req h a c = Some cmd" "flatten_commands req h a cs = Some cmds"
      "list_all2 (\<lambda>c cmd. flatten_command req h a c = Some cmd) cs cmds"
    by (auto simp: flatten_command_def exit_side_open)
  then show ?case by (intro exI [of _ "cmd # cmds"]) simp
qed simp

lemma validate_each_total:
  assumes "list_all (\<lambda>c. is_observed_open_side (fc_position_side c)) cs" and "C a = Some k"
  shows "validate_each_position P D C t a cs \<noteq> None"
  using assms(1)
  by (induction cs) (auto simp: exit_side_open assms(2) Let_def split: sum.split)

lemma snapshot_open:
  assumes "BoltV3KillSwitchFlattenSnapshot_new Q candidates = Inr snapshot"
  shows "list_all (\<lambda>c. is_observed_open_side (fc_position_side c)) (fs_open_positions snapshot)"
    and "fs_open_positions snapshot =
      filter (\<lambda>c. is_observed_open_side (fc_position_side c)) (bt_values (first_by scoped_position_identity candidates))"
    and "validate_no_conflicting_position_proof Q candidates = Inr ()"
  using assms by (auto simp: BoltV3KillSwitchFlattenSnapshot_new_def and_then_Inr Let_def list_all_iff)

lemma list_all2_in_set2:
  assumes "list_all2 R xs ys" and "y \<in> set ys"
  obtains x where "x \<in> set xs" and "R x y"
proof -
  obtain i where i: "i < length ys" "ys ! i = y" using assms(2) by (auto simp: in_set_conv_nth)
  then have "R (xs ! i) y" "xs ! i \<in> set xs" using assms(1) by (auto simp: list_all2_conv_all_nth)
  then show ?thesis using that by blast
qed

definition flatten_command_identity :: "('k, 'p, 'q, 'd) BoltV3KillSwitchFlattenCommand \<Rightarrow> 'k \<times> 'k \<times> 'k \<times> 'k" where
  "flatten_command_identity c = (fcmd_account_id c, fcmd_instrument_id c, fcmd_strategy_id c, fcmd_position_id c)"

text \<open>What a command does to the position of a candidate.\<close>

definition reduces :: "'q quantity_ops \<Rightarrow> ('k, 'p, 'q, 'd) BoltV3KillSwitchFlattenPlanRequest \<Rightarrow>
    ('k, 'p, 'q, 'd) BoltV3KillSwitchFlattenCommand \<Rightarrow> ('k, 'q) BoltV3KillSwitchFlattenCandidate \<Rightarrow> bool" where
  "reduces Q req cmd c \<longleftrightarrow>
     (fc_position_side c = Long \<and> fcmd_order_side cmd = Sell \<or> fc_position_side c = Short \<and> fcmd_order_side cmd = Buy) \<and>
     qty_eq Q (fcmd_quantity cmd) (fc_quantity c) \<and> tpl_is_reduce_only (fcmd_order_template cmd) \<and>
     freq_kill_switch_state req = Flattening (fcmd_halt_id cmd) \<and>
     claim_halt_id (fcmd_forced_reduction_claim cmd) = fcmd_halt_id cmd"

lemma flatten_command_fields:
  assumes "flatten_command req h a c = Some cmd"
  shows "flatten_command_identity cmd = scoped_position_identity c" and "fcmd_quantity cmd = fc_quantity c"
    and "fcmd_order_template cmd = freq_order_template req" and "fcmd_halt_id cmd = h"
    and "fcmd_forced_reduction_claim cmd = freq_forced_reduction_claim req"
    and "expected_exit_order_side_for_position (fc_position_side c) = Some (fcmd_order_side cmd)"
  using assms by (auto simp: flatten_command_def flatten_command_identity_def scoped_position_identity_def split: option.splits)

lemma plan_flatten_Inr:
  assumes "plan_flatten P D C req = Some (Inr plan)"
  obtains h where "freq_kill_switch_state req = Flattening h" "claim_halt_id (freq_forced_reduction_claim req) = h"
    "tpl_is_reduce_only (freq_order_template req)"
    "flatten_commands req h (trim (freq_action_id req)) (fs_open_positions (freq_snapshot req)) = Some (fplan_commands plan)"
  using assms
  by (auto simp: plan_flatten_def Let_def validate_flatten_order_template_def build_flatten_plan_def
      split: KillSwitchState.splits sum.splits option.splits if_splits)

lemma plan_flatten_total:
  assumes snap: "BoltV3KillSwitchFlattenSnapshot_new Q candidates = Inr (freq_snapshot req)"
    and client: "C (trim (freq_action_id req)) = Some client"
  shows "plan_flatten P D C req \<noteq> None"
proof -
  note open_side = snapshot_open(1) [OF snap]
  have "validate_flatten_order_template P D C (freq_order_template req) (fs_open_positions (freq_snapshot req))
      (trim (freq_action_id req)) \<noteq> None"
    using validate_each_total [of "fs_open_positions (freq_snapshot req)" C "trim (freq_action_id req)" client P D
        "freq_order_template req", OF open_side client]
    by (simp add: validate_flatten_order_template_def)
  moreover have "build_flatten_plan req h a \<noteq> None" if "freq_route_proof req \<noteq> Unsupported" for h a
    using flatten_commands_Some [OF open_side, of req h a] that
    by (cases "freq_route_proof req") (auto simp: build_flatten_plan_def)
  ultimately show ?thesis
    by (auto simp: plan_flatten_def Let_def split: KillSwitchState.splits sum.splits option.splits)
qed

lemma open_identities:
  assumes ok: "validate_no_conflicting_position_proof Q cs = Inr ()" and refl: "\<And>q. qty_eq Q q q"
  shows "scoped_position_identity ` {c \<in> set (bt_values (first_by scoped_position_identity cs)). is_observed_open_side (fc_position_side c)} =
    scoped_position_identity ` {c \<in> set cs. is_observed_open_side (fc_position_side c)}"
proof (intro equalityI subsetI)
  fix i assume "i \<in> scoped_position_identity ` {c \<in> set (bt_values (first_by scoped_position_identity cs)). is_observed_open_side (fc_position_side c)}"
  then obtain v where v: "i = scoped_position_identity v" "find (\<lambda>x. scoped_position_identity x = scoped_position_identity v) cs = Some v"
      "is_observed_open_side (fc_position_side v)" by (auto simp: first_by_values)
  then have "v \<in> set cs" by (auto simp: find_Some_iff)
  with v show "i \<in> scoped_position_identity ` {c \<in> set cs. is_observed_open_side (fc_position_side c)}" by blast
next
  fix i assume "i \<in> scoped_position_identity ` {c \<in> set cs. is_observed_open_side (fc_position_side c)}"
  then obtain c where c: "c \<in> set cs" "scoped_position_identity c = i" "is_observed_open_side (fc_position_side c)" by blast
  then obtain v where v: "find (\<lambda>x. scoped_position_identity x = i) cs = Some v"
    by (cases "find (\<lambda>x. scoped_position_identity x = i) cs") (auto simp: find_None_iff)
  then have "scoped_position_identity v = i" by (auto simp: find_Some_iff)
  moreover have "fc_position_side v = fc_position_side c" using agreeing(1) [OF ok v c(1,2) refl] by simp
  ultimately have "v \<in> {c \<in> set (bt_values (first_by scoped_position_identity cs)). is_observed_open_side (fc_position_side c)}"
    using v c(3) by (simp add: first_by_values)
  then show "i \<in> scoped_position_identity ` {c \<in> set (bt_values (first_by scoped_position_identity cs)). is_observed_open_side (fc_position_side c)}"
    using \<open>scoped_position_identity v = i\<close> by blast
qed


definition demo_position :: "nat \<Rightarrow> PositionSide \<Rightarrow> BoltV3KillSwitchFlattenPositionEvidenceKind \<Rightarrow> (nat, nat) BoltV3KillSwitchFlattenCandidate" where
  "demo_position n side kind = \<lparr>fc_evidence_kind = kind, fc_account_id = 1, fc_instrument_id = 2, fc_strategy_id = 3,
     fc_position_id = n, fc_position_side = side, fc_quantity = 7, fc_quantity_source = CachePositionQuantity,
     fc_source_timestamp_unix_nanos = 9\<rparr>"

definition demo_quantities :: "nat quantity_ops" where
  "demo_quantities = \<lparr>qty_is_zero = (\<lambda>q. q = 0), qty_eq = (=)\<rparr>"

definition demo_positions :: "(nat, nat) BoltV3KillSwitchFlattenCandidate list" where
  "demo_positions = [demo_position 4 Long CachePosition, demo_position 5 FlatSide CachePosition,
     demo_position 4 Long PositionStatusReport]"

definition demo_sha :: string where "demo_sha = replicate 64 (CHR ''a'')"

definition demo_flatten_template :: "(nat, int, int) NtOrderTemplate" where
  "demo_flatten_template = \<lparr>tpl_order_type = Market, tpl_time_in_force = OtherTimeInForce 0, tpl_expire_time = None,
     tpl_trigger_price = None, tpl_activation_price = None, tpl_trigger_type = None, tpl_trigger_instrument_id = None,
     tpl_trailing_offset = None, tpl_trailing_offset_type = None, tpl_is_post_only = False, tpl_is_reduce_only = True,
     tpl_is_quote_quantity = False\<rparr>"

definition demo_flatten_request :: "(nat, int, nat, int) BoltV3KillSwitchFlattenPlanRequest" where
  "demo_flatten_request = \<lparr>freq_kill_switch_state = Flattening ''h'', freq_nt_trading_state = Reducing,
     freq_action_id = ''x'', freq_config_sha256 = demo_sha, freq_policy_sha256 = demo_sha,
     freq_source_timestamp_unix_nanos = 1,
     freq_snapshot = \<lparr>fs_candidates = [demo_position 4 Long CachePosition, demo_position 5 FlatSide CachePosition],
       fs_open_positions = [demo_position 4 Long CachePosition],
       fs_flat_positions = [demo_position 5 FlatSide CachePosition], fs_unknown_side_positions = []\<rparr>,
     freq_observed_at_unix_nanos = 1, freq_route_proof = PerStrategyActionPort, freq_order_template = demo_flatten_template,
     freq_forced_reduction_claim = \<lparr>claim_halt_id = ''h'', claim_action_id = ''x'', claim_policy_sha256 = demo_sha\<rparr>\<rparr>"

lemma demo_flatten_snapshot:
  "BoltV3KillSwitchFlattenSnapshot_new demo_quantities demo_positions = Inr (freq_snapshot demo_flatten_request)"
  by (simp add: BoltV3KillSwitchFlattenSnapshot_new_def demo_positions_def demo_flatten_request_def conflicting_def
      demo_position_def demo_quantities_def first_by_def entry_or_insert_def bt_get_def bt_values_def
      scoped_position_identity_def is_observed_open_side_def)

lemma demo_sha_ok: "is_sha256_hex_digest demo_sha"
  by (simp add: is_sha256_hex_digest_def SHA256_HEX_DIGEST_LEN_def demo_sha_def list_all_iff)

lemma trim_one: "trim ''x'' = ''x''"
  by (simp add: trim_def strip.simps leading_def starts_with_def white_space_def)

lemma demo_flatten_plan:
  "\<exists>plan. plan_flatten demo_prices whole_ops (\<lambda>s. Some 0) demo_flatten_request = Some (Inr plan)"
  by (simp add: plan_flatten_def demo_flatten_request_def validate_flatten_command_metadata_def demo_sha_ok trim_one
      validate_flatten_order_template_def demo_flatten_template_def demo_position_def
      validate_nt_order_template_def validate_defs Let_def ensure_def
      flatten_validate_snapshot_def build_flatten_plan_def flatten_command_def)


section \<open>The aggregate is the worst outcome\<close>

lemma AllFlat_least: "BoltV3KillSwitchFlattenAggregateOutcome.AllFlat \<le> r"
  by (simp add: less_eq_flatten)

lemma worse_flatten_aggregate_max: "worse_flatten_aggregate a b = max a b"
  by (auto simp: worse_flatten_aggregate_def max_def)

lemma worse_flatten_outcome_max:
  "aggregate_for_outcome (worse_flatten_outcome a b) = max (aggregate_for_outcome a) (aggregate_for_outcome b)"
  by (auto simp: worse_flatten_outcome_def max_def)

interpretation flatten_outcomes: graded_outcomes aggregate_for_outcome worse_flatten_outcome
  by unfold_locales (rule worse_flatten_outcome_max)

definition filed_flatten :: "'k BoltV3KillSwitchFlattenOutcomeEvidence list \<Rightarrow> ('k flatten_identity \<times> BoltV3KillSwitchFlattenAttemptOutcome) list" where
  "filed_flatten es = map (\<lambda>e. (foe_identity e, foe_outcome e)) es"

definition worst_aggregate :: "'k BoltV3KillSwitchFlattenOutcomeEvidence list \<Rightarrow>
    ('k, 'p, 'q, 'd) BoltV3KillSwitchFlattenCommand \<Rightarrow> BoltV3KillSwitchFlattenAggregateOutcome" where
  "worst_aggregate es command =
     worst_grade BoltV3KillSwitchFlattenAggregateOutcome.OutstandingFlattenSubmit aggregate_for_outcome
       (flatten_outcome_identity command) (filed_flatten es)"

lemma file_flatten_filed:
  "file_flatten_outcomes X m es = file_by worse_flatten_outcome UnknownOutcomeCommand X m (filed_flatten es)"
  by (induction X m es rule: file_flatten_outcomes.induct) (simp_all add: filed_flatten_def)

lemma fst_filed_flatten: "fst ` set (filed_flatten es) = foe_identity ` set es"
  by (force simp: filed_flatten_def)

lemma aggregate_for_outcome_cases:
  "aggregate_for_outcome SubmitPlanned = BoltV3KillSwitchFlattenAggregateOutcome.OutstandingFlattenSubmit"
  "aggregate_for_outcome SubmitAccepted = BoltV3KillSwitchFlattenAggregateOutcome.OutstandingFlattenSubmit"
  "aggregate_for_outcome SubmitRejected = BoltV3KillSwitchFlattenAggregateOutcome.SubmitRejectedManualIntervention"
  "aggregate_for_outcome PartialFill = BoltV3KillSwitchFlattenAggregateOutcome.ResidualPositionRemains"
  "aggregate_for_outcome BoltV3KillSwitchFlattenAttemptOutcome.ResidualPositionRemains =
     BoltV3KillSwitchFlattenAggregateOutcome.ResidualPositionRemains"
  "aggregate_for_outcome FlatPositionObserved = BoltV3KillSwitchFlattenAggregateOutcome.AllFlat"
  "aggregate_for_outcome StalePositionProof = BoltV3KillSwitchFlattenAggregateOutcome.FailedManualIntervention"
  "aggregate_for_outcome UnsupportedInstrument = BoltV3KillSwitchFlattenAggregateOutcome.FailedManualIntervention"
  "aggregate_for_outcome ThinBookNoFillabilityProof = BoltV3KillSwitchFlattenAggregateOutcome.FailedManualIntervention"
  by (simp_all add: aggregate_for_outcome_def summarize_def)

lemma flat_outcome: "aggregate_for_outcome x = BoltV3KillSwitchFlattenAggregateOutcome.AllFlat \<longleftrightarrow> x = FlatPositionObserved"
  by (cases x) (simp_all add: aggregate_for_outcome_cases)

lemma result_from_AllFlat: "result_from a = AllFlat \<longleftrightarrow> a = BoltV3KillSwitchFlattenAggregateOutcome.AllFlat"
  by (cases a) simp_all

lemma flatten_aggregate_eq:
  "from_plan_outcomes plan outcomes =
     (if foe_identity ` set outcomes \<subseteq> flatten_outcome_identity ` set (fplan_commands plan)
      then Inr (result_from (Max (insert BoltV3KillSwitchFlattenAggregateOutcome.AllFlat
             (worst_aggregate outcomes ` set (fplan_commands plan)))))
      else Inl UnknownOutcomeCommand)"
proof (cases rule: file_by_cases [of "filed_flatten outcomes" "set (map flatten_outcome_identity (fplan_commands plan))"
      worse_flatten_outcome UnknownOutcomeCommand "[]"])
  case unknown
  then show ?thesis by (simp add: from_plan_outcomes_def file_flatten_filed fst_filed_flatten)
next
  case (filed m)
  have "command_aggregate m c = worst_aggregate outcomes c" for c :: "('a, 'b, 'c, 'd) BoltV3KillSwitchFlattenCommand"
    using flatten_outcomes.filed_worst [OF filed(2)] by (simp add: command_aggregate_def worst_aggregate_def)
  with filed show ?thesis
    by (simp add: from_plan_outcomes_def file_flatten_filed fst_filed_flatten worse_flatten_aggregate_max foldl_max
        del: Max_insert)
qed

lemma worst_flat:
  assumes "worst_aggregate es c = BoltV3KillSwitchFlattenAggregateOutcome.AllFlat"
  shows "(\<exists>e \<in> set es. foe_identity e = flatten_outcome_identity c) \<and>
    (\<forall>e \<in> set es. foe_identity e = flatten_outcome_identity c \<longrightarrow> foe_outcome e = FlatPositionObserved)"
proof -
  note least = worst_grade_least [OF assms [unfolded worst_aggregate_def] AllFlat_least, simplified]
  have "\<exists>e \<in> set es. foe_identity e = flatten_outcome_identity c"
    using least(1) unfolding fst_filed_flatten by auto
  moreover have "foe_outcome e = FlatPositionObserved"
    if "e \<in> set es" "foe_identity e = flatten_outcome_identity c" for e
    using least(2) [of "foe_outcome e"] that unfolding flat_outcome [symmetric] by (force simp: filed_flatten_def)
  ultimately show ?thesis by blast
qed

lemma summarize_Max:
  "aggregate (summarize outcomes) =
     Max (insert BoltV3KillSwitchFlattenAggregateOutcome.AllFlat (aggregate_for_outcome ` set outcomes))"
proof (induction outcomes)
  case (Cons x xs)
  have "aggregate (summarize (x # xs)) = max (aggregate_for_outcome x) (aggregate (summarize xs))"
    by (cases x) (auto simp: aggregate_for_outcome_cases summarize_def max_def less_eq_flatten)
  also have "\<dots> = Max (insert BoltV3KillSwitchFlattenAggregateOutcome.AllFlat (aggregate_for_outcome ` set (x # xs)))"
    unfolding Cons.IH list.set(2) image_insert
    by (subst insert_commute, subst (2) Max_insert) (simp_all del: Max_insert)
  finally show ?case .
qed (simp add: summarize_def)

text \<open>
  The aggregate of the flatten attempts is the worst one, in any order of arrival. The chain of
  tests that summarises a list of outcomes computes the maximum of their grades. For a plan,
  outcomes of unknown commands are refused, and otherwise the result is the worst over the plan's
  commands, a command without an outcome counting as an outstanding submit; all positions are
  reported flat only if every command has an outcome and all its outcomes observed it flat.
\<close>

theorem flatten_aggregate_is_worst:
  "aggregate (summarize attempts) =
     Max (insert BoltV3KillSwitchFlattenAggregateOutcome.AllFlat (aggregate_for_outcome ` set attempts)) \<and>
   from_plan_outcomes plan outcomes =
     (if foe_identity ` set outcomes \<subseteq> flatten_outcome_identity ` set (fplan_commands plan)
      then Inr (result_from (Max (insert BoltV3KillSwitchFlattenAggregateOutcome.AllFlat
             (worst_aggregate outcomes ` set (fplan_commands plan)))))
      else Inl UnknownOutcomeCommand) \<and>
   (from_plan_outcomes plan outcomes = Inr AllFlat \<longrightarrow>
      (\<forall>c \<in> set (fplan_commands plan).
         (\<exists>e \<in> set outcomes. foe_identity e = flatten_outcome_identity c) \<and>
         (\<forall>e \<in> set outcomes. foe_identity e = flatten_outcome_identity c \<longrightarrow> foe_outcome e = FlatPositionObserved)))"
proof -
  have "worst_aggregate outcomes c = BoltV3KillSwitchFlattenAggregateOutcome.AllFlat"
    if "from_plan_outcomes plan outcomes = Inr AllFlat" and "c \<in> set (fplan_commands plan)" for c
  proof -
    have "Max (insert BoltV3KillSwitchFlattenAggregateOutcome.AllFlat (worst_aggregate outcomes ` set (fplan_commands plan))) =
        BoltV3KillSwitchFlattenAggregateOutcome.AllFlat"
      using that(1) by (simp add: flatten_aggregate_eq result_from_AllFlat del: Max_insert split: if_splits)
    then show ?thesis by (rule Max_insert_least) (use that AllFlat_least in simp_all)
  qed
  then show ?thesis using flatten_aggregate_eq summarize_Max worst_flat by (intro conjI impI ballI) blast+
qed

theorem flatten_aggregate_is_worst_witness:
  "\<exists>plan. plan_flatten demo_prices whole_ops (\<lambda>s. Some 0) demo_flatten_request = Some (Inr plan) \<and>
     (\<exists>r. from_plan_outcomes plan (map (\<lambda>c. from_command c PartialFill) (fplan_commands plan)) = Inr r)"
proof -
  obtain plan where plan: "plan_flatten demo_prices whole_ops (\<lambda>s. Some 0) demo_flatten_request = Some (Inr plan)"
    using demo_flatten_plan by blast
  have "foe_identity ` set (map (\<lambda>c. from_command c PartialFill) (fplan_commands plan)) =
      flatten_outcome_identity ` set (fplan_commands plan)"
    by (force simp: from_command_def)
  then show ?thesis
    using flatten_aggregate_is_worst [of "[]" plan "map (\<lambda>c. from_command c PartialFill) (fplan_commands plan)"] plan
    by (intro exI [of _ plan]) simp
qed

text \<open>
  A position of unknown side has residual risk by the snapshot's own test, but the plan has no
  command for it, so the aggregate of such a plan reports all positions flat.
\<close>

definition unknown_side_snapshot :: "(nat, nat) BoltV3KillSwitchFlattenSnapshot" where
  "unknown_side_snapshot =
     \<lparr>fs_candidates = [demo_position 4 NoPositionSide CachePosition], fs_open_positions = [], fs_flat_positions = [],
      fs_unknown_side_positions = [demo_position 4 NoPositionSide CachePosition]\<rparr>"

lemma unknown_side_reported_flat:
  "BoltV3KillSwitchFlattenSnapshot_new demo_quantities [demo_position 4 NoPositionSide CachePosition] = Inr unknown_side_snapshot \<and>
   has_residual_position_risk unknown_side_snapshot \<and>
   (\<exists>plan. plan_flatten demo_prices whole_ops (\<lambda>s. Some 0) (demo_flatten_request\<lparr>freq_snapshot := unknown_side_snapshot\<rparr>) =
      Some (Inr plan) \<and> from_plan_outcomes plan [] = Inr AllFlat)"
proof (intro conjI)
  show "BoltV3KillSwitchFlattenSnapshot_new demo_quantities [demo_position 4 NoPositionSide CachePosition] = Inr unknown_side_snapshot"
    by (simp add: BoltV3KillSwitchFlattenSnapshot_new_def unknown_side_snapshot_def demo_position_def first_by_def
        entry_or_insert_def bt_get_def bt_values_def is_observed_open_side_def Let_def)
  show "has_residual_position_risk unknown_side_snapshot"
    by (simp add: has_residual_position_risk_def unknown_side_snapshot_def)
  show "\<exists>plan. plan_flatten demo_prices whole_ops (\<lambda>s. Some 0) (demo_flatten_request\<lparr>freq_snapshot := unknown_side_snapshot\<rparr>) =
      Some (Inr plan) \<and> from_plan_outcomes plan [] = Inr AllFlat"
    by (simp add: plan_flatten_def demo_flatten_request_def validate_flatten_command_metadata_def demo_sha_ok trim_one
        validate_flatten_order_template_def demo_flatten_template_def unknown_side_snapshot_def Let_def
        flatten_validate_snapshot_def build_flatten_plan_def from_plan_outcomes_def)
qed

end
