(* ===== verification/KillSwitchRouter.thy ===== *)
theory KillSwitchRouter
  imports KillSwitchCancel KillSwitchFlatten
begin

text \<open>
  The action router of the kill switch (\<open>src/src/bolt_v3_kill_switch_action_router.rs\<close>), which only
  ever returns dry-run decisions. The identifier constructors of the trading library are
  parameters.
\<close>

section \<open>The action router\<close>

datatype BoltV3KillSwitchActionClass =
    CancelOutstandingRisk
  | FlattenPositions
  | EntrySubmit
  | ReplaceSubmit
  | LiveSubmit
  | LiveCancel
  | LiveFlatten
  | VenueSpecificCall

datatype BoltV3KillSwitchActionDecisionMode = DryRunProofOnly

datatype BoltV3KillSwitchActionRouterError =
    MissingActionId
  | InvalidConfigSha256
  | InvalidPolicySha256
  | MissingSourceTimestamp
  | InvalidScope
  | InvalidAccountId
  | InvalidInstrumentId
  | NtTradingStateNotReducing
  | KillSwitchStateNotCancelling
  | KillSwitchStateNotFlattening
  | ForcedReductionProofRequired
  | ForcedReductionProofMismatch
  | Phase3ActionOutputDisallowed

record 'k BoltV3KillSwitchActionScope =
  ascope_account_ids :: "'k list"
  ascope_instrument_ids :: "'k list"

text \<open>Collecting checked identifiers: the first one that does not parse is the error.\<close>

fun collect_ids :: "(string \<Rightarrow> 'k option) \<Rightarrow> 'e \<Rightarrow> string list \<Rightarrow> 'e + 'k list" where
  "collect_ids parse err [] = Inr []"
| "collect_ids parse err (value # values) =
     and_then (ok_or (parse (trim value)) err) (\<lambda>k.
     and_then (collect_ids parse err values) (\<lambda>ks. Inr (k # ks)))"

definition BoltV3KillSwitchActionScope_new :: "'k identifier_ops \<Rightarrow> string list \<Rightarrow> string list \<Rightarrow>
    BoltV3KillSwitchActionRouterError + 'k BoltV3KillSwitchActionScope" where
  "BoltV3KillSwitchActionScope_new ids account_ids instrument_ids =
     (if account_ids = [] \<or> instrument_ids = [] then Inl InvalidScope
      else
        and_then (collect_ids (account_new_checked ids) InvalidAccountId account_ids) (\<lambda>account_ids.
        and_then (collect_ids (instrument_from_as_ref ids) InvalidInstrumentId instrument_ids) (\<lambda>instrument_ids.
        Inr \<lparr>ascope_account_ids = account_ids, ascope_instrument_ids = instrument_ids\<rparr>)))"

record 'k BoltV3KillSwitchActionRequest =
  areq_action_class :: BoltV3KillSwitchActionClass
  areq_kill_switch_state :: KillSwitchState
  areq_nt_trading_state :: TradingState
  areq_action_id :: string
  areq_config_sha256 :: string
  areq_policy_sha256 :: string
  areq_source_timestamp_unix_nanos :: u64
  areq_scope :: "'k BoltV3KillSwitchActionScope"
  areq_forced_reduction_claim :: "BoltV3KillSwitchForcedReductionClaim option"

record 'k BoltV3KillSwitchActionDecision =
  dec_action_class :: BoltV3KillSwitchActionClass
  dec_decision_mode :: BoltV3KillSwitchActionDecisionMode
  dec_halt_id :: string
  dec_action_id :: string
  dec_config_sha256 :: string
  dec_policy_sha256 :: string
  dec_source_timestamp_unix_nanos :: u64
  dec_scope :: "'k BoltV3KillSwitchActionScope"
  dec_forced_reduction_claim :: "BoltV3KillSwitchForcedReductionClaim option"

definition validate_action_metadata :: "'k BoltV3KillSwitchActionRequest \<Rightarrow> BoltV3KillSwitchActionRouterError + unit" where
  "validate_action_metadata request =
     (if trim (areq_action_id request) = [] then Inl MissingActionId
      else if \<not> is_sha256_hex_digest (areq_config_sha256 request) then Inl InvalidConfigSha256
      else if \<not> is_sha256_hex_digest (areq_policy_sha256 request) then Inl InvalidPolicySha256
      else if areq_source_timestamp_unix_nanos request = 0 then Inl MissingSourceTimestamp
      else Inr ())"

definition require_reducing :: "TradingState \<Rightarrow> BoltV3KillSwitchActionRouterError + unit" where
  "require_reducing nt_trading_state = (if nt_trading_state \<noteq> Reducing then Inl NtTradingStateNotReducing else Inr ())"

definition proof_only_decision :: "'k BoltV3KillSwitchActionRequest \<Rightarrow> string \<Rightarrow>
    BoltV3KillSwitchForcedReductionClaim option \<Rightarrow> 'k BoltV3KillSwitchActionDecision" where
  "proof_only_decision request halt_id claim =
     \<lparr>dec_action_class = areq_action_class request, dec_decision_mode = DryRunProofOnly, dec_halt_id = halt_id,
      dec_action_id = areq_action_id request, dec_config_sha256 = areq_config_sha256 request,
      dec_policy_sha256 = areq_policy_sha256 request,
      dec_source_timestamp_unix_nanos = areq_source_timestamp_unix_nanos request, dec_scope = areq_scope request,
      dec_forced_reduction_claim = claim\<rparr>"

definition cancel_decision :: "'k BoltV3KillSwitchActionRequest \<Rightarrow>
    BoltV3KillSwitchActionRouterError + 'k BoltV3KillSwitchActionDecision" where
  "cancel_decision request =
     and_then (require_reducing (areq_nt_trading_state request)) (\<lambda>_.
       case areq_kill_switch_state request of
         Cancelling halt_id \<Rightarrow> Inr (proof_only_decision request halt_id None)
       | _ \<Rightarrow> Inl KillSwitchStateNotCancelling)"

definition flatten_decision :: "'k BoltV3KillSwitchActionRequest \<Rightarrow>
    BoltV3KillSwitchActionRouterError + 'k BoltV3KillSwitchActionDecision" where
  "flatten_decision request =
     and_then (require_reducing (areq_nt_trading_state request)) (\<lambda>_.
       case areq_kill_switch_state request of
         Flattening halt_id \<Rightarrow>
           (case areq_forced_reduction_claim request of
              None \<Rightarrow> Inl ForcedReductionProofRequired
            | Some claim \<Rightarrow>
                if claim_halt_id claim \<noteq> halt_id \<or> claim_action_id claim \<noteq> areq_action_id request \<or>
                   claim_policy_sha256 claim \<noteq> areq_policy_sha256 request
                then Inl ForcedReductionProofMismatch
                else Inr (proof_only_decision request halt_id (Some claim)))
       | _ \<Rightarrow> Inl KillSwitchStateNotFlattening)"

definition dry_run_decision :: "'k BoltV3KillSwitchActionRequest \<Rightarrow>
    BoltV3KillSwitchActionRouterError + 'k BoltV3KillSwitchActionDecision" where
  "dry_run_decision request =
     and_then (validate_action_metadata request) (\<lambda>_.
       case areq_action_class request of
         CancelOutstandingRisk \<Rightarrow> cancel_decision request
       | FlattenPositions \<Rightarrow> flatten_decision request
       | EntrySubmit \<Rightarrow> Inl Phase3ActionOutputDisallowed
       | ReplaceSubmit \<Rightarrow> Inl Phase3ActionOutputDisallowed
       | LiveSubmit \<Rightarrow> Inl Phase3ActionOutputDisallowed
       | LiveCancel \<Rightarrow> Inl Phase3ActionOutputDisallowed
       | LiveFlatten \<Rightarrow> Inl Phase3ActionOutputDisallowed
       | VenueSpecificCall \<Rightarrow> Inl Phase3ActionOutputDisallowed)"

text \<open>
  C24. A router decision is authorised. A decision is only returned for cancelling or flattening, in
  the kill switch state of that action and while the trading state is reducing; it carries the halt
  id of that state and the request's digests, and a flatten decision carries a claim made for this
  halt, this action and this policy.
\<close>

theorem router_decision_is_authorised:
  assumes "dry_run_decision request = Inr decision"
  shows "areq_nt_trading_state request = Reducing \<and> dec_action_class decision = areq_action_class request \<and>
    dec_action_id decision = areq_action_id request \<and> is_sha256_hex_digest (dec_policy_sha256 decision) \<and>
    (areq_action_class request = CancelOutstandingRisk \<and>
       areq_kill_switch_state request = Cancelling (dec_halt_id decision) \<and> dec_forced_reduction_claim decision = None \<or>
     areq_action_class request = FlattenPositions \<and>
       areq_kill_switch_state request = Flattening (dec_halt_id decision) \<and>
       dec_forced_reduction_claim decision =
         Some \<lparr>claim_halt_id = dec_halt_id decision, claim_action_id = dec_action_id decision,
               claim_policy_sha256 = dec_policy_sha256 decision\<rparr>)"
proof (cases "areq_action_class request")
  case CancelOutstandingRisk
  then show ?thesis using assms
    by (auto simp: dry_run_decision_def and_then_Inr validate_action_metadata_def cancel_decision_def
        require_reducing_def proof_only_decision_def split: if_splits KillSwitchState.splits)
next
  case FlattenPositions
  then show ?thesis using assms
    by (auto simp: dry_run_decision_def and_then_Inr validate_action_metadata_def flatten_decision_def
        require_reducing_def proof_only_decision_def split: if_splits KillSwitchState.splits option.splits)
qed (use assms in \<open>auto simp: dry_run_decision_def and_then_Inr\<close>)

definition demo_action :: "nat BoltV3KillSwitchActionRequest" where
  "demo_action = \<lparr>areq_action_class = FlattenPositions, areq_kill_switch_state = Flattening ''h'',
     areq_nt_trading_state = Reducing, areq_action_id = ''x'', areq_config_sha256 = demo_sha,
     areq_policy_sha256 = demo_sha, areq_source_timestamp_unix_nanos = 1,
     areq_scope = \<lparr>ascope_account_ids = [1], ascope_instrument_ids = [2]\<rparr>,
     areq_forced_reduction_claim = Some \<lparr>claim_halt_id = ''h'', claim_action_id = ''x'', claim_policy_sha256 = demo_sha\<rparr>\<rparr>"

lemma demo_action_decision: "dry_run_decision demo_action = Inr (proof_only_decision demo_action ''h'' (areq_forced_reduction_claim demo_action))"
  by (simp add: dry_run_decision_def demo_action_def validate_action_metadata_def demo_sha_ok trim_one flatten_decision_def
      require_reducing_def)

theorem router_decision_is_authorised_witness:
  "\<exists>d. dry_run_decision demo_action = Inr d \<and> areq_kill_switch_state demo_action = Flattening (dec_halt_id d)"
  using router_decision_is_authorised [OF demo_action_decision] demo_action_decision
  by (auto simp: demo_action_def)

text \<open>
  C23. No state that the kill switch reaches by itself starts an action. The transition function
  never enters cancelling or flattening, so for every state reachable from armed the router, the
  cancel supervisor and the flatten supervisor all refuse.
\<close>

theorem reachable_states_start_no_action:
  assumes "kill_switch_reachable sha state"
  shows "(areq_kill_switch_state action = state \<longrightarrow> \<not> is_ok (dry_run_decision action)) \<and>
    (creq_kill_switch_state cancel = state \<longrightarrow>
       plan_cancel cancel = Inl BoltV3KillSwitchCancelError.KillSwitchStateNotCancelling) \<and>
    (freq_kill_switch_state flatten = state \<longrightarrow>
       plan_flatten P D C flatten = Some (Inl BoltV3KillSwitchFlattenError.KillSwitchStateNotFlattening))"
proof (intro conjI impI)
  have s: "state \<noteq> Cancelling h" "state \<noteq> Flattening h" for h using reachable_kinds [OF assms] by auto
  show "\<not> is_ok (dry_run_decision action)" if "areq_kill_switch_state action = state"
    using s that
    by (cases "areq_action_class action")
      (auto simp: dry_run_decision_def is_ok_and_then cancel_decision_def flatten_decision_def
        split: KillSwitchState.splits option.splits if_splits)
  show "plan_cancel cancel = Inl BoltV3KillSwitchCancelError.KillSwitchStateNotCancelling"
    if "creq_kill_switch_state cancel = state"
    using s that by (simp add: plan_cancel_def split: KillSwitchState.splits)
  show "plan_flatten P D C flatten = Some (Inl BoltV3KillSwitchFlattenError.KillSwitchStateNotFlattening)"
    if "freq_kill_switch_state flatten = state"
    using s that by (simp add: plan_flatten_def split: KillSwitchState.splits)
qed

lemma demo_halting_reachable:
  "kill_switch_reachable id (Halting (halt_id_for_trigger id demo_trigger) demo_trigger)"
  by (rule kill_switch_reachable.step [OF kill_switch_reachable.start, of _ "HaltTriggered demo_trigger" inert_transition_context])
    (simp add: transition_kill_switch_state_def)

theorem reachable_states_start_no_action_witness:
  "plan_cancel (demo_cancel_request\<lparr>creq_kill_switch_state := Halting (halt_id_for_trigger id demo_trigger) demo_trigger\<rparr>) =
     Inl BoltV3KillSwitchCancelError.KillSwitchStateNotCancelling"
  using reachable_states_start_no_action [OF demo_halting_reachable, of demo_action
      "demo_cancel_request\<lparr>creq_kill_switch_state := Halting (halt_id_for_trigger id demo_trigger) demo_trigger\<rparr>"
      demo_flatten_request demo_prices whole_ops "\<lambda>s. Some 0"]
  by simp

end
