(* ===== verification/KillSwitchConfig.thy ===== *)
theory KillSwitchConfig
  imports KillSwitchRouter
begin

text \<open>
  The check of the kill switch configuration (\<open>src/src/bolt_v3_validate/kill_switch.rs\<close>, with the
  blocks of \<open>src/src/bolt_v3_config.rs\<close>). Messages are constructors. The decimals and the identifier
  constructors are parameters.
\<close>

section \<open>The blocks\<close>

record KillSwitchCancelConfigBlock =
  cc_enabled :: bool
  cc_mandatory_surfaces :: "string list"

datatype KillSwitchFlattenRouteKindConfig = PerStrategyActionPort | LiveNodeCommandRouter

record KillSwitchFlattenConfigBlock =
  fl_enabled :: bool
  fl_route_kind :: KillSwitchFlattenRouteKindConfig
  fl_max_live_order_count :: "32 word"
  fl_max_notional_per_order :: string
  fl_order_type :: OrderType
  fl_time_in_force :: TimeInForce
  fl_is_post_only :: bool
  fl_is_reduce_only :: bool
  fl_is_quote_quantity :: bool

record KillSwitchConfigBlock =
  ks_enabled :: bool
  ks_state_path :: string
  ks_max_state_file_bytes :: u64
  ks_max_utc_daily_realized_loss :: string
  ks_flatten_open_positions_on_breach :: bool
  ks_action_retry_interval_ms :: u64
  ks_action_retry_timeout_ms :: u64
  ks_mandatory_proof_max_age_ms :: u64
  ks_manual_reset_evidence_max_age_ms :: u64
  ks_authorized_operator_ids :: "string list"
  ks_account_ids :: "string list"
  ks_instrument_ids :: "string list"
  ks_cancel :: "KillSwitchCancelConfigBlock option"
  ks_flatten :: "KillSwitchFlattenConfigBlock option"

datatype KillSwitchFlattenResolutionError = MissingEnabledBlock | UnsupportedRouteKind

datatype KillSwitchFlattenBlockResolution = Disabled | Enabled

datatype LoadedKillSwitchFlattenResolutionError =
    InvalidBlock KillSwitchFlattenResolutionError
  | ForcedReductionRouteUnavailable

datatype KillSwitchConfigError =
    StatePathInvalid
  | MaxStateFileBytesZero
  | DailyLossNotPositive
  | DailyLossNotDecimal
  | FlattenResolution KillSwitchFlattenResolutionError
  | RetryIntervalZero
  | RetryTimeoutZero
  | RetryIntervalAboveTimeout
  | ProofMaxAgeZero
  | ResetEvidenceMaxAgeZero
  | OperatorIdsEmpty
  | OperatorIdEmpty
  | AccountIdsEmpty
  | AccountIdEmpty
  | AccountIdInvalid string
  | InstrumentIdsEmpty
  | InstrumentIdInvalid string
  | SurfaceUnsupported string
  | SurfacesIncomplete
  | FlattenOrderCountZero
  | FlattenNotionalNotPositive
  | FlattenNotionalNotDecimal
  | FlattenNotReduceOnly
  | FlattenUsesQuoteQuantity
  | FlattenTemplate OrderTemplateError

section \<open>The checks\<close>

definition resolve_kill_switch_flatten_block :: "KillSwitchConfigBlock \<Rightarrow>
    KillSwitchFlattenResolutionError + KillSwitchFlattenBlockResolution" where
  "resolve_kill_switch_flatten_block block =
     (if \<not> ks_enabled block \<or> \<not> ks_flatten_open_positions_on_breach block then Inr Disabled
      else
        and_then (ok_or (case ks_flatten block of None \<Rightarrow> None | Some flatten \<Rightarrow> if fl_enabled flatten then Some flatten else None)
                   MissingEnabledBlock) (\<lambda>flatten.
          if fl_route_kind flatten \<noteq> LiveNodeCommandRouter then Inl UnsupportedRouteKind else Inr Enabled))"

definition validate_loaded_kill_switch_flatten :: "KillSwitchConfigBlock option \<Rightarrow>
    LoadedKillSwitchFlattenResolutionError + unit" where
  "validate_loaded_kill_switch_flatten kill_switch =
     (case kill_switch of
        None \<Rightarrow> Inr ()
      | Some block \<Rightarrow>
          (case resolve_kill_switch_flatten_block block of
             Inl e \<Rightarrow> Inl (InvalidBlock e)
           | Inr Disabled \<Rightarrow> Inr ()
           | Inr Enabled \<Rightarrow> Inl ForcedReductionRouteUnavailable))"

definition validate_kill_switch_store_bootstrap_fields :: "KillSwitchConfigBlock \<Rightarrow> KillSwitchConfigError list" where
  "validate_kill_switch_store_bootstrap_fields block =
     (let state_path = trim (ks_state_path block) in
      push_if (state_path = [] \<or> is_absolute state_path \<or> ParentDir \<in> set (path_components state_path)) StatePathInvalid @
      push_if (ks_max_state_file_bytes block = 0) MaxStateFileBytesZero)"

definition parse_kill_switch_cancel_surface :: "string \<Rightarrow> BoltV3KillSwitchOutstandingOrderRiskSurface option" where
  "parse_kill_switch_cancel_surface value =
     (if value = ''open'' then Some Open
      else if value = ''inflight'' then Some Inflight
      else if value = ''pending-cancel'' then Some BoltV3KillSwitchOutstandingOrderRiskSurface.PendingCancel
      else if value = ''emulated'' then Some Emulated
      else if value = ''algorithm-managed'' then Some AlgorithmManaged
      else if value = ''contingent'' then Some Contingent
      else if value = ''accepted-but-not-terminal'' then Some AcceptedButNotTerminal
      else None)"

fun collect_surfaces :: "string list \<Rightarrow> KillSwitchConfigError list \<times> BoltV3KillSwitchOutstandingOrderRiskSurface list" where
  "collect_surfaces [] = ([], [])"
| "collect_surfaces (surface # rest) =
     (let (errors, surfaces) = collect_surfaces rest in
      (case parse_kill_switch_cancel_surface (trim surface) of
         Some s \<Rightarrow> (errors, s # surfaces)
       | None \<Rightarrow> (SurfaceUnsupported surface # errors, surfaces)))"

definition validate_kill_switch_cancel_block :: "KillSwitchCancelConfigBlock \<Rightarrow> KillSwitchConfigError list" where
  "validate_kill_switch_cancel_block block =
     (if \<not> cc_enabled block then []
      else
        let (errors, surfaces) = collect_surfaces (cc_mandatory_surfaces block) in
        errors @ push_if (\<not> set MANDATORY_OUTSTANDING_ORDER_RISK_SURFACES \<subseteq> set surfaces) SurfacesIncomplete)"

definition check_positive_decimal :: "'d decimal_ops \<Rightarrow> string \<Rightarrow> KillSwitchConfigError \<Rightarrow> KillSwitchConfigError \<Rightarrow>
    KillSwitchConfigError list" where
  "check_positive_decimal D value not_positive not_decimal =
     (case dec_from_str D value of
        Some v \<Rightarrow> push_if (\<not> dec_lt D (dec_zero D) v) not_positive
      | None \<Rightarrow> [not_decimal])"

definition flatten_template_config :: "KillSwitchFlattenConfigBlock \<Rightarrow> ('k, 'd) NtOrderTemplateConfig" where
  "flatten_template_config block =
     \<lparr>cfg_order_type = fl_order_type block, cfg_time_in_force = fl_time_in_force block, cfg_expire_time_unix_nanos = None,
      cfg_trigger_price = None, cfg_activation_price = None, cfg_trigger_type = None, cfg_trigger_instrument_id = None,
      cfg_trailing_offset = None, cfg_trailing_offset_type = None, cfg_is_post_only = fl_is_post_only block,
      cfg_is_reduce_only = fl_is_reduce_only block, cfg_is_quote_quantity = fl_is_quote_quantity block\<rparr>"

definition validate_kill_switch_flatten_block :: "'d decimal_ops \<Rightarrow> KillSwitchFlattenConfigBlock \<Rightarrow> KillSwitchConfigError list" where
  "validate_kill_switch_flatten_block D block =
     (if \<not> fl_enabled block then []
      else
        push_if (fl_max_live_order_count block = 0) FlattenOrderCountZero @
        check_positive_decimal D (fl_max_notional_per_order block) FlattenNotionalNotPositive FlattenNotionalNotDecimal @
        push_if (\<not> fl_is_reduce_only block) FlattenNotReduceOnly @
        push_if (fl_is_quote_quantity block) FlattenUsesQuoteQuantity @
        map FlattenTemplate (check_nt_order_template_config D (flatten_template_config block :: (unit, 'd) NtOrderTemplateConfig)))"

definition validate_kill_switch_block :: "'d decimal_ops \<Rightarrow> 'k identifier_ops \<Rightarrow> KillSwitchConfigBlock \<Rightarrow> KillSwitchConfigError list" where
  "validate_kill_switch_block D ids block =
     validate_kill_switch_store_bootstrap_fields block @
     (if \<not> ks_enabled block then []
      else
        check_positive_decimal D (ks_max_utc_daily_realized_loss block) DailyLossNotPositive DailyLossNotDecimal @
        (case resolve_kill_switch_flatten_block block of Inl e \<Rightarrow> [FlattenResolution e] | Inr _ \<Rightarrow> []) @
        push_if (ks_action_retry_interval_ms block = 0) RetryIntervalZero @
        push_if (ks_action_retry_timeout_ms block = 0) RetryTimeoutZero @
        push_if (ks_action_retry_timeout_ms block < ks_action_retry_interval_ms block \<and> 0 < ks_action_retry_timeout_ms block)
          RetryIntervalAboveTimeout @
        push_if (ks_mandatory_proof_max_age_ms block = 0) ProofMaxAgeZero @
        push_if (ks_manual_reset_evidence_max_age_ms block = 0) ResetEvidenceMaxAgeZero @
        push_if (ks_authorized_operator_ids block = []) OperatorIdsEmpty @
        push_if (list_ex (\<lambda>operator_id. trim operator_id = []) (ks_authorized_operator_ids block)) OperatorIdEmpty @
        push_if (ks_account_ids block = []) AccountIdsEmpty @
        push_if (list_ex (\<lambda>account_id. trim account_id = []) (ks_account_ids block)) AccountIdEmpty @
        map AccountIdInvalid (filter (\<lambda>account_id. account_new_checked ids account_id = None) (ks_account_ids block)) @
        push_if (ks_instrument_ids block = []) InstrumentIdsEmpty @
        map InstrumentIdInvalid (filter (\<lambda>instrument_id. instrument_from_str ids instrument_id = None) (ks_instrument_ids block)) @
        (case ks_cancel block of None \<Rightarrow> [] | Some cancel \<Rightarrow> validate_kill_switch_cancel_block cancel) @
        (case ks_flatten block of None \<Rightarrow> [] | Some flatten \<Rightarrow> validate_kill_switch_flatten_block D flatten))"

section \<open>A checked configuration is usable\<close>

lemma relative_path_below:
  assumes "\<not> is_absolute path" and "ParentDir \<notin> set (path_components path)"
  shows "\<exists>rest. follow dir (path_components path) = dir @ rest"
proof -
  have "RootDir \<notin> set (path_components path)"
    using assms(1) by (simp add: path_components_def Let_def later_no_root)
  then show ?thesis using assms(2) by (rule follow_below)
qed

lemma checked_surfaces:
  assumes "validate_kill_switch_cancel_block block = []" and "cc_enabled block"
  shows "BoltV3KillSwitchCancelPolicy_new (snd (collect_surfaces (cc_mandatory_surfaces block))) =
    Inr \<lparr>policy_mandatory_surfaces = MANDATORY_OUTSTANDING_ORDER_RISK_SURFACES\<rparr>"
proof -
  have "set MANDATORY_OUTSTANDING_ORDER_RISK_SURFACES \<subseteq> set (snd (collect_surfaces (cc_mandatory_surfaces block)))"
    using assms by (simp add: validate_kill_switch_cancel_block_def split: prod.splits)
  then have "filter (\<lambda>s. s \<in> set (snd (collect_surfaces (cc_mandatory_surfaces block)))) MANDATORY_OUTSTANDING_ORDER_RISK_SURFACES =
      MANDATORY_OUTSTANDING_ORDER_RISK_SURFACES"
    by (intro filter_True) blast
  then show ?thesis
    by (simp add: BoltV3KillSwitchCancelPolicy_new_def Let_def MANDATORY_OUTSTANDING_ORDER_RISK_SURFACES_def)
qed

lemma checked_flatten_template:
  assumes "validate_kill_switch_flatten_block D block = []" and "fl_enabled block"
    and t: "configured P val (flatten_template_config block) t"
    and "list_all (\<lambda>c. is_observed_open_side (fc_position_side c)) positions" and "C a = Some client"
  shows "validate_flatten_order_template P D C t positions a = Some (Inr ())"
proof -
  have fields: "tpl_order_type t = fl_order_type block" "tpl_time_in_force t = fl_time_in_force block"
    "tpl_expire_time t = None" "tpl_trigger_price t = None" "tpl_activation_price t = None" "tpl_trigger_type t = None"
    "tpl_trigger_instrument_id t = None" "tpl_trailing_offset t = None" "tpl_trailing_offset_type t = None"
    "tpl_is_post_only t = fl_is_post_only block" "tpl_is_reduce_only t = fl_is_reduce_only block"
    "tpl_is_quote_quantity t = fl_is_quote_quantity block"
    using t by (simp_all add: configured_def flatten_template_config_def)
  have reduce: "fl_is_reduce_only block" "\<not> fl_is_quote_quantity block"
    and "check_nt_order_template_config D (flatten_template_config block :: (unit, 'a) NtOrderTemplateConfig) = []"
    using assms(1,2) by (simp_all add: validate_kill_switch_flatten_block_def)
  then have "fl_order_type block = Market \<and> \<not> fl_is_post_only block \<or> fl_order_type block = Limit"
    and "fl_time_in_force block \<noteq> Gtd"
    by (auto simp: check_defs flatten_template_config_def split: OrderType.splits)
  then have "validate_nt_order_template P D t inputs = Inr ()" for inputs :: "('c, 'b, 'd) NtOrderBuildInputs"
    by (auto simp: validate_nt_order_template_def validate_defs fields ensure_def)
  then have "validate_each_position P D C t a positions = Some (Inr ())"
    using assms(4,5) by (induction positions) (auto simp: exit_side_open Let_def)
  then show ?thesis using reduce by (simp add: validate_flatten_order_template_def fields)
qed


definition demo_block :: KillSwitchConfigBlock where
  "demo_block = \<lparr>ks_enabled = True, ks_state_path = ''x'', ks_max_state_file_bytes = 9,
     ks_max_utc_daily_realized_loss = ''11'', ks_flatten_open_positions_on_breach = False, ks_action_retry_interval_ms = 1,
     ks_action_retry_timeout_ms = 2, ks_mandatory_proof_max_age_ms = 1, ks_manual_reset_evidence_max_age_ms = 1,
     ks_authorized_operator_ids = [''x''], ks_account_ids = [''x''], ks_instrument_ids = [''x''], ks_cancel = None,
     ks_flatten = Some \<lparr>fl_enabled = True, fl_route_kind = PerStrategyActionPort, fl_max_live_order_count = 1,
       fl_max_notional_per_order = ''1'', fl_order_type = Market, fl_time_in_force = OtherTimeInForce 0,
       fl_is_post_only = False, fl_is_reduce_only = True, fl_is_quote_quantity = False\<rparr>\<rparr>"

definition demo_ids :: "nat identifier_ops" where
  "demo_ids = \<lparr>account_new_checked = (\<lambda>s. Some 0), instrument_from_as_ref = (\<lambda>s. Some 0),
     instrument_from_str = (\<lambda>s. Some 0), strategy_new_checked = (\<lambda>s. Some 0), client_order_new_checked = (\<lambda>s. Some 0)\<rparr>"

lemma demo_block_ok: "validate_kill_switch_block whole_ops demo_ids demo_block = []"
  by (simp add: validate_kill_switch_block_def validate_kill_switch_store_bootstrap_fields_def Let_def demo_block_def
      demo_ids_def trim_one is_absolute_def path_components_def check_positive_decimal_def whole_ops_def from_unary_def
      resolve_kill_switch_flatten_block_def validate_kill_switch_flatten_block_def check_defs flatten_template_config_def)


end
