(* ===== verification/AtomicIo.thy ===== *)
theory AtomicIo
  imports RustResult
begin

text \<open>
  The private file writers of \<open>src/src/bolt_v3_atomic_io.rs\<close> over one file: its contents are an
  optional byte string. The system calls may fail at every point; where a call fails is an
  argument, so a statement for all of its values covers every failure. Temporary files, file modes
  and the contents of parent directories are not modelled.
\<close>

type_synonym bytes = string

datatype io_error = AlreadyExists | OtherIoError

text \<open>
  An atomic write makes the parent directory, writes a temporary file, renames it over the target
  and syncs the parent: a failure before or at the rename leaves the target, a failure of the
  last sync reports an error with the target replaced.
\<close>

datatype write_outcome = WriteOk | WriteNotRenamed | WriteNotSynced

fun write_private_atomic_file :: "write_outcome \<Rightarrow> bytes \<Rightarrow> bytes option \<Rightarrow> (io_error + unit) \<times> bytes option" where
  "write_private_atomic_file WriteOk bytes file = (Inr (), Some bytes)"
| "write_private_atomic_file WriteNotRenamed bytes file = (Inl OtherIoError, file)"
| "write_private_atomic_file WriteNotSynced bytes file = (Inl OtherIoError, Some bytes)"

text \<open>
  Writing a new file: the parent directory, the exclusive open, the mode, the bytes (on failure the
  file is removed, if that works) and the parent sync.
\<close>

datatype new_outcome = NewOk | NewNoParent | NewNotOpened | NewNoMode | NewNotWritten "bytes option" | NewNotSynced

definition write_private_new_file :: "new_outcome \<Rightarrow> bytes \<Rightarrow> bytes option \<Rightarrow> (io_error + unit) \<times> bytes option" where
  "write_private_new_file outcome bytes file =
     (if outcome = NewNoParent then (Inl OtherIoError, file)
      else if file \<noteq> None then (Inl AlreadyExists, file)
      else
        (case outcome of
           NewOk \<Rightarrow> (Inr (), Some bytes)
         | NewNoMode \<Rightarrow> (Inl OtherIoError, Some [])
         | NewNotWritten left \<Rightarrow> (Inl OtherIoError, left)
         | NewNotSynced \<Rightarrow> (Inl OtherIoError, Some bytes)
         | _ \<Rightarrow> (Inl OtherIoError, file)))"

text \<open>Appending: the file is made if it is missing, and a failing write may leave a prefix of the bytes.\<close>

datatype append_outcome = AppendOk | AppendNotOpened | AppendNoMode | AppendNotWritten nat | AppendNotSynced

definition append_private_file :: "append_outcome \<Rightarrow> bytes \<Rightarrow> bytes option \<Rightarrow> (io_error + unit) \<times> bytes option" where
  "append_private_file outcome bytes file =
     (let old = (case file of None \<Rightarrow> [] | Some old \<Rightarrow> old) in
      (case outcome of
         AppendOk \<Rightarrow> (Inr (), Some (old @ bytes))
       | AppendNotOpened \<Rightarrow> (Inl OtherIoError, file)
       | AppendNoMode \<Rightarrow> (Inl OtherIoError, Some old)
       | AppendNotWritten n \<Rightarrow> (Inl OtherIoError, Some (old @ take n bytes))
       | AppendNotSynced \<Rightarrow> (Inl OtherIoError, Some (old @ bytes))))"

text \<open>A write either leaves the old contents or puts the new ones, and a success put them.\<close>

lemma write_private_atomic_file_cases:
  "write_private_atomic_file outcome bytes file = (r, file') \<Longrightarrow>
     (file' = Some bytes \<or> file' = file \<and> \<not> is_ok r) \<and> (is_ok r \<longrightarrow> file' = Some bytes)"
  by (cases outcome) auto

end
