(* ===== verification/KillSwitchStore.thy ===== *)
theory KillSwitchStore
  imports KillSwitch NtTypes AtomicIo "HOL-Library.Char_ord" "HOL-Library.List_Lexorder"
begin

text \<open>
  The durable store of the kill switch (\<open>src/src/bolt_v3_kill_switch_store.rs\<close>): the state file with
  its fail-closed recovery, and the audit file of manual recoveries. The disk is explicit state.
  Serialisation to JSON, the parsing of decimals and the currency table belong to other crates and
  are parameters. Paths and messages of errors are dropped.
\<close>

section \<open>Data\<close>

definition KILL_SWITCH_STORE_SCHEMA_VERSION :: "32 word" where "KILL_SWITCH_STORE_SCHEMA_VERSION = 2"

datatype KillSwitchRecoveryReason =
    MissingEvidence
  | MissingLossProtectionSnapshot
  | CorruptEvidence
  | OversizedEvidence
  | UnsupportedSchemaVersion
  | UnresolvedHalt
  | UnrepresentableHaltTrigger

datatype KillSwitchRecoveryState =
    Recovered KillSwitchState
  | FailClosed KillSwitchRecoveryReason "KillSwitchState option"

record 'd KillSwitchCumulativePositionPnlSnapshot =
  realized_pnl :: 'd
  last_observed_at_unix_nanos :: u64

record KillSwitchPendingHaltActionsSnapshot =
  next_retry_at_unix_nanos :: u64
  retry_deadline_unix_nanos :: u64

type_synonym 'd pnl_map = "(string, 'd KillSwitchCumulativePositionPnlSnapshot) btree_map"

record 'd KillSwitchLossProtectionSnapshot =
  daily_bucket :: "u64 option"
  daily_realized_pnl :: 'd
  settlement_currency :: "string option"
  cumulative_position_pnl :: "'d pnl_map"
  closed_position_pnl :: "'d pnl_map"
  adjusted_position_pnl :: "'d pnl_map"
  pending_halt_actions :: "KillSwitchPendingHaltActionsSnapshot option"

record 'd KillSwitchRecoveryRecord =
  recovery_state :: KillSwitchRecoveryState
  loss_protection :: "'d KillSwitchLossProtectionSnapshot option"

datatype KillSwitchStoreError =
    Io io_error
  | Serialize
  | Deserialize
  | StateAlreadyExists
  | StateTooLarge nat u64
  | TornManualRecoveryAudit

text \<open>
  The persisted forms have decimals as strings; they are the snapshot types with \<open>string\<close> for the
  decimal.
\<close>

type_synonym PersistedCumulativePositionPnlSnapshot = "string KillSwitchCumulativePositionPnlSnapshot"

type_synonym PersistedKillSwitchLossProtectionSnapshot = "string KillSwitchLossProtectionSnapshot"

record PersistedKillSwitchState =
  schema_version :: "32 word"
  persisted_state :: KillSwitchState
  persisted_loss_protection :: "PersistedKillSwitchLossProtectionSnapshot option"

datatype KillSwitchLossGovernorManualRecoveryOutcome = Attempted | RecoveredOutcome | RefusedWithReason | WriteFailed

record KillSwitchLossGovernorManualRecoveryRecord =
  mr_operator_id :: string
  mr_evidence_path :: string
  mr_evidence_sha256 :: string
  mr_observed_at_ns :: u64
  mr_recorded_at_ns :: u64
  mr_outcome :: "KillSwitchLossGovernorManualRecoveryOutcome option"
  mr_outcome_reason :: "string option"

section \<open>JSON\<close>

text \<open>A JSON value; numbers are those that read as \<open>u64\<close>, and all others.\<close>

datatype JsonValue =
    Null
  | Bool bool
  | Number u64
  | OtherNumber nat
  | String string
  | Array "JsonValue list"
  | Object "(string \<times> JsonValue) list"

text \<open>The calls of \<open>serde_json\<close>; a failure is \<^term>\<open>None\<close>.\<close>

record serde_ops =
  to_vec_pretty :: "PersistedKillSwitchState \<Rightarrow> bytes option"
  state_from_slice :: "bytes \<Rightarrow> PersistedKillSwitchState option"
  value_from_slice :: "bytes \<Rightarrow> JsonValue option"
  state_from_value :: "JsonValue \<Rightarrow> PersistedKillSwitchState option"
  kind_from_value :: "JsonValue \<Rightarrow> KillSwitchHaltTriggerKind option"
  kind_to_string :: "KillSwitchHaltTriggerKind \<Rightarrow> string"
  record_to_vec :: "KillSwitchLossGovernorManualRecoveryRecord \<Rightarrow> bytes option"
  record_from_str :: "string \<Rightarrow> KillSwitchLossGovernorManualRecoveryRecord option"

fun json_get :: "string \<Rightarrow> JsonValue \<Rightarrow> JsonValue option" where
  "json_get key (Object members) = map_of members key"
| "json_get key _ = None"

fun as_u64 :: "JsonValue \<Rightarrow> u64 option" where
  "as_u64 (Number n) = Some n"
| "as_u64 _ = None"

definition declared_schema_version :: "serde_ops \<Rightarrow> bytes \<Rightarrow> (32 word) option" where
  "declared_schema_version S bytes =
     (case value_from_slice S bytes of
        None \<Rightarrow> None
      | Some value \<Rightarrow>
          (case json_get ''schema_version'' value of
             None \<Rightarrow> None
           | Some field \<Rightarrow>
               (case as_u64 field of
                  None \<Rightarrow> None
                | Some version \<Rightarrow> if unat version < 2 ^ 32 then Some (word_of_nat (unat version)) else None)))"

text \<open>The replacement of the kind of a trigger, when it is a string that is not a known kind.\<close>

fun is_json_string :: "JsonValue \<Rightarrow> bool" where
  "is_json_string (String s) = True"
| "is_json_string _ = False"

definition unknown_kind :: "serde_ops \<Rightarrow> JsonValue \<Rightarrow> bool" where
  "unknown_kind S kind \<longleftrightarrow> is_json_string kind \<and> kind_from_value S kind = None"

fun set_field :: "string \<Rightarrow> JsonValue \<Rightarrow> (string \<times> JsonValue) list \<Rightarrow> (string \<times> JsonValue) list" where
  "set_field key v [] = []"
| "set_field key v ((k, w) # members) = (if k = key then (k, v) # members else (k, w) # set_field key v members)"

definition substitute_trigger :: "serde_ops \<Rightarrow> string \<Rightarrow> (string \<times> JsonValue) list \<Rightarrow> (string \<times> JsonValue) list \<times> bool" where
  "substitute_trigger S representable members =
     (case map_of members ''trigger'' of
        Some (Object trigger) \<Rightarrow>
          (case map_of trigger ''kind'' of
             Some kind \<Rightarrow>
               if unknown_kind S kind
               then (set_field ''trigger'' (Object (set_field ''kind'' (String representable) trigger)) members, True)
               else (members, False)
           | None \<Rightarrow> (members, False))
      | _ \<Rightarrow> (members, False))"

text \<open>The walk visits the replaced trigger too; it ends because a replaced kind is a string again.\<close>

fun json_size :: "JsonValue \<Rightarrow> nat" where
  "json_size (Array items) = Suc (sum_list (map json_size items))"
| "json_size (Object members) = Suc (sum_list (map (\<lambda>(k, v). json_size v) members))"
| "json_size _ = 1"

lemma json_size_string: "is_json_string v \<Longrightarrow> json_size v = 1"
  by (cases v) simp_all

lemma set_field_size:
  "map_of members key = Some w \<Longrightarrow> json_size v = json_size w \<Longrightarrow>
     sum_list (map (\<lambda>(k, v). json_size v) (set_field key v members)) = sum_list (map (\<lambda>(k, v). json_size v) members)"
  by (induction key v members rule: set_field.induct) (auto split: if_splits)

lemma substitute_trigger_size:
  "sum_list (map (\<lambda>(k, v). json_size v) (fst (substitute_trigger S representable members))) =
     sum_list (map (\<lambda>(k, v). json_size v) members)"
  by (auto simp: substitute_trigger_def unknown_kind_def json_size_string split: option.split JsonValue.split
      intro!: set_field_size)

lemma member_size:
  "(k, v) \<in> set (fst (substitute_trigger S representable members)) \<Longrightarrow> json_size v < json_size (Object members)"
  using member_le_sum_list [of "json_size v" "map (\<lambda>(k, v). json_size v) (fst (substitute_trigger S representable members))"]
  by (force simp: substitute_trigger_size)

function substitute_unrepresentable_kinds :: "serde_ops \<Rightarrow> string \<Rightarrow> JsonValue \<Rightarrow> JsonValue \<times> bool" where
  "substitute_unrepresentable_kinds S representable (Object members) =
     (let replaced = substitute_trigger S representable members;
          walked = map (\<lambda>(k, v). (k, substitute_unrepresentable_kinds S representable v)) (fst replaced) in
      (Object (map (\<lambda>(k, r). (k, fst r)) walked), snd replaced \<or> list_ex (\<lambda>(k, r). snd r) walked))"
| "substitute_unrepresentable_kinds S representable (Array items) =
     (let walked = map (substitute_unrepresentable_kinds S representable) items in
      (Array (map fst walked), list_ex snd walked))"
| "substitute_unrepresentable_kinds S representable Null = (Null, False)"
| "substitute_unrepresentable_kinds S representable (Bool b) = (Bool b, False)"
| "substitute_unrepresentable_kinds S representable (Number n) = (Number n, False)"
| "substitute_unrepresentable_kinds S representable (OtherNumber n) = (OtherNumber n, False)"
| "substitute_unrepresentable_kinds S representable (String s) = (String s, False)"
  by pat_completeness auto
termination
proof (relation "measure (\<lambda>(S, representable, v). json_size v)", goal_cases)
  case (3 S representable items v)
  then show ?case using member_le_sum_list [of "json_size v" "map json_size items"] by simp
qed (auto simp: member_size simp del: json_size.simps)

section \<open>Snapshots\<close>

definition map_pnl :: "('a \<Rightarrow> 'b) \<Rightarrow> 'a KillSwitchCumulativePositionPnlSnapshot \<Rightarrow> 'b KillSwitchCumulativePositionPnlSnapshot" where
  "map_pnl f v = \<lparr>realized_pnl = f (realized_pnl v), last_observed_at_unix_nanos = last_observed_at_unix_nanos v\<rparr>"

definition persist_pnl_map :: "'d decimal_ops \<Rightarrow> 'd pnl_map \<Rightarrow> string pnl_map" where
  "persist_pnl_map D m = map (\<lambda>(position_id, value). (position_id, map_pnl (dec_to_string D) value)) m"

fun restore_pnl_entries :: "'d decimal_ops \<Rightarrow> 'd pnl_map \<Rightarrow> string pnl_map \<Rightarrow> 'd pnl_map option" where
  "restore_pnl_entries D restored [] = Some restored"
| "restore_pnl_entries D restored ((position_id, value) # rest) =
     (case dec_from_str D (realized_pnl value) of
        None \<Rightarrow> None
      | Some pnl \<Rightarrow>
          restore_pnl_entries D
            (bt_insert position_id
               \<lparr>realized_pnl = pnl, last_observed_at_unix_nanos = last_observed_at_unix_nanos value\<rparr> restored) rest)"

definition restore_pnl_map :: "'d decimal_ops \<Rightarrow> string pnl_map \<Rightarrow> 'd pnl_map option" where
  "restore_pnl_map D m = restore_pnl_entries D [] m"

definition persisted_snapshot_from :: "'d decimal_ops \<Rightarrow> 'd KillSwitchLossProtectionSnapshot \<Rightarrow>
    PersistedKillSwitchLossProtectionSnapshot" where
  "persisted_snapshot_from D snapshot =
     \<lparr>daily_bucket = daily_bucket snapshot, daily_realized_pnl = dec_to_string D (daily_realized_pnl snapshot),
      settlement_currency = settlement_currency snapshot,
      cumulative_position_pnl = persist_pnl_map D (cumulative_position_pnl snapshot),
      closed_position_pnl = persist_pnl_map D (closed_position_pnl snapshot),
      adjusted_position_pnl = persist_pnl_map D (adjusted_position_pnl snapshot),
      pending_halt_actions = pending_halt_actions snapshot\<rparr>"

text \<open>The currency arm of the conversion; \<open>known\<close> is the currency table.\<close>

definition restore_currency :: "(string \<Rightarrow> bool) \<Rightarrow> bool \<Rightarrow> string option \<Rightarrow> string option option" where
  "restore_currency known has_loss_evidence currency =
     (case currency of
        Some c \<Rightarrow> if trim c = [] \<or> trim c \<noteq> c then None else if \<not> known c then None else Some (Some c)
      | None \<Rightarrow> if has_loss_evidence then None else Some None)"

definition snapshot_try_from :: "'d decimal_ops \<Rightarrow> (string \<Rightarrow> bool) \<Rightarrow> PersistedKillSwitchLossProtectionSnapshot \<Rightarrow>
    'd KillSwitchLossProtectionSnapshot option" where
  "snapshot_try_from D known snapshot =
     (case dec_from_str D (daily_realized_pnl snapshot) of None \<Rightarrow> None
      | Some daily \<Rightarrow>
     (case restore_pnl_map D (cumulative_position_pnl snapshot) of None \<Rightarrow> None
      | Some cumulative \<Rightarrow>
     (case restore_pnl_map D (closed_position_pnl snapshot) of None \<Rightarrow> None
      | Some closed_pnl \<Rightarrow>
          if list_ex (\<lambda>(position_id, _). bt_get closed_pnl position_id \<noteq> None) cumulative then None
          else
     (case restore_pnl_map D (adjusted_position_pnl snapshot) of None \<Rightarrow> None
      | Some adjusted \<Rightarrow>
     (let has_loss_evidence =
            \<not> dec_eq D daily (dec_zero D) \<or> cumulative \<noteq> [] \<or> closed_pnl \<noteq> [] \<or> adjusted \<noteq> [] in
      (case restore_currency known has_loss_evidence (settlement_currency snapshot) of None \<Rightarrow> None
       | Some currency \<Rightarrow> Some
           \<lparr>daily_bucket = daily_bucket snapshot, daily_realized_pnl = daily, settlement_currency = currency,
            cumulative_position_pnl = cumulative, closed_position_pnl = closed_pnl, adjusted_position_pnl = adjusted,
            pending_halt_actions = pending_halt_actions snapshot\<rparr>))))))"

definition initial_armed_loss_protection_snapshot :: "'d decimal_ops \<Rightarrow> 'd KillSwitchLossProtectionSnapshot" where
  "initial_armed_loss_protection_snapshot D =
     \<lparr>daily_bucket = None, daily_realized_pnl = dec_zero D, settlement_currency = None, cumulative_position_pnl = [],
      closed_position_pnl = [], adjusted_position_pnl = [], pending_halt_actions = None\<rparr>"

definition names_unrepresentable_halt_trigger :: "serde_ops \<Rightarrow> 'd decimal_ops \<Rightarrow> (string \<Rightarrow> bool) \<Rightarrow> bytes \<Rightarrow> bool" where
  "names_unrepresentable_halt_trigger S D known bytes =
     (case value_from_slice S bytes of
        None \<Rightarrow> False
      | Some value \<Rightarrow>
          if json_get ''schema_version'' value \<noteq> Some (Number (ucast KILL_SWITCH_STORE_SCHEMA_VERSION)) then False
          else
            let (substituted_value, substituted) =
                  substitute_unrepresentable_kinds S (kind_to_string S LossGovernorBreach) value in
            if \<not> substituted then False
            else
              (case state_from_value S substituted_value of
                 None \<Rightarrow> False
               | Some persisted \<Rightarrow>
                   (case persisted_loss_protection persisted of
                      Some snapshot \<Rightarrow> snapshot_try_from D known snapshot \<noteq> None
                    | None \<Rightarrow> True)))"

section \<open>The state file\<close>

definition serialize_state_with_loss_snapshot :: "serde_ops \<Rightarrow> 'd decimal_ops \<Rightarrow> KillSwitchState \<Rightarrow>
    'd KillSwitchLossProtectionSnapshot option \<Rightarrow> KillSwitchStoreError + bytes" where
  "serialize_state_with_loss_snapshot S D state loss =
     (case to_vec_pretty S
             \<lparr>schema_version = KILL_SWITCH_STORE_SCHEMA_VERSION, persisted_state = state,
              persisted_loss_protection = map_option (persisted_snapshot_from D) loss\<rparr> of
        None \<Rightarrow> Inl Serialize
      | Some bytes \<Rightarrow> Inr (bytes @ [CHR 0x0A]))"

definition ensure_state_bytes_within_limit :: "u64 \<Rightarrow> bytes \<Rightarrow> KillSwitchStoreError + unit" where
  "ensure_state_bytes_within_limit max_state_file_bytes bytes =
     (if unat max_state_file_bytes < length bytes then Inl (StateTooLarge (length bytes) max_state_file_bytes) else Inr ())"

definition write_atomic :: "write_outcome \<Rightarrow> bytes \<Rightarrow> bytes option \<Rightarrow> (KillSwitchStoreError + unit) \<times> bytes option" where
  "write_atomic outcome bytes file =
     (case write_private_atomic_file outcome bytes file of
        (Inl e, file) \<Rightarrow> (Inl (Io e), file)
      | (Inr _, file) \<Rightarrow> (Inr (), file))"

definition write_state_with_loss_snapshot :: "serde_ops \<Rightarrow> 'd decimal_ops \<Rightarrow> u64 \<Rightarrow> write_outcome \<Rightarrow> KillSwitchState \<Rightarrow>
    'd KillSwitchLossProtectionSnapshot option \<Rightarrow> bytes option \<Rightarrow> (KillSwitchStoreError + unit) \<times> bytes option" where
  "write_state_with_loss_snapshot S D max_bytes outcome state loss file =
     (case serialize_state_with_loss_snapshot S D state loss of
        Inl e \<Rightarrow> (Inl e, file)
      | Inr bytes \<Rightarrow>
          (case ensure_state_bytes_within_limit max_bytes bytes of
             Inl e \<Rightarrow> (Inl e, file)
           | Inr _ \<Rightarrow> write_atomic outcome bytes file))"

definition write_state :: "serde_ops \<Rightarrow> 'd decimal_ops \<Rightarrow> u64 \<Rightarrow> write_outcome \<Rightarrow> KillSwitchState \<Rightarrow> bytes option \<Rightarrow>
    (KillSwitchStoreError + unit) \<times> bytes option" where
  "write_state S D max_bytes outcome state file = write_state_with_loss_snapshot S D max_bytes outcome state None file"

definition invalidate :: "write_outcome \<Rightarrow> bytes option \<Rightarrow> (KillSwitchStoreError + unit) \<times> bytes option" where
  "invalidate outcome file = write_atomic outcome ''!'' file"

definition bootstrap_initial_armed_loss_snapshot :: "serde_ops \<Rightarrow> 'd decimal_ops \<Rightarrow> u64 \<Rightarrow> new_outcome \<Rightarrow> bytes option \<Rightarrow>
    (KillSwitchStoreError + unit) \<times> bytes option" where
  "bootstrap_initial_armed_loss_snapshot S D max_bytes outcome file =
     (case serialize_state_with_loss_snapshot S D Armed (Some (initial_armed_loss_protection_snapshot D)) of
        Inl e \<Rightarrow> (Inl e, file)
      | Inr bytes \<Rightarrow>
          (case ensure_state_bytes_within_limit max_bytes bytes of
             Inl e \<Rightarrow> (Inl e, file)
           | Inr _ \<Rightarrow>
               (case write_private_new_file outcome bytes file of
                  (Inr _, file) \<Rightarrow> (Inr (), file)
                | (Inl AlreadyExists, file) \<Rightarrow> (Inl StateAlreadyExists, file)
                | (Inl e, file) \<Rightarrow> (Inl (Io e), file))))"

definition fail_closed :: "KillSwitchRecoveryReason \<Rightarrow> KillSwitchState option \<Rightarrow> 'd KillSwitchRecoveryRecord" where
  "fail_closed reason state = \<lparr>recovery_state = FailClosed reason state, loss_protection = None\<rparr>"

definition saturating_succ :: "u64 \<Rightarrow> u64" where
  "saturating_succ n = (if n = - 1 then n else n + 1)"

definition recover_persisted :: "'d decimal_ops \<Rightarrow> (string \<Rightarrow> bool) \<Rightarrow> PersistedKillSwitchState \<Rightarrow> 'd KillSwitchRecoveryRecord" where
  "recover_persisted D known persisted =
     (case (case persisted_loss_protection persisted of
              Some snapshot \<Rightarrow> map_option Some (snapshot_try_from D known snapshot)
            | None \<Rightarrow> Some None) of
        None \<Rightarrow> fail_closed CorruptEvidence (Some (persisted_state persisted))
      | Some loss \<Rightarrow>
          \<lparr>recovery_state =
             (case persisted_state persisted of
                Halting halt_id trigger \<Rightarrow> FailClosed UnresolvedHalt (Some (persisted_state persisted))
              | FailedManualIntervention halt_id reason \<Rightarrow> FailClosed UnresolvedHalt (Some (persisted_state persisted))
              | state \<Rightarrow> Recovered state),
           loss_protection = loss\<rparr>)"

text \<open>\<open>readable\<close> is whether opening and reading a file that exists works.\<close>

definition load_recovery_record :: "serde_ops \<Rightarrow> 'd decimal_ops \<Rightarrow> (string \<Rightarrow> bool) \<Rightarrow> u64 \<Rightarrow> bool \<Rightarrow> bytes option \<Rightarrow>
    KillSwitchStoreError + 'd KillSwitchRecoveryRecord" where
  "load_recovery_record S D known max_bytes readable file =
     (case file of
        None \<Rightarrow> Inr (fail_closed MissingEvidence None)
      | Some contents \<Rightarrow>
          if \<not> readable then Inl (Io OtherIoError)
          else
            let bytes = take (unat (saturating_succ max_bytes)) contents in
            if unat max_bytes < length bytes then Inr (fail_closed OversizedEvidence None)
            else if (case declared_schema_version S bytes of
                       None \<Rightarrow> False | Some declared \<Rightarrow> declared \<noteq> KILL_SWITCH_STORE_SCHEMA_VERSION)
            then Inr (fail_closed UnsupportedSchemaVersion None)
            else
              (case state_from_slice S bytes of
                 None \<Rightarrow>
                   Inr (fail_closed (if names_unrepresentable_halt_trigger S D known bytes then UnrepresentableHaltTrigger
                                     else CorruptEvidence) None)
               | Some persisted \<Rightarrow> Inr (recover_persisted D known persisted)))"

definition load_recovery_state :: "serde_ops \<Rightarrow> 'd decimal_ops \<Rightarrow> (string \<Rightarrow> bool) \<Rightarrow> u64 \<Rightarrow> bool \<Rightarrow> bytes option \<Rightarrow>
    KillSwitchStoreError + KillSwitchRecoveryState" where
  "load_recovery_state S D known max_bytes readable file =
     map_sum id recovery_state (load_recovery_record S D known max_bytes readable file)"

section \<open>The audit file of manual recoveries\<close>

text \<open>\<open>utf8\<close> tells valid UTF-8.\<close>

definition appendable_line_count :: "(bytes \<Rightarrow> bool) \<Rightarrow> bool \<Rightarrow> bytes option \<Rightarrow> KillSwitchStoreError + nat" where
  "appendable_line_count utf8 readable file =
     (case file of
        None \<Rightarrow> Inr 0
      | Some contents \<Rightarrow>
          if \<not> readable then Inl (Io OtherIoError)
          else if contents = [] then Inr 0
          else if last contents \<noteq> CHR 0x0A then Inl TornManualRecoveryAudit
          else if \<not> list_all utf8 (str_lines contents) then Inl (Io OtherIoError)
          else Inr (length (filter (\<lambda>line. trim line \<noteq> []) (str_lines contents))))"

definition append_loss_governor_manual_recovery :: "serde_ops \<Rightarrow> (bytes \<Rightarrow> bool) \<Rightarrow> bool \<Rightarrow> append_outcome \<Rightarrow>
    KillSwitchLossGovernorManualRecoveryRecord \<Rightarrow> bytes option \<Rightarrow> (KillSwitchStoreError + nat) \<times> bytes option" where
  "append_loss_governor_manual_recovery S utf8 readable outcome manual_recovery file =
     (case appendable_line_count utf8 readable file of
        Inl e \<Rightarrow> (Inl e, file)
      | Inr previous_count \<Rightarrow>
          (case record_to_vec S manual_recovery of
             None \<Rightarrow> (Inl Serialize, file)
           | Some bytes \<Rightarrow>
               (case append_private_file outcome (bytes @ [CHR 0x0A]) file of
                  (Inl e, file) \<Rightarrow> (Inl (Io e), file)
                | (Inr _, file) \<Rightarrow> (Inr (previous_count + 1), file))))"

text \<open>The loop over the lines; \<open>torn\<close> is whether the file lacks a final newline.\<close>

fun parse_audit_lines :: "serde_ops \<Rightarrow> bool \<Rightarrow> string list \<Rightarrow>
    KillSwitchStoreError + KillSwitchLossGovernorManualRecoveryRecord list" where
  "parse_audit_lines S torn [] = Inr []"
| "parse_audit_lines S torn (line # rest) =
     (if trim line = [] then parse_audit_lines S torn rest
      else
        (case record_from_str S line of
           Some r \<Rightarrow> and_then (parse_audit_lines S torn rest) (\<lambda>rs. Inr (r # rs))
         | None \<Rightarrow> if rest = [] \<and> torn then parse_audit_lines S torn rest else Inl Deserialize))"

definition load_loss_governor_manual_recoveries :: "serde_ops \<Rightarrow> (bytes \<Rightarrow> bool) \<Rightarrow> bool \<Rightarrow> bytes option \<Rightarrow>
    KillSwitchStoreError + KillSwitchLossGovernorManualRecoveryRecord list" where
  "load_loss_governor_manual_recoveries S utf8 readable file =
     (case file of
        None \<Rightarrow> Inr []
      | Some contents \<Rightarrow>
          if \<not> readable \<or> \<not> utf8 contents then Inl (Io OtherIoError)
          else parse_audit_lines S (contents = [] \<or> last contents \<noteq> CHR 0x0A) (str_lines contents))"

end
