(* ===== verification/KillSwitchRecovery.thy ===== *)
theory KillSwitchRecovery
  imports KillSwitchStore
begin

text \<open>
  Correctness of the kill switch store: snapshots survive a write and a load, recovery is fail
  closed, and the audit file keeps every record that was appended.
\<close>

section \<open>Snapshots survive the store\<close>

lemma bt_insert_last: "(\<And>k' v'. (k', v') \<in> set m \<Longrightarrow> k' < k) \<Longrightarrow> bt_insert k v m = m @ [(k, v)]"
  by (induction k v m rule: bt_insert.induct) (auto simp: not_less_iff_gr_or_eq)

lemma pnl_eta: "\<lparr>realized_pnl = realized_pnl v, last_observed_at_unix_nanos = last_observed_at_unix_nanos v\<rparr> = v"
  by simp

lemma restore_persisted_entries:
  assumes "decimal_prints D" and "bt_invar (acc @ m)"
  shows "restore_pnl_entries D acc (persist_pnl_map D m) = Some (acc @ m)"
  using assms(2)
proof (induction m arbitrary: acc)
  case (Cons e m)
  obtain k v where e: "e = (k, v)" by (cases e)
  have "bt_insert k v acc = acc @ [(k, v)]"
    using Cons.prems by (intro bt_insert_last) (auto simp: bt_invar_def sorted_wrt_append e)
  moreover have "dec_from_str D (dec_to_string D (realized_pnl v)) = Some (realized_pnl v)"
    using assms(1) by (simp add: decimal_prints_def)
  ultimately show ?case using Cons.IH [of "acc @ [(k, v)]"] Cons.prems
    by (simp add: e persist_pnl_map_def map_pnl_def pnl_eta)
qed (simp add: persist_pnl_map_def)

lemma restore_persisted [simp]:
  "decimal_prints D \<Longrightarrow> bt_invar m \<Longrightarrow> restore_pnl_map D (persist_pnl_map D m) = Some m"
  using restore_persisted_entries [of D "[]" m] by (simp add: restore_pnl_map_def)

text \<open>
  A snapshot the conversion accepts: ordered maps, no position both open and closed, and a known
  settlement currency wherever there is evidence of a loss.
\<close>

definition snapshot_wf :: "'d decimal_ops \<Rightarrow> (string \<Rightarrow> bool) \<Rightarrow> 'd KillSwitchLossProtectionSnapshot \<Rightarrow> bool" where
  "snapshot_wf D known s \<longleftrightarrow>
     bt_invar (cumulative_position_pnl s) \<and> bt_invar (closed_position_pnl s) \<and> bt_invar (adjusted_position_pnl s) \<and>
     (\<forall>k. bt_get (cumulative_position_pnl s) k = None \<or> bt_get (closed_position_pnl s) k = None) \<and>
     (case settlement_currency s of
        Some c \<Rightarrow> c \<noteq> [] \<and> trim c = c \<and> known c
      | None \<Rightarrow> dec_eq D (daily_realized_pnl s) (dec_zero D) \<and> cumulative_position_pnl s = [] \<and>
          closed_position_pnl s = [] \<and> adjusted_position_pnl s = [])"

lemma snapshot_round_trip:
  assumes D: "decimal_prints D" and wf: "snapshot_wf D known s"
  shows "snapshot_try_from D known (persisted_snapshot_from D s) = Some s"
proof -
  have "\<not> list_ex (\<lambda>(k, _). bt_get (closed_position_pnl s) k \<noteq> None) (cumulative_position_pnl s)"
  proof
    assume "list_ex (\<lambda>(k, _). bt_get (closed_position_pnl s) k \<noteq> None) (cumulative_position_pnl s)"
    then obtain k v where kv: "(k, v) \<in> set (cumulative_position_pnl s)" "bt_get (closed_position_pnl s) k \<noteq> None"
      by (auto simp: list_ex_iff)
    have "bt_invar (cumulative_position_pnl s)"
      and "bt_get (cumulative_position_pnl s) k = None \<or> bt_get (closed_position_pnl s) k = None"
      using wf by (simp_all add: snapshot_wf_def)
    with kv btm.entries_get [of "cumulative_position_pnl s" k v] show False by simp
  qed
  moreover have "dec_from_str D (dec_to_string D (daily_realized_pnl s)) = Some (daily_realized_pnl s)"
    using D by (simp add: decimal_prints_def)
  moreover have "restore_currency known
      (\<not> dec_eq D (daily_realized_pnl s) (dec_zero D) \<or> cumulative_position_pnl s \<noteq> [] \<or>
       closed_position_pnl s \<noteq> [] \<or> adjusted_position_pnl s \<noteq> []) (settlement_currency s) = Some (settlement_currency s)"
    using wf by (cases "settlement_currency s") (simp_all add: snapshot_wf_def restore_currency_def)
  moreover have "bt_invar (cumulative_position_pnl s)" "bt_invar (closed_position_pnl s)" "bt_invar (adjusted_position_pnl s)"
    using wf by (simp_all add: snapshot_wf_def)
  ultimately show ?thesis using D
    by (simp add: snapshot_try_from_def persisted_snapshot_from_def Let_def)
qed

section \<open>Recovery\<close>

text \<open>What \<open>serde_json\<close> promises for the persisted record.\<close>

definition persisted_wf :: "PersistedKillSwitchState \<Rightarrow> bool" where
  "persisted_wf p \<longleftrightarrow>
     (case persisted_loss_protection p of
        None \<Rightarrow> True
      | Some s \<Rightarrow> bt_invar (cumulative_position_pnl s) \<and> bt_invar (closed_position_pnl s) \<and> bt_invar (adjusted_position_pnl s))"

definition serde_reads_back :: "serde_ops \<Rightarrow> bool" where
  "serde_reads_back S \<longleftrightarrow>
     (\<forall>p b. persisted_wf p \<longrightarrow> to_vec_pretty S p = Some b \<longrightarrow> state_from_slice S (b @ [CHR 0x0A]) = Some p)"

definition serde_reads_version :: "serde_ops \<Rightarrow> bool" where
  "serde_reads_version S \<longleftrightarrow>
     (\<forall>b p. state_from_slice S b = Some p \<longrightarrow> declared_schema_version S b = Some (schema_version p))"

text \<open>What a state and a snapshot load as.\<close>

definition loads_as :: "KillSwitchState \<Rightarrow> 'd KillSwitchLossProtectionSnapshot option \<Rightarrow> 'd KillSwitchRecoveryRecord" where
  "loads_as state loss =
     \<lparr>recovery_state =
        (case state of
           Halting halt_id trigger \<Rightarrow> FailClosed UnresolvedHalt (Some state)
         | FailedManualIntervention halt_id reason \<Rightarrow> FailClosed UnresolvedHalt (Some state)
         | _ \<Rightarrow> Recovered state),
      loss_protection = loss\<rparr>"

lemma bt_invar_persist [simp]: "bt_invar m \<Longrightarrow> bt_invar (persist_pnl_map D m)"
  by (simp add: bt_invar_def persist_pnl_map_def sorted_wrt_map case_prod_unfold)

lemma unat_saturating_succ: "n \<noteq> - 1 \<Longrightarrow> unat (saturating_succ n) = Suc (unat n)"
proof -
  assume "n \<noteq> - 1"
  then have "n + 1 \<noteq> 0" by (simp add: eq_neg_iff_add_eq_0)
  then have "unat (n + 1) = Suc (unat n)" by (metis unatSuc add.commute)
  with \<open>n \<noteq> - 1\<close> show ?thesis by (simp add: saturating_succ_def)
qed

lemma read_within_limit:
  assumes "length contents \<le> unat max_bytes"
  shows "take (unat (saturating_succ max_bytes)) contents = contents"
proof (cases "max_bytes = - 1")
  case True
  then show ?thesis using assms by (simp add: saturating_succ_def)
next
  case False
  then show ?thesis using assms by (simp add: unat_saturating_succ)
qed

lemma loads_written:
  assumes S: "serde_reads_back S" "serde_reads_version S" and D: "decimal_prints D"
    and wf: "\<And>s. loss = Some s \<Longrightarrow> snapshot_wf D known s"
    and bytes: "serialize_state_with_loss_snapshot S D state loss = Inr bytes" and limit: "length bytes \<le> unat max_bytes"
  shows "load_recovery_record S D known max_bytes True (Some bytes) = Inr (loads_as state loss)"
proof -
  let ?p = "\<lparr>schema_version = KILL_SWITCH_STORE_SCHEMA_VERSION, persisted_state = state,
    persisted_loss_protection = map_option (persisted_snapshot_from D) loss\<rparr>"
  obtain b where b: "to_vec_pretty S ?p = Some b" "bytes = b @ [CHR 0x0A]"
    using bytes by (auto simp: serialize_state_with_loss_snapshot_def split: option.splits)
  have "persisted_wf ?p"
  proof (cases loss)
    case (Some s)
    then have "bt_invar (cumulative_position_pnl s)" "bt_invar (closed_position_pnl s)" "bt_invar (adjusted_position_pnl s)"
      using wf [OF Some] by (simp_all add: snapshot_wf_def)
    with Some show ?thesis by (simp add: persisted_wf_def persisted_snapshot_from_def)
  qed (simp add: persisted_wf_def)
  then have parsed: "state_from_slice S bytes = Some ?p" using S(1) b by (simp add: serde_reads_back_def)
  then have version: "declared_schema_version S bytes = Some KILL_SWITCH_STORE_SCHEMA_VERSION"
    using S(2) by (simp add: serde_reads_version_def)
  have "recover_persisted D known ?p = loads_as state loss"
  proof (cases loss)
    case (Some s)
    then show ?thesis using snapshot_round_trip [OF D wf [OF Some]]
      by (simp add: recover_persisted_def loads_as_def split: KillSwitchState.split)
  qed (simp add: recover_persisted_def loads_as_def split: KillSwitchState.split)
  with parsed version limit show ?thesis
    by (simp add: load_recovery_record_def read_within_limit [OF limit] Let_def)
qed

lemma write_atomic_cases:
  "write_atomic outcome bytes file = (r, file') \<Longrightarrow>
     (file' = Some bytes \<or> file' = file \<and> \<not> is_ok r) \<and> (is_ok r \<longrightarrow> file' = Some bytes)"
  by (cases outcome) (auto simp: write_atomic_def)

lemma write_state_loads:
  assumes S: "serde_reads_back S" "serde_reads_version S" and D: "decimal_prints D"
    and wf: "\<And>s. loss = Some s \<Longrightarrow> snapshot_wf D known s"
    and w: "write_state_with_loss_snapshot S D max_bytes outcome state loss file = (r, file')"
  shows "(is_ok r \<longrightarrow> load_recovery_record S D known max_bytes True file' = Inr (loads_as state loss)) \<and>
    (file' = file \<or> load_recovery_record S D known max_bytes True file' = Inr (loads_as state loss))"
proof (cases "serialize_state_with_loss_snapshot S D state loss")
  case (Inr bytes)
  show ?thesis
  proof (cases "length bytes \<le> unat max_bytes")
    case True
    then have "write_atomic outcome bytes file = (r, file')"
      using w Inr by (simp add: write_state_with_loss_snapshot_def ensure_state_bytes_within_limit_def)
    from write_atomic_cases [OF this] loads_written [OF S D wf Inr True] show ?thesis by auto
  next
    case False
    then show ?thesis
      using w Inr by (auto simp: write_state_with_loss_snapshot_def ensure_state_bytes_within_limit_def)
  qed
qed (use w in \<open>auto simp: write_state_with_loss_snapshot_def\<close>)

text \<open>
  C38. The state file round trip. When a write of a state and a well-formed snapshot succeeds, loading
  returns exactly that state and snapshot, unresolved halts being reported as such. Whatever call
  of the write fails, the file either is untouched or loads as what was written: there is no torn
  state.
\<close>

theorem store_write_round_trip:
  assumes "serde_reads_back S" and "serde_reads_version S" and "decimal_prints D"
    and "\<And>s. loss = Some s \<Longrightarrow> snapshot_wf D known s"
    and "write_state_with_loss_snapshot S D max_bytes outcome state loss file = (r, file')"
  shows "(is_ok r \<longrightarrow> load_recovery_record S D known max_bytes True file' = Inr (loads_as state loss)) \<and>
    (file' = file \<or> load_recovery_record S D known max_bytes True file' = Inr (loads_as state loss))"
  using assms by (rule write_state_loads)

definition demo_persisted :: PersistedKillSwitchState where
  "demo_persisted = \<lparr>schema_version = KILL_SWITCH_STORE_SCHEMA_VERSION, persisted_state = Armed,
     persisted_loss_protection = Some (persisted_snapshot_from whole_ops (initial_armed_loss_protection_snapshot whole_ops))\<rparr>"

definition demo_serde :: serde_ops where
  "demo_serde = \<lparr>to_vec_pretty = (\<lambda>p. if p = demo_persisted then Some ''x'' else None),
     state_from_slice = (\<lambda>b. if b = ''x'' @ [CHR 0x0A] then Some demo_persisted else None),
     value_from_slice = (\<lambda>b. if b = ''x'' @ [CHR 0x0A] then Some (Object [(''schema_version'', Number 2)]) else None),
     state_from_value = (\<lambda>v. None), kind_from_value = (\<lambda>v. None), kind_to_string = (\<lambda>k. ''k''),
     record_to_vec = (\<lambda>r. Some ''r''), record_from_str = (\<lambda>s. None)\<rparr>"

lemma demo_serde_reads: "serde_reads_back demo_serde" "serde_reads_version demo_serde"
  by (auto simp: serde_reads_back_def serde_reads_version_def demo_serde_def declared_schema_version_def
      demo_persisted_def KILL_SWITCH_STORE_SCHEMA_VERSION_def split: if_splits)

lemma demo_write:
  "write_state_with_loss_snapshot demo_serde whole_ops 9 WriteOk Armed
     (Some (initial_armed_loss_protection_snapshot whole_ops)) None = (Inr (), Some (''x'' @ [CHR 0x0A]))"
  by (simp add: write_state_with_loss_snapshot_def serialize_state_with_loss_snapshot_def demo_serde_def demo_persisted_def
      ensure_state_bytes_within_limit_def write_atomic_def)

lemma demo_snapshot_wf: "snapshot_wf whole_ops known (initial_armed_loss_protection_snapshot whole_ops)"
  by (simp add: snapshot_wf_def initial_armed_loss_protection_snapshot_def whole_ops_def)

theorem store_write_round_trip_witness:
  "load_recovery_record demo_serde whole_ops (\<lambda>c. True) 9 True (Some (''x'' @ [CHR 0x0A])) =
     Inr (loads_as Armed (Some (initial_armed_loss_protection_snapshot whole_ops)))"
  using store_write_round_trip [OF demo_serde_reads whole_prints _ demo_write, of "\<lambda>c. True"] demo_snapshot_wf by simp


lemma demo_loads:
  "load_recovery_record demo_serde whole_ops (\<lambda>c. True) 9 True (Some (''x'' @ [CHR 0x0A])) =
     Inr (loads_as Armed (Some (initial_armed_loss_protection_snapshot whole_ops)))"
  using write_state_loads [OF demo_serde_reads whole_prints _ demo_write, of "\<lambda>c. True"] demo_snapshot_wf by simp


section \<open>The audit file\<close>

text \<open>
  What \<open>serde_json\<close> promises for a record on one line: it reads back, it is not blank, control
  characters are escaped, and no proper prefix of it parses. \<open>utf8\<close> is valid UTF-8: closed under
  concatenation, and what the encoder writes is valid.
\<close>

definition record_lines :: "serde_ops \<Rightarrow> (bytes \<Rightarrow> bool) \<Rightarrow> bool" where
  "record_lines S utf8 \<longleftrightarrow>
     utf8 [] \<and> (\<forall>a b. utf8 a \<longrightarrow> utf8 b \<longrightarrow> utf8 (a @ b)) \<and>
     (\<forall>r b. record_to_vec S r = Some b \<longrightarrow>
        utf8 (b @ [CHR 0x0A]) \<and> record_from_str S b = Some r \<and> trim b \<noteq> [] \<and> CHR 0x0A \<notin> set b \<and> CHR 0x0D \<notin> set b \<and>
        (\<forall>n < length b. record_from_str S (take n b) = None))"

definition complete_lines :: "bytes \<Rightarrow> bool" where
  "complete_lines b \<longleftrightarrow> b = [] \<or> last b = CHR 0x0A"

lemma split_on_append_sep: "split_on d (a @ d # b) = split_on d a @ split_on d b"
proof (induction a)
  case (Cons c cs)
  then show ?case using split_on_nonempty [of d cs] by (auto split: list.splits)
qed simp

lemma str_lines_torn:
  assumes "complete_lines old" and "CHR 0x0A \<notin> set b"
  shows "str_lines (old @ b) = str_lines old @ (if b = [] then [] else [b])"
proof (cases "old = []")
  case True
  then show ?thesis using split_on_free [OF assms(2)] by (simp add: str_lines_def Let_def)
next
  case False
  then obtain a where a: "old = a @ [CHR 0x0A]" using assms(1) by (metis complete_lines_def append_butlast_last_id)
  have "split_on (CHR 0x0A) (old @ b) = split_on (CHR 0x0A) a @ [b]"
    using split_on_append_sep [of "CHR 0x0A" a b] split_on_free [OF assms(2)] by (simp add: a)
  moreover have "split_on (CHR 0x0A) old = split_on (CHR 0x0A) a @ [[]]"
    using split_on_append_sep [of "CHR 0x0A" a "[]"] by (simp add: a)
  ultimately show ?thesis by (simp add: str_lines_def Let_def butlast_append)
qed

lemma drop_cr_free: "CHR 0x0D \<notin> set b \<Longrightarrow> drop_cr b = b"
  by (cases b rule: rev_cases) (auto simp: drop_cr_def)

lemma str_lines_line:
  assumes "complete_lines old" and "CHR 0x0A \<notin> set b" and "CHR 0x0D \<notin> set b"
  shows "str_lines (old @ b @ [CHR 0x0A]) = str_lines old @ [b]"
proof -
  have line: "split_on (CHR 0x0A) (b @ [CHR 0x0A]) = [b, []]"
    using split_on_sep [OF assms(2), of "[]"] by simp
  show ?thesis
  proof (cases "old = []")
    case True
    then show ?thesis using line assms(3) by (simp add: str_lines_def Let_def drop_cr_free)
  next
    case False
    then obtain a where a: "old = a @ [CHR 0x0A]" using assms(1) by (metis complete_lines_def append_butlast_last_id)
    have "split_on (CHR 0x0A) (old @ b @ [CHR 0x0A]) = split_on (CHR 0x0A) a @ [b, []]"
      using split_on_append_sep [of "CHR 0x0A" a "b @ [CHR 0x0A]"] line by (simp add: a)
    moreover have "split_on (CHR 0x0A) old = split_on (CHR 0x0A) a @ [[]]"
      using split_on_append_sep [of "CHR 0x0A" a "[]"] by (simp add: a)
    ultimately show ?thesis using assms(3) by (simp add: str_lines_def Let_def butlast_append drop_cr_free)
  qed
qed

lemma parse_audit_lines_append:
  "parse_audit_lines S False ls = Inr rs \<Longrightarrow>
     parse_audit_lines S torn (ls @ ms) = and_then (parse_audit_lines S torn ms) (\<lambda>rs'. Inr (rs @ rs'))"
proof (induction ls arbitrary: rs)
  case Nil
  then show ?case by (cases "parse_audit_lines S torn ms") simp_all
next
  case (Cons l ls)
  show ?case
  proof (cases "trim l = []")
    case False
    then obtain r where r: "record_from_str S l = Some r" using Cons.prems by (auto split: option.splits)
    then obtain rs' where "parse_audit_lines S False ls = Inr rs'" "rs = r # rs'"
      using Cons.prems False by (cases "parse_audit_lines S False ls") auto
    then show ?thesis using Cons.IH [of rs'] r False by (cases "parse_audit_lines S torn ms") simp_all
  qed (use Cons in simp)
qed

lemma parse_audit_lines_length:
  "parse_audit_lines S False ls = Inr rs \<Longrightarrow> length (filter (\<lambda>line. trim line \<noteq> []) ls) = length rs"
proof (induction ls arbitrary: rs)
  case (Cons l ls)
  then show ?case
    by (cases "parse_audit_lines S False ls") (auto split: if_splits option.splits)
qed simp

lemma load_line:
  assumes S: "record_lines S utf8" and old: "complete_lines old" "utf8 old" "parse_audit_lines S False (str_lines old) = Inr rs"
    and b: "record_to_vec S rec = Some b"
  shows "load_loss_governor_manual_recoveries S utf8 True (Some (old @ b @ [CHR 0x0A])) = Inr (rs @ [rec])"
proof -
  have facts: "utf8 (b @ [CHR 0x0A])" "record_from_str S b = Some rec" "trim b \<noteq> []" "CHR 0x0A \<notin> set b" "CHR 0x0D \<notin> set b"
    using S b by (simp_all add: record_lines_def)
  have "utf8 (old @ b @ [CHR 0x0A])" using S old(2) facts(1) by (simp add: record_lines_def)
  moreover have "str_lines (old @ b @ [CHR 0x0A]) = str_lines old @ [b]"
    using str_lines_line [OF old(1) facts(4,5)] .
  ultimately show ?thesis using parse_audit_lines_append [OF old(3), of False "[b]"] facts
    by (simp add: load_loss_governor_manual_recoveries_def)
qed

lemma load_torn:
  assumes S: "record_lines S utf8" and old: "complete_lines old" "parse_audit_lines S False (str_lines old) = Inr rs"
    and b: "record_to_vec S rec = Some b" and u: "utf8 (old @ take n b)"
  shows "load_loss_governor_manual_recoveries S utf8 True (Some (old @ take n b)) \<in> {Inr rs, Inr (rs @ [rec])}"
proof -
  have facts: "record_from_str S b = Some rec" "trim b \<noteq> []" "CHR 0x0A \<notin> set b"
    and prefixes: "\<And>k. k < length b \<Longrightarrow> record_from_str S (take k b) = None"
    using S b by (simp_all add: record_lines_def)
  have free: "CHR 0x0A \<notin> set (take n b)" using facts(3) by (meson in_set_takeD)
  note lines = str_lines_torn [OF old(1) free]
  show ?thesis
  proof (cases "take n b = []")
    case True
    then show ?thesis using parse_audit_lines_append [OF old(2), of _ "[]"] u lines
      by (simp only: append_Nil2 if_True) (simp add: load_loss_governor_manual_recoveries_def)
  next
    case False
    then have "last (old @ take n b) \<noteq> CHR 0x0A" using free by (metis last_appendR last_in_set)
    moreover have "parse_audit_lines S True [take n b] \<in> {Inr [], Inr [rec]}"
    proof (cases "n < length b")
      case True
      then show ?thesis using prefixes [of n] by simp
    qed (use facts in simp)
    moreover have "parse_audit_lines S True (str_lines (old @ take n b)) =
        and_then (parse_audit_lines S True [take n b]) (\<lambda>rs'. Inr (rs @ rs'))"
      using parse_audit_lines_append [OF old(2), of True "[take n b]"] lines False by simp
    ultimately show ?thesis using u
      by (auto simp: load_loss_governor_manual_recoveries_def simp del: parse_audit_lines.simps)
  qed
qed

lemma append_goes_through:
  assumes "append_loss_governor_manual_recovery S utf8 True outcome rec file = (r, file')" and "utf8 []"
    and "load_loss_governor_manual_recoveries S utf8 True file = Inr rs"
  shows "(\<not> is_ok r \<and> file' = file) \<or>
    (\<exists>old b. old = (case file of None \<Rightarrow> [] | Some old \<Rightarrow> old) \<and> complete_lines old \<and>
       parse_audit_lines S False (str_lines old) = Inr rs \<and> utf8 old \<and> record_to_vec S rec = Some b \<and>
       append_private_file outcome (b @ [CHR 0x0A]) file = (map_sum (\<lambda>_. OtherIoError) (\<lambda>_. ()) r, file') \<and>
       (\<forall>n. r = Inr n \<longrightarrow> n = length rs + 1))"
proof (cases "appendable_line_count utf8 True file")
  case (Inr count)
  let ?old = "case file of None \<Rightarrow> [] | Some old \<Rightarrow> old"
  have complete: "complete_lines ?old"
    using Inr by (auto simp: appendable_line_count_def complete_lines_def split: option.splits if_splits)
  have parsed: "parse_audit_lines S False (str_lines ?old) = Inr rs \<and> utf8 ?old"
    using assms(2,3) complete
    by (cases "?old = []") (auto simp: load_loss_governor_manual_recoveries_def complete_lines_def str_lines_def split: option.splits if_splits)
  then have count: "count = length rs"
    using Inr parse_audit_lines_length [of S "str_lines ?old" rs]
    by (auto simp: appendable_line_count_def str_lines_def split: option.splits if_splits)
  show ?thesis
  proof (cases "record_to_vec S rec")
    case (Some b)
    have "append_private_file outcome (b @ [CHR 0x0A]) file = (map_sum (\<lambda>_. OtherIoError) (\<lambda>_. ()) r, file') \<and>
        (\<forall>n. r = Inr n \<longrightarrow> n = length rs + 1)"
      using assms(1) Inr Some count
      by (cases outcome) (auto simp: append_loss_governor_manual_recovery_def append_private_file_def)
    then show ?thesis using complete parsed Some by blast
  qed (use assms(1) Inr in \<open>auto simp: append_loss_governor_manual_recovery_def\<close>)
next
  case (Inl e)
  then have "r = Inl e \<and> file' = file" using assms(1) by (auto simp: append_loss_governor_manual_recovery_def)
  then show ?thesis by simp
qed

definition demo_manual_recovery :: KillSwitchLossGovernorManualRecoveryRecord where
  "demo_manual_recovery = \<lparr>mr_operator_id = ''ops'', mr_evidence_path = ''e'', mr_evidence_sha256 = ''0'', mr_observed_at_ns = 1,
     mr_recorded_at_ns = 2, mr_outcome = Some Attempted, mr_outcome_reason = None\<rparr>"

definition demo_audit_serde :: serde_ops where
  "demo_audit_serde = demo_serde\<lparr>record_to_vec := (\<lambda>r. if r = demo_manual_recovery then Some ''{}'' else None),
     record_from_str := (\<lambda>s. if s = ''{}'' then Some demo_manual_recovery else None)\<rparr>"

lemma demo_trim: "trim ''{}'' \<noteq> []" "trim ''{'' \<noteq> []"
  by code_simp+

lemma demo_record_lines: "record_lines demo_audit_serde (\<lambda>_. True)"
proof -
  have "take n ''{}'' \<noteq> ''{}''" if "n < 2" for n :: nat
    using that by (auto simp: numeral_2_eq_2 less_Suc_eq)
  then show ?thesis by (simp add: record_lines_def demo_audit_serde_def demo_trim)
qed

lemma demo_audit_load:
  "load_loss_governor_manual_recoveries demo_audit_serde (\<lambda>_. True) True (Some (''{}'' @ [CHR 0x0A])) = Inr [demo_manual_recovery]"
  using load_line [OF demo_record_lines, of "[]" "[]" demo_manual_recovery "''{}''"]
  by (simp add: complete_lines_def str_lines_def demo_audit_serde_def)

lemma demo_audit_append:
  "append_loss_governor_manual_recovery demo_audit_serde (\<lambda>_. True) True (AppendNotWritten 1) demo_manual_recovery
     (Some (''{}'' @ [CHR 0x0A])) = (Inl (Io OtherIoError), Some (''{}'' @ [CHR 0x0A] @ ''{''))"
  by (simp add: append_loss_governor_manual_recovery_def appendable_line_count_def append_private_file_def demo_audit_serde_def list_all_iff)



end
