(* ===== verification/RustAction.thy ===== *)
theory RustAction
  imports RustResult
begin

text \<open>
  Methods of a mutable object that return a \<open>Result\<close> and may panic, as functions from the object
  to a result and the object afterwards; \<^term>\<open>None\<close> is the panic. A method that fails with \<open>?\<close>
  keeps what it changed before. \<open>wp\<close> is the weakest liberal precondition: what must hold before,
  for a condition to hold of the result and the object when the method does not panic.
\<close>

type_synonym ('s, 'e, 'a) act = "'s \<Rightarrow> (('e + 'a) \<times> 's) option"

definition act_return :: "'a \<Rightarrow> ('s, 'e, 'a) act" where
  "act_return x s = Some (Inr x, s)"

definition act_fail :: "'e \<Rightarrow> ('s, 'e, 'a) act" where
  "act_fail e s = Some (Inl e, s)"

definition act_panic :: "('s, 'e, 'a) act" where
  "act_panic s = None"

definition act_get :: "('s, 'e, 's) act" where
  "act_get s = Some (Inr s, s)"

definition act_modify :: "('s \<Rightarrow> 's) \<Rightarrow> ('s, 'e, unit) act" where
  "act_modify f s = Some (Inr (), f s)"

definition act_bind :: "('s, 'e, 'a) act \<Rightarrow> ('a \<Rightarrow> ('s, 'e, 'b) act) \<Rightarrow> ('s, 'e, 'b) act" where
  "act_bind m f s =
     (case m s of
        None \<Rightarrow> None
      | Some (Inl e, s') \<Rightarrow> Some (Inl e, s')
      | Some (Inr x, s') \<Rightarrow> f x s')"

definition act_then :: "('s, 'e, unit) act \<Rightarrow> ('s, 'e, 'b) act \<Rightarrow> ('s, 'e, 'b) act" where
  "act_then m n = act_bind m (\<lambda>_. n)"

text \<open>\<open>if let Err(error) = m { handler } else { rest }\<close>, and \<open>map_err\<close>.\<close>

definition act_match :: "('s, 'e, 'a) act \<Rightarrow> ('e \<Rightarrow> ('s, 'f, 'b) act) \<Rightarrow> ('a \<Rightarrow> ('s, 'f, 'b) act) \<Rightarrow> ('s, 'f, 'b) act" where
  "act_match m handler rest s =
     (case m s of
        None \<Rightarrow> None
      | Some (Inl e, s') \<Rightarrow> handler e s'
      | Some (Inr x, s') \<Rightarrow> rest x s')"

definition act_map_err :: "('e \<Rightarrow> 'f) \<Rightarrow> ('s, 'e, 'a) act \<Rightarrow> ('s, 'f, 'a) act" where
  "act_map_err f m = act_match m (\<lambda>e. act_fail (f e)) act_return"

text \<open>A pure result, and an operation of another crate that may panic.\<close>

definition act_lift :: "'e + 'a \<Rightarrow> ('s, 'e, 'a) act" where
  "act_lift r s = Some (r, s)"

definition act_option :: "'a option \<Rightarrow> ('s, 'e, 'a) act" where
  "act_option v = (case v of None \<Rightarrow> act_panic | Some x \<Rightarrow> act_return x)"

lemmas act_defs = act_return_def act_fail_def act_panic_def act_get_def act_modify_def act_bind_def act_then_def act_match_def
  act_map_err_def act_lift_def act_option_def

section \<open>Weakest preconditions\<close>

definition wp :: "('s, 'e, 'a) act \<Rightarrow> ('e + 'a \<Rightarrow> 's \<Rightarrow> bool) \<Rightarrow> 's \<Rightarrow> bool" where
  "wp m Q s \<longleftrightarrow> (\<forall>r s'. m s = Some (r, s') \<longrightarrow> Q r s')"

text \<open>Conditions on results are simplified in both branches, and merged when they agree.\<close>

declare sum.case_cong [cong]

lemma case_sum_same [simp]: "(case r of Inl e \<Rightarrow> a | Inr x \<Rightarrow> a) = a"
  by (cases r) simp_all

lemma wp_return [simp]: "wp (act_return x) Q s \<longleftrightarrow> Q (Inr x) s"
  by (simp add: wp_def act_return_def)

lemma wp_fail [simp]: "wp (act_fail e) Q s \<longleftrightarrow> Q (Inl e) s"
  by (simp add: wp_def act_fail_def)

lemma wp_panic [simp]: "wp act_panic Q s"
  by (simp add: wp_def act_panic_def)

lemma wp_get [simp]: "wp act_get Q s \<longleftrightarrow> Q (Inr s) s"
  by (simp add: wp_def act_get_def)

lemma wp_modify [simp]: "wp (act_modify f) Q s \<longleftrightarrow> Q (Inr ()) (f s)"
  by (simp add: wp_def act_modify_def)

lemma wp_lift [simp]: "wp (act_lift r) Q s \<longleftrightarrow> Q r s"
  by (simp add: wp_def act_lift_def)

lemma wp_option [simp]: "wp (act_option v) Q s \<longleftrightarrow> (\<forall>x. v = Some x \<longrightarrow> Q (Inr x) s)"
  by (simp add: act_option_def split: option.split)

lemma wp_match [simp]:
  "wp (act_match m handler rest) Q s \<longleftrightarrow>
     wp m (\<lambda>r s'. case r of Inl e \<Rightarrow> wp (handler e) Q s' | Inr x \<Rightarrow> wp (rest x) Q s') s"
  by (auto simp: wp_def act_match_def split: option.splits sum.splits prod.splits)

lemma wp_bind [simp]:
  "wp (act_bind m f) Q s \<longleftrightarrow> wp m (\<lambda>r s'. case r of Inl e \<Rightarrow> Q (Inl e) s' | Inr x \<Rightarrow> wp (f x) Q s') s"
  by (auto simp: wp_def act_bind_def split: option.splits sum.splits prod.splits)

lemma wp_then [simp]:
  "wp (act_then m n) Q s \<longleftrightarrow> wp m (\<lambda>r s'. case r of Inl e \<Rightarrow> Q (Inl e) s' | Inr x \<Rightarrow> wp n Q s') s"
  by (simp add: act_then_def)

lemma wp_map_err [simp]:
  "wp (act_map_err f m) Q s \<longleftrightarrow> wp m (\<lambda>r s'. case r of Inl e \<Rightarrow> Q (Inl (f e)) s' | Inr x \<Rightarrow> Q (Inr x) s') s"
  by (simp add: act_map_err_def)

lemma wp_True [simp]: "wp m (\<lambda>r s'. True) s"
  by (simp add: wp_def)

lemma wp_mono: "wp m Q s \<Longrightarrow> (\<And>r s'. Q r s' \<Longrightarrow> R r s') \<Longrightarrow> wp m R s"
  by (simp add: wp_def)

lemma wp_conj: "wp m Q s \<Longrightarrow> wp m R s \<Longrightarrow> wp m (\<lambda>r s'. Q r s' \<and> R r s') s"
  by (simp add: wp_def)

lemma wpD: "wp m Q s \<Longrightarrow> m s = Some (r, s') \<Longrightarrow> Q r s'"
  by (simp add: wp_def)

lemma wpI: "(\<And>r s'. m s = Some (r, s') \<Longrightarrow> Q r s') \<Longrightarrow> wp m Q s"
  by (simp add: wp_def)

end
