(* ===== verification/LossProtection.thy ===== *)
theory LossProtection
  imports KillSwitchRecovery RustAction
begin

text \<open>
  The realized-loss protection of the kill switch (\<open>src/src/bolt_v3_loss_protection.rs\<close>): it counts
  the realized profit and loss of a UTC day per position, halts when the loss reaches the limit,
  dispatches and retries the halt actions, and persists every change. The objects it shares are
  part of its record: the kill switch state held by the submit admission, the store with the
  outcomes of its next writes, and the action sink with its next results and what was emitted.
  Amounts, currencies, JSON, SHA-256 and the \<open>Debug\<close> text of store errors are parameters.
\<close>

section \<open>Data\<close>

definition NANOS_PER_UTC_DAY :: u64 where "NANOS_PER_UTC_DAY = 86400000000000"

definition NANOS_PER_MILLISECOND :: u64 where "NANOS_PER_MILLISECOND = 1000000"

definition FAIL_CLOSED_RECOVERY_HALT_ID :: string where "FAIL_CLOSED_RECOVERY_HALT_ID = ''kill-switch-recovery-fail-closed''"

definition LOSS_TRIGGER_REASON :: string where "LOSS_TRIGGER_REASON = ''max_utc_daily_realized_loss''"

definition HALT_ACTION_RETRY_TIMEOUT_REASON :: string where "HALT_ACTION_RETRY_TIMEOUT_REASON = ''halt_action_retry_timeout''"

definition FLATTEN_ACTION_ID :: string where "FLATTEN_ACTION_ID = ''flatten-positions''"

definition SNAPSHOT_PERSISTENCE_FAILED_REASON :: string where
  "SNAPSHOT_PERSISTENCE_FAILED_REASON = ''loss_protection_snapshot_persistence_failed''"

definition MIXED_SETTLEMENT_CURRENCY_REASON :: string where "MIXED_SETTLEMENT_CURRENCY_REASON = ''mixed_settlement_currency''"

definition RECOVERY_LOSS_TRIGGER_SOURCE :: string where "RECOVERY_LOSS_TRIGGER_SOURCE = ''kill_switch_recovery''"

record 'd KillSwitchLossProtectionConfig =
  lc_max_utc_daily_realized_loss :: 'd
  lc_action_retry_interval_ms :: u64
  lc_action_retry_timeout_ms :: u64
  lc_account_ids :: "string list"
  lc_instrument_ids :: "string list"

record ('d, 'c) RealizedPnlObservation =
  ro_source :: string
  ro_observed_at_unix_nanos :: u64
  ro_realized_pnl :: 'd
  ro_settlement_currency :: 'c

record ('d, 'c) PositionRealizedPnlObservation =
  po_account_id :: string
  po_instrument_id :: string
  po_position_id :: string
  po_event_id :: "string option"
  po_observed :: "('d, 'c) RealizedPnlObservation"
  po_cumulative_realized_pnl :: bool
  po_closes_position :: bool

datatype KillSwitchLossActionKind = FlattenPositions

record KillSwitchLossAction =
  la_kind :: KillSwitchLossActionKind
  la_halt_id :: string
  la_action_id :: string
  la_account_ids :: "string list"
  la_instrument_ids :: "string list"

record PendingHaltActions =
  pa_state :: KillSwitchState
  pa_next_retry_at_unix_nanos :: u64
  pa_retry_deadline_unix_nanos :: u64

text \<open>The store: its limit, its file, and the outcomes of the writes to come.\<close>

record loss_store =
  st_max_state_file_bytes :: u64
  st_readable :: bool
  st_file :: "bytes option"
  st_writes :: "nat \<Rightarrow> write_outcome"

text \<open>The action sink: whether the calls to come succeed, and the emitted actions, latest first.\<close>

record loss_sink =
  sk_accepts :: "nat \<Rightarrow> bool"
  sk_emitted :: "KillSwitchLossAction list"

record ('d, 'c) KillSwitchLossProtection =
  lp_config :: "'d KillSwitchLossProtectionConfig"
  lp_admission :: KillSwitchState
  lp_store :: loss_store
  lp_action_sink :: loss_sink
  lp_state :: KillSwitchState
  lp_daily_bucket :: "u64 option"
  lp_daily_realized_pnl :: 'd
  lp_cumulative_position_pnl :: "'d pnl_map"
  lp_closed_position_pnl :: "'d pnl_map"
  lp_adjusted_position_pnl :: "'d pnl_map"
  lp_pending_halt_actions :: "PendingHaltActions option"
  lp_settlement_currency :: "'c option"

text \<open>What the code calls of other crates.\<close>

record ('c, 'm, 'd) money_ops =
  cur_code :: "'c \<Rightarrow> string"
  cur_eq :: "'c \<Rightarrow> 'c \<Rightarrow> bool"
  cur_from_str :: "string \<Rightarrow> 'c option"
  money_currency :: "'m \<Rightarrow> 'c"
  money_as_decimal :: "'m \<Rightarrow> 'd"

record ('d, 'c, 'm) loss_env =
  env_serde :: serde_ops
  env_decimal :: "'d decimal_ops"
  env_money :: "('c, 'm, 'd) money_ops"
  env_sha256_hex :: "string \<Rightarrow> string"
  env_store_error :: "KillSwitchStoreError \<Rightarrow> string"

definition env_known :: "('d, 'c, 'm) loss_env \<Rightarrow> string \<Rightarrow> bool" where
  "env_known E c \<longleftrightarrow> cur_from_str (env_money E) c \<noteq> None"

datatype LossProtectionError =
    RecoveryLoadFailed KillSwitchStoreError
  | RecoveredBreachNotLatched
  | TransitionFailed KillSwitchTransitionError
  | Failed string
  | HaltPersistenceFailed string LossProtectionError
  | HaltActionDispatchError
  | HaltActionRetryTimeout
  | HaltActionRetryFailed
  | FailedStatePersistence KillSwitchStoreError KillSwitchStoreError

type_synonym ('d, 'c, 'a) loss_act = "(('d, 'c) KillSwitchLossProtection, LossProtectionError, 'a) act"

section \<open>Times and labels\<close>

definition saturating_add :: "u64 \<Rightarrow> u64 \<Rightarrow> u64" where
  "saturating_add a b = (case checked_add a b of None \<Rightarrow> - 1 | Some c \<Rightarrow> c)"

definition saturating_mul :: "u64 \<Rightarrow> u64 \<Rightarrow> u64" where
  "saturating_mul a b = (case checked_mul a b of None \<Rightarrow> - 1 | Some c \<Rightarrow> c)"

definition add_millis :: "u64 \<Rightarrow> u64 \<Rightarrow> u64" where
  "add_millis unix_nanos millis = saturating_add unix_nanos (saturating_mul millis NANOS_PER_MILLISECOND)"

fun recovery_reason_label :: "KillSwitchRecoveryReason \<Rightarrow> string" where
  "recovery_reason_label MissingEvidence = ''missing_evidence''"
| "recovery_reason_label MissingLossProtectionSnapshot = ''missing_loss_protection_snapshot''"
| "recovery_reason_label CorruptEvidence = ''corrupt_evidence''"
| "recovery_reason_label OversizedEvidence = ''oversized_evidence''"
| "recovery_reason_label UnsupportedSchemaVersion = ''unsupported_schema_version''"
| "recovery_reason_label UnresolvedHalt = ''unresolved_halt''"
| "recovery_reason_label UnrepresentableHaltTrigger = ''unrepresentable_halt_trigger''"

definition halt_id_or_recovery :: "KillSwitchState \<Rightarrow> string" where
  "halt_id_or_recovery state = (case halt_id_of state of Some h \<Rightarrow> h | None \<Rightarrow> FAIL_CLOSED_RECOVERY_HALT_ID)"

definition fail_closed_recovery_state :: "KillSwitchRecoveryReason \<Rightarrow> KillSwitchState option \<Rightarrow> KillSwitchState" where
  "fail_closed_recovery_state reason state =
     (case state of
        Some (Halting h t) \<Rightarrow> Halting h t
      | Some (FailedManualIntervention h r) \<Rightarrow> FailedManualIntervention h r
      | Some state \<Rightarrow> FailedManualIntervention (halt_id_or_recovery state) (recovery_reason_label reason)
      | None \<Rightarrow> FailedManualIntervention FAIL_CLOSED_RECOVERY_HALT_ID (recovery_reason_label reason))"

section \<open>The objects it shares\<close>

definition next_write :: "loss_store \<Rightarrow> bytes option \<Rightarrow> loss_store" where
  "next_write st file = st\<lparr>st_file := file, st_writes := (\<lambda>n. st_writes st (Suc n))\<rparr>"

text \<open>\<open>self.store.write_state_with_loss_snapshot(..)\<close> and \<open>self.store.invalidate()\<close>.\<close>

definition store_write :: "('d, 'c, 'm) loss_env \<Rightarrow> KillSwitchState \<Rightarrow> 'd KillSwitchLossProtectionSnapshot option \<Rightarrow>
    (('d, 'c) KillSwitchLossProtection, KillSwitchStoreError, unit) act" where
  "store_write E state loss p =
     (case write_state_with_loss_snapshot (env_serde E) (env_decimal E) (st_max_state_file_bytes (lp_store p))
             (st_writes (lp_store p) 0) state loss (st_file (lp_store p)) of
        (r, file) \<Rightarrow> Some (r, p\<lparr>lp_store := next_write (lp_store p) file\<rparr>))"

definition store_invalidate :: "(('d, 'c) KillSwitchLossProtection, KillSwitchStoreError, unit) act" where
  "store_invalidate p =
     (case invalidate (st_writes (lp_store p) 0) (st_file (lp_store p)) of
        (r, file) \<Rightarrow> Some (r, p\<lparr>lp_store := next_write (lp_store p) file\<rparr>))"

text \<open>\<open>self.admission.replace_kill_switch_state(state)\<close> and \<open>self.state = state\<close>.\<close>

definition enter_state :: "KillSwitchState \<Rightarrow> ('d, 'c, unit) loss_act" where
  "enter_state state = act_modify (\<lambda>p. p\<lparr>lp_admission := state, lp_state := state\<rparr>)"

definition sink_emit :: "KillSwitchLossAction \<Rightarrow> ('d, 'c, unit) loss_act" where
  "sink_emit action p =
     (let sink = lp_action_sink p;
          p' = p\<lparr>lp_action_sink := \<lparr>sk_accepts = (\<lambda>n. sk_accepts sink (Suc n)), sk_emitted = action # sk_emitted sink\<rparr>\<rparr> in
      Some (if sk_accepts sink 0 then Inr () else Inl HaltActionDispatchError, p'))"

section \<open>Snapshots and persistence\<close>

definition loss_snapshot :: "('d, 'c, 'm) loss_env \<Rightarrow> ('d, 'c) KillSwitchLossProtection \<Rightarrow> 'd KillSwitchLossProtectionSnapshot" where
  "loss_snapshot E p =
     \<lparr>daily_bucket = lp_daily_bucket p, daily_realized_pnl = lp_daily_realized_pnl p,
      settlement_currency = map_option (cur_code (env_money E)) (lp_settlement_currency p),
      cumulative_position_pnl = lp_cumulative_position_pnl p, closed_position_pnl = lp_closed_position_pnl p,
      adjusted_position_pnl = lp_adjusted_position_pnl p,
      pending_halt_actions =
        map_option (\<lambda>pending. \<lparr>next_retry_at_unix_nanos = pa_next_retry_at_unix_nanos pending,
                                 retry_deadline_unix_nanos = pa_retry_deadline_unix_nanos pending\<rparr>) (lp_pending_halt_actions p)\<rparr>"

text \<open>Restoring a snapshot; \<open>Currency::from\<close> panics on an unknown code.\<close>

definition apply_loss_snapshot :: "('d, 'c, 'm) loss_env \<Rightarrow> 'd KillSwitchLossProtectionSnapshot \<Rightarrow> ('d, 'c, unit) loss_act" where
  "apply_loss_snapshot E snapshot =
     act_bind
       (case settlement_currency snapshot of
          None \<Rightarrow> act_return None
        | Some code \<Rightarrow> act_option (map_option Some (cur_from_str (env_money E) code)))
       (\<lambda>currency. act_modify (\<lambda>p. p\<lparr>lp_daily_bucket := daily_bucket snapshot,
          lp_daily_realized_pnl := daily_realized_pnl snapshot,
          lp_settlement_currency := currency,
          lp_cumulative_position_pnl := cumulative_position_pnl snapshot,
          lp_closed_position_pnl := closed_position_pnl snapshot,
          lp_adjusted_position_pnl := adjusted_position_pnl snapshot,
          lp_pending_halt_actions :=
            map_option (\<lambda>pending. \<lparr>pa_state = lp_state p,
              pa_next_retry_at_unix_nanos = next_retry_at_unix_nanos pending,
              pa_retry_deadline_unix_nanos = retry_deadline_unix_nanos pending\<rparr>) (pending_halt_actions snapshot)\<rparr>))"

definition persist_failed_state_or_invalidate :: "('d, 'c, 'm) loss_env \<Rightarrow> KillSwitchState \<Rightarrow> ('d, 'c, unit) loss_act" where
  "persist_failed_state_or_invalidate E failed =
     act_match (store_write E failed None)
       (\<lambda>write_error. act_map_err (FailedStatePersistence write_error) store_invalidate)
       act_return"

text \<open>The failed state that the current state falls into, entered and persisted, and the error that is returned.\<close>

definition fail_closed_with :: "('d, 'c, 'm) loss_env \<Rightarrow> string \<Rightarrow> ('d, 'c, 'a) loss_act" where
  "fail_closed_with E reason =
     act_bind act_get (\<lambda>p.
       let failed = FailedManualIntervention (halt_id_or_recovery (lp_state p)) reason in
       act_then (enter_state failed)
      (act_then (persist_failed_state_or_invalidate E failed)
      (act_fail (Failed reason))))"

definition persist_runtime_snapshot_or_fail_closed :: "('d, 'c, 'm) loss_env \<Rightarrow> ('d, 'c, unit) loss_act" where
  "persist_runtime_snapshot_or_fail_closed E =
     act_bind act_get (\<lambda>p.
       act_match (store_write E (lp_state p) (Some (loss_snapshot E p)))
         (\<lambda>error.
            act_then (act_modify (\<lambda>p. p\<lparr>lp_pending_halt_actions := None\<rparr>))
              (fail_closed_with E (SNAPSHOT_PERSISTENCE_FAILED_REASON @ '': '' @ env_store_error E error)))
         act_return)"

definition guard_settlement_currency :: "('d, 'c, 'm) loss_env \<Rightarrow> 'c \<Rightarrow> ('d, 'c, unit) loss_act" where
  "guard_settlement_currency E currency =
     act_bind act_get (\<lambda>p.
       case lp_settlement_currency p of
         None \<Rightarrow> act_modify (\<lambda>p. p\<lparr>lp_settlement_currency := Some currency\<rparr>)
       | Some existing \<Rightarrow>
           if cur_eq (env_money E) existing currency then act_return ()
           else fail_closed_with E
             (MIXED_SETTLEMENT_CURRENCY_REASON @ '': expected '' @ cur_code (env_money E) existing @
              '', observed '' @ cur_code (env_money E) currency))"

section \<open>Halt actions\<close>

definition emit_halt_actions :: "KillSwitchState \<Rightarrow> ('d, 'c, unit) loss_act" where
  "emit_halt_actions state =
     (case halt_id_of state of
        None \<Rightarrow> act_return ()
      | Some halt_id \<Rightarrow>
          act_bind act_get (\<lambda>p.
            sink_emit \<lparr>la_kind = FlattenPositions, la_halt_id = halt_id, la_action_id = FLATTEN_ACTION_ID,
              la_account_ids = lc_account_ids (lp_config p), la_instrument_ids = lc_instrument_ids (lp_config p)\<rparr>))"

definition loss_transition :: "('d, 'c, 'm) loss_env \<Rightarrow> KillSwitchState \<Rightarrow> KillSwitchEvent \<Rightarrow> KillSwitchTransitionContext \<Rightarrow>
    ('d, 'c, KillSwitchState) loss_act" where
  "loss_transition E state event ctx =
     act_map_err TransitionFailed (act_lift (transition_kill_switch_state (env_sha256_hex E) state event ctx))"

definition record_halt_actions_recorded :: "('d, 'c, 'm) loss_env \<Rightarrow> KillSwitchState \<Rightarrow> ('d, 'c, KillSwitchState) loss_act" where
  "record_halt_actions_recorded E state =
     act_bind
       (loss_transition E state DurableHaltEvidenceRecorded
          (inert_transition_context\<lparr>state_write_succeeded := True, durable_halt_evidence_recorded := True\<rparr>))
       (\<lambda>halted.
          act_then (act_modify (\<lambda>p. p\<lparr>lp_pending_halt_actions := None\<rparr>))
         (act_then (enter_state halted)
         (act_then (persist_runtime_snapshot_or_fail_closed E)
         (act_return halted))))"

definition fail_halt_actions :: "('d, 'c, 'm) loss_env \<Rightarrow> KillSwitchState \<Rightarrow> string \<Rightarrow> ('d, 'c, unit) loss_act" where
  "fail_halt_actions E state reason =
     act_bind (loss_transition E state (HaltActionDispatchFailed reason) inert_transition_context)
       (\<lambda>failed. act_then (enter_state failed) (persist_failed_state_or_invalidate E failed))"

definition poll_pending_halt_actions :: "('d, 'c, 'm) loss_env \<Rightarrow> u64 \<Rightarrow> ('d, 'c, unit) loss_act" where
  "poll_pending_halt_actions E observed_at =
     act_bind act_get (\<lambda>p.
       case lp_pending_halt_actions p of
         None \<Rightarrow> act_return ()
       | Some pending \<Rightarrow>
           if observed_at < pa_next_retry_at_unix_nanos pending then act_return ()
           else if pa_retry_deadline_unix_nanos pending < observed_at
           then act_then (fail_halt_actions E (pa_state pending) HALT_ACTION_RETRY_TIMEOUT_REASON)
               (act_then (act_modify (\<lambda>p. p\<lparr>lp_pending_halt_actions := None\<rparr>))
               (act_fail HaltActionRetryTimeout))
           else
             act_match (emit_halt_actions (pa_state pending))
               (\<lambda>error.
                  act_then
                    (act_modify (\<lambda>p. p\<lparr>lp_pending_halt_actions := Some
                       \<lparr>pa_state = pa_state pending,
                        pa_next_retry_at_unix_nanos = add_millis observed_at (lc_action_retry_interval_ms (lp_config p)),
                        pa_retry_deadline_unix_nanos = pa_retry_deadline_unix_nanos pending\<rparr>\<rparr>))
                 (act_then (persist_runtime_snapshot_or_fail_closed E)
                 (act_fail HaltActionRetryFailed)))
               (\<lambda>_. act_bind (record_halt_actions_recorded E (pa_state pending)) (\<lambda>_. act_return ())))"

section \<open>The daily realized loss\<close>

definition bucket_of :: "u64 \<Rightarrow> u64" where
  "bucket_of unix_nanos = unix_nanos div NANOS_PER_UTC_DAY"

definition prune_pnl :: "u64 \<Rightarrow> 'd pnl_map \<Rightarrow> 'd pnl_map" where
  "prune_pnl bucket m = filter (\<lambda>(_, value). bucket \<le> bucket_of (last_observed_at_unix_nanos value)) m"

definition prune_completed_position_snapshots_before_bucket :: "u64 \<Rightarrow> ('d, 'c) KillSwitchLossProtection \<Rightarrow>
    ('d, 'c) KillSwitchLossProtection" where
  "prune_completed_position_snapshots_before_bucket bucket p =
     p\<lparr>lp_closed_position_pnl := prune_pnl bucket (lp_closed_position_pnl p),
       lp_adjusted_position_pnl := prune_pnl bucket (lp_adjusted_position_pnl p)\<rparr>"

definition accept_observation_bucket :: "('d, 'c, 'm) loss_env \<Rightarrow> u64 \<Rightarrow> ('d, 'c, bool) loss_act" where
  "accept_observation_bucket E observed_at =
     (let bucket = bucket_of observed_at; zero = dec_zero (env_decimal E) in
      act_bind act_get (\<lambda>p.
        case lp_daily_bucket p of
          None \<Rightarrow>
            act_then (act_modify (\<lambda>p. p\<lparr>lp_daily_bucket := Some bucket, lp_daily_realized_pnl := zero\<rparr>)) (act_return True)
        | Some current \<Rightarrow>
            if current < bucket
            then act_then
                   (act_modify (\<lambda>p. prune_completed_position_snapshots_before_bucket bucket
                      (p\<lparr>lp_daily_bucket := Some bucket, lp_daily_realized_pnl := zero\<rparr>)))
                   (act_return True)
            else act_return (bucket = current)))"

definition realized_loss_breached :: "('d, 'c, 'm) loss_env \<Rightarrow> ('d, 'c) KillSwitchLossProtection \<Rightarrow> bool" where
  "realized_loss_breached E p \<longleftrightarrow>
     (let D = env_decimal E in
      dec_lt D (lp_daily_realized_pnl p) (dec_zero D) \<and>
      dec_ge D (dec_neg D (lp_daily_realized_pnl p)) (lc_max_utc_daily_realized_loss (lp_config p)))"

definition halt_for_realized_loss_breach :: "('d, 'c, 'm) loss_env \<Rightarrow> string \<Rightarrow> u64 \<Rightarrow> ('d, 'c, KillSwitchState option) loss_act" where
  "halt_for_realized_loss_breach E source observed_at =
     (let trigger = loss_governor_breach_with_reason source observed_at LOSS_TRIGGER_REASON DailyLossLimit in
      act_bind (loss_transition E Armed (HaltTriggered trigger) inert_transition_context) (\<lambda>halting.
      act_bind act_get (\<lambda>p.
      act_match (store_write E halting (Some (loss_snapshot E p)))
        (\<lambda>error.
           let reason = ''daily realized loss halt persistence failed: '' @ env_store_error E error in
           act_bind (loss_transition E halting (DurableHaltEvidenceWriteFailed reason) inert_transition_context) (\<lambda>failed.
           act_then (enter_state failed)
          (act_then (act_map_err (HaltPersistenceFailed reason) (persist_failed_state_or_invalidate E failed))
          (act_fail (Failed reason)))))
        (\<lambda>_.
           act_then (enter_state halting)
          (act_match (emit_halt_actions halting)
             (\<lambda>error.
                act_then
                  (act_modify (\<lambda>p. p\<lparr>lp_pending_halt_actions := Some
                     \<lparr>pa_state = halting,
                      pa_next_retry_at_unix_nanos = add_millis observed_at (lc_action_retry_interval_ms (lp_config p)),
                      pa_retry_deadline_unix_nanos = add_millis observed_at (lc_action_retry_timeout_ms (lp_config p))\<rparr>\<rparr>))
               (act_then (persist_runtime_snapshot_or_fail_closed E)
               (act_fail HaltActionDispatchError)))
             (\<lambda>_. act_bind (record_halt_actions_recorded E halting) (\<lambda>halted. act_return (Some halted))))))))"

definition record_current_bucket_realized_pnl :: "('d, 'c, 'm) loss_env \<Rightarrow> ('d, 'c) RealizedPnlObservation \<Rightarrow>
    ('d, 'c, KillSwitchState option) loss_act" where
  "record_current_bucket_realized_pnl E observation =
     act_bind act_get (\<lambda>p.
     act_bind (act_option (dec_add (env_decimal E) (lp_daily_realized_pnl p) (ro_realized_pnl observation))) (\<lambda>total.
     act_then (act_modify (\<lambda>p. p\<lparr>lp_daily_realized_pnl := total\<rparr>))
    (act_bind act_get (\<lambda>p.
       if \<not> realized_loss_breached E p
       then act_then (persist_runtime_snapshot_or_fail_closed E) (act_return None)
       else halt_for_realized_loss_breach E (ro_source observation) (ro_observed_at_unix_nanos observation)))))"

definition record_realized_pnl :: "('d, 'c, 'm) loss_env \<Rightarrow> ('d, 'c) RealizedPnlObservation \<Rightarrow>
    ('d, 'c, KillSwitchState option) loss_act" where
  "record_realized_pnl E observation =
     act_bind act_get (\<lambda>p.
       if lp_state p \<noteq> Armed
       then act_then (poll_pending_halt_actions E (ro_observed_at_unix_nanos observation)) (act_return None)
       else
         act_bind (accept_observation_bucket E (ro_observed_at_unix_nanos observation)) (\<lambda>accepted.
           if \<not> accepted then act_return None
           else act_then (guard_settlement_currency E (ro_settlement_currency observation))
                  (record_current_bucket_realized_pnl E observation)))"

section \<open>Position observations\<close>

definition pnl_entry :: "('d, 'c) RealizedPnlObservation \<Rightarrow> 'd KillSwitchCumulativePositionPnlSnapshot" where
  "pnl_entry observed =
     \<lparr>realized_pnl = ro_realized_pnl observed, last_observed_at_unix_nanos = ro_observed_at_unix_nanos observed\<rparr>"

definition same_entry :: "('d, 'c, 'm) loss_env \<Rightarrow> ('d, 'c) RealizedPnlObservation \<Rightarrow> 'd KillSwitchCumulativePositionPnlSnapshot \<Rightarrow> bool" where
  "same_entry E observed previous \<longleftrightarrow>
     ro_observed_at_unix_nanos observed = last_observed_at_unix_nanos previous \<and>
     dec_eq (env_decimal E) (ro_realized_pnl observed) (realized_pnl previous)"

text \<open>The observation of the change since an amount; the subtraction may panic.\<close>

definition change_since :: "('d, 'c, 'm) loss_env \<Rightarrow> ('d, 'c) RealizedPnlObservation \<Rightarrow> 'd \<Rightarrow>
    ('d, 'c, ('d, 'c) RealizedPnlObservation option) loss_act" where
  "change_since E observed previous =
     act_bind (act_option (dec_sub (env_decimal E) (ro_realized_pnl observed) previous)) (\<lambda>change.
       act_return (Some (observed\<lparr>ro_realized_pnl := change\<rparr>)))"

definition record_closed_position_observation :: "('d, 'c, 'm) loss_env \<Rightarrow> ('d, 'c) PositionRealizedPnlObservation \<Rightarrow>
    ('d, 'c, ('d, 'c) RealizedPnlObservation option) loss_act" where
  "record_closed_position_observation E observation =
     (let observed = po_observed observation; position_id = po_position_id observation;
          close = act_modify (\<lambda>p. p\<lparr>lp_closed_position_pnl := bt_insert position_id (pnl_entry observed) (lp_closed_position_pnl p)\<rparr>) in
      act_bind act_get (\<lambda>p.
        case bt_get (lp_cumulative_position_pnl p) position_id of
          Some previous \<Rightarrow>
            if ro_observed_at_unix_nanos observed < last_observed_at_unix_nanos previous then act_return None
            else
              act_then (act_modify (\<lambda>p. p\<lparr>lp_cumulative_position_pnl := bt_remove position_id (lp_cumulative_position_pnl p)\<rparr>))
             (act_then close
                (if same_entry E observed previous
                 then act_then (persist_runtime_snapshot_or_fail_closed E) (act_return None)
                 else change_since E observed (realized_pnl previous)))
        | None \<Rightarrow>
            (case bt_get (lp_closed_position_pnl p) position_id of
               Some previous \<Rightarrow>
                 if ro_observed_at_unix_nanos observed < last_observed_at_unix_nanos previous then act_return None
                 else if dec_eq (env_decimal E) (ro_realized_pnl observed) (realized_pnl previous) then act_return None
                 else act_then close (change_since E observed (realized_pnl previous))
             | None \<Rightarrow> act_then close (act_return (Some observed)))))"

definition record_cumulative_position_observation :: "('d, 'c, 'm) loss_env \<Rightarrow> ('d, 'c) PositionRealizedPnlObservation \<Rightarrow>
    ('d, 'c, ('d, 'c) RealizedPnlObservation option) loss_act" where
  "record_cumulative_position_observation E observation =
     (if po_closes_position observation then record_closed_position_observation E observation
      else
        let observed = po_observed observation; position_id = po_position_id observation;
            baseline = act_bind act_get (\<lambda>p.
              let previous_record = bt_get (lp_cumulative_position_pnl p) position_id in
              if (case previous_record of
                    None \<Rightarrow> False
                  | Some previous \<Rightarrow>
                      ro_observed_at_unix_nanos observed < last_observed_at_unix_nanos previous \<or> same_entry E observed previous)
              then act_return None
              else
                let previous = (case previous_record of
                                  None \<Rightarrow> dec_zero (env_decimal E) | Some previous \<Rightarrow> realized_pnl previous) in
                act_then
                  (act_modify (\<lambda>p. p\<lparr>lp_cumulative_position_pnl :=
                     bt_insert position_id (pnl_entry observed) (lp_cumulative_position_pnl p)\<rparr>))
                  (change_since E observed previous)) in
        act_bind act_get (\<lambda>p.
          case bt_get (lp_closed_position_pnl p) position_id of
            Some closed_pnl \<Rightarrow>
              if ro_observed_at_unix_nanos observed < last_observed_at_unix_nanos closed_pnl \<or> same_entry E observed closed_pnl
              then act_return None
              else
                act_then (act_modify (\<lambda>p. p\<lparr>lp_closed_position_pnl := bt_remove position_id (lp_closed_position_pnl p)\<rparr>))
                  baseline
          | None \<Rightarrow> baseline))"

definition is_duplicate_adjusted_position_observation :: "('d, 'c, 'm) loss_env \<Rightarrow> ('d, 'c) PositionRealizedPnlObservation \<Rightarrow>
    ('d, 'c, bool) loss_act" where
  "is_duplicate_adjusted_position_observation E observation =
     (case po_event_id observation of
        None \<Rightarrow> fail_closed_with E ''adjusted position realized-PnL observation missing event_id''
      | Some dedupe_key \<Rightarrow>
          act_bind act_get (\<lambda>p.
            if bt_get (lp_adjusted_position_pnl p) dedupe_key \<noteq> None then act_return True
            else
              act_then
                (act_modify (\<lambda>p. p\<lparr>lp_adjusted_position_pnl :=
                   bt_insert dedupe_key (pnl_entry (po_observed observation)) (lp_adjusted_position_pnl p)\<rparr>))
                (act_return False)))"

definition in_loss_scope :: "'d KillSwitchLossProtectionConfig \<Rightarrow> ('d, 'c) PositionRealizedPnlObservation \<Rightarrow> bool" where
  "in_loss_scope config observation \<longleftrightarrow>
     po_account_id observation \<in> set (lc_account_ids config) \<and> po_instrument_id observation \<in> set (lc_instrument_ids config)"

definition count_position_observation :: "('d, 'c, 'm) loss_env \<Rightarrow> ('d, 'c) PositionRealizedPnlObservation \<Rightarrow>
    ('d, 'c, KillSwitchState option) loss_act" where
  "count_position_observation E observation =
     (if po_cumulative_realized_pnl observation
      then act_bind (record_cumulative_position_observation E observation) (\<lambda>observed.
             case observed of
               None \<Rightarrow> act_return None
             | Some observed \<Rightarrow> record_current_bucket_realized_pnl E observed)
      else act_bind (is_duplicate_adjusted_position_observation E observation) (\<lambda>duplicate.
             if duplicate then act_return None
             else record_current_bucket_realized_pnl E (po_observed observation)))"

definition record_position_realized_pnl :: "('d, 'c, 'm) loss_env \<Rightarrow> ('d, 'c) PositionRealizedPnlObservation \<Rightarrow>
    ('d, 'c, KillSwitchState option) loss_act" where
  "record_position_realized_pnl E observation =
     act_bind act_get (\<lambda>p.
       if \<not> in_loss_scope (lp_config p) observation then act_return None
       else if lp_state p \<noteq> Armed
       then act_then (poll_pending_halt_actions E (ro_observed_at_unix_nanos (po_observed observation))) (act_return None)
       else
         act_bind (accept_observation_bucket E (ro_observed_at_unix_nanos (po_observed observation))) (\<lambda>accepted.
           if \<not> accepted then act_return None
           else
             act_then (guard_settlement_currency E (ro_settlement_currency (po_observed observation)))
               (count_position_observation E observation)))"

text \<open>Position events of the trading library, with the fields that are read.\<close>

record 'm position_event =
  pe_account_id :: string
  pe_instrument_id :: string
  pe_position_id :: string
  pe_event_id :: string
  pe_amount :: "'m option"
  pe_ts_event :: u64

datatype 'm PositionEvent =
    PositionOpened
  | PositionChanged "'m position_event"
  | PositionClosed "'m position_event"
  | PositionAdjusted "'m position_event"

definition event_observation :: "('d, 'c, 'm) loss_env \<Rightarrow> 'm position_event \<Rightarrow> string \<Rightarrow> string option \<Rightarrow> bool \<Rightarrow> bool \<Rightarrow>
    ('d, 'c) PositionRealizedPnlObservation option" where
  "event_observation E event source event_id cumulative closes =
     map_option (\<lambda>amount.
       \<lparr>po_account_id = pe_account_id event, po_instrument_id = pe_instrument_id event, po_position_id = pe_position_id event,
        po_event_id = event_id,
        po_observed = \<lparr>ro_source = source, ro_observed_at_unix_nanos = pe_ts_event event,
          ro_realized_pnl = money_as_decimal (env_money E) amount, ro_settlement_currency = money_currency (env_money E) amount\<rparr>,
        po_cumulative_realized_pnl = cumulative, po_closes_position = closes\<rparr>) (pe_amount event)"

fun position_realized_pnl_observation :: "('d, 'c, 'm) loss_env \<Rightarrow> 'm PositionEvent \<Rightarrow>
    ('d, 'c) PositionRealizedPnlObservation option" where
  "position_realized_pnl_observation E PositionOpened = None"
| "position_realized_pnl_observation E (PositionChanged changed) =
     event_observation E changed ''nt_position_changed'' None True False"
| "position_realized_pnl_observation E (PositionClosed closed_event) =
     event_observation E closed_event ''nt_position_closed'' None True True"
| "position_realized_pnl_observation E (PositionAdjusted adjusted) =
     event_observation E adjusted ''nt_position_adjusted'' (Some (pe_event_id adjusted)) False False"

definition record_position_event :: "('d, 'c, 'm) loss_env \<Rightarrow> 'm PositionEvent \<Rightarrow> ('d, 'c, KillSwitchState option) loss_act" where
  "record_position_event E event =
     (case position_realized_pnl_observation E event of
        None \<Rightarrow> act_return None
      | Some observation \<Rightarrow> record_position_realized_pnl E observation)"

section \<open>Construction and recovery\<close>

definition KillSwitchLossProtection_new :: "('d, 'c, 'm) loss_env \<Rightarrow> 'd KillSwitchLossProtectionConfig \<Rightarrow> KillSwitchState \<Rightarrow> loss_store \<Rightarrow>
    loss_sink \<Rightarrow> ('d, 'c) KillSwitchLossProtection" where
  "KillSwitchLossProtection_new E config admission store action_sink =
     \<lparr>lp_config = config, lp_admission = admission, lp_store = store, lp_action_sink = action_sink, lp_state = Armed,
      lp_daily_bucket = None, lp_daily_realized_pnl = dec_zero (env_decimal E), lp_cumulative_position_pnl = [],
      lp_closed_position_pnl = [], lp_adjusted_position_pnl = [], lp_pending_halt_actions = None, lp_settlement_currency = None\<rparr>"

definition store_load :: "('d, 'c, 'm) loss_env \<Rightarrow> loss_store \<Rightarrow> KillSwitchStoreError + 'd KillSwitchRecoveryRecord" where
  "store_load E store =
     load_recovery_record (env_serde E) (env_decimal E) (env_known E) (st_max_state_file_bytes store) (st_readable store) (st_file store)"

fun recovered_state :: "KillSwitchRecoveryState \<Rightarrow> KillSwitchState" where
  "recovered_state (Recovered state) = state"
| "recovered_state (FailClosed reason state) = fail_closed_recovery_state reason state"

fun is_halting :: "KillSwitchState \<Rightarrow> bool" where
  "is_halting (Halting _ _) = True"
| "is_halting _ = False"

text \<open>The end of recovery: the admission follows, and the actions of an unresolved halt are dispatched.\<close>

definition resume_halt_actions :: "('d, 'c, 'm) loss_env \<Rightarrow> u64 \<Rightarrow> KillSwitchState \<Rightarrow> ('d, 'c, KillSwitchState) loss_act" where
  "resume_halt_actions E clock state =
     act_then (enter_state state)
    (act_bind act_get (\<lambda>p.
       if is_halting state \<and> lp_pending_halt_actions p = None
       then
         act_match (emit_halt_actions state)
           (\<lambda>error.
              act_then
                (act_modify (\<lambda>p. p\<lparr>lp_pending_halt_actions := Some
                   \<lparr>pa_state = state, pa_next_retry_at_unix_nanos = clock,
                    pa_retry_deadline_unix_nanos = add_millis clock (lc_action_retry_timeout_ms (lp_config p))\<rparr>\<rparr>))
             (act_then (persist_runtime_snapshot_or_fail_closed E)
             (act_return state)))
           (\<lambda>_. record_halt_actions_recorded E state)
       else act_return state))"

definition seed_from_store :: "('d, 'c, 'm) loss_env \<Rightarrow> u64 \<Rightarrow> ('d, 'c, KillSwitchState) loss_act" where
  "seed_from_store E clock =
     act_bind act_get (\<lambda>p.
     act_bind (act_map_err RecoveryLoadFailed (act_lift (store_load E (lp_store p)))) (\<lambda>record.
       let state = recovered_state (recovery_state record) in
       act_then (act_modify (\<lambda>p. p\<lparr>lp_state := state\<rparr>))
         (if state = Armed
          then
            (case loss_protection record of
               None \<Rightarrow>
                 let failed = fail_closed_recovery_state MissingLossProtectionSnapshot (Some state) in
                 act_then (enter_state failed)
                (act_then (persist_failed_state_or_invalidate E failed)
                (act_return failed))
             | Some snapshot \<Rightarrow>
                 act_then (apply_loss_snapshot E snapshot)
                (act_bind act_get (\<lambda>p.
                   if realized_loss_breached E p
                   then
                     act_bind (halt_for_realized_loss_breach E RECOVERY_LOSS_TRIGGER_SOURCE clock) (\<lambda>latched.
                       case latched of
                         None \<Rightarrow> act_fail RecoveredBreachNotLatched
                       | Some latched_state \<Rightarrow> resume_halt_actions E clock latched_state)
                   else resume_halt_actions E clock state)))
          else
            act_then (case loss_protection record of None \<Rightarrow> act_return () | Some snapshot \<Rightarrow> apply_loss_snapshot E snapshot)
              (resume_halt_actions E clock state))))"

definition seed_admission_from_kill_switch_store :: "('d, 'c, 'm) loss_env \<Rightarrow> loss_store \<Rightarrow> KillSwitchState \<Rightarrow>
    (LossProtectionError + KillSwitchState) \<times> KillSwitchState" where
  "seed_admission_from_kill_switch_store E store admission =
     (case map_sum RecoveryLoadFailed recovery_state (store_load E store) of
        Inl e \<Rightarrow> (Inl e, admission)
      | Inr recovery \<Rightarrow> (Inr (recovered_state recovery), recovered_state recovery))"

end
