(* ===== verification/LossProtectionSafety.thy ===== *)
theory LossProtectionSafety
  imports LossProtection
begin

text \<open>
  Safety of the realized-loss protection under every failure of the store and of the action sink:
  halts are latched and mirrored in the admission, and an armed protection is never past its limit.
\<close>

section \<open>What the methods change\<close>

declare sum.case_cong [cong]

lemma wp_store_write:
  "(\<And>r st. Q r (p\<lparr>lp_store := st\<rparr>)) \<Longrightarrow> wp (store_write E state loss) Q p"
  by (auto simp: wp_def store_write_def split: prod.splits)

lemma wp_persist_failed:
  "(\<And>r st. Q r (p\<lparr>lp_store := st\<rparr>)) \<Longrightarrow> wp (persist_failed_state_or_invalidate E failed) Q p"
  by (auto simp: wp_def persist_failed_state_or_invalidate_def act_match_def act_map_err_def act_fail_def act_return_def
      store_write_def store_invalidate_def split: prod.splits option.splits sum.splits)

lemma wp_sink_emit:
  "(\<And>r sink. Q r (p\<lparr>lp_action_sink := sink\<rparr>)) \<Longrightarrow> wp (sink_emit action) Q p"
  by (auto simp: wp_def sink_emit_def Let_def)

lemma wp_emit_halt_actions:
  assumes "\<And>r sink. Q r (p\<lparr>lp_action_sink := sink\<rparr>)"
  shows "wp (emit_halt_actions state) Q p"
proof (cases "halt_id_of state")
  case None
  then show ?thesis using assms [of "Inr ()" "lp_action_sink p"] by (simp add: emit_halt_actions_def)
next
  case (Some h)
  then show ?thesis using assms by (simp add: emit_halt_actions_def wp_sink_emit)
qed

abbreviation failed_from :: "('d, 'c) KillSwitchLossProtection \<Rightarrow> string \<Rightarrow> KillSwitchState" where
  "failed_from p reason \<equiv> FailedManualIntervention (halt_id_or_recovery (lp_state p)) reason"

lemma wp_fail_closed_with:
  assumes "\<And>e st. Q (Inl e) (p\<lparr>lp_admission := failed_from p reason, lp_state := failed_from p reason, lp_store := st\<rparr>)"
  shows "wp (fail_closed_with E reason) Q p"
  unfolding fail_closed_with_def Let_def enter_state_def
  by (simp, rule wp_persist_failed) (auto simp: assms split: sum.split)

lemma wp_persist_runtime:
  assumes "\<And>st. Q (Inr ()) (p\<lparr>lp_store := st\<rparr>)"
    and "\<And>e st reason. Q (Inl e) (p\<lparr>lp_pending_halt_actions := None, lp_admission := failed_from p reason,
                                    lp_state := failed_from p reason, lp_store := st\<rparr>)"
  shows "wp (persist_runtime_snapshot_or_fail_closed E) Q p"
proof -
  have "wp (fail_closed_with E reason) Q (p\<lparr>lp_store := st, lp_pending_halt_actions := None\<rparr>)" for reason st
    by (rule wp_fail_closed_with) (use assms(2) in simp)
  then show ?thesis unfolding persist_runtime_snapshot_or_fail_closed_def
    by (simp, intro wp_store_write) (auto simp: assms(1) split: sum.split)
qed

section \<open>The latch\<close>

text \<open>
  Pending actions of a halting state are those of the current halt, and the halt \<open>H\<close> that was
  there before, if any, is the current one.
\<close>

definition tied :: "string option \<Rightarrow> PendingHaltActions option \<Rightarrow> KillSwitchState \<Rightarrow> bool" where
  "tied H pending state \<longleftrightarrow>
     (\<forall>a. pending = Some a \<longrightarrow> is_halting (pa_state a) \<longrightarrow> halt_id_of (pa_state a) = halt_id_of state) \<and>
     (H \<noteq> None \<longrightarrow> halt_id_of state = H)"

definition latched :: "('d, 'c, 'm) loss_env \<Rightarrow> string option \<Rightarrow> ('d, 'c) KillSwitchLossProtection \<Rightarrow> bool" where
  "latched E H p \<longleftrightarrow>
     tied H (lp_pending_halt_actions p) (lp_state p) \<and> lp_admission p = lp_state p \<and>
     (lp_state p = Armed \<longrightarrow> \<not> realized_loss_breached E p)"

lemma is_halting_iff: "is_halting s \<longleftrightarrow> (\<exists>h t. s = Halting h t)"
  by (cases s) simp_all

lemma halt_id_of_None: "halt_id_of s = None \<longleftrightarrow> s = Armed"
  by (cases s) simp_all

lemma tied_failed: "tied H pending state \<Longrightarrow> tied H pending (FailedManualIntervention (halt_id_or_recovery state) reason)"
  by (auto simp: tied_def is_halting_iff halt_id_or_recovery_def split: option.splits)

lemma tied_None: "tied H pending state \<Longrightarrow> tied H None state"
  by (simp add: tied_def)

lemma fail_closed_latched:
  "tied H (lp_pending_halt_actions p) (lp_state p) \<Longrightarrow> wp (fail_closed_with E reason) (\<lambda>_. latched E H) p"
  by (rule wp_fail_closed_with) (simp add: latched_def tied_failed)

lemma persist_runtime_latched:
  "latched E H p \<Longrightarrow> wp (persist_runtime_snapshot_or_fail_closed E) (\<lambda>_. latched E H) p"
  by (rule wp_persist_runtime)
    (simp_all add: latched_def realized_loss_breached_def tied_failed tied_None [of H "lp_pending_halt_actions p"])

lemma emit_latched: "latched E H p \<Longrightarrow> wp (emit_halt_actions state) (\<lambda>_. latched E H) p"
  by (rule wp_emit_halt_actions) (simp add: latched_def realized_loss_breached_def)

lemma recorded_transition:
  "transition_kill_switch_state sha state DurableHaltEvidenceRecorded
     (inert_transition_context\<lparr>state_write_succeeded := True, durable_halt_evidence_recorded := True\<rparr>) = Inr s' \<longleftrightarrow>
   (\<exists>h t. state = Halting h t \<and> s' = Halted h t)"
  by (cases state) (auto simp: transition_defs)

lemma dispatch_failed_transition:
  "transition_kill_switch_state sha state (HaltActionDispatchFailed reason) ctx = Inr s' \<longleftrightarrow>
   (\<exists>h t. state = Halting h t \<and> s' = FailedManualIntervention h reason)"
  by (cases state) (auto simp: transition_defs)

lemma record_halt_actions_latched:
  assumes "latched E H p" and "is_halting state \<Longrightarrow> halt_id_of state = halt_id_of (lp_state p)"
  shows "wp (record_halt_actions_recorded E state) (\<lambda>_. latched E H) p"
proof -
  have "wp (persist_runtime_snapshot_or_fail_closed E) (\<lambda>_. latched E H)
      (p\<lparr>lp_pending_halt_actions := None, lp_admission := Halted h t, lp_state := Halted h t\<rparr>)"
    if "state = Halting h t" for h t
    using assms that by (intro persist_runtime_latched) (simp add: latched_def tied_def)
  then show ?thesis using assms(1)
    by (auto simp: record_halt_actions_recorded_def loss_transition_def recorded_transition enter_state_def
        split: sum.split elim!: wp_mono)
qed

lemma fail_halt_actions_latched:
  assumes "latched E H p" and "is_halting state \<Longrightarrow> halt_id_of state = halt_id_of (lp_state p)"
  shows "wp (fail_halt_actions E state reason) (\<lambda>_. latched E H) p"
proof -
  have "wp (persist_failed_state_or_invalidate E failed) (\<lambda>_. latched E H) (p\<lparr>lp_admission := failed, lp_state := failed\<rparr>)"
    if "state = Halting h t" "failed = FailedManualIntervention h reason" for h t failed
    using assms that by (intro wp_persist_failed) (auto simp: latched_def tied_def)
  then show ?thesis using assms(1)
    by (auto simp: fail_halt_actions_def loss_transition_def dispatch_failed_transition enter_state_def
        split: sum.split elim!: wp_mono)
qed

lemma latched_pending_None: "latched E H p \<Longrightarrow> latched E H (p\<lparr>lp_pending_halt_actions := None\<rparr>)"
  by (simp add: latched_def realized_loss_breached_def tied_None [of H "lp_pending_halt_actions p"])

lemma poll_latched:
  assumes "latched E H p"
  shows "wp (poll_pending_halt_actions E observed_at) (\<lambda>_. latched E H) p"
proof (cases "lp_pending_halt_actions p")
  case (Some pending)
  then have ids: "is_halting (pa_state pending) \<Longrightarrow> halt_id_of (pa_state pending) = halt_id_of (lp_state p)"
    using assms by (simp add: latched_def tied_def)
  have retry: "wp (persist_runtime_snapshot_or_fail_closed E) (\<lambda>_. latched E H)
      (p\<lparr>lp_action_sink := sink, lp_pending_halt_actions := Some
          \<lparr>pa_state = pa_state pending, pa_next_retry_at_unix_nanos = next_retry, pa_retry_deadline_unix_nanos = deadline\<rparr>\<rparr>)"
    for sink next_retry deadline
    using assms ids by (intro persist_runtime_latched) (simp add: latched_def tied_def realized_loss_breached_def)
  have recorded: "wp (record_halt_actions_recorded E (pa_state pending)) (\<lambda>_. latched E H) (p\<lparr>lp_action_sink := sink\<rparr>)" for sink
    using assms ids by (intro record_halt_actions_latched) (auto simp: latched_def realized_loss_breached_def)
  have fails: "wp (fail_halt_actions E (pa_state pending) reason) (\<lambda>_. latched E H) p" for reason
    using assms ids by (rule fail_halt_actions_latched)
  consider "observed_at < pa_next_retry_at_unix_nanos pending"
    | "\<not> observed_at < pa_next_retry_at_unix_nanos pending" "pa_retry_deadline_unix_nanos pending < observed_at"
    | "\<not> observed_at < pa_next_retry_at_unix_nanos pending" "\<not> pa_retry_deadline_unix_nanos pending < observed_at" by blast
  then show ?thesis
  proof cases
    case 2
    then show ?thesis using Some
      by (simp add: poll_pending_halt_actions_def, intro wp_mono [OF fails])
        (auto simp: latched_pending_None split: sum.split)
  next
    case 3
    then show ?thesis using Some retry recorded
      apply (simp add: poll_pending_halt_actions_def)
      apply (intro wp_emit_halt_actions)
      subgoal for r sink by (cases r) simp_all
      done
  qed (use assms Some in \<open>simp add: poll_pending_halt_actions_def\<close>)
qed (use assms in \<open>simp add: poll_pending_halt_actions_def\<close>)

lemma halt_latched:
  assumes "tied H (lp_pending_halt_actions p) Armed" and "lp_state p = Armed"
  shows "wp (halt_for_realized_loss_breach E source observed_at) (\<lambda>_. latched E H) p"
proof -
  let ?trigger = "loss_governor_breach_with_reason source observed_at LOSS_TRIGGER_REASON DailyLossLimit"
  let ?h = "halt_id_for_trigger (env_sha256_hex E) ?trigger"
  let ?halting = "Halting ?h ?trigger"
  have H: "H = None" "\<And>a. lp_pending_halt_actions p = Some a \<Longrightarrow> \<not> is_halting (pa_state a)"
    using assms(1) by (auto simp: tied_def is_halting_iff)
  have failed: "wp (persist_failed_state_or_invalidate E (FailedManualIntervention ?h reason)) (\<lambda>_. latched E H)
      (p\<lparr>lp_store := st, lp_admission := FailedManualIntervention ?h reason, lp_state := FailedManualIntervention ?h reason\<rparr>)"
    for st reason
    using H by (intro wp_persist_failed) (auto simp: latched_def tied_def)
  have pending: "wp (persist_runtime_snapshot_or_fail_closed E) (\<lambda>_. latched E H)
      (p\<lparr>lp_store := st, lp_admission := ?halting, lp_state := ?halting, lp_action_sink := sink,
         lp_pending_halt_actions := Some \<lparr>pa_state = ?halting, pa_next_retry_at_unix_nanos = next_retry,
           pa_retry_deadline_unix_nanos = deadline\<rparr>\<rparr>)" for st sink next_retry deadline
    using H by (intro persist_runtime_latched) (simp add: latched_def tied_def)
  have recorded: "wp (record_halt_actions_recorded E ?halting) (\<lambda>_. latched E H)
      (p\<lparr>lp_store := st, lp_admission := ?halting, lp_state := ?halting, lp_action_sink := sink\<rparr>)" for st sink
    using H by (intro record_halt_actions_latched) (auto simp: latched_def tied_def)
  have emitted: "wp (emit_halt_actions ?halting)
      (\<lambda>r s. case r of
         Inl e \<Rightarrow> wp (persist_runtime_snapshot_or_fail_closed E) (\<lambda>_. latched E H)
           (s\<lparr>lp_pending_halt_actions := Some \<lparr>pa_state = ?halting,
               pa_next_retry_at_unix_nanos = add_millis observed_at (lc_action_retry_interval_ms (lp_config s)),
               pa_retry_deadline_unix_nanos = add_millis observed_at (lc_action_retry_timeout_ms (lp_config s))\<rparr>\<rparr>)
       | Inr x \<Rightarrow> wp (record_halt_actions_recorded E ?halting) (\<lambda>_. latched E H) s)
      (p\<lparr>lp_store := st, lp_admission := ?halting, lp_state := ?halting\<rparr>)" for st
    apply (rule wp_emit_halt_actions)
    subgoal for r sink using pending [where st = st and sink = sink] recorded [where st = st and sink = sink] by (cases r) simp_all
    done
  show ?thesis
    apply (simp add: halt_for_realized_loss_breach_def loss_transition_def transition_kill_switch_state_def enter_state_def Let_def)
    apply (rule wp_store_write)
    subgoal for r st using failed [where st = st] emitted [where st = st] by (cases r) simp_all
    done
qed

lemma record_current_latched:
  assumes "tied H (lp_pending_halt_actions p) Armed" and "lp_state p = Armed" and "lp_admission p = Armed"
  shows "wp (record_current_bucket_realized_pnl E observation) (\<lambda>_. latched E H) p"
proof -
  have "wp (persist_runtime_snapshot_or_fail_closed E) (\<lambda>_. latched E H) (p\<lparr>lp_daily_realized_pnl := total\<rparr>)"
    if "\<not> realized_loss_breached E (p\<lparr>lp_daily_realized_pnl := total\<rparr>)" for total
    using assms that by (intro persist_runtime_latched) (simp add: latched_def)
  moreover have "wp (halt_for_realized_loss_breach E source t) (\<lambda>_. latched E H) (p\<lparr>lp_daily_realized_pnl := total\<rparr>)"
    for source t total
    using assms by (intro halt_latched) simp_all
  ultimately show ?thesis by (simp add: record_current_bucket_realized_pnl_def)
qed

text \<open>Steps of an armed protection that leave it armed unless they fail.\<close>

abbreviation armed_step :: "('d, 'c, 'm) loss_env \<Rightarrow> string option \<Rightarrow> LossProtectionError + 'a \<Rightarrow> ('d, 'c) KillSwitchLossProtection \<Rightarrow> bool" where
  "armed_step E H r p \<equiv> latched E H p \<and> (is_ok r \<longrightarrow> lp_state p = Armed)"

definition zero_is_no_loss :: "'d decimal_ops \<Rightarrow> bool" where
  "zero_is_no_loss D \<longleftrightarrow> \<not> dec_lt D (dec_zero D) (dec_zero D)"

lemma accept_armed:
  "zero_is_no_loss (env_decimal E) \<Longrightarrow> latched E H p \<Longrightarrow> lp_state p = Armed \<Longrightarrow>
     wp (accept_observation_bucket E t) (armed_step E H) p"
  by (auto simp: accept_observation_bucket_def Let_def latched_def realized_loss_breached_def zero_is_no_loss_def
      prune_completed_position_snapshots_before_bucket_def split: option.split)

lemma fail_closed_armed:
  "latched E H p \<Longrightarrow> wp (fail_closed_with E reason) (armed_step E H) p"
  by (rule wp_fail_closed_with) (simp add: latched_def tied_failed)

lemma guard_armed:
  "latched E H p \<Longrightarrow> lp_state p = Armed \<Longrightarrow> wp (guard_settlement_currency E currency) (armed_step E H) p"
  by (simp add: guard_settlement_currency_def fail_closed_armed split: option.split)
    (simp add: latched_def realized_loss_breached_def)

lemma persist_runtime_armed:
  assumes "latched E H p" and "lp_state p = Armed"
  shows "wp (persist_runtime_snapshot_or_fail_closed E) (armed_step E H) p"
  using assms by (intro wp_persist_runtime)
    (simp_all add: latched_def realized_loss_breached_def tied_failed [of H None Armed] tied_None [of H "lp_pending_halt_actions p"])

lemma closed_armed:
  "latched E H p \<Longrightarrow> lp_state p = Armed \<Longrightarrow> wp (record_closed_position_observation E observation) (armed_step E H) p"
  by (auto simp: record_closed_position_observation_def Let_def change_since_def latched_def realized_loss_breached_def
      split: option.split sum.splits intro!: wp_mono [OF persist_runtime_armed [where H = H]])

lemma cumulative_armed:
  "latched E H p \<Longrightarrow> lp_state p = Armed \<Longrightarrow> wp (record_cumulative_position_observation E observation) (armed_step E H) p"
  using closed_armed [of E H p observation]
  by (simp add: record_cumulative_position_observation_def Let_def change_since_def latched_def realized_loss_breached_def
      split: option.split)

lemma adjusted_armed:
  "latched E H p \<Longrightarrow> lp_state p = Armed \<Longrightarrow> wp (is_duplicate_adjusted_position_observation E observation) (armed_step E H) p"
  by (simp add: is_duplicate_adjusted_position_observation_def fail_closed_armed split: option.split)
    (simp add: latched_def realized_loss_breached_def)

lemma record_armed:
  "latched E H p \<Longrightarrow> lp_state p = Armed \<Longrightarrow> wp (record_current_bucket_realized_pnl E observation) (\<lambda>_. latched E H) p"
  by (rule record_current_latched) (simp_all add: latched_def)

text \<open>The calls of the running system.\<close>

datatype ('d, 'c, 'm) loss_call =
    PositionEventCall "'m PositionEvent"
  | PositionPnlCall "('d, 'c) PositionRealizedPnlObservation"
  | RealizedPnlCall "('d, 'c) RealizedPnlObservation"
  | PollCall u64

fun do_loss_call :: "('d, 'c, 'm) loss_env \<Rightarrow> ('d, 'c, 'm) loss_call \<Rightarrow> ('d, 'c, unit) loss_act" where
  "do_loss_call E (PositionEventCall event) = act_bind (record_position_event E event) (\<lambda>_. act_return ())"
| "do_loss_call E (PositionPnlCall observation) = act_bind (record_position_realized_pnl E observation) (\<lambda>_. act_return ())"
| "do_loss_call E (RealizedPnlCall observation) = act_bind (record_realized_pnl E observation) (\<lambda>_. act_return ())"
| "do_loss_call E (PollCall t) = poll_pending_halt_actions E t"

lemma record_realized_latched:
  assumes "zero_is_no_loss (env_decimal E)" and "latched E H p"
  shows "wp (record_realized_pnl E observation) (\<lambda>_. latched E H) p"
proof (cases "lp_state p = Armed")
  case True
  have rest: "wp (guard_settlement_currency E c)
      (\<lambda>r s. case r of Inl e \<Rightarrow> latched E H s | Inr x \<Rightarrow> wp (record_current_bucket_realized_pnl E observation) (\<lambda>_. latched E H) s) p'"
    if "latched E H p'" "lp_state p' = Armed" for c p'
    by (rule wp_mono [OF guard_armed [OF that]]) (auto simp: record_armed split: sum.split)
  show ?thesis using True assms
    by (simp add: record_realized_pnl_def, intro wp_mono [OF accept_armed [where H = H]]) (auto simp: rest split: sum.split)
qed (use assms poll_latched in \<open>simp add: record_realized_pnl_def\<close>)

lemma count_armed:
  assumes "latched E H p" and "lp_state p = Armed"
  shows "wp (count_position_observation E observation) (\<lambda>_. latched E H) p"
  using wp_mono [OF cumulative_armed [OF assms]] wp_mono [OF adjusted_armed [OF assms]]
  by (auto simp: count_position_observation_def record_armed split: sum.split option.split)

lemma record_position_latched:
  assumes "zero_is_no_loss (env_decimal E)" and "latched E H p"
  shows "wp (record_position_realized_pnl E observation) (\<lambda>_. latched E H) p"
proof (cases "in_loss_scope (lp_config p) observation \<and> lp_state p = Armed")
  case True
  have rest: "wp (guard_settlement_currency E c)
      (\<lambda>r s. case r of Inl e \<Rightarrow> latched E H s | Inr x \<Rightarrow> wp (count_position_observation E observation) (\<lambda>_. latched E H) s) p'"
    if "latched E H p'" "lp_state p' = Armed" for c p'
    by (rule wp_mono [OF guard_armed [OF that]]) (auto simp: count_armed split: sum.split)
  show ?thesis using True assms
    by (simp add: record_position_realized_pnl_def, intro wp_mono [OF accept_armed [where H = H]]) (auto simp: rest split: sum.split)
qed (use assms poll_latched in \<open>auto simp: record_position_realized_pnl_def\<close>)

lemma loss_call_latched:
  assumes "zero_is_no_loss (env_decimal E)" and "latched E H p"
  shows "wp (do_loss_call E c) (\<lambda>_. latched E H) p"
proof (cases c)
  case (PositionEventCall event)
  then show ?thesis using record_position_latched [OF assms] assms(2)
    by (simp add: record_position_event_def split: option.split)
qed (simp_all add: record_position_latched record_realized_latched poll_latched assms)

section \<open>Recovery\<close>

lemma persist_runtime_keeps_state:
  "wp (persist_runtime_snapshot_or_fail_closed E) (\<lambda>r q. r = Inr () \<longrightarrow> lp_state q = lp_state p) p"
  by (rule wp_persist_runtime) simp_all

lemma record_halt_actions_returns_state:
  "wp (record_halt_actions_recorded E state) (\<lambda>r q. case r of Inl e \<Rightarrow> True | Inr s \<Rightarrow> lp_state q = s) p"
proof -
  have "wp (persist_runtime_snapshot_or_fail_closed E) (\<lambda>r q. case r of Inl e \<Rightarrow> True | Inr x \<Rightarrow> lp_state q = s)
      (p\<lparr>lp_pending_halt_actions := None, lp_admission := s, lp_state := s\<rparr>)" for s
    by (rule wp_mono [OF persist_runtime_keeps_state]) (auto split: sum.split)
  then show ?thesis
    by (simp add: record_halt_actions_recorded_def loss_transition_def enter_state_def split: sum.split)
qed

lemma halt_returns_state:
  "wp (halt_for_realized_loss_breach E source t) (\<lambda>r q. case r of Inl e \<Rightarrow> True | Inr s \<Rightarrow> s = Some (lp_state q)) p"
proof -
  have "wp (record_halt_actions_recorded E state) (\<lambda>r q. case r of Inl e \<Rightarrow> True | Inr x \<Rightarrow> x = lp_state q) q" for state q
    by (rule wp_mono [OF record_halt_actions_returns_state]) (auto split: sum.split)
  then show ?thesis
    by (simp add: halt_for_realized_loss_breach_def loss_transition_def transition_kill_switch_state_def enter_state_def Let_def)
qed

lemma resume_latched:
  assumes "\<And>a. lp_pending_halt_actions p = Some a \<Longrightarrow> is_halting (pa_state a) \<Longrightarrow> halt_id_of (pa_state a) = halt_id_of state"
    and "state = Armed \<Longrightarrow> \<not> realized_loss_breached E p"
  shows "wp (resume_halt_actions E clock state) (\<lambda>_. latched E None) p"
proof -
  have base: "latched E None (p\<lparr>lp_admission := state, lp_state := state\<rparr>)"
    using assms by (auto simp: latched_def tied_def realized_loss_breached_def)
  have pending: "wp (persist_runtime_snapshot_or_fail_closed E) (\<lambda>_. latched E None)
      (p\<lparr>lp_admission := state, lp_state := state, lp_action_sink := sink, lp_pending_halt_actions := Some
          \<lparr>pa_state = state, pa_next_retry_at_unix_nanos = clock, pa_retry_deadline_unix_nanos = deadline\<rparr>\<rparr>)" for sink deadline
    using assms by (intro persist_runtime_latched) (auto simp: latched_def tied_def realized_loss_breached_def)
  have recorded: "wp (record_halt_actions_recorded E state) (\<lambda>_. latched E None)
      (p\<lparr>lp_admission := state, lp_state := state, lp_action_sink := sink\<rparr>)" for sink
    using base by (intro record_halt_actions_latched) (auto simp: latched_def tied_def realized_loss_breached_def)
  have emitted: "wp (emit_halt_actions state)
      (\<lambda>r s. case r of
         Inl e \<Rightarrow> wp (persist_runtime_snapshot_or_fail_closed E) (\<lambda>_. latched E None)
           (s\<lparr>lp_pending_halt_actions := Some \<lparr>pa_state = state, pa_next_retry_at_unix_nanos = clock,
               pa_retry_deadline_unix_nanos = add_millis clock (lc_action_retry_timeout_ms (lp_config s))\<rparr>\<rparr>)
       | Inr x \<Rightarrow> wp (record_halt_actions_recorded E state) (\<lambda>_. latched E None) s)
      (p\<lparr>lp_admission := state, lp_state := state\<rparr>)"
    apply (rule wp_emit_halt_actions)
    subgoal for r sink using pending [where sink = sink] recorded [where sink = sink] by (cases r) simp_all
    done
  show ?thesis using base emitted by (simp add: resume_halt_actions_def enter_state_def)
qed

lemma apply_snapshot_pending:
  "wp (apply_loss_snapshot E snapshot) (\<lambda>r q. r = Inr () \<and> lp_state q = lp_state p \<and>
     (\<forall>a. lp_pending_halt_actions q = Some a \<longrightarrow> pa_state a = lp_state p)) p"
  by (auto simp: apply_loss_snapshot_def split: option.split)

lemma seed_latched:
  "wp (seed_from_store E clock) (\<lambda>r q. (\<exists>e. r = Inl (RecoveryLoadFailed e)) \<or> latched E None q)
     (KillSwitchLossProtection_new E config admission store sink)"
proof (cases "store_load E store")
  case (Inl e)
  then show ?thesis by (simp add: seed_from_store_def KillSwitchLossProtection_new_def)
next
  case (Inr r)
  define new where "new = KillSwitchLossProtection_new E config admission store sink"
  have new: "lp_store new = store" "lp_pending_halt_actions new = None" by (simp_all add: new_def KillSwitchLossProtection_new_def)
  let ?state = "recovered_state (recovery_state r)"
  let ?seeded = "new\<lparr>lp_state := ?state\<rparr>"
  have resumed: "wp (resume_halt_actions E clock ?state) (\<lambda>_. latched E None) q"
    if "\<And>a. lp_pending_halt_actions q = Some a \<Longrightarrow> pa_state a = ?state" "?state = Armed \<Longrightarrow> \<not> realized_loss_breached E q" for q
    using that by (intro resume_latched) auto
  have halted: "wp (halt_for_realized_loss_breach E RECOVERY_LOSS_TRIGGER_SOURCE clock)
      (\<lambda>r q. case r of
         Inl e \<Rightarrow> latched E None q
       | Inr x \<Rightarrow> wp (case x of None \<Rightarrow> act_fail RecoveredBreachNotLatched | Some s \<Rightarrow> resume_halt_actions E clock s)
                   (\<lambda>_. latched E None) q) q"
    if "\<And>a. lp_pending_halt_actions q = Some a \<Longrightarrow> pa_state a = Armed" "lp_state q = Armed" for q
  proof (rule wp_mono [OF wp_conj [OF halt_latched [where H = None] halt_returns_state]])
    fix r' q'
    assume post: "latched E None q' \<and> (case r' of Inl e \<Rightarrow> True | Inr s \<Rightarrow> s = Some (lp_state q'))"
    then have "wp (resume_halt_actions E clock (lp_state q')) (\<lambda>_. latched E None) q'"
      by (intro resume_latched) (auto simp: latched_def tied_def)
    with post show "case r' of Inl e \<Rightarrow> latched E None q'
      | Inr x \<Rightarrow> wp (case x of None \<Rightarrow> act_fail RecoveredBreachNotLatched | Some s \<Rightarrow> resume_halt_actions E clock s)
                   (\<lambda>_. latched E None) q'"
      by (cases r') simp_all
  qed (use that in \<open>auto simp: tied_def\<close>)
  have applied: "wp (apply_loss_snapshot E snapshot) (\<lambda>r q. case r of Inl e \<Rightarrow> P q | Inr x \<Rightarrow> R q) ?seeded"
    if "\<And>q. lp_state q = ?state \<Longrightarrow> (\<And>a. lp_pending_halt_actions q = Some a \<Longrightarrow> pa_state a = ?state) \<Longrightarrow> R q"
    for snapshot P R
    by (rule wp_mono [OF apply_snapshot_pending]) (auto intro: that split: sum.split)
  have missing: "wp (persist_failed_state_or_invalidate E failed) (\<lambda>_. latched E None)
      (new\<lparr>lp_admission := failed, lp_state := failed\<rparr>)" if "failed \<noteq> Armed" for failed
    using that new by (intro wp_persist_failed) (simp add: latched_def tied_def)
  have "wp (seed_from_store E clock) (\<lambda>_. latched E None) new"
  proof (cases "?state = Armed")
    case True
    show ?thesis
    proof (cases "loss_protection r")
      case None
      then show ?thesis using True Inr new missing [of "fail_closed_recovery_state MissingLossProtectionSnapshot (Some Armed)"]
        by (simp add: seed_from_store_def Let_def enter_state_def fail_closed_recovery_state_def)
    next
      case (Some snapshot)
      then have "wp (seed_from_store E clock) (\<lambda>_. latched E None) new \<longleftrightarrow>
          wp (apply_loss_snapshot E snapshot)
            (\<lambda>r q. case r of Inl e \<Rightarrow> latched E None q
             | Inr x \<Rightarrow> wp (if realized_loss_breached E q
                 then act_bind (halt_for_realized_loss_breach E RECOVERY_LOSS_TRIGGER_SOURCE clock) (\<lambda>latched.
                   case latched of None \<Rightarrow> act_fail RecoveredBreachNotLatched | Some s \<Rightarrow> resume_halt_actions E clock s)
                 else resume_halt_actions E clock Armed) (\<lambda>_. latched E None) q) ?seeded"
        using True Inr new by (simp add: seed_from_store_def Let_def del: if_split)
      also have "\<dots>" using True halted resumed by (intro applied) simp
      finally show ?thesis .
    qed
  next
    case False
    have "wp (apply_loss_snapshot E snapshot)
        (\<lambda>r q. case r of Inl e \<Rightarrow> latched E None q | Inr x \<Rightarrow> wp (resume_halt_actions E clock ?state) (\<lambda>_. latched E None) q) ?seeded"
      for snapshot
      using False resumed by (intro applied) auto
    moreover have "wp (resume_halt_actions E clock ?state) (\<lambda>_. latched E None) ?seeded"
      using False new by (intro resumed) simp_all
    ultimately show ?thesis using False Inr new
      by (simp add: seed_from_store_def Let_def split: option.split)
  qed
  then show ?thesis unfolding new_def by (rule wp_mono) simp
qed

section \<open>Runs\<close>

text \<open>From here on methods are evaluated: the branch of a result is simplified once the result is known.\<close>

declare sum.case_cong_weak [cong]

text \<open>The calls of a run in order, errors included; a panic ends the process.\<close>

fun loss_run :: "('d, 'c, 'm) loss_env \<Rightarrow> ('d, 'c, 'm) loss_call list \<Rightarrow> ('d, 'c) KillSwitchLossProtection \<Rightarrow>
    ('d, 'c) KillSwitchLossProtection option" where
  "loss_run E [] p = Some p"
| "loss_run E (c # cs) p =
     (case do_loss_call E c p of
        None \<Rightarrow> None
      | Some (_, p') \<Rightarrow> loss_run E cs p')"

lemma loss_run_latched:
  assumes "zero_is_no_loss (env_decimal E)"
  shows "latched E H p \<Longrightarrow> loss_run E cs p = Some q \<Longrightarrow> latched E H q"
proof (induction cs arbitrary: p)
  case (Cons c cs)
  then obtain r p' where step: "do_loss_call E c p = Some (r, p')" "loss_run E cs p' = Some q"
    by (auto split: option.splits)
  have "latched E H p'" using wpD [OF loss_call_latched [OF assms Cons.prems(1)] step(1)] .
  then show ?case using Cons.IH step(2) by blast
qed simp

lemma latched_from: "latched E H p \<Longrightarrow> latched E (halt_id_of (lp_state p)) p"
  by (simp add: latched_def tied_def)

text \<open>
  C25. The realized-loss latch. However the store and the action sink fail, in every state that the
  protection reaches after recovery the submit admission holds the protection's state, an armed
  protection has not reached its daily loss limit, and once it is not armed it never is again and
  keeps the identity of its halt.
\<close>

theorem loss_halt_is_latched:
  assumes "zero_is_no_loss (env_decimal E)"
    and "seed_from_store E clock (KillSwitchLossProtection_new E config admission store sink) = Some (r, p0)"
    and "\<And>e. r \<noteq> Inl (RecoveryLoadFailed e)"
    and "loss_run E calls p0 = Some p" and "loss_run E later p = Some q"
  shows "lp_admission q = lp_state q \<and> (lp_state q = Armed \<longrightarrow> \<not> realized_loss_breached E q) \<and>
    (lp_state p \<noteq> Armed \<longrightarrow> lp_state q \<noteq> Armed \<and> halt_id_of (lp_state q) = halt_id_of (lp_state p))"
proof -
  have "latched E None p0" using wpD [OF seed_latched assms(2)] assms(3) by blast
  then have "latched E None p" using loss_run_latched [OF assms(1) _ assms(4)] by blast
  then have "latched E (halt_id_of (lp_state p)) q" using loss_run_latched [OF assms(1) latched_from assms(5)] by blast
  then show ?thesis using halt_id_of_None [of "lp_state p"] by (auto simp: latched_def tied_def)
qed

definition demo_money :: "(string, string \<times> int, int) money_ops" where
  "demo_money = \<lparr>cur_code = id, cur_eq = (=), cur_from_str = (\<lambda>c. if c = ''USD'' then Some c else None), money_currency = fst,
     money_as_decimal = snd\<rparr>"

definition demo_env :: "(int, string, string \<times> int) loss_env" where
  "demo_env = \<lparr>env_serde = demo_serde, env_decimal = whole_ops, env_money = demo_money, env_sha256_hex = id, env_store_error = (\<lambda>_. ''e'')\<rparr>"

definition demo_loss_config :: "int KillSwitchLossProtectionConfig" where
  "demo_loss_config = \<lparr>lc_max_utc_daily_realized_loss = 5, lc_action_retry_interval_ms = 1, lc_action_retry_timeout_ms = 9,
     lc_account_ids = [''a''], lc_instrument_ids = [''i'']\<rparr>"

definition demo_store :: loss_store where
  "demo_store = \<lparr>st_max_state_file_bytes = 9, st_readable = True, st_file = Some (''x'' @ [CHR 0x0A]), st_writes = (\<lambda>_. WriteOk)\<rparr>"

definition demo_sink :: loss_sink where
  "demo_sink = \<lparr>sk_accepts = (\<lambda>_. True), sk_emitted = []\<rparr>"

definition demo_protection :: "(int, string) KillSwitchLossProtection" where
  "demo_protection = KillSwitchLossProtection_new demo_env demo_loss_config Armed demo_store demo_sink"

definition demo_loss :: "(int, string) RealizedPnlObservation" where
  "demo_loss = \<lparr>ro_source = ''s'', ro_observed_at_unix_nanos = 7, ro_realized_pnl = - 5, ro_settlement_currency = ''USD''\<rparr>"

lemma demo_zero: "zero_is_no_loss (env_decimal demo_env)"
  by (simp add: zero_is_no_loss_def demo_env_def whole_ops_def)

lemma demo_serialize:
  "serialize_state_with_loss_snapshot demo_serde whole_ops Armed (Some (initial_armed_loss_protection_snapshot whole_ops)) =
     Inr (''x'' @ [CHR 0x0A])"
  by (simp add: serialize_state_with_loss_snapshot_def demo_serde_def demo_persisted_def)

lemma demo_load:
  "store_load demo_env demo_store = Inr (loads_as Armed (Some (initial_armed_loss_protection_snapshot whole_ops)))"
  using loads_written [OF demo_serde_reads whole_prints _ demo_serialize, of "env_known demo_env" 9]
  by (simp add: store_load_def demo_env_def demo_store_def demo_snapshot_wf)

lemma demo_not_breached: "lp_daily_realized_pnl p = 0 \<Longrightarrow> \<not> realized_loss_breached demo_env p"
  by (simp add: realized_loss_breached_def demo_env_def whole_ops_def)

lemma demo_dec_zero [simp]: "dec_zero (env_decimal demo_env) = 0" "dec_zero whole_ops = 0"
  by (simp_all add: demo_env_def whole_ops_def)

lemma demo_seed: "seed_from_store demo_env 3 demo_protection = Some (Inr Armed, demo_protection)"
  using demo_load
  by (simp add: seed_from_store_def act_defs loads_as_def Let_def apply_loss_snapshot_def resume_halt_actions_def enter_state_def
      demo_protection_def KillSwitchLossProtection_new_def initial_armed_loss_protection_snapshot_def demo_not_breached)

lemma demo_write_fails:
  "state \<noteq> Armed \<Longrightarrow> store_write demo_env state loss p =
     Some (Inl Serialize, p\<lparr>lp_store := next_write (lp_store p) (st_file (lp_store p))\<rparr>)"
  by (simp add: store_write_def write_state_with_loss_snapshot_def serialize_state_with_loss_snapshot_def demo_env_def
      demo_serde_def demo_persisted_def)

lemma demo_halt:
  "st_writes (lp_store p) = (\<lambda>_. WriteOk) \<Longrightarrow>
   \<exists>e q h reason. halt_for_realized_loss_breach demo_env s t p = Some (Inl e, q) \<and>
     lp_state q = FailedManualIntervention h reason \<and> lp_pending_halt_actions q = lp_pending_halt_actions p"
  by (simp add: halt_for_realized_loss_breach_def loss_transition_def transition_kill_switch_state_def act_defs Let_def
      demo_write_fails enter_state_def persist_failed_state_or_invalidate_def store_invalidate_def next_write_def invalidate_def
      write_atomic_def)

lemma demo_call:
  "\<exists>r q h reason. do_loss_call demo_env (RealizedPnlCall demo_loss) demo_protection = Some (r, q) \<and>
     lp_state q = FailedManualIntervention h reason \<and> lp_pending_halt_actions q = None"
proof -
  let ?p = "demo_protection\<lparr>lp_daily_bucket := Some (bucket_of 7), lp_settlement_currency := Some ''USD'', lp_daily_realized_pnl := - 5\<rparr>"
  have "realized_loss_breached demo_env ?p"
    by (simp add: realized_loss_breached_def demo_env_def whole_ops_def dec_ge_def demo_protection_def
        KillSwitchLossProtection_new_def demo_loss_config_def)
  moreover have "dec_add (env_decimal demo_env) 0 (- 5) = Some (- 5)" by (simp add: demo_env_def whole_ops_def)
  ultimately have "record_realized_pnl demo_env demo_loss demo_protection = halt_for_realized_loss_breach demo_env ''s'' 7 ?p"
    by (simp add: record_realized_pnl_def accept_observation_bucket_def guard_settlement_currency_def
      record_current_bucket_realized_pnl_def act_defs demo_loss_def demo_protection_def KillSwitchLossProtection_new_def Let_def)
  then show ?thesis using demo_halt [of ?p "''s''" 7]
    by (auto simp: act_defs demo_protection_def KillSwitchLossProtection_new_def demo_store_def)
qed

theorem loss_halt_is_latched_witness:
  "\<exists>q. loss_run demo_env [RealizedPnlCall demo_loss, PollCall 9] demo_protection = Some q \<and>
     lp_admission q = lp_state q \<and> lp_state q \<noteq> Armed"
proof -
  obtain r q h reason where q: "do_loss_call demo_env (RealizedPnlCall demo_loss) demo_protection = Some (r, q)"
    "lp_state q = FailedManualIntervention h reason" "lp_pending_halt_actions q = None" using demo_call by blast
  then have run: "loss_run demo_env [PollCall 9] q = Some q"
    by (simp add: poll_pending_halt_actions_def act_defs)
  have "loss_run demo_env [RealizedPnlCall demo_loss] demo_protection = Some q" using q(1) by simp
  from loss_halt_is_latched [OF demo_zero demo_seed [unfolded demo_protection_def] _ this [unfolded demo_protection_def] run] q
  show ?thesis using run by simp
qed

section \<open>A timed-out halt can leave the failed state\<close>

text \<open>
  When the retry of the halt actions times out and neither the failed state nor its invalidation can
  be written, the pending actions stay although the state is failed. A later observation with an
  earlier timestamp then dispatches them and takes the kill switch from the failed state, which asks
  for manual intervention, to the halted one.
\<close>

lemma store_write_not_renamed:
  assumes "st_writes (lp_store p) 0 = WriteNotRenamed"
  shows "\<exists>e. store_write E state loss p = Some (Inl e, p\<lparr>lp_store := next_write (lp_store p) (st_file (lp_store p))\<rparr>)"
  using assms by (auto simp: store_write_def write_state_with_loss_snapshot_def write_atomic_def split: sum.split prod.split)

lemma store_write_ok:
  assumes "st_writes (lp_store p) 0 = WriteOk"
    and "serialize_state_with_loss_snapshot (env_serde E) (env_decimal E) state loss = Inr bytes"
    and "length bytes \<le> unat (st_max_state_file_bytes (lp_store p))"
  shows "store_write E state loss p = Some (Inr (), p\<lparr>lp_store := next_write (lp_store p) (Some bytes)\<rparr>)"
  using assms by (simp add: store_write_def write_state_with_loss_snapshot_def ensure_state_bytes_within_limit_def write_atomic_def)

lemma store_invalidate_not_renamed:
  "st_writes (lp_store p) 0 = WriteNotRenamed \<Longrightarrow>
     store_invalidate p = Some (Inl (Io OtherIoError), p\<lparr>lp_store := next_write (lp_store p) (st_file (lp_store p))\<rparr>)"
  by (simp add: store_invalidate_def invalidate_def write_atomic_def)

lemma next_write_writes [simp]:
  "st_writes (next_write st file) n = st_writes st (Suc n)" "st_max_state_file_bytes (next_write st file) = st_max_state_file_bytes st"
  by (simp_all add: next_write_def)

lemma timed_out_halt_resumes:
  assumes p: "lp_pending_halt_actions p = Some a" "pa_state a = Halting h t"
    and late: "pa_next_retry_at_unix_nanos a \<le> late" "pa_retry_deadline_unix_nanos a < late"
    and early: "pa_next_retry_at_unix_nanos a \<le> early" "early \<le> pa_retry_deadline_unix_nanos a"
    and faults: "st_writes (lp_store p) 0 = WriteNotRenamed" "st_writes (lp_store p) (Suc 0) = WriteNotRenamed"
      "st_writes (lp_store p) (Suc (Suc 0)) = WriteOk"
    and sink: "sk_accepts (lp_action_sink p) 0"
    and bytes: "serialize_state_with_loss_snapshot (env_serde E) (env_decimal E) (Halted h t)
        (Some (loss_snapshot E (p\<lparr>lp_pending_halt_actions := None\<rparr>))) = Inr bytes"
      "length bytes \<le> unat (st_max_state_file_bytes (lp_store p))"
  shows "\<exists>e q q'. poll_pending_halt_actions E late p = Some (Inl e, q) \<and>
    lp_state q = FailedManualIntervention h HALT_ACTION_RETRY_TIMEOUT_REASON \<and>
    poll_pending_halt_actions E early q = Some (Inr (), q') \<and> lp_state q' = Halted h t"
proof -
  define F where "F = FailedManualIntervention h HALT_ACTION_RETRY_TIMEOUT_REASON"
  define entered where "entered = p\<lparr>lp_admission := F, lp_state := F\<rparr>"
  define q where "q = entered\<lparr>lp_store := next_write (next_write (lp_store p) (st_file (lp_store p)))
    (st_file (next_write (lp_store p) (st_file (lp_store p))))\<rparr>"
  have "st_writes (lp_store entered) 0 = WriteNotRenamed" using faults by (simp add: entered_def)
  from store_write_not_renamed [OF this, of E F None] obtain e where e: "store_write E F None entered =
      Some (Inl e, entered\<lparr>lp_store := next_write (lp_store p) (st_file (lp_store p))\<rparr>)" by (auto simp: entered_def)
  have failed: "persist_failed_state_or_invalidate E F entered = Some (Inl (FailedStatePersistence e (Io OtherIoError)), q)"
    using faults by (simp add: persist_failed_state_or_invalidate_def e act_defs store_invalidate_not_renamed q_def)
  have poll_late: "poll_pending_halt_actions E late p = Some (Inl (FailedStatePersistence e (Io OtherIoError)), q)"
    using p late failed
    by (simp add: poll_pending_halt_actions_def fail_halt_actions_def loss_transition_def transition_kill_switch_state_def
        enter_state_def act_defs not_less F_def [symmetric] entered_def [symmetric])
  have q: "lp_pending_halt_actions q = Some a" "st_writes (lp_store q) 0 = WriteOk" "sk_accepts (lp_action_sink q) 0"
    "st_max_state_file_bytes (lp_store q) = st_max_state_file_bytes (lp_store p)"
    using p faults sink by (simp_all add: q_def entered_def)
  define q1 where "q1 = q\<lparr>lp_action_sink := \<lparr>sk_accepts = (\<lambda>n. sk_accepts (lp_action_sink q) (Suc n)),
      sk_emitted = \<lparr>la_kind = FlattenPositions, la_halt_id = h, la_action_id = FLATTEN_ACTION_ID,
        la_account_ids = lc_account_ids (lp_config q), la_instrument_ids = lc_instrument_ids (lp_config q)\<rparr> # sk_emitted (lp_action_sink q)\<rparr>,
      lp_pending_halt_actions := None, lp_admission := Halted h t, lp_state := Halted h t\<rparr>"
  have "loss_snapshot E q1 = loss_snapshot E (p\<lparr>lp_pending_halt_actions := None\<rparr>)"
    by (simp add: loss_snapshot_def q1_def q_def entered_def)
  then have "store_write E (Halted h t) (Some (loss_snapshot E q1)) q1 =
      Some (Inr (), q1\<lparr>lp_store := next_write (lp_store q1) (Some bytes)\<rparr>)"
    using q bytes by (intro store_write_ok) (simp_all add: q1_def)
  then have "poll_pending_halt_actions E early q = Some (Inr (), q1\<lparr>lp_store := next_write (lp_store q1) (Some bytes)\<rparr>)"
    using p(2) q early [folded not_less]
    by (simp add: poll_pending_halt_actions_def emit_halt_actions_def sink_emit_def Let_def record_halt_actions_recorded_def
        loss_transition_def transition_kill_switch_state_def enter_state_def persist_runtime_snapshot_or_fail_closed_def act_defs
        q1_def)
  then show ?thesis using poll_late by (auto simp: q_def entered_def F_def q1_def)
qed

end
