(* ===== verification/LossBooks.thy ===== *)
theory LossBooks
  imports LossProtectionSafety
begin

text \<open>
  The books of the realized-loss protection: what halting leaves alone, and the well-formedness that
  every call keeps and that the store needs to restore them.
\<close>

declare sum.case_cong [cong]

section \<open>Views that halting does not change\<close>

text \<open>
  A view of the protection that does not depend on its state, its pending actions, and the objects
  it shares. No method of the halt path changes such a view, whatever fails.
\<close>

locale loss_view =
  fixes view :: "('d, 'c) KillSwitchLossProtection \<Rightarrow> 'v"
  assumes view_store: "view (p\<lparr>lp_store := st\<rparr>) = view p"
    and view_sink: "view (p\<lparr>lp_action_sink := sink\<rparr>) = view p"
    and view_state: "view (p\<lparr>lp_state := state\<rparr>) = view p"
    and view_admission: "view (p\<lparr>lp_admission := state\<rparr>) = view p"
    and view_pending: "view (p\<lparr>lp_pending_halt_actions := pending\<rparr>) = view p"
begin

lemmas view_frame = view_store view_sink view_state view_admission view_pending

lemma fail_closed: "view p = B \<Longrightarrow> wp (fail_closed_with E reason) (\<lambda>_ q. view q = B) p"
  by (rule wp_fail_closed_with) (simp add: view_frame)

lemma persist_runtime: "view p = B \<Longrightarrow> wp (persist_runtime_snapshot_or_fail_closed E) (\<lambda>_ q. view q = B) p"
  by (rule wp_persist_runtime) (simp_all add: view_frame)

lemma persist_failed: "view p = B \<Longrightarrow> wp (persist_failed_state_or_invalidate E F) (\<lambda>_ q. view q = B) p"
  by (rule wp_persist_failed) (simp add: view_frame)

lemma record_halt_actions: "view p = B \<Longrightarrow> wp (record_halt_actions_recorded E state) (\<lambda>_ q. view q = B) p"
  by (simp add: record_halt_actions_recorded_def loss_transition_def enter_state_def persist_runtime view_frame split: sum.split)

lemma emit_then:
  assumes "view p = B"
  shows "wp (emit_halt_actions halting)
    (\<lambda>r s. case r of
       Inl e \<Rightarrow> wp (persist_runtime_snapshot_or_fail_closed E) (\<lambda>_ q. view q = B) (s\<lparr>lp_pending_halt_actions := Some (a s)\<rparr>)
     | Inr x \<Rightarrow> wp (record_halt_actions_recorded E halting) (\<lambda>_ q. view q = B) s) p"
  using assms by (intro wp_emit_halt_actions) (simp add: persist_runtime record_halt_actions view_frame split: sum.split)

lemma halt:
  assumes "view p = B"
  shows "wp (halt_for_realized_loss_breach E source t) (\<lambda>_ q. view q = B) p"
  apply (simp add: halt_for_realized_loss_breach_def loss_transition_def transition_kill_switch_state_def enter_state_def Let_def)
  apply (rule wp_store_write)
  subgoal for r st using assms by (cases r) (simp_all add: persist_failed emit_then view_frame)
  done

lemma poll:
  assumes "view p = B"
  shows "wp (poll_pending_halt_actions E t) (\<lambda>_ q. view q = B) p"
  using assms
  by (simp add: poll_pending_halt_actions_def fail_halt_actions_def loss_transition_def enter_state_def persist_failed emit_then
      view_frame split: sum.split option.split)

lemma resume:
  assumes "view p = B"
  shows "wp (resume_halt_actions E clock state) (\<lambda>_ q. view q = B) p"
  using assms by (simp add: resume_halt_actions_def enter_state_def persist_runtime emit_then view_frame)

end

section \<open>Books\<close>

text \<open>The part of the record that decides whether an observation is counted, and the accounts with the daily total.\<close>

type_synonym ('d, 'c) loss_books =
  "'d KillSwitchLossProtectionConfig \<times> u64 option \<times> 'c option \<times> 'd pnl_map \<times> 'd pnl_map \<times> 'd pnl_map"

definition books :: "('d, 'c) KillSwitchLossProtection \<Rightarrow> ('d, 'c) loss_books" where
  "books p = (lp_config p, lp_daily_bucket p, lp_settlement_currency p, lp_cumulative_position_pnl p, lp_closed_position_pnl p,
     lp_adjusted_position_pnl p)"

definition accounts :: "('d, 'c) KillSwitchLossProtection \<Rightarrow> ('d, 'c) loss_books \<times> 'd" where
  "accounts p = (books p, lp_daily_realized_pnl p)"

interpretation books: loss_view books
  by unfold_locales (simp_all add: books_def)

interpretation accounts: loss_view accounts
  by unfold_locales (simp_all add: accounts_def books_def)

lemma books_daily [simp]: "books (p\<lparr>lp_daily_realized_pnl := d\<rparr>) = books p"
  by (simp add: books_def)

lemma record_current_books:
  "books p = B \<Longrightarrow> wp (record_current_bucket_realized_pnl E observation) (\<lambda>_ q. books q = B) p"
  by (simp add: record_current_bucket_realized_pnl_def books.persist_runtime books.halt)

text \<open>The comparisons of other crates are reflexive.\<close>

definition comparisons_reflexive :: "('d, 'c, 'm) loss_env \<Rightarrow> bool" where
  "comparisons_reflexive E \<longleftrightarrow> (\<forall>d. dec_eq (env_decimal E) d d) \<and> (\<forall>c. cur_eq (env_money E) c c)"

text \<open>
  Well-formed books: ordered maps, no position both open and closed, and a currency unless nothing
  was counted. They are what the store accepts of a snapshot.
\<close>

definition books_wf :: "('d, 'c, 'm) loss_env \<Rightarrow> ('d, 'c) KillSwitchLossProtection \<Rightarrow> bool" where
  "books_wf E p \<longleftrightarrow>
     bt_invar (lp_cumulative_position_pnl p) \<and> bt_invar (lp_closed_position_pnl p) \<and> bt_invar (lp_adjusted_position_pnl p) \<and>
     (\<forall>k. bt_get (lp_cumulative_position_pnl p) k = None \<or> bt_get (lp_closed_position_pnl p) k = None) \<and>
     (lp_settlement_currency p = None \<longrightarrow>
        dec_eq (env_decimal E) (lp_daily_realized_pnl p) (dec_zero (env_decimal E)) \<and>
        lp_cumulative_position_pnl p = [] \<and> lp_closed_position_pnl p = [] \<and> lp_adjusted_position_pnl p = [])"

lemma keeps_accounts_wf:
  "wp m (\<lambda>_ q. accounts q = accounts p) p \<Longrightarrow> books_wf E p \<Longrightarrow> wp m (\<lambda>_. books_wf E) p"
  by (erule wp_mono) (simp add: accounts_def books_def books_wf_def)

lemma bt_invar_prune: "bt_invar m \<Longrightarrow> bt_invar (prune_pnl b m)"
  by (simp add: prune_pnl_def bt_invar_def sorted_wrt_map sorted_wrt_filter case_prod_unfold)

lemma bt_get_filter_None: "bt_get m k = None \<Longrightarrow> bt_get (filter f m) k = None"
  by (induction m) (auto simp: bt_get_def split: if_splits)

lemma prune_disjoint:
  "\<forall>k. bt_get a k = None \<or> bt_get m k = None \<Longrightarrow> bt_get a k = None \<or> bt_get (prune_pnl b m) k = None"
  using bt_get_filter_None [of m k] by (auto simp: prune_pnl_def)

lemma accept_wf:
  "comparisons_reflexive E \<Longrightarrow> books_wf E p \<Longrightarrow>
     wp (accept_observation_bucket E t) (\<lambda>_ q. books_wf E q \<and> lp_state q = lp_state p \<and> lp_config q = lp_config p) p"
  by (simp add: accept_observation_bucket_def Let_def books_wf_def prune_completed_position_snapshots_before_bucket_def
      comparisons_reflexive_def bt_invar_prune prune_disjoint split: option.split) (simp add: prune_pnl_def)

lemma guard_wf:
  "books_wf E p \<Longrightarrow> wp (guard_settlement_currency E c) (\<lambda>r q. books_wf E q \<and> (is_ok r \<longrightarrow> lp_settlement_currency q \<noteq> None)) p"
  by (auto simp: guard_settlement_currency_def books_wf_def intro!: wp_fail_closed_with split: option.split)

lemma current_wf:
  "books_wf E p \<Longrightarrow> lp_settlement_currency p \<noteq> None \<Longrightarrow> wp (record_current_bucket_realized_pnl E observed) (\<lambda>_. books_wf E) p"
  by (rule wp_mono [OF record_current_books [OF refl]]) (auto simp: books_def books_wf_def)

lemma count_wf:
  assumes "books_wf E p" and "lp_settlement_currency p \<noteq> None"
  shows "wp (count_position_observation E observation) (\<lambda>_. books_wf E) p"
proof -
  have failed: "wp (fail_closed_with E reason) (\<lambda>r q. case r of Inl e \<Rightarrow> books_wf E q | Inr x \<Rightarrow> R x q) p"
    for reason and R :: "bool \<Rightarrow> _ \<Rightarrow> bool"
    using assms by (intro wp_fail_closed_with) (auto simp: books_wf_def)
  have persisted: "wp (persist_runtime_snapshot_or_fail_closed E) (\<lambda>_. books_wf E) q" if "books_wf E q" for q
    using keeps_accounts_wf [OF accounts.persist_runtime [OF refl] that] .
  have facts: "bt_invar (lp_cumulative_position_pnl p)" "bt_invar (lp_closed_position_pnl p)" "bt_invar (lp_adjusted_position_pnl p)"
    "\<And>k. bt_get (lp_cumulative_position_pnl p) k = None \<or> bt_get (lp_closed_position_pnl p) k = None"
    using assms by (simp_all add: books_wf_def)
  show ?thesis using assms(1)
    apply (simp add: count_position_observation_def record_cumulative_position_observation_def record_closed_position_observation_def
        is_duplicate_adjusted_position_observation_def change_since_def Let_def failed split: option.split)
    apply (safe intro!: current_wf persisted)
    using assms(2) facts
    apply (auto simp: books_wf_def btm.invar_insert btm.invar_remove btm.get_insert btm.get_remove)
    done
qed

section \<open>Every call keeps the books well-formed\<close>

lemma record_position_wf:
  assumes "comparisons_reflexive E" and "books_wf E p"
  shows "wp (record_position_realized_pnl E observation) (\<lambda>_. books_wf E) p"
proof -
  have polled: "wp (poll_pending_halt_actions E t) (\<lambda>_. books_wf E) p" for t
    using keeps_accounts_wf [OF accounts.poll [OF refl] assms(2)] .
  have guarded: "wp (guard_settlement_currency E c)
      (\<lambda>r s. case r of Inl e \<Rightarrow> books_wf E s | Inr x \<Rightarrow> wp (count_position_observation E observation) (\<lambda>_. books_wf E) s) q"
    if "books_wf E q" for c q
    by (rule wp_mono [OF guard_wf [OF that]]) (auto simp: count_wf split: sum.split)
  show ?thesis using assms polled
    apply (simp add: record_position_realized_pnl_def)
    apply (intro impI wp_mono [OF accept_wf [OF assms]])
    subgoal for r q using guarded [of q] by (cases r) simp_all
    done
qed

lemma record_realized_wf:
  assumes "comparisons_reflexive E" and "books_wf E p"
  shows "wp (record_realized_pnl E observation) (\<lambda>_. books_wf E) p"
proof -
  have polled: "wp (poll_pending_halt_actions E t) (\<lambda>_. books_wf E) p" for t
    using keeps_accounts_wf [OF accounts.poll [OF refl] assms(2)] .
  have guarded: "wp (guard_settlement_currency E c)
      (\<lambda>r s. case r of Inl e \<Rightarrow> books_wf E s | Inr x \<Rightarrow> wp (record_current_bucket_realized_pnl E observation) (\<lambda>_. books_wf E) s) q"
    if "books_wf E q" for c q
    by (rule wp_mono [OF guard_wf [OF that]]) (auto simp: current_wf split: sum.split)
  show ?thesis using assms polled
    apply (simp add: record_realized_pnl_def)
    apply (intro impI wp_mono [OF accept_wf [OF assms]])
    subgoal for r q using guarded [of q] by (cases r) simp_all
    done
qed

lemma loss_call_wf:
  assumes "comparisons_reflexive E" and "books_wf E p"
  shows "wp (do_loss_call E c) (\<lambda>_. books_wf E) p"
proof (cases c)
  case (PositionEventCall event)
  then show ?thesis using record_position_wf [OF assms] assms(2)
    by (simp add: record_position_event_def split: option.split)
qed (use keeps_accounts_wf [OF accounts.poll [OF refl] assms(2)] in \<open>simp_all add: record_position_wf record_realized_wf assms\<close>)

lemma loss_run_wf:
  assumes "comparisons_reflexive E"
  shows "books_wf E p \<Longrightarrow> loss_run E cs p = Some q \<Longrightarrow> books_wf E q"
proof (induction cs arbitrary: p)
  case (Cons c cs)
  then obtain r p' where step: "do_loss_call E c p = Some (r, p')" "loss_run E cs p' = Some q"
    by (auto split: option.splits)
  have "books_wf E p'" using wpD [OF loss_call_wf [OF assms Cons.prems(1)] step(1)] .
  then show ?case using Cons.IH step(2) by blast
qed simp

section \<open>Recovery gives well-formed books\<close>

lemma restore_pnl_entries_invar:
  "restore_pnl_entries D m entries = Some m' \<Longrightarrow> bt_invar m \<Longrightarrow> bt_invar m'"
  by (induction D m entries rule: restore_pnl_entries.induct) (auto simp: btm.invar_insert split: option.splits)

lemma restore_pnl_map_invar: "restore_pnl_map D m = Some m' \<Longrightarrow> bt_invar m'"
  by (rule restore_pnl_entries_invar [of D "[]"]) (simp_all add: restore_pnl_map_def btm.invar_empty)

lemma snapshot_try_from_wf:
  assumes "snapshot_try_from D known s = Some s'"
  shows "snapshot_wf D known s'"
proof -
  obtain daily cumulative closed_pnl adjusted currency where parts:
    "restore_pnl_map D (cumulative_position_pnl s) = Some cumulative" "restore_pnl_map D (closed_position_pnl s) = Some closed_pnl"
    "restore_pnl_map D (adjusted_position_pnl s) = Some adjusted"
    "\<not> list_ex (\<lambda>(k, _). bt_get closed_pnl k \<noteq> None) cumulative"
    "restore_currency known (\<not> dec_eq D daily (dec_zero D) \<or> cumulative \<noteq> [] \<or> closed_pnl \<noteq> [] \<or> adjusted \<noteq> [])
       (settlement_currency s) = Some currency"
    "s' = \<lparr>daily_bucket = daily_bucket s, daily_realized_pnl = daily, settlement_currency = currency,
       cumulative_position_pnl = cumulative, closed_position_pnl = closed_pnl, adjusted_position_pnl = adjusted,
       pending_halt_actions = pending_halt_actions s\<rparr>"
    using assms by (auto simp: snapshot_try_from_def Let_def split: option.splits if_splits)
  note invars = parts(1-3) [THEN restore_pnl_map_invar]
  have "bt_get cumulative k = None \<or> bt_get closed_pnl k = None" for k
  proof (cases "bt_get cumulative k")
    case (Some v)
    then have "(k, v) \<in> set cumulative" using btm.entries_get [OF invars(1), of k v] by simp
    then show ?thesis using parts(4) by (auto simp: list_ex_iff)
  qed simp
  then show ?thesis using invars parts(5)
    by (auto simp: parts(6) snapshot_wf_def restore_currency_def split: option.splits if_splits)
qed

lemma load_snapshot_wf:
  "load_recovery_record S D known max_bytes readable file = Inr r \<Longrightarrow> loss_protection r = Some s \<Longrightarrow> snapshot_wf D known s"
  by (auto simp: load_recovery_record_def recover_persisted_def fail_closed_def Let_def snapshot_try_from_wf
      split: option.splits if_splits KillSwitchState.splits)

lemma apply_wf:
  "snapshot_wf (env_decimal E) (env_known E) snapshot \<Longrightarrow> wp (apply_loss_snapshot E snapshot) (\<lambda>_. books_wf E) p"
  by (auto simp: apply_loss_snapshot_def snapshot_wf_def books_wf_def split: option.split)

lemma resume_wf: "books_wf E p \<Longrightarrow> wp (resume_halt_actions E clock state) (\<lambda>_. books_wf E) p"
  by (rule keeps_accounts_wf [OF accounts.resume [OF refl]])

lemma seed_wf:
  assumes "comparisons_reflexive E"
  shows "wp (seed_from_store E clock) (\<lambda>_. books_wf E) (KillSwitchLossProtection_new E config admission store sink)"
proof -
  define new where "new = KillSwitchLossProtection_new E config admission store sink"
  have new: "books_wf E new"
    using assms by (simp add: new_def KillSwitchLossProtection_new_def books_wf_def comparisons_reflexive_def btm.invar_empty btm.get_empty)
  then have entered: "books_wf E (new\<lparr>lp_state := state\<rparr>)" "books_wf E (new\<lparr>lp_admission := state', lp_state := state\<rparr>)" for state state'
    by (simp_all add: books_wf_def)
  have halted: "wp (halt_for_realized_loss_breach E source t) (\<lambda>r q. case r of Inl e \<Rightarrow> books_wf E q
       | Inr x \<Rightarrow> wp (case x of None \<Rightarrow> act_fail RecoveredBreachNotLatched | Some s \<Rightarrow> resume_halt_actions E clock s)
                   (\<lambda>_. books_wf E) q) q" if "books_wf E q" for source t q
    by (rule wp_mono [OF keeps_accounts_wf [OF accounts.halt [OF refl] that]]) (auto simp: resume_wf split: sum.split option.split)
  have persisted: "wp (persist_failed_state_or_invalidate E F) (\<lambda>_. books_wf E) q" if "books_wf E q" for F q
    using keeps_accounts_wf [OF accounts.persist_failed [OF refl] that] .
  show ?thesis
  proof (cases "store_load E (lp_store new)")
    case (Inr r)
    then have snap: "\<And>s. loss_protection r = Some s \<Longrightarrow> snapshot_wf (env_decimal E) (env_known E) s"
      using load_snapshot_wf by (auto simp: store_load_def)
    have "wp (seed_from_store E clock) (\<lambda>_. books_wf E) new"
    proof (cases "loss_protection r")
      case None
      then show ?thesis using Inr by (simp add: seed_from_store_def Let_def enter_state_def persisted entered resume_wf)
    next
      case (Some snapshot)
      then have "wp (seed_from_store E clock) (\<lambda>_. books_wf E) new \<longleftrightarrow>
          wp (apply_loss_snapshot E snapshot) (\<lambda>x q. case x of Inl e \<Rightarrow> books_wf E q | Inr x \<Rightarrow>
            (if recovered_state (recovery_state r) = Armed \<and> realized_loss_breached E q
             then wp (halt_for_realized_loss_breach E RECOVERY_LOSS_TRIGGER_SOURCE clock) (\<lambda>r q. case r of Inl e \<Rightarrow> books_wf E q
               | Inr x \<Rightarrow> wp (case x of None \<Rightarrow> act_fail RecoveredBreachNotLatched | Some s \<Rightarrow> resume_halt_actions E clock s)
                   (\<lambda>_. books_wf E) q) q
             else wp (resume_halt_actions E clock (recovered_state (recovery_state r))) (\<lambda>_. books_wf E) q))
            (new\<lparr>lp_state := recovered_state (recovery_state r)\<rparr>)"
        using Inr by (simp add: seed_from_store_def Let_def cong: if_cong)
      also have "\<dots>" by (rule wp_mono [OF apply_wf [OF snap [OF Some]]]) (simp add: halted resume_wf split: sum.split)
      finally show ?thesis .
    qed
    then show ?thesis unfolding new_def .
  qed (use new in \<open>simp add: seed_from_store_def new_def [symmetric]\<close>)
qed

section \<open>Reachable books\<close>

text \<open>What the code relies on of currency codes: they are proper codes, and the currency table maps them back.\<close>

definition money_codes :: "('d, 'c, 'm) loss_env \<Rightarrow> bool" where
  "money_codes E \<longleftrightarrow>
     (\<forall>c. cur_code (env_money E) c \<noteq> [] \<and> trim (cur_code (env_money E) c) = cur_code (env_money E) c \<and>
        cur_from_str (env_money E) (cur_code (env_money E) c) = Some c)"

lemma books_wf_snapshot:
  "money_codes E \<Longrightarrow> books_wf E p \<Longrightarrow> snapshot_wf (env_decimal E) (env_known E) (loss_snapshot E p)"
  by (auto simp: snapshot_wf_def books_wf_def loss_snapshot_def money_codes_def env_known_def split: option.split)

lemma reachable_books_wf:
  assumes "comparisons_reflexive E"
    and "seed_from_store E clock (KillSwitchLossProtection_new E config admission store sink) = Some (r, p0)"
    and "loss_run E calls p0 = Some p"
  shows "books_wf E p"
  using loss_run_wf [OF assms(1) wpD [OF seed_wf [OF assms(1)] assms(2)] assms(3)] .

text \<open>
  C28. The books stay well-formed. In every state the protection reaches, whatever it recovered from
  and whatever failed, the position maps are ordered, no position is both open and closed, nothing is
  counted without a settlement currency, and the snapshot of the state passes the validation that
  recovery applies to it.
\<close>

theorem loss_books_well_formed:
  assumes "comparisons_reflexive E" and "money_codes E"
    and "seed_from_store E clock (KillSwitchLossProtection_new E config admission store sink) = Some (r, p0)"
    and "loss_run E calls p0 = Some p"
  shows "books_wf E p \<and>
    (decimal_prints (env_decimal E) \<longrightarrow>
       snapshot_try_from (env_decimal E) (env_known E) (persisted_snapshot_from (env_decimal E) (loss_snapshot E p)) =
         Some (loss_snapshot E p))"
  using reachable_books_wf [OF assms(1,3,4)] books_wf_snapshot [OF assms(2)] snapshot_round_trip by blast

definition coded_money :: "(unit, int, int) money_ops" where
  "coded_money = \<lparr>cur_code = (\<lambda>_. ''USD''), cur_eq = (=), cur_from_str = (\<lambda>c. if c = ''USD'' then Some () else None),
     money_currency = (\<lambda>_. ()), money_as_decimal = id\<rparr>"

definition coded_snapshot :: "int KillSwitchLossProtectionSnapshot" where
  "coded_snapshot = \<lparr>daily_bucket = Some 0, daily_realized_pnl = - 3, settlement_currency = Some ''USD'', cumulative_position_pnl = [],
     closed_position_pnl = [], adjusted_position_pnl = [(''e'', \<lparr>realized_pnl = - 3, last_observed_at_unix_nanos = 7\<rparr>)],
     pending_halt_actions = None\<rparr>"

definition coded_persisted :: PersistedKillSwitchState where
  "coded_persisted = \<lparr>schema_version = KILL_SWITCH_STORE_SCHEMA_VERSION, persisted_state = Armed,
     persisted_loss_protection = Some (persisted_snapshot_from whole_ops coded_snapshot)\<rparr>"

definition coded_serde :: serde_ops where
  "coded_serde = demo_serde
     \<lparr>to_vec_pretty := (\<lambda>p. if p = demo_persisted then Some ''x'' else if p = coded_persisted then Some ''y'' else None),
      state_from_slice := (\<lambda>b. if b = ''x'' @ [CHR 0x0A] then Some demo_persisted
         else if b = ''y'' @ [CHR 0x0A] then Some coded_persisted else None),
      value_from_slice := (\<lambda>b. Some (Object [(''schema_version'', Number 2)]))\<rparr>"

lemma coded_serde_reads: "serde_reads_back coded_serde" "serde_reads_version coded_serde"
  by (auto simp: serde_reads_back_def serde_reads_version_def coded_serde_def declared_schema_version_def
      demo_persisted_def coded_persisted_def KILL_SWITCH_STORE_SCHEMA_VERSION_def split: if_splits)

definition coded_env :: "(int, unit, int) loss_env" where
  "coded_env = \<lparr>env_serde = coded_serde, env_decimal = whole_ops, env_money = coded_money, env_sha256_hex = id, env_store_error = (\<lambda>_. ''e'')\<rparr>"

definition coded_protection :: "(int, unit) KillSwitchLossProtection" where
  "coded_protection = KillSwitchLossProtection_new coded_env demo_loss_config Armed demo_store demo_sink"

lemma coded_trim: "trim ''USD'' = ''USD''"
  by code_simp

lemma coded_hypotheses: "comparisons_reflexive coded_env" "money_codes coded_env" "zero_is_no_loss (env_decimal coded_env)"
  "decimal_prints (env_decimal coded_env)" "serde_reads_back (env_serde coded_env)" "serde_reads_version (env_serde coded_env)"
proof -
  show "decimal_prints (env_decimal coded_env)" "serde_reads_back (env_serde coded_env)" "serde_reads_version (env_serde coded_env)"
    using whole_prints coded_serde_reads by (simp_all add: coded_env_def)
qed (simp_all add: comparisons_reflexive_def money_codes_def zero_is_no_loss_def coded_env_def coded_money_def whole_ops_def coded_trim)

lemma coded_load: "store_load coded_env demo_store = Inr (loads_as Armed (Some (initial_armed_loss_protection_snapshot whole_ops)))"
proof -
  have "serialize_state_with_loss_snapshot coded_serde whole_ops Armed (Some (initial_armed_loss_protection_snapshot whole_ops)) =
      Inr (''x'' @ [CHR 0x0A])"
    by (simp add: serialize_state_with_loss_snapshot_def coded_serde_def demo_persisted_def)
  from loads_written [OF coded_serde_reads whole_prints _ this, of "env_known coded_env" 9] show ?thesis
    by (simp add: store_load_def coded_env_def demo_store_def demo_snapshot_wf)
qed

lemma coded_breached: "realized_loss_breached coded_env p \<longleftrightarrow>
    lp_daily_realized_pnl p < 0 \<and> lc_max_utc_daily_realized_loss (lp_config p) \<le> - lp_daily_realized_pnl p"
  by (auto simp: realized_loss_breached_def coded_env_def whole_ops_def dec_ge_def)

lemma coded_dec [simp]: "dec_zero (env_decimal coded_env) = 0" "dec_add (env_decimal coded_env) a b = Some (a + b)"
  by (simp_all add: coded_env_def whole_ops_def)

declare sum.case_cong_weak [cong]

lemma coded_seed: "seed_from_store coded_env 3 coded_protection = Some (Inr Armed, coded_protection)"
  using coded_load
  by (simp add: seed_from_store_def act_defs loads_as_def Let_def apply_loss_snapshot_def resume_halt_actions_def enter_state_def
      coded_protection_def KillSwitchLossProtection_new_def initial_armed_loss_protection_snapshot_def coded_breached)

definition coded_loss :: "(int, unit) PositionRealizedPnlObservation" where
  "coded_loss = \<lparr>po_account_id = ''a'', po_instrument_id = ''i'', po_position_id = ''p'', po_event_id = Some ''e'',
     po_observed = \<lparr>ro_source = ''s'', ro_observed_at_unix_nanos = 7, ro_realized_pnl = - 3, ro_settlement_currency = ()\<rparr>,
     po_cumulative_realized_pnl = False, po_closes_position = False\<rparr>"

definition coded_counted :: "(int, unit) KillSwitchLossProtection" where
  "coded_counted = coded_protection\<lparr>lp_daily_bucket := Some 0, lp_settlement_currency := Some (), lp_daily_realized_pnl := - 3,
     lp_adjusted_position_pnl := [(''e'', \<lparr>realized_pnl = - 3, last_observed_at_unix_nanos = 7\<rparr>)],
     lp_store := next_write demo_store (Some (''y'' @ [CHR 0x0A]))\<rparr>"

lemma coded_write:
  assumes "lp_store p = demo_store"
  shows "store_write coded_env Armed (Some coded_snapshot) p =
    Some (Inr (), p\<lparr>lp_store := next_write demo_store (Some (''y'' @ [CHR 0x0A]))\<rparr>)"
proof -
  have "coded_persisted \<noteq> demo_persisted"
    by (simp add: coded_persisted_def demo_persisted_def persisted_snapshot_from_def coded_snapshot_def
        initial_armed_loss_protection_snapshot_def)
  then have "serialize_state_with_loss_snapshot coded_serde whole_ops Armed (Some coded_snapshot) = Inr (''y'' @ [CHR 0x0A])"
    by (simp add: serialize_state_with_loss_snapshot_def coded_serde_def flip: coded_persisted_def)
  then show ?thesis using assms store_write_ok [of p coded_env Armed "Some coded_snapshot" "''y'' @ [CHR 0x0A]"]
    by (simp add: coded_env_def demo_store_def)
qed

lemma coded_record: "record_position_realized_pnl coded_env coded_loss coded_protection = Some (Inr None, coded_counted)"
proof -
  let ?p = "coded_protection\<lparr>lp_daily_bucket := Some 0, lp_settlement_currency := Some (),
    lp_adjusted_position_pnl := [(''e'', \<lparr>realized_pnl = - 3, last_observed_at_unix_nanos = 7\<rparr>)], lp_daily_realized_pnl := - 3\<rparr>"
  have bucket: "bucket_of 7 = 0" by (simp add: bucket_of_def NANOS_PER_UTC_DAY_def)
  have "loss_snapshot coded_env ?p = coded_snapshot"
    by (simp add: loss_snapshot_def coded_snapshot_def coded_protection_def KillSwitchLossProtection_new_def coded_env_def coded_money_def)
  moreover have "lp_state ?p = Armed" "lp_store ?p = demo_store"
    by (simp_all add: coded_protection_def KillSwitchLossProtection_new_def)
  ultimately have "persist_runtime_snapshot_or_fail_closed coded_env ?p =
      Some (Inr (), ?p\<lparr>lp_store := next_write demo_store (Some (''y'' @ [CHR 0x0A]))\<rparr>)"
    using coded_write [of ?p] by (simp add: persist_runtime_snapshot_or_fail_closed_def act_defs)
  then show ?thesis using bucket
    by (simp add: record_position_realized_pnl_def in_loss_scope_def accept_observation_bucket_def guard_settlement_currency_def
        count_position_observation_def is_duplicate_adjusted_position_observation_def bt_get_def pnl_entry_def record_current_bucket_realized_pnl_def act_defs coded_loss_def coded_breached coded_counted_def Let_def
        coded_protection_def KillSwitchLossProtection_new_def demo_loss_config_def)
qed

lemma coded_run: "loss_run coded_env [PositionPnlCall coded_loss] coded_protection = Some coded_counted"
  using coded_record by (simp add: act_defs)

theorem loss_books_well_formed_witness: "books_wf coded_env coded_counted"
  using loss_books_well_formed [OF coded_hypotheses(1,2) coded_seed [unfolded coded_protection_def]
      coded_run [unfolded coded_protection_def]] by simp

end
