(* ===== verification/LossAccounting.thy ===== *)
theory LossAccounting
  imports LossBooks
begin

text \<open>
  The accounting of the realized-loss protection: a repeated observation is not counted twice, and
  what is counted survives a restart.
\<close>

declare sum.case_cong [cong]

section \<open>Repeated observations\<close>

text \<open>When the maps say that a position observation was counted or superseded.\<close>

definition noted :: "('d, 'c, 'm) loss_env \<Rightarrow> ('d, 'c) PositionRealizedPnlObservation \<Rightarrow> 'd pnl_map \<Rightarrow> 'd pnl_map \<Rightarrow> 'd pnl_map \<Rightarrow> bool" where
  "noted E observation cumulative closed_pnl adjusted \<longleftrightarrow>
     (let observed = po_observed observation; k = po_position_id observation; t = ro_observed_at_unix_nanos observed in
      if \<not> po_cumulative_realized_pnl observation
      then (\<exists>key. po_event_id observation = Some key \<and> bt_get adjusted key \<noteq> None)
      else if po_closes_position observation
      then (case bt_get cumulative k of
              Some previous \<Rightarrow> t < last_observed_at_unix_nanos previous
            | None \<Rightarrow>
                (case bt_get closed_pnl k of
                   Some previous \<Rightarrow> t < last_observed_at_unix_nanos previous \<or>
                     dec_eq (env_decimal E) (ro_realized_pnl observed) (realized_pnl previous)
                 | None \<Rightarrow> False))
      else (case bt_get closed_pnl k of
              Some previous \<Rightarrow> t < last_observed_at_unix_nanos previous \<or> same_entry E observed previous
            | None \<Rightarrow>
                (case bt_get cumulative k of
                   Some previous \<Rightarrow> t < last_observed_at_unix_nanos previous \<or> same_entry E observed previous
                 | None \<Rightarrow> False)))"

lemma noted_adjusted:
  "\<not> po_cumulative_realized_pnl observation \<Longrightarrow> noted E observation cumulative closed_pnl adjusted \<longleftrightarrow>
     (case po_event_id observation of None \<Rightarrow> False | Some key \<Rightarrow> bt_get adjusted key \<noteq> None)"
  by (simp add: noted_def split: option.split)

lemma noted_not_counted:
  "noted E observation (lp_cumulative_position_pnl p) (lp_closed_position_pnl p) (lp_adjusted_position_pnl p) \<Longrightarrow>
     count_position_observation E observation p = Some (Inr None, p)"
  by (auto simp: noted_def Let_def count_position_observation_def record_cumulative_position_observation_def
      record_closed_position_observation_def is_duplicate_adjusted_position_observation_def act_defs
      split: if_splits option.splits)

definition maps_ordered :: "('d, 'c) KillSwitchLossProtection \<Rightarrow> bool" where
  "maps_ordered p \<longleftrightarrow> bt_invar (lp_cumulative_position_pnl p) \<and> bt_invar (lp_closed_position_pnl p) \<and>
     bt_invar (lp_adjusted_position_pnl p)"

lemma count_noted:
  assumes "comparisons_reflexive E" and "maps_ordered p"
  shows "wp (count_position_observation E observation) (\<lambda>r q. is_ok r \<longrightarrow>
    noted E observation (lp_cumulative_position_pnl q) (lp_closed_position_pnl q) (lp_adjusted_position_pnl q) \<and>
    lp_config q = lp_config p \<and> lp_daily_bucket q = lp_daily_bucket p \<and> lp_settlement_currency q = lp_settlement_currency p) p"
proof -
  let ?Q = "\<lambda>q. noted E observation (lp_cumulative_position_pnl q) (lp_closed_position_pnl q) (lp_adjusted_position_pnl q) \<and>
    lp_config q = lp_config p \<and> lp_daily_bucket q = lp_daily_bucket p \<and> lp_settlement_currency q = lp_settlement_currency p"
  have current: "wp (record_current_bucket_realized_pnl E observed) (\<lambda>r q. is_ok r \<longrightarrow> ?Q q) q" if "?Q q" for observed q
    by (rule wp_mono [OF record_current_books [OF refl]]) (use that in \<open>simp add: books_def\<close>)
  have persisted: "wp (persist_runtime_snapshot_or_fail_closed E) (\<lambda>r q. case r of Inl e \<Rightarrow> True | Inr x \<Rightarrow> ?Q q) q" if "?Q q" for q
    by (rule wp_mono [OF books.persist_runtime [OF refl]]) (use that in \<open>simp add: books_def split: sum.split\<close>)
  have maps: "bt_invar (lp_cumulative_position_pnl p)" "bt_invar (lp_closed_position_pnl p)" "bt_invar (lp_adjusted_position_pnl p)"
    and refl': "\<And>d. dec_eq (env_decimal E) d d"
    using assms by (simp_all add: maps_ordered_def comparisons_reflexive_def)
  note facts = maps refl' btm.get_insert btm.get_remove pnl_entry_def same_entry_def
  consider (adjusted) "\<not> po_cumulative_realized_pnl observation"
    | (closes) "po_cumulative_realized_pnl observation" "po_closes_position observation"
    | (changes) "po_cumulative_realized_pnl observation" "\<not> po_closes_position observation" by blast
  then show ?thesis
  proof cases
    case adjusted
    have "wp (fail_closed_with E reason) (\<lambda>r q. case r of Inl e \<Rightarrow> True | Inr x \<Rightarrow> R x q) p" for reason and R :: "bool \<Rightarrow> _ \<Rightarrow> bool"
      by (rule wp_fail_closed_with) simp
    with adjusted show ?thesis
      by (simp add: count_position_observation_def is_duplicate_adjusted_position_observation_def split: option.split)
        (safe intro!: current, auto simp: noted_def facts)
  next
    case closes
    then show ?thesis
      apply (simp add: count_position_observation_def record_cumulative_position_observation_def record_closed_position_observation_def
          change_since_def Let_def split: option.split)
      apply (safe intro!: current persisted)
                     apply (auto simp: noted_def facts)
      done
  next
    case changes
    then show ?thesis
      apply (simp add: count_position_observation_def record_cumulative_position_observation_def change_since_def Let_def split: option.split)
      apply (safe intro!: current)
                     apply (auto simp: noted_def facts)
      done
  qed
qed

lemma accept_maps:
  "maps_ordered p \<Longrightarrow> wp (accept_observation_bucket E t) (\<lambda>r q. case r of Inl e \<Rightarrow> False
     | Inr taken \<Rightarrow> maps_ordered q \<and> lp_config q = lp_config p \<and> lp_state q = lp_state p \<and>
         (if taken then lp_daily_bucket q = Some (bucket_of t)
          else q = p \<and> (\<exists>b. lp_daily_bucket p = Some b \<and> bucket_of t < b))) p"
  by (auto simp: accept_observation_bucket_def Let_def maps_ordered_def prune_completed_position_snapshots_before_bucket_def
      prune_pnl_def bt_invar_def sorted_wrt_filter case_prod_unfold sorted_wrt_map split: option.split)

lemma guard_books:
  assumes "comparisons_reflexive E"
  shows "wp (guard_settlement_currency E c) (\<lambda>r q. is_ok r \<longrightarrow>
     (\<exists>existing. q = p\<lparr>lp_settlement_currency := Some existing\<rparr> \<and> cur_eq (env_money E) existing c)) p"
proof (cases "lp_settlement_currency p")
  case (Some existing)
  then show ?thesis
    by (auto simp: guard_settlement_currency_def intro!: wp_fail_closed_with exI [of _ existing])
qed (use assms in \<open>auto simp: guard_settlement_currency_def comparisons_reflexive_def\<close>)

text \<open>When a repeated observation changes nothing.\<close>

definition observation_settled :: "('d, 'c, 'm) loss_env \<Rightarrow> ('d, 'c) PositionRealizedPnlObservation \<Rightarrow> ('d, 'c) KillSwitchLossProtection \<Rightarrow> bool" where
  "observation_settled E observation p \<longleftrightarrow>
     (\<exists>b existing. lp_daily_bucket p = Some b \<and> (bucket_of (ro_observed_at_unix_nanos (po_observed observation)) < b \<or>
        bucket_of (ro_observed_at_unix_nanos (po_observed observation)) = b \<and> lp_settlement_currency p = Some existing \<and>
        cur_eq (env_money E) existing (ro_settlement_currency (po_observed observation)) \<and>
        noted E observation (lp_cumulative_position_pnl p) (lp_closed_position_pnl p) (lp_adjusted_position_pnl p)))"

lemma settled_not_counted:
  "observation_settled E observation p \<Longrightarrow> lp_state p = Armed \<Longrightarrow> record_position_realized_pnl E observation p = Some (Inr None, p)"
  by (auto simp: observation_settled_def record_position_realized_pnl_def accept_observation_bucket_def guard_settlement_currency_def act_defs
      Let_def noted_not_counted)

lemma record_settles:
  assumes "comparisons_reflexive E" and "maps_ordered p" and "lp_state p = Armed" and "in_loss_scope (lp_config p) observation"
  shows "wp (record_position_realized_pnl E observation) (\<lambda>r q. is_ok r \<longrightarrow> observation_settled E observation q) p"
proof -
  let ?t = "ro_observed_at_unix_nanos (po_observed observation)"
  let ?c = "ro_settlement_currency (po_observed observation)"
  have count: "wp (count_position_observation E observation) (\<lambda>r q. is_ok r \<longrightarrow> observation_settled E observation q) q"
    if "maps_ordered q" "lp_daily_bucket q = Some (bucket_of ?t)" "lp_settlement_currency q = Some existing"
      "cur_eq (env_money E) existing ?c" for q existing
    by (rule wp_mono [OF count_noted [OF assms(1) that(1)]]) (use that in \<open>auto simp: observation_settled_def\<close>)
  have guard: "wp (guard_settlement_currency E ?c)
      (\<lambda>r s. case r of Inl e \<Rightarrow> True
         | Inr x \<Rightarrow> wp (count_position_observation E observation) (\<lambda>r q. is_ok r \<longrightarrow> observation_settled E observation q) s) q"
    if "maps_ordered q" "lp_daily_bucket q = Some (bucket_of ?t)" for q
  proof (rule wp_mono [OF guard_books [OF assms(1)]])
    fix r :: "LossProtectionError + unit" and s
    assume s: "is_ok r \<longrightarrow> (\<exists>existing. s = q\<lparr>lp_settlement_currency := Some existing\<rparr> \<and> cur_eq (env_money E) existing ?c)"
    show "case r of Inl e \<Rightarrow> True
      | Inr x \<Rightarrow> wp (count_position_observation E observation) (\<lambda>r q. is_ok r \<longrightarrow> observation_settled E observation q) s"
    proof (cases r)
      case (Inr u)
      then obtain existing where "s = q\<lparr>lp_settlement_currency := Some existing\<rparr>" "cur_eq (env_money E) existing ?c" using s by auto
      with that have "wp (count_position_observation E observation) (\<lambda>r q. is_ok r \<longrightarrow> observation_settled E observation q) s"
        by (intro count [of s existing]) (simp_all add: maps_ordered_def)
      then show ?thesis using Inr by simp
    qed simp
  qed
  show ?thesis
    using assms
    apply (simp add: record_position_realized_pnl_def)
    apply (rule wp_mono [OF accept_maps [OF assms(2)]])
    subgoal for r q using guard [of q] by (cases r) (auto simp: observation_settled_def)
    done
qed

text \<open>An adjustment stays settled: its event id is kept for the day, and later days refuse its timestamp.\<close>

definition adjustment_settled :: "('d, 'c, 'm) loss_env \<Rightarrow> ('d, 'c) PositionRealizedPnlObservation \<Rightarrow> ('d, 'c) KillSwitchLossProtection \<Rightarrow> bool" where
  "adjustment_settled E observation p \<longleftrightarrow>
     \<not> po_cumulative_realized_pnl observation \<and> observation_settled E observation p \<and> bt_invar (lp_adjusted_position_pnl p)"

lemma adjustment_settled_books:
  "adjustment_settled E observation p \<Longrightarrow> books q = books p \<Longrightarrow> adjustment_settled E observation q"
  by (simp add: adjustment_settled_def observation_settled_def books_def)

lemma keeps_books_settled:
  "wp m (\<lambda>_ q. books q = books p) p \<Longrightarrow> adjustment_settled E observation p \<Longrightarrow> wp m (\<lambda>_. adjustment_settled E observation) p"
  by (erule wp_mono) (erule adjustment_settled_books)

lemma accept_adjustment_settled:
  "adjustment_settled E observation p \<Longrightarrow> wp (accept_observation_bucket E t) (\<lambda>_. adjustment_settled E observation) p"
  by (auto simp: accept_observation_bucket_def Let_def adjustment_settled_def observation_settled_def noted_def
      prune_completed_position_snapshots_before_bucket_def prune_pnl_def bt_invar_def sorted_wrt_filter case_prod_unfold
      sorted_wrt_map split: option.split)

lemma guard_adjustment_settled:
  "adjustment_settled E observation p \<Longrightarrow> wp (guard_settlement_currency E c) (\<lambda>_. adjustment_settled E observation) p"
  by (auto simp: guard_settlement_currency_def intro: keeps_books_settled [OF books.fail_closed [OF refl]] split: option.split)
    (auto simp: adjustment_settled_def observation_settled_def)

lemma count_adjustment_settled:
  assumes "adjustment_settled E observation p"
  shows "wp (count_position_observation E other) (\<lambda>_. adjustment_settled E observation) p"
proof -
  have current: "wp (record_current_bucket_realized_pnl E observed) (\<lambda>_. adjustment_settled E observation) q"
    if "adjustment_settled E observation q" for observed q
    using keeps_books_settled [OF record_current_books [OF refl] that] .
  have persisted: "wp (persist_runtime_snapshot_or_fail_closed E) (\<lambda>_. adjustment_settled E observation) q"
    if "adjustment_settled E observation q" for q
    using keeps_books_settled [OF books.persist_runtime [OF refl] that] .
  have failed: "wp (fail_closed_with E reason) (\<lambda>r q. case r of Inl e \<Rightarrow> adjustment_settled E observation q | Inr x \<Rightarrow> R x q) p"
    for reason and R :: "bool \<Rightarrow> _ \<Rightarrow> bool"
    using assms by (intro wp_fail_closed_with) (auto simp: books.view_frame elim!: adjustment_settled_books)
  have frame: "adjustment_settled E observation (p\<lparr>lp_cumulative_position_pnl := m\<rparr>)"
    "adjustment_settled E observation (p\<lparr>lp_closed_position_pnl := m'\<rparr>)"
    "adjustment_settled E observation (p\<lparr>lp_cumulative_position_pnl := m, lp_closed_position_pnl := m'\<rparr>)"
    "adjustment_settled E observation (p\<lparr>lp_closed_position_pnl := m', lp_cumulative_position_pnl := m\<rparr>)" for m m'
    using assms by (auto simp: adjustment_settled_def observation_settled_def noted_def)
  have inserted: "adjustment_settled E observation (p\<lparr>lp_adjusted_position_pnl := bt_insert k v (lp_adjusted_position_pnl p)\<rparr>)" for k v
    using assms by (auto simp: adjustment_settled_def observation_settled_def noted_adjusted btm.invar_insert btm.get_insert split: option.splits)
  show ?thesis using assms
    by (simp add: count_position_observation_def record_cumulative_position_observation_def record_closed_position_observation_def
        is_duplicate_adjusted_position_observation_def change_since_def Let_def failed current persisted frame inserted split: option.split)
qed

lemma loss_call_adjustment_settled:
  assumes "adjustment_settled E observation p"
  shows "wp (do_loss_call E c) (\<lambda>_. adjustment_settled E observation) p"
proof -
  have polled: "wp (poll_pending_halt_actions E t) (\<lambda>_. adjustment_settled E observation) p" for t
    using keeps_books_settled [OF books.poll [OF refl] assms] .
  have guarded: "wp (guard_settlement_currency E currency)
      (\<lambda>r s. case r of Inl e \<Rightarrow> adjustment_settled E observation s | Inr x \<Rightarrow> wp m (\<lambda>_. adjustment_settled E observation) s) q"
    if "\<And>s. adjustment_settled E observation s \<Longrightarrow> wp m (\<lambda>_. adjustment_settled E observation) s" "adjustment_settled E observation q"
    for currency q and m :: "('a, 'b, KillSwitchState option) loss_act"
    using that(1) by (intro wp_mono [OF guard_adjustment_settled [OF that(2)]]) (simp split: sum.split)
  have current: "wp (record_current_bucket_realized_pnl E observed) (\<lambda>_. adjustment_settled E observation) q"
    if "adjustment_settled E observation q" for observed q
    using keeps_books_settled [OF record_current_books [OF refl] that] .
  have position: "wp (record_position_realized_pnl E other) (\<lambda>_. adjustment_settled E observation) p" for other
    using assms polled apply (simp add: record_position_realized_pnl_def)
    apply (intro impI wp_mono [OF accept_adjustment_settled [OF assms]])
    subgoal for r q using guarded [OF count_adjustment_settled] by (cases r) simp_all
    done
  have realized: "wp (record_realized_pnl E other) (\<lambda>_. adjustment_settled E observation) p" for other
    using assms polled apply (simp add: record_realized_pnl_def)
    apply (intro impI wp_mono [OF accept_adjustment_settled [OF assms]])
    subgoal for r q using guarded [OF current] by (cases r) simp_all
    done
  show ?thesis
    using assms position realized polled by (cases c) (simp_all add: record_position_event_def split: option.split)
qed

lemma loss_run_adjustment_settled:
  "adjustment_settled E observation p \<Longrightarrow> loss_run E cs p = Some q \<Longrightarrow> adjustment_settled E observation q"
proof (induction cs arbitrary: p)
  case (Cons c cs)
  then obtain r p' where step: "do_loss_call E c p = Some (r, p')" "loss_run E cs p' = Some q"
    by (auto split: option.splits)
  have "adjustment_settled E observation p'" using wpD [OF loss_call_adjustment_settled [OF Cons.prems(1)] step(1)] .
  then show ?case using Cons.IH step(2) by blast
qed simp


lemma coded_state: "lp_state coded_protection = Armed" "lp_state coded_counted = Armed" "in_loss_scope (lp_config coded_protection) coded_loss"
  by (simp_all add: coded_protection_def coded_counted_def KillSwitchLossProtection_new_def in_loss_scope_def coded_loss_def demo_loss_config_def)


section \<open>Restart\<close>

text \<open>The file holds the state and the snapshot of the protection.\<close>

definition loads :: "('d, 'c, 'm) loss_env \<Rightarrow> loss_store \<Rightarrow> KillSwitchState \<Rightarrow> 'd KillSwitchLossProtectionSnapshot \<Rightarrow> bool" where
  "loads E st state snapshot \<longleftrightarrow>
     load_recovery_record (env_serde E) (env_decimal E) (env_known E) (st_max_state_file_bytes st) True (st_file st) =
       Inr (loads_as state (Some snapshot))"

definition saved :: "('d, 'c, 'm) loss_env \<Rightarrow> ('d, 'c) KillSwitchLossProtection \<Rightarrow> bool" where
  "saved E p \<longleftrightarrow> loads E (lp_store p) (lp_state p) (loss_snapshot E p) \<and> state_kind (lp_state p) \<in> {KillSwitchStateKind.Armed, KillSwitchStateKind.Halted}"

definition store_reads :: "('d, 'c, 'm) loss_env \<Rightarrow> bool" where
  "store_reads E \<longleftrightarrow> serde_reads_back (env_serde E) \<and> serde_reads_version (env_serde E) \<and> decimal_prints (env_decimal E) \<and> money_codes E"

lemma wp_store_write_loads:
  assumes "store_reads E" and "snapshot_wf (env_decimal E) (env_known E) snapshot"
    and "\<And>r st. (is_ok r \<Longrightarrow> loads E st state snapshot) \<Longrightarrow> Q r (p\<lparr>lp_store := st\<rparr>)"
  shows "wp (store_write E state (Some snapshot)) Q p"
proof (rule wpI)
  fix r q
  assume q: "store_write E state (Some snapshot) p = Some (r, q)"
  let ?st = "lp_store p"
  obtain contents where w: "write_state_with_loss_snapshot (env_serde E) (env_decimal E) (st_max_state_file_bytes ?st)
      (st_writes ?st 0) state (Some snapshot) (st_file ?st) = (r, contents)" and qe: "q = p\<lparr>lp_store := next_write ?st contents\<rparr>"
    using q by (auto simp: store_write_def split: prod.splits)
  have S: "serde_reads_back (env_serde E)" "serde_reads_version (env_serde E)" "decimal_prints (env_decimal E)"
    using assms(1) by (simp_all add: store_reads_def)
  have "is_ok r \<Longrightarrow> loads E (next_write ?st contents) state snapshot"
    using write_state_loads [OF S _ w, of "env_known E"] assms(2) by (simp add: loads_def next_write_def)
  from assms(3) [OF this] show "Q r q" unfolding qe by simp
qed

lemma fail_closed_not_ok: "wp (fail_closed_with E reason) (\<lambda>r q. \<not> is_ok r) p"
  by (rule wp_fail_closed_with) simp

lemma loss_snapshot_store [simp]: "loss_snapshot E (p\<lparr>lp_store := st\<rparr>) = loss_snapshot E p"
  by (simp add: loss_snapshot_def)

lemma persist_runtime_saves:
  assumes "store_reads E" and "books_wf E p" and "state_kind (lp_state p) \<in> {KillSwitchStateKind.Armed, KillSwitchStateKind.Halted}"
  shows "wp (persist_runtime_snapshot_or_fail_closed E) (\<lambda>r q. is_ok r \<longrightarrow> saved E q) p"
proof -
  have "wp (store_write E (lp_state p) (Some (loss_snapshot E p)))
      (\<lambda>r q. case r of Inl e \<Rightarrow> wp (fail_closed_with E (SNAPSHOT_PERSISTENCE_FAILED_REASON @ '': '' @ env_store_error E e))
          (\<lambda>r q. is_ok r \<longrightarrow> saved E q) (q\<lparr>lp_pending_halt_actions := None\<rparr>) | Inr x \<Rightarrow> saved E q) p"
  proof (rule wp_store_write_loads [OF assms(1)])
    show "snapshot_wf (env_decimal E) (env_known E) (loss_snapshot E p)"
      using assms by (simp add: books_wf_snapshot store_reads_def)
  next
    fix r :: "KillSwitchStoreError + unit" and st
    assume "is_ok r \<Longrightarrow> loads E st (lp_state p) (loss_snapshot E p)"
    moreover have "wp (fail_closed_with E reason) (\<lambda>r q. is_ok r \<longrightarrow> saved E q) q" for reason q
      by (rule wp_mono [OF fail_closed_not_ok]) simp
    ultimately show "case r of Inl e \<Rightarrow> wp (fail_closed_with E (SNAPSHOT_PERSISTENCE_FAILED_REASON @ '': '' @ env_store_error E e))
        (\<lambda>r q. is_ok r \<longrightarrow> saved E q) (p\<lparr>lp_store := st, lp_pending_halt_actions := None\<rparr>) | Inr x \<Rightarrow> saved E (p\<lparr>lp_store := st\<rparr>)"
      using assms(3) by (cases r) (simp_all add: saved_def)
  qed
  then show ?thesis by (simp add: persist_runtime_snapshot_or_fail_closed_def)
qed

lemma books_wf_frame [simp]:
  "books_wf E (p\<lparr>lp_store := st\<rparr>) = books_wf E p" "books_wf E (p\<lparr>lp_action_sink := sink\<rparr>) = books_wf E p"
  "books_wf E (p\<lparr>lp_state := state\<rparr>) = books_wf E p" "books_wf E (p\<lparr>lp_admission := state\<rparr>) = books_wf E p"
  "books_wf E (p\<lparr>lp_pending_halt_actions := pending\<rparr>) = books_wf E p"
  by (simp_all add: books_wf_def)

lemma record_halt_saves:
  assumes "store_reads E" and "books_wf E p"
  shows "wp (record_halt_actions_recorded E state) (\<lambda>r q. is_ok r \<longrightarrow> saved E q) p"
proof -
  have "wp (persist_runtime_snapshot_or_fail_closed E) (\<lambda>r q. case r of Inl e \<Rightarrow> True | Inr x \<Rightarrow> saved E q)
      (p\<lparr>lp_pending_halt_actions := None, lp_admission := Halted h t, lp_state := Halted h t\<rparr>)" for h t
    by (rule wp_mono [OF persist_runtime_saves [OF assms(1)]]) (use assms(2) in \<open>auto split: sum.split\<close>)
  then show ?thesis
    by (cases state) (simp_all add: record_halt_actions_recorded_def loss_transition_def transition_defs enter_state_def)
qed

lemma halt_saves:
  assumes "store_reads E" and "books_wf E p"
  shows "wp (halt_for_realized_loss_breach E source t) (\<lambda>r q. is_ok r \<longrightarrow> saved E q) p"
proof -
  have recorded: "wp (record_halt_actions_recorded E state) (\<lambda>r q. case r of Inl e \<Rightarrow> True | Inr x \<Rightarrow> saved E q) q" if "books_wf E q" for state q
    by (rule wp_mono [OF record_halt_saves [OF assms(1) that]]) (auto split: sum.split)
  have emitted: "wp (emit_halt_actions halting) (\<lambda>r q. case r of Inl e \<Rightarrow> True
      | Inr x \<Rightarrow> wp (record_halt_actions_recorded E halting) (\<lambda>r q. case r of Inl e \<Rightarrow> True | Inr x \<Rightarrow> saved E q) q) q"
    if "books_wf E q" for halting q
    apply (rule wp_emit_halt_actions)
    subgoal for r sink using that by (cases r) (simp_all add: recorded)
    done
  show ?thesis
    apply (simp add: halt_for_realized_loss_breach_def loss_transition_def transition_kill_switch_state_def enter_state_def Let_def)
    apply (rule wp_store_write)
    subgoal for r st using emitted assms(2) by (cases r) simp_all
    done
qed

lemma current_saves:
  assumes "store_reads E" and "books_wf E p" and "lp_settlement_currency p \<noteq> None" and "lp_state p = Armed"
  shows "wp (record_current_bucket_realized_pnl E observed) (\<lambda>r q. is_ok r \<longrightarrow> saved E q) p"
proof -
  have wf: "books_wf E (p\<lparr>lp_daily_realized_pnl := d\<rparr>)" for d using assms(2,3) by (auto simp: books_wf_def)
  have "wp (persist_runtime_snapshot_or_fail_closed E) (\<lambda>r q. case r of Inl e \<Rightarrow> True | Inr x \<Rightarrow> saved E q) (p\<lparr>lp_daily_realized_pnl := d\<rparr>)" for d
    by (rule wp_mono [OF persist_runtime_saves [OF assms(1) wf]]) (use assms(4) in \<open>auto split: sum.split\<close>)
  then show ?thesis using halt_saves [OF assms(1) wf] by (simp add: record_current_bucket_realized_pnl_def)
qed

lemma count_saves:
  assumes "store_reads E" and "books_wf E p" and "lp_settlement_currency p \<noteq> None" and "lp_state p = Armed"
    and new: "\<not> noted E observation (lp_cumulative_position_pnl p) (lp_closed_position_pnl p) (lp_adjusted_position_pnl p)"
  shows "wp (count_position_observation E observation) (\<lambda>r q. is_ok r \<longrightarrow> saved E q) p"
proof -
  have failed: "wp (fail_closed_with E reason) (\<lambda>r q. case r of Inl e \<Rightarrow> True | Inr x \<Rightarrow> R x q) p"
    for reason and R :: "bool \<Rightarrow> _ \<Rightarrow> bool"
    by (rule wp_fail_closed_with) simp
  have persisted: "wp (persist_runtime_snapshot_or_fail_closed E) (\<lambda>r q. case r of Inl e \<Rightarrow> True | Inr x \<Rightarrow> saved E q) q"
    if "books_wf E q" "lp_state q = Armed" for q
    by (rule wp_mono [OF persist_runtime_saves [OF assms(1) that(1)]]) (use that(2) in \<open>auto split: sum.split\<close>)
  have facts: "bt_invar (lp_cumulative_position_pnl p)" "bt_invar (lp_closed_position_pnl p)" "bt_invar (lp_adjusted_position_pnl p)"
    "\<And>k. bt_get (lp_cumulative_position_pnl p) k = None \<or> bt_get (lp_closed_position_pnl p) k = None"
    using assms(2) by (simp_all add: books_wf_def)
  consider (adjusted) "\<not> po_cumulative_realized_pnl observation"
    | (closes) "po_cumulative_realized_pnl observation" "po_closes_position observation"
    | (changes) "po_cumulative_realized_pnl observation" "\<not> po_closes_position observation" by blast
  then show ?thesis
  proof cases
    case adjusted
    with new show ?thesis
      apply (simp add: count_position_observation_def is_duplicate_adjusted_position_observation_def noted_adjusted failed split: option.split)
      apply (safe intro!: current_saves [OF assms(1)])
      using assms(2-4) facts apply (auto simp: books_wf_def btm.invar_insert)
      done
  next
    case closes
    with new show ?thesis
      apply (simp add: count_position_observation_def record_cumulative_position_observation_def record_closed_position_observation_def
          change_since_def Let_def noted_def split: option.split)
      apply (safe intro!: current_saves [OF assms(1)] persisted)
      using assms(2-4) facts
      apply (auto simp: books_wf_def btm.invar_insert btm.invar_remove btm.get_insert btm.get_remove)
      done
  next
    case changes
    with new show ?thesis
      apply (simp add: count_position_observation_def record_cumulative_position_observation_def change_since_def Let_def noted_def
          split: option.split)
      apply (safe intro!: current_saves [OF assms(1)])
      using assms(2-4) facts facts(4) [of "po_position_id observation"]
      apply (auto simp: books_wf_def btm.invar_insert btm.invar_remove btm.get_insert btm.get_remove)
      done
  qed
qed

lemma accept_new:
  assumes "comparisons_reflexive E" and "books_wf E p" and "\<And>b. lp_daily_bucket p = Some b \<Longrightarrow> b \<le> bucket_of t"
    and "\<not> noted E observation (lp_cumulative_position_pnl p) (lp_closed_position_pnl p) (lp_adjusted_position_pnl p)"
  shows "wp (accept_observation_bucket E t) (\<lambda>r q. r = Inr True \<and>
    \<not> noted E observation (lp_cumulative_position_pnl q) (lp_closed_position_pnl q) (lp_adjusted_position_pnl q)) p"
proof -
  have "\<not> noted E observation (lp_cumulative_position_pnl p) (prune_pnl b (lp_closed_position_pnl p))
      (prune_pnl b (lp_adjusted_position_pnl p))" for b
  proof -
    have pruned: "bt_get (prune_pnl b m) k = Some v \<Longrightarrow> bt_invar m \<Longrightarrow> bt_get m k = Some v" for m :: "'a pnl_map" and k v
      using btm.entries_get [of m k v] btm.entries_get [of "prune_pnl b m" k v] bt_invar_prune [of m b] by (simp add: prune_pnl_def)
    have absent: "bt_get m k = None \<Longrightarrow> bt_get (prune_pnl b m) k = None" for m :: "'a pnl_map" and k
      by (simp add: prune_pnl_def bt_get_filter_None)
    have invars: "bt_invar (lp_closed_position_pnl p)" "bt_invar (lp_adjusted_position_pnl p)"
      "bt_get (lp_cumulative_position_pnl p) (po_position_id observation) = None \<or>
       bt_get (lp_closed_position_pnl p) (po_position_id observation) = None"
      using assms(2) by (simp_all add: books_wf_def)
    show ?thesis
      using assms(4) invars pruned [of "lp_closed_position_pnl p" "po_position_id observation"]
      by (auto simp: absent noted_def Let_def split: if_splits option.splits)
  qed
  then show ?thesis using assms
    by (auto simp: accept_observation_bucket_def Let_def prune_completed_position_snapshots_before_bucket_def not_less split: option.split)
qed

lemma record_saves:
  assumes "store_reads E" and "comparisons_reflexive E" and "books_wf E p" and "lp_state p = Armed"
    and "in_loss_scope (lp_config p) observation"
    and "\<And>b. lp_daily_bucket p = Some b \<Longrightarrow> b \<le> bucket_of (ro_observed_at_unix_nanos (po_observed observation))"
    and "\<not> noted E observation (lp_cumulative_position_pnl p) (lp_closed_position_pnl p) (lp_adjusted_position_pnl p)"
  shows "wp (record_position_realized_pnl E observation) (\<lambda>r q. is_ok r \<longrightarrow> saved E q) p"
proof -
  let ?new = "\<lambda>q. \<not> noted E observation (lp_cumulative_position_pnl q) (lp_closed_position_pnl q) (lp_adjusted_position_pnl q)"
  have guarded: "wp (guard_settlement_currency E c) (\<lambda>r s. case r of Inl e \<Rightarrow> True
      | Inr x \<Rightarrow> wp (count_position_observation E observation) (\<lambda>r q. is_ok r \<longrightarrow> saved E q) s) q"
    if "books_wf E q" "lp_state q = Armed" "?new q" for c q
  proof (rule wp_mono [OF wp_conj [OF guard_wf [OF that(1)] guard_books [OF assms(2)]]])
    fix r :: "LossProtectionError + unit" and s
    assume "(books_wf E s \<and> (is_ok r \<longrightarrow> lp_settlement_currency s \<noteq> None)) \<and>
      (is_ok r \<longrightarrow> (\<exists>existing. s = q\<lparr>lp_settlement_currency := Some existing\<rparr> \<and> cur_eq (env_money E) existing c))"
    with that show "case r of Inl e \<Rightarrow> True
        | Inr x \<Rightarrow> wp (count_position_observation E observation) (\<lambda>r q. is_ok r \<longrightarrow> saved E q) s"
      by (cases r) (auto intro!: count_saves [OF assms(1)])
  qed
  show ?thesis using assms(4,5)
    apply (simp add: record_position_realized_pnl_def)
    apply (rule wp_mono [OF wp_conj [OF accept_wf [OF assms(2,3)] accept_new [OF assms(2,3,6,7)]]])
    subgoal by assumption
    subgoal for r q using guarded [of q] assms(4) by auto
    done
qed

declare sum.case_cong_weak [cong]

lemma seed_saved:
  assumes "money_codes E" and "saved E q" and "st_readable (lp_store q)"
    and "lp_state q = Armed \<Longrightarrow> \<not> realized_loss_breached E q"
  shows "\<exists>q'. seed_from_store E clock (KillSwitchLossProtection_new E (lp_config q) admission (lp_store q) sink) = Some (Inr (lp_state q), q') \<and>
    lp_state q' = lp_state q \<and> lp_admission q' = lp_state q \<and> accounts q' = accounts q \<and> lp_store q' = lp_store q"
proof -
  let ?new = "KillSwitchLossProtection_new E (lp_config q) admission (lp_store q) sink"
  have kind: "lp_state q = Armed \<or> (\<exists>h t. lp_state q = Halted h t)"
    using assms(2) by (cases "lp_state q") (simp_all add: saved_def)
  then have load: "store_load E (lp_store ?new) = Inr \<lparr>recovery_state = Recovered (lp_state q), loss_protection = Some (loss_snapshot E q)\<rparr>"
    using assms(2,3) by (auto simp: saved_def loads_def loads_as_def store_load_def KillSwitchLossProtection_new_def)
  define q1 where "q1 = ?new\<lparr>lp_state := lp_state q, lp_daily_bucket := lp_daily_bucket q, lp_daily_realized_pnl := lp_daily_realized_pnl q,
    lp_settlement_currency := lp_settlement_currency q, lp_cumulative_position_pnl := lp_cumulative_position_pnl q,
    lp_closed_position_pnl := lp_closed_position_pnl q, lp_adjusted_position_pnl := lp_adjusted_position_pnl q,
    lp_pending_halt_actions := map_option (\<lambda>a. \<lparr>pa_state = lp_state q, pa_next_retry_at_unix_nanos = pa_next_retry_at_unix_nanos a,
      pa_retry_deadline_unix_nanos = pa_retry_deadline_unix_nanos a\<rparr>) (lp_pending_halt_actions q)\<rparr>"
  have currency: "(case settlement_currency (loss_snapshot E q) of None \<Rightarrow> act_return None
      | Some code \<Rightarrow> act_option (map_option Some (cur_from_str (env_money E) code))) = act_return (lp_settlement_currency q)"
    using assms(1) by (auto simp: loss_snapshot_def money_codes_def act_option_def split: option.split)
  have applied: "apply_loss_snapshot E (loss_snapshot E q) (?new\<lparr>lp_state := lp_state q\<rparr>) = Some (Inr (), q1)"
    unfolding apply_loss_snapshot_def currency
    by (simp add: act_defs loss_snapshot_def q1_def option.map_comp comp_def)
  have breached: "realized_loss_breached E q1 = realized_loss_breached E q"
    by (simp add: realized_loss_breached_def q1_def KillSwitchLossProtection_new_def)
  have "resume_halt_actions E clock (lp_state q) q1 = Some (Inr (lp_state q), q1\<lparr>lp_admission := lp_state q, lp_state := lp_state q\<rparr>)"
    using kind by (auto simp: resume_halt_actions_def act_defs enter_state_def)
  then have "seed_from_store E clock ?new = Some (Inr (lp_state q), q1\<lparr>lp_admission := lp_state q, lp_state := lp_state q\<rparr>)"
    using kind load applied breached assms(4) by (auto simp: seed_from_store_def act_defs Let_def)
  then show ?thesis by (simp add: q1_def accounts_def books_def KillSwitchLossProtection_new_def)
qed

text \<open>
  C26. What is counted survives a restart. When a protection reached after recovery processes a new
  position observation of the current or a later day without error, a restart on its file recovers
  the same kill switch state, puts it into the admission, and restores the daily total, the bucket,
  the currency and all position maps.
\<close>

theorem restart_restores_books:
  assumes "store_reads E" and "comparisons_reflexive E" and "zero_is_no_loss (env_decimal E)"
    and "seed_from_store E clock (KillSwitchLossProtection_new E config admission store sink) = Some (r0, p0)"
    and "\<And>e. r0 \<noteq> Inl (RecoveryLoadFailed e)"
    and "loss_run E calls p0 = Some p" and "lp_state p = Armed" and "in_loss_scope (lp_config p) observation"
    and "\<And>b. lp_daily_bucket p = Some b \<Longrightarrow> b \<le> bucket_of (ro_observed_at_unix_nanos (po_observed observation))"
    and "\<not> noted E observation (lp_cumulative_position_pnl p) (lp_closed_position_pnl p) (lp_adjusted_position_pnl p)"
    and "record_position_realized_pnl E observation p = Some (Inr r, q)" and "st_readable (lp_store q)"
  shows "\<exists>q'. seed_from_store E clock' (KillSwitchLossProtection_new E (lp_config q) admission' (lp_store q) sink') =
      Some (Inr (lp_state q), q') \<and>
    lp_state q' = lp_state q \<and> lp_admission q' = lp_state q \<and> accounts q' = accounts q \<and> lp_store q' = lp_store q"
proof -
  have wf: "books_wf E p" using reachable_books_wf [OF assms(2,4,6)] .
  have "saved E q" using wpD [OF record_saves [OF assms(1,2) wf assms(7-10)] assms(11)] by simp
  moreover have "latched E None p0" using wpD [OF seed_latched assms(4)] assms(5) by blast
  then have "latched E None p" using loss_run_latched [OF assms(3) _ assms(6)] by blast
  then have "latched E None q" using wpD [OF record_position_latched [OF assms(3)] assms(11)] by blast
  then have "lp_state q = Armed \<Longrightarrow> \<not> realized_loss_breached E q" by (simp add: latched_def)
  ultimately show ?thesis using assms(1,12) by (intro seed_saved) (simp_all add: store_reads_def)
qed

lemma coded_store_reads: "store_reads coded_env"
  using coded_hypotheses by (simp add: store_reads_def)

theorem restart_restores_books_witness:
  "\<exists>q'. seed_from_store coded_env 9 (KillSwitchLossProtection_new coded_env (lp_config coded_counted) Armed (lp_store coded_counted) demo_sink) =
      Some (Inr Armed, q') \<and> lp_daily_realized_pnl q' = - 3"
proof -
  have new: "lp_daily_bucket coded_protection = None" "\<not> noted coded_env coded_loss (lp_cumulative_position_pnl coded_protection)
      (lp_closed_position_pnl coded_protection) (lp_adjusted_position_pnl coded_protection)" "st_readable (lp_store coded_counted)"
    by (simp_all add: coded_protection_def coded_counted_def KillSwitchLossProtection_new_def noted_def coded_loss_def bt_get_def
        next_write_def demo_store_def)
  have "loss_run coded_env [] coded_protection = Some coded_protection" by simp
  from restart_restores_books [OF coded_store_reads coded_hypotheses(1,3) coded_seed [unfolded coded_protection_def] _
      this [unfolded coded_protection_def] coded_state(1) [unfolded coded_protection_def] coded_state(3) [unfolded coded_protection_def]
      _ new(2) [unfolded coded_protection_def] coded_record [unfolded coded_protection_def] new(3), of 9 Armed demo_sink]
  show ?thesis using new(1) coded_state(2)
    by (auto simp: accounts_def coded_protection_def coded_counted_def)
qed

end
