(* ===== verification/LossRetry.thy ===== *)
theory LossRetry
  imports LossProtectionSafety
begin

text \<open>
  The retries of halt actions: times saturate instead of wrapping, and between the first failure and
  the deadline the action sink is called a bounded number of times.
\<close>

declare sum.case_cong [cong]

section \<open>Saturating times\<close>

lemma unat_saturating_add: "unat (saturating_add a b) = min (2 ^ 64 - 1) (unat a + unat b)"
proof (cases "checked_add a b")
  case (Some c)
  then have "unat c = unat a + unat b" by (rule unat_checked_add)
  moreover have "unat c < 2 ^ 64" using unat_u64_bound [of c] by simp
  ultimately show ?thesis using Some by (simp add: saturating_add_def)
next
  case None
  then have "\<not> unat a + unat b < 2 ^ 64" by (simp add: checked_add_def split: if_splits)
  then show ?thesis using None by (simp add: saturating_add_def unat_max_u64)
qed

lemma unat_saturating_mul: "unat (saturating_mul a b) = min (2 ^ 64 - 1) (unat a * unat b)"
proof (cases "checked_mul a b")
  case (Some c)
  then have "unat c = unat a * unat b" by (rule unat_checked_mul)
  moreover have "unat c < 2 ^ 64" using unat_u64_bound [of c] by simp
  ultimately show ?thesis using Some by (simp add: saturating_mul_def)
next
  case None
  then have "\<not> unat a * unat b < 2 ^ 64" by (simp add: checked_mul_def split: if_splits)
  then show ?thesis using None by (simp add: saturating_mul_def unat_max_u64)
qed

lemma unat_add_millis:
  "unat (add_millis t ms) = min (2 ^ 64 - 1) (unat t + min (2 ^ 64 - 1) (unat ms * 1000000))"
  by (simp add: add_millis_def unat_saturating_add unat_saturating_mul NANOS_PER_MILLISECOND_def)

section \<open>Retries\<close>

abbreviation emissions :: "('d, 'c) KillSwitchLossProtection \<Rightarrow> nat" where
  "emissions p \<equiv> length (sk_emitted (lp_action_sink p))"

text \<open>
  After \<open>n\<close> calls of the sink, with \<open>N\<close> the first retry time, \<open>D\<close> the deadline and \<open>I\<close> the interval
  in nanoseconds, the next retry is at \<open>N + n I\<close> or later.
\<close>

definition retrying :: "nat \<Rightarrow> nat \<Rightarrow> nat \<Rightarrow> nat \<Rightarrow> ('d, 'c) KillSwitchLossProtection \<Rightarrow> bool" where
  "retrying n0 N D I p \<longleftrightarrow>
     lp_state p \<noteq> Armed \<and> unat (lc_action_retry_interval_ms (lp_config p)) * 1000000 = I \<and>
     n0 \<le> emissions p \<and> emissions p \<le> n0 + Suc ((D - N) div I) \<and>
     (\<forall>a. lp_pending_halt_actions p = Some a \<longrightarrow>
        is_halting (pa_state a) \<and> unat (pa_retry_deadline_unix_nanos a) = D \<and> N + (emissions p - n0) * I \<le> unat (pa_next_retry_at_unix_nanos a))"

lemma wp_emit_once:
  assumes "\<And>r sink. length (sk_emitted sink) \<in> {emissions p, Suc (emissions p)} \<Longrightarrow> Q r (p\<lparr>lp_action_sink := sink\<rparr>)"
  shows "wp (emit_halt_actions state) Q p"
proof (cases "halt_id_of state")
  case None
  then show ?thesis using assms [of "lp_action_sink p" "Inr ()"] by (simp add: emit_halt_actions_def)
next
  case (Some h)
  then show ?thesis using assms by (auto simp: emit_halt_actions_def sink_emit_def wp_def act_bind_def act_get_def Let_def)
qed

lemma persist_retrying:
  "retrying n0 N D I p \<Longrightarrow> wp (persist_runtime_snapshot_or_fail_closed E) (\<lambda>_. retrying n0 N D I) p"
  by (rule wp_persist_runtime) (auto simp: retrying_def)

lemma record_halt_retrying:
  assumes "retrying n0 N D I (p\<lparr>lp_pending_halt_actions := None\<rparr>)" and "is_halting state"
  shows "wp (record_halt_actions_recorded E state) (\<lambda>_. retrying n0 N D I) p"
proof -
  have "wp (persist_runtime_snapshot_or_fail_closed E) (\<lambda>_. retrying n0 N D I)
      (p\<lparr>lp_pending_halt_actions := None, lp_admission := Halted h t, lp_state := Halted h t\<rparr>)" for h t
    using assms(1) by (intro persist_retrying) (simp add: retrying_def)
  then show ?thesis using assms(2)
    by (cases state) (simp_all add: record_halt_actions_recorded_def loss_transition_def transition_defs enter_state_def)
qed

lemma fail_halt_retrying:
  assumes "retrying n0 N D I p" and "is_halting state"
  shows "wp (fail_halt_actions E state reason) (\<lambda>_. retrying n0 N D I) p"
proof -
  have "wp (persist_failed_state_or_invalidate E (FailedManualIntervention h reason)) (\<lambda>_. retrying n0 N D I)
      (p\<lparr>lp_admission := FailedManualIntervention h reason, lp_state := FailedManualIntervention h reason\<rparr>)" for h
    using assms(1) by (intro wp_persist_failed) (simp add: retrying_def)
  then show ?thesis using assms(2)
    by (cases state) (simp_all add: fail_halt_actions_def loss_transition_def transition_defs enter_state_def)
qed

lemma retrying_emitted:
  assumes "retrying n0 N D I p" and "lp_pending_halt_actions p = Some a" and "0 < I"
    and "unat (pa_next_retry_at_unix_nanos a) \<le> D" and "length (sk_emitted sink) \<in> {emissions p, Suc (emissions p)}"
  shows "length (sk_emitted sink) \<le> n0 + Suc ((D - N) div I)"
proof -
  have "N + (emissions p - n0) * I \<le> D" using assms(1,2,4) by (auto simp: retrying_def)
  then have "(emissions p - n0) * I \<le> D - N" by simp
  then have "emissions p - n0 \<le> (D - N) div I" using assms(3) by (simp add: less_eq_div_iff_mult_less_eq)
  then show ?thesis using assms(5) by auto
qed

lemma poll_retrying:
  assumes "retrying n0 N D I p" and "0 < I" and "D + I < 2 ^ 64"
  shows "wp (poll_pending_halt_actions E t) (\<lambda>_. retrying n0 N D I) p"
proof (cases "lp_pending_halt_actions p")
  case (Some a)
  then have a: "is_halting (pa_state a)" "unat (pa_retry_deadline_unix_nanos a) = D"
    "N + (emissions p - n0) * I \<le> unat (pa_next_retry_at_unix_nanos a)" using assms(1) by (simp_all add: retrying_def)
  have config: "unat (lc_action_retry_interval_ms (lp_config p)) * 1000000 = I" using assms(1) by (simp add: retrying_def)
  consider "t < pa_next_retry_at_unix_nanos a"
    | "\<not> t < pa_next_retry_at_unix_nanos a" "pa_retry_deadline_unix_nanos a < t"
    | "\<not> t < pa_next_retry_at_unix_nanos a" "\<not> pa_retry_deadline_unix_nanos a < t" by blast
  then show ?thesis
  proof cases
    case 2
    have "wp (fail_halt_actions E (pa_state a) HALT_ACTION_RETRY_TIMEOUT_REASON) (\<lambda>r q. case r of Inl e \<Rightarrow> retrying n0 N D I q
        | Inr x \<Rightarrow> retrying n0 N D I (q\<lparr>lp_pending_halt_actions := None\<rparr>)) p"
      by (rule wp_mono [OF fail_halt_retrying [OF assms(1) a(1)]]) (auto simp: retrying_def split: sum.split)
    then show ?thesis using Some 2 by (simp add: poll_pending_halt_actions_def)
  next
    case 3
    then have times: "unat (pa_next_retry_at_unix_nanos a) \<le> unat t" "unat t \<le> D" by (simp_all add: a(2) [symmetric] word_le_nat_alt not_less)
    have next_retry: "unat (add_millis t (lc_action_retry_interval_ms (lp_config p))) = unat t + I"
      using config assms(3) times(2) by (simp add: unat_add_millis)
    have emitted: "retrying n0 N D I (p\<lparr>lp_action_sink := sink, lp_pending_halt_actions := None\<rparr>) \<and>
        retrying n0 N D I (p\<lparr>lp_action_sink := sink, lp_pending_halt_actions := Some \<lparr>pa_state = pa_state a,
          pa_next_retry_at_unix_nanos = add_millis t (lc_action_retry_interval_ms (lp_config p)),
          pa_retry_deadline_unix_nanos = pa_retry_deadline_unix_nanos a\<rparr>\<rparr>)"
      if n: "length (sk_emitted sink) \<in> {emissions p, Suc (emissions p)}" for sink
    proof -
      have "n0 \<le> emissions p" using assms(1) by (simp add: retrying_def)
      then have "length (sk_emitted sink) - n0 \<le> Suc (emissions p - n0)" using n by auto
      then have "(length (sk_emitted sink) - n0) * I \<le> Suc (emissions p - n0) * I" by (rule mult_le_mono1)
      then have "N + (length (sk_emitted sink) - n0) * I \<le> unat t + I" using a(3) times(1) by simp
      moreover have "length (sk_emitted sink) \<le> n0 + Suc ((D - N) div I)"
        using retrying_emitted [OF assms(1) Some assms(2) _ n] times by simp
      ultimately show ?thesis using assms(1) a n \<open>n0 \<le> emissions p\<close> next_retry by (auto simp: retrying_def)
    qed
    show ?thesis using Some 3
      apply (simp add: poll_pending_halt_actions_def)
      apply (rule wp_emit_once)
      subgoal for r sink
        using emitted [of sink] persist_retrying [of n0 N D I _ E] record_halt_retrying [of n0 N D I "p\<lparr>lp_action_sink := sink\<rparr>" _ E] a(1)
        by (cases r) simp_all
      done
  qed (use assms(1) Some in \<open>simp add: poll_pending_halt_actions_def\<close>)
qed (use assms(1) in \<open>simp add: poll_pending_halt_actions_def\<close>)

lemma loss_run_retrying:
  assumes "0 < I" and "D + I < 2 ^ 64"
  shows "retrying n0 N D I p \<Longrightarrow> loss_run E cs p = Some q \<Longrightarrow> retrying n0 N D I q"
proof (induction cs arbitrary: p)
  case (Cons c cs)
  then obtain r p' where step: "do_loss_call E c p = Some (r, p')" "loss_run E cs p' = Some q"
    by (auto split: option.splits)
  have polled: "wp (poll_pending_halt_actions E t) (\<lambda>_. retrying n0 N D I) p" for t
    using poll_retrying [OF Cons.prems(1) assms] .
  have "lp_state p \<noteq> Armed" using Cons.prems(1) by (simp add: retrying_def)
  then have "wp (do_loss_call E c) (\<lambda>_. retrying n0 N D I) p"
    using polled Cons.prems(1)
    by (cases c) (simp_all add: record_position_event_def record_position_realized_pnl_def record_realized_pnl_def split: option.split)
  from wpD [OF this step(1)] show ?case using Cons.IH step(2) by blast
qed simp

text \<open>
  C29. Retries are bounded. Once the dispatch of the halt actions has failed, with the next retry, the
  deadline and the interval configured, no sequence of observations and polls calls the action sink
  more often than the intervals that fit between the next retry and the deadline, plus one. The
  times are computed without wrap-around, whatever the clock says.
\<close>

theorem halt_retries_bounded:
  assumes "lp_state p \<noteq> Armed" and "lp_pending_halt_actions p = Some a" and "is_halting (pa_state a)"
    and "I = unat (lc_action_retry_interval_ms (lp_config p)) * 1000000" and "0 < I"
    and "unat (pa_retry_deadline_unix_nanos a) + I < 2 ^ 64"
    and "loss_run E calls p = Some q"
  shows "emissions p \<le> emissions q \<and>
    emissions q \<le> emissions p + Suc ((unat (pa_retry_deadline_unix_nanos a) - unat (pa_next_retry_at_unix_nanos a)) div I)"
proof -
  let ?N = "unat (pa_next_retry_at_unix_nanos a)" and ?D = "unat (pa_retry_deadline_unix_nanos a)"
  have "retrying (emissions p) ?N ?D I p" using assms(1-4) by (simp add: retrying_def)
  from loss_run_retrying [OF assms(5,6) this assms(7)] show ?thesis by (simp add: retrying_def)
qed

definition retry_protection :: "(int, string) KillSwitchLossProtection" where
  "retry_protection = demo_protection\<lparr>lp_state := Halting ''h'' demo_trigger, lp_admission := Halting ''h'' demo_trigger,
     lp_pending_halt_actions := Some \<lparr>pa_state = Halting ''h'' demo_trigger, pa_next_retry_at_unix_nanos = 1000000,
       pa_retry_deadline_unix_nanos = 9000000\<rparr>\<rparr>"

declare sum.case_cong_weak [cong]

theorem halt_retries_bounded_witness:
  "loss_run demo_env [PollCall 7] retry_protection = Some retry_protection \<and> emissions retry_protection \<le> 9"
proof -
  have run: "loss_run demo_env [PollCall 7] retry_protection = Some retry_protection"
    by (simp add: poll_pending_halt_actions_def act_defs retry_protection_def)
  have "emissions retry_protection = 0" "lp_state retry_protection \<noteq> Armed"
    "unat (lc_action_retry_interval_ms (lp_config retry_protection)) * 1000000 = 1000000"
    by (simp_all add: retry_protection_def demo_protection_def KillSwitchLossProtection_new_def demo_loss_config_def demo_sink_def)
  then show ?thesis using halt_retries_bounded [OF _ _ _ _ _ _ run, of "\<lparr>pa_state = Halting ''h'' demo_trigger,
      pa_next_retry_at_unix_nanos = 1000000, pa_retry_deadline_unix_nanos = 9000000\<rparr>" 1000000] run
    by (simp add: retry_protection_def)
qed

end
