(* ===== verification/CapitalReservation.thy ===== *)
theory CapitalReservation
  imports RustDecimal RustTrim
begin

text \<open>
  The reservation ledger of committed but unfilled capital (\<open>src/src/bolt_v3_capital_reservation.rs\<close>):
  reservations are accepted against a snapshot of the pool, revalued and released by later evidence.
  Decimals are a parameter; \<open>dmax\<close> is the largest one.
\<close>

section \<open>Data\<close>

record 'd CapitalPoolSnapshot =
  cp_source :: string
  cp_observed_at_ns :: u64
  cp_pool_id :: string
  cp_max_pool_liability :: 'd
  cp_committed_liability :: 'd
  cp_max_snapshot_age_ns :: u64

record 'd ReservationRequest =
  rq_request_id :: string
  rq_pool_id :: string
  rq_collateral_group_id :: string
  rq_liability :: 'd
  rq_observed_at_ns :: u64
  rq_evidence_label :: string

text \<open>A revaluation carries the same fields as a request.\<close>

type_synonym 'd ReservationRevalueRequest = "'d ReservationRequest"

record ReservationReleaseRequest =
  rl_request_id :: string
  rl_pool_id :: string
  rl_collateral_group_id :: string
  rl_observed_at_ns :: u64
  rl_evidence_label :: string

datatype ReservationRejectionReason =
    MissingReservationEvidence
  | StaleRequest
  | PoolMismatch
  | OverBudget
  | InvalidRequest
  | CollateralGroupMismatch
  | DuplicateReservation
  | UnknownReservation
  | UnknownRelease
  | ReconciliationRequired

record 'd ReservationDecision =
  rd_accepted :: bool
  rd_reason :: "ReservationRejectionReason option"
  rd_requested_liability :: 'd
  rd_available_before :: 'd
  rd_available_after :: "'d option"

record 'd ReservationReleaseDecision =
  ld_accepted :: bool
  ld_reason :: "ReservationRejectionReason option"
  ld_released_liability :: "'d option"

record 'd ReservationRevalueDecision =
  vd_accepted :: bool
  vd_reason :: "ReservationRejectionReason option"
  vd_previous_liability :: "'d option"
  vd_revalued_liability :: "'d option"

record 'd LiveReservation =
  lr_request_id :: string
  lr_pool_id :: string
  lr_collateral_group_id :: string
  lr_liability :: 'd
  lr_observed_at_ns :: u64

type_synonym 'd RetainedReservation = "'d LiveReservation"

record 'd ReservationLedger =
  live_reservations :: "'d LiveReservation list"
  reconciliation_complete :: bool

section \<open>Helpers\<close>

definition rejected_reservation :: "ReservationRejectionReason \<Rightarrow> 'd \<Rightarrow> 'd \<Rightarrow> 'd ReservationDecision" where
  "rejected_reservation reason requested available_before =
     \<lparr>rd_accepted = False, rd_reason = Some reason, rd_requested_liability = requested, rd_available_before = available_before,
      rd_available_after = None\<rparr>"

definition rejected_release :: "ReservationRejectionReason \<Rightarrow> 'd ReservationReleaseDecision" where
  "rejected_release reason = \<lparr>ld_accepted = False, ld_reason = Some reason, ld_released_liability = None\<rparr>"

definition rejected_revalue :: "ReservationRejectionReason \<Rightarrow> 'd ReservationRevalueDecision" where
  "rejected_revalue reason =
     \<lparr>vd_accepted = False, vd_reason = Some reason, vd_previous_liability = None, vd_revalued_liability = None\<rparr>"

definition missing_identity :: "string \<Rightarrow> string \<Rightarrow> string \<Rightarrow> bool" where
  "missing_identity request_id pool_id collateral_group_id \<longleftrightarrow>
     trim request_id = [] \<or> trim pool_id = [] \<or> trim collateral_group_id = []"

text \<open>The subtraction is only evaluated when it does not wrap.\<close>

definition stale_evidence :: "u64 \<Rightarrow> u64 \<Rightarrow> u64 \<Rightarrow> bool" where
  "stale_evidence observed_at_ns now_ns max_snapshot_age_ns \<longleftrightarrow>
     now_ns < observed_at_ns \<or> max_snapshot_age_ns < now_ns - observed_at_ns"

definition available_pool_liability :: "'d decimal_ops \<Rightarrow> 'd CapitalPoolSnapshot \<Rightarrow> 'd \<Rightarrow> 'd option" where
  "available_pool_liability D pool live_reserved =
     (case dec_sub D (cp_max_pool_liability pool) (cp_committed_liability pool) of
        None \<Rightarrow> None
      | Some free \<Rightarrow> dec_sub D free live_reserved)"

definition dec_le :: "'d decimal_ops \<Rightarrow> 'd \<Rightarrow> 'd \<Rightarrow> bool" where
  "dec_le D a b \<longleftrightarrow> dec_lt D a b \<or> dec_eq D a b"

text \<open>\<open>try_fold\<close> with \<open>checked_add\<close>.\<close>

fun try_sum_liability :: "'d decimal_ops \<Rightarrow> 'd \<Rightarrow> 'd list \<Rightarrow> 'd option" where
  "try_sum_liability D acc [] = Some acc"
| "try_sum_liability D acc (x # xs) = (case dec_add D acc x of None \<Rightarrow> None | Some acc' \<Rightarrow> try_sum_liability D acc' xs)"

definition live_reserved_liability :: "'d decimal_ops \<Rightarrow> 'd \<Rightarrow> 'd ReservationLedger \<Rightarrow> string \<Rightarrow> 'd" where
  "live_reserved_liability D dmax ledger pool_id =
     (case try_sum_liability D (dec_zero D) (map lr_liability (filter (\<lambda>r. lr_pool_id r = pool_id) (live_reservations ledger))) of
        None \<Rightarrow> dmax
      | Some liabilities \<Rightarrow> liabilities)"

definition reservation_matches :: "string \<Rightarrow> string \<Rightarrow> 'd LiveReservation \<Rightarrow> bool" where
  "reservation_matches pool_id request_id r \<longleftrightarrow> lr_pool_id r = pool_id \<and> lr_request_id r = request_id"

text \<open>\<open>Iterator::position\<close> and \<open>Vec::remove\<close>.\<close>

fun find_position :: "('a \<Rightarrow> bool) \<Rightarrow> 'a list \<Rightarrow> nat option" where
  "find_position f [] = None"
| "find_position f (x # xs) = (if f x then Some 0 else map_option Suc (find_position f xs))"

definition remove_at :: "nat \<Rightarrow> 'a list \<Rightarrow> 'a list" where
  "remove_at i xs = take i xs @ drop (Suc i) xs"

section \<open>The ledger\<close>

definition ledger_unreconciled :: "'d ReservationLedger" where
  "ledger_unreconciled = \<lparr>live_reservations = [], reconciliation_complete = False\<rparr>"

definition ledger_reconciled :: "'d ReservationLedger" where
  "ledger_reconciled = \<lparr>live_reservations = [], reconciliation_complete = True\<rparr>"

definition invalidate_reconciliation :: "'d ReservationLedger \<Rightarrow> 'd ReservationLedger" where
  "invalidate_reconciliation ledger = ledger\<lparr>reconciliation_complete := False\<rparr>"

definition below_minimum :: "'d decimal_ops \<Rightarrow> 'd option \<Rightarrow> 'd \<Rightarrow> bool" where
  "below_minimum D min_remaining available_after \<longleftrightarrow>
     (case min_remaining of None \<Rightarrow> False | Some minimum \<Rightarrow> dec_lt D available_after minimum)"

definition ledger_reserve :: "'d decimal_ops \<Rightarrow> 'd \<Rightarrow> 'd CapitalPoolSnapshot \<Rightarrow> 'd ReservationRequest \<Rightarrow> u64 \<Rightarrow> 'd option \<Rightarrow>
    'd ReservationLedger \<Rightarrow> 'd ReservationDecision \<times> 'd ReservationLedger" where
  "ledger_reserve D dmax pool request now_ns min_remaining ledger =
     (let requested = rq_liability request in
      case available_pool_liability D pool (live_reserved_liability D dmax ledger (cp_pool_id pool)) of
        None \<Rightarrow> (rejected_reservation OverBudget requested (dec_zero D), ledger)
      | Some available_before \<Rightarrow>
          if \<not> reconciliation_complete ledger then (rejected_reservation ReconciliationRequired requested available_before, ledger)
          else if cp_pool_id pool \<noteq> rq_pool_id request then (rejected_reservation PoolMismatch requested available_before, ledger)
          else if missing_identity (rq_request_id request) (rq_pool_id request) (rq_collateral_group_id request) \<or>
            dec_le D requested (dec_zero D)
          then (rejected_reservation InvalidRequest requested available_before, ledger)
          else if trim (cp_source pool) = [] \<or> trim (rq_evidence_label request) = []
          then (rejected_reservation MissingReservationEvidence requested available_before, ledger)
          else if stale_evidence (cp_observed_at_ns pool) now_ns (cp_max_snapshot_age_ns pool) \<or>
            stale_evidence (rq_observed_at_ns request) now_ns (cp_max_snapshot_age_ns pool) \<or>
            rq_observed_at_ns request < cp_observed_at_ns pool
          then (rejected_reservation StaleRequest requested available_before, ledger)
          else if list_ex (reservation_matches (rq_pool_id request) (rq_request_id request)) (live_reservations ledger)
          then (rejected_reservation DuplicateReservation requested available_before, ledger)
          else if dec_lt D available_before requested then (rejected_reservation OverBudget requested available_before, ledger)
          else
            (case dec_sub D available_before requested of
               None \<Rightarrow> (rejected_reservation OverBudget requested available_before, ledger)
             | Some available_after \<Rightarrow>
                 if below_minimum D min_remaining available_after
                 then (rejected_reservation OverBudget requested available_before, ledger)
                 else
                   (\<lparr>rd_accepted = True, rd_reason = None, rd_requested_liability = requested,
                     rd_available_before = available_before, rd_available_after = Some available_after\<rparr>,
                    ledger\<lparr>live_reservations := live_reservations ledger @
                      [\<lparr>lr_request_id = rq_request_id request, lr_pool_id = rq_pool_id request,
                        lr_collateral_group_id = rq_collateral_group_id request, lr_liability = requested,
                        lr_observed_at_ns = rq_observed_at_ns request\<rparr>]\<rparr>)))"

definition rollback_uncommitted :: "string \<Rightarrow> string \<Rightarrow> 'd ReservationLedger \<Rightarrow> 'd option \<times> 'd ReservationLedger" where
  "rollback_uncommitted pool_id request_id ledger =
     (case find_position (reservation_matches pool_id request_id) (live_reservations ledger) of
        None \<Rightarrow> (None, ledger)
      | Some index \<Rightarrow>
          (Some (lr_liability (live_reservations ledger ! index)),
           ledger\<lparr>live_reservations := remove_at index (live_reservations ledger)\<rparr>))"

definition remove_existing :: "string \<Rightarrow> string \<Rightarrow> string \<Rightarrow> 'd ReservationLedger \<Rightarrow> 'd ReservationReleaseDecision \<times> 'd ReservationLedger" where
  "remove_existing pool_id collateral_group_id request_id ledger =
     (case find_position (reservation_matches pool_id request_id) (live_reservations ledger) of
        None \<Rightarrow> (rejected_release UnknownRelease, ledger)
      | Some index \<Rightarrow>
          if lr_collateral_group_id (live_reservations ledger ! index) \<noteq> collateral_group_id
          then (rejected_release CollateralGroupMismatch, ledger)
          else
            (\<lparr>ld_accepted = True, ld_reason = None, ld_released_liability = Some (lr_liability (live_reservations ledger ! index))\<rparr>,
             ledger\<lparr>live_reservations := remove_at index (live_reservations ledger)\<rparr>))"

definition retained_reservation :: "string \<Rightarrow> string \<Rightarrow> string \<Rightarrow> 'd ReservationLedger \<Rightarrow> ReservationRejectionReason + 'd RetainedReservation" where
  "retained_reservation pool_id collateral_group_id request_id ledger =
     (case find (reservation_matches pool_id request_id) (live_reservations ledger) of
        None \<Rightarrow> Inl UnknownReservation
      | Some r \<Rightarrow> if lr_collateral_group_id r \<noteq> collateral_group_id then Inl CollateralGroupMismatch else Inr r)"

definition carry_retained :: "'d decimal_ops \<Rightarrow> string \<Rightarrow> 'd RetainedReservation \<Rightarrow> 'd ReservationLedger \<Rightarrow>
    (ReservationRejectionReason + 'd) \<times> 'd ReservationLedger" where
  "carry_retained D pool_id r ledger =
     (if lr_pool_id r \<noteq> pool_id then (Inl PoolMismatch, ledger)
      else if missing_identity (lr_request_id r) (lr_pool_id r) (lr_collateral_group_id r) \<or> dec_le D (lr_liability r) (dec_zero D)
      then (Inl InvalidRequest, ledger)
      else if list_ex (reservation_matches (lr_pool_id r) (lr_request_id r)) (live_reservations ledger)
      then (Inl DuplicateReservation, ledger)
      else (Inr (lr_liability r), ledger\<lparr>live_reservations := live_reservations ledger @ [r]\<rparr>))"

definition ledger_release :: "'d CapitalPoolSnapshot \<Rightarrow> ReservationReleaseRequest \<Rightarrow> u64 \<Rightarrow> 'd ReservationLedger \<Rightarrow>
    'd ReservationReleaseDecision \<times> 'd ReservationLedger" where
  "ledger_release pool request now_ns ledger =
     (if \<not> reconciliation_complete ledger then (rejected_release ReconciliationRequired, ledger)
      else if cp_pool_id pool \<noteq> rl_pool_id request then (rejected_release PoolMismatch, ledger)
      else if missing_identity (rl_request_id request) (rl_pool_id request) (rl_collateral_group_id request)
      then (rejected_release InvalidRequest, ledger)
      else if trim (cp_source pool) = [] \<or> trim (rl_evidence_label request) = []
      then (rejected_release MissingReservationEvidence, ledger)
      else if stale_evidence (cp_observed_at_ns pool) now_ns (cp_max_snapshot_age_ns pool) \<or>
        stale_evidence (rl_observed_at_ns request) now_ns (cp_max_snapshot_age_ns pool)
      then (rejected_release StaleRequest, ledger)
      else
        (case find_position (reservation_matches (rl_pool_id request) (rl_request_id request)) (live_reservations ledger) of
           None \<Rightarrow> (rejected_release UnknownRelease, ledger)
         | Some index \<Rightarrow>
             let r = live_reservations ledger ! index in
             if lr_pool_id r \<noteq> cp_pool_id pool then (rejected_release PoolMismatch, ledger)
             else if lr_collateral_group_id r \<noteq> rl_collateral_group_id request then (rejected_release CollateralGroupMismatch, ledger)
             else if rl_observed_at_ns request \<le> lr_observed_at_ns r then (rejected_release StaleRequest, ledger)
             else
               (\<lparr>ld_accepted = True, ld_reason = None, ld_released_liability = Some (lr_liability r)\<rparr>,
                ledger\<lparr>live_reservations := remove_at index (live_reservations ledger)\<rparr>)))"

definition ledger_revalue :: "'d decimal_ops \<Rightarrow> 'd \<Rightarrow> 'd CapitalPoolSnapshot \<Rightarrow> 'd ReservationRevalueRequest \<Rightarrow> u64 \<Rightarrow> 'd option \<Rightarrow>
    'd ReservationLedger \<Rightarrow> 'd ReservationRevalueDecision \<times> 'd ReservationLedger" where
  "ledger_revalue D dmax pool request now_ns min_remaining ledger =
     (if \<not> reconciliation_complete ledger then (rejected_revalue ReconciliationRequired, ledger)
      else if cp_pool_id pool \<noteq> rq_pool_id request then (rejected_revalue PoolMismatch, ledger)
      else if missing_identity (rq_request_id request) (rq_pool_id request) (rq_collateral_group_id request) \<or>
        dec_le D (rq_liability request) (dec_zero D)
      then (rejected_revalue InvalidRequest, ledger)
      else if trim (cp_source pool) = [] \<or> trim (rq_evidence_label request) = []
      then (rejected_revalue MissingReservationEvidence, ledger)
      else if stale_evidence (cp_observed_at_ns pool) now_ns (cp_max_snapshot_age_ns pool) \<or>
        stale_evidence (rq_observed_at_ns request) now_ns (cp_max_snapshot_age_ns pool)
      then (rejected_revalue StaleRequest, ledger)
      else
        (case find_position (reservation_matches (rq_pool_id request) (rq_request_id request)) (live_reservations ledger) of
           None \<Rightarrow> (rejected_revalue UnknownReservation, ledger)
         | Some index \<Rightarrow>
             let r = live_reservations ledger ! index in
             if lr_pool_id r \<noteq> cp_pool_id pool then (rejected_revalue PoolMismatch, ledger)
             else if lr_collateral_group_id r \<noteq> rq_collateral_group_id request then (rejected_revalue CollateralGroupMismatch, ledger)
             else if rq_observed_at_ns request \<le> lr_observed_at_ns r then (rejected_revalue StaleRequest, ledger)
             else
               (case (case available_pool_liability D pool (live_reserved_liability D dmax ledger (cp_pool_id pool)) of
                        None \<Rightarrow> None
                      | Some available \<Rightarrow> dec_add D available (lr_liability r)) of
                  None \<Rightarrow> (rejected_revalue OverBudget, ledger)
                | Some available_before \<Rightarrow>
                    if dec_lt D available_before (rq_liability request) then (rejected_revalue OverBudget, ledger)
                    else
                      (case dec_sub D available_before (rq_liability request) of
                         None \<Rightarrow> (rejected_revalue OverBudget, ledger)
                       | Some available_after \<Rightarrow>
                           if below_minimum D min_remaining available_after then (rejected_revalue OverBudget, ledger)
                           else
                             (\<lparr>vd_accepted = True, vd_reason = None, vd_previous_liability = Some (lr_liability r),
                               vd_revalued_liability = Some (rq_liability request)\<rparr>,
                              ledger\<lparr>live_reservations := (live_reservations ledger)
                                [index := r\<lparr>lr_liability := rq_liability request, lr_observed_at_ns := rq_observed_at_ns request\<rparr>]\<rparr>)))))"

end
