(* ===== verification/CapitalSafety.thy ===== *)
theory CapitalSafety
  imports CapitalReservation
begin

text \<open>
  Safety of the reservation ledger: whatever is reserved, revalued, released and rolled back, the
  live reservations of a pool stay within what its snapshots leave free, and a reservation is
  accepted exactly when it is valid, fresh, new and fits.
\<close>

section \<open>Amounts\<close>

text \<open>What the decimal crate promises of its range: there is a largest amount, and only results beyond it overflow.\<close>

definition decimal_bounded :: "'d decimal_ops \<Rightarrow> ('d \<Rightarrow> rat) \<Rightarrow> 'd \<Rightarrow> bool" where
  "decimal_bounded D val dmax \<longleftrightarrow>
     (\<forall>d. \<bar>val d\<bar> \<le> val dmax) \<and>
     (\<forall>a b. \<bar>val a + val b\<bar> \<le> val dmax \<longrightarrow> dec_add D a b \<noteq> None) \<and>
     (\<forall>a b. \<bar>val a - val b\<bar> \<le> val dmax \<longrightarrow> dec_sub D a b \<noteq> None)"

lemma decimal_boundedD:
  assumes "decimal_bounded D val dmax"
  shows "\<bar>val d\<bar> \<le> val dmax"
    "dec_add D a b = None \<Longrightarrow> val dmax < \<bar>val a + val b\<bar>"
    "dec_sub D a b = None \<Longrightarrow> val dmax < \<bar>val a - val b\<bar>"
proof -
  show "\<bar>val d\<bar> \<le> val dmax" using assms by (simp add: decimal_bounded_def)
  have "\<bar>val a + val b\<bar> \<le> val dmax \<longrightarrow> dec_add D a b \<noteq> None" "\<bar>val a - val b\<bar> \<le> val dmax \<longrightarrow> dec_sub D a b \<noteq> None"
    using assms unfolding decimal_bounded_def by blast+
  then show "dec_add D a b = None \<Longrightarrow> val dmax < \<bar>val a + val b\<bar>" "dec_sub D a b = None \<Longrightarrow> val dmax < \<bar>val a - val b\<bar>"
    by (simp_all add: not_le [symmetric])
qed

definition reserved :: "('d \<Rightarrow> rat) \<Rightarrow> string \<Rightarrow> 'd LiveReservation list \<Rightarrow> rat" where
  "reserved val P rs = sum_list (map (\<lambda>r. val (lr_liability r)) (filter (\<lambda>r. lr_pool_id r = P) rs))"

lemma reserved_simps [simp]:
  "reserved val P [] = 0"
  "reserved val P (r # rs) = (if lr_pool_id r = P then val (lr_liability r) else 0) + reserved val P rs"
  "reserved val P (rs @ ss) = reserved val P rs + reserved val P ss"
  by (simp_all add: reserved_def)

definition reservation_key :: "'d LiveReservation \<Rightarrow> string \<times> string" where
  "reservation_key r = (lr_pool_id r, lr_request_id r)"

definition ledger_wf :: "('d \<Rightarrow> rat) \<Rightarrow> 'd LiveReservation list \<Rightarrow> bool" where
  "ledger_wf val rs \<longleftrightarrow>
     (\<forall>r \<in> set rs. 0 < val (lr_liability r) \<and> \<not> missing_identity (lr_request_id r) (lr_pool_id r) (lr_collateral_group_id r)) \<and>
     distinct (map reservation_key rs)"

lemma reserved_nonneg: "ledger_wf val rs \<Longrightarrow> 0 \<le> reserved val P rs"
  by (auto simp: ledger_wf_def reserved_def less_imp_le intro!: sum_list_nonneg)

lemma dec_le_iff: "decimal_exact D val \<Longrightarrow> dec_le D a b \<longleftrightarrow> val a \<le> val b"
  by (auto simp: dec_le_def decimal_exactD)

lemma try_sum_value:
  assumes D: "decimal_exact D val" "decimal_bounded D val dmax" and "\<forall>x \<in> set xs. 0 \<le> val x" and "0 \<le> val acc"
  shows "case try_sum_liability D acc xs of
      Some s \<Rightarrow> val s = val acc + sum_list (map val xs) \<and> val s \<le> val dmax
    | None \<Rightarrow> val dmax < val acc + sum_list (map val xs)"
  using assms(3,4)
proof (induction xs arbitrary: acc)
  case Nil
  have "\<bar>val acc\<bar> \<le> val dmax" using decimal_boundedD(1) [OF D(2)] .
  then show ?case by simp
next
  case (Cons x xs)
  have rest: "0 \<le> sum_list (map val xs)" using Cons.prems(1) by (auto intro!: sum_list_nonneg)
  show ?case
  proof (cases "dec_add D acc x")
    case None
    then have "val dmax < \<bar>val acc + val x\<bar>" using decimal_boundedD(2) [OF D(2)] by blast
    then show ?thesis using None Cons.prems rest by simp
  next
    case (Some acc')
    then have "val acc' = val acc + val x" using decimal_exactD(2) [OF D(1)] by blast
    then show ?thesis using Some Cons.IH [of acc'] Cons.prems by (simp add: algebra_simps split: option.splits)
  qed
qed

lemma live_reserved_value:
  assumes "decimal_exact D val" and "decimal_bounded D val dmax" and "ledger_wf val (live_reservations ledger)"
  shows "val (live_reserved_liability D dmax ledger P) = min (val dmax) (reserved val P (live_reservations ledger))"
proof -
  let ?xs = "map lr_liability (filter (\<lambda>r. lr_pool_id r = P) (live_reservations ledger))"
  have "\<forall>x \<in> set ?xs. 0 \<le> val x" using assms(3) by (auto simp: ledger_wf_def less_imp_le)
  moreover have "val (dec_zero D) = 0" using assms(1) by (simp add: decimal_exactD)
  ultimately show ?thesis using try_sum_value [OF assms(1,2), of ?xs "dec_zero D"]
    by (auto simp: live_reserved_liability_def reserved_def comp_def split: option.splits)
qed

lemma available_value:
  assumes D: "decimal_exact D val" "decimal_bounded D val dmax" and wf: "ledger_wf val (live_reservations ledger)"
    and "available_pool_liability D pool (live_reserved_liability D dmax ledger P) = Some available"
  shows "val available = val (cp_max_pool_liability pool) - val (cp_committed_liability pool) -
      min (val dmax) (reserved val P (live_reservations ledger))"
    and "val (cp_max_pool_liability pool) - val (cp_committed_liability pool) \<le> val dmax"
proof -
  obtain free where free: "dec_sub D (cp_max_pool_liability pool) (cp_committed_liability pool) = Some free"
    "dec_sub D free (live_reserved_liability D dmax ledger P) = Some available"
    using assms(4) by (auto simp: available_pool_liability_def split: option.splits)
  note vals = free [THEN decimal_exactD(3) [OF D(1)]]
  then show "val available = val (cp_max_pool_liability pool) - val (cp_committed_liability pool) -
      min (val dmax) (reserved val P (live_reservations ledger))"
    by (simp add: live_reserved_value [OF D wf])
  have "\<bar>val free\<bar> \<le> val dmax" using decimal_boundedD(1) [OF D(2)] .
  then show "val (cp_max_pool_liability pool) - val (cp_committed_liability pool) \<le> val dmax" using vals by simp
qed

section \<open>Positions in the list\<close>

lemma find_position_Some:
  "find_position f xs = Some i \<Longrightarrow> i < length xs \<and> f (xs ! i)"
  by (induction xs arbitrary: i) (auto split: if_splits)

lemma set_remove_at: "set (remove_at i xs) \<subseteq> set xs"
  by (auto simp: remove_at_def dest: in_set_takeD in_set_dropD)

lemma distinct_remove_at: "distinct (map f xs) \<Longrightarrow> distinct (map f (remove_at i xs))"
proof (induction xs arbitrary: i)
  case (Cons x xs)
  then show ?case using set_remove_at [of "i - 1" xs]
    by (cases i) (auto simp: remove_at_def)
qed (simp add: remove_at_def)

lemma remove_at_wf: "ledger_wf val rs \<Longrightarrow> ledger_wf val (remove_at i rs)"
  using set_remove_at [of i rs] by (auto simp: ledger_wf_def distinct_remove_at)

lemma reserved_at:
  assumes "i < length rs"
  shows "reserved val P rs = reserved val P (remove_at i rs) + (if lr_pool_id (rs ! i) = P then val (lr_liability (rs ! i)) else 0)"
proof -
  have "reserved val P rs = reserved val P (take i rs @ rs ! i # drop (Suc i) rs)"
    using id_take_nth_drop [OF assms] by (rule arg_cong)
  also have "\<dots> = reserved val P (remove_at i rs) + (if lr_pool_id (rs ! i) = P then val (lr_liability (rs ! i)) else 0)"
    by (simp only: reserved_simps remove_at_def ac_simps)
  finally show ?thesis .
qed

lemma reserved_update:
  "i < length rs \<Longrightarrow> lr_pool_id r = lr_pool_id (rs ! i) \<Longrightarrow>
     reserved val P (rs[i := r]) = reserved val P (remove_at i rs) + (if lr_pool_id (rs ! i) = P then val (lr_liability r) else 0)"
  by (simp add: remove_at_def upd_conv_take_nth_drop)

lemma update_wf:
  assumes "ledger_wf val rs" and "i < length rs" and "reservation_key r = reservation_key (rs ! i)"
    and "lr_collateral_group_id r = lr_collateral_group_id (rs ! i)" and "0 < val (lr_liability r)"
  shows "ledger_wf val (rs[i := r])"
proof -
  have "map reservation_key (rs[i := r]) = map reservation_key rs"
    using assms(2,3) by (simp add: map_update list_update_same_conv)
  moreover have "rs ! i \<in> set rs" using assms(2) by simp
  ultimately show ?thesis using assms set_update_subset_insert [of rs i r]
    by (auto simp: ledger_wf_def reservation_key_def)
qed

section \<open>Accepted requests\<close>

definition request_entry :: "'d ReservationRequest \<Rightarrow> 'd LiveReservation" where
  "request_entry request = \<lparr>lr_request_id = rq_request_id request, lr_pool_id = rq_pool_id request,
     lr_collateral_group_id = rq_collateral_group_id request, lr_liability = rq_liability request,
     lr_observed_at_ns = rq_observed_at_ns request\<rparr>"

definition reserve_guards :: "'d decimal_ops \<Rightarrow> 'd CapitalPoolSnapshot \<Rightarrow> 'd ReservationRequest \<Rightarrow> u64 \<Rightarrow> 'd ReservationLedger \<Rightarrow> bool" where
  "reserve_guards D pool request now_ns ledger \<longleftrightarrow>
     reconciliation_complete ledger \<and> cp_pool_id pool = rq_pool_id request \<and>
     \<not> missing_identity (rq_request_id request) (rq_pool_id request) (rq_collateral_group_id request) \<and>
     \<not> dec_le D (rq_liability request) (dec_zero D) \<and> trim (cp_source pool) \<noteq> [] \<and> trim (rq_evidence_label request) \<noteq> [] \<and>
     \<not> stale_evidence (cp_observed_at_ns pool) now_ns (cp_max_snapshot_age_ns pool) \<and>
     \<not> stale_evidence (rq_observed_at_ns request) now_ns (cp_max_snapshot_age_ns pool) \<and>
     \<not> rq_observed_at_ns request < cp_observed_at_ns pool \<and>
     \<not> list_ex (reservation_matches (rq_pool_id request) (rq_request_id request)) (live_reservations ledger)"

text \<open>The amounts an accepted request is measured against: what is available before it and after it.\<close>

definition reserve_amounts :: "'d decimal_ops \<Rightarrow> 'd \<Rightarrow> 'd CapitalPoolSnapshot \<Rightarrow> 'd ReservationRequest \<Rightarrow> 'd option \<Rightarrow>
    'd ReservationLedger \<Rightarrow> 'd \<times> 'd \<Rightarrow> bool" where
  "reserve_amounts D dmax pool request min_remaining ledger = (\<lambda>(available_before, available_after).
     available_pool_liability D pool (live_reserved_liability D dmax ledger (cp_pool_id pool)) = Some available_before \<and>
     \<not> dec_lt D available_before (rq_liability request) \<and>
     dec_sub D available_before (rq_liability request) = Some available_after \<and> \<not> below_minimum D min_remaining available_after)"

lemma reserve_accepted:
  assumes "reserve_guards D pool request now_ns ledger" and "reserve_amounts D dmax pool request min_remaining ledger (a, b)"
  shows "ledger_reserve D dmax pool request now_ns min_remaining ledger =
    (\<lparr>rd_accepted = True, rd_reason = None, rd_requested_liability = rq_liability request, rd_available_before = a, rd_available_after = Some b\<rparr>,
     ledger\<lparr>live_reservations := live_reservations ledger @ [request_entry request]\<rparr>)"
  using assms unfolding ledger_reserve_def reserve_guards_def reserve_amounts_def Let_def request_entry_def
  by simp

lemma reserve_refused:
  assumes "\<not> (reserve_guards D pool request now_ns ledger \<and> (\<exists>ab. reserve_amounts D dmax pool request min_remaining ledger ab))"
    and "ledger_reserve D dmax pool request now_ns min_remaining ledger = (decision, ledger')"
  shows "\<not> rd_accepted decision" and "rd_reason decision \<noteq> None" and "ledger' = ledger" and "rd_available_after decision = None"
proof -
  have "\<not> rd_accepted decision \<and> rd_reason decision \<noteq> None \<and> ledger' = ledger \<and> rd_available_after decision = None"
  proof (cases "available_pool_liability D pool (live_reserved_liability D dmax ledger (cp_pool_id pool))")
    case None
    then show ?thesis using assms(2) by (auto simp: ledger_reserve_def rejected_reservation_def)
  next
    case (Some a)
    show ?thesis
    proof (cases "reserve_guards D pool request now_ns ledger")
      case True
      then have "\<nexists>ab. reserve_amounts D dmax pool request min_remaining ledger ab" using assms(1) by blast
      then have "dec_lt D a (rq_liability request) \<or> (\<forall>b. dec_sub D a (rq_liability request) = Some b \<longrightarrow> below_minimum D min_remaining b)"
        using Some by (auto simp: reserve_amounts_def)
      then show ?thesis using assms(2) Some True
        by (auto simp: ledger_reserve_def reserve_guards_def rejected_reservation_def Let_def split: option.splits if_split_asm)
    next
      case False
      then show ?thesis using assms(2) Some
        unfolding ledger_reserve_def reserve_guards_def rejected_reservation_def Let_def by (auto split: if_split_asm)
    qed
  qed
  then show "\<not> rd_accepted decision" and "rd_reason decision \<noteq> None" and "ledger' = ledger" and "rd_available_after decision = None" by blast+
qed

text \<open>What an accepted revaluation has checked, and the only change it makes.\<close>

definition revalue_checked :: "'d decimal_ops \<Rightarrow> 'd \<Rightarrow> 'd CapitalPoolSnapshot \<Rightarrow> 'd ReservationRequest \<Rightarrow> 'd ReservationLedger \<Rightarrow> nat \<Rightarrow> bool" where
  "revalue_checked D dmax pool request ledger i \<longleftrightarrow>
     find_position (reservation_matches (rq_pool_id request) (rq_request_id request)) (live_reservations ledger) = Some i \<and>
     cp_pool_id pool = rq_pool_id request \<and> \<not> dec_le D (rq_liability request) (dec_zero D) \<and>
     (case available_pool_liability D pool (live_reserved_liability D dmax ledger (cp_pool_id pool)) of
        None \<Rightarrow> False
      | Some available \<Rightarrow>
          (case dec_add D available (lr_liability (live_reservations ledger ! i)) of
             None \<Rightarrow> False
           | Some before \<Rightarrow> \<not> dec_lt D before (rq_liability request)))"

definition revalued_entry :: "'d ReservationRequest \<Rightarrow> 'd LiveReservation \<Rightarrow> 'd LiveReservation" where
  "revalued_entry request r = r\<lparr>lr_liability := rq_liability request, lr_observed_at_ns := rq_observed_at_ns request\<rparr>"

lemma revalue_cases:
  assumes "ledger_revalue D dmax pool request now_ns min_remaining ledger = (decision, ledger')"
  shows "\<not> vd_accepted decision \<and> ledger' = ledger \<or>
    (\<exists>i. vd_accepted decision \<and> revalue_checked D dmax pool request ledger i \<and>
      ledger' = ledger\<lparr>live_reservations := (live_reservations ledger)[i := revalued_entry request (live_reservations ledger ! i)]\<rparr>)"
proof (cases "find_position (reservation_matches (rq_pool_id request) (rq_request_id request)) (live_reservations ledger)")
  case None
  then show ?thesis using assms unfolding ledger_revalue_def rejected_revalue_def by (auto split: if_split_asm)
next
  case (Some i)
  let ?r = "live_reservations ledger ! i" and ?a = "available_pool_liability D pool (live_reserved_liability D dmax ledger (cp_pool_id pool))"
  have "\<not> vd_accepted decision \<and> ledger' = ledger \<or> vd_accepted decision \<and> revalue_checked D dmax pool request ledger i \<and>
      ledger' = ledger\<lparr>live_reservations := (live_reservations ledger)[i := revalued_entry request ?r]\<rparr>"
  proof (cases "case ?a of None \<Rightarrow> None | Some available \<Rightarrow> dec_add D available (lr_liability ?r)")
    case None
    then show ?thesis using assms unfolding ledger_revalue_def rejected_revalue_def Some option.case Let_def None
      by (auto split: if_split_asm)
  next
    case q: (Some b)
    have checked: "revalue_checked D dmax pool request ledger i"
      if "cp_pool_id pool = rq_pool_id request" "\<not> dec_le D (rq_liability request) (dec_zero D)" "\<not> dec_lt D b (rq_liability request)"
      using that Some q by (auto simp: revalue_checked_def split: option.splits)
    show ?thesis using assms checked unfolding ledger_revalue_def rejected_revalue_def Some option.case Let_def q revalued_entry_def
      by (auto split: if_split_asm option.split_asm)
  qed
  then show ?thesis by blast
qed

section \<open>What each operation keeps\<close>

lemma reserve_fits:
  assumes D: "decimal_exact D val" "decimal_bounded D val dmax" and wf: "ledger_wf val (live_reservations ledger)"
    and guards: "reserve_guards D pool request now_ns ledger"
    and amounts: "reserve_amounts D dmax pool request min_remaining ledger (before, after)"
  shows "ledger_wf val (live_reservations ledger @ [request_entry request])"
    and "val after = val (cp_max_pool_liability pool) - val (cp_committed_liability pool) -
      reserved val (cp_pool_id pool) (live_reservations ledger @ [request_entry request])"
    and "0 \<le> val after"
proof -
  note sub = decimal_exactD(3) [OF D(1), of before "rq_liability request" after]
  have parts: "available_pool_liability D pool (live_reserved_liability D dmax ledger (cp_pool_id pool)) = Some before"
    "val (rq_liability request) \<le> val before" "val after = val before - val (rq_liability request)"
    using amounts sub decimal_exactD(6) [OF D(1)] by (auto simp: reserve_amounts_def not_less)
  have pos: "0 < val (rq_liability request)" and pool: "cp_pool_id pool = rq_pool_id request"
    using guards D(1) by (simp_all add: reserve_guards_def dec_le_iff decimal_exactD)
  show "ledger_wf val (live_reservations ledger @ [request_entry request])"
    using wf guards pos by (auto simp: ledger_wf_def reserve_guards_def reservation_key_def reservation_matches_def list_ex_iff request_entry_def)
  note free = available_value [OF D wf parts(1)]
  then have "reserved val (cp_pool_id pool) (live_reservations ledger) \<le> val dmax"
    using parts(2) pos by (auto simp: min_def split: if_splits)
  then have "val before = val (cp_max_pool_liability pool) - val (cp_committed_liability pool) -
      reserved val (cp_pool_id pool) (live_reservations ledger)"
    using free(1) by simp
  then show "val after = val (cp_max_pool_liability pool) - val (cp_committed_liability pool) -
      reserved val (cp_pool_id pool) (live_reservations ledger @ [request_entry request])"
    using parts(3) pool by (simp add: request_entry_def)
  show "0 \<le> val after" using parts(2,3) by simp
qed

lemma revalue_fits:
  assumes D: "decimal_exact D val" "decimal_bounded D val dmax" and wf: "ledger_wf val (live_reservations ledger)"
    and c: "revalue_checked D dmax pool request ledger i"
    and rs: "rs = (live_reservations ledger)[i := revalued_entry request (live_reservations ledger ! i)]"
  shows "ledger_wf val rs"
    and "reserved val (cp_pool_id pool) (live_reservations ledger) \<le> val dmax \<Longrightarrow> reserved val (cp_pool_id pool) rs \<le> val (cp_max_pool_liability pool) - val (cp_committed_liability pool)"
    and "P \<noteq> cp_pool_id pool \<Longrightarrow> reserved val P rs = reserved val P (live_reservations ledger)"
proof -
  let ?old = "live_reservations ledger ! i"
  obtain available before where a: "available_pool_liability D pool (live_reserved_liability D dmax ledger (cp_pool_id pool)) = Some available"
    and b: "dec_add D available (lr_liability ?old) = Some before" and fits: "\<not> dec_lt D before (rq_liability request)"
    using c by (auto simp: revalue_checked_def split: option.splits)
  have i: "i < length (live_reservations ledger)" and pool: "lr_pool_id ?old = cp_pool_id pool"
    using c find_position_Some [of "reservation_matches (rq_pool_id request) (rq_request_id request)" "live_reservations ledger" i]
    by (simp_all add: revalue_checked_def reservation_matches_def)
  have pos: "0 < val (rq_liability request)" using c D(1) by (simp add: revalue_checked_def dec_le_iff decimal_exactD)
  have entry: "lr_pool_id (revalued_entry request ?old) = lr_pool_id ?old" "lr_liability (revalued_entry request ?old) = rq_liability request"
    by (simp_all add: revalued_entry_def)
  show "ledger_wf val rs" unfolding rs
    by (rule update_wf [OF wf i]) (simp_all add: revalued_entry_def reservation_key_def pos)
  have "val (rq_liability request) \<le> val available + val (lr_liability ?old)"
    using fits decimal_exactD(6) [OF D(1)] decimal_exactD(2) [OF D(1) b] by (simp add: not_less)
  then show "reserved val (cp_pool_id pool) rs \<le> val (cp_max_pool_liability pool) - val (cp_committed_liability pool)"
    if "reserved val (cp_pool_id pool) (live_reservations ledger) \<le> val dmax"
    using that available_value(1) [OF D wf a] reserved_at [OF i, of val "cp_pool_id pool"] reserved_update [OF i entry(1), of val "cp_pool_id pool"]
    by (simp add: rs entry pool)
  show "reserved val P rs = reserved val P (live_reservations ledger)" if "P \<noteq> cp_pool_id pool"
    using that reserved_at [OF i, of val P] reserved_update [OF i entry(1), of val P] by (simp add: rs pool)
qed

definition drops_one :: "'a list \<Rightarrow> 'a list \<Rightarrow> bool" where
  "drops_one rs rs' \<longleftrightarrow> rs' = rs \<or> (\<exists>i < length rs. rs' = remove_at i rs)"

lemma drops_one_intros [intro]: "drops_one rs rs" "i < length rs \<Longrightarrow> drops_one rs (remove_at i rs)"
  by (auto simp: drops_one_def)

lemma drops_one_keeps:
  assumes "drops_one rs rs'" and "ledger_wf val rs"
  shows "ledger_wf val rs'" and "reserved val P rs' \<le> reserved val P rs"
proof -
  show "ledger_wf val rs'" using assms by (auto simp: drops_one_def remove_at_wf)
  have "reserved val P (remove_at i rs) \<le> reserved val P rs" if "i < length rs" for i
  proof -
    have "0 < val (lr_liability (rs ! i))" using assms(2) that by (simp add: ledger_wf_def)
    then show ?thesis using reserved_at [OF that, of val P] by simp
  qed
  then show "reserved val P rs' \<le> reserved val P rs" using assms(1) by (auto simp: drops_one_def)
qed

lemma removals_drop_one:
  "drops_one (live_reservations ledger) (live_reservations (snd (ledger_release pool release_request now_ns ledger)))"
  "drops_one (live_reservations ledger) (live_reservations (snd (remove_existing pool_id group_id request_id ledger)))"
  "drops_one (live_reservations ledger) (live_reservations (snd (rollback_uncommitted pool_id request_id ledger)))"
  unfolding ledger_release_def remove_existing_def rollback_uncommitted_def Let_def
  by (auto dest: find_position_Some split: option.splits)

section \<open>Runs\<close>

text \<open>The calls a ledger serves once it stands; \<open>call_within\<close> bounds what the snapshots they carry leave free in a pool.\<close>

datatype 'd ledger_call =
    CallReserve "'d CapitalPoolSnapshot" "'d ReservationRequest" u64 "'d option"
  | CallRevalue "'d CapitalPoolSnapshot" "'d ReservationRevalueRequest" u64 "'d option"
  | CallRelease "'d CapitalPoolSnapshot" ReservationReleaseRequest u64
  | CallRemoveExisting string string string
  | CallRollback string string
  | CallInvalidate

fun serve_call :: "'d decimal_ops \<Rightarrow> 'd \<Rightarrow> 'd ledger_call \<Rightarrow> 'd ReservationLedger \<Rightarrow> 'd ReservationLedger" where
  "serve_call D dmax (CallReserve pool request now_ns min_remaining) ledger = snd (ledger_reserve D dmax pool request now_ns min_remaining ledger)"
| "serve_call D dmax (CallRevalue pool request now_ns min_remaining) ledger = snd (ledger_revalue D dmax pool request now_ns min_remaining ledger)"
| "serve_call D dmax (CallRelease pool request now_ns) ledger = snd (ledger_release pool request now_ns ledger)"
| "serve_call D dmax (CallRemoveExisting pool_id group_id request_id) ledger = snd (remove_existing pool_id group_id request_id ledger)"
| "serve_call D dmax (CallRollback pool_id request_id) ledger = snd (rollback_uncommitted pool_id request_id ledger)"
| "serve_call D dmax CallInvalidate ledger = invalidate_reconciliation ledger"

definition capital_run :: "'d decimal_ops \<Rightarrow> 'd \<Rightarrow> 'd ledger_call list \<Rightarrow> 'd ReservationLedger \<Rightarrow> 'd ReservationLedger" where
  "capital_run D dmax calls ledger = fold (serve_call D dmax) calls ledger"

definition pool_within :: "('d \<Rightarrow> rat) \<Rightarrow> string \<Rightarrow> rat \<Rightarrow> 'd CapitalPoolSnapshot \<Rightarrow> bool" where
  "pool_within val P B pool \<longleftrightarrow>
     (if cp_pool_id pool = P then val (cp_max_pool_liability pool) - val (cp_committed_liability pool) \<le> B else True)"

fun call_within :: "('d \<Rightarrow> rat) \<Rightarrow> string \<Rightarrow> rat \<Rightarrow> 'd ledger_call \<Rightarrow> bool" where
  "call_within val P B (CallReserve pool request now_ns min_remaining) = pool_within val P B pool"
| "call_within val P B (CallRevalue pool request now_ns min_remaining) = pool_within val P B pool"
| "call_within val P B _ = True"

definition ledger_safe :: "('d \<Rightarrow> rat) \<Rightarrow> 'd \<Rightarrow> string \<Rightarrow> rat \<Rightarrow> 'd LiveReservation list \<Rightarrow> bool" where
  "ledger_safe val dmax P B rs \<longleftrightarrow> ledger_wf val rs \<and> (\<forall>Q. reserved val Q rs \<le> val dmax) \<and> reserved val P rs \<le> B"

lemma drops_one_safe: "drops_one rs rs' \<Longrightarrow> ledger_safe val dmax P B rs \<Longrightarrow> ledger_safe val dmax P B rs'"
  unfolding ledger_safe_def using drops_one_keeps by (metis order_trans)

lemma reserve_safe:
  assumes D: "decimal_exact D val" "decimal_bounded D val dmax" and "pool_within val P B pool"
    and safe: "ledger_safe val dmax P B (live_reservations ledger)"
  shows "ledger_safe val dmax P B (live_reservations (snd (ledger_reserve D dmax pool request now_ns min_remaining ledger)))"
proof (cases "reserve_guards D pool request now_ns ledger \<and> (\<exists>ab. reserve_amounts D dmax pool request min_remaining ledger ab)")
  case True
  then obtain before after where t: "reserve_guards D pool request now_ns ledger"
    "reserve_amounts D dmax pool request min_remaining ledger (before, after)" by auto
  have wf: "ledger_wf val (live_reservations ledger)" using safe by (simp add: ledger_safe_def)
  note fits = reserve_fits [OF D wf t]
  have free: "val (cp_max_pool_liability pool) - val (cp_committed_liability pool) \<le> val dmax"
    using t(2) available_value(2) [OF D wf] by (auto simp: reserve_amounts_def)
  have pool: "lr_pool_id (request_entry request) = cp_pool_id pool" using t(1) by (simp add: reserve_guards_def request_entry_def)
  have "reserved val Q (live_reservations ledger @ [request_entry request]) \<le> val dmax" for Q
    using fits(2,3) free safe pool by (cases "Q = cp_pool_id pool") (simp_all add: ledger_safe_def)
  moreover have "reserved val P (live_reservations ledger @ [request_entry request]) \<le> B"
    using fits(2,3) assms(3) safe pool by (cases "P = cp_pool_id pool") (simp_all add: ledger_safe_def pool_within_def)
  ultimately show ?thesis using fits(1) by (simp add: reserve_accepted [OF t] ledger_safe_def)
next
  case False
  obtain decision ledger' where r: "ledger_reserve D dmax pool request now_ns min_remaining ledger = (decision, ledger')" by fastforce
  then show ?thesis using reserve_refused(3) [OF False r] safe by simp
qed

lemma revalue_safe:
  assumes D: "decimal_exact D val" "decimal_bounded D val dmax" and "pool_within val P B pool"
    and safe: "ledger_safe val dmax P B (live_reservations ledger)"
  shows "ledger_safe val dmax P B (live_reservations (snd (ledger_revalue D dmax pool request now_ns min_remaining ledger)))"
proof -
  obtain decision ledger' where r: "ledger_revalue D dmax pool request now_ns min_remaining ledger = (decision, ledger')" by fastforce
  consider "ledger' = ledger" | i where "revalue_checked D dmax pool request ledger i"
    "live_reservations ledger' = (live_reservations ledger)[i := revalued_entry request (live_reservations ledger ! i)]"
    using revalue_cases [OF r] by auto
  then show ?thesis
  proof cases
    case 1 then show ?thesis using r safe by simp
  next
    case 2
    have wf: "ledger_wf val (live_reservations ledger)" using safe by (simp add: ledger_safe_def)
    note fits = revalue_fits [OF D wf 2]
    have free: "val (cp_max_pool_liability pool) - val (cp_committed_liability pool) \<le> val dmax"
      using 2(1) available_value(2) [OF D wf] by (auto simp: revalue_checked_def split: option.splits)
    have own: "reserved val (cp_pool_id pool) (live_reservations ledger') \<le> val (cp_max_pool_liability pool) - val (cp_committed_liability pool)"
      using fits(2) safe by (simp add: ledger_safe_def)
    have "reserved val Q (live_reservations ledger') \<le> val dmax" for Q
      using own free fits(3) [of Q] safe by (cases "Q = cp_pool_id pool") (simp_all add: ledger_safe_def)
    moreover have "reserved val P (live_reservations ledger') \<le> B"
      using own assms(3) fits(3) [of P] safe by (cases "P = cp_pool_id pool") (simp_all add: ledger_safe_def pool_within_def)
    ultimately show ?thesis using fits(1) r by (simp add: ledger_safe_def)
  qed
qed

lemma serve_call_safe:
  assumes "decimal_exact D val" and "decimal_bounded D val dmax" and "call_within val P B c"
    and "ledger_safe val dmax P B (live_reservations ledger)"
  shows "ledger_safe val dmax P B (live_reservations (serve_call D dmax c ledger))"
  using assms reserve_safe [OF assms(1,2)] revalue_safe [OF assms(1,2)] removals_drop_one [THEN drops_one_safe]
  by (cases c) (simp_all add: invalidate_reconciliation_def)

lemma capital_run_safe:
  assumes "decimal_exact D val" and "decimal_bounded D val dmax" and "list_all (call_within val P B) calls"
    and "ledger_safe val dmax P B (live_reservations ledger)"
  shows "ledger_safe val dmax P B (live_reservations (capital_run D dmax calls ledger))"
  using assms(3,4) by (induction calls arbitrary: ledger) (simp_all add: capital_run_def serve_call_safe [OF assms(1,2)])

section \<open>An instance for examples\<close>

text \<open>Whole amounts between -100 and 100.\<close>

definition clamp :: "int \<Rightarrow> int" where
  "clamp n = max (- 100) (min 100 n)"

definition in_small :: "int \<Rightarrow> int option" where
  "in_small n = (if \<bar>n\<bar> \<le> 100 then Some n else None)"

definition small_ops :: "int decimal_ops" where
  "small_ops = \<lparr>dec_zero = 0, dec_add = (\<lambda>a b. in_small (clamp a + clamp b)), dec_sub = (\<lambda>a b. in_small (clamp a - clamp b)),
     dec_neg = uminus, dec_eq = (\<lambda>a b. clamp a = clamp b), dec_lt = (\<lambda>a b. clamp a < clamp b),
     dec_to_string = unary, dec_from_str = from_unary\<rparr>"

definition small_val :: "int \<Rightarrow> rat" where
  "small_val n = of_int (clamp n)"

lemma clamp_in: "\<bar>n\<bar> \<le> 100 \<Longrightarrow> clamp n = n" and clamp_le: "\<bar>clamp n\<bar> \<le> 100" and clamp_neg: "clamp (- n) = - clamp n"
  by (auto simp: clamp_def)

lemma small_exact: "decimal_exact small_ops small_val"
  using clamp_in [of "clamp a + clamp b" for a b] clamp_in [of "clamp a - clamp b" for a b]
  by (auto simp: decimal_exact_def small_ops_def small_val_def in_small_def clamp_neg split: if_splits) (simp add: clamp_def)

lemma small_bounded: "decimal_bounded small_ops small_val 100"
proof -
  have "\<bar>rat_of_int n\<bar> \<le> 100 \<longleftrightarrow> \<bar>n\<bar> \<le> 100" for n by linarith
  from this [of "clamp a + clamp b" for a b] this [of "clamp a - clamp b" for a b] this [of "clamp a" for a] show ?thesis
    by (simp add: decimal_bounded_def small_ops_def small_val_def in_small_def clamp_le clamp_in)
qed

definition demo_pool :: "int CapitalPoolSnapshot" where
  "demo_pool = \<lparr>cp_source = ''nt'', cp_observed_at_ns = 10, cp_pool_id = ''p'', cp_max_pool_liability = 90, cp_committed_liability = 10,
     cp_max_snapshot_age_ns = 50\<rparr>"

definition demo_request :: "string \<Rightarrow> int \<Rightarrow> u64 \<Rightarrow> int ReservationRequest" where
  "demo_request request_id liability observed_at_ns = \<lparr>rq_request_id = request_id, rq_pool_id = ''p'', rq_collateral_group_id = ''g'',
     rq_liability = liability, rq_observed_at_ns = observed_at_ns, rq_evidence_label = ''e''\<rparr>"

definition demo_calls :: "int ledger_call list" where
  "demo_calls = [CallReserve demo_pool (demo_request ''a'' 50 20) 30 None, CallReserve demo_pool (demo_request ''b'' 40 20) 30 None,
     CallRevalue demo_pool (demo_request ''a'' 60 21) 30 None]"

lemma demo_trims: "trim ''nt'' = ''nt''" "trim ''p'' = ''p''" "trim ''g'' = ''g''" "trim ''e'' = ''e''" "trim ''a'' = ''a''" "trim ''b'' = ''b''"
  by (simp_all add: trim_def strip.simps leading_def starts_with_def white_space_def)

definition demo_ledger :: "(string \<times> int \<times> u64) list \<Rightarrow> int ReservationLedger" where
  "demo_ledger rs = \<lparr>live_reservations = map (\<lambda>(request_id, liability, observed_at_ns). request_entry (demo_request request_id liability observed_at_ns)) rs,
     reconciliation_complete = True\<rparr>"

lemmas demo_eval = demo_pool_def demo_request_def demo_ledger_def request_entry_def small_ops_def in_small_def clamp_def demo_trims
  available_pool_liability_def live_reserved_liability_def missing_identity_def stale_evidence_def dec_le_def reservation_matches_def
  below_minimum_def

lemma demo_steps:
  "serve_call small_ops 100 (CallReserve demo_pool (demo_request ''a'' 50 20) 30 None) (demo_ledger []) = demo_ledger [(''a'', 50, 20)]"
  "serve_call small_ops 100 (CallReserve demo_pool (demo_request ''b'' 40 20) 30 None) (demo_ledger [(''a'', 50, 20)]) = demo_ledger [(''a'', 50, 20)]"
  "serve_call small_ops 100 (CallRevalue demo_pool (demo_request ''a'' 60 21) 30 None) (demo_ledger [(''a'', 50, 20)]) = demo_ledger [(''a'', 60, 21)]"
  by (simp_all add: demo_eval ledger_reserve_def ledger_revalue_def)

lemma demo_capital_run: "capital_run small_ops 100 demo_calls ledger_reconciled = demo_ledger [(''a'', 60, 21)]"
proof -
  have "ledger_reconciled = demo_ledger []" by (simp add: ledger_reconciled_def demo_ledger_def)
  from this [symmetric] show ?thesis using demo_steps by (simp add: capital_run_def demo_calls_def del: serve_call.simps)
qed

section \<open>The ledger never overdraws a pool\<close>

text \<open>
  C30. Starting from a reconciled ledger, after any sequence of reservations, revaluations, releases,
  removals, roll-backs and invalidations, in any order and with any evidence, the live reservations of
  a pool add up to no more than the most that any pool snapshot used by the calls leaves free
  (its maximum less what is committed). Every live reservation has a positive liability and complete
  identifiers, and no two share pool and request. A sum of liabilities that overflows counts as the
  largest amount, so it can only make a request fail.
\<close>

theorem capital_never_overdrawn:
  assumes "decimal_exact D val" and "decimal_bounded D val dmax" and "0 \<le> B" and "list_all (call_within val P B) calls"
  shows "ledger_wf val (live_reservations (capital_run D dmax calls ledger_reconciled)) \<and>
    reserved val P (live_reservations (capital_run D dmax calls ledger_reconciled)) \<le> B"
proof -
  have "0 \<le> val dmax" using decimal_boundedD(1) [OF assms(2), of dmax] by linarith
  then have "ledger_safe val dmax P B (live_reservations ledger_reconciled)"
    using assms(3) by (simp add: ledger_safe_def ledger_wf_def ledger_reconciled_def)
  from capital_run_safe [OF assms(1,2,4) this] show ?thesis by (simp add: ledger_safe_def)
qed

theorem capital_never_overdrawn_witness:
  "reserved small_val ''p'' (live_reservations (capital_run small_ops 100 demo_calls ledger_reconciled)) \<le> 80 \<and>
   ledger_wf small_val (live_reservations (capital_run small_ops 100 demo_calls ledger_reconciled)) \<and>
   reserved small_val ''p'' (live_reservations (capital_run small_ops 100 demo_calls ledger_reconciled)) = 60"
proof -
  have "list_all (call_within small_val ''p'' 80) demo_calls"
    by (simp add: demo_calls_def pool_within_def demo_pool_def small_val_def clamp_def)
  from capital_never_overdrawn [OF small_exact small_bounded _ this] show ?thesis
    by (simp add: demo_capital_run demo_ledger_def request_entry_def demo_request_def small_val_def clamp_def)
qed

section \<open>What is accepted\<close>

definition fresh :: "u64 \<Rightarrow> u64 \<Rightarrow> u64 \<Rightarrow> bool" where
  "fresh observed_at_ns now_ns max_age_ns \<longleftrightarrow>
     unat observed_at_ns \<le> unat now_ns \<and> unat now_ns \<le> unat observed_at_ns + unat max_age_ns"

lemma stale_evidence_iff: "stale_evidence observed_at_ns now_ns max_age_ns \<longleftrightarrow> \<not> fresh observed_at_ns now_ns max_age_ns"
  by (cases "observed_at_ns \<le> now_ns") (auto simp: stale_evidence_def fresh_def word_less_nat_alt word_le_nat_alt unat_sub not_less not_le)

text \<open>A valid request names everything, is fresh and new, and does not rest on evidence older than the snapshot.\<close>

definition valid_request :: "('d \<Rightarrow> rat) \<Rightarrow> 'd CapitalPoolSnapshot \<Rightarrow> 'd ReservationRequest \<Rightarrow> u64 \<Rightarrow> 'd LiveReservation list \<Rightarrow> bool" where
  "valid_request val pool request now_ns rs \<longleftrightarrow>
     rq_pool_id request = cp_pool_id pool \<and> trim (rq_request_id request) \<noteq> [] \<and> trim (rq_pool_id request) \<noteq> [] \<and>
     trim (rq_collateral_group_id request) \<noteq> [] \<and> 0 < val (rq_liability request) \<and> trim (cp_source pool) \<noteq> [] \<and>
     trim (rq_evidence_label request) \<noteq> [] \<and> fresh (cp_observed_at_ns pool) now_ns (cp_max_snapshot_age_ns pool) \<and>
     fresh (rq_observed_at_ns request) now_ns (cp_max_snapshot_age_ns pool) \<and>
     unat (cp_observed_at_ns pool) \<le> unat (rq_observed_at_ns request) \<and>
     (rq_pool_id request, rq_request_id request) \<notin> reservation_key ` set rs"

definition request_fits :: "('d \<Rightarrow> rat) \<Rightarrow> 'd CapitalPoolSnapshot \<Rightarrow> 'd ReservationRequest \<Rightarrow> 'd option \<Rightarrow> 'd LiveReservation list \<Rightarrow> bool" where
  "request_fits val pool request min_remaining rs \<longleftrightarrow>
     (let remaining = val (cp_max_pool_liability pool) - val (cp_committed_liability pool) - reserved val (cp_pool_id pool) rs -
        val (rq_liability request)
      in 0 \<le> remaining \<and> (case min_remaining of None \<Rightarrow> True | Some minimum \<Rightarrow> val minimum \<le> remaining))"

lemma matches_iff: "list_ex (reservation_matches pool_id request_id) rs \<longleftrightarrow> (pool_id, request_id) \<in> reservation_key ` set rs"
  by (force simp: list_ex_iff reservation_matches_def reservation_key_def)

lemma reserve_guards_iff:
  "decimal_exact D val \<Longrightarrow>
     reserve_guards D pool request now_ns ledger \<longleftrightarrow>
       reconciliation_complete ledger \<and> valid_request val pool request now_ns (live_reservations ledger)"
  by (auto simp: reserve_guards_def valid_request_def stale_evidence_iff dec_le_iff decimal_exactD missing_identity_def not_less
      word_le_nat_alt matches_iff)

lemma dec_sub_fits:
  assumes "decimal_exact D val" and "decimal_bounded D val dmax" and "0 \<le> val a - val b" and "val a - val b \<le> val dmax"
  obtains c where "dec_sub D a b = Some c" and "val c = val a - val b"
proof (cases "dec_sub D a b")
  case None
  then show ?thesis using decimal_boundedD(3) [OF assms(2) None] assms(3,4) by simp
next
  case (Some c)
  then show ?thesis using that decimal_exactD(3) [OF assms(1) Some] by simp
qed

lemma below_minimum_iff:
  "decimal_exact D val \<Longrightarrow> \<not> below_minimum D min_remaining r \<longleftrightarrow>
     (case min_remaining of None \<Rightarrow> True | Some minimum \<Rightarrow> val minimum \<le> val r)"
  by (simp add: below_minimum_def decimal_exactD(6) not_less split: option.split)

lemma reserve_amounts_iff:
  assumes D: "decimal_exact D val" "decimal_bounded D val dmax" and wf: "ledger_wf val (live_reservations ledger)"
    and guards: "reserve_guards D pool request now_ns ledger" and committed: "0 \<le> val (cp_committed_liability pool)"
  shows "(\<exists>ab. reserve_amounts D dmax pool request min_remaining ledger ab) \<longleftrightarrow>
    request_fits val pool request min_remaining (live_reservations ledger)"
proof
  have pool: "lr_pool_id (request_entry request) = cp_pool_id pool" "lr_liability (request_entry request) = rq_liability request"
    using guards by (simp_all add: reserve_guards_def request_entry_def)
  assume "\<exists>ab. reserve_amounts D dmax pool request min_remaining ledger ab"
  then obtain before after where amounts: "reserve_amounts D dmax pool request min_remaining ledger (before, after)" by auto
  then have "\<not> below_minimum D min_remaining after" by (simp add: reserve_amounts_def)
  moreover have "val (cp_max_pool_liability pool) - val (cp_committed_liability pool) - reserved val (cp_pool_id pool) (live_reservations ledger) -
      val (rq_liability request) = val after"
    using reserve_fits(2) [OF D wf guards amounts] by (simp add: pool)
  ultimately show "request_fits val pool request min_remaining (live_reservations ledger)"
    using reserve_fits(3) [OF D wf guards amounts] by (simp add: request_fits_def below_minimum_iff [OF D(1)])
next
  let ?R = "reserved val (cp_pool_id pool) (live_reservations ledger)" and ?F = "val (cp_max_pool_liability pool) - val (cp_committed_liability pool)"
  assume fits: "request_fits val pool request min_remaining (live_reservations ledger)"
  have R: "0 \<le> ?R" using reserved_nonneg [OF wf] .
  have L: "0 < val (rq_liability request)" using guards D(1) by (simp add: reserve_guards_def dec_le_iff decimal_exactD)
  have bounds: "?R + val (rq_liability request) \<le> ?F" "?F \<le> val dmax"
    using fits committed decimal_boundedD(1) [OF D(2), of "cp_max_pool_liability pool"] by (auto simp: request_fits_def Let_def)
  obtain free where free: "dec_sub D (cp_max_pool_liability pool) (cp_committed_liability pool) = Some free" "val free = ?F"
    using dec_sub_fits [OF D, of "cp_max_pool_liability pool" "cp_committed_liability pool"] bounds R L by auto
  let ?live = "live_reserved_liability D dmax ledger (cp_pool_id pool)"
  have live: "val ?live = ?R" using live_reserved_value [OF D wf] bounds L by simp
  obtain before where before: "dec_sub D free ?live = Some before" "val before = ?F - ?R"
    using dec_sub_fits [OF D, of free ?live] bounds R L free live by auto
  obtain after where after: "dec_sub D before (rq_liability request) = Some after" "val after = ?F - ?R - val (rq_liability request)"
    using dec_sub_fits [OF D, of before "rq_liability request"] bounds R L before by auto
  have "\<not> below_minimum D min_remaining after" using fits after by (simp add: below_minimum_iff [OF D(1)] request_fits_def Let_def split: option.splits)
  then have "reserve_amounts D dmax pool request min_remaining ledger (before, after)"
    using free before after bounds decimal_exactD(6) [OF D(1)] by (simp add: reserve_amounts_def available_pool_liability_def)
  then show "\<exists>ab. reserve_amounts D dmax pool request min_remaining ledger ab" by blast
qed

text \<open>
  C31. A reservation is accepted exactly when the ledger is reconciled, the request names its pool,
  request and collateral group and carries evidence, its liability is positive, snapshot and request
  are fresh and the request is not older than the snapshot, no live reservation has its pool and
  request, and its liability fits into what the snapshot and the live reservations leave, with the
  required minimum remaining. It then becomes the last live reservation and the decision reports what
  remains; otherwise a reason is given and the ledger is unchanged.
\<close>

theorem reserve_accepts_exactly:
  assumes "decimal_exact D val" and "decimal_bounded D val dmax" and "ledger_wf val (live_reservations ledger)"
    and "0 \<le> val (cp_committed_liability pool)"
  shows "case ledger_reserve D dmax pool request now_ns min_remaining ledger of (decision, ledger') \<Rightarrow>
    if reconciliation_complete ledger \<and> valid_request val pool request now_ns (live_reservations ledger) \<and>
       request_fits val pool request min_remaining (live_reservations ledger)
    then rd_accepted decision \<and> rd_reason decision = None \<and>
      ledger' = ledger\<lparr>live_reservations := live_reservations ledger @ [request_entry request]\<rparr> \<and>
      map_option val (rd_available_after decision) =
        Some (val (cp_max_pool_liability pool) - val (cp_committed_liability pool) - reserved val (cp_pool_id pool) (live_reservations ledger'))
    else \<not> rd_accepted decision \<and> rd_reason decision \<noteq> None \<and> ledger' = ledger"
proof (cases "reserve_guards D pool request now_ns ledger \<and> (\<exists>ab. reserve_amounts D dmax pool request min_remaining ledger ab)")
  case True
  then obtain before after where t: "reserve_guards D pool request now_ns ledger"
    "reserve_amounts D dmax pool request min_remaining ledger (before, after)" by auto
  have "request_fits val pool request min_remaining (live_reservations ledger)"
    using reserve_amounts_iff [OF assms(1-3) t(1) assms(4)] t(2) by blast
  then show ?thesis using t(1) reserve_fits(2) [OF assms(1-3) t]
    by (simp add: reserve_accepted [OF t] reserve_guards_iff [OF assms(1)])
next
  case False
  obtain decision ledger' where r: "ledger_reserve D dmax pool request now_ns min_remaining ledger = (decision, ledger')" by fastforce
  have "\<not> (reconciliation_complete ledger \<and> valid_request val pool request now_ns (live_reservations ledger) \<and>
       request_fits val pool request min_remaining (live_reservations ledger))"
    using False reserve_amounts_iff [OF assms(1-3) _ assms(4)] reserve_guards_iff [OF assms(1)] by blast
  then show ?thesis using reserve_refused [OF False r] by (simp add: r)
qed

theorem reserve_accepts_exactly_witness:
  "rd_accepted (fst (ledger_reserve small_ops 100 demo_pool (demo_request ''b'' 30 20) 30 None (demo_ledger [(''a'', 50, 20)]))) \<and>
   \<not> rd_accepted (fst (ledger_reserve small_ops 100 demo_pool (demo_request ''b'' 31 20) 30 None (demo_ledger [(''a'', 50, 20)])))"
proof -
  have wf: "ledger_wf small_val (live_reservations (demo_ledger [(''a'', 50, 20)]))"
    by (simp add: ledger_wf_def demo_ledger_def request_entry_def demo_request_def small_val_def clamp_def missing_identity_def demo_trims)
  have "0 \<le> small_val (cp_committed_liability demo_pool)" by (simp add: demo_pool_def small_val_def clamp_def)
  note exactly = reserve_accepts_exactly [OF small_exact small_bounded wf this]
  have valid: "valid_request small_val demo_pool (demo_request ''b'' n 20) 30 (live_reservations (demo_ledger [(''a'', 50, 20)])) \<longleftrightarrow> 0 < small_val n" for n
    by (simp add: valid_request_def demo_pool_def demo_request_def demo_ledger_def request_entry_def demo_trims fresh_def reservation_key_def)
  have fits: "request_fits small_val demo_pool (demo_request ''b'' n 20) None (live_reservations (demo_ledger [(''a'', 50, 20)])) \<longleftrightarrow> small_val n \<le> 30" for n
    by (simp add: request_fits_def demo_pool_def demo_request_def demo_ledger_def request_entry_def) (simp add: small_val_def clamp_def)
  have "reconciliation_complete (demo_ledger [(''a'', 50, 20)])" "small_val 30 = 30" "small_val 31 = 31"
    by (simp_all add: demo_ledger_def small_val_def clamp_def)
  then show ?thesis using exactly [of "demo_request ''b'' 30 20" 30 None] exactly [of "demo_request ''b'' 31 20" 30 None]
    by (simp add: valid fits case_prod_unfold)
qed

end
