(* ===== verification/CapitalAdmissionState.thy ===== *)
theory CapitalAdmissionState
  imports CapitalSafety LossGovernor RustResult
begin

text \<open>
  The observed state a capital admission rests on (\<open>src/src/bolt_v3_capital_admission_state.rs\<close>, with
  the product snapshot of \<open>src/src/bolt_v3_capital_admission.rs\<close>) and its validation: every part
  attributed to a source and fresh. \<^term>\<open>None\<close> is the panic of \<open>expect\<close>.
\<close>

section \<open>Data\<close>

record 'd PredictionMarketAdmissionSnapshot =
  pm_source :: string
  pm_observed_at_ns :: u64
  pm_yes_instrument_id :: string
  pm_no_instrument_id :: string
  pm_yes_position :: 'd
  pm_no_position :: 'd
  pm_collateral_allowance :: 'd
  pm_collateral_coupled_group_id :: string

datatype 'd ProductAdmissionSnapshot = PredictionMarketBinarySnapshot "'d PredictionMarketAdmissionSnapshot"

datatype CapitalAdmissionStateEvidenceKind =
    State
  | Portfolio
  | ProviderCollateralAllowance
  | OrderLifecycle
  | ProductState
  | ReservationLedgerState
  | LossSnapshotState

datatype CapitalAdmissionStateError =
    MissingNtState
  | StaleNtState CapitalAdmissionStateEvidenceKind
  | UnattributedState CapitalAdmissionStateEvidenceKind

record 'd PortfolioCapitalAdmissionSnapshot =
  pf_source :: string
  pf_observed_at_ns :: u64
  pf_venue_id :: string
  pf_account_id :: string
  pf_collateral_currency :: string
  pf_free_collateral :: 'd
  pf_total_equity :: 'd

record 'd ProviderCollateralAllowanceSnapshot =
  pv_source :: string
  pv_observed_at_ns :: u64
  pv_venue_id :: string
  pv_account_id :: string
  pv_collateral_currency :: string
  pv_collateral_allowance :: 'd

record OrderLifecycleCapitalAdmissionSnapshot =
  ol_source :: string
  ol_observed_at_ns :: u64
  ol_open_order_count :: u64
  ol_all_open_orders_attributed :: bool

record ReservationLedgerSnapshot =
  rs_source :: string
  rs_observed_at_ns :: u64
  rs_all_live_reservations_attributed :: bool

record 'd NtDerivedCapitalAdmissionState =
  ns_source :: string
  ns_observed_at_ns :: u64
  ns_portfolio :: "'d PortfolioCapitalAdmissionSnapshot"
  ns_provider_collateral_allowance :: "'d ProviderCollateralAllowanceSnapshot"
  ns_order_lifecycle :: OrderLifecycleCapitalAdmissionSnapshot
  ns_product_state :: "'d ProductAdmissionSnapshot"
  ns_reservation_snapshot :: ReservationLedgerSnapshot
  ns_loss_snapshot :: "'d LossSnapshot option"

record CapitalAdmissionStateEvidenceSource =
  se_kind :: CapitalAdmissionStateEvidenceKind
  se_source :: string
  se_observed_at_ns :: u64

record CapitalAdmissionStateEvidence =
  se_sources :: "CapitalAdmissionStateEvidenceSource list"

fun loss_source_as_str :: "LossSnapshotSource \<Rightarrow> string" where
  "loss_source_as_str NtLossRuntimeFeed = ''nt_loss_runtime_feed''"
| "loss_source_as_str NtPortfolioSnapshot = ''nt_portfolio_snapshot''"
| "loss_source_as_str NtAccountSnapshot = ''nt_account_snapshot''"
| "loss_source_as_str NtAccountAndPositionSnapshot = ''nt_account_and_position_snapshot''"
| "loss_source_as_str NtPositionEvent = ''nt_position_event''"
| "loss_source_as_str NtPositionChanged = ''nt_position_changed''"
| "loss_source_as_str NtPositionClosed = ''nt_position_closed''"
| "loss_source_as_str NtPositionAdjusted = ''nt_position_adjusted''"
| "loss_source_as_str NtCapitalAdmissionState = ''nt_capital_admission_state''"
| "loss_source_as_str BoltLossSnapshot = ''bolt_loss_snapshot''"
| "loss_source_as_str LossGovernor = ''loss_governor''"
| "loss_source_as_str Unknown = ''unknown''"
| "loss_source_as_str Other = ''other''"

section \<open>Validation\<close>

definition validate_source :: "string \<Rightarrow> CapitalAdmissionStateEvidenceKind \<Rightarrow> CapitalAdmissionStateError + unit" where
  "validate_source source kind = ensure (trim source \<noteq> []) (UnattributedState kind)"

definition validate_freshness :: "u64 \<Rightarrow> u64 \<Rightarrow> u64 \<Rightarrow> CapitalAdmissionStateEvidenceKind \<Rightarrow> CapitalAdmissionStateError + unit" where
  "validate_freshness observed_at_ns now_ns max_age_ns kind =
     ensure (\<not> (now_ns < observed_at_ns \<or> max_age_ns < now_ns - observed_at_ns)) (StaleNtState kind)"

fun product_evidence :: "'d ProductAdmissionSnapshot \<Rightarrow> string \<times> u64" where
  "product_evidence (PredictionMarketBinarySnapshot snapshot) = (pm_source snapshot, pm_observed_at_ns snapshot)"

definition evidence_sources :: "'d NtDerivedCapitalAdmissionState \<Rightarrow> CapitalAdmissionStateEvidenceSource list option" where
  "evidence_sources state =
     (case product_evidence (ns_product_state state) of (product_source, product_observed_at_ns) \<Rightarrow>
      let sources =
        [\<lparr>se_kind = State, se_source = ns_source state, se_observed_at_ns = ns_observed_at_ns state\<rparr>,
         \<lparr>se_kind = Portfolio, se_source = pf_source (ns_portfolio state), se_observed_at_ns = pf_observed_at_ns (ns_portfolio state)\<rparr>,
         \<lparr>se_kind = ProviderCollateralAllowance, se_source = pv_source (ns_provider_collateral_allowance state),
          se_observed_at_ns = pv_observed_at_ns (ns_provider_collateral_allowance state)\<rparr>,
         \<lparr>se_kind = OrderLifecycle, se_source = ol_source (ns_order_lifecycle state),
          se_observed_at_ns = ol_observed_at_ns (ns_order_lifecycle state)\<rparr>,
         \<lparr>se_kind = ProductState, se_source = product_source, se_observed_at_ns = product_observed_at_ns\<rparr>,
         \<lparr>se_kind = ReservationLedgerState, se_source = rs_source (ns_reservation_snapshot state),
          se_observed_at_ns = rs_observed_at_ns (ns_reservation_snapshot state)\<rparr>]
      in case ns_loss_snapshot state of
           None \<Rightarrow> Some sources
         | Some loss_snapshot \<Rightarrow>
             (case snap_source loss_snapshot of
                None \<Rightarrow> None
              | Some source \<Rightarrow>
                  Some (sources @ [\<lparr>se_kind = LossSnapshotState, se_source = loss_source_as_str source,
                    se_observed_at_ns = snap_observed_at_ns loss_snapshot\<rparr>])))"

text \<open>The checks in the order of the source; each stands for a statement that returns early with \<open>?\<close>.\<close>

definition state_checks :: "'d NtDerivedCapitalAdmissionState \<Rightarrow> u64 \<Rightarrow> u64 \<Rightarrow> (CapitalAdmissionStateError + unit) list" where
  "state_checks state now_ns max_age_ns =
     (case product_evidence (ns_product_state state) of (product_source, product_observed_at_ns) \<Rightarrow>
      [validate_source (ns_source state) State,
       validate_freshness (ns_observed_at_ns state) now_ns max_age_ns State,
       validate_source (pf_source (ns_portfolio state)) Portfolio,
       validate_freshness (pf_observed_at_ns (ns_portfolio state)) now_ns max_age_ns Portfolio,
       validate_source (pv_source (ns_provider_collateral_allowance state)) ProviderCollateralAllowance,
       validate_freshness (pv_observed_at_ns (ns_provider_collateral_allowance state)) now_ns max_age_ns ProviderCollateralAllowance,
       validate_source (ol_source (ns_order_lifecycle state)) OrderLifecycle,
       validate_freshness (ol_observed_at_ns (ns_order_lifecycle state)) now_ns max_age_ns OrderLifecycle,
       ensure (ol_all_open_orders_attributed (ns_order_lifecycle state)) (UnattributedState OrderLifecycle),
       validate_source product_source ProductState,
       validate_freshness product_observed_at_ns now_ns max_age_ns ProductState,
       validate_source (rs_source (ns_reservation_snapshot state)) ReservationLedgerState,
       validate_freshness (rs_observed_at_ns (ns_reservation_snapshot state)) now_ns max_age_ns ReservationLedgerState,
       ensure (rs_all_live_reservations_attributed (ns_reservation_snapshot state)) (UnattributedState ReservationLedgerState)] @
      (case ns_loss_snapshot state of
         None \<Rightarrow> []
       | Some loss_snapshot \<Rightarrow>
           [ensure (snap_source loss_snapshot \<noteq> None) (UnattributedState LossSnapshotState),
            validate_freshness (snap_observed_at_ns loss_snapshot) now_ns max_age_ns LossSnapshotState]))"

fun first_error :: "('e + unit) list \<Rightarrow> 'e + unit" where
  "first_error [] = Inr ()"
| "first_error (r # rs) = and_then r (\<lambda>_. first_error rs)"

definition validate_nt_derived_capital_admission_state :: "'d NtDerivedCapitalAdmissionState option \<Rightarrow> u64 \<Rightarrow> u64 \<Rightarrow>
    (CapitalAdmissionStateError + CapitalAdmissionStateEvidence) option" where
  "validate_nt_derived_capital_admission_state state now_ns max_age_ns =
     (case state of
        None \<Rightarrow> Some (Inl MissingNtState)
      | Some s \<Rightarrow>
          (case first_error (state_checks s now_ns max_age_ns) of
             Inl e \<Rightarrow> Some (Inl e)
           | Inr _ \<Rightarrow> map_option (\<lambda>sources. Inr \<lparr>se_sources = sources\<rparr>) (evidence_sources s)))"

section \<open>What a validated state has\<close>

definition attested :: "string \<Rightarrow> u64 \<Rightarrow> u64 \<Rightarrow> u64 \<Rightarrow> bool" where
  "attested source observed_at_ns now_ns max_age_ns \<longleftrightarrow> trim source \<noteq> [] \<and> fresh observed_at_ns now_ns max_age_ns"

definition loss_attested :: "'d LossSnapshot option \<Rightarrow> u64 \<Rightarrow> u64 \<Rightarrow> bool" where
  "loss_attested loss_snapshot now_ns max_age_ns \<longleftrightarrow>
     (case loss_snapshot of None \<Rightarrow> True | Some l \<Rightarrow> snap_source l \<noteq> None \<and> fresh (snap_observed_at_ns l) now_ns max_age_ns)"

definition state_attested :: "'d NtDerivedCapitalAdmissionState \<Rightarrow> u64 \<Rightarrow> u64 \<Rightarrow> bool" where
  "state_attested s now_ns max_age_ns \<longleftrightarrow>
     attested (ns_source s) (ns_observed_at_ns s) now_ns max_age_ns \<and>
     attested (pf_source (ns_portfolio s)) (pf_observed_at_ns (ns_portfolio s)) now_ns max_age_ns \<and>
     attested (pv_source (ns_provider_collateral_allowance s)) (pv_observed_at_ns (ns_provider_collateral_allowance s)) now_ns max_age_ns \<and>
     attested (ol_source (ns_order_lifecycle s)) (ol_observed_at_ns (ns_order_lifecycle s)) now_ns max_age_ns \<and>
     ol_all_open_orders_attributed (ns_order_lifecycle s) \<and>
     (case ns_product_state s of PredictionMarketBinarySnapshot snapshot \<Rightarrow>
        attested (pm_source snapshot) (pm_observed_at_ns snapshot) now_ns max_age_ns) \<and>
     attested (rs_source (ns_reservation_snapshot s)) (rs_observed_at_ns (ns_reservation_snapshot s)) now_ns max_age_ns \<and>
     rs_all_live_reservations_attributed (ns_reservation_snapshot s) \<and>
     loss_attested (ns_loss_snapshot s) now_ns max_age_ns"

lemma first_error_ok: "first_error rs = Inr u \<longleftrightarrow> list_all is_ok rs"
  by (induction rs) (auto simp: and_then_Inr is_ok_unit)

lemma validate_ok_iff [simp]:
  "is_ok (validate_source source kind) \<longleftrightarrow> trim source \<noteq> []"
  "is_ok (validate_freshness observed_at_ns now_ns max_age_ns kind) \<longleftrightarrow> fresh observed_at_ns now_ns max_age_ns"
  using stale_evidence_iff [of observed_at_ns now_ns max_age_ns]
  by (simp_all add: validate_source_def validate_freshness_def stale_evidence_def)

lemma state_checks_iff: "first_error (state_checks s now_ns max_age_ns) = Inr u \<longleftrightarrow> state_attested s now_ns max_age_ns"
  unfolding first_error_ok state_checks_def
  by (cases "ns_product_state s") (auto simp: state_attested_def attested_def loss_attested_def split: option.split)

lemma attested_sources: "state_attested s now_ns max_age_ns \<Longrightarrow> \<exists>sources. evidence_sources s = Some sources"
  by (cases "ns_product_state s") (auto simp: state_attested_def loss_attested_def evidence_sources_def split: option.splits)

lemma validate_cases:
  "state_attested s now_ns max_age_ns \<Longrightarrow>
     \<exists>evidence. validate_nt_derived_capital_admission_state (Some s) now_ns max_age_ns = Some (Inr evidence)"
  "\<not> state_attested s now_ns max_age_ns \<Longrightarrow>
     \<exists>e. validate_nt_derived_capital_admission_state (Some s) now_ns max_age_ns = Some (Inl e)"
  using attested_sources [of s now_ns max_age_ns] state_checks_iff [of s now_ns max_age_ns]
  by (auto simp: validate_nt_derived_capital_admission_state_def split: sum.split)

end
