(* ===== verification/CapitalAdmission.thy ===== *)
theory CapitalAdmission
  imports CapitalAdmissionState
begin

text \<open>
  Capital admission (\<open>src/src/bolt_v3_capital_admission.rs\<close>): the worst-case liability of an intent,
  the decision that validates the observed state, asks the loss governor and reserves the liability,
  and the gate that owns the ledger and rebuilds it from open orders. An outer \<^term>\<open>None\<close> is a
  panic. Decimal one and multiplication are two further parameters.
\<close>

section \<open>Data\<close>

record 'd decimal_product_ops =
  dec_one :: 'd
  dec_mul :: "'d \<Rightarrow> 'd \<Rightarrow> 'd option"

record 'd FeeSlippagePolicy =
  max_fee_liability :: 'd
  max_slippage_liability :: 'd

record 'd CapitalAdmissionPolicy =
  min_remaining_pool_balance :: "'d option"
  fee_slippage_policy :: "'d FeeSlippagePolicy option"

datatype IntentSide = IntentBuy | IntentSell

datatype IntentOrderKind = IntentLimit | IntentMarket

datatype IntentLiquidity = Taker | RestingMaker

datatype ProductKind = PredictionMarketBinary

record 'd CapitalAdmissionRequest =
  ca_intent_id :: string
  ca_strategy_id :: string
  ca_instrument_id :: string
  ca_pool_id :: string
  ca_product_kind :: ProductKind
  ca_side :: IntentSide
  ca_quantity :: 'd
  ca_limit_price :: 'd
  ca_order_kind :: IntentOrderKind
  ca_liquidity :: IntentLiquidity
  ca_quote_set_id :: "string option"
  ca_now_ns :: u64

record 'd LiabilityQuote =
  lq_original_quantity :: 'd
  lq_accepted_quantity :: 'd
  lq_calculated_liability :: 'd
  lq_reserved_liability :: 'd
  lq_evidence_label :: string

datatype LiabilityError =
    MissingMarketState
  | MissingFeePolicy
  | MissingSlippagePolicy
  | InvalidIntentPrice
  | InvalidIntentQuantity
  | MissingQuoteSetId
  | InsufficientAllowance
  | InsufficientInventory
  | ArithmeticOverflow

datatype CapitalAdmissionInvariant =
    AcceptedReservationHasRejectionReason
  | ContradictoryReservationDecisionContext
  | MissingReservationRejectionReason

datatype CapitalAdmissionReason =
    Loss LossHaltReason
  | Reservation ReservationRejectionReason
  | Liability LiabilityError
  | Invariant CapitalAdmissionInvariant
  | MissingNtStateReason
  | StaleNtStateReason CapitalAdmissionStateEvidenceKind
  | UnattributedNtStateReason CapitalAdmissionStateEvidenceKind

datatype ValidatedReservationDecision =
    ValidatedAccepted
  | ValidatedRejected ReservationRejectionReason

datatype CapitalAdmissionEvidenceKind =
    PortfolioEvidence
  | ProviderCollateralAllowanceEvidence
  | OrderLifecycleEvidence
  | ProductStateEvidence
  | ReservationLedgerEvidence
  | LossSnapshotEvidence
  | LiabilityCalculatorEvidence

record CapitalAdmissionEvidenceSource =
  ae_kind :: CapitalAdmissionEvidenceKind
  ae_source :: string
  ae_observed_at_ns :: u64

record 'd CapitalAdmissionEvidence =
  ae_sources :: "CapitalAdmissionEvidenceSource list"
  ae_original_quantity :: 'd
  ae_accepted_quantity :: "'d option"
  ae_calculated_liability :: "'d option"
  ae_reserved_liability :: "'d option"

record 'd CapitalAdmissionDecision =
  ad_accepted :: bool
  ad_original_quantity :: 'd
  ad_accepted_quantity :: "'d option"
  ad_calculated_liability :: "'d option"
  ad_reserved_liability :: "'d option"
  ad_pool_id :: string
  ad_evidence :: "'d CapitalAdmissionEvidence"
  ad_reasons :: "CapitalAdmissionReason list"

record 'd CapitalAdmissionRebuildDecision =
  rb_accepted :: bool
  rb_reason :: "ReservationRejectionReason option"
  rb_attempted_reservation_count :: nat
  rb_rebuilt_reservation_count :: nat
  rb_live_reserved_liability :: 'd

datatype 'd CapitalAdmissionReservationEvidence =
    NtOpenOrder "'d ReservationRequest"
  | RetainedLifecycleReservation "'d RetainedReservation"

record 'd CapitalAdmissionGate =
  reservation_ledger :: "'d ReservationLedger"

section \<open>The liability of an intent\<close>

definition validate_capital_request :: "'d decimal_ops \<Rightarrow> 'd decimal_product_ops \<Rightarrow> 'd CapitalAdmissionRequest \<Rightarrow> LiabilityError + unit" where
  "validate_capital_request D M request =
     (if dec_le D (ca_quantity request) (dec_zero D) then Inl InvalidIntentQuantity
      else if dec_lt D (ca_limit_price request) (dec_zero D) \<or> dec_lt D (dec_one M) (ca_limit_price request) then Inl InvalidIntentPrice
      else Inr ())"

definition validate_liquidity :: "'d CapitalAdmissionRequest \<Rightarrow> LiabilityError + unit" where
  "validate_liquidity request =
     (if ca_liquidity request = RestingMaker \<and> (case ca_quote_set_id request of None \<Rightarrow> True | Some quote_set_id \<Rightarrow> quote_set_id = [])
      then Inl MissingQuoteSetId
      else Inr ())"

definition validate_fee_slippage_policy :: "'d decimal_ops \<Rightarrow> 'd FeeSlippagePolicy \<Rightarrow> LiabilityError + unit" where
  "validate_fee_slippage_policy D policy =
     (if dec_lt D (max_fee_liability policy) (dec_zero D) then Inl MissingFeePolicy
      else if dec_lt D (max_slippage_liability policy) (dec_zero D) then Inl MissingSlippagePolicy
      else Inr ())"

definition base_liability :: "'d decimal_ops \<Rightarrow> 'd decimal_product_ops \<Rightarrow> 'd CapitalAdmissionRequest \<Rightarrow> 'd option" where
  "base_liability D M request =
     (case ca_side request of
        IntentBuy \<Rightarrow> dec_mul M (ca_quantity request) (ca_limit_price request)
      | IntentSell \<Rightarrow> Some (dec_zero D))"

definition with_fee_and_slippage :: "'d decimal_ops \<Rightarrow> 'd FeeSlippagePolicy \<Rightarrow> 'd \<Rightarrow> 'd option" where
  "with_fee_and_slippage D fee_policy base =
     (case dec_add D base (max_fee_liability fee_policy) of
        None \<Rightarrow> None
      | Some liability \<Rightarrow> dec_add D liability (max_slippage_liability fee_policy))"

definition check_cover :: "'d decimal_ops \<Rightarrow> 'd CapitalAdmissionRequest \<Rightarrow> 'd PredictionMarketAdmissionSnapshot \<Rightarrow> 'd \<Rightarrow> LiabilityError + unit" where
  "check_cover D request snapshot liability =
     (case ca_side request of
        IntentBuy \<Rightarrow> if dec_lt D (pm_collateral_allowance snapshot) liability then Inl InsufficientAllowance else Inr ()
      | IntentSell \<Rightarrow>
          if ca_instrument_id request = pm_yes_instrument_id snapshot
          then ensure (\<not> dec_lt D (pm_yes_position snapshot) (ca_quantity request)) InsufficientInventory
          else if ca_instrument_id request = pm_no_instrument_id snapshot
          then ensure (\<not> dec_lt D (pm_no_position snapshot) (ca_quantity request)) InsufficientInventory
          else Inl InsufficientInventory)"

fun worst_case_liability :: "'d decimal_ops \<Rightarrow> 'd decimal_product_ops \<Rightarrow> 'd CapitalAdmissionRequest \<Rightarrow> 'd ProductAdmissionSnapshot \<Rightarrow>
    'd CapitalAdmissionPolicy \<Rightarrow> LiabilityError + 'd LiabilityQuote" where
  "worst_case_liability D M request (PredictionMarketBinarySnapshot snapshot) policy =
     and_then (validate_capital_request D M request) (\<lambda>_.
     and_then (validate_liquidity request) (\<lambda>_.
     and_then (ok_or (fee_slippage_policy policy) MissingFeePolicy) (\<lambda>fee_policy.
     and_then (validate_fee_slippage_policy D fee_policy) (\<lambda>_.
     and_then (ok_or (base_liability D M request) ArithmeticOverflow) (\<lambda>base.
     and_then (ok_or (with_fee_and_slippage D fee_policy base) ArithmeticOverflow) (\<lambda>liability.
     and_then (check_cover D request snapshot liability) (\<lambda>_.
     Inr \<lparr>lq_original_quantity = ca_quantity request, lq_accepted_quantity = ca_quantity request,
          lq_calculated_liability = liability, lq_reserved_liability = liability, lq_evidence_label = pm_source snapshot\<rparr>)))))))"

fun collateral_group_id :: "'d ProductAdmissionSnapshot \<Rightarrow> string" where
  "collateral_group_id (PredictionMarketBinarySnapshot snapshot) = pm_collateral_coupled_group_id snapshot"

section \<open>Decisions and their evidence\<close>

definition validate_reservation_decision :: "'d ReservationDecision \<Rightarrow> CapitalAdmissionInvariant + ValidatedReservationDecision" where
  "validate_reservation_decision decision =
     (case (rd_accepted decision, rd_reason decision, rd_available_after decision) of
        (True, None, Some _) \<Rightarrow> Inr ValidatedAccepted
      | (False, Some reason, None) \<Rightarrow> Inr (ValidatedRejected reason)
      | (False, None, _) \<Rightarrow> Inl MissingReservationRejectionReason
      | (True, Some _, _) \<Rightarrow> Inl AcceptedReservationHasRejectionReason
      | _ \<Rightarrow> Inl ContradictoryReservationDecisionContext)"

fun capital_admission_evidence_kind :: "CapitalAdmissionStateEvidenceKind \<Rightarrow> CapitalAdmissionEvidenceKind option" where
  "capital_admission_evidence_kind State = None"
| "capital_admission_evidence_kind Portfolio = Some PortfolioEvidence"
| "capital_admission_evidence_kind ProviderCollateralAllowance = Some ProviderCollateralAllowanceEvidence"
| "capital_admission_evidence_kind OrderLifecycle = Some OrderLifecycleEvidence"
| "capital_admission_evidence_kind ProductState = Some ProductStateEvidence"
| "capital_admission_evidence_kind ReservationLedgerState = Some ReservationLedgerEvidence"
| "capital_admission_evidence_kind LossSnapshotState = Some LossSnapshotEvidence"

definition admission_evidence :: "CapitalAdmissionStateEvidence \<Rightarrow> u64 \<Rightarrow> 'd LiabilityQuote \<Rightarrow> 'd CapitalAdmissionEvidence" where
  "admission_evidence state_evidence liability_observed_at_ns quote =
     \<lparr>ae_sources =
        List.map_filter (\<lambda>source. map_option (\<lambda>kind. \<lparr>ae_kind = kind, ae_source = se_source source, ae_observed_at_ns = se_observed_at_ns source\<rparr>)
          (capital_admission_evidence_kind (se_kind source))) (se_sources state_evidence) @
        [\<lparr>ae_kind = LiabilityCalculatorEvidence, ae_source = lq_evidence_label quote, ae_observed_at_ns = liability_observed_at_ns\<rparr>],
      ae_original_quantity = lq_original_quantity quote, ae_accepted_quantity = Some (lq_accepted_quantity quote),
      ae_calculated_liability = Some (lq_calculated_liability quote), ae_reserved_liability = Some (lq_reserved_liability quote)\<rparr>"

definition empty_evidence :: "'d \<Rightarrow> 'd CapitalAdmissionEvidence" where
  "empty_evidence original_quantity =
     \<lparr>ae_sources = [], ae_original_quantity = original_quantity, ae_accepted_quantity = None, ae_calculated_liability = None,
      ae_reserved_liability = None\<rparr>"

definition rejected_capital_admission :: "'d \<Rightarrow> string \<Rightarrow> CapitalAdmissionReason list \<Rightarrow> 'd CapitalAdmissionDecision" where
  "rejected_capital_admission original_quantity pool_id reasons =
     \<lparr>ad_accepted = False, ad_original_quantity = original_quantity, ad_accepted_quantity = None, ad_calculated_liability = None,
      ad_reserved_liability = None, ad_pool_id = pool_id, ad_evidence = empty_evidence original_quantity, ad_reasons = reasons\<rparr>"

definition rejected_capital_admission_with_liability :: "'d \<Rightarrow> string \<Rightarrow> 'd \<Rightarrow> 'd \<Rightarrow> 'd CapitalAdmissionEvidence \<Rightarrow>
    CapitalAdmissionReason list \<Rightarrow> 'd CapitalAdmissionDecision" where
  "rejected_capital_admission_with_liability original_quantity pool_id calculated_liability reserved_liability evidence reasons =
     \<lparr>ad_accepted = False, ad_original_quantity = original_quantity, ad_accepted_quantity = None,
      ad_calculated_liability = Some calculated_liability, ad_reserved_liability = Some reserved_liability, ad_pool_id = pool_id,
      ad_evidence = evidence, ad_reasons = reasons\<rparr>"

fun state_error_reason :: "CapitalAdmissionStateError \<Rightarrow> CapitalAdmissionReason" where
  "state_error_reason MissingNtState = MissingNtStateReason"
| "state_error_reason (StaleNtState kind) = StaleNtStateReason kind"
| "state_error_reason (UnattributedState kind) = UnattributedNtStateReason kind"

section \<open>The admission\<close>

record 'd CapitalAdmissionGateInputs =
  gi_request :: "'d CapitalAdmissionRequest"
  gi_state :: "'d NtDerivedCapitalAdmissionState option"
  gi_policy :: "'d CapitalAdmissionPolicy"
  gi_loss_policy :: "'d LossGovernorPolicy option"
  gi_capital_pool :: "'d CapitalPoolSnapshot"

text \<open>The tail of the decision, once the liability is known: reserve it and check the reservation's answer.\<close>

definition reserve_liability :: "'d decimal_ops \<Rightarrow> 'd \<Rightarrow> 'd CapitalAdmissionGateInputs \<Rightarrow> string \<Rightarrow> CapitalAdmissionStateEvidence \<Rightarrow> 'd LiabilityQuote \<Rightarrow>
    'd ReservationLedger \<Rightarrow> 'd CapitalAdmissionDecision \<times> 'd ReservationLedger" where
  "reserve_liability D dmax inputs group_id state_evidence quote ledger =
     (let request = gi_request inputs;
          evidence = admission_evidence state_evidence (ca_now_ns request) quote;
          reservation_request =
            \<lparr>rq_request_id = ca_intent_id request, rq_pool_id = ca_pool_id request, rq_collateral_group_id = group_id,
             rq_liability = lq_reserved_liability quote, rq_observed_at_ns = ca_now_ns request, rq_evidence_label = lq_evidence_label quote\<rparr>;
          refuse = rejected_capital_admission_with_liability (ca_quantity request) (ca_pool_id request) (lq_calculated_liability quote)
            (lq_reserved_liability quote) evidence
      in case ledger_reserve D dmax (gi_capital_pool inputs) reservation_request (ca_now_ns request)
                (min_remaining_pool_balance (gi_policy inputs)) ledger of
           (reservation_decision, ledger') \<Rightarrow>
             (case validate_reservation_decision reservation_decision of
                Inl invariant \<Rightarrow>
                  (refuse [Invariant invariant], snd (rollback_uncommitted (ca_pool_id request) (ca_intent_id request) ledger'))
              | Inr (ValidatedRejected reason) \<Rightarrow> (refuse [Reservation reason], ledger')
              | Inr ValidatedAccepted \<Rightarrow>
                  (\<lparr>ad_accepted = True, ad_original_quantity = ca_quantity request, ad_accepted_quantity = Some (lq_accepted_quantity quote),
                    ad_calculated_liability = Some (lq_calculated_liability quote), ad_reserved_liability = Some (lq_reserved_liability quote),
                    ad_pool_id = ca_pool_id request, ad_evidence = evidence, ad_reasons = []\<rparr>, ledger')))"

definition evaluate_capital_admission :: "'d decimal_ops \<Rightarrow> 'd decimal_product_ops \<Rightarrow> 'd \<Rightarrow> 'd CapitalAdmissionGateInputs \<Rightarrow> 'd ReservationLedger \<Rightarrow>
    ('d CapitalAdmissionDecision \<times> 'd ReservationLedger) option" where
  "evaluate_capital_admission D M dmax inputs ledger =
     (let request = gi_request inputs;
          reject = (\<lambda>reasons. Some (rejected_capital_admission (ca_quantity request) (ca_pool_id request) reasons, ledger))
      in if cp_pool_id (gi_capital_pool inputs) \<noteq> ca_pool_id request then reject [Reservation PoolMismatch]
         else case gi_state inputs of
           None \<Rightarrow> reject [MissingNtStateReason]
         | Some state \<Rightarrow> do {
             validated \<leftarrow> validate_nt_derived_capital_admission_state (Some state) (ca_now_ns request)
               (cp_max_snapshot_age_ns (gi_capital_pool inputs));
             case validated of
               Inl error \<Rightarrow> reject [state_error_reason error]
             | Inr state_evidence \<Rightarrow> do {
                 halted \<leftarrow> (case gi_loss_policy inputs of
                     None \<Rightarrow> Some None
                   | Some loss_policy \<Rightarrow>
                       map_option (\<lambda>decision. if accepted decision then None else Some (halt_reasons decision))
                         (evaluate_loss_admission D loss_policy (ns_loss_snapshot state) (ca_now_ns request)));
                 case halted of
                   Some reasons \<Rightarrow> reject (map Loss reasons)
                 | None \<Rightarrow>
                     (case worst_case_liability D M request (ns_product_state state) (gi_policy inputs) of
                        Inl error \<Rightarrow> reject [Liability error]
                      | Inr quote \<Rightarrow>
                          Some (reserve_liability D dmax inputs (collateral_group_id (ns_product_state state)) state_evidence quote ledger))
               }
           })"

section \<open>The gate\<close>

definition gate_unreconciled :: "'d CapitalAdmissionGate" where
  "gate_unreconciled = \<lparr>reservation_ledger = ledger_unreconciled\<rparr>"

definition gate_reconciled :: "'d CapitalAdmissionGate" where
  "gate_reconciled = \<lparr>reservation_ledger = ledger_reconciled\<rparr>"

definition gate_is_reconciled :: "'d CapitalAdmissionGate \<Rightarrow> bool" where
  "gate_is_reconciled gate = reconciliation_complete (reservation_ledger gate)"

definition gate_invalidate :: "'d CapitalAdmissionGate \<Rightarrow> 'd CapitalAdmissionGate" where
  "gate_invalidate gate = gate\<lparr>reservation_ledger := invalidate_reconciliation (reservation_ledger gate)\<rparr>"

type_synonym 'd reserve_fn = "'d ReservationLedger \<Rightarrow> 'd CapitalPoolSnapshot \<Rightarrow> 'd ReservationRequest \<Rightarrow> u64 \<Rightarrow> 'd option \<Rightarrow>
  'd ReservationDecision \<times> 'd ReservationLedger"

text \<open>One turn of the rebuild loop on the ledger built aside.\<close>

fun rebuild_one :: "'d decimal_ops \<Rightarrow> 'd reserve_fn \<Rightarrow> 'd CapitalPoolSnapshot \<Rightarrow> u64 \<Rightarrow> 'd option \<Rightarrow> 'd CapitalAdmissionReservationEvidence \<Rightarrow>
    'd ReservationLedger \<Rightarrow> (CapitalAdmissionInvariant + (ReservationRejectionReason + unit)) \<times> 'd ReservationLedger" where
  "rebuild_one D reserve pool now_ns min_remaining (NtOpenOrder request) rebuilt =
     (if cp_pool_id pool \<noteq> rq_pool_id request then (Inr (Inl PoolMismatch), rebuilt)
      else case reserve rebuilt pool request now_ns min_remaining of
        (decision, rebuilt') \<Rightarrow>
          (case validate_reservation_decision decision of
             Inl invariant \<Rightarrow> (Inl invariant, rebuilt')
           | Inr (ValidatedRejected reason) \<Rightarrow> (Inr (Inl reason), rebuilt')
           | Inr ValidatedAccepted \<Rightarrow> (Inr (Inr ()), rebuilt')))"
| "rebuild_one D reserve pool now_ns min_remaining (RetainedLifecycleReservation retained) rebuilt =
     (case carry_retained D (cp_pool_id pool) retained rebuilt of
        (Inl reason, rebuilt') \<Rightarrow> (Inr (Inl reason), rebuilt')
      | (Inr _, rebuilt') \<Rightarrow> (Inr (Inr ()), rebuilt'))"

text \<open>The loop: an invariant violation, the first rejection with its index, or the rebuilt ledger.\<close>

fun rebuild_from :: "'d decimal_ops \<Rightarrow> 'd reserve_fn \<Rightarrow> 'd CapitalPoolSnapshot \<Rightarrow> u64 \<Rightarrow> 'd option \<Rightarrow> nat \<Rightarrow>
    'd CapitalAdmissionReservationEvidence list \<Rightarrow> 'd ReservationLedger \<Rightarrow>
    CapitalAdmissionInvariant + ((ReservationRejectionReason \<times> nat) + 'd ReservationLedger)" where
  "rebuild_from D reserve pool now_ns min_remaining index [] rebuilt = Inr (Inr rebuilt)"
| "rebuild_from D reserve pool now_ns min_remaining index (e # es) rebuilt =
     (case rebuild_one D reserve pool now_ns min_remaining e rebuilt of
        (Inl invariant, _) \<Rightarrow> Inl invariant
      | (Inr (Inl reason), _) \<Rightarrow> Inr (Inl (reason, index))
      | (Inr (Inr _), rebuilt') \<Rightarrow> rebuild_from D reserve pool now_ns min_remaining (index + 1) es rebuilt')"

definition gate_live_reserved_liability :: "'d decimal_ops \<Rightarrow> 'd \<Rightarrow> 'd CapitalAdmissionGate \<Rightarrow> string \<Rightarrow> 'd" where
  "gate_live_reserved_liability D dmax gate pool_id = live_reserved_liability D dmax (reservation_ledger gate) pool_id"

definition rebuild_open_order_reservations_with :: "'d decimal_ops \<Rightarrow> 'd \<Rightarrow> 'd reserve_fn \<Rightarrow> 'd CapitalPoolSnapshot \<Rightarrow>
    'd CapitalAdmissionReservationEvidence list \<Rightarrow> u64 \<Rightarrow> 'd option \<Rightarrow> 'd CapitalAdmissionGate \<Rightarrow>
    (CapitalAdmissionInvariant + 'd CapitalAdmissionRebuildDecision) \<times> 'd CapitalAdmissionGate" where
  "rebuild_open_order_reservations_with D dmax reserve pool reservation_evidence now_ns min_remaining gate =
     (case rebuild_from D reserve pool now_ns min_remaining 0 reservation_evidence ledger_reconciled of
        Inl invariant \<Rightarrow> (Inl invariant, gate_invalidate gate)
      | Inr (Inl (reason, index)) \<Rightarrow>
          (Inr \<lparr>rb_accepted = False, rb_reason = Some reason, rb_attempted_reservation_count = index + 1, rb_rebuilt_reservation_count = index,
             rb_live_reserved_liability = gate_live_reserved_liability D dmax (gate_invalidate gate) (cp_pool_id pool)\<rparr>,
           gate_invalidate gate)
      | Inr (Inr rebuilt_ledger) \<Rightarrow>
          (Inr \<lparr>rb_accepted = True, rb_reason = None, rb_attempted_reservation_count = length reservation_evidence,
             rb_rebuilt_reservation_count = length reservation_evidence,
             rb_live_reserved_liability = gate_live_reserved_liability D dmax (gate\<lparr>reservation_ledger := rebuilt_ledger\<rparr>) (cp_pool_id pool)\<rparr>,
           gate\<lparr>reservation_ledger := rebuilt_ledger\<rparr>))"

definition rebuild_open_order_reservations :: "'d decimal_ops \<Rightarrow> 'd \<Rightarrow> 'd CapitalPoolSnapshot \<Rightarrow> 'd CapitalAdmissionReservationEvidence list \<Rightarrow>
    u64 \<Rightarrow> 'd option \<Rightarrow> 'd CapitalAdmissionGate \<Rightarrow>
    (CapitalAdmissionInvariant + 'd CapitalAdmissionRebuildDecision) \<times> 'd CapitalAdmissionGate" where
  "rebuild_open_order_reservations D dmax =
     rebuild_open_order_reservations_with D dmax
       (\<lambda>ledger pool reservation now_ns min_remaining. ledger_reserve D dmax pool reservation now_ns min_remaining ledger)"

definition gate_retained_reservation :: "string \<Rightarrow> string \<Rightarrow> string \<Rightarrow> 'd CapitalAdmissionGate \<Rightarrow> ReservationRejectionReason + 'd RetainedReservation" where
  "gate_retained_reservation pool_id group_id reservation_id gate =
     retained_reservation pool_id group_id reservation_id (reservation_ledger gate)"

definition gate_remove_existing :: "string \<Rightarrow> string \<Rightarrow> string \<Rightarrow> 'd CapitalAdmissionGate \<Rightarrow> 'd ReservationReleaseDecision \<times> 'd CapitalAdmissionGate" where
  "gate_remove_existing pool_id group_id reservation_id gate =
     (case remove_existing pool_id group_id reservation_id (reservation_ledger gate) of
        (decision, ledger) \<Rightarrow> (decision, gate\<lparr>reservation_ledger := ledger\<rparr>))"

definition evaluate_and_reserve :: "'d decimal_ops \<Rightarrow> 'd decimal_product_ops \<Rightarrow> 'd \<Rightarrow> 'd CapitalAdmissionGateInputs \<Rightarrow> 'd CapitalAdmissionGate \<Rightarrow>
    ('d CapitalAdmissionDecision \<times> 'd CapitalAdmissionGate) option" where
  "evaluate_and_reserve D M dmax inputs gate =
     map_option (\<lambda>(decision, ledger). (decision, gate\<lparr>reservation_ledger := ledger\<rparr>))
       (evaluate_capital_admission D M dmax inputs (reservation_ledger gate))"

definition rollback_uncommitted_reservation :: "string \<Rightarrow> string \<Rightarrow> 'd CapitalAdmissionGate \<Rightarrow> 'd option \<times> 'd CapitalAdmissionGate" where
  "rollback_uncommitted_reservation pool_id request_id gate =
     (case rollback_uncommitted pool_id request_id (reservation_ledger gate) of
        (liability, ledger) \<Rightarrow> (liability, gate\<lparr>reservation_ledger := ledger\<rparr>))"

end
