(* ===== verification/CapitalAdmissionSafety.thy ===== *)
theory CapitalAdmissionSafety
  imports CapitalAdmission
begin

text \<open>
  Correctness of capital admission: what an accepted intent has been checked for and reserves, over
  every history of the gate, and that a rebuild replaces the ledger completely or not at all.
\<close>

section \<open>The parts of a decision\<close>

lemma reserve_decision:
  fixes D :: "'d decimal_ops"
  obtains (taken) before after where "reserve_guards D pool request now_ns ledger"
      "reserve_amounts D dmax pool request min_remaining ledger (before, after)"
      "ledger_reserve D dmax pool request now_ns min_remaining ledger =
        (\<lparr>rd_accepted = True, rd_reason = None, rd_requested_liability = rq_liability request, rd_available_before = before,
          rd_available_after = Some after\<rparr>, ledger\<lparr>live_reservations := live_reservations ledger @ [request_entry request]\<rparr>)"
  | (refused) decision reason where "ledger_reserve D dmax pool request now_ns min_remaining ledger = (decision, ledger)"
      "validate_reservation_decision decision = Inr (ValidatedRejected reason)"
proof (cases "reserve_guards D pool request now_ns ledger \<and> (\<exists>ab. reserve_amounts D dmax pool request min_remaining ledger ab)")
  case True
  then show ?thesis using reserve_accepted taken by (metis surj_pair)
next
  case False
  obtain decision ledger' where r: "ledger_reserve D dmax pool request now_ns min_remaining ledger = (decision, ledger')" by fastforce
  then show ?thesis using reserve_refused [OF False r] by (auto simp: validate_reservation_decision_def intro: refused)
qed

lemma validate_taken [simp]:
  "validate_reservation_decision \<lparr>rd_accepted = True, rd_reason = None, rd_requested_liability = l, rd_available_before = b,
     rd_available_after = Some a\<rparr> = Inr ValidatedAccepted"
  by (simp add: validate_reservation_decision_def)

lemma loss_halt_has_reasons: "evaluate_loss_admission D policy snapshot now_ns = Some d \<Longrightarrow> accepted d \<longleftrightarrow> halt_reasons d = []"
  by (auto simp: evaluate_loss_admission_def evaluate_loss_admission_with_observations_def rejected_def Let_def
      split: option.splits if_splits Option.bind_splits)

text \<open>What covers an intent: its fees, its price and, by side, the allowance or the position it sells.\<close>

definition sold_position :: "'d CapitalAdmissionRequest \<Rightarrow> 'd PredictionMarketAdmissionSnapshot \<Rightarrow> 'd option" where
  "sold_position request snapshot =
     (if ca_instrument_id request = pm_yes_instrument_id snapshot then Some (pm_yes_position snapshot)
      else if ca_instrument_id request = pm_no_instrument_id snapshot then Some (pm_no_position snapshot)
      else None)"

definition intent_covered :: "'d decimal_ops \<Rightarrow> 'd decimal_product_ops \<Rightarrow> ('d \<Rightarrow> rat) \<Rightarrow> 'd CapitalAdmissionRequest \<Rightarrow>
    'd PredictionMarketAdmissionSnapshot \<Rightarrow> 'd CapitalAdmissionPolicy \<Rightarrow> 'd \<Rightarrow> bool" where
  "intent_covered D M val request snapshot policy liability \<longleftrightarrow>
     0 < val (ca_quantity request) \<and> 0 \<le> val (ca_limit_price request) \<and> val (ca_limit_price request) \<le> val (dec_one M) \<and>
     (case fee_slippage_policy policy of
        None \<Rightarrow> False
      | Some fees \<Rightarrow>
          0 \<le> val (max_fee_liability fees) \<and> 0 \<le> val (max_slippage_liability fees) \<and>
          (case ca_side request of
             IntentBuy \<Rightarrow>
               (case dec_mul M (ca_quantity request) (ca_limit_price request) of
                  None \<Rightarrow> False
                | Some cost \<Rightarrow>
                    val liability = val cost + val (max_fee_liability fees) + val (max_slippage_liability fees) \<and>
                    val liability \<le> val (pm_collateral_allowance snapshot))
           | IntentSell \<Rightarrow>
               val liability = val (max_fee_liability fees) + val (max_slippage_liability fees) \<and>
               (case sold_position request snapshot of None \<Rightarrow> False | Some held \<Rightarrow> val (ca_quantity request) \<le> val held)))"

lemma with_fee_value:
  assumes "decimal_exact D val" and "with_fee_and_slippage D fees base = Some liability"
  shows "val liability = val base + val (max_fee_liability fees) + val (max_slippage_liability fees)"
  using assms(2) decimal_exactD(2) [OF assms(1)] by (fastforce simp: with_fee_and_slippage_def split: option.splits)

lemma check_cover_ok:
  assumes "decimal_exact D val"
  shows "check_cover D request snapshot liability = Inr u \<longleftrightarrow>
    (case ca_side request of
       IntentBuy \<Rightarrow> val liability \<le> val (pm_collateral_allowance snapshot)
     | IntentSell \<Rightarrow> (case sold_position request snapshot of None \<Rightarrow> False | Some held \<Rightarrow> val (ca_quantity request) \<le> val held))"
  by (auto simp: check_cover_def sold_position_def decimal_exactD(6) [OF assms] not_less split: IntentSide.split)

lemma worst_case_covered:
  assumes D: "decimal_exact D val" and "worst_case_liability D M request (PredictionMarketBinarySnapshot snapshot) policy = Inr quote"
  shows "intent_covered D M val request snapshot policy (lq_reserved_liability quote)"
    and "quote = \<lparr>lq_original_quantity = ca_quantity request, lq_accepted_quantity = ca_quantity request,
      lq_calculated_liability = lq_reserved_liability quote, lq_reserved_liability = lq_reserved_liability quote,
      lq_evidence_label = pm_source snapshot\<rparr>"
proof -
  obtain fees base liability where w: "validate_capital_request D M request = Inr ()" "fee_slippage_policy policy = Some fees"
    "validate_fee_slippage_policy D fees = Inr ()" "base_liability D M request = Some base"
    "with_fee_and_slippage D fees base = Some liability" "check_cover D request snapshot liability = Inr ()"
    and q: "quote = \<lparr>lq_original_quantity = ca_quantity request, lq_accepted_quantity = ca_quantity request,
      lq_calculated_liability = liability, lq_reserved_liability = liability, lq_evidence_label = pm_source snapshot\<rparr>"
    using assms(2) by (auto simp: and_then_Inr)
  show "quote = \<lparr>lq_original_quantity = ca_quantity request, lq_accepted_quantity = ca_quantity request,
      lq_calculated_liability = lq_reserved_liability quote, lq_reserved_liability = lq_reserved_liability quote,
      lq_evidence_label = pm_source snapshot\<rparr>" by (simp add: q)
  have request: "0 < val (ca_quantity request)" "0 \<le> val (ca_limit_price request)" "val (ca_limit_price request) \<le> val (dec_one M)"
    using w(1) by (simp_all add: validate_capital_request_def dec_le_iff [OF D] decimal_exactD(1,6) [OF D] not_less not_le split: if_splits)
  have fees: "0 \<le> val (max_fee_liability fees)" "0 \<le> val (max_slippage_liability fees)"
    using w(3) by (simp_all add: validate_fee_slippage_policy_def decimal_exactD(1,6) [OF D] not_less split: if_splits)
  have zero: "val (dec_zero D) = 0" using decimal_exactD(1) [OF D] .
  show "intent_covered D M val request snapshot policy (lq_reserved_liability quote)"
    using request fees w(2,4,6) with_fee_value [OF D w(5)] zero
    by (cases "ca_side request") (auto simp: q intent_covered_def base_liability_def check_cover_ok [OF D])
qed

section \<open>The decision\<close>

definition intent_reservation :: "'d CapitalAdmissionRequest \<Rightarrow> 'd PredictionMarketAdmissionSnapshot \<Rightarrow> 'd \<Rightarrow> 'd ReservationRequest" where
  "intent_reservation request snapshot liability =
     \<lparr>rq_request_id = ca_intent_id request, rq_pool_id = ca_pool_id request, rq_collateral_group_id = pm_collateral_coupled_group_id snapshot,
      rq_liability = liability, rq_observed_at_ns = ca_now_ns request, rq_evidence_label = pm_source snapshot\<rparr>"

definition loss_admits :: "'d decimal_ops \<Rightarrow> 'd CapitalAdmissionGateInputs \<Rightarrow> 'd NtDerivedCapitalAdmissionState \<Rightarrow> bool" where
  "loss_admits D inputs state \<longleftrightarrow>
     (case gi_loss_policy inputs of
        None \<Rightarrow> True
      | Some policy \<Rightarrow>
          (case evaluate_loss_admission D policy (ns_loss_snapshot state) (ca_now_ns (gi_request inputs)) of
             None \<Rightarrow> False
           | Some decision \<Rightarrow> accepted decision))"

text \<open>Everything an accepted admission has been through.\<close>

definition admission_checked :: "'d decimal_ops \<Rightarrow> 'd decimal_product_ops \<Rightarrow> 'd \<Rightarrow> 'd CapitalAdmissionGateInputs \<Rightarrow> 'd ReservationLedger \<Rightarrow>
    'd NtDerivedCapitalAdmissionState \<Rightarrow> 'd PredictionMarketAdmissionSnapshot \<Rightarrow> 'd LiabilityQuote \<Rightarrow> bool" where
  "admission_checked D M dmax inputs ledger state snapshot quote \<longleftrightarrow>
     gi_state inputs = Some state \<and> ns_product_state state = PredictionMarketBinarySnapshot snapshot \<and>
     state_attested state (ca_now_ns (gi_request inputs)) (cp_max_snapshot_age_ns (gi_capital_pool inputs)) \<and>
     loss_admits D inputs state \<and>
     worst_case_liability D M (gi_request inputs) (PredictionMarketBinarySnapshot snapshot) (gi_policy inputs) = Inr quote \<and>
     reserve_guards D (gi_capital_pool inputs) (intent_reservation (gi_request inputs) snapshot (lq_reserved_liability quote))
       (ca_now_ns (gi_request inputs)) ledger \<and>
     (\<exists>amounts. reserve_amounts D dmax (gi_capital_pool inputs) (intent_reservation (gi_request inputs) snapshot (lq_reserved_liability quote))
       (min_remaining_pool_balance (gi_policy inputs)) ledger amounts)"

lemma quote_label: "worst_case_liability D M request (PredictionMarketBinarySnapshot snapshot) policy = Inr quote \<Longrightarrow> lq_evidence_label quote = pm_source snapshot"
  by (auto simp: and_then_Inr)

lemma reserve_liability_cases:
  assumes "lq_evidence_label quote = pm_source snapshot"
    and "reserve_liability D dmax inputs (pm_collateral_coupled_group_id snapshot) evidence quote ledger = (decision, ledger')"
  shows "\<not> ad_accepted decision \<and> ad_reasons decision \<noteq> [] \<and> ledger' = ledger \<or>
    ad_accepted decision \<and> ad_reasons decision = [] \<and> ad_reserved_liability decision = Some (lq_reserved_liability quote) \<and>
    ledger' = ledger\<lparr>live_reservations := live_reservations ledger @
      [request_entry (intent_reservation (gi_request inputs) snapshot (lq_reserved_liability quote))]\<rparr> \<and>
    reserve_guards D (gi_capital_pool inputs) (intent_reservation (gi_request inputs) snapshot (lq_reserved_liability quote))
      (ca_now_ns (gi_request inputs)) ledger \<and>
    (\<exists>amounts. reserve_amounts D dmax (gi_capital_pool inputs) (intent_reservation (gi_request inputs) snapshot (lq_reserved_liability quote))
      (min_remaining_pool_balance (gi_policy inputs)) ledger amounts)"
  using reserve_decision [where D = D and pool = "gi_capital_pool inputs" and ledger = ledger and dmax = dmax
      and request = "intent_reservation (gi_request inputs) snapshot (lq_reserved_liability quote)"
      and now_ns = "ca_now_ns (gi_request inputs)" and min_remaining = "min_remaining_pool_balance (gi_policy inputs)"]
proof cases
  case (taken before after)
  then show ?thesis using assms unfolding reserve_liability_def Let_def intent_reservation_def by auto
next
  case (refused d reason)
  then show ?thesis using assms
    unfolding reserve_liability_def Let_def intent_reservation_def rejected_capital_admission_with_liability_def by auto
qed

lemma evaluate_cases:
  assumes e: "evaluate_capital_admission D M dmax inputs ledger = Some (decision, ledger')"
  shows "\<not> ad_accepted decision \<and> ad_reasons decision \<noteq> [] \<and> ledger' = ledger \<or>
    (\<exists>state snapshot quote. admission_checked D M dmax inputs ledger state snapshot quote \<and>
      ad_accepted decision \<and> ad_reasons decision = [] \<and> ad_reserved_liability decision = Some (lq_reserved_liability quote) \<and>
      ledger' = ledger\<lparr>live_reservations := live_reservations ledger @
        [request_entry (intent_reservation (gi_request inputs) snapshot (lq_reserved_liability quote))]\<rparr>)"
proof (cases "gi_state inputs")
  case None
  then show ?thesis using e by (auto simp: evaluate_capital_admission_def rejected_capital_admission_def Let_def split: if_splits)
next
  case (Some state)
  obtain snapshot where product: "ns_product_state state = PredictionMarketBinarySnapshot snapshot" by (cases "ns_product_state state")
  let ?now = "ca_now_ns (gi_request inputs)" and ?age = "cp_max_snapshot_age_ns (gi_capital_pool inputs)"
  note unfolded = evaluate_capital_admission_def rejected_capital_admission_def Let_def Some option.case product
  show ?thesis
  proof (cases "cp_pool_id (gi_capital_pool inputs) = ca_pool_id (gi_request inputs) \<and> state_attested state ?now ?age \<and> loss_admits D inputs state")
    case True
    obtain evidence where v: "validate_nt_derived_capital_admission_state (Some state) ?now ?age = Some (Inr evidence)"
      using validate_cases(1) True by blast
    show ?thesis
    proof (cases "worst_case_liability D M (gi_request inputs) (PredictionMarketBinarySnapshot snapshot) (gi_policy inputs)")
      case (Inl error)
      then show ?thesis using e True v unfolding unfolded loss_admits_def by (auto split: option.splits)
    next
      case (Inr quote)
      then have "reserve_liability D dmax inputs (pm_collateral_coupled_group_id snapshot) evidence quote ledger = (decision, ledger')"
        using e True v unfolding unfolded loss_admits_def by (auto split: option.splits)
      from reserve_liability_cases [OF quote_label [OF Inr] this] show ?thesis
        using Some product True Inr unfolding admission_checked_def by blast
    qed
  next
    case False
    then show ?thesis
      using e validate_cases [of state ?now ?age] loss_halt_has_reasons [of D _ "ns_loss_snapshot state" ?now] unfolding unfolded loss_admits_def
      by (cases "state_attested state ?now ?age") (auto split: option.splits if_splits)
  qed
qed

section \<open>Rebuilding the ledger\<close>

abbreviation own_reserve :: "'d decimal_ops \<Rightarrow> 'd \<Rightarrow> 'd reserve_fn" where
  "own_reserve D dmax \<equiv> \<lambda>ledger pool reservation now_ns min_remaining. ledger_reserve D dmax pool reservation now_ns min_remaining ledger"

fun evidence_entry :: "'d CapitalAdmissionReservationEvidence \<Rightarrow> 'd LiveReservation" where
  "evidence_entry (NtOpenOrder request) = request_entry request"
| "evidence_entry (RetainedLifecycleReservation retained) = retained"

text \<open>A turn appends its entry, which keeps the ledger well-formed, or refuses and leaves it.\<close>

lemma rebuild_one_cases:
  obtains (added) "rebuild_one D (own_reserve D dmax) pool now_ns min_remaining e rebuilt =
        (Inr (Inr ()), rebuilt\<lparr>live_reservations := live_reservations rebuilt @ [evidence_entry e]\<rparr>)"
      "lr_pool_id (evidence_entry e) = cp_pool_id pool"
      "\<And>val. decimal_exact D val \<Longrightarrow> ledger_wf val (live_reservations rebuilt) \<Longrightarrow> ledger_wf val (live_reservations rebuilt @ [evidence_entry e])"
  | (refused) reason where "rebuild_one D (own_reserve D dmax) pool now_ns min_remaining e rebuilt = (Inr (Inl reason), rebuilt)"
proof (cases e)
  case (NtOpenOrder request)
  show ?thesis
    using reserve_decision [where D = D and pool = pool and ledger = rebuilt and dmax = dmax and request = request
        and now_ns = now_ns and min_remaining = min_remaining]
  proof cases
    case (taken before after)
    have "ledger_wf val (live_reservations rebuilt @ [evidence_entry e])"
      if "decimal_exact D val" "ledger_wf val (live_reservations rebuilt)" for val
      using taken(1) that
      by (auto simp: NtOpenOrder reserve_guards_def ledger_wf_def reservation_key_def reservation_matches_def list_ex_iff request_entry_def
          dec_le_iff decimal_exactD(1))
    then show ?thesis using taken NtOpenOrder by (intro added) (auto simp: reserve_guards_def request_entry_def)
  next
    case (refused d reason)
    then show ?thesis using NtOpenOrder that(2) by (cases "cp_pool_id pool = rq_pool_id request") auto
  qed
next
  case (RetainedLifecycleReservation r)
  show ?thesis
  proof (cases "fst (carry_retained D (cp_pool_id pool) r rebuilt)")
    case (Inl reason)
    then have "carry_retained D (cp_pool_id pool) r rebuilt = (Inl reason, rebuilt)"
      by (auto simp: carry_retained_def split: if_splits)
    then show ?thesis using RetainedLifecycleReservation that(2) by simp
  next
    case (Inr liability)
    then have c: "carry_retained D (cp_pool_id pool) r rebuilt = (Inr liability, rebuilt\<lparr>live_reservations := live_reservations rebuilt @ [r]\<rparr>)"
      "lr_pool_id r = cp_pool_id pool" "\<not> missing_identity (lr_request_id r) (lr_pool_id r) (lr_collateral_group_id r)"
      "\<not> dec_le D (lr_liability r) (dec_zero D)" "\<not> list_ex (reservation_matches (lr_pool_id r) (lr_request_id r)) (live_reservations rebuilt)"
      by (simp_all add: carry_retained_def split: if_splits)
    have "ledger_wf val (live_reservations rebuilt @ [r])" if "decimal_exact D val" "ledger_wf val (live_reservations rebuilt)" for val
      using c(3-5) that by (auto simp: ledger_wf_def reservation_key_def reservation_matches_def list_ex_iff dec_le_iff decimal_exactD(1))
    then show ?thesis using c(1,2) RetainedLifecycleReservation by (intro added) auto
  qed
qed

lemma rebuild_from_cases:
  obtains (rebuilt) "rebuild_from D (own_reserve D dmax) pool now_ns min_remaining index es ledger =
        Inr (Inr (ledger\<lparr>live_reservations := live_reservations ledger @ map evidence_entry es\<rparr>))"
      "list_all (\<lambda>e. lr_pool_id (evidence_entry e) = cp_pool_id pool) es"
      "\<And>val. decimal_exact D val \<Longrightarrow> ledger_wf val (live_reservations ledger) \<Longrightarrow> ledger_wf val (live_reservations ledger @ map evidence_entry es)"
  | (refused) reason i where "i < length es"
      "rebuild_from D (own_reserve D dmax) pool now_ns min_remaining index es ledger = Inr (Inl (reason, index + i))"
proof (induction es arbitrary: index ledger thesis)
  case Nil
  show ?case by (rule Nil(1)) simp_all
next
  case (Cons e es)
  show ?case
  proof (cases rule: rebuild_one_cases [of D dmax pool now_ns min_remaining e ledger])
    case added
    let ?next = "ledger\<lparr>live_reservations := live_reservations ledger @ [evidence_entry e]\<rparr>"
    show ?thesis
    proof (cases rule: Cons.IH [where index = "index + 1" and ledger = ?next, case_names rebuilt refused])
      case rebuilt
      then show ?thesis using added by (intro Cons.prems(1)) simp_all
    next
      case (refused i reason)
      then show ?thesis using added by (intro Cons.prems(2) [of "Suc i" reason]) simp_all
    qed
  next
    case (refused reason)
    then show ?thesis by (intro Cons.prems(2) [of 0 reason]) simp_all
  qed
qed

text \<open>
  C33. Rebuilding the gate's ledger from open orders and retained reservations is all or nothing, and
  the invariant error is never returned. When it is accepted, the ledger is reconciled and holds
  exactly the reservations of the evidence, in order and all of the snapshot's pool. Otherwise a reason
  and the number of reservations that had passed are reported, the live reservations are those of
  before, and the ledger is no longer reconciled, so that nothing new is admitted.
\<close>

theorem rebuild_all_or_nothing:
  "case rebuild_open_order_reservations D dmax pool evidence now_ns min_remaining gate of
     (Inl invariant, _) \<Rightarrow> False
   | (Inr decision, gate') \<Rightarrow>
       if rb_accepted decision
       then rb_reason decision = None \<and> rb_rebuilt_reservation_count decision = length evidence \<and> gate_is_reconciled gate' \<and>
         live_reservations (reservation_ledger gate') = map evidence_entry evidence \<and>
         list_all (\<lambda>r. lr_pool_id r = cp_pool_id pool) (live_reservations (reservation_ledger gate'))
       else rb_reason decision \<noteq> None \<and> rb_rebuilt_reservation_count decision < length evidence \<and>
         rb_attempted_reservation_count decision = rb_rebuilt_reservation_count decision + 1 \<and> \<not> gate_is_reconciled gate' \<and>
         live_reservations (reservation_ledger gate') = live_reservations (reservation_ledger gate)"
proof (cases rule: rebuild_from_cases [of D dmax pool now_ns min_remaining 0 evidence ledger_reconciled])
  case rebuilt
  then show ?thesis
    by (simp add: rebuild_open_order_reservations_def rebuild_open_order_reservations_with_def ledger_reconciled_def gate_is_reconciled_def
        list.pred_map comp_def)
next
  case (refused i reason)
  then show ?thesis
    by (simp add: rebuild_open_order_reservations_def rebuild_open_order_reservations_with_def gate_invalidate_def
        invalidate_reconciliation_def gate_is_reconciled_def)
qed

section \<open>Histories of the gate\<close>

datatype 'd gate_call =
    GateAdmit "'d CapitalAdmissionGateInputs"
  | GateRebuild "'d CapitalPoolSnapshot" "'d CapitalAdmissionReservationEvidence list" u64 "'d option"
  | GateRemoveExisting string string string
  | GateRollback string string
  | GateInvalidate

fun gate_serve :: "'d decimal_ops \<Rightarrow> 'd decimal_product_ops \<Rightarrow> 'd \<Rightarrow> 'd gate_call \<Rightarrow> 'd CapitalAdmissionGate \<Rightarrow> 'd CapitalAdmissionGate option" where
  "gate_serve D M dmax (GateAdmit inputs) gate = map_option snd (evaluate_and_reserve D M dmax inputs gate)"
| "gate_serve D M dmax (GateRebuild pool evidence now_ns min_remaining) gate =
     Some (snd (rebuild_open_order_reservations D dmax pool evidence now_ns min_remaining gate))"
| "gate_serve D M dmax (GateRemoveExisting pool_id group_id request_id) gate = Some (snd (gate_remove_existing pool_id group_id request_id gate))"
| "gate_serve D M dmax (GateRollback pool_id request_id) gate = Some (snd (rollback_uncommitted_reservation pool_id request_id gate))"
| "gate_serve D M dmax GateInvalidate gate = Some (gate_invalidate gate)"

fun gate_run :: "'d decimal_ops \<Rightarrow> 'd decimal_product_ops \<Rightarrow> 'd \<Rightarrow> 'd gate_call list \<Rightarrow> 'd CapitalAdmissionGate \<Rightarrow> 'd CapitalAdmissionGate option" where
  "gate_run D M dmax [] gate = Some gate"
| "gate_run D M dmax (c # cs) gate = Option.bind (gate_serve D M dmax c gate) (gate_run D M dmax cs)"

definition gate_wf :: "('d \<Rightarrow> rat) \<Rightarrow> 'd CapitalAdmissionGate \<Rightarrow> bool" where
  "gate_wf val gate \<longleftrightarrow> ledger_wf val (live_reservations (reservation_ledger gate))"

lemma rebuild_wf:
  assumes "decimal_exact D val" and "gate_wf val gate"
  shows "gate_wf val (snd (rebuild_open_order_reservations D dmax pool evidence now_ns min_remaining gate))"
proof (cases rule: rebuild_from_cases [of D dmax pool now_ns min_remaining 0 evidence ledger_reconciled])
  case rebuilt
  have "ledger_wf val (live_reservations ledger_reconciled)" by (simp add: ledger_reconciled_def ledger_wf_def)
  from rebuilt(3) [OF assms(1) this] show ?thesis using rebuilt(1)
    by (simp add: rebuild_open_order_reservations_def rebuild_open_order_reservations_with_def gate_wf_def)
next
  case (refused i reason)
  then show ?thesis using assms(2)
    by (simp add: rebuild_open_order_reservations_def rebuild_open_order_reservations_with_def gate_invalidate_def
        invalidate_reconciliation_def gate_wf_def)
qed

lemma admit_wf:
  assumes D: "decimal_exact D val" "decimal_bounded D val dmax" and wf: "ledger_wf val (live_reservations ledger)"
    and e: "evaluate_capital_admission D M dmax inputs ledger = Some (decision, ledger')"
  shows "ledger_wf val (live_reservations ledger')"
  using evaluate_cases [OF e] reserve_fits(1) [OF D wf] wf by (auto simp: admission_checked_def)

lemma gate_serve_wf:
  assumes D: "decimal_exact D val" "decimal_bounded D val dmax" and "gate_wf val gate" and "gate_serve D M dmax c gate = Some gate'"
  shows "gate_wf val gate'"
proof (cases c)
  case (GateAdmit inputs)
  then show ?thesis using assms(3,4) admit_wf [OF D] by (auto simp: evaluate_and_reserve_def gate_wf_def)
next
  case (GateRebuild pool evidence now_ns min_remaining)
  then show ?thesis using assms(3,4) rebuild_wf [OF D(1)] by auto
next
  case (GateRemoveExisting pool_id group_id request_id)
  then show ?thesis using assms(3,4) drops_one_keeps(1) [OF removals_drop_one(2)]
    by (auto simp: gate_wf_def gate_remove_existing_def case_prod_unfold)
next
  case (GateRollback pool_id request_id)
  then show ?thesis using assms(3,4) drops_one_keeps(1) [OF removals_drop_one(3)]
    by (auto simp: gate_wf_def rollback_uncommitted_reservation_def case_prod_unfold)
next
  case GateInvalidate
  then show ?thesis using assms(3,4) by (auto simp: gate_wf_def gate_invalidate_def invalidate_reconciliation_def)
qed

lemma gate_run_wf:
  assumes "decimal_exact D val" and "decimal_bounded D val dmax" and "gate_wf val gate" and "gate_run D M dmax cs gate = Some gate'"
  shows "gate_wf val gate'"
  using assms(3,4)
proof (induction cs arbitrary: gate)
  case (Cons c cs)
  obtain y where y: "gate_serve D M dmax c gate = Some y" "gate_run D M dmax cs y = Some gate'"
    using Cons.prems(2) by (auto simp: bind_eq_Some_conv)
  show ?case using Cons.IH [OF gate_serve_wf [OF assms(1,2) Cons.prems(1) y(1)] y(2)] .
qed simp

lemma gate_unreconciled_wf: "gate_wf val gate_unreconciled"
  by (simp add: gate_wf_def gate_unreconciled_def ledger_unreconciled_def ledger_wf_def)

definition loss_panics :: "'d decimal_ops \<Rightarrow> 'd CapitalAdmissionGateInputs \<Rightarrow> bool" where
  "loss_panics D inputs \<longleftrightarrow>
     (case (gi_loss_policy inputs, gi_state inputs) of
        (Some policy, Some state) \<Rightarrow> evaluate_loss_admission D policy (ns_loss_snapshot state) (ca_now_ns (gi_request inputs)) = None
      | _ \<Rightarrow> False)"

lemma evaluate_panics:
  assumes "evaluate_capital_admission D M dmax inputs ledger = None"
  shows "loss_panics D inputs"
proof (cases "gi_state inputs")
  case (Some state)
  then show ?thesis
    using assms validate_cases [of state "ca_now_ns (gi_request inputs)" "cp_max_snapshot_age_ns (gi_capital_pool inputs)"]
    unfolding evaluate_capital_admission_def Let_def loss_panics_def Some option.case
    by (cases "state_attested state (ca_now_ns (gi_request inputs)) (cp_max_snapshot_age_ns (gi_capital_pool inputs))")
      (auto split: if_splits option.splits sum.splits Option.bind_splits)
next
  case None
  then show ?thesis using assms by (auto simp: evaluate_capital_admission_def Let_def split: if_splits)
qed

text \<open>
  C32. After any history of admissions, rebuilds (with retained reservations too), removals, roll-backs
  and invalidations, an admission either panics on the loss governor's subtraction, or is refused with
  reasons and changes nothing, or is accepted. Accepted, the gate was reconciled, the observed state is
  attributed and fresh in every part, the loss governor admits it, quantity and price are valid, the
  liability is positive and is price times quantity (nothing for a sale) plus fee and slippage, the
  allowance covers a purchase and the held position a sale, exactly this reservation is appended under
  the intent's id, and all live reservations of the pool, those carried without a budget check
  included, fit into what the snapshot leaves, with the configured minimum remaining.
\<close>

theorem admission_covered:
  assumes D: "decimal_exact D val" "decimal_bounded D val dmax" and run: "gate_run D M dmax calls gate_unreconciled = Some gate"
  shows "case evaluate_and_reserve D M dmax inputs gate of
      None \<Rightarrow> loss_panics D inputs
    | Some (decision, gate') \<Rightarrow>
        if \<not> ad_accepted decision then ad_reasons decision \<noteq> [] \<and> gate' = gate
        else (\<exists>state snapshot liability.
          gi_state inputs = Some state \<and> ns_product_state state = PredictionMarketBinarySnapshot snapshot \<and>
          gate_is_reconciled gate \<and> ad_reserved_liability decision = Some liability \<and> 0 < val liability \<and>
          state_attested state (ca_now_ns (gi_request inputs)) (cp_max_snapshot_age_ns (gi_capital_pool inputs)) \<and>
          loss_admits D inputs state \<and> intent_covered D M val (gi_request inputs) snapshot (gi_policy inputs) liability \<and>
          live_reservations (reservation_ledger gate') = live_reservations (reservation_ledger gate) @
            [request_entry (intent_reservation (gi_request inputs) snapshot liability)] \<and>
          (case min_remaining_pool_balance (gi_policy inputs) of None \<Rightarrow> 0 | Some minimum \<Rightarrow> max 0 (val minimum)) \<le>
            val (cp_max_pool_liability (gi_capital_pool inputs)) - val (cp_committed_liability (gi_capital_pool inputs)) -
            reserved val (ca_pool_id (gi_request inputs)) (live_reservations (reservation_ledger gate')))"
proof (cases "evaluate_capital_admission D M dmax inputs (reservation_ledger gate)")
  case None
  then show ?thesis using evaluate_panics [OF None] by (simp add: evaluate_and_reserve_def)
next
  case (Some r)
  obtain decision ledger' where r: "evaluate_capital_admission D M dmax inputs (reservation_ledger gate) = Some (decision, ledger')"
    using Some by (cases r) simp
  have wf: "ledger_wf val (live_reservations (reservation_ledger gate))"
    using gate_run_wf [OF D gate_unreconciled_wf run] by (simp add: gate_wf_def)
  show ?thesis
  proof (cases "ad_accepted decision")
    case False
    then show ?thesis using evaluate_cases [OF r] r by (auto simp: evaluate_and_reserve_def)
  next
    case True
    obtain state snapshot quote where c: "admission_checked D M dmax inputs (reservation_ledger gate) state snapshot quote"
      and l: "ad_reserved_liability decision = Some (lq_reserved_liability quote)"
        "ledger' = (reservation_ledger gate)\<lparr>live_reservations := live_reservations (reservation_ledger gate) @
          [request_entry (intent_reservation (gi_request inputs) snapshot (lq_reserved_liability quote))]\<rparr>"
      using evaluate_cases [OF r] True by blast
    let ?request = "intent_reservation (gi_request inputs) snapshot (lq_reserved_liability quote)"
    obtain before after where a: "reserve_amounts D dmax (gi_capital_pool inputs) ?request
        (min_remaining_pool_balance (gi_policy inputs)) (reservation_ledger gate) (before, after)"
      using c by (auto simp: admission_checked_def)
    have guards: "reserve_guards D (gi_capital_pool inputs) ?request (ca_now_ns (gi_request inputs)) (reservation_ledger gate)"
      using c by (simp add: admission_checked_def)
    note fits = reserve_fits [OF D wf guards a]
    have pool: "cp_pool_id (gi_capital_pool inputs) = ca_pool_id (gi_request inputs)" "gate_is_reconciled gate" "0 < val (lq_reserved_liability quote)"
      using guards by (simp_all add: reserve_guards_def intent_reservation_def gate_is_reconciled_def dec_le_iff [OF D(1)] decimal_exactD(1) [OF D(1)])
    have "\<not> below_minimum D (min_remaining_pool_balance (gi_policy inputs)) after" using a by (simp add: reserve_amounts_def)
    then have "(case min_remaining_pool_balance (gi_policy inputs) of None \<Rightarrow> 0 | Some minimum \<Rightarrow> max 0 (val minimum)) \<le> val after"
      using fits(3) by (auto simp: below_minimum_iff [OF D(1)] split: option.splits)
    moreover have "intent_covered D M val (gi_request inputs) snapshot (gi_policy inputs) (lq_reserved_liability quote)"
      using c worst_case_covered(1) [OF D(1)] by (auto simp: admission_checked_def simp del: worst_case_liability.simps)
    ultimately show ?thesis using r True c l pool fits(2)
      by (simp add: evaluate_and_reserve_def admission_checked_def del: worst_case_liability.simps)
  qed
qed

section \<open>An example\<close>

definition small_product :: "int decimal_product_ops" where
  "small_product = \<lparr>dec_one = 1, dec_mul = (\<lambda>a b. in_small (clamp a * clamp b))\<rparr>"

definition demo_binary :: "int PredictionMarketAdmissionSnapshot" where
  "demo_binary = \<lparr>pm_source = ''e'', pm_observed_at_ns = 10, pm_yes_instrument_id = ''y'', pm_no_instrument_id = ''n'', pm_yes_position = 0,
     pm_no_position = 0, pm_collateral_allowance = 20, pm_collateral_coupled_group_id = ''g''\<rparr>"

definition demo_state :: "int NtDerivedCapitalAdmissionState" where
  "demo_state = \<lparr>ns_source = ''nt'', ns_observed_at_ns = 10,
     ns_portfolio = \<lparr>pf_source = ''nt'', pf_observed_at_ns = 10, pf_venue_id = ''v'', pf_account_id = ''a'', pf_collateral_currency = ''c'',
       pf_free_collateral = 90, pf_total_equity = 90\<rparr>,
     ns_provider_collateral_allowance = \<lparr>pv_source = ''nt'', pv_observed_at_ns = 10, pv_venue_id = ''v'', pv_account_id = ''a'',
       pv_collateral_currency = ''c'', pv_collateral_allowance = 20\<rparr>,
     ns_order_lifecycle = \<lparr>ol_source = ''nt'', ol_observed_at_ns = 10, ol_open_order_count = 1, ol_all_open_orders_attributed = True\<rparr>,
     ns_product_state = PredictionMarketBinarySnapshot demo_binary,
     ns_reservation_snapshot = \<lparr>rs_source = ''nt'', rs_observed_at_ns = 10, rs_all_live_reservations_attributed = True\<rparr>,
     ns_loss_snapshot = None\<rparr>"

definition demo_intent :: "int CapitalAdmissionRequest" where
  "demo_intent = \<lparr>ca_intent_id = ''b'', ca_strategy_id = ''s'', ca_instrument_id = ''y'', ca_pool_id = ''p'',
     ca_product_kind = PredictionMarketBinary, ca_side = IntentBuy, ca_quantity = 5, ca_limit_price = 1, ca_order_kind = IntentLimit,
     ca_liquidity = Taker, ca_quote_set_id = None, ca_now_ns = 30\<rparr>"

definition demo_admission :: "int CapitalAdmissionGateInputs" where
  "demo_admission = \<lparr>gi_request = demo_intent, gi_state = Some demo_state,
     gi_policy = \<lparr>min_remaining_pool_balance = Some 10,
       fee_slippage_policy = Some \<lparr>max_fee_liability = 2, max_slippage_liability = 3\<rparr>\<rparr>,
     gi_loss_policy = None, gi_capital_pool = demo_pool\<rparr>"

definition demo_gate :: "(string \<times> int \<times> u64) list \<Rightarrow> int CapitalAdmissionGate" where
  "demo_gate rs = \<lparr>reservation_ledger = demo_ledger rs\<rparr>"

lemma demo_attested: "state_attested demo_state 30 50"
  by (simp add: state_attested_def attested_def loss_attested_def demo_state_def demo_binary_def demo_trims fresh_def)

lemma demo_quote: "worst_case_liability small_ops small_product demo_intent (PredictionMarketBinarySnapshot demo_binary) (gi_policy demo_admission) =
  Inr \<lparr>lq_original_quantity = 5, lq_accepted_quantity = 5, lq_calculated_liability = 10, lq_reserved_liability = 10, lq_evidence_label = ''e''\<rparr>"
  by (simp add: demo_intent_def demo_binary_def demo_admission_def validate_capital_request_def validate_liquidity_def validate_fee_slippage_policy_def
      base_liability_def with_fee_and_slippage_def check_cover_def small_ops_def small_product_def in_small_def clamp_def dec_le_def ok_or_def)

lemma demo_reserved: "reserve_liability small_ops 100 demo_admission ''g'' evidence
    \<lparr>lq_original_quantity = 5, lq_accepted_quantity = 5, lq_calculated_liability = 10, lq_reserved_liability = 10, lq_evidence_label = ''e''\<rparr>
    (demo_ledger [(''a'', 50, 20)]) = (decision, ledger') \<Longrightarrow> ad_accepted decision \<and> ledger' = demo_ledger [(''a'', 50, 20), (''b'', 10, 30)]"
  by (auto simp: reserve_liability_def demo_admission_def demo_intent_def demo_eval ledger_reserve_def)

lemma demo_rebuilt: "gate_run small_ops small_product 100 [GateRebuild demo_pool [NtOpenOrder (demo_request ''a'' 50 20)] 30 None] gate_unreconciled =
  Some (demo_gate [(''a'', 50, 20)])"
  by (simp add: rebuild_open_order_reservations_def rebuild_open_order_reservations_with_def gate_unreconciled_def ledger_reconciled_def
      ledger_reserve_def demo_eval demo_gate_def)

lemma demo_admitted: "\<exists>decision. evaluate_and_reserve small_ops small_product 100 demo_admission (demo_gate [(''a'', 50, 20)]) =
  Some (decision, demo_gate [(''a'', 50, 20), (''b'', 10, 30)]) \<and> ad_accepted decision"
proof -
  obtain evidence where v: "validate_nt_derived_capital_admission_state (Some demo_state) 30 50 = Some (Inr evidence)"
    using validate_cases(1) [OF demo_attested] by blast
  obtain decision ledger' where r: "reserve_liability small_ops 100 demo_admission ''g'' evidence
    \<lparr>lq_original_quantity = 5, lq_accepted_quantity = 5, lq_calculated_liability = 10, lq_reserved_liability = 10, lq_evidence_label = ''e''\<rparr>
    (demo_ledger [(''a'', 50, 20)]) = (decision, ledger')" by fastforce
  have fields: "gi_request demo_admission = demo_intent" "gi_state demo_admission = Some demo_state" "gi_loss_policy demo_admission = None"
    "gi_capital_pool demo_admission = demo_pool" "cp_pool_id demo_pool = ''p''" "ca_pool_id demo_intent = ''p''" "ca_now_ns demo_intent = 30"
    "cp_max_snapshot_age_ns demo_pool = 50" "ns_product_state demo_state = PredictionMarketBinarySnapshot demo_binary"
    "pm_collateral_coupled_group_id demo_binary = ''g''" "reservation_ledger (demo_gate rs) = demo_ledger rs" for rs
    by (simp_all add: demo_admission_def demo_intent_def demo_state_def demo_pool_def demo_binary_def demo_gate_def)
  have "evaluate_capital_admission small_ops small_product 100 demo_admission (demo_ledger [(''a'', 50, 20)]) = Some (decision, ledger')"
    by (simp add: evaluate_capital_admission_def fields v demo_quote r del: worst_case_liability.simps)
  with demo_reserved [OF r] show ?thesis by (simp add: evaluate_and_reserve_def fields demo_gate_def)
qed

theorem admission_covered_witness:
  "\<exists>decision. evaluate_and_reserve small_ops small_product 100 demo_admission (demo_gate [(''a'', 50, 20)]) =
      Some (decision, demo_gate [(''a'', 50, 20), (''b'', 10, 30)]) \<and> ad_accepted decision \<and>
    map_option small_val (ad_reserved_liability decision) = Some 10 \<and>
    10 \<le> 80 - reserved small_val ''p'' (live_reservations (reservation_ledger (demo_gate [(''a'', 50, 20), (''b'', 10, 30)])))"
proof -
  obtain decision where d: "evaluate_and_reserve small_ops small_product 100 demo_admission (demo_gate [(''a'', 50, 20)]) =
      Some (decision, demo_gate [(''a'', 50, 20), (''b'', 10, 30)])" "ad_accepted decision"
    using demo_admitted by blast
  have vals: "gi_state demo_admission = Some demo_state" "ns_product_state demo_state = PredictionMarketBinarySnapshot demo_binary"
    "gi_request demo_admission = demo_intent" "ca_side demo_intent = IntentBuy" "ca_pool_id demo_intent = ''p''"
    "dec_mul small_product (ca_quantity demo_intent) (ca_limit_price demo_intent) = Some 5"
    "fee_slippage_policy (gi_policy demo_admission) = Some \<lparr>max_fee_liability = 2, max_slippage_liability = 3\<rparr>"
    "min_remaining_pool_balance (gi_policy demo_admission) = Some 10" "cp_max_pool_liability (gi_capital_pool demo_admission) = 90"
    "cp_committed_liability (gi_capital_pool demo_admission) = 10" "small_val 5 = 5" "small_val 2 = 2" "small_val 3 = 3" "small_val 10 = 10" "small_val 90 = 90"
    by (simp_all add: demo_admission_def demo_state_def demo_intent_def small_product_def in_small_def clamp_def demo_pool_def small_val_def)
  have "map_option small_val (ad_reserved_liability decision) = Some 10"
    "10 \<le> 80 - reserved small_val ''p'' (live_reservations (reservation_ledger (demo_gate [(''a'', 50, 20), (''b'', 10, 30)])))"
    using admission_covered [OF small_exact small_bounded demo_rebuilt, of demo_admission] d
    by (auto simp: vals intent_covered_def)
  with d show ?thesis by blast
qed

end
