(* ===== verification/SubmitFacts.thy ===== *)
theory SubmitFacts
  imports CapitalAdmissionSafety OrderedMap "HOL-Library.Char_ord" "HOL-Library.List_Lexorder" "HOL-Library.Product_Lexorder"
begin

text \<open>
  The facts by which submit admission remembers which client orders it has authorised
  (\<open>src/src/bolt_v3_current_evidence/facts.rs\<close>). Of the recorded details only what recovery reads is
  kept: the client order id, the reservation and the intent.
\<close>

section \<open>Data\<close>

datatype ReservationProductKind = ReservedPredictionMarketBinary

datatype EvidenceOrderSide = EvidenceUnspecified | EvidenceBuy | EvidenceSell

record ReservationAttribution =
  at_client_order_id :: string
  at_submit_reservation_id :: string
  at_venue_id :: string
  at_account_id :: string
  at_product_kind :: ReservationProductKind
  at_collateral_currency :: string
  at_capital_pool_id :: string
  at_collateral_group_id :: string
  at_instrument_id :: string
  at_side :: EvidenceOrderSide
  at_submitted_quantity :: string
  at_liability_factor :: string
  at_additive_liability :: string
  at_reserved_liability :: string
  at_observed_at_ns :: u64

datatype SubmitReservationFillSource = NtOrderFill

record SubmitReservationFillFact =
  fl_client_order_id :: string
  fl_submit_reservation_id :: string
  fl_trade_id :: string
  fl_instrument_id :: string
  fl_side :: EvidenceOrderSide
  fl_fill_quantity :: string
  fl_observed_at_ns :: u64
  fl_reconciliation :: bool
  fl_source :: SubmitReservationFillSource

datatype BasketAdmissionIntentKind = BasketEntry | BasketRiskReducingExit

record BasketAdmittedLeg =
  bl_client_order_id :: string
  bl_instrument_id :: string
  bl_intent_kind :: BasketAdmissionIntentKind
  bl_reservation :: "ReservationAttribution option"

datatype AdmissionRejectionReason =
    KillSwitchLatchedReason
  | LossGovernorHaltedReason
  | NonPositiveNotionalReason
  | NotionalCapExceededReason
  | ClientOrderAlreadyAuthorizedReason
  | InvalidRiskReducingExitProofReason
  | CountCapExhaustedReason
  | KillSwitchForcedReductionProofInvalidReason
  | KillSwitchForcedReductionCapExceededReason
  | EconomicsSealRejectedReason
  | CapitalAdmissionReason

datatype AdmissionDecisionOutcome = OutcomeAdmitted | OutcomeRejected AdmissionRejectionReason

datatype ReservationRecoveryEvent =
    AdmittedEntry string "ReservationAttribution option"
  | BasketGranted "BasketAdmittedLeg list"
  | RiskReducingExitAdmission string AdmissionDecisionOutcome
  | ReservationFill SubmitReservationFillFact

datatype RecoveredNonReservationAuthorization = UnreservedEntry | RiskReducingAuthorization

record ReservationRecoveryFacts =
  reservation_attribution :: "(string, ReservationAttribution) btree_map"
  reservation_fills :: "(string \<times> string, (string, SubmitReservationFillFact) btree_map) btree_map"
  admitted_unreserved_entry_client_order_ids :: "string set"
  admitted_risk_reducing_client_order_ids :: "string set"

datatype RecoveryFactError =
    DuplicateAttribution string
  | ConflictingAttribution string
  | ConflictingAuthorization string
  | ConflictingFill string string string

section \<open>Operations\<close>

definition recovery_facts_default :: ReservationRecoveryFacts where
  "recovery_facts_default = \<lparr>reservation_attribution = [], reservation_fills = [], admitted_unreserved_entry_client_order_ids = {},
     admitted_risk_reducing_client_order_ids = {}\<rparr>"

definition authorizes_non_reservation_order :: "ReservationRecoveryFacts \<Rightarrow> string \<Rightarrow> bool" where
  "authorizes_non_reservation_order facts client_order_id \<longleftrightarrow>
     client_order_id \<in> admitted_unreserved_entry_client_order_ids facts \<or>
     client_order_id \<in> admitted_risk_reducing_client_order_ids facts"

definition authorizes_order :: "ReservationRecoveryFacts \<Rightarrow> string \<Rightarrow> bool" where
  "authorizes_order facts client_order_id \<longleftrightarrow>
     bt_get (reservation_attribution facts) client_order_id \<noteq> None \<or> authorizes_non_reservation_order facts client_order_id"

definition insert_attribution :: "ReservationAttribution \<Rightarrow> ReservationRecoveryFacts \<Rightarrow> RecoveryFactError + ReservationRecoveryFacts" where
  "insert_attribution attribution facts =
     (if bt_get (reservation_attribution facts) (at_client_order_id attribution) \<noteq> None
      then Inl (DuplicateAttribution (at_client_order_id attribution))
      else if authorizes_non_reservation_order facts (at_client_order_id attribution)
      then Inl (ConflictingAttribution (at_client_order_id attribution))
      else Inr (facts\<lparr>reservation_attribution := bt_insert (at_client_order_id attribution) attribution (reservation_attribution facts)\<rparr>))"

definition insert_non_reservation_authorization :: "string \<Rightarrow> RecoveredNonReservationAuthorization \<Rightarrow> ReservationRecoveryFacts \<Rightarrow>
    RecoveryFactError + ReservationRecoveryFacts" where
  "insert_non_reservation_authorization client_order_id authorization facts =
     (if authorizes_order facts client_order_id then Inl (ConflictingAuthorization client_order_id)
      else case authorization of
        UnreservedEntry \<Rightarrow>
          Inr (facts\<lparr>admitted_unreserved_entry_client_order_ids := insert client_order_id (admitted_unreserved_entry_client_order_ids facts)\<rparr>)
      | RiskReducingAuthorization \<Rightarrow>
          Inr (facts\<lparr>admitted_risk_reducing_client_order_ids := insert client_order_id (admitted_risk_reducing_client_order_ids facts)\<rparr>))"

definition reservation_fill_stable_identity_eq :: "'d decimal_ops \<Rightarrow> SubmitReservationFillFact \<Rightarrow> SubmitReservationFillFact \<Rightarrow> bool" where
  "reservation_fill_stable_identity_eq D left right \<longleftrightarrow>
     fl_client_order_id left = fl_client_order_id right \<and> fl_submit_reservation_id left = fl_submit_reservation_id right \<and>
     fl_trade_id left = fl_trade_id right \<and> fl_instrument_id left = fl_instrument_id right \<and> fl_side left = fl_side right \<and>
     (case (dec_from_str D (fl_fill_quantity left), dec_from_str D (fl_fill_quantity right)) of
        (Some l, Some r) \<Rightarrow> dec_eq D l r
      | _ \<Rightarrow> False)"

fun apply_leg :: "BasketAdmittedLeg \<Rightarrow> ReservationRecoveryFacts \<Rightarrow> RecoveryFactError + ReservationRecoveryFacts" where
  "apply_leg leg facts =
     (case bl_reservation leg of
        Some reservation \<Rightarrow> insert_attribution reservation facts
      | None \<Rightarrow>
          insert_non_reservation_authorization (bl_client_order_id leg)
            (case bl_intent_kind leg of BasketEntry \<Rightarrow> UnreservedEntry | BasketRiskReducingExit \<Rightarrow> RiskReducingAuthorization) facts)"

fun apply_legs :: "BasketAdmittedLeg list \<Rightarrow> ReservationRecoveryFacts \<Rightarrow> RecoveryFactError + ReservationRecoveryFacts" where
  "apply_legs [] facts = Inr facts"
| "apply_legs (leg # legs) facts = and_then (apply_leg leg facts) (apply_legs legs)"

text \<open>\<open>apply\<close>; its callers work on a copy, so that an error leaves the facts they hold unchanged.\<close>

fun apply_fact :: "'d decimal_ops \<Rightarrow> ReservationRecoveryEvent \<Rightarrow> ReservationRecoveryFacts \<Rightarrow> RecoveryFactError + ReservationRecoveryFacts" where
  "apply_fact D (AdmittedEntry client_order_id reservation) facts =
     (case reservation of
        Some attribution \<Rightarrow> insert_attribution attribution facts
      | None \<Rightarrow> insert_non_reservation_authorization client_order_id UnreservedEntry facts)"
| "apply_fact D (BasketGranted legs) facts = apply_legs legs facts"
| "apply_fact D (RiskReducingExitAdmission client_order_id outcome) facts =
     (if outcome = OutcomeAdmitted then insert_non_reservation_authorization client_order_id RiskReducingAuthorization facts else Inr facts)"
| "apply_fact D (ReservationFill fill) facts =
     (let key = (fl_client_order_id fill, fl_submit_reservation_id fill);
          fills = (case bt_get (reservation_fills facts) key of None \<Rightarrow> [] | Some m \<Rightarrow> m)
      in case bt_get fills (fl_trade_id fill) of
           Some existing \<Rightarrow>
             if reservation_fill_stable_identity_eq D existing fill
             then Inr (facts\<lparr>reservation_fills := bt_insert key fills (reservation_fills facts)\<rparr>)
             else Inl (ConflictingFill (fl_client_order_id fill) (fl_submit_reservation_id fill) (fl_trade_id fill))
         | None \<Rightarrow>
             Inr (facts\<lparr>reservation_fills := bt_insert key (bt_insert (fl_trade_id fill) fill fills) (reservation_fills facts)\<rparr>))"

end
