(* ===== verification/SubmitState.thy ===== *)
theory SubmitState
  imports SubmitFacts KillSwitch NtTypes RustAction RustStr
begin

text \<open>
  The state of submit admission and its capital part (\<open>src/src/bolt_v3_submit_admission.rs\<close>): requests,
  permits, the counters, the reservation records and their snapshots, and the reservation of the
  liability of one order.
\<close>

section \<open>Data\<close>

datatype BoltV3SubmitIntentKind = EntryIntent | RiskReducingExitIntent

record 'd BoltV3LiveSubmitApprovalLimits =
  lim_max_order_count :: u32
  lim_max_order_notional :: 'd

datatype BoltV3CompiledProductKind = CompiledPredictionMarketBinary

datatype BoltV3CompiledOrderSide = CompiledBuy | CompiledSell

datatype BoltV3CompiledOrderKind = CompiledLimit | CompiledMarket

datatype BoltV3CompiledOrderLiquidity = CompiledRestingMaker | CompiledTaker

datatype PredictionMarketOutcomeSide = OutcomeYes | OutcomeNo

record 'd BoltV3CompiledOrderAdmissionEvidence =
  ce_venue_id :: string
  ce_product_kind :: BoltV3CompiledProductKind
  ce_side :: BoltV3CompiledOrderSide
  ce_quantity :: 'd
  ce_effective_price :: 'd
  ce_order_kind :: BoltV3CompiledOrderKind
  ce_liquidity :: BoltV3CompiledOrderLiquidity
  ce_quote_set_id :: "string option"
  ce_prediction_market_outcome :: "PredictionMarketOutcomeSide option"

record 'd BoltV3RiskReducingExitProof =
  xp_position_id :: string
  xp_instrument_id :: string
  xp_position_side :: PositionSide
  xp_exit_order_side :: OrderSide
  xp_position_quantity :: 'd
  xp_exit_quantity :: 'd

record 'd BoltV3SubmitAdmissionRequest =
  sr_strategy_id :: string
  sr_execution_client_id :: string
  sr_client_order_id :: string
  sr_instrument_id :: string
  sr_notional :: 'd
  sr_order_side :: OrderSide
  sr_order_quantity :: 'd
  sr_intent_kind :: BoltV3SubmitIntentKind
  sr_risk_reducing_exit_proof :: "'d BoltV3RiskReducingExitProof option"
  sr_admission_evidence :: "'d BoltV3CompiledOrderAdmissionEvidence option"

datatype BoltV3SubmitReservationPhase = ReservedPhase | SinkInvokedPhase | ObservedOpenPhase

record BoltV3SubmitReservationFillMetadata =
  fm_instrument_id :: string
  fm_side :: BoltV3CompiledOrderSide

record BoltV3SubmitReservationRecord =
  rr_attribution :: ReservationAttribution
  rr_phase :: BoltV3SubmitReservationPhase
  rr_phase_revision :: u64
  rr_unresolved_in_projection :: bool
  rr_fill_metadata :: "BoltV3SubmitReservationFillMetadata option"

datatype BoltV3EvidenceFreeNonReservationPhase = PermitHeld | EvidenceFreeSinkInvoked

record 'd BoltV3SubmitCapitalAdmissionState =
  sc_venue_id :: string
  sc_account_id :: string
  sc_product_kind :: ProductKind
  sc_collateral_currency :: string
  sc_capital_pool :: "'d CapitalPoolSnapshot"
  sc_policy :: "'d CapitalAdmissionPolicy"
  sc_state :: "'d NtDerivedCapitalAdmissionState option"
  sc_latest_reservation_mutation_observed_at_ns :: "u64 option"
  sc_capture_failure_source :: "string option"
  sc_capture_failure_observed_at_ns :: "u64 option"
  sc_gate :: "'d CapitalAdmissionGate"
  sc_next_sequence :: u64
  sc_client_order_reservations :: "(string, BoltV3SubmitReservationRecord) btree_map"
  sc_unresolved_lifecycle_reservations :: "nat \<times> nat"
  sc_fill_evidence_integrity_failed :: bool

record 'd BoltV3SubmitCapitalAdmissionNtComponents =
  nc_source :: string
  nc_observed_at_ns :: u64
  nc_portfolio :: "'d PortfolioCapitalAdmissionSnapshot"
  nc_provider_collateral_allowance :: "'d ProviderCollateralAllowanceSnapshot"
  nc_order_lifecycle :: OrderLifecycleCapitalAdmissionSnapshot
  nc_product_state :: "'d ProductAdmissionSnapshot"
  nc_loss_snapshot :: "'d LossSnapshot option"

datatype BoltV3CapitalAdmissionRejectReason =
    CapitalMissingAdmissionEvidence
  | CapitalVenueMismatch
  | CapitalAccountMismatch
  | CapitalProductKindMismatch
  | CapitalCollateralCurrencyMismatch
  | CapitalUnsupportedProductKind
  | CapitalMissingPredictionMarketOutcome
  | CapitalOutcomeInstrumentMismatch
  | CapitalDuplicateClientOrderId
  | CapitalOrderShapeMismatch
  | CapitalMissingNtState
  | CapitalStaleNtState
  | CapitalUnattributedNtState
  | CapitalReconciliationRequired
  | CapitalOverBudget
  | CapitalReservation ReservationRejectionReason
  | CapitalLiability LiabilityError
  | CapitalLoss LossHaltReason
  | CapitalAcceptedQuantityMismatch

datatype BoltV3SubmitAdmissionInvariant =
    AdmittedSubmitMissingEvidenceAuthority
  | AcceptedCapitalAdmissionRebuildHasRejectionReason
  | ContradictoryAdmissionDecisionContext
  | ExpectedRejectedOutcome
  | InvalidCapitalAdmissionDecisionContext
  | InvalidCapitalAdmissionRebuildReservationDecision CapitalAdmissionInvariant
  | KillSwitchForcedReductionReachedNormalAdmission
  | MissingAdmittedCounterUpdate
  | MissingCapitalAdmissionRebuildRejectionReason
  | MissingCapitalAdmissionRejectionReason
  | MissingLossHaltReasons
  | MissingStaleLossReason
  | RollbackOwnershipLost

text \<open>The variants that admission and its permits return; those of valuation and economics are not raised here.\<close>

datatype BoltV3SubmitAdmissionError =
    KillSwitchLatched KillSwitchStateKind
  | LossGovernorHalted "LossHaltReason list"
  | CountCapExhausted
  | NonPositiveNotional
  | NotionalCapExceeded
  | ClientOrderAlreadyAuthorized
  | InvalidRiskReducingExitProof
  | EconomicsUnavailable
  | CapitalAdmissionRejected BoltV3CapitalAdmissionRejectReason
  | InvariantViolation BoltV3SubmitAdmissionInvariant
  | EconomicsSealRejected
  | EvidenceWriteFailed
  | SystemClock

record BoltV3CapitalAdmissionReservationRollback =
  rk_client_order_id :: string
  rk_submit_reservation_id :: string
  rk_pool_id :: string
  rk_observed_at_ns :: u64

datatype BoltV3CapitalAdmissionSubmitDecision =
    CapitalAccepted "BoltV3CapitalAdmissionReservationRollback option" "ReservationAttribution option"
  | CapitalRejected BoltV3CapitalAdmissionRejectReason
  | CapitalInvariant BoltV3SubmitAdmissionInvariant

datatype 'd ValidatedCapitalAdmissionDecision =
    ValidatedCapitalAccepted 'd 'd
  | ValidatedCapitalRejected BoltV3CapitalAdmissionRejectReason

record LossHaltEpisode =
  lh_count :: u32
  lh_first_halt_ns :: u64

record RejectEpisode =
  re_count :: u32
  re_first_ns :: u64
  re_last_client_order_id :: string

record BoltV3LossFreshness =
  account_state_count :: u64
  portfolio_snapshot_count :: u64
  position_event_count :: u64
  last_account_state_ts_ns :: "u64 option"
  last_portfolio_snapshot_ts_ns :: "u64 option"
  last_position_event_ts_ns :: "u64 option"

text \<open>Calls of the evidence recorder, with the parts of the records that admission computes.\<close>

datatype RecorderCall =
    RecordLossGovernorHalt string u32 u64
  | RecordOrderReject string "string option" string u32 u64
  | RecordAdmittedEntry string "ReservationAttribution option"
  | RecordRejectedEntry string AdmissionRejectionReason
  | RecordRiskReducingExit string AdmissionDecisionOutcome
  | RecordBasketGranted "BasketAdmittedLeg list"

text \<open>
  The fields behind the mutex of the inner state and the reject episodes behind theirs; each method
  holds its lock from the first access to its return, so a method is one step of this record.
\<close>

record 'd BoltV3SubmitAdmissionState =
  kill_switch_state :: KillSwitchState
  live_submit_approval_limits :: "(string, 'd BoltV3LiveSubmitApprovalLimits) btree_map"
  admitted_order_count :: u32
  admitted_order_count_by_execution_client :: "(string, u32) btree_map"
  rollback_ownership_latch :: "BoltV3SubmitAdmissionInvariant option"
  capital_admission_state_revision :: u64
  evidence_free_non_reservation_admissions :: "(string, BoltV3EvidenceFreeNonReservationPhase) btree_map"
  committed_admission_authority :: ReservationRecoveryFacts
  submit_loss_policy :: "'d LossGovernorPolicy option"
  submit_loss_snapshot :: "'d LossSnapshot option"
  loss_source_observations :: LossSourceObservationTimestamps
  loss_freshness :: BoltV3LossFreshness
  loss_halt_episodes :: "(string, LossHaltEpisode) btree_map"
  capital_admission :: "'d BoltV3SubmitCapitalAdmissionState option"
  reject_episodes :: "(string, RejectEpisode) btree_map"
  reject_episode_max_count :: nat
  recorder_calls :: "RecorderCall list"

section \<open>Conversions\<close>

fun product_to_capital_admission :: "BoltV3CompiledProductKind \<Rightarrow> ProductKind" where
  "product_to_capital_admission CompiledPredictionMarketBinary = PredictionMarketBinary"

fun side_to_capital_admission :: "BoltV3CompiledOrderSide \<Rightarrow> IntentSide" where
  "side_to_capital_admission CompiledBuy = IntentBuy"
| "side_to_capital_admission CompiledSell = IntentSell"

fun kind_to_capital_admission :: "BoltV3CompiledOrderKind \<Rightarrow> IntentOrderKind" where
  "kind_to_capital_admission CompiledLimit = IntentLimit"
| "kind_to_capital_admission CompiledMarket = IntentMarket"

fun liquidity_to_capital_admission :: "BoltV3CompiledOrderLiquidity \<Rightarrow> IntentLiquidity" where
  "liquidity_to_capital_admission CompiledRestingMaker = RestingMaker"
| "liquidity_to_capital_admission CompiledTaker = Taker"

fun reservation_product_kind :: "BoltV3CompiledProductKind \<Rightarrow> ReservationProductKind" where
  "reservation_product_kind CompiledPredictionMarketBinary = ReservedPredictionMarketBinary"

fun evidence_order_side :: "BoltV3CompiledOrderSide \<Rightarrow> EvidenceOrderSide" where
  "evidence_order_side CompiledBuy = EvidenceBuy"
| "evidence_order_side CompiledSell = EvidenceSell"

fun compiled_order_side_matches_request :: "BoltV3CompiledOrderSide \<Rightarrow> OrderSide \<Rightarrow> bool" where
  "compiled_order_side_matches_request CompiledBuy Buy = True"
| "compiled_order_side_matches_request CompiledSell Sell = True"
| "compiled_order_side_matches_request _ _ = False"

section \<open>Snapshots of the capital state\<close>

definition compose_capital_admission_state_from_components :: "'d BoltV3SubmitCapitalAdmissionNtComponents \<Rightarrow> bool \<Rightarrow> u64 option \<Rightarrow>
    'd NtDerivedCapitalAdmissionState" where
  "compose_capital_admission_state_from_components components reconciled latest =
     (let reservation_observed_at_ns =
        (case latest of None \<Rightarrow> nc_observed_at_ns components | Some observed_at_ns \<Rightarrow> max (nc_observed_at_ns components) observed_at_ns)
      in \<lparr>ns_source = nc_source components, ns_observed_at_ns = max (nc_observed_at_ns components) reservation_observed_at_ns,
          ns_portfolio = nc_portfolio components, ns_provider_collateral_allowance = nc_provider_collateral_allowance components,
          ns_order_lifecycle = nc_order_lifecycle components, ns_product_state = nc_product_state components,
          ns_reservation_snapshot = \<lparr>rs_source = ''bolt_reservation_ledger'', rs_observed_at_ns = reservation_observed_at_ns,
            rs_all_live_reservations_attributed = reconciled\<rparr>,
          ns_loss_snapshot = nc_loss_snapshot components\<rparr>)"

definition nt_components_from_existing_capital_admission_state :: "'d NtDerivedCapitalAdmissionState \<Rightarrow>
    'd BoltV3SubmitCapitalAdmissionNtComponents" where
  "nt_components_from_existing_capital_admission_state state =
     (let observed = max (max (max (pf_observed_at_ns (ns_portfolio state)) (pv_observed_at_ns (ns_provider_collateral_allowance state)))
            (ol_observed_at_ns (ns_order_lifecycle state))) (snd (product_evidence (ns_product_state state)));
          observed = (case ns_loss_snapshot state of None \<Rightarrow> observed | Some l \<Rightarrow> max observed (snap_observed_at_ns l))
      in \<lparr>nc_source = ns_source state, nc_observed_at_ns = observed, nc_portfolio = ns_portfolio state,
          nc_provider_collateral_allowance = ns_provider_collateral_allowance state, nc_order_lifecycle = ns_order_lifecycle state,
          nc_product_state = ns_product_state state, nc_loss_snapshot = ns_loss_snapshot state\<rparr>)"

definition refresh_capital_admission_reservation_snapshot_with_source :: "u64 \<Rightarrow> string \<Rightarrow> bool \<Rightarrow> 'd BoltV3SubmitCapitalAdmissionState \<Rightarrow>
    'd BoltV3SubmitCapitalAdmissionState" where
  "refresh_capital_admission_reservation_snapshot_with_source observed_at_ns source attributed ca =
     (let ca = ca\<lparr>sc_latest_reservation_mutation_observed_at_ns := Some observed_at_ns\<rparr> in
      case sc_state ca of
        None \<Rightarrow> ca
      | Some current \<Rightarrow>
          let state = compose_capital_admission_state_from_components (nt_components_from_existing_capital_admission_state current)
            attributed (Some observed_at_ns)
          in ca\<lparr>sc_state := Some (state\<lparr>
               ns_reservation_snapshot := \<lparr>rs_source = source, rs_observed_at_ns = observed_at_ns, rs_all_live_reservations_attributed = attributed\<rparr>,
               ns_observed_at_ns := max (ns_observed_at_ns state) observed_at_ns\<rparr>)\<rparr>)"

definition refresh_capital_admission_reservation_snapshot :: "u64 \<Rightarrow> 'd BoltV3SubmitCapitalAdmissionState \<Rightarrow> 'd BoltV3SubmitCapitalAdmissionState" where
  "refresh_capital_admission_reservation_snapshot observed_at_ns ca =
     refresh_capital_admission_reservation_snapshot_with_source observed_at_ns ''bolt_reservation_ledger'' (gate_is_reconciled (sc_gate ca)) ca"

definition unresolved_reservation_counts :: "(string, BoltV3SubmitReservationRecord) btree_map \<Rightarrow> nat \<times> nat" where
  "unresolved_reservation_counts records =
     (length (filter (\<lambda>r. rr_unresolved_in_projection r \<and> rr_phase r = SinkInvokedPhase) (bt_values records)),
      length (filter (\<lambda>r. rr_unresolved_in_projection r \<and> rr_phase r = ObservedOpenPhase) (bt_values records)))"

section \<open>Reserving the liability of an order\<close>

fun map_capital_admission_rejection :: "CapitalAdmissionReason list \<Rightarrow> BoltV3SubmitAdmissionInvariant + BoltV3CapitalAdmissionRejectReason" where
  "map_capital_admission_rejection [] = Inl MissingCapitalAdmissionRejectionReason"
| "map_capital_admission_rejection [MissingNtStateReason] = Inr CapitalMissingNtState"
| "map_capital_admission_rejection [StaleNtStateReason _] = Inr CapitalStaleNtState"
| "map_capital_admission_rejection [UnattributedNtStateReason _] = Inr CapitalUnattributedNtState"
| "map_capital_admission_rejection [Reservation reason] =
     (case reason of
        ReconciliationRequired \<Rightarrow> Inr CapitalReconciliationRequired
      | OverBudget \<Rightarrow> Inr CapitalOverBudget
      | _ \<Rightarrow> Inr (CapitalReservation reason))"
| "map_capital_admission_rejection [Liability reason] = Inr (CapitalLiability reason)"
| "map_capital_admission_rejection [Loss reason] = Inr (CapitalLoss reason)"
| "map_capital_admission_rejection _ = Inl InvalidCapitalAdmissionDecisionContext"

text \<open>Equality of optional amounts.\<close>

fun opt_dec_eq :: "'d decimal_ops \<Rightarrow> 'd option \<Rightarrow> 'd option \<Rightarrow> bool" where
  "opt_dec_eq D (Some a) (Some b) = dec_eq D a b"
| "opt_dec_eq D None None = True"
| "opt_dec_eq D _ _ = False"

definition validate_capital_admission_decision :: "'d decimal_ops \<Rightarrow> 'd CapitalAdmissionDecision \<Rightarrow>
    BoltV3SubmitAdmissionInvariant + 'd ValidatedCapitalAdmissionDecision" where
  "validate_capital_admission_decision D decision =
     (let evidence = ad_evidence decision in
      if ad_accepted decision then
        (case (ad_accepted_quantity decision, ad_calculated_liability decision, ad_reserved_liability decision) of
           (Some accepted_quantity, Some calculated_liability, Some reserved_liability) \<Rightarrow>
             if ad_reasons decision \<noteq> [] \<or> \<not> dec_eq D (ae_original_quantity evidence) (ad_original_quantity decision) \<or>
               \<not> opt_dec_eq D (ae_accepted_quantity evidence) (Some accepted_quantity) \<or>
               \<not> opt_dec_eq D (ae_calculated_liability evidence) (Some calculated_liability) \<or>
               \<not> opt_dec_eq D (ae_reserved_liability evidence) (Some reserved_liability)
             then Inl InvalidCapitalAdmissionDecisionContext
             else Inr (ValidatedCapitalAccepted accepted_quantity reserved_liability)
         | _ \<Rightarrow> Inl InvalidCapitalAdmissionDecisionContext)
      else if ad_accepted_quantity decision \<noteq> None \<or> \<not> dec_eq D (ae_original_quantity evidence) (ad_original_quantity decision)
      then Inl InvalidCapitalAdmissionDecisionContext
      else if \<not> (case (ad_calculated_liability decision, ad_reserved_liability decision, ae_accepted_quantity evidence,
            ae_calculated_liability evidence, ae_reserved_liability evidence) of
          (None, None, None, None, None) \<Rightarrow> True
        | (Some calculated, Some reserved_amount, Some _, Some evidence_calculated, Some evidence_reserved) \<Rightarrow>
            dec_eq D calculated evidence_calculated \<and> dec_eq D reserved_amount evidence_reserved
        | _ \<Rightarrow> False)
      then Inl InvalidCapitalAdmissionDecisionContext
      else and_then (map_capital_admission_rejection (ad_reasons decision)) (\<lambda>reason. Inr (ValidatedCapitalRejected reason)))"

definition checked_additive_liability :: "'d decimal_ops \<Rightarrow> 'd CapitalAdmissionPolicy \<Rightarrow> 'd option" where
  "checked_additive_liability D policy =
     (case fee_slippage_policy policy of
        None \<Rightarrow> Some (dec_zero D)
      | Some fees \<Rightarrow> dec_add D (max_fee_liability fees) (max_slippage_liability fees))"

text \<open>The checks of an order against the capital state, up to the position of the outcome it trades.\<close>

definition submit_capital_checks :: "'d decimal_ops \<Rightarrow> 'd BoltV3SubmitAdmissionRequest \<Rightarrow> 'd BoltV3SubmitCapitalAdmissionState \<Rightarrow>
    BoltV3CapitalAdmissionRejectReason +
      'd BoltV3CompiledOrderAdmissionEvidence \<times> 'd NtDerivedCapitalAdmissionState \<times> 'd PredictionMarketAdmissionSnapshot \<times> 'd" where
  "submit_capital_checks D request ca =
     and_then (ok_or (sr_admission_evidence request) CapitalMissingAdmissionEvidence) (\<lambda>evidence.
     and_then (ensure (ce_venue_id evidence = sc_venue_id ca) CapitalVenueMismatch) (\<lambda>_.
     and_then (ensure (product_to_capital_admission (ce_product_kind evidence) = sc_product_kind ca) CapitalProductKindMismatch) (\<lambda>_.
     and_then (ensure (product_to_capital_admission (ce_product_kind evidence) = PredictionMarketBinary) CapitalUnsupportedProductKind) (\<lambda>_.
     and_then (ensure (compiled_order_side_matches_request (ce_side evidence) (sr_order_side request) \<and>
       dec_eq D (ce_quantity evidence) (sr_order_quantity request)) CapitalOrderShapeMismatch) (\<lambda>_.
     and_then (ensure (bt_get (sc_client_order_reservations ca) (sr_client_order_id request) = None) CapitalDuplicateClientOrderId) (\<lambda>_.
     and_then (ensure (sc_capture_failure_source ca = None) CapitalReconciliationRequired) (\<lambda>_.
     and_then (ok_or (sc_state ca) CapitalMissingNtState) (\<lambda>state.
     and_then (ensure (pf_venue_id (ns_portfolio state) = sc_venue_id ca) CapitalVenueMismatch) (\<lambda>_.
     and_then (ensure (pf_account_id (ns_portfolio state) = sc_account_id ca) CapitalAccountMismatch) (\<lambda>_.
     and_then (ensure (pf_collateral_currency (ns_portfolio state) = sc_collateral_currency ca) CapitalCollateralCurrencyMismatch) (\<lambda>_.
     and_then (ensure (gate_is_reconciled (sc_gate ca)) CapitalReconciliationRequired) (\<lambda>_.
     case ns_product_state state of PredictionMarketBinarySnapshot product \<Rightarrow>
     and_then (ok_or (ce_prediction_market_outcome evidence) CapitalMissingPredictionMarketOutcome) (\<lambda>outcome.
     case outcome of
       OutcomeYes \<Rightarrow>
         and_then (ensure (sr_instrument_id request = pm_yes_instrument_id product) CapitalOutcomeInstrumentMismatch)
           (\<lambda>_. Inr (evidence, state, product, pm_yes_position product))
     | OutcomeNo \<Rightarrow>
         and_then (ensure (sr_instrument_id request = pm_no_instrument_id product) CapitalOutcomeInstrumentMismatch)
           (\<lambda>_. Inr (evidence, state, product, pm_no_position product)))))))))))))))"

definition submit_gate_inputs :: "'d BoltV3SubmitAdmissionRequest \<Rightarrow> u64 \<Rightarrow> 'd BoltV3CompiledOrderAdmissionEvidence \<Rightarrow>
    'd NtDerivedCapitalAdmissionState \<Rightarrow> string \<Rightarrow> 'd BoltV3SubmitCapitalAdmissionState \<Rightarrow> 'd CapitalAdmissionGateInputs" where
  "submit_gate_inputs request now_ns evidence state reservation_id ca =
     \<lparr>gi_request =
        \<lparr>ca_intent_id = reservation_id, ca_strategy_id = sr_strategy_id request, ca_instrument_id = sr_instrument_id request,
         ca_pool_id = cp_pool_id (sc_capital_pool ca), ca_product_kind = product_to_capital_admission (ce_product_kind evidence),
         ca_side = side_to_capital_admission (ce_side evidence), ca_quantity = ce_quantity evidence,
         ca_limit_price = ce_effective_price evidence, ca_order_kind = kind_to_capital_admission (ce_order_kind evidence),
         ca_liquidity = liquidity_to_capital_admission (ce_liquidity evidence), ca_quote_set_id = ce_quote_set_id evidence,
         ca_now_ns = now_ns\<rparr>,
      gi_state = Some state, gi_policy = sc_policy ca, gi_loss_policy = None, gi_capital_pool = sc_capital_pool ca\<rparr>"

definition submit_attribution :: "'d decimal_ops \<Rightarrow> 'd BoltV3SubmitAdmissionRequest \<Rightarrow> u64 \<Rightarrow> 'd BoltV3CompiledOrderAdmissionEvidence \<Rightarrow>
    'd PredictionMarketAdmissionSnapshot \<Rightarrow> string \<Rightarrow> 'd \<Rightarrow> 'd \<Rightarrow> 'd \<Rightarrow> 'd BoltV3SubmitCapitalAdmissionState \<Rightarrow> ReservationAttribution" where
  "submit_attribution D request now_ns evidence product reservation_id admitted_quantity additive_liability reserved_liability ca =
     \<lparr>at_client_order_id = sr_client_order_id request, at_submit_reservation_id = reservation_id,
      at_venue_id = sc_venue_id ca, at_account_id = sc_account_id ca,
      at_product_kind = reservation_product_kind (ce_product_kind evidence),
      at_collateral_currency = sc_collateral_currency ca, at_capital_pool_id = cp_pool_id (sc_capital_pool ca),
      at_collateral_group_id = pm_collateral_coupled_group_id product, at_instrument_id = sr_instrument_id request,
      at_side = evidence_order_side (ce_side evidence), at_submitted_quantity = dec_to_string D admitted_quantity,
      at_liability_factor = dec_to_string D
        (case side_to_capital_admission (ce_side evidence) of IntentBuy \<Rightarrow> ce_effective_price evidence | IntentSell \<Rightarrow> dec_zero D),
      at_additive_liability = dec_to_string D additive_liability,
      at_reserved_liability = dec_to_string D reserved_liability, at_observed_at_ns = now_ns\<rparr>"

text \<open>What follows the gate's decision: a roll-back of what cannot be used, or the record of the reservation.\<close>

definition settle_submit_decision :: "'d decimal_ops \<Rightarrow> 'd BoltV3SubmitAdmissionRequest \<Rightarrow> u64 \<Rightarrow> 'd BoltV3CompiledOrderAdmissionEvidence \<Rightarrow>
    'd PredictionMarketAdmissionSnapshot \<Rightarrow> string \<Rightarrow> u64 \<Rightarrow> u64 \<Rightarrow> 'd CapitalAdmissionDecision \<Rightarrow> 'd CapitalAdmissionGate \<Rightarrow>
    'd BoltV3SubmitCapitalAdmissionState \<Rightarrow> BoltV3CapitalAdmissionSubmitDecision \<times> u64 \<times> 'd BoltV3SubmitCapitalAdmissionState" where
  "settle_submit_decision D request now_ns evidence product reservation_id reservation_revision revision decision gate ca =
     (let pool_id = cp_pool_id (sc_capital_pool ca);
          rolled_back = ca\<lparr>sc_gate := snd (rollback_uncommitted_reservation pool_id reservation_id gate)\<rparr>
      in case validate_capital_admission_decision D decision of
           Inl invariant \<Rightarrow> (CapitalInvariant invariant, revision, rolled_back)
         | Inr (ValidatedCapitalRejected reason) \<Rightarrow> (CapitalRejected reason, revision, ca\<lparr>sc_gate := gate\<rparr>)
         | Inr (ValidatedCapitalAccepted admitted_quantity reserved_liability) \<Rightarrow>
             if \<not> dec_eq D admitted_quantity (ce_quantity evidence)
             then (CapitalRejected CapitalAcceptedQuantityMismatch, revision, rolled_back)
             else (case checked_additive_liability D (sc_policy ca) of
                None \<Rightarrow> (CapitalRejected (CapitalLiability ArithmeticOverflow), revision, rolled_back)
              | Some additive_liability \<Rightarrow>
                  let attribution = submit_attribution D request now_ns evidence product reservation_id admitted_quantity
                        additive_liability reserved_liability ca;
                      reservation = \<lparr>rr_attribution = attribution, rr_phase = ReservedPhase, rr_phase_revision = reservation_revision,
                        rr_unresolved_in_projection = False,
                        rr_fill_metadata = Some \<lparr>fm_instrument_id = sr_instrument_id request, fm_side = ce_side evidence\<rparr>\<rparr>;
                      rollback = \<lparr>rk_client_order_id = sr_client_order_id request, rk_submit_reservation_id = reservation_id,
                        rk_pool_id = pool_id, rk_observed_at_ns = now_ns\<rparr>
                  in (CapitalAccepted (Some rollback) (Some attribution), reservation_revision,
                      ca\<lparr>sc_gate := gate,
                        sc_client_order_reservations := bt_insert (sr_client_order_id request) reservation (sc_client_order_reservations ca)\<rparr>)))"

text \<open>The reservation itself: the next sequence number and the gate's decision under the identifier it gives.\<close>

definition reserve_submit_liability :: "'d decimal_ops \<Rightarrow> 'd decimal_product_ops \<Rightarrow> 'd \<Rightarrow> 'd BoltV3SubmitAdmissionRequest \<Rightarrow> u64 \<Rightarrow>
    'd BoltV3CompiledOrderAdmissionEvidence \<Rightarrow> 'd NtDerivedCapitalAdmissionState \<Rightarrow> 'd PredictionMarketAdmissionSnapshot \<Rightarrow> u64 \<Rightarrow>
    u64 \<Rightarrow> 'd BoltV3SubmitCapitalAdmissionState \<Rightarrow>
    (BoltV3CapitalAdmissionSubmitDecision \<times> u64 \<times> 'd BoltV3SubmitCapitalAdmissionState) option" where
  "reserve_submit_liability D M dmax request now_ns evidence state product reservation_revision revision ca0 =
     (let ca = ca0\<lparr>sc_next_sequence := sc_next_sequence ca0 + 1\<rparr>;
          reservation_id = sr_client_order_id request @ ''#'' @ decimal (unat (sc_next_sequence ca))
      in map_option (\<lambda>(decision, gate).
           settle_submit_decision D request now_ns evidence product reservation_id reservation_revision revision decision gate ca)
           (evaluate_and_reserve D M dmax (submit_gate_inputs request now_ns evidence state reservation_id ca) (sc_gate ca)))"

definition evaluate_capital_submit :: "'d decimal_ops \<Rightarrow> 'd decimal_product_ops \<Rightarrow> 'd \<Rightarrow> 'd BoltV3SubmitAdmissionRequest \<Rightarrow> u64 \<Rightarrow> u64 \<Rightarrow>
    'd BoltV3SubmitCapitalAdmissionState \<Rightarrow> (BoltV3CapitalAdmissionSubmitDecision \<times> u64 \<times> 'd BoltV3SubmitCapitalAdmissionState) option" where
  "evaluate_capital_submit D M dmax request now_ns revision ca =
     (case submit_capital_checks D request ca of
        Inl reason \<Rightarrow> Some (CapitalRejected reason, revision, ca)
      | Inr (evidence, state, product, outcome_position) \<Rightarrow>
          if sr_intent_kind request = RiskReducingExitIntent then
            (if ce_side evidence = CompiledSell \<and> dec_le D (ce_quantity evidence) outcome_position
             then Some (CapitalAccepted None None, revision, ca)
             else Some (CapitalRejected (CapitalLiability InsufficientInventory), revision, ca))
          else case checked_add revision 1 of
            None \<Rightarrow> Some (CapitalRejected CapitalReconciliationRequired, revision, ca\<lparr>sc_gate := gate_invalidate (sc_gate ca)\<rparr>)
          | Some reservation_revision \<Rightarrow>
              reserve_submit_liability D M dmax request now_ns evidence state product reservation_revision revision ca)"

definition evaluate_capital_admission_submit :: "'d decimal_ops \<Rightarrow> 'd decimal_product_ops \<Rightarrow> 'd \<Rightarrow> 'd BoltV3SubmitAdmissionRequest \<Rightarrow> u64 \<Rightarrow>
    'd BoltV3SubmitAdmissionState \<Rightarrow> (BoltV3CapitalAdmissionSubmitDecision \<times> 'd BoltV3SubmitAdmissionState) option" where
  "evaluate_capital_admission_submit D M dmax request now_ns s =
     (case capital_admission s of
        None \<Rightarrow> Some (CapitalAccepted None None, s)
      | Some ca \<Rightarrow>
          map_option (\<lambda>(decision, revision, ca'). (decision, s\<lparr>capital_admission_state_revision := revision, capital_admission := Some ca'\<rparr>))
            (evaluate_capital_submit D M dmax request now_ns (capital_admission_state_revision s) ca))"

end
