(* ===== verification/SubmitAdmission.thy ===== *)
theory SubmitAdmission
  imports SubmitState
begin

text \<open>
  The admission of orders (\<open>src/src/bolt_v3_submit_admission.rs\<close>): evaluation of a request, the permit
  with its counters, the passage of the submit boundary and the roll-back of a permit that is dropped.
  What the economics seal and the evidence recorder answer is an argument of each call.
\<close>

section \<open>Counters and permits\<close>

definition checked_add_u32 :: "u32 \<Rightarrow> u32 \<Rightarrow> u32 option" where
  "checked_add_u32 a b = (if unat a + unat b < 2 ^ 32 then Some (a + b) else None)"

definition checked_sub_u32 :: "u32 \<Rightarrow> u32 \<Rightarrow> u32 option" where
  "checked_sub_u32 a b = (if b \<le> a then Some (a - b) else None)"

definition saturating_succ_u32 :: "u32 \<Rightarrow> u32" where
  "saturating_succ_u32 a = (case checked_add_u32 a 1 of None \<Rightarrow> - 1 | Some b \<Rightarrow> b)"

definition is_power_of_two :: "u32 \<Rightarrow> bool" where
  "is_power_of_two n \<longleftrightarrow> list_ex (\<lambda>k. unat n = 2 ^ k) [0..<32]"

definition live_submit_count_cap_outcome :: "u32 \<Rightarrow> u32 \<Rightarrow> u32 \<Rightarrow> AdmissionDecisionOutcome" where
  "live_submit_count_cap_outcome current_count claim_count max_order_count =
     (case checked_add_u32 current_count claim_count of
        Some n \<Rightarrow> if n \<le> max_order_count then OutcomeAdmitted else OutcomeRejected CountCapExhaustedReason
      | None \<Rightarrow> OutcomeRejected CountCapExhaustedReason)"

record BoltV3SubmitAdmissionCounterRollback =
  cr_execution_client_id :: string
  cr_order_count :: u32
  cr_uncommitted_evidence_free_client_order_ids :: "string list"

record BoltV3SubmitAdmissionCounterValues =
  cv_admitted_order_count :: u32
  cv_execution_client_order_count :: u32

definition checked_admission_counter_values :: "u32 \<Rightarrow> u32 \<Rightarrow> u32 \<Rightarrow> BoltV3SubmitAdmissionError + BoltV3SubmitAdmissionCounterValues" where
  "checked_admission_counter_values admitted client claim_count =
     and_then (ok_or (checked_add_u32 admitted claim_count) CountCapExhausted) (\<lambda>admitted'.
     and_then (ok_or (checked_add_u32 client claim_count) CountCapExhausted) (\<lambda>client'.
     Inr \<lparr>cv_admitted_order_count = admitted', cv_execution_client_order_count = client'\<rparr>))"

text \<open>\<open>u32::try_from(usize)\<close>.\<close>

definition checked_basket_claim_count :: "nat \<Rightarrow> BoltV3SubmitAdmissionError + u32" where
  "checked_basket_claim_count n = (if n < 2 ^ 32 then Inr (of_nat n) else Inl CountCapExhausted)"

datatype RecordedAdmissionAuthority = CommittedEntryAuthority | RecordedRiskReducing bool | NoExternalActionAuthority

datatype BoltV3SubmitEvidenceAuthority = SubmitCommittedEntry | SubmitCommittedBasket | SubmitRiskReducing

fun requires_evidence_free_non_reservation_tracking :: "RecordedAdmissionAuthority \<Rightarrow> bool" where
  "requires_evidence_free_non_reservation_tracking (RecordedRiskReducing evidence_committed) = (\<not> evidence_committed)"
| "requires_evidence_free_non_reservation_tracking _ = False"

fun into_submit_authority :: "RecordedAdmissionAuthority \<Rightarrow> BoltV3SubmitAdmissionError + BoltV3SubmitEvidenceAuthority" where
  "into_submit_authority CommittedEntryAuthority = Inr SubmitCommittedEntry"
| "into_submit_authority (RecordedRiskReducing _) = Inr SubmitRiskReducing"
| "into_submit_authority NoExternalActionAuthority = Inl (InvariantViolation AdmittedSubmitMissingEvidenceAuthority)"

record BoltV3SubmitAdmissionPermit =
  pt_rollbacks :: "BoltV3CapitalAdmissionReservationRollback list"
  pt_counter_rollback :: "BoltV3SubmitAdmissionCounterRollback option"
  pt_evidence_authority :: "BoltV3SubmitEvidenceAuthority option"
  pt_committed :: bool

definition client_count :: "'d BoltV3SubmitAdmissionState \<Rightarrow> string \<Rightarrow> u32" where
  "client_count s client = (case bt_get (admitted_order_count_by_execution_client s) client of None \<Rightarrow> 0 | Some n \<Rightarrow> n)"

section \<open>Roll-back\<close>

text \<open>\<open>checked_add\<close> on the revision; an exhausted revision stays.\<close>

definition advance_capital_admission_state_revision :: "u64 \<Rightarrow> u64 option" where
  "advance_capital_admission_state_revision revision = checked_add revision 1"

definition latch_submit_admission_rollback_ownership_failure :: "'d BoltV3SubmitAdmissionState \<Rightarrow> 'd BoltV3SubmitAdmissionState" where
  "latch_submit_admission_rollback_ownership_failure s =
     s\<lparr>rollback_ownership_latch := Some RollbackOwnershipLost,
       capital_admission_state_revision :=
         (case advance_capital_admission_state_revision (capital_admission_state_revision s) of
            None \<Rightarrow> capital_admission_state_revision s
          | Some next \<Rightarrow> next),
       capital_admission := map_option (\<lambda>ca. ca\<lparr>sc_gate := gate_invalidate (sc_gate ca)\<rparr>) (capital_admission s)\<rparr>"

text \<open>The loop over the roll-backs, last first: revision, identifiers seen and the latest time are carried along.\<close>

fun rollback_each :: "BoltV3CapitalAdmissionReservationRollback list \<Rightarrow> string set \<Rightarrow> (string \<times> string) set \<Rightarrow> u64 option \<Rightarrow> u64 \<Rightarrow>
    'd BoltV3SubmitCapitalAdmissionState \<Rightarrow> ReservationRejectionReason + (u64 option \<times> u64 \<times> 'd BoltV3SubmitCapitalAdmissionState)" where
  "rollback_each [] clients reservations latest revision ca = Inr (latest, revision, ca)"
| "rollback_each (k # ks) clients reservations latest revision ca =
     and_then (ensure (rk_client_order_id k \<notin> clients \<and> (rk_pool_id k, rk_submit_reservation_id k) \<notin> reservations) DuplicateReservation) (\<lambda>_.
     and_then (ok_or (checked_add revision 1) ReconciliationRequired) (\<lambda>revision'.
     and_then (ok_or (bt_get (sc_client_order_reservations ca) (rk_client_order_id k)) UnknownReservation) (\<lambda>r.
     and_then (ensure (rr_phase r = ReservedPhase \<and> at_client_order_id (rr_attribution r) = rk_client_order_id k \<and>
       at_submit_reservation_id (rr_attribution r) = rk_submit_reservation_id k \<and> at_capital_pool_id (rr_attribution r) = rk_pool_id k) InvalidRequest) (\<lambda>_.
     and_then (gate_retained_reservation (rk_pool_id k) (at_collateral_group_id (rr_attribution r)) (rk_submit_reservation_id k) (sc_gate ca)) (\<lambda>_.
     case rollback_uncommitted_reservation (rk_pool_id k) (rk_submit_reservation_id k) (sc_gate ca) of (rolled_back, gate) \<Rightarrow>
     and_then (ok_or rolled_back UnknownReservation) (\<lambda>_.
     rollback_each ks (insert (rk_client_order_id k) clients) (insert (rk_pool_id k, rk_submit_reservation_id k) reservations)
       (Some (case latest of None \<Rightarrow> rk_observed_at_ns k | Some t \<Rightarrow> max t (rk_observed_at_ns k))) revision'
       (ca\<lparr>sc_gate := gate, sc_client_order_reservations := bt_remove (rk_client_order_id k) (sc_client_order_reservations ca)\<rparr>)))))))"

definition prepare_capital_admission_reservation_rollback :: "BoltV3CapitalAdmissionReservationRollback list \<Rightarrow> 'd BoltV3SubmitAdmissionState \<Rightarrow>
    ReservationRejectionReason + ('d BoltV3SubmitCapitalAdmissionState option \<times> u64)" where
  "prepare_capital_admission_reservation_rollback rollbacks s =
     (if rollbacks = [] then Inr (None, capital_admission_state_revision s)
      else
        and_then (ok_or (capital_admission s) UnknownReservation) (\<lambda>ca.
        and_then (rollback_each (rev rollbacks) {} {} None (capital_admission_state_revision s) ca) (\<lambda>(latest, revision, ca').
        let counted = ca'\<lparr>sc_unresolved_lifecycle_reservations := unresolved_reservation_counts (sc_client_order_reservations ca')\<rparr> in
        Inr (Some (case latest of None \<Rightarrow> counted | Some t \<Rightarrow> refresh_capital_admission_reservation_snapshot t counted), revision))))"

definition commit_capital_admission_reservation_rollback :: "'d BoltV3SubmitCapitalAdmissionState option \<times> u64 \<Rightarrow>
    'd BoltV3SubmitAdmissionState \<Rightarrow> 'd BoltV3SubmitAdmissionState" where
  "commit_capital_admission_reservation_rollback prepared s =
     (case prepared of (candidate, final_revision) \<Rightarrow>
      s\<lparr>capital_admission := (case candidate of None \<Rightarrow> capital_admission s | Some ca \<Rightarrow> Some ca),
        capital_admission_state_revision := final_revision\<rparr>)"

definition rollback_capital_admission_reservations :: "BoltV3CapitalAdmissionReservationRollback list \<Rightarrow> 'd BoltV3SubmitAdmissionState \<Rightarrow>
    'd BoltV3SubmitAdmissionState" where
  "rollback_capital_admission_reservations rollbacks s =
     (case prepare_capital_admission_reservation_rollback rollbacks s of
        Inr prepared \<Rightarrow> commit_capital_admission_reservation_rollback prepared s
      | Inl _ \<Rightarrow> latch_submit_admission_rollback_ownership_failure s)"

definition checked_admission_counter_rollback :: "BoltV3SubmitAdmissionCounterRollback \<Rightarrow> 'd BoltV3SubmitAdmissionState \<Rightarrow>
    BoltV3SubmitAdmissionCounterValues option" where
  "checked_admission_counter_rollback k s =
     (case (checked_sub_u32 (admitted_order_count s) (cr_order_count k),
            Option.bind (bt_get (admitted_order_count_by_execution_client s) (cr_execution_client_id k)) (\<lambda>n. checked_sub_u32 n (cr_order_count k))) of
        (Some admitted, Some client) \<Rightarrow>
          if distinct (cr_uncommitted_evidence_free_client_order_ids k) \<and>
            list_all (\<lambda>cid. bt_get (evidence_free_non_reservation_admissions s) cid = Some PermitHeld) (cr_uncommitted_evidence_free_client_order_ids k)
          then Some \<lparr>cv_admitted_order_count = admitted, cv_execution_client_order_count = client\<rparr>
          else None
      | _ \<Rightarrow> None)"

definition apply_admission_counter_rollback :: "BoltV3SubmitAdmissionCounterRollback \<Rightarrow> BoltV3SubmitAdmissionCounterValues \<Rightarrow>
    'd BoltV3SubmitAdmissionState \<Rightarrow> 'd BoltV3SubmitAdmissionState" where
  "apply_admission_counter_rollback k values s =
     s\<lparr>admitted_order_count := cv_admitted_order_count values,
       admitted_order_count_by_execution_client :=
         (if cv_execution_client_order_count values = 0
          then bt_remove (cr_execution_client_id k) (admitted_order_count_by_execution_client s)
          else bt_insert (cr_execution_client_id k) (cv_execution_client_order_count values) (admitted_order_count_by_execution_client s)),
       evidence_free_non_reservation_admissions :=
         fold bt_remove (cr_uncommitted_evidence_free_client_order_ids k) (evidence_free_non_reservation_admissions s)\<rparr>"

definition rollback_unsubmitted_permit :: "BoltV3CapitalAdmissionReservationRollback list \<Rightarrow> BoltV3SubmitAdmissionCounterRollback option \<Rightarrow>
    'd BoltV3SubmitAdmissionState \<Rightarrow> 'd BoltV3SubmitAdmissionState" where
  "rollback_unsubmitted_permit rollbacks counter_rollback s =
     (case (case counter_rollback of
              None \<Rightarrow> Some None
            | Some k \<Rightarrow> map_option (\<lambda>values. Some (k, values)) (checked_admission_counter_rollback k s)) of
        None \<Rightarrow> latch_submit_admission_rollback_ownership_failure s
      | Some counters \<Rightarrow>
          (case prepare_capital_admission_reservation_rollback rollbacks s of
             Inl _ \<Rightarrow> latch_submit_admission_rollback_ownership_failure s
           | Inr prepared \<Rightarrow>
               let s' = commit_capital_admission_reservation_rollback prepared s in
               (case counters of None \<Rightarrow> s' | Some (k, values) \<Rightarrow> apply_admission_counter_rollback k values s')))"

text \<open>Dropping a permit.\<close>

definition drop_permit :: "BoltV3SubmitAdmissionPermit \<Rightarrow> 'd BoltV3SubmitAdmissionState \<Rightarrow> 'd BoltV3SubmitAdmissionState" where
  "drop_permit permit s =
     (if pt_committed permit then s else rollback_unsubmitted_permit (pt_rollbacks permit) (pt_counter_rollback permit) s)"

section \<open>Crossing the submit boundary\<close>

fun invoke_evidence_free :: "string list \<Rightarrow> string set \<Rightarrow> (string, BoltV3EvidenceFreeNonReservationPhase) btree_map \<Rightarrow>
    ReservationRejectionReason + (string, BoltV3EvidenceFreeNonReservationPhase) btree_map" where
  "invoke_evidence_free [] seen admissions = Inr admissions"
| "invoke_evidence_free (cid # cids) seen admissions =
     (if cid \<in> seen \<or> bt_get admissions cid \<noteq> Some PermitHeld then Inl UnknownReservation
      else invoke_evidence_free cids (insert cid seen) (bt_insert cid EvidenceFreeSinkInvoked admissions))"

fun invoke_reservations :: "BoltV3CapitalAdmissionReservationRollback list \<Rightarrow> u64 \<Rightarrow> 'd BoltV3SubmitCapitalAdmissionState \<Rightarrow>
    ReservationRejectionReason + (u64 \<times> 'd BoltV3SubmitCapitalAdmissionState)" where
  "invoke_reservations [] revision ca = Inr (revision, ca)"
| "invoke_reservations (k # ks) revision ca =
     and_then (ok_or (checked_add revision 1) ReconciliationRequired) (\<lambda>revision'.
     and_then (ok_or (bt_get (sc_client_order_reservations ca) (rk_client_order_id k)) UnknownReservation) (\<lambda>r.
     and_then (ensure (rr_phase r = ReservedPhase \<and> at_submit_reservation_id (rr_attribution r) = rk_submit_reservation_id k \<and>
       at_capital_pool_id (rr_attribution r) = rk_pool_id k) UnknownReservation) (\<lambda>_.
     and_then (gate_retained_reservation (at_capital_pool_id (rr_attribution r)) (at_collateral_group_id (rr_attribution r))
       (at_submit_reservation_id (rr_attribution r)) (sc_gate ca)) (\<lambda>_.
     invoke_reservations ks revision'
       (ca\<lparr>sc_client_order_reservations := bt_insert (rk_client_order_id k)
         (r\<lparr>rr_phase := SinkInvokedPhase, rr_phase_revision := revision'\<rparr>) (sc_client_order_reservations ca)\<rparr>)))))"

record 'd PreparedSubmitSinkInvocationTransition =
  ps_candidate_capital_admission :: "'d BoltV3SubmitCapitalAdmissionState option"
  ps_candidate_evidence_free :: "(string, BoltV3EvidenceFreeNonReservationPhase) btree_map option"
  ps_final_revision :: u64

definition prepare_submit_sink_invocation :: "BoltV3CapitalAdmissionReservationRollback list \<Rightarrow> BoltV3SubmitAdmissionCounterRollback option \<Rightarrow>
    'd BoltV3SubmitAdmissionState \<Rightarrow> ReservationRejectionReason + 'd PreparedSubmitSinkInvocationTransition" where
  "prepare_submit_sink_invocation rollbacks counter_rollback s =
     (let ids = (case counter_rollback of None \<Rightarrow> [] | Some k \<Rightarrow> cr_uncommitted_evidence_free_client_order_ids k) in
      and_then (if ids = [] then Inr None
                else and_then (invoke_evidence_free ids {} (evidence_free_non_reservation_admissions s)) (\<lambda>m. Inr (Some m))) (\<lambda>evidence_free.
      and_then (if rollbacks = [] then Inr (capital_admission_state_revision s, None)
                else and_then (ok_or (capital_admission s) UnknownReservation) (\<lambda>ca.
                     and_then (invoke_reservations rollbacks (capital_admission_state_revision s) ca) (\<lambda>(revision, ca'). Inr (revision, Some ca')))) (\<lambda>(revision, candidate).
      Inr \<lparr>ps_candidate_capital_admission = candidate, ps_candidate_evidence_free = evidence_free, ps_final_revision = revision\<rparr>)))"

definition commit_submit_sink_invocation :: "'d PreparedSubmitSinkInvocationTransition \<Rightarrow> 'd BoltV3SubmitAdmissionState \<Rightarrow> 'd BoltV3SubmitAdmissionState" where
  "commit_submit_sink_invocation prepared s =
     s\<lparr>capital_admission := (case ps_candidate_capital_admission prepared of None \<Rightarrow> capital_admission s | Some ca \<Rightarrow> Some ca),
       evidence_free_non_reservation_admissions :=
         (case ps_candidate_evidence_free prepared of None \<Rightarrow> evidence_free_non_reservation_admissions s | Some m \<Rightarrow> m),
       capital_admission_state_revision := ps_final_revision prepared\<rparr>"

text \<open>
  \<open>prepare_sink_invocation\<close> followed by \<open>commit\<close> of the prepared guard, which holds the lock: the permit
  is committed and its authority consumed; a refusal leaves permit and state unchanged.
\<close>

definition invoke_sink :: "BoltV3SubmitAdmissionPermit \<Rightarrow> 'd BoltV3SubmitAdmissionState \<Rightarrow>
    ReservationRejectionReason + (BoltV3SubmitAdmissionPermit \<times> 'd BoltV3SubmitAdmissionState)" where
  "invoke_sink permit s =
     and_then (prepare_submit_sink_invocation (pt_rollbacks permit) (pt_counter_rollback permit) s) (\<lambda>prepared.
     and_then (ok_or (pt_evidence_authority permit) ReconciliationRequired) (\<lambda>_.
     Inr (permit\<lparr>pt_evidence_authority := None, pt_committed := True\<rparr>, commit_submit_sink_invocation prepared s)))"

section \<open>Evaluation of a request\<close>

record BoltV3SubmitAdmissionEvaluation =
  sv_outcome :: AdmissionDecisionOutcome
  sv_admission_now_ns :: u64
  sv_loss_halt_reasons :: "LossHaltReason list"
  sv_loss_snapshot_diagnostics :: "LossSnapshotDiagnostics option"
  sv_capital_admission_rejection :: "BoltV3CapitalAdmissionRejectReason option"
  sv_rollback :: "BoltV3CapitalAdmissionReservationRollback option"
  sv_reservation_attribution :: "ReservationAttribution option"

definition evaluation_validate :: "BoltV3SubmitAdmissionEvaluation \<Rightarrow> BoltV3SubmitAdmissionError + unit" where
  "evaluation_validate v =
     (let has_loss_context = (sv_loss_halt_reasons v \<noteq> []);
          has_capital_context = (sv_capital_admission_rejection v \<noteq> None);
          has_admitted_context = (sv_rollback v \<noteq> None \<or> sv_reservation_attribution v \<noteq> None)
      in case sv_outcome v of
           OutcomeAdmitted \<Rightarrow>
             if \<not> has_loss_context \<and> \<not> has_capital_context then Inr () else Inl (InvariantViolation ContradictoryAdmissionDecisionContext)
         | OutcomeRejected reason \<Rightarrow>
             if reason = LossGovernorHaltedReason \<and> \<not> has_loss_context then Inl (InvariantViolation MissingLossHaltReasons)
             else if reason = LossGovernorHaltedReason \<and> \<not> has_capital_context \<and> \<not> has_admitted_context then Inr ()
             else if reason = CapitalAdmissionReason \<and> \<not> has_capital_context then Inl (InvariantViolation MissingCapitalAdmissionRejectionReason)
             else if reason = CapitalAdmissionReason \<and> \<not> has_loss_context \<and> \<not> has_admitted_context then Inr ()
             else if \<not> has_loss_context \<and> \<not> has_capital_context \<and> \<not> has_admitted_context then Inr ()
             else Inl (InvariantViolation ContradictoryAdmissionDecisionContext))"

definition without_loss_halt :: "AdmissionDecisionOutcome \<Rightarrow> u64 \<Rightarrow> BoltV3SubmitAdmissionEvaluation" where
  "without_loss_halt outcome now_ns =
     \<lparr>sv_outcome = outcome, sv_admission_now_ns = now_ns, sv_loss_halt_reasons = [], sv_loss_snapshot_diagnostics = None,
      sv_capital_admission_rejection = None, sv_rollback = None, sv_reservation_attribution = None\<rparr>"

definition loss_halt :: "LossHaltReason list \<Rightarrow> LossSnapshotDiagnostics \<Rightarrow> BoltV3SubmitAdmissionEvaluation" where
  "loss_halt reasons diags =
     (without_loss_halt (OutcomeRejected LossGovernorHaltedReason) (diag_admission_now_ns diags))
       \<lparr>sv_loss_halt_reasons := reasons, sv_loss_snapshot_diagnostics := Some diags\<rparr>"

definition capital_admission_rejected :: "BoltV3CapitalAdmissionRejectReason \<Rightarrow> u64 \<Rightarrow> BoltV3SubmitAdmissionEvaluation" where
  "capital_admission_rejected reason now_ns =
     (without_loss_halt (OutcomeRejected CapitalAdmissionReason) now_ns)\<lparr>sv_capital_admission_rejection := Some reason\<rparr>"

definition admitted_with_rollback :: "BoltV3CapitalAdmissionReservationRollback option \<Rightarrow> ReservationAttribution option \<Rightarrow> u64 \<Rightarrow>
    BoltV3SubmitAdmissionEvaluation" where
  "admitted_with_rollback rollback attribution now_ns =
     (without_loss_halt OutcomeAdmitted now_ns)\<lparr>sv_rollback := rollback, sv_reservation_attribution := attribution\<rparr>"

definition with_loss_snapshot_diagnostics :: "LossSnapshotDiagnostics option \<Rightarrow> BoltV3SubmitAdmissionEvaluation \<Rightarrow> BoltV3SubmitAdmissionEvaluation" where
  "with_loss_snapshot_diagnostics diags v = (if diags \<noteq> None then v\<lparr>sv_loss_snapshot_diagnostics := diags\<rparr> else v)"

fun stale_loss_reason_key :: "LossSnapshotStaleReason \<Rightarrow> string" where
  "stale_loss_reason_key MissingSnapshot = ''missing_snapshot''"
| "stale_loss_reason_key SourceEmpty = ''source_empty''"
| "stale_loss_reason_key FutureDated = ''future_dated''"
| "stale_loss_reason_key AgeExceeded = ''age_exceeded''"
| "stale_loss_reason_key MissingRequiredField = ''missing_required_field''"

text \<open>The reasons of the halt records are those of the snapshot.\<close>

definition stale_loss_governor_halt_reason :: "'d LossGovernorPolicy \<Rightarrow> 'd LossSnapshot option \<Rightarrow> u64 \<Rightarrow>
    BoltV3SubmitAdmissionError + LossSnapshotStaleReason" where
  "stale_loss_governor_halt_reason policy snapshot now_ns =
     (case snapshot of
        None \<Rightarrow> Inr MissingSnapshot
      | Some s \<Rightarrow> ok_or (loss_snapshot_stale_reason policy s now_ns) (InvariantViolation MissingStaleLossReason))"

definition record_stale_loss_governor_halt :: "'d LossGovernorPolicy \<Rightarrow> u64 \<Rightarrow>
    ('d BoltV3SubmitAdmissionState, BoltV3SubmitAdmissionError, unit) act" where
  "record_stale_loss_governor_halt policy now_ns =
     act_bind act_get (\<lambda>s.
     act_bind (act_lift (stale_loss_governor_halt_reason policy (submit_loss_snapshot s) now_ns)) (\<lambda>stale_reason.
     let source = (case Option.bind (submit_loss_snapshot s) snap_source of None \<Rightarrow> ''none'' | Some source \<Rightarrow> loss_source_as_str source);
         key = stale_loss_reason_key stale_reason @ '':'' @ source;
         episode = (case bt_get (loss_halt_episodes s) key of
             None \<Rightarrow> \<lparr>lh_count = 1, lh_first_halt_ns = now_ns\<rparr>
           | Some e \<Rightarrow> e\<lparr>lh_count := saturating_succ_u32 (lh_count e)\<rparr>);
         elapsed = (if lh_first_halt_ns episode \<le> now_ns then now_ns - lh_first_halt_ns episode else 0)
     in act_modify (\<lambda>s. s\<lparr>loss_halt_episodes := bt_insert key episode (loss_halt_episodes s),
          recorder_calls := recorder_calls s @
            (if is_power_of_two (lh_count episode) then [RecordLossGovernorHalt key (lh_count episode) elapsed] else [])\<rparr>)))"

definition is_valid_for_shape :: "'d decimal_ops \<Rightarrow> 'd BoltV3RiskReducingExitProof \<Rightarrow> string \<Rightarrow> OrderSide \<Rightarrow> 'd \<Rightarrow> bool" where
  "is_valid_for_shape D proof instrument_id order_side order_quantity \<longleftrightarrow>
     xp_instrument_id proof = instrument_id \<and> xp_exit_order_side proof = order_side \<and>
     dec_eq D (xp_exit_quantity proof) order_quantity \<and> dec_lt D (dec_zero D) (xp_position_quantity proof) \<and>
     dec_lt D (dec_zero D) (xp_exit_quantity proof) \<and> dec_le D (xp_exit_quantity proof) (xp_position_quantity proof) \<and>
     ((xp_position_side proof, order_side) = (Long, Sell) \<or> (xp_position_side proof, order_side) = (Short, Buy))"

text \<open>The loss governor's part: a finished evaluation on a halt, and else the diagnostics for the later ones.\<close>

definition evaluate_loss :: "'d decimal_ops \<Rightarrow> 'd BoltV3SubmitAdmissionRequest \<Rightarrow> u64 \<Rightarrow>
    ('d BoltV3SubmitAdmissionState, BoltV3SubmitAdmissionError, BoltV3SubmitAdmissionEvaluation + LossSnapshotDiagnostics option) act" where
  "evaluate_loss D request now_ns =
     act_bind act_get (\<lambda>s.
     case submit_loss_policy s of
       None \<Rightarrow> act_return (Inr None)
     | Some policy \<Rightarrow>
         if sr_intent_kind request \<noteq> EntryIntent then act_return (Inr None)
         else
           act_bind (act_option (evaluate_loss_admission_with_observations D policy (submit_loss_snapshot s) now_ns (loss_source_observations s))) (\<lambda>decision.
           if \<not> accepted decision then
             act_then (if StaleLossSnapshot \<in> set (halt_reasons decision) then record_stale_loss_governor_halt policy now_ns else act_return ())
               (act_return (Inl (loss_halt (halt_reasons decision) (diagnostics decision))))
           else
             act_then (act_modify (\<lambda>s. s\<lparr>loss_halt_episodes := []\<rparr>)) (act_return (Inr (Some (diagnostics decision))))))"

definition limits_rejection :: "'d decimal_ops \<Rightarrow> 'd BoltV3SubmitAdmissionRequest \<Rightarrow> 'd BoltV3SubmitAdmissionState \<Rightarrow> AdmissionRejectionReason option" where
  "limits_rejection D request s =
     (if dec_le D (sr_notional request) (dec_zero D) then Some NonPositiveNotionalReason
      else case bt_get (live_submit_approval_limits s) (sr_execution_client_id request) of
        None \<Rightarrow> None
      | Some limits \<Rightarrow>
          if dec_lt D (lim_max_order_notional limits) (sr_notional request) then Some NotionalCapExceededReason
          else if live_submit_count_cap_outcome (client_count s (sr_execution_client_id request)) 1 (lim_max_order_count limits) =
            OutcomeRejected CountCapExhaustedReason
          then Some CountCapExhaustedReason
          else None)"

definition exit_proof_valid :: "'d decimal_ops \<Rightarrow> 'd BoltV3SubmitAdmissionRequest \<Rightarrow> bool" where
  "exit_proof_valid D request \<longleftrightarrow>
     (case sr_intent_kind request of
        EntryIntent \<Rightarrow> True
      | RiskReducingExitIntent \<Rightarrow>
          (case sr_risk_reducing_exit_proof request of
             None \<Rightarrow> False
           | Some proof \<Rightarrow> is_valid_for_shape D proof (sr_instrument_id request) (sr_order_side request) (sr_order_quantity request)))"

text \<open>The capital part: the decision with its reservation, as an evaluation.\<close>

definition evaluate_capital :: "'d decimal_ops \<Rightarrow> 'd decimal_product_ops \<Rightarrow> 'd \<Rightarrow> 'd BoltV3SubmitAdmissionRequest \<Rightarrow> u64 \<Rightarrow>
    ('d BoltV3SubmitAdmissionState, BoltV3SubmitAdmissionError, BoltV3SubmitAdmissionEvaluation) act" where
  "evaluate_capital D M dmax request now_ns =
     act_bind act_get (\<lambda>s.
     act_bind (act_option (evaluate_capital_admission_submit D M dmax request now_ns s)) (\<lambda>(decision, s').
     act_then (act_modify (\<lambda>_. s'))
     (case decision of
        CapitalRejected reason \<Rightarrow> act_return (capital_admission_rejected reason now_ns)
      | CapitalAccepted rollback attribution \<Rightarrow> act_return (admitted_with_rollback rollback attribution now_ns)
      | CapitalInvariant invariant \<Rightarrow> act_fail (InvariantViolation invariant))))"

text \<open>What follows the loss governor: limits, the proof of an exit, and capital if it is configured.\<close>

definition evaluate_order :: "'d decimal_ops \<Rightarrow> 'd decimal_product_ops \<Rightarrow> 'd \<Rightarrow> 'd BoltV3SubmitAdmissionRequest \<Rightarrow> u64 \<Rightarrow>
    ('d BoltV3SubmitAdmissionState, BoltV3SubmitAdmissionError, BoltV3SubmitAdmissionEvaluation) act" where
  "evaluate_order D M dmax request now_ns =
     act_bind act_get (\<lambda>s.
     case limits_rejection D request s of
       Some reason \<Rightarrow> act_return (without_loss_halt (OutcomeRejected reason) now_ns)
     | None \<Rightarrow>
         if \<not> exit_proof_valid D request then act_return (without_loss_halt (OutcomeRejected InvalidRiskReducingExitProofReason) now_ns)
         else if capital_admission s \<noteq> None then evaluate_capital D M dmax request now_ns
         else act_return (without_loss_halt OutcomeAdmitted now_ns))"

definition submit_evaluate :: "'d decimal_ops \<Rightarrow> 'd decimal_product_ops \<Rightarrow> 'd \<Rightarrow> 'd BoltV3SubmitAdmissionRequest \<Rightarrow> u64 \<Rightarrow>
    ('d BoltV3SubmitAdmissionState, BoltV3SubmitAdmissionError, BoltV3SubmitAdmissionEvaluation) act" where
  "submit_evaluate D M dmax request now_ns =
     act_bind act_get (\<lambda>s.
     case rollback_ownership_latch s of
       Some invariant \<Rightarrow> act_fail (InvariantViolation invariant)
     | None \<Rightarrow>
         if authorizes_order (committed_admission_authority s) (sr_client_order_id request) \<or>
           bt_get (evidence_free_non_reservation_admissions s) (sr_client_order_id request) \<noteq> None
         then act_return (without_loss_halt (OutcomeRejected ClientOrderAlreadyAuthorizedReason) now_ns)
         else if state_kind (kill_switch_state s) \<noteq> KillSwitchStateKind.Armed
         then act_return (without_loss_halt (OutcomeRejected KillSwitchLatchedReason) now_ns)
         else
           act_bind (evaluate_loss D request now_ns) (\<lambda>loss.
           case loss of
             Inl halted \<Rightarrow> act_return halted
           | Inr diags \<Rightarrow>
               act_bind (evaluate_order D M dmax request now_ns) (\<lambda>evaluation.
               act_return (with_loss_snapshot_diagnostics diags evaluation))))"

end
