(* ===== verification/SubmitPermits.thy ===== *)
theory SubmitPermits
  imports SubmitAdmission
begin

text \<open>
  Recording a decision and granting permits (\<open>src/src/bolt_v3_submit_admission.rs\<close>), with the bounded
  maps of evidence episodes (\<open>src/src/bolt_v3_evidence_sampling.rs\<close>). What the economics seal and the
  evidence recorder answer is an argument.
\<close>

section \<open>Episodes\<close>

text \<open>\<open>min_by_key\<close>: the first of the entries with the least time.\<close>

fun oldest_from :: "('v \<Rightarrow> u64) \<Rightarrow> 'k \<Rightarrow> u64 \<Rightarrow> ('k \<times> 'v) list \<Rightarrow> 'k" where
  "oldest_from first_ns key t [] = key"
| "oldest_from first_ns key t ((key', episode) # m) =
     (if first_ns episode < t then oldest_from first_ns key' (first_ns episode) m else oldest_from first_ns key t m)"

fun oldest_key :: "('v \<Rightarrow> u64) \<Rightarrow> ('k, 'v) btree_map \<Rightarrow> 'k option" where
  "oldest_key first_ns [] = None"
| "oldest_key first_ns ((key, episode) # m) = Some (oldest_from first_ns key (first_ns episode) m)"

lemma oldest_from_member: "oldest_from first_ns key t m \<in> insert key (fst ` set m)"
  by (induction first_ns key t m rule: oldest_from.induct) auto

lemma oldest_key_member: "oldest_key first_ns m = Some key \<Longrightarrow> key \<in> fst ` set m"
  by (cases "(first_ns, m)" rule: oldest_key.cases) (use oldest_from_member in fastforce)+

lemma length_bt_remove: "key \<in> fst ` set m \<Longrightarrow> Suc (length (bt_remove key m)) = length m"
  by (induction key m rule: bt_remove.induct) auto

function evict_oldest_episodes_over_cap :: "('v \<Rightarrow> u64) \<Rightarrow> nat \<Rightarrow> ('k, 'v) btree_map \<Rightarrow> ('k, 'v) btree_map" where
  "evict_oldest_episodes_over_cap first_ns cap m =
     (if length m > cap then
        (case oldest_key first_ns m of
           None \<Rightarrow> m
         | Some key \<Rightarrow> evict_oldest_episodes_over_cap first_ns cap (bt_remove key m))
      else m)"
  by pat_completeness auto

termination
  by (relation "measure (\<lambda>(first_ns, cap, m). length m)") (auto dest!: oldest_key_member length_bt_remove)

declare evict_oldest_episodes_over_cap.simps [simp del]

fun admission_outcome_key :: "AdmissionDecisionOutcome \<Rightarrow> string" where
  "admission_outcome_key OutcomeAdmitted = ''admitted''"
| "admission_outcome_key (OutcomeRejected KillSwitchLatchedReason) = ''rejected_kill_switch_latched''"
| "admission_outcome_key (OutcomeRejected LossGovernorHaltedReason) = ''rejected_loss_governor_halted''"
| "admission_outcome_key (OutcomeRejected NonPositiveNotionalReason) = ''rejected_non_positive_notional''"
| "admission_outcome_key (OutcomeRejected NotionalCapExceededReason) = ''rejected_notional_cap_exceeded''"
| "admission_outcome_key (OutcomeRejected ClientOrderAlreadyAuthorizedReason) = ''rejected_client_order_already_authorized''"
| "admission_outcome_key (OutcomeRejected InvalidRiskReducingExitProofReason) = ''rejected_invalid_risk_reducing_exit_proof''"
| "admission_outcome_key (OutcomeRejected CountCapExhaustedReason) = ''rejected_count_cap_exhausted''"
| "admission_outcome_key (OutcomeRejected KillSwitchForcedReductionProofInvalidReason) =
     ''rejected_kill_switch_forced_reduction_proof_invalid''"
| "admission_outcome_key (OutcomeRejected KillSwitchForcedReductionCapExceededReason) =
     ''rejected_kill_switch_forced_reduction_cap_exceeded''"
| "admission_outcome_key (OutcomeRejected EconomicsSealRejectedReason) = ''rejected_economics_seal''"
| "admission_outcome_key (OutcomeRejected CapitalAdmissionReason) = ''rejected_capital_admission''"

fun submit_admission_order_side_key :: "OrderSide \<Rightarrow> string" where
  "submit_admission_order_side_key Buy = ''buy''"
| "submit_admission_order_side_key Sell = ''sell''"
| "submit_admission_order_side_key NoOrderSide = ''no_order_side''"

definition record_submit_admission_order_reject :: "'d BoltV3SubmitAdmissionRequest \<Rightarrow> BoltV3SubmitAdmissionEvaluation \<Rightarrow> u64 \<Rightarrow>
    'd BoltV3SubmitAdmissionState \<Rightarrow> 'd BoltV3SubmitAdmissionState" where
  "record_submit_admission_order_reject request evaluation now_ns s =
     (let stable_episode_key = sr_instrument_id request @ ''/'' @ submit_admission_order_side_key (sr_order_side request) @ ''/'' @
            admission_outcome_key (sv_outcome evaluation);
          episode = (case bt_get (reject_episodes s) stable_episode_key of
              Some episode \<Rightarrow> episode
            | None \<Rightarrow> \<lparr>re_count = 0, re_first_ns = now_ns, re_last_client_order_id = ''''\<rparr>);
          prior_client_order_id = (if re_count episode > 0 then Some (re_last_client_order_id episode) else None);
          next = episode\<lparr>re_count := saturating_succ_u32 (re_count episode), re_last_client_order_id := sr_client_order_id request\<rparr>;
          elapsed_ns = (if re_first_ns next \<le> now_ns then now_ns - re_first_ns next else 0)
      in s\<lparr>reject_episodes := evict_oldest_episodes_over_cap re_first_ns (reject_episode_max_count s)
             (bt_insert stable_episode_key next (reject_episodes s)),
           recorder_calls := recorder_calls s @
             (if is_power_of_two (re_count next)
              then [RecordOrderReject stable_episode_key prior_client_order_id (sr_client_order_id request) (re_count next) elapsed_ns]
              else [])\<rparr>)"

section \<open>Recording a decision\<close>

record admission_answers =
  aa_economics_available :: bool
  aa_economics_details :: bool
  aa_entry_committed :: bool
  aa_exit_appended :: bool

definition record_call :: "RecorderCall \<Rightarrow> ('d BoltV3SubmitAdmissionState, 'e, unit) act" where
  "record_call c = act_modify (\<lambda>s. s\<lparr>recorder_calls := recorder_calls s @ [c]\<rparr>)"

definition set_authority :: "ReservationRecoveryFacts \<Rightarrow> ('d BoltV3SubmitAdmissionState, 'e, unit) act" where
  "set_authority authority = act_modify (\<lambda>s. s\<lparr>committed_admission_authority := authority\<rparr>)"

text \<open>The authority after an event, or that the event contradicts it.\<close>

definition next_authority :: "'d decimal_ops \<Rightarrow> ReservationRecoveryEvent \<Rightarrow> ('d BoltV3SubmitAdmissionState, unit, ReservationRecoveryFacts) act" where
  "next_authority D event =
     act_bind act_get (\<lambda>s. act_map_err (\<lambda>_. ()) (act_lift (apply_fact D event (committed_admission_authority s))))"

definition record_outcome :: "'d decimal_ops \<Rightarrow> admission_answers \<Rightarrow> 'd BoltV3SubmitAdmissionRequest \<Rightarrow> BoltV3SubmitAdmissionEvaluation \<Rightarrow>
    ('d BoltV3SubmitAdmissionState, unit, RecordedAdmissionAuthority) act" where
  "record_outcome D answers request evaluation =
     (let client_order_id = sr_client_order_id request in
      case sr_intent_kind request of
        EntryIntent \<Rightarrow>
          (case sv_outcome evaluation of
             OutcomeAdmitted \<Rightarrow>
               act_bind (next_authority D (AdmittedEntry client_order_id (sv_reservation_attribution evaluation))) (\<lambda>authority.
               act_then (record_call (RecordAdmittedEntry client_order_id (sv_reservation_attribution evaluation)))
               (act_then (act_lift (ensure (aa_entry_committed answers) ()))
               (act_then (set_authority authority)
               (act_return CommittedEntryAuthority))))
           | OutcomeRejected reason \<Rightarrow>
               act_then (record_call (RecordRejectedEntry client_order_id reason)) (act_return NoExternalActionAuthority))
      | RiskReducingExitIntent \<Rightarrow>
          act_bind (if sv_outcome evaluation = OutcomeAdmitted
              then act_bind (next_authority D (RiskReducingExitAdmission client_order_id OutcomeAdmitted)) (\<lambda>authority. act_return (Some authority))
              else act_return None) (\<lambda>authority.
          act_then (record_call (RecordRiskReducingExit client_order_id (sv_outcome evaluation)))
          (act_then (if aa_exit_appended answers then (case authority of None \<Rightarrow> act_return () | Some a \<Rightarrow> set_authority a) else act_return ())
          (act_return (RecordedRiskReducing (aa_exit_appended answers))))))"

definition record_admission_decision :: "'d decimal_ops \<Rightarrow> admission_answers \<Rightarrow> 'd BoltV3SubmitAdmissionRequest \<Rightarrow>
    BoltV3SubmitAdmissionEvaluation \<Rightarrow> u64 \<Rightarrow> ('d BoltV3SubmitAdmissionState, unit, RecordedAdmissionAuthority) act" where
  "record_admission_decision D answers request evaluation now_ns =
     act_then (act_map_err (\<lambda>_. ()) (act_lift (evaluation_validate evaluation)))
     (act_then (act_lift (ensure (aa_economics_details answers) ()))
     (act_bind (record_outcome D answers request evaluation) (\<lambda>authority.
     act_then (act_modify (\<lambda>s.
         if sv_outcome evaluation = OutcomeAdmitted then s\<lparr>reject_episodes := []\<rparr>
         else if sv_outcome evaluation \<noteq> OutcomeRejected LossGovernorHaltedReason
         then record_submit_admission_order_reject request evaluation now_ns s
         else s))
       (act_return authority))))"

section \<open>The outcome as a result\<close>

definition capital_admission_rejection_error :: "BoltV3CapitalAdmissionRejectReason option \<Rightarrow> BoltV3SubmitAdmissionError" where
  "capital_admission_rejection_error reason =
     (case reason of
        Some r \<Rightarrow> CapitalAdmissionRejected r
      | None \<Rightarrow> InvariantViolation MissingCapitalAdmissionRejectionReason)"

text \<open>The arms for a rejection, with the halt reasons and the capital reason of the evaluation.\<close>

fun rejection_error :: "KillSwitchStateKind \<Rightarrow> LossHaltReason list \<Rightarrow> BoltV3CapitalAdmissionRejectReason option \<Rightarrow> AdmissionRejectionReason \<Rightarrow>
    BoltV3SubmitAdmissionError" where
  "rejection_error kind halts capital KillSwitchLatchedReason = KillSwitchLatched kind"
| "rejection_error kind halts capital LossGovernorHaltedReason = LossGovernorHalted halts"
| "rejection_error kind halts capital NonPositiveNotionalReason = NonPositiveNotional"
| "rejection_error kind halts capital NotionalCapExceededReason = NotionalCapExceeded"
| "rejection_error kind halts capital ClientOrderAlreadyAuthorizedReason = ClientOrderAlreadyAuthorized"
| "rejection_error kind halts capital InvalidRiskReducingExitProofReason = InvalidRiskReducingExitProof"
| "rejection_error kind halts capital CountCapExhaustedReason = CountCapExhausted"
| "rejection_error kind halts capital CapitalAdmissionReason = capital_admission_rejection_error capital"
| "rejection_error kind halts capital KillSwitchForcedReductionProofInvalidReason =
     InvariantViolation KillSwitchForcedReductionReachedNormalAdmission"
| "rejection_error kind halts capital KillSwitchForcedReductionCapExceededReason =
     InvariantViolation KillSwitchForcedReductionReachedNormalAdmission"
| "rejection_error kind halts capital EconomicsSealRejectedReason = EconomicsSealRejected"

definition outcome_result :: "'d BoltV3SubmitAdmissionState \<Rightarrow> BoltV3SubmitAdmissionEvaluation \<Rightarrow> BoltV3SubmitAdmissionError + unit" where
  "outcome_result s evaluation =
     (case sv_outcome evaluation of
        OutcomeAdmitted \<Rightarrow> Inr ()
      | OutcomeRejected reason \<Rightarrow>
          Inl (rejection_error (state_kind (kill_switch_state s)) (sv_loss_halt_reasons evaluation)
            (sv_capital_admission_rejection evaluation) reason))"

definition admission_result :: "'d BoltV3SubmitAdmissionState \<Rightarrow> BoltV3SubmitAdmissionEvaluation \<Rightarrow> BoltV3SubmitAdmissionError + unit" where
  "admission_result s evaluation = and_then (evaluation_validate evaluation) (\<lambda>_. outcome_result s evaluation)"

text \<open>The same for a bare outcome: without the reasons of the governor, its halt is an invariant violation.\<close>

definition submit_admission_error_from_outcome :: "AdmissionDecisionOutcome \<Rightarrow> KillSwitchStateKind \<Rightarrow> BoltV3SubmitAdmissionError" where
  "submit_admission_error_from_outcome outcome kind =
     (case outcome of
        OutcomeAdmitted \<Rightarrow> InvariantViolation ExpectedRejectedOutcome
      | OutcomeRejected reason \<Rightarrow>
          if reason = LossGovernorHaltedReason then InvariantViolation MissingLossHaltReasons
          else rejection_error kind [] None reason)"

section \<open>Permits\<close>

definition rollback_evaluation :: "BoltV3SubmitAdmissionEvaluation \<Rightarrow> ('d BoltV3SubmitAdmissionState, 'e, unit) act" where
  "rollback_evaluation evaluation =
     (case sv_rollback evaluation of
        None \<Rightarrow> act_return ()
      | Some k \<Rightarrow> act_modify (rollback_capital_admission_reservations [k]))"

definition count_cap_evaluation :: "BoltV3SubmitAdmissionEvaluation \<Rightarrow> BoltV3SubmitAdmissionEvaluation" where
  "count_cap_evaluation evaluation =
     with_loss_snapshot_diagnostics (sv_loss_snapshot_diagnostics evaluation)
       (without_loss_halt (OutcomeRejected CountCapExhaustedReason) (sv_admission_now_ns evaluation))"

definition set_counters :: "string \<Rightarrow> BoltV3SubmitAdmissionCounterValues \<Rightarrow> 'd BoltV3SubmitAdmissionState \<Rightarrow> 'd BoltV3SubmitAdmissionState" where
  "set_counters client values s =
     s\<lparr>admitted_order_count := cv_admitted_order_count values,
       admitted_order_count_by_execution_client :=
         bt_insert client (cv_execution_client_order_count values) (admitted_order_count_by_execution_client s)\<rparr>"

definition hold_evidence_free :: "string list \<Rightarrow> 'd BoltV3SubmitAdmissionState \<Rightarrow> 'd BoltV3SubmitAdmissionState" where
  "hold_evidence_free cids s =
     s\<lparr>evidence_free_non_reservation_admissions := fold (\<lambda>cid. bt_insert cid PermitHeld) cids (evidence_free_non_reservation_admissions s)\<rparr>"

definition grant_permit :: "string \<Rightarrow> u32 \<Rightarrow> string list \<Rightarrow> BoltV3CapitalAdmissionReservationRollback list \<Rightarrow> BoltV3SubmitAdmissionCounterValues \<Rightarrow>
    BoltV3SubmitEvidenceAuthority \<Rightarrow> ('d BoltV3SubmitAdmissionState, BoltV3SubmitAdmissionError, BoltV3SubmitAdmissionPermit) act" where
  "grant_permit client order_count evidence_free rollbacks values authority =
     act_then (act_modify (\<lambda>s. hold_evidence_free evidence_free (set_counters client values s)))
       (act_return \<lparr>pt_rollbacks = rollbacks,
          pt_counter_rollback = Some \<lparr>cr_execution_client_id = client, cr_order_count = order_count,
            cr_uncommitted_evidence_free_client_order_ids = evidence_free\<rparr>,
          pt_evidence_authority = Some authority, pt_committed = False\<rparr>)"

text \<open>The arm for an admitted evaluation.\<close>

definition admit_recorded :: "'d BoltV3SubmitAdmissionRequest \<Rightarrow> BoltV3SubmitAdmissionEvaluation \<Rightarrow> BoltV3SubmitAdmissionCounterValues \<Rightarrow>
    RecordedAdmissionAuthority \<Rightarrow> ('d BoltV3SubmitAdmissionState, BoltV3SubmitAdmissionError, BoltV3SubmitAdmissionPermit) act" where
  "admit_recorded request evaluation values authority =
     (case into_submit_authority authority of
        Inl error \<Rightarrow> act_then (rollback_evaluation evaluation) (act_fail error)
      | Inr submit_authority \<Rightarrow>
          grant_permit (sr_execution_client_id request) 1
            (if sv_reservation_attribution evaluation = None \<and> requires_evidence_free_non_reservation_tracking authority
             then [sr_client_order_id request] else [])
            (case sv_rollback evaluation of None \<Rightarrow> [] | Some k \<Rightarrow> [k]) values submit_authority)"

text \<open>What follows a validated evaluation.\<close>

definition admit_evaluated :: "'d decimal_ops \<Rightarrow> admission_answers \<Rightarrow> 'd BoltV3SubmitAdmissionRequest \<Rightarrow> u64 \<Rightarrow> BoltV3SubmitAdmissionEvaluation \<Rightarrow>
    ('d BoltV3SubmitAdmissionState, BoltV3SubmitAdmissionError, BoltV3SubmitAdmissionPermit) act" where
  "admit_evaluated D answers request now_ns evaluation =
     act_bind act_get (\<lambda>s.
     case sv_outcome evaluation of
       OutcomeAdmitted \<Rightarrow>
         (case checked_admission_counter_values (admitted_order_count s) (client_count s (sr_execution_client_id request)) 1 of
            Inl error \<Rightarrow>
              act_then (rollback_evaluation evaluation)
                (act_match (record_admission_decision D answers request (count_cap_evaluation evaluation) now_ns)
                   (\<lambda>_. act_fail EvidenceWriteFailed) (\<lambda>_. act_fail error))
          | Inr values \<Rightarrow>
              act_match (record_admission_decision D answers request evaluation now_ns)
                (\<lambda>_. act_then (rollback_evaluation evaluation) (act_fail EvidenceWriteFailed))
                (admit_recorded request evaluation values))
     | OutcomeRejected reason \<Rightarrow>
         act_match (record_admission_decision D answers request evaluation now_ns)
           (\<lambda>_. act_then (rollback_evaluation evaluation) (act_fail EvidenceWriteFailed))
           (\<lambda>_. act_bind act_get (\<lambda>s'. act_fail (rejection_error (state_kind (kill_switch_state s')) (sv_loss_halt_reasons evaluation)
              (sv_capital_admission_rejection evaluation) reason))))"

definition admit_at_inner :: "'d decimal_ops \<Rightarrow> 'd decimal_product_ops \<Rightarrow> 'd \<Rightarrow> admission_answers \<Rightarrow> 'd BoltV3SubmitAdmissionRequest \<Rightarrow> u64 \<Rightarrow>
    ('d BoltV3SubmitAdmissionState, BoltV3SubmitAdmissionError, BoltV3SubmitAdmissionPermit) act" where
  "admit_at_inner D M dmax answers request now_ns =
     act_then (act_lift (ensure (aa_economics_available answers) EconomicsUnavailable))
     (act_bind (submit_evaluate D M dmax request now_ns) (\<lambda>evaluation.
     case evaluation_validate evaluation of
       Inl error \<Rightarrow> act_then (rollback_evaluation evaluation) (act_fail error)
     | Inr _ \<Rightarrow> admit_evaluated D answers request now_ns evaluation))"

definition evaluate_and_record_without_consuming_capacity_at :: "'d decimal_ops \<Rightarrow> 'd decimal_product_ops \<Rightarrow> 'd \<Rightarrow> admission_answers \<Rightarrow>
    'd BoltV3SubmitAdmissionRequest \<Rightarrow> u64 \<Rightarrow> ('d BoltV3SubmitAdmissionState, BoltV3SubmitAdmissionError, unit) act" where
  "evaluate_and_record_without_consuming_capacity_at D M dmax answers request now_ns =
     act_then (act_lift (ensure (aa_economics_available answers) EconomicsUnavailable))
     (act_bind (submit_evaluate D M dmax request now_ns) (\<lambda>evaluation.
     case evaluation_validate evaluation of
       Inl error \<Rightarrow> act_then (rollback_evaluation evaluation) (act_fail error)
     | Inr _ \<Rightarrow>
         act_match (record_admission_decision D answers request evaluation now_ns)
           (\<lambda>_. act_then (rollback_evaluation evaluation) (act_fail EvidenceWriteFailed))
           (\<lambda>_. act_then (rollback_evaluation evaluation)
             (act_bind act_get (\<lambda>s. act_lift (admission_result s evaluation))))))"

section \<open>Baskets\<close>

record 'd BoltV3BasketSubmitSlotClaim =
  sl_client_order_id :: string
  sl_instrument_id :: string
  sl_notional :: 'd
  sl_order_side :: OrderSide
  sl_order_quantity :: 'd
  sl_intent_kind :: BoltV3SubmitIntentKind
  sl_risk_reducing_exit_proof :: "'d BoltV3RiskReducingExitProof option"
  sl_admission_evidence :: "'d BoltV3CompiledOrderAdmissionEvidence option"

definition basket_submit_request :: "string \<Rightarrow> string \<Rightarrow> 'd BoltV3BasketSubmitSlotClaim \<Rightarrow> 'd BoltV3SubmitAdmissionRequest" where
  "basket_submit_request strategy_id client claim =
     \<lparr>sr_strategy_id = strategy_id, sr_execution_client_id = client, sr_client_order_id = sl_client_order_id claim,
      sr_instrument_id = sl_instrument_id claim, sr_notional = sl_notional claim, sr_order_side = sl_order_side claim,
      sr_order_quantity = sl_order_quantity claim, sr_intent_kind = sl_intent_kind claim,
      sr_risk_reducing_exit_proof = sl_risk_reducing_exit_proof claim, sr_admission_evidence = sl_admission_evidence claim\<rparr>"

fun basket_intent_kind :: "BoltV3SubmitIntentKind \<Rightarrow> BasketAdmissionIntentKind" where
  "basket_intent_kind EntryIntent = BasketEntry"
| "basket_intent_kind RiskReducingExitIntent = BasketRiskReducingExit"

text \<open>
  The loop over the claims: the roll-backs so far and the legs admitted so far are carried along, and
  the evaluation that refused a claim ends it.
\<close>

fun evaluate_claims :: "'d decimal_ops \<Rightarrow> 'd decimal_product_ops \<Rightarrow> 'd \<Rightarrow> string \<Rightarrow> string \<Rightarrow> u64 \<Rightarrow> 'd BoltV3BasketSubmitSlotClaim list \<Rightarrow>
    BoltV3CapitalAdmissionReservationRollback list \<Rightarrow> BasketAdmittedLeg list \<Rightarrow>
    ('d BoltV3SubmitAdmissionState, BoltV3SubmitAdmissionError,
      BoltV3SubmitAdmissionEvaluation option \<times> BoltV3CapitalAdmissionReservationRollback list \<times> BasketAdmittedLeg list) act" where
  "evaluate_claims D M dmax strategy_id client now_ns [] rollbacks legs = act_return (None, rollbacks, legs)"
| "evaluate_claims D M dmax strategy_id client now_ns (claim # claims) rollbacks legs =
     act_match (submit_evaluate D M dmax (basket_submit_request strategy_id client claim) now_ns)
       (\<lambda>error. act_then (act_modify (rollback_capital_admission_reservations rollbacks)) (act_fail error))
       (\<lambda>evaluation.
          let own = (case sv_rollback evaluation of None \<Rightarrow> [] | Some k \<Rightarrow> [k]) in
          case evaluation_validate evaluation of
            Inl error \<Rightarrow> act_then (act_modify (rollback_capital_admission_reservations (rollbacks @ own))) (act_fail error)
          | Inr _ \<Rightarrow>
              if sv_outcome evaluation \<noteq> OutcomeAdmitted then act_return (Some evaluation, rollbacks, legs)
              else evaluate_claims D M dmax strategy_id client now_ns claims (rollbacks @ own)
                (legs @ [\<lparr>bl_client_order_id = sl_client_order_id claim, bl_instrument_id = sl_instrument_id claim,
                  bl_intent_kind = basket_intent_kind (sl_intent_kind claim), bl_reservation = sv_reservation_attribution evaluation\<rparr>]))"

text \<open>The outcome of the loop and of the count of the whole basket against the cap.\<close>

definition basket_outcome :: "string \<Rightarrow> 'd BoltV3BasketSubmitSlotClaim list \<Rightarrow> u32 \<Rightarrow> BoltV3SubmitAdmissionEvaluation option \<Rightarrow>
    'd BoltV3SubmitAdmissionState \<Rightarrow> AdmissionDecisionOutcome" where
  "basket_outcome client claims claim_count refused s =
     (case refused of
        Some evaluation \<Rightarrow> sv_outcome evaluation
      | None \<Rightarrow>
          if claims = [] then OutcomeRejected NonPositiveNotionalReason
          else case bt_get (live_submit_approval_limits s) client of
            None \<Rightarrow> OutcomeAdmitted
          | Some limits \<Rightarrow> live_submit_count_cap_outcome (client_count s client) claim_count (lim_max_order_count limits))"

text \<open>Recording the grant; \<^term>\<open>granted\<close> is whether the recorder committed it.\<close>

definition grant_basket :: "'d decimal_ops \<Rightarrow> bool \<Rightarrow> string \<Rightarrow> 'd BoltV3BasketSubmitSlotClaim list \<Rightarrow> u32 \<Rightarrow>
    BoltV3CapitalAdmissionReservationRollback list \<Rightarrow> BasketAdmittedLeg list \<Rightarrow> BoltV3SubmitAdmissionCounterValues \<Rightarrow>
    ('d BoltV3SubmitAdmissionState, BoltV3SubmitAdmissionError, BoltV3SubmitAdmissionPermit) act" where
  "grant_basket D granted client claims claim_count rollbacks legs values =
     (let refuse = (\<lambda>error. act_then (act_modify (rollback_capital_admission_reservations rollbacks)) (act_fail error));
          pure_risk_reducing = list_all (\<lambda>leg. bl_intent_kind leg = BasketRiskReducingExit) legs
      in act_match (next_authority D (BasketGranted legs)) (\<lambda>_. refuse ClientOrderAlreadyAuthorized) (\<lambda>authority.
         act_then (record_call (RecordBasketGranted legs))
         (if granted then act_then (set_authority authority) (grant_permit client claim_count [] rollbacks values SubmitCommittedBasket)
          else if pure_risk_reducing then grant_permit client claim_count (map sl_client_order_id claims) rollbacks values SubmitRiskReducing
          else refuse EvidenceWriteFailed)))"

text \<open>What follows the loop: the reservations of a rejected basket are rolled back, those of an admitted one granted.\<close>

definition settle_basket :: "'d decimal_ops \<Rightarrow> bool \<Rightarrow> string \<Rightarrow> 'd BoltV3BasketSubmitSlotClaim list \<Rightarrow> u32 \<Rightarrow> BoltV3SubmitAdmissionEvaluation option \<Rightarrow>
    BoltV3CapitalAdmissionReservationRollback list \<Rightarrow> BasketAdmittedLeg list \<Rightarrow>
    ('d BoltV3SubmitAdmissionState, BoltV3SubmitAdmissionError, BoltV3SubmitAdmissionPermit) act" where
  "settle_basket D granted client claims claim_count refused rollbacks legs =
     act_bind act_get (\<lambda>s.
     let outcome = basket_outcome client claims claim_count refused s in
     if outcome \<noteq> OutcomeAdmitted then
       act_then (act_modify (rollback_capital_admission_reservations rollbacks))
       (act_bind act_get (\<lambda>s'.
       act_then (case refused of None \<Rightarrow> act_return () | Some evaluation \<Rightarrow> act_lift (admission_result s' evaluation))
       (act_fail (submit_admission_error_from_outcome outcome (state_kind (kill_switch_state s'))))))
     else case checked_admission_counter_values (admitted_order_count s) (client_count s client) claim_count of
       Inl error \<Rightarrow> act_then (act_modify (rollback_capital_admission_reservations rollbacks)) (act_fail error)
     | Inr values \<Rightarrow> grant_basket D granted client claims claim_count rollbacks legs values)"

text \<open>The reading of the system clock is an argument, \<^term>\<open>None\<close> when it fails.\<close>

definition reserve_basket_submit_slots_with_evidence :: "'d decimal_ops \<Rightarrow> 'd decimal_product_ops \<Rightarrow> 'd \<Rightarrow> bool \<Rightarrow> u64 option \<Rightarrow> string \<Rightarrow> string \<Rightarrow>
    'd BoltV3BasketSubmitSlotClaim list \<Rightarrow> ('d BoltV3SubmitAdmissionState, BoltV3SubmitAdmissionError, BoltV3SubmitAdmissionPermit) act" where
  "reserve_basket_submit_slots_with_evidence D M dmax granted clock strategy_id client claims =
     act_bind (act_lift (ok_or clock SystemClock)) (\<lambda>now_ns.
     act_bind (act_lift (checked_basket_claim_count (length claims))) (\<lambda>claim_count.
     act_bind (evaluate_claims D M dmax strategy_id client now_ns claims [] []) (\<lambda>(refused, rollbacks, legs).
     settle_basket D granted client claims claim_count refused rollbacks legs)))"

section \<open>Other changes of the state\<close>

record 'd BoltV3SubmitCapitalAdmissionConfig =
  cc_venue_id :: string
  cc_account_id :: string
  cc_product_kind :: ProductKind
  cc_collateral_currency :: string
  cc_capital_pool :: "'d CapitalPoolSnapshot"
  cc_policy :: "'d CapitalAdmissionPolicy"

definition new_with_optional_controls :: "nat \<Rightarrow> (string, 'd BoltV3LiveSubmitApprovalLimits) btree_map \<Rightarrow> 'd LossGovernorPolicy option \<Rightarrow>
    'd BoltV3SubmitCapitalAdmissionConfig option \<Rightarrow> 'd BoltV3SubmitAdmissionState" where
  "new_with_optional_controls reject_max limits loss_policy capital =
     \<lparr>kill_switch_state = KillSwitchState.Armed, live_submit_approval_limits = limits, admitted_order_count = 0,
      admitted_order_count_by_execution_client = [], rollback_ownership_latch = None, capital_admission_state_revision = 0,
      evidence_free_non_reservation_admissions = [], committed_admission_authority = recovery_facts_default,
      submit_loss_policy = loss_policy, submit_loss_snapshot = None, loss_source_observations = unobserved,
      loss_freshness = \<lparr>account_state_count = 0, portfolio_snapshot_count = 0, position_event_count = 0, last_account_state_ts_ns = None,
        last_portfolio_snapshot_ts_ns = None, last_position_event_ts_ns = None\<rparr>,
      loss_halt_episodes = [],
      capital_admission = map_option (\<lambda>config.
        \<lparr>sc_venue_id = cc_venue_id config, sc_account_id = cc_account_id config, sc_product_kind = cc_product_kind config,
         sc_collateral_currency = cc_collateral_currency config, sc_capital_pool = cc_capital_pool config, sc_policy = cc_policy config,
         sc_state = None, sc_latest_reservation_mutation_observed_at_ns = None, sc_capture_failure_source = None,
         sc_capture_failure_observed_at_ns = None, sc_gate = gate_unreconciled, sc_next_sequence = 0,
         sc_client_order_reservations = [], sc_unresolved_lifecycle_reservations = (0, 0),
         sc_fill_evidence_integrity_failed = False\<rparr>) capital,
      reject_episodes = [], reject_episode_max_count = reject_max, recorder_calls = []\<rparr>"

definition submit_update_loss_snapshot :: "'d LossSnapshot \<Rightarrow> 'd BoltV3SubmitAdmissionState \<Rightarrow> 'd BoltV3SubmitAdmissionState" where
  "submit_update_loss_snapshot snapshot s =
     s\<lparr>loss_source_observations := snap_source_observations snapshot, submit_loss_snapshot := Some snapshot\<rparr>"

definition submit_replace_kill_switch_state :: "KillSwitchState \<Rightarrow> 'd BoltV3SubmitAdmissionState \<Rightarrow> 'd BoltV3SubmitAdmissionState" where
  "submit_replace_kill_switch_state state s = s\<lparr>kill_switch_state := state\<rparr>"

end
