(* ===== verification/SubmitSafety.thy ===== *)
theory SubmitSafety
  imports SubmitPermits
begin

text \<open>
  What submit admission guarantees: the bound of the episode maps, the checks behind every permit, the
  refund of a permit that is dropped, and the cap on submitted orders over any history of calls.
\<close>

section \<open>Episodes\<close>

lemma oldest_from_least:
  "\<exists>e. (oldest_from first_ns key (first_ns e0) m, e) \<in> insert (key, e0) (set m) \<and>
    (\<forall>x\<in>insert (key, e0) (set m). first_ns e \<le> first_ns (snd x))"
proof (induction m arbitrary: key e0)
  case (Cons p m)
  obtain k e1 where p: "p = (k, e1)" by (cases p)
  show ?case
  proof (cases "first_ns e1 < first_ns e0")
    case True
    obtain e where "(oldest_from first_ns k (first_ns e1) m, e) \<in> insert (k, e1) (set m)"
      "\<forall>x\<in>insert (k, e1) (set m). first_ns e \<le> first_ns (snd x)"
      using Cons by blast
    then show ?thesis using True p by (intro exI [of _ e]) (auto intro: order_trans less_imp_le)
  next
    case False
    obtain e where "(oldest_from first_ns key (first_ns e0) m, e) \<in> insert (key, e0) (set m)"
      "\<forall>x\<in>insert (key, e0) (set m). first_ns e \<le> first_ns (snd x)"
      using Cons by blast
    then show ?thesis using False p by (intro exI [of _ e]) (auto simp: not_less intro: order_trans)
  qed
qed simp

lemma oldest_key_least:
  assumes "oldest_key first_ns m = Some key" and "distinct (map fst m)" and "(key, e) \<in> set m" and "x \<in> set m"
  shows "first_ns e \<le> first_ns (snd x)"
proof (cases m)
  case (Cons p m')
  obtain k e0 where p: "p = (k, e0)" by (cases p)
  have key: "oldest_from first_ns k (first_ns e0) m' = key" using assms(1) Cons p by simp
  obtain e' where e': "(key, e') \<in> set m" "\<forall>x\<in>set m. first_ns e' \<le> first_ns (snd x)"
    using oldest_from_least [of first_ns k e0 m'] unfolding key by (auto simp: Cons p)
  then have "e' = e" using assms(2,3) by (meson eq_key_imp_eq_value)
  then show ?thesis using e'(2) assms(4) by blast
qed (use assms in simp)

lemma set_bt_remove_eq: "distinct (map fst m) \<Longrightarrow> set (bt_remove key m) = {x \<in> set m. fst x \<noteq> key}"
  by (induction key m rule: bt_remove.induct) (force simp: image_iff)+

lemma oldest_key_exists: "m \<noteq> [] \<Longrightarrow> \<exists>key. oldest_key first_ns m = Some key"
  by (cases "(first_ns, m)" rule: oldest_key.cases) auto

text \<open>
  C37. The eviction loop ends, and leaves as many episodes as the cap allows, and no fewer. What it
  leaves is a sorted map without duplicates whose entries are unchanged, and every episode it drops
  began no later than every one it keeps.
\<close>

theorem eviction_keeps_newest:
  assumes "bt_invar m"
  shows "bt_invar (evict_oldest_episodes_over_cap first_ns cap m) \<and>
    length (evict_oldest_episodes_over_cap first_ns cap m) = min cap (length m) \<and>
    set (evict_oldest_episodes_over_cap first_ns cap m) \<subseteq> set m \<and>
    (\<forall>d\<in>set m - set (evict_oldest_episodes_over_cap first_ns cap m). \<forall>e\<in>set (evict_oldest_episodes_over_cap first_ns cap m).
       first_ns (snd d) \<le> first_ns (snd e))"
  using assms
proof (induction first_ns cap m rule: evict_oldest_episodes_over_cap.induct)
  case (1 first_ns cap m)
  show ?case
  proof (cases "length m > cap")
    case False
    then show ?thesis using 1(2) by (simp add: evict_oldest_episodes_over_cap.simps [of first_ns cap m])
  next
    case True
    then obtain key where key: "oldest_key first_ns m = Some key" using oldest_key_exists [of m first_ns] by fastforce
    let ?m = "bt_remove key m" and ?r = "evict_oldest_episodes_over_cap first_ns cap (bt_remove key m)"
    have r: "evict_oldest_episodes_over_cap first_ns cap m = ?r"
      using True key by (simp add: evict_oldest_episodes_over_cap.simps [of first_ns cap m])
    note IH = 1(1) [OF True key bt_invar_remove [OF 1(2)]]
    note d = bt_invar_distinct [OF 1(2)]
    have len: "Suc (length ?m) = length m" by (rule length_bt_remove [OF oldest_key_member [OF key]])
    have least: "first_ns (snd x) \<le> first_ns (snd y)" if "x \<in> set m" "x \<notin> set ?m" "y \<in> set ?r" for x y
      using that oldest_key_least [OF key d, of "snd x" y] IH by (auto simp: set_bt_remove_eq [OF d])
    show ?thesis unfolding r
    proof (intro conjI ballI)
      show "bt_invar ?r" using IH by simp
      show "length ?r = min cap (length m)" using IH len True by simp
      show "set ?r \<subseteq> set m" using IH set_bt_remove [of key m] by blast
      show "first_ns (snd x) \<le> first_ns (snd y)" if "x \<in> set m - set ?r" "y \<in> set ?r" for x y
        using that IH least by (cases "x \<in> set ?m") auto
    qed
  qed
qed

theorem eviction_keeps_newest_witness:
  "set (evict_oldest_episodes_over_cap (\<lambda>t. t) 1 [(''a'', 7), (''b'', 9)]) = {(''b'', 9 :: u64)}"
proof -
  have inv: "bt_invar [(''a'', 7 :: u64), (''b'', 9)]" by (simp add: bt_invar_def)
  let ?r = "evict_oldest_episodes_over_cap (\<lambda>t. t) 1 [(''a'', 7 :: u64), (''b'', 9)]"
  have "length ?r = 1" "set ?r \<subseteq> {(''a'', 7), (''b'', 9)}"
    "\<forall>d\<in>{(''a'', 7), (''b'', 9)} - set ?r. \<forall>e\<in>set ?r. snd d \<le> snd e"
    using eviction_keeps_newest [OF inv, of "\<lambda>t. t" 1] by simp_all
  then show ?thesis by (auto simp: length_Suc_conv)
qed

section \<open>What evaluation and recording keep\<close>

definition keeps_counts :: "'d BoltV3SubmitAdmissionState \<Rightarrow> 'd BoltV3SubmitAdmissionState \<Rightarrow> bool" where
  "keeps_counts s s' \<longleftrightarrow> admitted_order_count s' = admitted_order_count s \<and>
     admitted_order_count_by_execution_client s' = admitted_order_count_by_execution_client s \<and>
     live_submit_approval_limits s' = live_submit_approval_limits s"

lemma keeps_counts_refl [simp]: "keeps_counts s s"
  by (simp add: keeps_counts_def)

lemma keeps_counts_trans: "keeps_counts s s' \<Longrightarrow> keeps_counts s' s'' \<Longrightarrow> keeps_counts s s''"
  by (simp add: keeps_counts_def)

lemma keeps_counts_update [simp]:
  "keeps_counts s (s'\<lparr>capital_admission := a\<rparr>) = keeps_counts s s'"
  "keeps_counts s (s'\<lparr>capital_admission_state_revision := b\<rparr>) = keeps_counts s s'"
  "keeps_counts s (s'\<lparr>rollback_ownership_latch := c\<rparr>) = keeps_counts s s'"
  "keeps_counts s (s'\<lparr>loss_halt_episodes := d\<rparr>) = keeps_counts s s'"
  "keeps_counts s (s'\<lparr>reject_episodes := f\<rparr>) = keeps_counts s s'"
  "keeps_counts s (s'\<lparr>recorder_calls := g\<rparr>) = keeps_counts s s'"
  "keeps_counts s (s'\<lparr>committed_admission_authority := h\<rparr>) = keeps_counts s s'"
  "keeps_counts s (s'\<lparr>evidence_free_non_reservation_admissions := i\<rparr>) = keeps_counts s s'"
  by (simp_all add: keeps_counts_def)

lemma keeps_counts_client: "keeps_counts s s' \<Longrightarrow> client_count s' = client_count s"
  by (auto simp: keeps_counts_def client_count_def)

lemma keeps_counts_limits: "keeps_counts s s' \<Longrightarrow> limits_rejection D request s' = limits_rejection D request s"
proof -
  assume k: "keeps_counts s s'"
  then have "live_submit_approval_limits s' = live_submit_approval_limits s" by (simp add: keeps_counts_def)
  then show ?thesis unfolding limits_rejection_def keeps_counts_client [OF k] by simp
qed

lemma keeps_counts_rollback [simp]: "keeps_counts s (rollback_capital_admission_reservations ks s') = keeps_counts s s'"
  by (simp add: rollback_capital_admission_reservations_def commit_capital_admission_reservation_rollback_def
      latch_submit_admission_rollback_ownership_failure_def split: sum.split prod.split)

lemma keeps_counts_reject [simp]: "keeps_counts s (record_submit_admission_order_reject request evaluation now_ns s') = keeps_counts s s'"
  by (simp add: record_submit_admission_order_reject_def Let_def)

lemma wp_rollback_evaluation [simp]:
  "wp (rollback_evaluation evaluation) Q s \<longleftrightarrow>
     Q (Inr ()) (case sv_rollback evaluation of None \<Rightarrow> s | Some k \<Rightarrow> rollback_capital_admission_reservations [k] s)"
  by (simp add: rollback_evaluation_def split: option.split)

text \<open>The state after the governor's part of the evaluation differs only in episodes and recorder calls.\<close>

definition same_but_episodes :: "'d BoltV3SubmitAdmissionState \<Rightarrow> 'd BoltV3SubmitAdmissionState \<Rightarrow> bool" where
  "same_but_episodes s s' \<longleftrightarrow> (\<exists>episodes calls. s' = s\<lparr>loss_halt_episodes := episodes, recorder_calls := calls\<rparr>)"

lemma same_but_episodes_intros [simp]:
  "same_but_episodes s s" "same_but_episodes s (s\<lparr>loss_halt_episodes := e\<rparr>)"
  "same_but_episodes s (s\<lparr>loss_halt_episodes := e, recorder_calls := c\<rparr>)"
proof -
  show "same_but_episodes s s"
    unfolding same_but_episodes_def by (intro exI [of _ "loss_halt_episodes s"] exI [of _ "recorder_calls s"]) simp
  show "same_but_episodes s (s\<lparr>loss_halt_episodes := e\<rparr>)"
    unfolding same_but_episodes_def by (intro exI [of _ e] exI [of _ "recorder_calls s"]) simp
  show "same_but_episodes s (s\<lparr>loss_halt_episodes := e, recorder_calls := c\<rparr>)"
    unfolding same_but_episodes_def by blast
qed

definition loss_accepts :: "'d decimal_ops \<Rightarrow> 'd BoltV3SubmitAdmissionRequest \<Rightarrow> u64 \<Rightarrow> 'd BoltV3SubmitAdmissionState \<Rightarrow> bool" where
  "loss_accepts D request now_ns s \<longleftrightarrow>
     (sr_intent_kind request = EntryIntent \<longrightarrow>
      (\<forall>policy. submit_loss_policy s = Some policy \<longrightarrow>
        (\<exists>decision. evaluate_loss_admission_with_observations D policy (submit_loss_snapshot s) now_ns (loss_source_observations s) = Some decision \<and>
          accepted decision)))"

lemma record_stale_wp:
  "wp (record_stale_loss_governor_halt policy now_ns) (\<lambda>r s'. same_but_episodes s s') s"
  by (simp add: record_stale_loss_governor_halt_def Let_def split: sum.split)

lemma evaluate_loss_wp:
  "wp (evaluate_loss D request now_ns) (\<lambda>r s'. same_but_episodes s s' \<and>
     (\<forall>v. r = Inr (Inl v) \<longrightarrow> sv_outcome v \<noteq> OutcomeAdmitted) \<and> (\<forall>d. r = Inr (Inr d) \<longrightarrow> loss_accepts D request now_ns s)) s"
  unfolding evaluate_loss_def
  by (auto simp: loss_accepts_def loss_halt_def without_loss_halt_def split: option.split sum.split intro!: wp_mono [OF record_stale_wp])

section \<open>The capital part of an evaluation\<close>

text \<open>
  One reservation more than before: in the ledger as its last entry, under a fresh key, and in the
  records under the client order id; the roll-back names both.
\<close>

definition reserved_one :: "string \<Rightarrow> BoltV3CapitalAdmissionReservationRollback \<Rightarrow> ReservationAttribution \<Rightarrow> 'd BoltV3SubmitCapitalAdmissionState \<Rightarrow>
    'd BoltV3SubmitCapitalAdmissionState \<Rightarrow> bool" where
  "reserved_one cid k attribution ca ca' \<longleftrightarrow>
     (\<exists>entry r. ca' = ca\<lparr>sc_next_sequence := sc_next_sequence ca + 1,
          sc_gate := (sc_gate ca)\<lparr>reservation_ledger := (reservation_ledger (sc_gate ca))\<lparr>live_reservations :=
            live_reservations (reservation_ledger (sc_gate ca)) @ [entry]\<rparr>\<rparr>,
          sc_client_order_reservations := bt_insert cid r (sc_client_order_reservations ca)\<rparr> \<and>
        reservation_matches (rk_pool_id k) (rk_submit_reservation_id k) entry \<and>
        \<not> list_ex (reservation_matches (rk_pool_id k) (rk_submit_reservation_id k)) (live_reservations (reservation_ledger (sc_gate ca))) \<and>
        lr_collateral_group_id entry = at_collateral_group_id attribution \<and>
        bt_get (sc_client_order_reservations ca) cid = None \<and> rr_attribution r = attribution \<and> rr_phase r = ReservedPhase \<and>
        rk_client_order_id k = cid \<and> at_client_order_id attribution = cid \<and>
        at_submit_reservation_id attribution = rk_submit_reservation_id k \<and> at_capital_pool_id attribution = rk_pool_id k)"

lemma checks_fresh:
  assumes "submit_capital_checks D request ca = Inr (evidence, state, product, position)"
  shows "bt_get (sc_client_order_reservations ca) (sr_client_order_id request) = None"
    and "ns_product_state state = PredictionMarketBinarySnapshot product"
proof -
  have "sc_state ca \<noteq> None" using assms by (auto simp: submit_capital_checks_def and_then_Inr)
  then obtain st where st: "sc_state ca = Some st" by blast
  obtain p where p: "ns_product_state st = PredictionMarketBinarySnapshot p" by (cases "ns_product_state st")
  have "bt_get (sc_client_order_reservations ca) (sr_client_order_id request) = None \<and>
    ns_product_state state = PredictionMarketBinarySnapshot product"
    using assms st p
    by (cases "the (ce_prediction_market_outcome (the (sr_admission_evidence request)))")
      (auto simp: submit_capital_checks_def and_then_Inr)
  then show "bt_get (sc_client_order_reservations ca) (sr_client_order_id request) = None"
    and "ns_product_state state = PredictionMarketBinarySnapshot product" by simp_all
qed

lemma validated_accepted:
  "validate_capital_admission_decision D decision = Inr (ValidatedCapitalAccepted q l) \<Longrightarrow> ad_accepted decision"
  unfolding validate_capital_admission_decision_def Let_def by (auto simp: and_then_Inr split: if_splits)

lemma settle_cases:
  assumes "settle_submit_decision D request now_ns evidence product rid reservation_revision revision decision gate ca =
      (CapitalAccepted rollback attribution, revision', ca')"
  shows "ad_accepted decision"
    and "\<exists>k a r. rollback = Some k \<and> attribution = Some a \<and> revision' = reservation_revision \<and> rr_attribution r = a \<and> rr_phase r = ReservedPhase \<and>
      rk_client_order_id k = sr_client_order_id request \<and> rk_submit_reservation_id k = rid \<and> rk_pool_id k = cp_pool_id (sc_capital_pool ca) \<and>
      at_client_order_id a = sr_client_order_id request \<and> at_submit_reservation_id a = rid \<and> at_capital_pool_id a = cp_pool_id (sc_capital_pool ca) \<and>
      at_collateral_group_id a = pm_collateral_coupled_group_id product \<and>
      ca' = ca\<lparr>sc_gate := gate, sc_client_order_reservations := bt_insert (sr_client_order_id request) r (sc_client_order_reservations ca)\<rparr>"
proof -
  note s = assms [unfolded settle_submit_decision_def Let_def]
  obtain q l where v: "validate_capital_admission_decision D decision = Inr (ValidatedCapitalAccepted q l)"
    using s by (cases "validate_capital_admission_decision D decision"; simp; case_tac b; simp)
  show "ad_accepted decision" by (rule validated_accepted [OF v])
  obtain additive where "checked_additive_liability D (sc_policy ca) = Some additive"
    using s v by (cases "checked_additive_liability D (sc_policy ca)") (simp_all split: if_split_asm)
  then show "\<exists>k a r. rollback = Some k \<and> attribution = Some a \<and> revision' = reservation_revision \<and> rr_attribution r = a \<and> rr_phase r = ReservedPhase \<and>
      rk_client_order_id k = sr_client_order_id request \<and> rk_submit_reservation_id k = rid \<and> rk_pool_id k = cp_pool_id (sc_capital_pool ca) \<and>
      at_client_order_id a = sr_client_order_id request \<and> at_submit_reservation_id a = rid \<and> at_capital_pool_id a = cp_pool_id (sc_capital_pool ca) \<and>
      at_collateral_group_id a = pm_collateral_coupled_group_id product \<and>
      ca' = ca\<lparr>sc_gate := gate, sc_client_order_reservations := bt_insert (sr_client_order_id request) r (sc_client_order_reservations ca)\<rparr>"
    using s v
    by (intro exI [of _ "\<lparr>rk_client_order_id = sr_client_order_id request, rk_submit_reservation_id = rid,
            rk_pool_id = cp_pool_id (sc_capital_pool ca), rk_observed_at_ns = now_ns\<rparr>"]
          exI [of _ "submit_attribution D request now_ns evidence product rid q additive l ca"]
          exI [of _ "\<lparr>rr_attribution = submit_attribution D request now_ns evidence product rid q additive l ca, rr_phase = ReservedPhase,
            rr_phase_revision = reservation_revision, rr_unresolved_in_projection = False,
            rr_fill_metadata = Some \<lparr>fm_instrument_id = sr_instrument_id request, fm_side = ce_side evidence\<rparr>\<rparr>"])
      (auto simp: submit_attribution_def split: if_split_asm)
qed

lemma reserve_submit_cases:
  assumes "reserve_submit_liability D M dmax request now_ns evidence state product reservation_revision revision ca =
      Some (CapitalAccepted rollback attribution, revision', ca')"
    and fresh: "bt_get (sc_client_order_reservations ca) (sr_client_order_id request) = None"
    and product: "ns_product_state state = PredictionMarketBinarySnapshot product"
  shows "\<exists>k a. rollback = Some k \<and> attribution = Some a \<and> revision' = reservation_revision \<and>
    reserved_one (sr_client_order_id request) k a ca ca'"
proof -
  define rid where "rid = sr_client_order_id request @ ''#'' @ decimal (unat (sc_next_sequence ca + 1))"
  define ca1 where "ca1 = ca\<lparr>sc_next_sequence := sc_next_sequence ca + 1\<rparr>"
  let ?inputs = "submit_gate_inputs request now_ns evidence state rid ca1"
  let ?ledger = "reservation_ledger (sc_gate ca)"
  obtain decision gate where e: "evaluate_and_reserve D M dmax ?inputs (sc_gate ca) = Some (decision, gate)"
    and st: "settle_submit_decision D request now_ns evidence product rid reservation_revision revision decision gate ca1 =
      (CapitalAccepted rollback attribution, revision', ca')"
    using assms(1) by (auto simp: reserve_submit_liability_def Let_def rid_def ca1_def)
  obtain ledger where l: "evaluate_capital_admission D M dmax ?inputs ?ledger = Some (decision, ledger)"
    and gate: "gate = (sc_gate ca)\<lparr>reservation_ledger := ledger\<rparr>"
    using e by (auto simp: evaluate_and_reserve_def)
  obtain state' snapshot quote where c: "admission_checked D M dmax ?inputs ?ledger state' snapshot quote"
    and led: "ledger = ?ledger\<lparr>live_reservations := live_reservations ?ledger @
        [request_entry (intent_reservation (gi_request ?inputs) snapshot (lq_reserved_liability quote))]\<rparr>"
    using evaluate_cases [OF l] settle_cases(1) [OF st] by blast
  have snapshot: "snapshot = product" using c product by (simp add: admission_checked_def submit_gate_inputs_def)
  have "\<not> list_ex (reservation_matches (cp_pool_id (sc_capital_pool ca)) rid) (live_reservations ?ledger)"
    using c by (simp add: admission_checked_def reserve_guards_def intent_reservation_def submit_gate_inputs_def ca1_def)
  note unique = this
  let ?entry = "request_entry (intent_reservation (gi_request ?inputs) product (lq_reserved_liability quote))"
  obtain k a r where k: "rollback = Some k" "attribution = Some a" "revision' = reservation_revision" "rr_attribution r = a" "rr_phase r = ReservedPhase"
    "rk_client_order_id k = sr_client_order_id request" "rk_submit_reservation_id k = rid" "rk_pool_id k = cp_pool_id (sc_capital_pool ca1)"
    "at_client_order_id a = sr_client_order_id request" "at_submit_reservation_id a = rid" "at_capital_pool_id a = cp_pool_id (sc_capital_pool ca1)"
    "at_collateral_group_id a = pm_collateral_coupled_group_id product"
    "ca' = ca1\<lparr>sc_gate := gate, sc_client_order_reservations := bt_insert (sr_client_order_id request) r (sc_client_order_reservations ca1)\<rparr>"
    using settle_cases(2) [OF st] by blast
  have "reserved_one (sr_client_order_id request) k a ca ca'"
    unfolding reserved_one_def using k unique fresh led gate snapshot
    by (intro exI [of _ ?entry] exI [of _ r])
      (simp add: ca1_def request_entry_def intent_reservation_def submit_gate_inputs_def reservation_matches_def)
  then show ?thesis using k by blast
qed

lemma capital_submit_cases:
  assumes "evaluate_capital_submit D M dmax request now_ns revision ca = Some (CapitalAccepted rollback attribution, revision', ca')"
  shows "if sr_intent_kind request = RiskReducingExitIntent then rollback = None \<and> attribution = None \<and> revision' = revision \<and> ca' = ca
    else \<exists>k a. rollback = Some k \<and> attribution = Some a \<and> checked_add revision 1 = Some revision' \<and>
      reserved_one (sr_client_order_id request) k a ca ca'"
proof (cases "submit_capital_checks D request ca")
  case (Inr x)
  obtain evidence state product position where x: "x = (evidence, state, product, position)" by (cases x)
  note fresh = checks_fresh [OF Inr [unfolded x]]
  show ?thesis
  proof (cases "checked_add revision 1")
    case None
    then show ?thesis using assms unfolding evaluate_capital_submit_def Inr x by (simp split: if_split_asm)
  next
    case (Some reservation_revision)
    show ?thesis
    proof (cases "sr_intent_kind request = RiskReducingExitIntent")
      case True
      then show ?thesis using assms unfolding evaluate_capital_submit_def Inr x Some by (simp split: if_split_asm)
    next
      case False
      then have "reserve_submit_liability D M dmax request now_ns evidence state product reservation_revision revision ca =
          Some (CapitalAccepted rollback attribution, revision', ca')"
        using assms unfolding evaluate_capital_submit_def Inr x Some by simp
      from reserve_submit_cases [OF this fresh] False Some show ?thesis by auto
    qed
  qed
qed (use assms in \<open>simp add: evaluate_capital_submit_def\<close>)

section \<open>The checks behind an admission\<close>

definition submit_allowed :: "'d decimal_ops \<Rightarrow> 'd BoltV3SubmitAdmissionRequest \<Rightarrow> u64 \<Rightarrow> 'd BoltV3SubmitAdmissionState \<Rightarrow> bool" where
  "submit_allowed D request now_ns s \<longleftrightarrow>
     rollback_ownership_latch s = None \<and> \<not> authorizes_order (committed_admission_authority s) (sr_client_order_id request) \<and>
     bt_get (evidence_free_non_reservation_admissions s) (sr_client_order_id request) = None \<and>
     state_kind (kill_switch_state s) = KillSwitchStateKind.Armed \<and> loss_accepts D request now_ns s \<and>
     limits_rejection D request s = None \<and> exit_proof_valid D request"

text \<open>What an evaluation may change, and what the capital part leaves when it admits.\<close>

definition evaluated :: "'d BoltV3SubmitAdmissionState \<Rightarrow> 'd BoltV3SubmitAdmissionState \<Rightarrow> bool" where
  "evaluated s s' \<longleftrightarrow> (\<exists>episodes calls revision capital.
     s' = s\<lparr>loss_halt_episodes := episodes, recorder_calls := calls, capital_admission_state_revision := revision, capital_admission := capital\<rparr>)"

definition capital_taken :: "'d BoltV3SubmitAdmissionRequest \<Rightarrow> BoltV3SubmitAdmissionEvaluation \<Rightarrow> 'd BoltV3SubmitAdmissionState \<Rightarrow>
    'd BoltV3SubmitAdmissionState \<Rightarrow> bool" where
  "capital_taken request v s s' \<longleftrightarrow>
     (if capital_admission s = None \<or> sr_intent_kind request = RiskReducingExitIntent
      then sv_rollback v = None \<and> sv_reservation_attribution v = None \<and> capital_admission s' = capital_admission s \<and>
        capital_admission_state_revision s' = capital_admission_state_revision s
      else \<exists>ca ca' k a. capital_admission s = Some ca \<and> capital_admission s' = Some ca' \<and> sv_rollback v = Some k \<and>
        sv_reservation_attribution v = Some a \<and>
        checked_add (capital_admission_state_revision s) 1 = Some (capital_admission_state_revision s') \<and>
        reserved_one (sr_client_order_id request) k a ca ca')"

lemma evaluated_episodes: "same_but_episodes s s' \<Longrightarrow> evaluated s s'"
  unfolding same_but_episodes_def evaluated_def
  by (elim exE, intro exI [of _ "capital_admission_state_revision s"] exI [of _ "capital_admission s"] exI) simp

lemma evaluated_capital:
  "same_but_episodes s s' \<Longrightarrow> evaluated s (s'\<lparr>capital_admission_state_revision := revision, capital_admission := capital\<rparr>)"
  unfolding same_but_episodes_def evaluated_def by blast

lemma evaluated_keeps: "evaluated s s' \<Longrightarrow> keeps_counts s s'"
  by (auto simp: evaluated_def)

lemma with_diagnostics_simps [simp]:
  "sv_outcome (with_loss_snapshot_diagnostics d v) = sv_outcome v" "sv_rollback (with_loss_snapshot_diagnostics d v) = sv_rollback v"
  "sv_reservation_attribution (with_loss_snapshot_diagnostics d v) = sv_reservation_attribution v"
  by (simp_all add: with_loss_snapshot_diagnostics_def)

lemma evaluation_simps [simp]:
  "sv_outcome (without_loss_halt outcome now_ns) = outcome" "sv_rollback (without_loss_halt outcome now_ns) = None"
  "sv_reservation_attribution (without_loss_halt outcome now_ns) = None"
  "sv_outcome (capital_admission_rejected reason now_ns) = OutcomeRejected CapitalAdmissionReason"
  "sv_outcome (admitted_with_rollback k a now_ns) = OutcomeAdmitted" "sv_rollback (admitted_with_rollback k a now_ns) = k"
  "sv_reservation_attribution (admitted_with_rollback k a now_ns) = a"
  by (simp_all add: without_loss_halt_def capital_admission_rejected_def admitted_with_rollback_def)

lemma capital_step:
  assumes "same_but_episodes s s1" and "evaluate_capital_admission_submit D M dmax request now_ns s1 = Some (decision, s2)"
  shows "evaluated s s2"
    and "decision = CapitalAccepted rollback attribution \<Longrightarrow> sv_rollback v = rollback \<Longrightarrow> sv_reservation_attribution v = attribution \<Longrightarrow>
      capital_taken request v s s2"
proof -
  have s1: "capital_admission s1 = capital_admission s" "capital_admission_state_revision s1 = capital_admission_state_revision s"
    using assms(1) by (auto simp: same_but_episodes_def)
  show "evaluated s s2"
    using assms evaluated_episodes [OF assms(1)] evaluated_capital [OF assms(1)]
    by (auto simp: evaluate_capital_admission_submit_def split: option.split_asm)
  show "capital_taken request v s s2"
    if acc: "decision = CapitalAccepted rollback attribution" "sv_rollback v = rollback" "sv_reservation_attribution v = attribution"
  proof (cases "capital_admission s")
    case None
    then show ?thesis using assms(2) s1 acc by (simp add: evaluate_capital_admission_submit_def capital_taken_def)
  next
    case (Some ca)
    then obtain revision ca' where e: "evaluate_capital_submit D M dmax request now_ns (capital_admission_state_revision s) ca =
        Some (CapitalAccepted rollback attribution, revision, ca')"
      and s2: "s2 = s1\<lparr>capital_admission_state_revision := revision, capital_admission := Some ca'\<rparr>"
      using assms(2) s1 acc(1) by (auto simp: evaluate_capital_admission_submit_def)
    show ?thesis using capital_submit_cases [OF e] Some s2 acc by (auto simp: capital_taken_def split: if_split_asm)
  qed
qed

lemma evaluate_order_wp:
  assumes s1: "same_but_episodes s s1"
  shows "wp (evaluate_order D M dmax request now_ns) (\<lambda>r s'. evaluated s s' \<and>
     (\<forall>v. r = Inr v \<longrightarrow> sv_outcome v = OutcomeAdmitted \<longrightarrow>
       limits_rejection D request s = None \<and> exit_proof_valid D request \<and> capital_taken request v s s')) s1"
proof -
  have "capital_admission s1 = capital_admission s" "capital_admission_state_revision s1 = capital_admission_state_revision s"
    using s1 by (auto simp: same_but_episodes_def)
  moreover have "limits_rejection D request s1 = limits_rejection D request s"
    by (rule keeps_counts_limits [OF evaluated_keeps [OF evaluated_episodes [OF s1]]])
  ultimately show ?thesis
    using capital_step [OF s1] evaluated_episodes [OF s1]
    by (auto simp: evaluate_order_def evaluate_capital_def capital_taken_def [of _ "without_loss_halt OutcomeAdmitted now_ns"]
        split: option.split BoltV3CapitalAdmissionSubmitDecision.split)
qed

lemma submit_evaluate_wp:
  "wp (submit_evaluate D M dmax request now_ns) (\<lambda>r s'. evaluated s s' \<and>
     (\<forall>v. r = Inr v \<longrightarrow> sv_outcome v = OutcomeAdmitted \<longrightarrow> submit_allowed D request now_ns s \<and> capital_taken request v s s')) s"
proof -
  let ?Q = "\<lambda>r s'. evaluated s s' \<and>
     (\<forall>v. r = Inr v \<longrightarrow> sv_outcome v = OutcomeAdmitted \<longrightarrow> submit_allowed D request now_ns s \<and> capital_taken request v s s')"
  have refl: "evaluated s s" by (rule evaluated_episodes) simp
  have taken: "capital_taken request (with_loss_snapshot_diagnostics d v) s s' = capital_taken request v s s'" for d v s'
    by (simp add: capital_taken_def)
  have order: "wp (act_bind (evaluate_order D M dmax request now_ns) (\<lambda>v. act_return (with_loss_snapshot_diagnostics d v))) ?Q s1"
    if "same_but_episodes s s1" "limits_rejection D request s = None \<Longrightarrow> exit_proof_valid D request \<Longrightarrow> submit_allowed D request now_ns s" for s1 d
    using that by (auto intro!: wp_mono [OF evaluate_order_wp] simp: taken split: sum.split)
  have loss: "wp (act_bind (evaluate_loss D request now_ns) (\<lambda>loss. case loss of
        Inl halted \<Rightarrow> act_return halted
      | Inr diags \<Rightarrow> act_bind (evaluate_order D M dmax request now_ns) (\<lambda>v. act_return (with_loss_snapshot_diagnostics diags v)))) ?Q s"
    if "loss_accepts D request now_ns s \<Longrightarrow> limits_rejection D request s = None \<Longrightarrow> exit_proof_valid D request \<Longrightarrow> submit_allowed D request now_ns s"
    unfolding wp_bind [where m = "evaluate_loss D request now_ns"]
    by (rule wp_mono [OF evaluate_loss_wp]) (use that order evaluated_episodes in \<open>auto simp del: wp_bind split: sum.split\<close>)
  show ?thesis
    unfolding submit_evaluate_def using loss refl
    by (cases "rollback_ownership_latch s") (auto simp: submit_allowed_def simp del: wp_bind simp add: wp_bind [where m = act_get])
qed

section \<open>Recording\<close>

lemma bt_get_insert: "bt_get (bt_insert key v m) key' = (if key' = key then Some v else bt_get m key')"
  by (induction key v m rule: bt_insert.induct) (auto simp: bt_get_def)

lemma bt_get_remove_other: "key' \<noteq> key \<Longrightarrow> bt_get (bt_remove key m) key' = bt_get m key'"
  by (induction key m rule: bt_remove.induct) (auto simp: bt_get_def)

lemma bt_remove_inserted: "bt_get m key = None \<Longrightarrow> bt_remove key (bt_insert key v m) = m"
  by (induction key v m rule: bt_insert.induct) (auto simp: bt_get_def split: if_splits)

definition recorded :: "'d BoltV3SubmitAdmissionState \<Rightarrow> 'd BoltV3SubmitAdmissionState \<Rightarrow> bool" where
  "recorded s s' \<longleftrightarrow> (\<exists>authority episodes calls.
     s' = s\<lparr>committed_admission_authority := authority, reject_episodes := episodes, recorder_calls := calls\<rparr>)"

lemma recorded_update:
  "recorded s (s\<lparr>recorder_calls := c\<rparr>)" "recorded s s"
  "recorded s s' \<Longrightarrow> recorded s (s'\<lparr>reject_episodes := e\<rparr>)"
  "recorded s s' \<Longrightarrow> recorded s (s'\<lparr>committed_admission_authority := a\<rparr>)"
  "recorded s s' \<Longrightarrow> recorded s (s'\<lparr>reject_episodes := e, recorder_calls := c\<rparr>)"
proof -
  show same: "recorded s (s\<lparr>recorder_calls := c\<rparr>)" for c
    unfolding recorded_def
    by (intro exI [of _ "committed_admission_authority s"] exI [of _ "reject_episodes s"] exI [of _ c]) simp
  show "recorded s s" using same [of "recorder_calls s"] by simp
  assume "recorded s s'"
  then obtain a0 e0 c0 where s': "s' = s\<lparr>committed_admission_authority := a0, reject_episodes := e0, recorder_calls := c0\<rparr>"
    unfolding recorded_def by blast
  show "recorded s (s'\<lparr>reject_episodes := e\<rparr>)"
    unfolding recorded_def s' by (intro exI [of _ a0] exI [of _ e] exI [of _ c0]) simp
  show "recorded s (s'\<lparr>committed_admission_authority := a\<rparr>)"
    unfolding recorded_def s' by (intro exI [of _ a] exI [of _ e0] exI [of _ c0]) simp
  show "recorded s (s'\<lparr>reject_episodes := e, recorder_calls := c\<rparr>)"
    unfolding recorded_def s' by (intro exI [of _ a0] exI [of _ e] exI [of _ c]) simp
qed

lemma recorded_keeps: "recorded s s' \<Longrightarrow> keeps_counts s s'"
  by (auto simp: recorded_def)

lemma recorded_reject: "recorded s s' \<Longrightarrow> recorded s (record_submit_admission_order_reject request v now_ns s')"
  by (simp add: record_submit_admission_order_reject_def Let_def recorded_update)

lemma apply_entry_authorizes:
  "apply_fact D (AdmittedEntry cid attribution) facts = Inr facts' \<Longrightarrow> (\<And>a. attribution = Some a \<Longrightarrow> at_client_order_id a = cid) \<Longrightarrow>
     authorizes_order facts' cid"
  by (auto simp: insert_attribution_def insert_non_reservation_authorization_def authorizes_order_def authorizes_non_reservation_order_def
      bt_get_insert split: option.split_asm if_split_asm)

lemma apply_exit_authorizes:
  "apply_fact D (RiskReducingExitAdmission cid OutcomeAdmitted) facts = Inr facts' \<Longrightarrow> authorizes_order facts' cid"
  by (auto simp: insert_non_reservation_authorization_def authorizes_order_def authorizes_non_reservation_order_def split: if_split_asm)

text \<open>An admitted order that is recorded is authorised afterwards, unless it is an exit whose evidence failed.\<close>

lemma record_outcome_wp:
  assumes "\<And>a. sv_outcome v = OutcomeAdmitted \<Longrightarrow> sv_reservation_attribution v = Some a \<Longrightarrow> at_client_order_id a = sr_client_order_id request"
  shows "wp (record_outcome D answers request v) (\<lambda>r s'. recorded s s' \<and>
    (sv_outcome v = OutcomeAdmitted \<longrightarrow> (\<forall>authority. r = Inr authority \<longrightarrow>
      (authority = (case sr_intent_kind request of EntryIntent \<Rightarrow> CommittedEntryAuthority | RiskReducingExitIntent \<Rightarrow> RecordedRiskReducing (aa_exit_appended answers))) \<and>
      (authority \<noteq> RecordedRiskReducing False \<longrightarrow> authorizes_order (committed_admission_authority s') (sr_client_order_id request))))) s"
  using apply_entry_authorizes [of D "sr_client_order_id request" "sv_reservation_attribution v" "committed_admission_authority s", OF _ assms]
    apply_exit_authorizes [of D "sr_client_order_id request" "committed_admission_authority s"]
  unfolding record_outcome_def Let_def next_authority_def record_call_def set_authority_def
  by (auto simp: recorded_update ensure_def simp del: apply_fact.simps
      split: BoltV3SubmitIntentKind.split AdmissionDecisionOutcome.split sum.split option.split)

definition recorded_as :: "admission_answers \<Rightarrow> 'd BoltV3SubmitAdmissionRequest \<Rightarrow> 'd BoltV3SubmitAdmissionState \<Rightarrow> RecordedAdmissionAuthority \<Rightarrow> bool" where
  "recorded_as answers request s' authority \<longleftrightarrow>
     authority = (case sr_intent_kind request of
         EntryIntent \<Rightarrow> CommittedEntryAuthority
       | RiskReducingExitIntent \<Rightarrow> RecordedRiskReducing (aa_exit_appended answers)) \<and>
     (authority \<noteq> RecordedRiskReducing False \<longrightarrow> authorizes_order (committed_admission_authority s') (sr_client_order_id request))"

lemma record_decision_wp:
  assumes "\<And>a. sv_outcome v = OutcomeAdmitted \<Longrightarrow> sv_reservation_attribution v = Some a \<Longrightarrow> at_client_order_id a = sr_client_order_id request"
  shows "wp (record_admission_decision D answers request v now_ns) (\<lambda>r s'. recorded s s' \<and>
    (sv_outcome v = OutcomeAdmitted \<longrightarrow> (\<forall>authority. r = Inr authority \<longrightarrow> recorded_as answers request s' authority))) s"
proof -
  let ?Q = "\<lambda>r s'. recorded s s' \<and>
    (sv_outcome v = OutcomeAdmitted \<longrightarrow> (\<forall>authority. r = Inr authority \<longrightarrow> recorded_as answers request s' authority))"
  let ?f = "\<lambda>s'. if sv_outcome v = OutcomeAdmitted then s'\<lparr>reject_episodes := []\<rparr>
         else if sv_outcome v \<noteq> OutcomeRejected LossGovernorHaltedReason
         then record_submit_admission_order_reject request v now_ns s' else s'"
  have f: "?Q (Inr authority) (?f s')" if "?Q (Inr authority) s'" for authority s'
    using that by (auto simp: recorded_update recorded_reject recorded_as_def)
  have out: "wp (record_outcome D answers request v) ?Q s"
    by (rule wp_mono [OF record_outcome_wp [OF assms]]) (simp_all add: recorded_as_def)
  have body: "wp (act_bind (record_outcome D answers request v) (\<lambda>authority. act_then (act_modify ?f) (act_return authority))) ?Q s"
    unfolding wp_bind wp_then wp_modify wp_return sum.case
    by (rule wp_mono [OF out]) (use f in \<open>auto split: sum.split simp del: if_split\<close>)
  show ?thesis
    unfolding record_admission_decision_def wp_then [of "act_map_err _ _"] wp_then [of "act_lift _"] wp_map_err wp_lift
    using body by (simp add: ensure_def recorded_update del: wp_bind wp_then split: sum.split)
qed

lemma record_decision_keeps: "wp (record_admission_decision D answers request v now_ns) (\<lambda>r s'. keeps_counts s0 s') s"
  if "keeps_counts s0 s" and "\<And>a. sv_outcome v = OutcomeAdmitted \<Longrightarrow> sv_reservation_attribution v = Some a \<Longrightarrow> at_client_order_id a = sr_client_order_id request"
  by (rule wp_mono [OF record_decision_wp [OF that(2)]]) (use that(1) in \<open>auto intro: keeps_counts_trans recorded_keeps\<close>)

section \<open>Permits\<close>

definition permit_of :: "string \<Rightarrow> u32 \<Rightarrow> string list \<Rightarrow> BoltV3CapitalAdmissionReservationRollback list \<Rightarrow> BoltV3SubmitEvidenceAuthority \<Rightarrow>
    BoltV3SubmitAdmissionPermit" where
  "permit_of client n evidence_free rollbacks authority =
     \<lparr>pt_rollbacks = rollbacks, pt_counter_rollback = Some \<lparr>cr_execution_client_id = client, cr_order_count = n,
        cr_uncommitted_evidence_free_client_order_ids = evidence_free\<rparr>,
      pt_evidence_authority = Some authority, pt_committed = False\<rparr>"

text \<open>How a permit for one order comes about: evaluation, record, counters and tracking.\<close>

definition admitted_order :: "'d decimal_ops \<Rightarrow> 'd BoltV3SubmitAdmissionRequest \<Rightarrow> u64 \<Rightarrow> BoltV3SubmitAdmissionPermit \<Rightarrow>
    'd BoltV3SubmitAdmissionState \<Rightarrow> 'd BoltV3SubmitAdmissionState \<Rightarrow> bool" where
  "admitted_order D request now_ns permit s s' \<longleftrightarrow> submit_allowed D request now_ns s \<and>
     (\<exists>v s1 s2 values evidence_free authority.
        evaluated s s1 \<and> capital_taken request v s s1 \<and> recorded s1 s2 \<and>
        checked_admission_counter_values (admitted_order_count s) (client_count s (sr_execution_client_id request)) 1 = Inr values \<and>
        s' = hold_evidence_free evidence_free (set_counters (sr_execution_client_id request) values s2) \<and>
        (evidence_free = [] \<and> authorizes_order (committed_admission_authority s2) (sr_client_order_id request) \<or>
         evidence_free = [sr_client_order_id request] \<and> sv_reservation_attribution v = None) \<and>
        permit = permit_of (sr_execution_client_id request) 1 evidence_free (case sv_rollback v of None \<Rightarrow> [] | Some k \<Rightarrow> [k]) authority)"

definition admit_post :: "'d decimal_ops \<Rightarrow> 'd BoltV3SubmitAdmissionRequest \<Rightarrow> u64 \<Rightarrow> 'd BoltV3SubmitAdmissionState \<Rightarrow>
    BoltV3SubmitAdmissionError + BoltV3SubmitAdmissionPermit \<Rightarrow> 'd BoltV3SubmitAdmissionState \<Rightarrow> bool" where
  "admit_post D request now_ns s r s' \<longleftrightarrow>
     (case r of Inl e \<Rightarrow> keeps_counts s s' | Inr permit \<Rightarrow> admitted_order D request now_ns permit s s')"

lemma admit_post_simps [simp]:
  "admit_post D request now_ns s (Inl e) s' = keeps_counts s s'"
  "admit_post D request now_ns s (Inr permit) s' = admitted_order D request now_ns permit s s'"
  by (simp_all add: admit_post_def)

lemma evaluated_attribution:
  "capital_taken request v s s1 \<Longrightarrow> sv_reservation_attribution v = Some a \<Longrightarrow> at_client_order_id a = sr_client_order_id request"
  by (auto simp: capital_taken_def reserved_one_def split: if_split_asm)

lemma admit_recorded_wp:
  assumes s1: "evaluated s s1" "capital_taken request v s s1" "submit_allowed D request now_ns s" and s2: "recorded s1 s2"
    and counted: "checked_admission_counter_values (admitted_order_count s) (client_count s (sr_execution_client_id request)) 1 = Inr values"
    and rec: "recorded_as answers request s2 authority"
  shows "wp (admit_recorded request v values authority)
    (admit_post D request now_ns s) s2"
proof -
  let ?tracked = "sv_reservation_attribution v = None \<and> requires_evidence_free_non_reservation_tracking authority"
  have exit: "sv_reservation_attribution v = None" if "authority = RecordedRiskReducing b" for b
    using s1(2) rec that by (auto simp: recorded_as_def capital_taken_def split: BoltV3SubmitIntentKind.split_asm)
  obtain submit where submit: "into_submit_authority authority = Inr submit"
    using rec by (cases "sr_intent_kind request") (simp_all add: recorded_as_def)
  have "authorizes_order (committed_admission_authority s2) (sr_client_order_id request)" if "\<not> ?tracked"
    using rec exit that by (cases "sr_intent_kind request") (auto simp: recorded_as_def)
  then have "admitted_order D request now_ns
      (permit_of (sr_execution_client_id request) 1 (if ?tracked then [sr_client_order_id request] else [])
        (case sv_rollback v of None \<Rightarrow> [] | Some k \<Rightarrow> [k]) submit) s
      (hold_evidence_free (if ?tracked then [sr_client_order_id request] else []) (set_counters (sr_execution_client_id request) values s2))"
    unfolding admitted_order_def
    using s1 s2 counted
    by (intro conjI exI [of _ v] exI [of _ s1] exI [of _ s2] exI [of _ "values"]
        exI [of _ "if ?tracked then [sr_client_order_id request] else []"] exI [of _ submit]) auto
  then show ?thesis
    unfolding admit_recorded_def submit sum.case grant_permit_def by (simp add: permit_of_def)
qed

lemma admit_evaluated_wp:
  assumes s1: "evaluated s s1" and adm: "sv_outcome v = OutcomeAdmitted \<Longrightarrow> submit_allowed D request now_ns s \<and> capital_taken request v s s1"
  shows "wp (admit_evaluated D answers request now_ns v)
    (admit_post D request now_ns s) s1"
proof -
  let ?Q = "admit_post D request now_ns s"
  have k1: "keeps_counts s s1" by (rule evaluated_keeps [OF s1])
  have counts: "admitted_order_count s1 = admitted_order_count s" "client_count s1 = client_count s"
    using k1 keeps_counts_client [OF k1] by (simp_all add: keeps_counts_def)
  have att: "at_client_order_id a = sr_client_order_id request" if "sv_outcome v = OutcomeAdmitted" "sv_reservation_attribution v = Some a" for a
    using adm [OF that(1)] evaluated_attribution that(2) by blast
  have rolled: "keeps_counts s (case sv_rollback v of None \<Rightarrow> s' | Some k \<Rightarrow> rollback_capital_admission_reservations [k] s')"
    if "keeps_counts s s'" for s'
    using that by (simp split: option.split)
  have fail: "wp (act_then (rollback_evaluation v) (act_fail e)) ?Q s'" if "keeps_counts s s'" for e s'
    using rolled [OF that] by simp
  show ?thesis
  proof (cases "sv_outcome v")
    case OutcomeAdmitted
    note adm = adm [OF OutcomeAdmitted]
    show ?thesis
    proof (cases "checked_admission_counter_values (admitted_order_count s) (client_count s (sr_execution_client_id request)) 1")
      case (Inl e)
      have "wp (record_admission_decision D answers request (count_cap_evaluation v) now_ns) (\<lambda>r s'. keeps_counts s s') s'"
        if "keeps_counts s s'" for s'
        by (rule record_decision_keeps [OF that]) (simp add: count_cap_evaluation_def)
      from this [OF rolled [OF k1]] show ?thesis unfolding admit_evaluated_def
        using OutcomeAdmitted Inl by (auto simp: counts split: sum.split elim!: wp_mono)
    next
      case (Inr vals)
      show ?thesis
        unfolding admit_evaluated_def wp_bind [where m = act_get] wp_get sum.case OutcomeAdmitted AdmissionDecisionOutcome.case counts Inr wp_match
        by (rule wp_mono [OF record_decision_wp [OF att]])
          (use adm s1 Inr OutcomeAdmitted fail [OF keeps_counts_trans [OF k1 recorded_keeps]] in
            \<open>auto simp del: wp_then intro: admit_recorded_wp split: sum.split\<close>)
    qed
  next
    case (OutcomeRejected reason)
    show ?thesis
      unfolding admit_evaluated_def wp_bind [where m = act_get] wp_get sum.case OutcomeRejected AdmissionDecisionOutcome.case wp_match
      by (rule wp_mono [OF record_decision_keeps [OF k1]])
        (use OutcomeRejected fail in \<open>auto simp del: wp_then split: sum.split\<close>)
  qed
qed

lemma admit_wp:
  "wp (admit_at_inner D M dmax answers request now_ns)
    (\<lambda>r s'. admit_post D request now_ns s r s' \<and> (\<forall>permit. r = Inr permit \<longrightarrow> aa_economics_available answers)) s"
proof (cases "aa_economics_available answers")
  case True
  define continue where "continue = (\<lambda>v. case evaluation_validate v of
      Inl error \<Rightarrow> act_then (rollback_evaluation v) (act_fail error)
    | Inr _ \<Rightarrow> admit_evaluated D answers request now_ns v)"
  have "wp (continue v) (admit_post D request now_ns s) s1"
    if "evaluated s s1" "sv_outcome v = OutcomeAdmitted \<longrightarrow> submit_allowed D request now_ns s \<and> capital_taken request v s s1" for v s1
    using admit_evaluated_wp [OF that(1)] that(2) evaluated_keeps [OF that(1)]
    by (cases "evaluation_validate v") (simp_all add: continue_def split: option.split)
  then show ?thesis
    unfolding admit_at_inner_def continue_def [symmetric] wp_then wp_lift
    using True by (auto simp: ensure_def evaluated_keeps intro!: wp_mono [OF submit_evaluate_wp] split: sum.split)
qed (simp add: admit_at_inner_def ensure_def)

end
