(* ===== verification/SubmitExample.thy ===== *)
theory SubmitExample
  imports SubmitPermits
begin

text \<open>
  One admission of an entry order against a configured capital pool, evaluated on whole amounts between
  -100 and 100.
\<close>

definition demo_order :: "int BoltV3SubmitAdmissionRequest" where
  "demo_order = \<lparr>sr_strategy_id = ''s'', sr_execution_client_id = ''C'', sr_client_order_id = ''b'', sr_instrument_id = ''y'', sr_notional = 5,
     sr_order_side = Buy, sr_order_quantity = 5, sr_intent_kind = EntryIntent, sr_risk_reducing_exit_proof = None,
     sr_admission_evidence = Some \<lparr>ce_venue_id = ''v'', ce_product_kind = CompiledPredictionMarketBinary, ce_side = CompiledBuy, ce_quantity = 5,
       ce_effective_price = 1, ce_order_kind = CompiledLimit, ce_liquidity = CompiledTaker, ce_quote_set_id = None,
       ce_prediction_market_outcome = Some OutcomeYes\<rparr>\<rparr>"

definition demo_answers :: admission_answers where
  "demo_answers = \<lparr>aa_economics_available = True, aa_economics_details = True, aa_entry_committed = True, aa_exit_appended = True\<rparr>"

definition demo_limits :: "(string, int BoltV3LiveSubmitApprovalLimits) btree_map" where
  "demo_limits = [(''C'', \<lparr>lim_max_order_count = 1, lim_max_order_notional = 50\<rparr>)]"

definition demo_capital :: "int BoltV3SubmitCapitalAdmissionState" where
  "demo_capital = \<lparr>sc_venue_id = ''v'', sc_account_id = ''a'', sc_product_kind = PredictionMarketBinary, sc_collateral_currency = ''c'',
     sc_capital_pool = demo_pool, sc_policy = gi_policy demo_admission, sc_state = Some demo_state,
     sc_latest_reservation_mutation_observed_at_ns = None, sc_capture_failure_source = None, sc_capture_failure_observed_at_ns = None,
     sc_gate = demo_gate [(''a'', 50, 20)], sc_next_sequence = 0, sc_client_order_reservations = [],
     sc_unresolved_lifecycle_reservations = (0, 0), sc_fill_evidence_integrity_failed = False\<rparr>"

definition demo_fresh :: "int BoltV3SubmitAdmissionState" where
  "demo_fresh = new_with_optional_controls 4 demo_limits None None"

definition demo_submit :: "int BoltV3SubmitAdmissionState" where
  "demo_submit = demo_fresh\<lparr>capital_admission := Some demo_capital\<rparr>"

definition demo_reserving :: "int BoltV3SubmitCapitalAdmissionState" where
  "demo_reserving = demo_capital\<lparr>sc_next_sequence := 1\<rparr>"

definition demo_gate_inputs :: "int CapitalAdmissionGateInputs" where
  "demo_gate_inputs = submit_gate_inputs demo_order 30 (the (sr_admission_evidence demo_order)) demo_state ''b#1'' demo_reserving"

lemma demo_gate_inputs_fields:
  "gi_request demo_gate_inputs = demo_intent\<lparr>ca_intent_id := ''b#1''\<rparr>" "gi_state demo_gate_inputs = Some demo_state" "gi_loss_policy demo_gate_inputs = None"
  "gi_policy demo_gate_inputs = gi_policy demo_admission" "gi_capital_pool demo_gate_inputs = demo_pool"
  by (simp_all add: demo_gate_inputs_def submit_gate_inputs_def demo_order_def demo_intent_def demo_reserving_def demo_capital_def demo_pool_def)

lemma demo_submit_quote:
  "worst_case_liability small_ops small_product (demo_intent\<lparr>ca_intent_id := ''b#1''\<rparr>) (PredictionMarketBinarySnapshot demo_binary) (gi_policy demo_admission) =
   Inr \<lparr>lq_original_quantity = 5, lq_accepted_quantity = 5, lq_calculated_liability = 10, lq_reserved_liability = 10, lq_evidence_label = ''e''\<rparr>"
  by (simp add: demo_intent_def demo_binary_def demo_admission_def validate_capital_request_def validate_liquidity_def validate_fee_slippage_policy_def
      base_liability_def with_fee_and_slippage_def check_cover_def small_ops_def small_product_def in_small_def clamp_def dec_le_def ok_or_def)

lemma demo_trim_id: "trim ''b#1'' = ''b#1''"
  by (simp add: trim_def strip.simps leading_def starts_with_def white_space_def)

lemma demo_submit_reserved:
  "\<exists>decision gate. evaluate_and_reserve small_ops small_product 100 demo_gate_inputs (demo_gate [(''a'', 50, 20)]) = Some (decision, gate) \<and>
    validate_capital_admission_decision small_ops decision = Inr (ValidatedCapitalAccepted 5 10)"
proof -
  obtain evidence where v: "validate_nt_derived_capital_admission_state (Some demo_state) 30 50 = Some (Inr evidence)"
    using validate_cases(1) [OF demo_attested] by blast
  let ?quote = "\<lparr>lq_original_quantity = 5, lq_accepted_quantity = 5, lq_calculated_liability = 10, lq_reserved_liability = 10, lq_evidence_label = ''e''\<rparr>"
  obtain decision ledger' where r: "reserve_liability small_ops 100 demo_gate_inputs ''g'' evidence ?quote (demo_ledger [(''a'', 50, 20)]) = (decision, ledger')"
    by fastforce
  have fields: "cp_pool_id demo_pool = ''p''" "ca_pool_id demo_intent = ''p''" "ca_now_ns demo_intent = 30"
    "cp_max_snapshot_age_ns demo_pool = 50" "ns_product_state demo_state = PredictionMarketBinarySnapshot demo_binary"
    "pm_collateral_coupled_group_id demo_binary = ''g''" "reservation_ledger (demo_gate rs) = demo_ledger rs" for rs
    by (simp_all add: demo_intent_def demo_state_def demo_pool_def demo_binary_def demo_gate_def)
  have e: "evaluate_capital_admission small_ops small_product 100 demo_gate_inputs (demo_ledger [(''a'', 50, 20)]) = Some (decision, ledger')"
    by (simp add: evaluate_capital_admission_def demo_gate_inputs_fields fields v demo_submit_quote r del: worst_case_liability.simps)
  have "validate_capital_admission_decision small_ops decision = Inr (ValidatedCapitalAccepted 5 10)"
    using r by (auto simp: reserve_liability_def demo_gate_inputs_fields demo_admission_def demo_intent_def demo_eval ledger_reserve_def demo_trim_id
        validate_capital_admission_decision_def admission_evidence_def)
  then show ?thesis by (simp add: evaluate_and_reserve_def fields e)
qed

lemma demo_checks:
  "\<exists>product position. submit_capital_checks small_ops demo_order demo_capital = Inr (the (sr_admission_evidence demo_order), demo_state, product, position)"
  by (simp add: submit_capital_checks_def demo_order_def demo_capital_def demo_state_def ensure_def ok_or_def small_ops_def bt_get_def
      gate_is_reconciled_def demo_gate_def demo_ledger_def demo_binary_def)

lemma demo_capital_accepts:
  "\<exists>k a ca. evaluate_capital_submit small_ops small_product 100 demo_order 30 0 demo_capital = Some (CapitalAccepted (Some k) (Some a), 1, ca) \<and>
     at_client_order_id a = ''b''"
proof -
  obtain product position where c: "submit_capital_checks small_ops demo_order demo_capital =
      Inr (the (sr_admission_evidence demo_order), demo_state, product, position)" using demo_checks by blast
  obtain decision gate where e: "evaluate_and_reserve small_ops small_product 100 demo_gate_inputs (demo_gate [(''a'', 50, 20)]) = Some (decision, gate)"
    and v: "validate_capital_admission_decision small_ops decision = Inr (ValidatedCapitalAccepted 5 10)"
    using demo_submit_reserved by blast
  have fields: "sc_gate demo_reserving = demo_gate [(''a'', 50, 20)]" "sr_client_order_id demo_order @ ''#'' @ decimal 1 = ''b#1''"
    "demo_capital\<lparr>sc_next_sequence := sc_next_sequence demo_capital + 1\<rparr> = demo_reserving" "unat (sc_next_sequence demo_reserving) = 1"
    "checked_additive_liability small_ops (sc_policy demo_reserving) = Some 5" "ce_quantity (the (sr_admission_evidence demo_order)) = 5"
    "sr_intent_kind demo_order = EntryIntent" "dec_eq small_ops 5 5" "sr_client_order_id demo_order = ''b''"
    by (simp_all add: demo_reserving_def demo_capital_def demo_order_def decimal.simps digit_char_def char_of_def bit_0 checked_additive_liability_def
        demo_admission_def small_ops_def in_small_def clamp_def)
  show ?thesis
    using c e v fields(1-2)
    by (simp add: evaluate_capital_submit_def reserve_submit_liability_def Let_def fields demo_gate_inputs_def [symmetric] checked_add_def
        settle_submit_decision_def submit_attribution_def)
qed

lemma demo_fresh_fields:
  "rollback_ownership_latch demo_fresh = None" "committed_admission_authority demo_fresh = recovery_facts_default"
  "evidence_free_non_reservation_admissions demo_fresh = []" "kill_switch_state demo_fresh = KillSwitchState.Armed"
  "submit_loss_policy demo_fresh = None" "admitted_order_count demo_fresh = 0" "admitted_order_count_by_execution_client demo_fresh = []"
  "live_submit_approval_limits demo_fresh = demo_limits" "capital_admission_state_revision demo_fresh = 0" "capital_admission demo_fresh = None"
  by (simp_all add: demo_fresh_def new_with_optional_controls_def)

lemma demo_order_fields:
  "sr_client_order_id demo_order = ''b''" "sr_intent_kind demo_order = EntryIntent" "sr_execution_client_id demo_order = ''C''"
  "aa_economics_available demo_answers" "aa_economics_details demo_answers" "aa_entry_committed demo_answers" "exit_proof_valid small_ops demo_order"
  "authorizes_order recovery_facts_default cid = False" "state_kind KillSwitchState.Armed = KillSwitchStateKind.Armed"
  by (simp_all add: demo_order_def demo_answers_def exit_proof_valid_def authorizes_order_def authorizes_non_reservation_order_def
      recovery_facts_default_def bt_get_def)

lemma demo_within_limits: "limits_rejection small_ops demo_order (demo_fresh\<lparr>capital_admission := c\<rparr>) = None"
  by (simp add: limits_rejection_def demo_order_fields demo_fresh_fields demo_limits_def small_ops_def dec_le_def clamp_def demo_order_def
      bt_get_def client_count_def live_submit_count_cap_outcome_def checked_add_u32_def)

lemma demo_records:
  assumes "at_client_order_id a = ''b''" and "s1 = demo_fresh\<lparr>capital_admission_state_revision := n, capital_admission := c\<rparr>"
  shows "\<exists>s2 permit. admit_evaluated small_ops demo_answers demo_order 30 (admitted_with_rollback (Some k) (Some a) 30) s1 = Some (Inr permit, s2)"
  by (simp add: assms admit_evaluated_def act_defs admitted_with_rollback_def without_loss_halt_def client_count_def demo_fresh_fields bt_get_def
      checked_admission_counter_values_def checked_add_u32_def ok_or_def record_admission_decision_def evaluation_validate_def ensure_def
      record_outcome_def next_authority_def record_call_def set_authority_def demo_order_fields insert_attribution_def
      recovery_facts_default_def authorizes_non_reservation_order_def admit_recorded_def grant_permit_def)

lemma demo_admits: "\<exists>permit s'. admit_at_inner small_ops small_product 100 demo_answers demo_order 30 demo_submit = Some (Inr permit, s')"
proof -
  obtain k a ca where e: "evaluate_capital_submit small_ops small_product 100 demo_order 30 0 demo_capital =
      Some (CapitalAccepted (Some k) (Some a), 1, ca)" and a: "at_client_order_id a = ''b''"
    using demo_capital_accepts by blast
  let ?s1 = "demo_fresh\<lparr>capital_admission_state_revision := 1, capital_admission := Some ca\<rparr>"
  have "submit_evaluate small_ops small_product 100 demo_order 30 demo_submit = Some (Inr (admitted_with_rollback (Some k) (Some a) 30), ?s1)"
    unfolding demo_submit_def
    by (simp add: submit_evaluate_def evaluate_loss_def evaluate_order_def evaluate_capital_def evaluate_capital_admission_submit_def
        demo_within_limits demo_order_fields demo_fresh_fields act_defs e bt_get_def with_loss_snapshot_diagnostics_def)
  moreover have "evaluation_validate (admitted_with_rollback (Some k) (Some a) 30) = Inr ()"
    by (simp add: evaluation_validate_def admitted_with_rollback_def without_loss_halt_def)
  ultimately show ?thesis
    using demo_records [OF a refl, where k = k and n = 1 and c = "Some ca"] by (auto simp: admit_at_inner_def act_defs ensure_def demo_order_fields)
qed

end
