(* ===== verification/SubmitRuns.thy ===== *)
theory SubmitRuns
  imports SubmitSafety SubmitExample
begin

text \<open>
  Properties of submit admission (\<open>src/src/bolt_v3_submit_admission.rs\<close>): what a permit needs, what
  dropping it gives back, and the cap on submitted orders in every history of calls.
\<close>

section \<open>Counters\<close>

lemma checked_add_u32_Some: "checked_add_u32 a b = Some c \<longleftrightarrow> unat a + unat b < 2 ^ 32 \<and> c = a + b"
  by (auto simp: checked_add_u32_def)

lemma unat_add_u32: "unat (a :: u32) + unat b < 2 ^ 32 \<Longrightarrow> unat (a + b) = unat a + unat b"
  by (subst unat_add_lem [THEN iffD1]) simp_all

lemma unat_sub_u32: "(b :: u32) \<le> a \<Longrightarrow> unat (a - b) = unat a - unat b"
  by (rule unat_sub)

lemma cap_admits_iff: "live_submit_count_cap_outcome current n cap = OutcomeAdmitted \<longleftrightarrow> unat current + unat n \<le> unat cap"
proof -
  have "unat cap < 2 ^ 32" using unsigned_less [of cap] by simp
  then show ?thesis
    by (auto simp: live_submit_count_cap_outcome_def checked_add_u32_def word_le_nat_alt unat_add_u32)
qed

lemma cap_outcomes: "live_submit_count_cap_outcome current n cap = OutcomeRejected CountCapExhaustedReason \<longleftrightarrow>
    live_submit_count_cap_outcome current n cap \<noteq> OutcomeAdmitted"
  by (simp add: live_submit_count_cap_outcome_def split: option.split)

lemma counter_values_Inr:
  "checked_admission_counter_values admitted client n = Inr values \<longleftrightarrow>
     unat admitted + unat n < 2 ^ 32 \<and> unat client + unat n < 2 ^ 32 \<and>
     values = \<lparr>cv_admitted_order_count = admitted + n, cv_execution_client_order_count = client + n\<rparr>"
  by (auto simp: checked_admission_counter_values_def and_then_Inr checked_add_u32_Some)

lemma limits_accept:
  "limits_rejection D request s = None \<longleftrightarrow> \<not> dec_le D (sr_notional request) (dec_zero D) \<and>
     (\<forall>limits. bt_get (live_submit_approval_limits s) (sr_execution_client_id request) = Some limits \<longrightarrow>
        \<not> dec_lt D (lim_max_order_notional limits) (sr_notional request) \<and>
        unat (client_count s (sr_execution_client_id request)) + 1 \<le> unat (lim_max_order_count limits))"
  by (simp add: limits_rejection_def cap_outcomes cap_admits_iff split: option.split)

section \<open>What a permit needs\<close>

lemma client_count_set [simp]:
  "client_count (set_counters client values s) c = (if c = client then cv_execution_client_order_count values else client_count s c)"
  by (simp add: client_count_def set_counters_def bt_get_insert)

lemma hold_simps [simp]:
  "client_count (hold_evidence_free cids s) = client_count s"
  "live_submit_approval_limits (hold_evidence_free cids s) = live_submit_approval_limits s"
  "admitted_order_count_by_execution_client (hold_evidence_free cids s) = admitted_order_count_by_execution_client s"
  "admitted_order_count (hold_evidence_free cids s) = admitted_order_count s"
  "capital_admission (hold_evidence_free cids s) = capital_admission s"
  "capital_admission_state_revision (hold_evidence_free cids s) = capital_admission_state_revision s"
  "committed_admission_authority (hold_evidence_free cids s) = committed_admission_authority s"
  "rollback_ownership_latch (hold_evidence_free cids s) = rollback_ownership_latch s"
  by (auto simp: hold_evidence_free_def client_count_def)

lemma set_simps [simp]:
  "live_submit_approval_limits (set_counters client values s) = live_submit_approval_limits s"
  "admitted_order_count_by_execution_client (set_counters client values s) =
     bt_insert client (cv_execution_client_order_count values) (admitted_order_count_by_execution_client s)"
  "admitted_order_count (set_counters client values s) = cv_admitted_order_count values"
  "evidence_free_non_reservation_admissions (set_counters client values s) = evidence_free_non_reservation_admissions s"
  "capital_admission (set_counters client values s) = capital_admission s"
  "capital_admission_state_revision (set_counters client values s) = capital_admission_state_revision s"
  "committed_admission_authority (set_counters client values s) = committed_admission_authority s"
  "rollback_ownership_latch (set_counters client values s) = rollback_ownership_latch s"
  by (simp_all add: set_counters_def)

text \<open>What evaluation and recording leave of the other fields.\<close>

lemma evaluated_fields:
  "evaluated s s1 \<Longrightarrow> evidence_free_non_reservation_admissions s1 = evidence_free_non_reservation_admissions s \<and>
     rollback_ownership_latch s1 = rollback_ownership_latch s"
  by (auto simp: evaluated_def)

lemma recorded_fields:
  "recorded s1 s2 \<Longrightarrow> evidence_free_non_reservation_admissions s2 = evidence_free_non_reservation_admissions s1 \<and>
     rollback_ownership_latch s2 = rollback_ownership_latch s1 \<and> capital_admission s2 = capital_admission s1 \<and>
     capital_admission_state_revision s2 = capital_admission_state_revision s1"
  by (auto simp: recorded_def)

lemma admit_grants:
  assumes "admit_at_inner D M dmax answers request now_ns s = Some (Inr permit, s')"
  shows "aa_economics_available answers" and "admitted_order D request now_ns permit s s'"
  using admit_wp [of D M dmax answers request now_ns s] assms by (simp_all add: wp_def)

lemma admit_parts:
  assumes "admit_at_inner D M dmax answers request now_ns s = Some (Inr permit, s')"
  obtains v s1 s2 vals evidence_free authority where "submit_allowed D request now_ns s" and "capital_taken request v s s1"
    and "evaluated s s1" and "recorded s1 s2" and "keeps_counts s s2"
    and "checked_admission_counter_values (admitted_order_count s) (client_count s (sr_execution_client_id request)) 1 = Inr vals"
    and "s' = hold_evidence_free evidence_free (set_counters (sr_execution_client_id request) vals s2)"
    and "evidence_free = [] \<and> authorizes_order (committed_admission_authority s2) (sr_client_order_id request) \<or>
      evidence_free = [sr_client_order_id request] \<and> sv_reservation_attribution v = None"
    and "permit = permit_of (sr_execution_client_id request) 1 evidence_free (case sv_rollback v of None \<Rightarrow> [] | Some k \<Rightarrow> [k]) authority"
proof -
  obtain v s1 s2 vals evidence_free authority where a: "submit_allowed D request now_ns s" "capital_taken request v s s1"
    "evaluated s s1" "recorded s1 s2"
    "checked_admission_counter_values (admitted_order_count s) (client_count s (sr_execution_client_id request)) 1 = Inr vals"
    "s' = hold_evidence_free evidence_free (set_counters (sr_execution_client_id request) vals s2)"
    "evidence_free = [] \<and> authorizes_order (committed_admission_authority s2) (sr_client_order_id request) \<or>
      evidence_free = [sr_client_order_id request] \<and> sv_reservation_attribution v = None"
    "permit = permit_of (sr_execution_client_id request) 1 evidence_free (case sv_rollback v of None \<Rightarrow> [] | Some k \<Rightarrow> [k]) authority"
    using admit_grants(2) [OF assms] unfolding admitted_order_def by blast
  show thesis
    by (rule that [OF a(1-4) keeps_counts_trans [OF evaluated_keeps [OF a(3)] recorded_keeps [OF a(4)]] a(5-8)])
qed



section \<open>What dropping a permit gives back\<close>

lemma position_of_last: "\<not> list_ex P xs \<Longrightarrow> P e \<Longrightarrow> find_position P (xs @ [e]) = Some (length xs)"
  by (induction xs) auto

lemma find_last: "\<not> list_ex P xs \<Longrightarrow> P e \<Longrightarrow> find P (xs @ [e]) = Some e"
  by (induction xs) auto

lemma rollback_reserved:
  assumes "reserved_one cid k attribution ca ca'" and "checked_add revision 1 = Some revision'"
  shows "rollback_each [k] {} {} None revision ca' =
    Inr (Some (rk_observed_at_ns k), revision', ca\<lparr>sc_next_sequence := sc_next_sequence ca + 1\<rparr>)"
proof -
  obtain entry r where e: "ca' = ca\<lparr>sc_next_sequence := sc_next_sequence ca + 1,
          sc_gate := (sc_gate ca)\<lparr>reservation_ledger := (reservation_ledger (sc_gate ca))\<lparr>live_reservations :=
            live_reservations (reservation_ledger (sc_gate ca)) @ [entry]\<rparr>\<rparr>,
          sc_client_order_reservations := bt_insert cid r (sc_client_order_reservations ca)\<rparr>"
    and r: "reservation_matches (rk_pool_id k) (rk_submit_reservation_id k) entry"
      "\<not> list_ex (reservation_matches (rk_pool_id k) (rk_submit_reservation_id k)) (live_reservations (reservation_ledger (sc_gate ca)))"
      "lr_collateral_group_id entry = at_collateral_group_id attribution"
      "bt_get (sc_client_order_reservations ca) cid = None" "rr_attribution r = attribution" "rr_phase r = ReservedPhase"
      "rk_client_order_id k = cid" "at_client_order_id attribution = cid"
      "at_submit_reservation_id attribution = rk_submit_reservation_id k" "at_capital_pool_id attribution = rk_pool_id k"
    using assms(1) unfolding reserved_one_def by blast
  show ?thesis
    using assms(2) r unfolding e
    by (simp add: bt_get_insert bt_remove_inserted gate_retained_reservation_def retained_reservation_def find_last
        rollback_uncommitted_reservation_def rollback_uncommitted_def position_of_last remove_at_def ensure_def ok_or_def)
qed

lemma refresh_keeps [simp]:
  "sc_gate (refresh_capital_admission_reservation_snapshot t ca) = sc_gate ca"
  "sc_client_order_reservations (refresh_capital_admission_reservation_snapshot t ca) = sc_client_order_reservations ca"
  by (simp_all add: refresh_capital_admission_reservation_snapshot_def refresh_capital_admission_reservation_snapshot_with_source_def
      Let_def split: option.split)

lemma prepare_reserved:
  assumes "reserved_one cid k attribution ca ca'" and "capital_admission s = Some ca'"
    and "checked_add (capital_admission_state_revision s) 1 = Some revision'"
  shows "\<exists>ca''. prepare_capital_admission_reservation_rollback [k] s = Inr (Some ca'', revision') \<and>
    sc_gate ca'' = sc_gate ca \<and> sc_client_order_reservations ca'' = sc_client_order_reservations ca"
  using assms(2) rollback_reserved [OF assms(1,3)]
  by (simp add: prepare_capital_admission_reservation_rollback_def Let_def ok_or_def del: rollback_each.simps)

text \<open>The counters of a fresh permit can be taken back, and then are what they were.\<close>

lemma counters_restored:
  fixes n :: u32
  assumes inv: "bt_invar m" and fits: "unat (case bt_get m client of None \<Rightarrow> 0 | Some c \<Rightarrow> c) + unat n < 2 ^ 32"
  defines "old \<equiv> (case bt_get m client of None \<Rightarrow> 0 | Some c \<Rightarrow> c)"
  shows "(case bt_get (if old = 0 then bt_remove client (bt_insert client (old + n) m) else bt_insert client old (bt_insert client (old + n) m)) c of
      None \<Rightarrow> 0 | Some c \<Rightarrow> c) = (case bt_get m c of None \<Rightarrow> 0 | Some c \<Rightarrow> c)"
  by (cases "c = client")
    (simp_all add: bt_get_insert btm.get_remove [OF btm.invar_insert [OF inv]] old_def split: option.split)

lemma sub_after_add: "unat (a :: u32) + unat n < 2 ^ 32 \<Longrightarrow> checked_sub_u32 (a + n) n = Some a"
  by (auto simp: checked_sub_u32_def word_le_nat_alt unat_add_u32)

lemma prepare_taken:
  assumes taken: "capital_taken request v s s1" and s': "capital_admission s' = capital_admission s1"
      "capital_admission_state_revision s' = capital_admission_state_revision s1"
    and room: "unat (capital_admission_state_revision s) + 2 < 2 ^ 64"
  shows "\<exists>candidate revision. prepare_capital_admission_reservation_rollback (case sv_rollback v of None \<Rightarrow> [] | Some k \<Rightarrow> [k]) s' =
      Inr (candidate, revision) \<and>
    (case capital_admission s of
       None \<Rightarrow> candidate = None \<and> capital_admission s' = None
     | Some ca \<Rightarrow> \<exists>ca'. (case candidate of None \<Rightarrow> capital_admission s' | Some ca \<Rightarrow> Some ca) = Some ca' \<and> sc_gate ca' = sc_gate ca \<and>
         sc_client_order_reservations ca' = sc_client_order_reservations ca)"
proof (cases "sv_rollback v")
  case None
  then have "capital_admission s' = capital_admission s" using taken s' by (auto simp: capital_taken_def split: if_split_asm)
  then show ?thesis
    using None by (intro exI [of _ None] exI [of _ "capital_admission_state_revision s'"])
      (auto simp: prepare_capital_admission_reservation_rollback_def split: option.split)
next
  case (Some k)
  then obtain ca ca' attribution where c: "capital_admission s = Some ca" "capital_admission s' = Some ca'"
      "reserved_one (sr_client_order_id request) k attribution ca ca'"
    and r: "checked_add (capital_admission_state_revision s) 1 = Some (capital_admission_state_revision s')"
    using taken s' by (auto simp: capital_taken_def split: if_split_asm)
  have "\<exists>revision'. checked_add (capital_admission_state_revision s') 1 = Some revision'"
    using unat_checked_add [OF r] room by (simp add: checked_add_def)
  then obtain revision' where "checked_add (capital_admission_state_revision s') 1 = Some revision'" by blast
  from prepare_reserved [OF c(3,2) this] obtain ca''
    where "prepare_capital_admission_reservation_rollback [k] s' = Inr (Some ca'', revision')"
      "sc_gate ca'' = sc_gate ca" "sc_client_order_reservations ca'' = sc_client_order_reservations ca" by blast
  then show ?thesis using Some c(1) by (intro exI [of _ "Some ca''"] exI [of _ revision']) simp
qed

text \<open>
  C36. A permit that is dropped before it is used gives everything back: the total and every client's
  count are what they were before the admission, a tracked id is tracked no longer, and with capital
  configured the ledger of live reservations and the reservation records are those from before. No
  roll-back is latched. This holds while the revision counter has room for two steps.
\<close>

theorem unused_permit_refunded:
  assumes adm: "admit_at_inner D M dmax answers request now_ns s = Some (Inr permit, s')"
    and inv: "bt_invar (admitted_order_count_by_execution_client s)" and room: "unat (capital_admission_state_revision s) + 2 < 2 ^ 64"
  shows "rollback_ownership_latch (drop_permit permit s') = None \<and>
    admitted_order_count (drop_permit permit s') = admitted_order_count s \<and>
    (\<forall>client. client_count (drop_permit permit s') client = client_count s client) \<and>
    evidence_free_non_reservation_admissions (drop_permit permit s') = evidence_free_non_reservation_admissions s \<and>
    (case capital_admission s of
       None \<Rightarrow> capital_admission (drop_permit permit s') = None
     | Some ca \<Rightarrow> \<exists>ca'. capital_admission (drop_permit permit s') = Some ca' \<and> sc_gate ca' = sc_gate ca \<and>
         sc_client_order_reservations ca' = sc_client_order_reservations ca)"
proof -
  let ?client = "sr_execution_client_id request" and ?cid = "sr_client_order_id request"
  obtain v s1 s2 vals evidence_free authority where allow: "submit_allowed D request now_ns s" and taken: "capital_taken request v s s1"
    and a: "evaluated s s1" "recorded s1 s2" and kept: "keeps_counts s s2"
    and counted: "checked_admission_counter_values (admitted_order_count s) (client_count s ?client) 1 = Inr vals"
    and s': "s' = hold_evidence_free evidence_free (set_counters ?client vals s2)"
    and free: "evidence_free = [] \<and> authorizes_order (committed_admission_authority s2) ?cid \<or>
      evidence_free = [?cid] \<and> sv_reservation_attribution v = None"
    and pt: "permit = permit_of ?client 1 evidence_free (case sv_rollback v of None \<Rightarrow> [] | Some k \<Rightarrow> [k]) authority"
    by (rule admit_parts [OF adm])
  have allowed: "rollback_ownership_latch s = None" "bt_get (evidence_free_non_reservation_admissions s) ?cid = None"
    using allow by (simp_all add: submit_allowed_def)
  note fields = evaluated_fields [OF a(1)] recorded_fields [OF a(2)]
  define k where "k = \<lparr>cr_execution_client_id = ?client, cr_order_count = 1, cr_uncommitted_evidence_free_client_order_ids = evidence_free\<rparr>"
  define old where "old = \<lparr>cv_admitted_order_count = admitted_order_count s, cv_execution_client_order_count = client_count s ?client\<rparr>"
  have refund: "checked_admission_counter_rollback k s' = Some old"
    using free counted sub_after_add [of "admitted_order_count s" 1] sub_after_add [of "client_count s ?client" 1]
    by (auto simp: checked_admission_counter_rollback_def k_def old_def s' counter_values_Inr bt_get_insert hold_evidence_free_def)
  obtain candidate revision
    where prep: "prepare_capital_admission_reservation_rollback (case sv_rollback v of None \<Rightarrow> [] | Some k \<Rightarrow> [k]) s' = Inr (candidate, revision)"
    and capital: "case capital_admission s of
       None \<Rightarrow> candidate = None \<and> capital_admission s' = None
     | Some ca \<Rightarrow> \<exists>ca'. (case candidate of None \<Rightarrow> capital_admission s' | Some ca \<Rightarrow> Some ca) = Some ca' \<and> sc_gate ca' = sc_gate ca \<and>
         sc_client_order_reservations ca' = sc_client_order_reservations ca"
    using prepare_taken [OF taken _ _ room, of s'] fields by (auto simp: s')
  have dropped: "drop_permit permit s' = apply_admission_counter_rollback k old (commit_capital_admission_reservation_rollback (candidate, revision) s')"
    using refund prep unfolding pt
    by (simp add: drop_permit_def permit_of_def rollback_unsubmitted_permit_def k_def [symmetric])
  have counts: "client_count (drop_permit permit s') client = client_count s client" for client
  proof -
    have "admitted_order_count_by_execution_client s2 = admitted_order_count_by_execution_client s" using kept by (simp add: keeps_counts_def)
    then have "admitted_order_count_by_execution_client (drop_permit permit s') =
        (let m = bt_insert ?client (client_count s ?client + 1) (admitted_order_count_by_execution_client s) in
         if client_count s ?client = 0 then bt_remove ?client m else bt_insert ?client (client_count s ?client) m)"
      using counted unfolding counter_values_Inr dropped
      by (simp add: apply_admission_counter_rollback_def commit_capital_admission_reservation_rollback_def old_def k_def s' Let_def)
    then show ?thesis
      using counters_restored [OF inv, of ?client 1 client] counted unfolding counter_values_Inr by (simp only: client_count_def Let_def)
  qed
  have tracked: "evidence_free_non_reservation_admissions (drop_permit permit s') = evidence_free_non_reservation_admissions s"
    using free allowed(2) fields
    unfolding dropped
    by (auto simp: apply_admission_counter_rollback_def commit_capital_admission_reservation_rollback_def k_def s' hold_evidence_free_def bt_remove_inserted)
  show ?thesis
    using counts tracked capital allowed(1) fields unfolding dropped
    by (simp add: apply_admission_counter_rollback_def commit_capital_admission_reservation_rollback_def old_def s' split: option.split_asm)
qed

theorem unused_permit_refunded_witness:
  "\<exists>permit s'. admit_at_inner small_ops small_product 100 demo_answers demo_order 30 demo_submit = Some (Inr permit, s') \<and>
    (\<exists>ca'. capital_admission (drop_permit permit s') = Some ca' \<and> sc_gate ca' = demo_gate [(''a'', 50, 20)])"
proof -
  obtain permit s' where adm: "admit_at_inner small_ops small_product 100 demo_answers demo_order 30 demo_submit = Some (Inr permit, s')"
    using demo_admits by blast
  have "bt_invar (admitted_order_count_by_execution_client demo_submit)" "unat (capital_admission_state_revision demo_submit) + 2 < 2 ^ 64"
    by (simp_all add: demo_submit_def demo_fresh_fields bt_invar_def)
  from unused_permit_refunded [OF adm this] adm show ?thesis by (auto simp: demo_submit_def demo_capital_def)
qed

end
