(* ===== verification/SubmitCap.thy ===== *)
theory SubmitCap
  imports SubmitRuns
begin

text \<open>
  Submit admission over time: any interleaving of admissions, baskets, dry evaluations, submits and
  dropped permits, with the feeds that change the rest of the state in between, and the cap on the orders
  of an execution client.
\<close>

section \<open>Grants\<close>

definition granted :: "string \<Rightarrow> u32 \<Rightarrow> BoltV3SubmitAdmissionPermit \<Rightarrow> 'd BoltV3SubmitAdmissionState \<Rightarrow> 'd BoltV3SubmitAdmissionState \<Rightarrow> bool" where
  "granted client n permit s s' \<longleftrightarrow>
     (\<exists>s2 values evidence_free rollbacks authority. keeps_counts s s2 \<and>
        checked_admission_counter_values (admitted_order_count s) (client_count s client) n = Inr values \<and>
        s' = hold_evidence_free evidence_free (set_counters client values s2) \<and>
        permit = permit_of client n evidence_free rollbacks authority) \<and>
     (\<forall>limits. bt_get (live_submit_approval_limits s) client = Some limits \<longrightarrow>
        unat (client_count s client) + unat n \<le> unat (lim_max_order_count limits))"

lemma admit_granted:
  assumes "admit_at_inner D M dmax answers request now_ns s = Some (Inr permit, s')"
  shows "granted (sr_execution_client_id request) 1 permit s s'"
proof (rule admit_parts [OF assms])
  fix v s1 s2 vals evidence_free authority
  assume "submit_allowed D request now_ns s" and "keeps_counts s s2"
    and "checked_admission_counter_values (admitted_order_count s) (client_count s (sr_execution_client_id request)) 1 = Inr vals"
    and "s' = hold_evidence_free evidence_free (set_counters (sr_execution_client_id request) vals s2)"
    and "permit = permit_of (sr_execution_client_id request) 1 evidence_free (case sv_rollback v of None \<Rightarrow> [] | Some k \<Rightarrow> [k]) authority"
  then show ?thesis unfolding granted_def submit_allowed_def limits_accept by auto
qed

lemma admit_refused_keeps:
  "admit_at_inner D M dmax answers request now_ns s = Some (Inl e, s') \<Longrightarrow> keeps_counts s s'"
  using admit_wp [of D M dmax answers request now_ns s] by (simp add: wp_def)

lemma dry_evaluation_keeps:
  "wp (evaluate_and_record_without_consuming_capacity_at D M dmax answers request now_ns) (\<lambda>r s'. keeps_counts s s') s"
proof -
  define continue where "continue = (\<lambda>v. case evaluation_validate v of
      Inl error \<Rightarrow> act_then (rollback_evaluation v) (act_fail error)
    | Inr _ \<Rightarrow>
        act_match (record_admission_decision D answers request v now_ns)
          (\<lambda>_. act_then (rollback_evaluation v) (act_fail EvidenceWriteFailed))
          (\<lambda>_. act_then (rollback_evaluation v) (act_bind act_get (\<lambda>s. act_lift (admission_result s v)))))"
  have "wp (continue v) (\<lambda>r s'. keeps_counts s s') s1"
    if "evaluated s s1" "sv_outcome v = OutcomeAdmitted \<longrightarrow> submit_allowed D request now_ns s \<and> capital_taken request v s s1" for v s1
  proof -
    note k1 = evaluated_keeps [OF that(1)]
    have "wp (record_admission_decision D answers request v now_ns) (\<lambda>r s'. keeps_counts s s') s1"
      by (rule record_decision_keeps [OF k1]) (use that(2) evaluated_attribution in blast)
    then show ?thesis
      unfolding continue_def using k1
      by (cases "evaluation_validate v") (auto elim!: wp_mono split: sum.split option.split)
  qed
  then show ?thesis
    unfolding evaluate_and_record_without_consuming_capacity_at_def continue_def [symmetric] wp_then wp_lift
    by (auto simp: ensure_def evaluated_keeps intro!: wp_mono [OF submit_evaluate_wp] split: sum.split)
qed

lemma evaluate_claims_keeps:
  "keeps_counts s s1 \<Longrightarrow>
     wp (evaluate_claims D M dmax strategy_id client now_ns claims rollbacks legs) (\<lambda>r s'. keeps_counts s s' \<and>
       (\<forall>v ks ls. r = Inr (Some v, ks, ls) \<longrightarrow> sv_outcome v \<noteq> OutcomeAdmitted)) s1"
proof (induction claims arbitrary: rollbacks legs s1)
  case (Cons claim claims)
  have k: "keeps_counts s s'" if "evaluated s1 s'" for s'
    using keeps_counts_trans [OF Cons.prems evaluated_keeps [OF that]] .
  show ?case
    unfolding evaluate_claims.simps wp_match
    by (rule wp_mono [OF submit_evaluate_wp]) (use k Cons.IH in \<open>auto simp: Let_def split: sum.split\<close>)
qed simp

lemma basket_admits:
  assumes "basket_outcome client claims n refused s = OutcomeAdmitted" and "\<forall>v. refused = Some v \<longrightarrow> sv_outcome v \<noteq> OutcomeAdmitted"
  shows "\<forall>limits. bt_get (live_submit_approval_limits s) client = Some limits \<longrightarrow>
    unat (client_count s client) + unat n \<le> unat (lim_max_order_count limits)"
  using assms by (auto simp: basket_outcome_def cap_admits_iff split: if_split_asm option.split_asm)

definition basket_post :: "string \<Rightarrow> nat \<Rightarrow> 'd BoltV3SubmitAdmissionState \<Rightarrow> BoltV3SubmitAdmissionError + BoltV3SubmitAdmissionPermit \<Rightarrow>
    'd BoltV3SubmitAdmissionState \<Rightarrow> bool" where
  "basket_post client n s r s' \<longleftrightarrow>
     (case r of Inl e \<Rightarrow> keeps_counts s s' | Inr permit \<Rightarrow> n < 2 ^ 32 \<and> granted client (of_nat n) permit s s')"

lemma basket_post_simps [simp]:
  "basket_post client n s (Inl e) s' = keeps_counts s s'"
  "basket_post client n s (Inr permit) s' \<longleftrightarrow> n < 2 ^ 32 \<and> granted client (of_nat n) permit s s'"
  by (simp_all add: basket_post_def)

lemma grant_basket_wp:
  assumes k: "keeps_counts s s1" and n: "n < 2 ^ 32"
    and counted: "checked_admission_counter_values (admitted_order_count s) (client_count s client) (of_nat n) = Inr vals"
    and cap: "\<forall>limits. bt_get (live_submit_approval_limits s) client = Some limits \<longrightarrow>
      unat (client_count s client) + unat (of_nat n :: u32) \<le> unat (lim_max_order_count limits)"
  shows "wp (grant_basket D committed client claims (of_nat n) rollbacks legs vals) (basket_post client n s) s1"
proof -
  have grant: "granted client (of_nat n) (permit_of client (of_nat n) evidence_free rollbacks authority) s
      (hold_evidence_free evidence_free (set_counters client vals s2))" if "keeps_counts s s2" for evidence_free authority s2
    using that counted cap unfolding granted_def by blast
  then have "wp (grant_permit client (of_nat n) evidence_free rollbacks vals authority) (basket_post client n s) s2"
    if "keeps_counts s s2" for evidence_free authority s2
    using that n by (simp add: grant_permit_def permit_of_def)
  then show ?thesis
    using k by (simp add: grant_basket_def next_authority_def record_call_def set_authority_def Let_def split: sum.split)
qed

lemma settle_basket_wp:
  assumes k: "keeps_counts s s1" and n: "n < 2 ^ 32" and v: "\<forall>v. refused = Some v \<longrightarrow> sv_outcome v \<noteq> OutcomeAdmitted"
  shows "wp (settle_basket D committed client claims (of_nat n) refused rollbacks legs) (basket_post client n s) s1"
proof (cases "basket_outcome client claims (of_nat n) refused s1 = OutcomeAdmitted")
  case False
  then show ?thesis using k by (simp add: settle_basket_def Let_def split: option.split sum.split)
next
  case True
  have same: "admitted_order_count s1 = admitted_order_count s" "client_count s1 = client_count s"
    "live_submit_approval_limits s1 = live_submit_approval_limits s"
    using k keeps_counts_client [OF k] by (simp_all add: keeps_counts_def)
  show ?thesis
  proof (cases "checked_admission_counter_values (admitted_order_count s) (client_count s client) (of_nat n)")
    case (Inl e)
    then show ?thesis using k True by (simp add: settle_basket_def Let_def same)
  next
    case (Inr vals)
    then show ?thesis
      using True grant_basket_wp [OF k n Inr] basket_admits [OF True v] by (simp add: settle_basket_def Let_def same)
  qed
qed

lemma basket_wp:
  "wp (reserve_basket_submit_slots_with_evidence D M dmax committed clock strategy_id client claims) (basket_post client (length claims) s) s"
proof (cases "clock = None \<or> \<not> length claims < 2 ^ 32")
  case True
  then show ?thesis
    by (auto simp: reserve_basket_submit_slots_with_evidence_def ok_or_def checked_basket_claim_count_def split: option.split)
next
  case False
  then obtain now_ns where clock: "clock = Some now_ns" and n: "length claims < 2 ^ 32" by auto
  show ?thesis
    unfolding reserve_basket_submit_slots_with_evidence_def clock
    using n settle_basket_wp [OF _ n]
    by (auto simp: ok_or_def checked_basket_claim_count_def intro!: wp_mono [OF evaluate_claims_keeps] split: sum.split)
qed

section \<open>Submitting and dropping\<close>

lemma invoke_keeps: "invoke_sink permit s = Inr (permit', s') \<Longrightarrow> keeps_counts s s'"
  by (auto simp: invoke_sink_def and_then_Inr commit_submit_sink_invocation_def)

definition permit_count :: "string \<Rightarrow> BoltV3SubmitAdmissionPermit \<Rightarrow> nat" where
  "permit_count client permit =
     (case pt_counter_rollback permit of
        None \<Rightarrow> 0
      | Some k \<Rightarrow> if cr_execution_client_id k = client then unat (cr_order_count k) else 0)"

text \<open>Dropping a permit takes no more from a client's count than the permit holds, and adds nothing.\<close>

lemma latch_keeps: "keeps_counts s (latch_submit_admission_rollback_ownership_failure s)"
  by (simp add: latch_submit_admission_rollback_ownership_failure_def)

lemma commit_rollback_keeps: "keeps_counts s (commit_capital_admission_reservation_rollback prepared s)"
  by (simp add: commit_capital_admission_reservation_rollback_def split: prod.split)

lemma apply_counter_rollback:
  assumes inv: "bt_invar (admitted_order_count_by_execution_client s)" and k: "checked_admission_counter_rollback k s = Some vals"
    and s1: "keeps_counts s s1"
  shows "live_submit_approval_limits (apply_admission_counter_rollback k vals s1) = live_submit_approval_limits s"
    and "bt_invar (admitted_order_count_by_execution_client (apply_admission_counter_rollback k vals s1))"
    and "unat (client_count (apply_admission_counter_rollback k vals s1) client) +
      (if cr_execution_client_id k = client then unat (cr_order_count k) else 0) = unat (client_count s client)"
proof -
  have s1: "admitted_order_count_by_execution_client s1 = admitted_order_count_by_execution_client s"
    "live_submit_approval_limits s1 = live_submit_approval_limits s" using s1 by (simp_all add: keeps_counts_def)
  obtain c where c: "bt_get (admitted_order_count_by_execution_client s) (cr_execution_client_id k) = Some c" "cr_order_count k \<le> c"
      "cv_execution_client_order_count vals = c - cr_order_count k"
    using k by (auto simp: checked_admission_counter_rollback_def checked_sub_u32_def bind_eq_Some_conv split: option.split_asm if_split_asm)
  show "live_submit_approval_limits (apply_admission_counter_rollback k vals s1) = live_submit_approval_limits s"
    by (simp add: apply_admission_counter_rollback_def s1)
  show "bt_invar (admitted_order_count_by_execution_client (apply_admission_counter_rollback k vals s1))"
    by (simp add: apply_admission_counter_rollback_def s1 btm.invar_insert btm.invar_remove inv)
  show "unat (client_count (apply_admission_counter_rollback k vals s1) client) +
      (if cr_execution_client_id k = client then unat (cr_order_count k) else 0) = unat (client_count s client)"
    using c by (auto simp: client_count_def apply_admission_counter_rollback_def s1 bt_get_insert btm.get_remove [OF inv] unat_sub_u32
        word_le_nat_alt)
qed

lemma drop_effect:
  assumes inv: "bt_invar (admitted_order_count_by_execution_client s)"
  shows "live_submit_approval_limits (drop_permit permit s) = live_submit_approval_limits s \<and>
    bt_invar (admitted_order_count_by_execution_client (drop_permit permit s)) \<and>
    (\<forall>client. unat (client_count s client) \<le> unat (client_count (drop_permit permit s) client) + permit_count client permit \<and>
      unat (client_count (drop_permit permit s) client) \<le> unat (client_count s client))"
proof -
  have kept: ?thesis if "keeps_counts s (drop_permit permit s)"
    using that inv by (auto simp: keeps_counts_client [OF that]) (simp_all add: keeps_counts_def)
  show ?thesis
  proof (cases "pt_committed permit")
    case True
    then show ?thesis using kept by (simp add: drop_permit_def)
  next
    case False
    show ?thesis
    proof (cases "pt_counter_rollback permit")
      case None
      then have "keeps_counts s (drop_permit permit s)"
        using False by (simp add: drop_permit_def rollback_unsubmitted_permit_def latch_keeps commit_rollback_keeps Let_def split: sum.split)
      then show ?thesis by (rule kept)
    next
      case (Some k)
      show ?thesis
      proof (cases "\<exists>vals prepared. checked_admission_counter_rollback k s = Some vals \<and>
          prepare_capital_admission_reservation_rollback (pt_rollbacks permit) s = Inr prepared")
        case True
        then obtain vals prepared where k: "checked_admission_counter_rollback k s = Some vals"
          and "prepare_capital_admission_reservation_rollback (pt_rollbacks permit) s = Inr prepared" by blast
        then have d: "drop_permit permit s = apply_admission_counter_rollback k vals (commit_capital_admission_reservation_rollback prepared s)"
          using False Some by (simp add: drop_permit_def rollback_unsubmitted_permit_def)
        note e = apply_counter_rollback [OF inv k commit_rollback_keeps [of s prepared]]
        show ?thesis unfolding d using e(1,2) e(3) Some by (auto simp: permit_count_def split: if_split_asm) (metis le_add1)+
      next
        case nope: False
        have "keeps_counts s (drop_permit permit s)"
          using False Some nope
          by (auto simp: drop_permit_def rollback_unsubmitted_permit_def latch_keeps split: option.split sum.split)
        then show ?thesis by (rule kept)
      qed
    qed
  qed
qed

section \<open>Histories\<close>

text \<open>
  The state, the permits their holders have not used yet, and the orders submitted per execution client.
  A history starts with a new state. The step \<open>feed\<close> is any method that leaves counters and limits
  alone: the kill switch, the loss governor's inputs, the capital state, recovery and fills.
\<close>

inductive submit_history :: "'d decimal_ops \<Rightarrow> 'd decimal_product_ops \<Rightarrow> 'd \<Rightarrow> (string, 'd BoltV3LiveSubmitApprovalLimits) btree_map \<Rightarrow>
    'd BoltV3SubmitAdmissionState \<Rightarrow> BoltV3SubmitAdmissionPermit list \<Rightarrow> (string \<Rightarrow> nat) \<Rightarrow> bool"
  for D :: "'d decimal_ops" and M :: "'d decimal_product_ops" and dmax :: 'd and limits :: "(string, 'd BoltV3LiveSubmitApprovalLimits) btree_map"
where
  started: "submit_history D M dmax limits (new_with_optional_controls reject_max limits loss_policy capital) [] (\<lambda>_. 0)"
| admits: "submit_history D M dmax limits s held submitted \<Longrightarrow>
    admit_at_inner D M dmax answers request now_ns s = Some (Inr permit, s') \<Longrightarrow>
    submit_history D M dmax limits s' (permit # held) submitted"
| refuses: "submit_history D M dmax limits s held submitted \<Longrightarrow>
    admit_at_inner D M dmax answers request now_ns s = Some (Inl e, s') \<Longrightarrow>
    submit_history D M dmax limits s' held submitted"
| evaluates: "submit_history D M dmax limits s held submitted \<Longrightarrow>
    evaluate_and_record_without_consuming_capacity_at D M dmax answers request now_ns s = Some (r, s') \<Longrightarrow>
    submit_history D M dmax limits s' held submitted"
| admits_basket: "submit_history D M dmax limits s held submitted \<Longrightarrow>
    reserve_basket_submit_slots_with_evidence D M dmax committed clock strategy_id client claims s = Some (Inr permit, s') \<Longrightarrow>
    submit_history D M dmax limits s' (permit # held) submitted"
| refuses_basket: "submit_history D M dmax limits s held submitted \<Longrightarrow>
    reserve_basket_submit_slots_with_evidence D M dmax committed clock strategy_id client claims s = Some (Inl e, s') \<Longrightarrow>
    submit_history D M dmax limits s' held submitted"
| submits: "submit_history D M dmax limits s (before @ permit # after) submitted \<Longrightarrow> invoke_sink permit s = Inr (permit', s') \<Longrightarrow>
    submit_history D M dmax limits (drop_permit permit' s') (before @ after) (\<lambda>client. submitted client + permit_count client permit)"
| drops: "submit_history D M dmax limits s (before @ permit # after) submitted \<Longrightarrow>
    submit_history D M dmax limits (drop_permit permit s) (before @ after) submitted"
| feed: "submit_history D M dmax limits s held submitted \<Longrightarrow> keeps_counts s s' \<Longrightarrow> submit_history D M dmax limits s' held submitted"

definition held_count :: "string \<Rightarrow> BoltV3SubmitAdmissionPermit list \<Rightarrow> nat" where
  "held_count client held = sum_list (map (permit_count client) held)"

lemma held_count_simps [simp]:
  "held_count client [] = 0" "held_count client (permit # held) = permit_count client permit + held_count client held"
  "held_count client (xs @ ys) = held_count client xs + held_count client ys"
  by (simp_all add: held_count_def)

definition counts_cover :: "(string, 'd BoltV3LiveSubmitApprovalLimits) btree_map \<Rightarrow> 'd BoltV3SubmitAdmissionState \<Rightarrow> (string \<Rightarrow> nat) \<Rightarrow> bool" where
  "counts_cover limits s used \<longleftrightarrow> live_submit_approval_limits s = limits \<and> bt_invar (admitted_order_count_by_execution_client s) \<and>
     (\<forall>client. used client \<le> unat (client_count s client) \<and>
       (\<forall>l. bt_get limits client = Some l \<longrightarrow> unat (client_count s client) \<le> unat (lim_max_order_count l)))"

lemma keeps_cover: "keeps_counts s s' \<Longrightarrow> counts_cover limits s used \<Longrightarrow> counts_cover limits s' used"
proof -
  assume k: "keeps_counts s s'" and c: "counts_cover limits s used"
  have "live_submit_approval_limits s' = live_submit_approval_limits s"
    "admitted_order_count_by_execution_client s' = admitted_order_count_by_execution_client s"
    using k by (simp_all add: keeps_counts_def)
  then show ?thesis using c unfolding counts_cover_def keeps_counts_client [OF k] by simp
qed

lemma granted_cover:
  assumes g: "granted client n permit s s'" and c: "counts_cover limits s used"
  shows "counts_cover limits s' (\<lambda>c. used c + permit_count c permit)"
proof -
  obtain s2 vals evidence_free rollbacks authority where k: "keeps_counts s s2"
    and counted: "checked_admission_counter_values (admitted_order_count s) (client_count s client) n = Inr vals"
    and s': "s' = hold_evidence_free evidence_free (set_counters client vals s2)"
    and pt: "permit = permit_of client n evidence_free rollbacks authority"
    using g unfolding granted_def by blast
  have same: "live_submit_approval_limits s2 = live_submit_approval_limits s"
    "admitted_order_count_by_execution_client s2 = admitted_order_count_by_execution_client s"
    using k by (simp_all add: keeps_counts_def)
  have count: "unat (client_count s' c) = unat (client_count s c) + permit_count c permit" for c
    using counted unat_add_u32 [of "client_count s client" n]
    by (auto simp: s' pt permit_count_def permit_of_def counter_values_Inr keeps_counts_client [OF k])
  have cap: "unat (client_count s' c) \<le> unat (lim_max_order_count l)" if "bt_get limits c = Some l" for c l
    using g c that by (cases "c = client") (auto simp: count granted_def counts_cover_def pt permit_count_def permit_of_def)
  have used: "used c + permit_count c permit \<le> unat (client_count s' c)" for c using c by (simp add: counts_cover_def count)
  have "live_submit_approval_limits s' = limits" "bt_invar (admitted_order_count_by_execution_client s')"
    using c by (simp_all add: counts_cover_def s' same btm.invar_insert)
  then show ?thesis using used cap by (simp add: counts_cover_def)
qed

lemma drop_cover:
  assumes "counts_cover limits s (\<lambda>c. used c + permit_count c permit)"
  shows "counts_cover limits (drop_permit permit s) used"
proof -
  have "bt_invar (admitted_order_count_by_execution_client s)" using assms by (simp add: counts_cover_def)
  note e = drop_effect [OF this, of permit]
  have used: "used c + permit_count c permit \<le> unat (client_count s c)"
    and cap: "bt_get limits c = Some l \<Longrightarrow> unat (client_count s c) \<le> unat (lim_max_order_count l)" for c l
    using assms by (simp_all add: counts_cover_def)
  have less: "unat (client_count (drop_permit permit s) c) \<le> unat (client_count s c)"
    and more: "unat (client_count s c) \<le> unat (client_count (drop_permit permit s) c) + permit_count c permit" for c
    using e by simp_all
  have "used c \<le> unat (client_count (drop_permit permit s) c)" for c using used [of c] more [of c] by linarith
  moreover have "unat (client_count (drop_permit permit s) c) \<le> unat (lim_max_order_count l)" if "bt_get limits c = Some l" for c l
    by (rule order_trans [OF less cap [OF that]])
  ultimately show ?thesis using e assms by (simp add: counts_cover_def)
qed

lemma drop_used: "invoke_sink permit s = Inr (permit', s') \<Longrightarrow> drop_permit permit' s'' = s''"
  by (auto simp: invoke_sink_def and_then_Inr drop_permit_def)

lemma history_covers:
  "submit_history D M dmax limits s held submitted \<Longrightarrow> counts_cover limits s (\<lambda>c. submitted c + held_count c held)"
proof (induction rule: submit_history.induct)
  case (started reject_max loss_policy capital)
  show ?case by (simp add: counts_cover_def new_with_optional_controls_def client_count_def bt_get_def bt_invar_def)
next
  case (admits s held submitted answers request now_ns permit s')
  from granted_cover [OF admit_granted [OF admits(2)] admits(3)] show ?case by (simp add: add_ac)
next
  case (refuses s held submitted answers request now_ns e s')
  from keeps_cover [OF admit_refused_keeps [OF refuses(2)] refuses(3)] show ?case .
next
  case (evaluates s held submitted answers request now_ns r s')
  have "keeps_counts s s'" using dry_evaluation_keeps [of D M dmax answers request now_ns s] evaluates(2) by (simp add: wp_def)
  from keeps_cover [OF this evaluates(3)] show ?case .
next
  case (admits_basket s held submitted committed clock strategy_id client claims permit s')
  have "granted client (of_nat (length claims)) permit s s'"
    using basket_wp [of D M dmax committed clock strategy_id client claims s] admits_basket(2) by (simp add: wp_def)
  from granted_cover [OF this admits_basket(3)] show ?case by (simp add: add_ac)
next
  case (refuses_basket s held submitted committed clock strategy_id client claims e s')
  have "keeps_counts s s'"
    using basket_wp [of D M dmax committed clock strategy_id client claims s] refuses_basket(2) by (simp add: wp_def)
  from keeps_cover [OF this refuses_basket(3)] show ?case .
next
  case (submits s before permit after submitted permit' s')
  from keeps_cover [OF invoke_keeps [OF submits(2)] submits(3)] show ?case by (simp add: drop_used [OF submits(2)] add_ac)
next
  case (drops s before permit after submitted)
  show ?case using drops(2) by (intro drop_cover) (simp add: add_ac)
next
  case (feed s held submitted s')
  from keeps_cover [OF feed(2,3)] show ?case .
qed

text \<open>
  C34. In every history of admissions, baskets, dry evaluations, submits and dropped permits, with any
  feed of the rest of the state in between, an execution client that has a live limit never submits more
  orders than the limit allows, and the permits still held fit under it as well.
\<close>

theorem live_submit_cap_holds:
  assumes "submit_history D M dmax limits s held submitted" and "bt_get limits client = Some l"
  shows "submitted client + held_count client held \<le> unat (lim_max_order_count l)"
  using history_covers [OF assms(1)] assms(2) unfolding counts_cover_def by (meson order_trans)

text \<open>The one permit of a client whose limit is one, granted and used.\<close>

definition demo_permit :: BoltV3SubmitAdmissionPermit where
  "demo_permit = permit_of ''C'' 1 [] [] SubmitCommittedEntry"

definition demo_counted :: "int BoltV3SubmitAdmissionState" where
  "demo_counted = set_counters ''C'' \<lparr>cv_admitted_order_count = 1, cv_execution_client_order_count = 1\<rparr>
     (demo_fresh\<lparr>committed_admission_authority := recovery_facts_default\<lparr>admitted_unreserved_entry_client_order_ids := {''b''}\<rparr>,
       reject_episodes := [], recorder_calls := [RecordAdmittedEntry ''b'' None]\<rparr>)"

lemma demo_fresh_admits:
  "admit_at_inner small_ops small_product 100 demo_answers demo_order 30 demo_fresh = Some (Inr demo_permit, demo_counted)"
proof -
  have same: "demo_fresh\<lparr>capital_admission := None\<rparr> = demo_fresh" by (simp add: demo_fresh_def new_with_optional_controls_def)
  have calls: "recorder_calls demo_fresh = []" by (simp add: demo_fresh_def new_with_optional_controls_def)
  have "evaluation_validate (without_loss_halt OutcomeAdmitted 30) = Inr ()" by (simp add: evaluation_validate_def without_loss_halt_def)
  then show ?thesis
    using demo_within_limits [of None, unfolded same]
    by (simp add: Let_def admit_at_inner_def submit_evaluate_def evaluate_loss_def evaluate_order_def demo_order_fields demo_fresh_fields act_defs bt_get_def
        with_loss_snapshot_diagnostics_def ensure_def admit_evaluated_def client_count_def checked_admission_counter_values_def checked_add_u32_def
        ok_or_def record_admission_decision_def record_outcome_def next_authority_def record_call_def set_authority_def
        insert_non_reservation_authorization_def recovery_facts_default_def admit_recorded_def grant_permit_def hold_evidence_free_def calls
        demo_permit_def permit_of_def demo_counted_def set_counters_def authorizes_order_def authorizes_non_reservation_order_def)
qed

lemma demo_submits: "invoke_sink demo_permit demo_counted =
    Inr (demo_permit\<lparr>pt_evidence_authority := None, pt_committed := True\<rparr>, demo_counted)"
  by (simp add: invoke_sink_def demo_permit_def permit_of_def prepare_submit_sink_invocation_def commit_submit_sink_invocation_def ok_or_def)

theorem live_submit_cap_holds_witness:
  "\<exists>submitted. submit_history small_ops small_product 100 demo_limits demo_counted [] submitted \<and> submitted ''C'' = 1 \<and>
    submitted ''C'' + held_count ''C'' [] \<le> unat (1 :: u32)"
proof -
  have "submit_history small_ops small_product 100 demo_limits demo_fresh [] (\<lambda>_. 0)" unfolding demo_fresh_def by (rule submit_history.started)
  from submit_history.admits [OF this demo_fresh_admits]
  have "submit_history small_ops small_product 100 demo_limits demo_counted ([] @ demo_permit # []) (\<lambda>_. 0)" by simp
  from submit_history.submits [OF this demo_submits]
  have h: "submit_history small_ops small_product 100 demo_limits demo_counted [] (\<lambda>c. 0 + permit_count c demo_permit)"
    by (simp add: drop_permit_def)
  have l: "bt_get demo_limits ''C'' = Some \<lparr>lim_max_order_count = 1, lim_max_order_notional = 50\<rparr>" by (simp add: demo_limits_def bt_get_def)
  show ?thesis
    using h live_submit_cap_holds [OF h l] by (intro exI [of _ "\<lambda>c. 0 + permit_count c demo_permit"])
      (simp add: permit_count_def demo_permit_def permit_of_def)
qed

end
