(* ===== verification/Spec2Isabelle.thy ===== *)
theory Spec2Isabelle
  imports MakerRateBudget MarketScope KillSwitchConfig LossAccounting LossRetry SubmitCap
begin

text \<open>
  Verification of the maker's requote governance, of the kill switch with its loss protection and of
  the capital and submit admission of bolt-v2.

  \<^bold>\<open>The program.\<close> A maker quotes both legs (YES and NO) of binary markets. Each leg is a governed
  transaction (\<open>src/src/bolt_v3_quote_lifecycle.rs\<close>): a proposal is armed with a budget reservation,
  crosses the sink at which the command leaves the process, and is settled by the route's outcome,
  by an abort, by an unwind, or by the terminal report of the order. The reservations come from a
  pair of sliding-window budgets shared by all markets (\<open>src/src/bolt_v3_requote_budget.rs\<close>), one
  counting submit commands and one counting REST calls, built from configured rate strings
  (\<open>src/src/bolt_v3_maker_rate_budget.rs\<close>, \<open>src/src/bolt_v3_validate/rate_limit.rs\<close>). The quote
  control (\<open>src/src/bolt_v3_maker_quote_control.rs\<close>) compares desired and resting prices, asks the
  leg for a transition and the budget for a proposal, and returns a command.

  Independently of the quoting, a loss governor (\<open>src/src/bolt_v3_loss_governor.rs\<close>) admits or rejects
  orders on a snapshot of profit and loss, and a kill switch (\<open>src/src/bolt_v3_kill_switch.rs\<close>) latches
  a halt until an authorised reset. Around the kill switch, the cancel and the flatten supervisor
  (\<open>src/src/bolt_v3_kill_switch_cancel.rs\<close>, \<open>src/src/bolt_v3_kill_switch_flatten.rs\<close>) plan commands over a
  snapshot and aggregate the outcomes, the action router
  (\<open>src/src/bolt_v3_kill_switch_action_router.rs\<close>) decides on requested actions, and
  \<open>src/src/bolt_v3_validate/kill_switch.rs\<close> checks the configuration of all of them. Order templates
  (\<open>src/src/bolt_v3_order_intent.rs\<close>) are checked when configured and validated when an order is built.
  The kill switch state is kept in a file together with the loss accounts
  (\<open>src/src/bolt_v3_kill_switch_store.rs\<close>, over \<open>src/src/bolt_v3_atomic_io.rs\<close>), and the realized-loss
  protection (\<open>src/src/bolt_v3_loss_protection.rs\<close>) counts the realized profit and loss of position
  events, halts at the daily limit, dispatches the halt actions and recovers from the file.

  Before an order is submitted its worst-case liability is reserved: capital admission
  (\<open>src/src/bolt_v3_capital_admission.rs\<close>) validates the observed state
  (\<open>src/src/bolt_v3_capital_admission_state.rs\<close>), asks the loss governor, computes the liability and
  reserves it in the ledger of its gate (\<open>src/src/bolt_v3_capital_reservation.rs\<close>), which is rebuilt from
  open orders when it is no longer reconciled.

  Submit admission (\<open>src/src/bolt_v3_submit_admission.rs\<close>) decides on every order and every basket of
  orders: it asks the kill switch, the loss governor, the live limits of the execution client and the
  capital gate, records the decision, remembers authorised order ids
  (\<open>src/src/bolt_v3_current_evidence/facts.rs\<close>) and hands out a permit. The permit is used at the submit
  boundary, or dropped, which rolls everything back. Repeated rejections are sampled in maps that
  \<open>src/src/bolt_v3_evidence_sampling.rs\<close> keeps bounded.

  \<^bold>\<open>The theories.\<close>
  \<^item> \<open>Prelude\<close>, \<open>OrderedMap\<close>, \<open>RustStr\<close>: checked 64-bit arithmetic, the ordered map with its contract
    \<open>ordered_map\<close>, and the string functions of the Rust standard library that the code calls.
  \<^item> \<open>RequoteBudget\<close>: one throttle; \<open>try_acquire\<close>, \<open>evict\<close>, \<open>record_reserved\<close>; the contract
    \<open>window_throttle\<close> and the refinement of the sliding-window specification.
  \<^item> \<open>RequoteBudgetPair\<close>, \<open>RequoteLedger\<close>: the pair, its outstanding liabilities and reservation
    tokens; runs of the ledger, throughput, atomicity, absence of panics.
  \<^item> \<open>MakerRateBudget\<close>: rate strings and the construction of the pair.
  \<^item> \<open>QuoteState\<close>, \<open>QuoteReducer\<close>, \<open>QuoteTransaction\<close>, \<open>MarketQuote\<close>: the data, the reducers (one
    definition per \<open>reduce_\<close> function), the locked operations of one transaction, and the market.
  \<^item> \<open>TokenFlow\<close>, \<open>QuoteFlow\<close>, \<open>MarketRun\<close>: the contract \<open>token_ledger\<close> of owned reservation tokens,
    its flow through every reducer, and runs of a maker over all markets and budgets.
  \<^item> \<open>QuoteSafety\<close>, \<open>QuoteProtocol\<close>, \<open>MarketScope\<close>: safety of wind-down and of the reconciliation
    hold, fencing and finality of settlements, the attempt protocol from the quote control to the
    route's outcome, cancel scopes and the aggregate market state.
  \<^item> \<open>QuoteControl\<close>: \<open>drive_quote_leg\<close> with its price guards.

  \<^item> \<open>RustTrim\<close>, \<open>RustResult\<close>, \<open>RustDecimal\<close>, \<open>NtTypes\<close>, \<open>OutcomeFiling\<close>: trimming and digests of strings,
    results, the decimal interface with its hypotheses \<open>decimal_exact\<close> and \<open>decimal_prints\<close>, the
    enumerations of the trading library, and the contract \<open>graded_outcomes\<close> of outcomes filed by
    identity, which both supervisors implement.
  \<^item> \<open>LossGovernor\<close>: the admission decision; it accepts exactly what its limits allow.
  \<^item> \<open>KillSwitch\<close>: transitions, reset evidence and halt ids; a halt is latched, halt ids identify
    their trigger, reachable states.
  \<^item> \<open>KillSwitchCancel\<close>, \<open>KillSwitchFlatten\<close>, \<open>KillSwitchRouter\<close>: plans cover exactly the orders or
    positions at risk, aggregates are the worst outcome, decisions are authorised, and no state the
    transition function reaches starts an action.
  \<^item> \<open>OrderIntent\<close>, \<open>KillSwitchConfig\<close>: the configuration checks agree with what is validated at run
    time.

  \<^item> \<open>AtomicIo\<close>, \<open>KillSwitchStore\<close>, \<open>KillSwitchRecovery\<close>: files as explicit state with the failing call of a
    write as an argument, the state file and the audit file; a write is all or nothing and reads back,
    recovery is fail closed, and no append loses a record.
  \<^item> \<open>RustAction\<close>, \<open>LossProtection\<close>: methods of a mutable object with errors and panics and their
    weakest preconditions, and every method of the protection, one definition each, over a record of
    its fields and of the objects it shares: the admission's state, the store with the outcomes of its
    next writes, and the sink with its next answers.
  \<^item> \<open>LossProtectionSafety\<close>, \<open>LossBooks\<close>, \<open>LossAccounting\<close>, \<open>LossRetry\<close>: over every run of calls and every
    failure, halts are latched and mirrored and an armed protection is within its limit; the contract
    \<open>loss_view\<close> of what halting leaves alone, and well-formed books; no observation is counted twice
    and a restart restores the books; retries are bounded.

  \<^item> \<open>CapitalReservation\<close>, \<open>CapitalSafety\<close>: the ledger of reservations; over every run of its operations
    a pool is never overdrawn, and a request is accepted exactly when it is valid and fits. The range of
    decimals is the hypothesis \<open>decimal_bounded\<close>: there is a largest amount, and only results beyond it
    overflow.
  \<^item> \<open>CapitalAdmissionState\<close>, \<open>CapitalAdmission\<close>, \<open>CapitalAdmissionSafety\<close>: the validation of the observed
    state, the liability, the decision and the gate; what an accepted admission has been checked for
    after any history of the gate, and that a rebuild is all or nothing.
  \<^item> \<open>SubmitFacts\<close>, \<open>SubmitState\<close>, \<open>SubmitAdmission\<close>, \<open>SubmitPermits\<close>: the facts of authorised orders, the
    state of submit admission as one record with the capital part of an order, the evaluation with
    permits, roll-back and the submit boundary, and recording, granting and baskets.
  \<^item> \<open>SubmitSafety\<close>, \<open>SubmitExample\<close>, \<open>SubmitRuns\<close>, \<open>SubmitCap\<close>: the bound of the episode maps, what evaluation
    and recording keep, an evaluated example, what a permit needs and what dropping it gives back, and
    histories of calls, in which the live cap of a client holds.

  \<^bold>\<open>Conventions.\<close> \<open>u64\<close> is a 64-bit word; \<open>Result\<close> is a sum with \<open>Inl\<close> the error; a panic is
  \<open>None\<close>. Shared \<open>Arc<Mutex<..>>\<close> objects live in stores indexed by references; each locked section
  is one function, so interleavings of threads are sequences of these functions. Rust's implicit
  drop of a reservation is the explicit \<open>drop_reservation\<close>. Error messages are constructors of
  \<open>QuoteError\<close>, \<open>RateLimitError\<close> and \<open>RateBudgetError\<close>. Rounding of floating-point subtraction is
  the parameter \<open>rnd\<close>. The SHA-256 digest, decimals, prices, quantities, the order factory and the
  constructors of identifiers, JSON and currencies belong to other crates and are parameters;
  enumerations of the trading library have the variants the sources name and one constructor for all
  others. No definition uses
  fuel: every loop of the modelled code is structural, removes a prefix, or removes one entry of a map
  in each turn. What the economics seal, the evidence recorder and the system clock answer in submit
  admission is an argument of each call.

  \<^bold>\<open>Findings.\<close> \<open>KillSwitch.evidence_digest_is_wider\<close>: reset evidence accepts upper-case digests, which the
  shared digest guard rejects. \<open>KillSwitchFlatten.unknown_side_reported_flat\<close>: a position of unknown side
  is residual risk for the snapshot but gets no flatten command, and the aggregate reports all flat.
  \<open>LossProtectionSafety.timed_out_halt_resumes\<close>: when the retries of the halt actions have timed out and
  the failed state cannot be written, an observation with an earlier timestamp resumes them and
  replaces the failed state by the halted one. The documentation of \<open>declared_schema_version\<close> starts
  with that of \<open>names_unrepresentable_halt_trigger\<close>.

  \<^bold>\<open>Not modelled.\<close> Lock poisoning (the profile aborts on panic), tracing output, paths, modes and
  temporary names of files. Of submit admission: the projection and rebuild from open orders, retiring
  terminal reservations, fill evidence, the economics seal, and the building of requests from orders of
  the trading library; the histories of \<open>SubmitCap\<close> allow for them by a step that changes anything but
  counters and limits. Of the recorded details only what recovery reads is kept. The parts of the
  repository beyond the requote governance, the kill switch, the loss protection and the capital and
  submit admission are listed with reasons in the manifest.
\<close>

end
